(* ===== verification/Prelude.thy ===== *)
theory Prelude
  imports Main "HOL-Library.Word" "HOL-Library.Signed_Division"
begin

text \<open>
  Names, hints and small lemmas shared by the models of the components of the
  ARINC-653 runtime (src/ACM-src).  The enumerations and limits are those of
  include/ACM/USER/APEX\_TYPES.h.  The vectors of the runtime are lists, searched by name
  with the function \<open>find_index\<close> and updated in place.
\<close>

named_theorems acm_inv \<open>operations that keep the invariant of their component\<close>
named_theorems acm_defs \<open>small accessors unfolded by the component proofs\<close>

section \<open>Return codes, modes and limits\<close>

datatype RETURN_CODE_TYPE =
  NO_ERROR | NO_ACTION | NOT_AVAILABLE | INVALID_PARAM | INVALID_CONFIG | INVALID_MODE | TIMED_OUT

fun RETURN_CODE_TO_STRING :: "RETURN_CODE_TYPE \<Rightarrow> string" where
  "RETURN_CODE_TO_STRING NO_ERROR = ''NO_ERROR''"
| "RETURN_CODE_TO_STRING NO_ACTION = ''NO_ACTION''"
| "RETURN_CODE_TO_STRING NOT_AVAILABLE = ''NOT_AVAILABLE''"
| "RETURN_CODE_TO_STRING INVALID_PARAM = ''INVALID_PARAM''"
| "RETURN_CODE_TO_STRING INVALID_CONFIG = ''INVALID_CONFIG''"
| "RETURN_CODE_TO_STRING INVALID_MODE = ''INVALID_MODE''"
| "RETURN_CODE_TO_STRING TIMED_OUT = ''TIMED_OUT''"

datatype OPERATING_MODE_TYPE = IDLE | COLD_START | WARM_START | NORMAL

datatype PORT_DIRECTION_TYPE = SOURCE | DESTINATION

datatype QUEUING_DISCIPLINE_TYPE = FIFO | PRIORITY

type_synonym NAME_TYPE = string
type_synonym SYSTEM_TIME_TYPE = int

definition NANO :: int where "NANO = 1000000000"
definition MICRO :: int where "MICRO = 1000000"
definition MAX_TIME_OUT :: SYSTEM_TIME_TYPE where "MAX_TIME_OUT = 315569260 * NANO"
definition INFINITE_TIME_VALUE :: SYSTEM_TIME_TYPE where "INFINITE_TIME_VALUE = -1"

definition MAX_SEMAPHORE_VALUE :: int where "MAX_SEMAPHORE_VALUE = 32767"
definition SYSTEM_LIMIT_NUMBER_OF_MESSAGES :: nat where "SYSTEM_LIMIT_NUMBER_OF_MESSAGES = 512"
definition SYSTEM_LIMIT_NUMBER_OF_PROCESSES :: nat where "SYSTEM_LIMIT_NUMBER_OF_PROCESSES = 128"
definition SYSTEM_LIMIT_NUMBER_OF_SAMPLING_PORTS :: nat where
  "SYSTEM_LIMIT_NUMBER_OF_SAMPLING_PORTS = 512"
definition SYSTEM_LIMIT_NUMBER_OF_QUEUING_PORTS :: nat where
  "SYSTEM_LIMIT_NUMBER_OF_QUEUING_PORTS = 512"
definition SYSTEM_LIMIT_NUMBER_OF_BUFFERS :: nat where "SYSTEM_LIMIT_NUMBER_OF_BUFFERS = 256"
definition SYSTEM_LIMIT_NUMBER_OF_BLACKBOARDS :: nat where "SYSTEM_LIMIT_NUMBER_OF_BLACKBOARDS = 256"
definition SYSTEM_LIMIT_NUMBER_OF_SEMAPHORES :: nat where "SYSTEM_LIMIT_NUMBER_OF_SEMAPHORES = 256"
definition SYSTEM_LIMIT_NUMBER_OF_EVENTS :: nat where "SYSTEM_LIMIT_NUMBER_OF_EVENTS = 256"

lemma NANO_pos [simp]: "0 < NANO" "NANO \<noteq> 0"
  by (simp_all add: NANO_def)

lemma MAX_TIME_OUT_pos: "0 < MAX_TIME_OUT"
  by (simp add: MAX_TIME_OUT_def NANO_def)

section \<open>How a call ends\<close>

text \<open>A call of the C++ code returns a value, or is still blocked, or ends the program in an
  assertion (\<open>assert\<close>, \<open>ACM_ASSERT\<close>), or its behaviour is undefined (an access outside an
  allocated block).\<close>

datatype 'a outcome = Returned 'a | Blocked | Aborted | Undef

fun bind_outcome :: "'a outcome \<Rightarrow> ('a \<Rightarrow> 'b outcome) \<Rightarrow> 'b outcome" where
  "bind_outcome (Returned x) f = f x"
| "bind_outcome Blocked f = Blocked"
| "bind_outcome Aborted f = Aborted"
| "bind_outcome Undef f = Undef"

fun assert_some :: "'a option \<Rightarrow> 'a outcome" where
  "assert_some (Some x) = Returned x"
| "assert_some None = Aborted"

lemma bind_outcome_Returned:
  "bind_outcome m f = Returned y \<longleftrightarrow> (\<exists>x. m = Returned x \<and> f x = Returned y)"
  by (cases m) auto

lemma bind_outcome_Aborted:
  "bind_outcome m f = Aborted \<longleftrightarrow> m = Aborted \<or> (\<exists>x. m = Returned x \<and> f x = Aborted)"
  by (cases m) auto

lemma bind_outcome_Undef:
  "bind_outcome m f = Undef \<longleftrightarrow> m = Undef \<or> (\<exists>x. m = Returned x \<and> f x = Undef)"
  by (cases m) auto

lemma assert_some_simps [simp]:
  "assert_some x = Returned y \<longleftrightarrow> x = Some y"
  "assert_some x = Aborted \<longleftrightarrow> x = None"
  "assert_some x \<noteq> Blocked"
  "assert_some x \<noteq> Undef"
  by (cases x; auto)+

section \<open>Memory blocks\<close>

type_synonym byte = "8 word"

text \<open>\<open>memcpy(dst, src, n)\<close> and \<open>memset(dst, c, n)\<close> from the start of a block: undefined
  outside it, a negative \<open>n\<close> being a huge \<open>size_t\<close>.\<close>

definition c_memcpy :: "byte list \<Rightarrow> byte list \<Rightarrow> int \<Rightarrow> byte list outcome" where
  "c_memcpy dst src n =
     (if 0 \<le> n \<and> n \<le> int (length src) \<and> n \<le> int (length dst)
      then Returned (take (nat n) src @ drop (nat n) dst) else Undef)"

definition c_memset :: "byte list \<Rightarrow> byte \<Rightarrow> int \<Rightarrow> byte list outcome" where
  "c_memset dst c n =
     (if 0 \<le> n \<and> n \<le> int (length dst)
      then Returned (replicate (nat n) c @ drop (nat n) dst) else Undef)"

text \<open>The first \<open>n\<close> bytes of a block, copied out of it.\<close>

definition c_read :: "byte list \<Rightarrow> int \<Rightarrow> byte list outcome" where
  "c_read src n = (if 0 \<le> n \<and> n \<le> int (length src) then Returned (take (nat n) src) else Undef)"

text \<open>The character constant \<open>'0'\<close> the code wipes memory with.\<close>

definition char_0 :: byte where "char_0 = 48"

section \<open>Vectors searched by name\<close>

text \<open>The services find an object by a loop over a vector that compares names and
  stops at the first match.\<close>

fun find_index :: "('a \<Rightarrow> bool) \<Rightarrow> 'a list \<Rightarrow> nat option" where
  "find_index P [] = None"
| "find_index P (x # xs) = (if P x then Some 0 else map_option Suc (find_index P xs))"

lemma find_index_Some:
  "find_index P xs = Some i \<Longrightarrow> i < length xs \<and> P (xs ! i) \<and> (\<forall>j<i. \<not> P (xs ! j))"
  by (induction P xs arbitrary: i rule: find_index.induct)
    (force simp: less_Suc_eq_0_disj split: if_splits)+

lemma find_index_None: "find_index P xs = None \<longleftrightarrow> (\<forall>x\<in>set xs. \<not> P x)"
  by (induction P xs rule: find_index.induct) auto

lemma find_index_append:
  "find_index P (xs @ ys) =
     (case find_index P xs of Some i \<Rightarrow> Some i | None \<Rightarrow> map_option ((+) (length xs)) (find_index P ys))"
proof (induction xs)
  case Nil
  show ?case by (cases "find_index P ys") simp_all
next
  case (Cons x xs)
  show ?case
    by (cases "find_index P xs"; cases "find_index P ys") (simp_all add: Cons)
qed

lemma find_index_snoc_new:
  assumes "\<forall>x\<in>set xs. \<not> P x" "P y"
  shows "find_index P (xs @ [y]) = Some (length xs)"
proof -
  have "find_index P xs = None" using assms by (simp add: find_index_None)
  then show ?thesis using assms(2) by (simp add: find_index_append)
qed

lemma distinct_map_snoc: "distinct (map f xs) \<Longrightarrow> f y \<notin> f ` set xs \<Longrightarrow> distinct (map f (xs @ [y]))"
  by auto

lemma list_update_all:
  "\<forall>x\<in>set xs. P x \<Longrightarrow> P y \<Longrightarrow> \<forall>x\<in>set (xs[i := y]). P x"
  using set_update_subset_insert by fastforce

lemma map_update_same: "i < length xs \<Longrightarrow> f y = f (xs ! i) \<Longrightarrow> map f (xs[i := y]) = map f xs"
  by (metis list_update_id map_update nth_map)

section \<open>Sums over the threads of a system\<close>

lemma sum_list_update_int:
  fixes f :: "'a \<Rightarrow> int"
  shows "i < length xs \<Longrightarrow> sum_list (map f (xs[i := x])) = sum_list (map f xs) - f (xs ! i) + f x"
proof (induction xs arbitrary: i)
  case (Cons a xs)
  then show ?case by (cases i) auto
qed simp

lemma sum_ge_nth:
  fixes f :: "'a \<Rightarrow> int"
  shows "i < length xs \<Longrightarrow> \<forall>y\<in>set xs. 0 \<le> f y \<Longrightarrow> f (xs ! i) \<le> sum_list (map f xs)"
  using member_le_sum_list [of "f (xs ! i)" "map f xs"] by auto

lemma sum_ge_two:
  fixes f :: "'a \<Rightarrow> int"
  assumes "i < length xs" "j < length xs" "i \<noteq> j" "\<forall>y\<in>set xs. 0 \<le> f y"
  shows "f (xs ! i) + f (xs ! j) \<le> sum_list (map f xs)"
proof -
  have "sum_list (map f xs) = sum (\<lambda>k. f (xs ! k)) {..<length xs}"
    by (simp add: sum_list_sum_nth atLeast0LessThan)
  moreover have "sum (\<lambda>k. f (xs ! k)) {i, j} \<le> sum (\<lambda>k. f (xs ! k)) {..<length xs}"
    by (rule sum_mono2) (use assms in auto)
  ultimately show ?thesis using assms(3) by simp
qed

end
