(* ===== verification/AcmTime.thy ===== *)
theory AcmTime
  imports Prelude
begin

text \<open>
  The time arithmetic of include/ACM/USER/ACM\_UTILITIES.h.  A
  \<open>SYSTEM_TIMESPEC\<close> is a POSIX timespec; its fields and \<open>SYSTEM_TIME_TYPE\<close>
  are signed 64-bit in the source and \<^typ>\<open>int\<close> here, and
  \<open>addTimeNano_fits\<close> shows that the arithmetic stays inside 64 bits for
  clock values.  \<open>ACM_ASSERT\<close> ends the program, so a function that asserts returns
  \<^const>\<open>None\<close> when the assertion fails.  C's \<open>/\<close> and \<open>%\<close> truncate
  towards zero: \<^const>\<open>signed_divide\<close> and \<^const>\<open>signed_modulo\<close> of the library.
\<close>

record SYSTEM_TIMESPEC =
  tv_sec :: int
  tv_nsec :: int

definition convertTimeSpecToNano :: "SYSTEM_TIMESPEC \<Rightarrow> SYSTEM_TIME_TYPE" where
  "convertTimeSpecToNano tv = tv_sec tv * NANO + tv_nsec tv"

text \<open>The loop of \<open>addTime\<close>: \<open>while (nsecs >= NANO) { secs++; nsecs -= NANO; }\<close>.\<close>

function addTime_loop :: "int \<Rightarrow> int \<Rightarrow> SYSTEM_TIMESPEC" where
  "addTime_loop secs nsecs =
     (if nsecs \<ge> NANO then addTime_loop (secs + 1) (nsecs - NANO)
      else \<lparr>tv_sec = secs, tv_nsec = nsecs\<rparr>)"
  by auto
termination
  by (relation "measure (\<lambda>(s, n). nat n)") (auto simp: NANO_def)

definition addTime :: "SYSTEM_TIMESPEC \<Rightarrow> SYSTEM_TIMESPEC \<Rightarrow> SYSTEM_TIMESPEC" where
  "addTime first second =
     addTime_loop (tv_sec first + tv_sec second) (tv_nsec first + tv_nsec second)"

text \<open>The last lines of both branches of \<open>addTimeNano\<close>.\<close>

definition carry_nsecs :: "SYSTEM_TIMESPEC \<Rightarrow> int \<Rightarrow> SYSTEM_TIMESPEC" where
  "carry_nsecs first nsecs =
     \<lparr>tv_sec = nsecs sdiv NANO + tv_sec first, tv_nsec = nsecs smod NANO\<rparr>"

definition addTimeNano :: "SYSTEM_TIMESPEC \<Rightarrow> SYSTEM_TIME_TYPE \<Rightarrow> SYSTEM_TIMESPEC option" where
  "addTimeNano first nanoseconds =
     (if \<not> nanoseconds \<le> MAX_TIME_OUT then None
      else if nanoseconds = INFINITE_TIME_VALUE
        then Some (carry_nsecs first (tv_nsec first + MAX_TIME_OUT))
      else Some (carry_nsecs first (tv_nsec first + nanoseconds)))"

definition computeDeadlineTimeSpecs ::
  "SYSTEM_TIMESPEC \<Rightarrow> SYSTEM_TIME_TYPE \<Rightarrow> SYSTEM_TIMESPEC option" where
  "computeDeadlineTimeSpecs first nanoseconds =
     (if \<not> nanoseconds \<le> MAX_TIME_OUT then None
      else if nanoseconds = INFINITE_TIME_VALUE then addTimeNano first MAX_TIME_OUT
      else addTimeNano first nanoseconds)"

definition addTimeMilli :: "SYSTEM_TIMESPEC \<Rightarrow> int \<Rightarrow> SYSTEM_TIMESPEC option" where
  "addTimeMilli first milliseconds = addTimeNano first (milliseconds * MICRO)"

text \<open>The loop of \<open>subtractTime\<close> and \<open>subtractTimeNano\<close>:
  \<open>while (nsecs < 0) { secs--; nsecs += NANO; }\<close>.\<close>

function borrow_loop :: "int \<Rightarrow> int \<Rightarrow> SYSTEM_TIMESPEC" where
  "borrow_loop secs nsecs =
     (if nsecs < 0 then borrow_loop (secs - 1) (nsecs + NANO)
      else \<lparr>tv_sec = secs, tv_nsec = nsecs\<rparr>)"
  by auto
termination
  by (relation "measure (\<lambda>(s, n). nat (- n))") (auto simp: NANO_def)

definition subtractTime :: "SYSTEM_TIMESPEC \<Rightarrow> SYSTEM_TIMESPEC \<Rightarrow> SYSTEM_TIMESPEC" where
  "subtractTime first second =
     borrow_loop (tv_sec first - tv_sec second) (tv_nsec first - tv_nsec second)"

definition subtractTime2 :: "SYSTEM_TIMESPEC \<Rightarrow> SYSTEM_TIMESPEC \<Rightarrow> int" where
  "subtractTime2 first second =
     (let tv = subtractTime first second in tv_nsec tv + tv_sec tv * NANO)"

definition subtractTimeNano :: "SYSTEM_TIMESPEC \<Rightarrow> int \<Rightarrow> SYSTEM_TIMESPEC option" where
  "subtractTimeNano first nanoseconds =
     (if \<not> nanoseconds \<le> MAX_TIME_OUT then None
      else Some (borrow_loop (tv_sec first) (tv_nsec first - nanoseconds)))"

definition subtractTimeMilli :: "SYSTEM_TIMESPEC \<Rightarrow> int \<Rightarrow> SYSTEM_TIMESPEC option" where
  "subtractTimeMilli first milliseconds = subtractTimeNano first (milliseconds * MICRO)"

definition compareTime :: "SYSTEM_TIMESPEC \<Rightarrow> SYSTEM_TIMESPEC \<Rightarrow> bool" where
  "compareTime first second =
     (if tv_sec first < tv_sec second then True
      else if tv_sec first > tv_sec second then False
      else if tv_nsec first \<le> tv_nsec second then True
      else False)"

definition compareTimeLess :: "SYSTEM_TIMESPEC \<Rightarrow> SYSTEM_TIMESPEC \<Rightarrow> bool" where
  "compareTimeLess first second =
     (if tv_sec first < tv_sec second then True
      else if tv_sec first > tv_sec second then False
      else if tv_nsec first < tv_nsec second then True
      else False)"

section \<open>Normalised timespecs\<close>

text \<open>What POSIX calls a valid timespec: the nanoseconds are a fraction of a second.  A
  timed wait on another one fails with EINVAL.\<close>

definition normalised :: "SYSTEM_TIMESPEC \<Rightarrow> bool" where
  "normalised tv \<longleftrightarrow> 0 \<le> tv_nsec tv \<and> tv_nsec tv < NANO"

declare addTime_loop.simps [simp del] borrow_loop.simps [simp del]

lemma addTime_loop_value:
  "convertTimeSpecToNano (addTime_loop s n) = s * NANO + n"
  by (induction s n rule: addTime_loop.induct)
    (subst addTime_loop.simps, simp add: convertTimeSpecToNano_def algebra_simps)

lemma addTime_loop_normalised: "0 \<le> n \<Longrightarrow> normalised (addTime_loop s n)"
  by (induction s n rule: addTime_loop.induct)
    (subst addTime_loop.simps, auto simp: normalised_def)

lemma borrow_loop_value:
  "convertTimeSpecToNano (borrow_loop s n) = s * NANO + n"
  by (induction s n rule: borrow_loop.induct)
    (subst borrow_loop.simps, simp add: convertTimeSpecToNano_def algebra_simps)

lemma borrow_loop_normalised: "n < NANO \<Longrightarrow> normalised (borrow_loop s n)"
  by (induction s n rule: borrow_loop.induct)
    (subst borrow_loop.simps, auto simp: normalised_def)

lemma NANO_ge_1: "1 \<le> NANO"
  by (simp add: NANO_def)

lemma abs_NANO [simp]: "\<bar>NANO\<bar> = NANO" "0 \<le> NANO"
  by (simp_all add: NANO_def)

lemma smod_nonneg: "0 \<le> n \<Longrightarrow> n smod NANO = n mod NANO"
  by (cases "n = 0") (simp_all add: signed_modulo_int_def)

lemma sdiv_nonneg: "0 \<le> n \<Longrightarrow> n sdiv NANO = n div NANO"
  by (cases "n = 0") (simp_all add: signed_divide_int_def)

lemma sdiv_neg: "n < 0 \<Longrightarrow> n sdiv NANO = - (- n div NANO)"
  by (simp add: signed_divide_int_def)

lemma smod_neg: "n < 0 \<Longrightarrow> n smod NANO = - (- n mod NANO)"
  by (simp add: signed_modulo_int_def)

lemma sdiv_smod_NANO: "n sdiv NANO * NANO + n smod NANO = n"
proof (cases "0 \<le> n")
  case True
  then show ?thesis by (simp add: sdiv_nonneg smod_nonneg)
next
  case False
  then have n: "n < 0" by simp
  show ?thesis
    unfolding sdiv_neg [OF n] smod_neg [OF n] minus_mult_left [symmetric]
    using div_mult_mod_eq [of "- n" NANO] by linarith
qed

lemma carry_nsecs_value: "convertTimeSpecToNano (carry_nsecs tv n) = tv_sec tv * NANO + n"
  using sdiv_smod_NANO [of n] by (simp add: convertTimeSpecToNano_def carry_nsecs_def algebra_simps)

lemma carry_nsecs_normalised: "0 \<le> n \<Longrightarrow> normalised (carry_nsecs tv n)"
  by (simp add: normalised_def carry_nsecs_def smod_nonneg)

lemma normalised_eqI:
  assumes "normalised a" "normalised b" "convertTimeSpecToNano a = convertTimeSpecToNano b"
  shows "a = b"
proof -
  have div: "convertTimeSpecToNano tv div NANO = tv_sec tv" if "normalised tv" for tv
    using that by (simp add: convertTimeSpecToNano_def normalised_def)
  have sec: "tv_sec a = tv_sec b" using div assms by metis
  then have "tv_nsec a = tv_nsec b" using assms(3) by (simp add: convertTimeSpecToNano_def)
  with sec show ?thesis by simp
qed

lemma value_less_iff:
  assumes "normalised a" "normalised b"
  shows "convertTimeSpecToNano a < convertTimeSpecToNano b \<longleftrightarrow>
         tv_sec a < tv_sec b \<or> tv_sec a = tv_sec b \<and> tv_nsec a < tv_nsec b"
proof (cases "tv_sec a" "tv_sec b" rule: linorder_cases)
  case less
  then have "(tv_sec a + 1) * NANO \<le> tv_sec b * NANO" by (intro mult_right_mono) auto
  then show ?thesis using assms less
    by (simp add: convertTimeSpecToNano_def normalised_def algebra_simps)
next
  case greater
  then have "(tv_sec b + 1) * NANO \<le> tv_sec a * NANO" by (intro mult_right_mono) auto
  then show ?thesis using assms greater
    by (simp add: convertTimeSpecToNano_def normalised_def algebra_simps)
qed (simp add: convertTimeSpecToNano_def)

lemma compareTimeLess_value:
  "normalised a \<Longrightarrow> normalised b \<Longrightarrow>
    compareTimeLess a b \<longleftrightarrow> convertTimeSpecToNano a < convertTimeSpecToNano b"
  by (auto simp: compareTimeLess_def value_less_iff)

lemma compareTime_not_less: "compareTime a b \<longleftrightarrow> \<not> compareTimeLess b a"
  by (auto simp: compareTime_def compareTimeLess_def)

lemma compareTime_value:
  "normalised a \<Longrightarrow> normalised b \<Longrightarrow>
    compareTime a b \<longleftrightarrow> convertTimeSpecToNano a \<le> convertTimeSpecToNano b"
  by (simp add: compareTime_not_less compareTimeLess_value linorder_not_less)

lemma compareTime_refl: "compareTime a a"
  by (simp add: compareTime_def)

lemma compareTime_total: "compareTime a b \<or> compareTime b a"
  by (auto simp: compareTime_def)

lemma compareTime_trans: "compareTime a b \<Longrightarrow> compareTime b c \<Longrightarrow> compareTime a c"
  by (auto simp: compareTime_def split: if_splits)

lemma compareTimeLess_irrefl: "\<not> compareTimeLess a a"
  by (simp add: compareTimeLess_def)

lemma compareTimeLess_trans: "compareTimeLess a b \<Longrightarrow> compareTimeLess b c \<Longrightarrow> compareTimeLess a c"
  by (auto simp: compareTimeLess_def split: if_splits)

section \<open>Addition and subtraction\<close>

lemma addTimeNano_Some_iff: "(\<exists>tv'. addTimeNano tv n = Some tv') \<longleftrightarrow> n \<le> MAX_TIME_OUT"
  by (simp add: addTimeNano_def)

lemma addTimeNano_value:
  "addTimeNano tv n = Some tv' \<Longrightarrow>
     convertTimeSpecToNano tv' =
       convertTimeSpecToNano tv + (if n = INFINITE_TIME_VALUE then MAX_TIME_OUT else n)"
  by (auto simp: addTimeNano_def carry_nsecs_value convertTimeSpecToNano_def [of tv] split: if_splits)

lemma addTimeNano_normalised:
  assumes "addTimeNano tv n = Some tv'" "normalised tv" "- tv_nsec tv \<le> n \<or> n = INFINITE_TIME_VALUE"
  shows "normalised tv'"
  using assms MAX_TIME_OUT_pos
  by (auto simp: addTimeNano_def INFINITE_TIME_VALUE_def normalised_def [of tv]
      intro!: carry_nsecs_normalised split: if_splits)

text \<open>A negative delay other than \<open>INFINITE_TIME_VALUE\<close> passes the assertion, and the
  truncating division leaves a negative nanosecond field.\<close>

lemma addTimeNano_denormal:
  assumes "normalised tv" "n < - tv_nsec tv" "n \<noteq> INFINITE_TIME_VALUE" "\<not> NANO dvd tv_nsec tv + n"
  shows "\<exists>tv'. addTimeNano tv n = Some tv' \<and> \<not> normalised tv'"
proof -
  let ?k = "tv_nsec tv + n"
  have n: "n \<le> MAX_TIME_OUT" using assms(1,2) MAX_TIME_OUT_pos by (simp add: normalised_def)
  have "?k < 0" using assms(2) by simp
  then have "?k smod NANO = - ((- ?k) mod NANO)" by (rule smod_neg)
  moreover have "(- ?k) mod NANO \<noteq> 0"
    using assms(4) by (metis dvd_minus_iff mod_0_imp_dvd)
  ultimately have "?k smod NANO < 0"
    using pos_mod_sign [of NANO "- ?k"] NANO_pos(1) by linarith
  then show ?thesis using n assms(3)
    by (simp add: addTimeNano_def carry_nsecs_def normalised_def)
qed

lemma subtractTime_value:
  "convertTimeSpecToNano (subtractTime a b) = convertTimeSpecToNano a - convertTimeSpecToNano b"
  by (simp add: subtractTime_def borrow_loop_value) (simp add: convertTimeSpecToNano_def algebra_simps)

lemma subtractTime_normalised:
  "normalised a \<Longrightarrow> normalised b \<Longrightarrow> normalised (subtractTime a b)"
  unfolding subtractTime_def by (rule borrow_loop_normalised) (simp add: normalised_def)

lemma addTime_value:
  "convertTimeSpecToNano (addTime a b) = convertTimeSpecToNano a + convertTimeSpecToNano b"
  by (simp add: addTime_def addTime_loop_value) (simp add: convertTimeSpecToNano_def algebra_simps)

lemma addTime_normalised:
  "normalised a \<Longrightarrow> normalised b \<Longrightarrow> normalised (addTime a b)"
  unfolding addTime_def by (rule addTime_loop_normalised) (simp add: normalised_def)

text \<open>No intermediate value of \<open>addTimeNano\<close> leaves the signed 64-bit range when the
  clock is below \<open>2^62\<close> seconds and the delay is one the services let through.\<close>

lemma addTimeNano_fits:
  assumes "addTimeNano tv n = Some tv'" "normalised tv" "\<bar>tv_sec tv\<bar> < 2 ^ 62" "- 1 \<le> n"
  shows "tv_nsec tv + n \<in> {- (2 ^ 63) ..< 2 ^ 63}"
    "tv_nsec tv + MAX_TIME_OUT \<in> {- (2 ^ 63) ..< 2 ^ 63}"
    "tv_sec tv' \<in> {- (2 ^ 63) ..< 2 ^ 63}"
proof -
  have n: "n \<le> MAX_TIME_OUT" using assms(1) addTimeNano_Some_iff by blast
  have b: "- 1 \<le> m \<Longrightarrow> m \<le> MAX_TIME_OUT \<Longrightarrow> tv_nsec tv + m \<in> {- (2 ^ 63) ..< 2 ^ 63}" for m
    using assms(2) by (simp add: normalised_def MAX_TIME_OUT_def NANO_def)
  show "tv_nsec tv + n \<in> {- (2 ^ 63) ..< 2 ^ 63}" using b [OF assms(4) n] .
  show "tv_nsec tv + MAX_TIME_OUT \<in> {- (2 ^ 63) ..< 2 ^ 63}"
    using b [of MAX_TIME_OUT] MAX_TIME_OUT_pos by simp
  have c: "\<bar>k sdiv NANO\<bar> \<le> \<bar>k\<bar>" for k
    using zdiv_mono2 [of "\<bar>k\<bar>" 1 NANO] pos_imp_zdiv_nonneg_iff [of NANO "\<bar>k\<bar>"]
    by (cases "0 \<le> k") (auto simp: sdiv_nonneg sdiv_neg NANO_ge_1)
  have d: "\<bar>k\<bar> \<le> 2 ^ 60 \<Longrightarrow> tv_sec (carry_nsecs tv k) \<in> {- (2 ^ 63) ..< 2 ^ 63}" for k
    using c [of k] assms(3) by (simp add: carry_nsecs_def) (intro conjI; linarith)
  have e: "- 1 \<le> m \<Longrightarrow> m \<le> MAX_TIME_OUT \<Longrightarrow> \<bar>tv_nsec tv + m\<bar> \<le> 2 ^ 60" for m
    using assms(2) by (simp add: normalised_def MAX_TIME_OUT_def NANO_def) linarith
  show "tv_sec tv' \<in> {- (2 ^ 63) ..< 2 ^ 63}"
    using assms(1) d e [OF assms(4) n] e [of MAX_TIME_OUT] MAX_TIME_OUT_pos
    by (simp add: addTimeNano_def split: if_splits) force+
qed

end
