(* ===== verification/CondVar.thy ===== *)
theory CondVar
  imports AcmTime
begin

text \<open>
  Condition variables (class COND\_VAR of src/ACM\_THREAD\_SUPPORT.cc) and the
  loops around them.  What happens while a thread is blocked is chosen by the environment:
  a list of wake-ups, each one carrying what the other threads did to the shared state, so
  that a blocking loop of the code is a structural recursion over that list.  A call
  returns, or is still blocked when the list is used up, or ends the program in
  an assertion.
\<close>

text \<open>\<open>Woken f\<close>: the other threads changed the shared state by \<open>f\<close> and the wait
  returned 0 (a signal or a spurious wake-up). \<open>Expired f\<close>: they
  changed it by \<open>f\<close> and the timed wait returned ETIMEDOUT.\<close>

datatype 's wakeup = Woken "'s \<Rightarrow> 's" | Expired "'s \<Rightarrow> 's"

fun apply_wakeup :: "'s wakeup \<Rightarrow> 's \<Rightarrow> 's" where
  "apply_wakeup (Woken f) s = f s"
| "apply_wakeup (Expired f) s = f s"

fun is_expired :: "'s wakeup \<Rightarrow> bool" where
  "is_expired (Woken f) = False"
| "is_expired (Expired f) = True"

text \<open>\<open>COND_VAR::timed_wait\<close>: POSIX answers EINVAL to a timespec whose nanosecond field is
  not a fraction of a second, and the code asserts that the answer is not EINVAL.\<close>

definition COND_VAR_timed_wait :: "SYSTEM_TIMESPEC \<Rightarrow> 's wakeup \<Rightarrow> 's \<Rightarrow> (bool \<times> 's) outcome" where
  "COND_VAR_timed_wait timeout w s =
     (if \<not> normalised timeout then Aborted else Returned (is_expired w, apply_wakeup w s))"

text \<open>The loop \<open>while (blocked) { result = timed_wait(t); if (result == ETIMEDOUT) break; }\<close>:
  the flag of the result says whether the loop was left by the time-out.\<close>

fun timed_wait_loop ::
  "('s \<Rightarrow> bool) \<Rightarrow> SYSTEM_TIMESPEC \<Rightarrow> 's wakeup list \<Rightarrow> 's \<Rightarrow> (bool \<times> 's) outcome" where
  "timed_wait_loop blocked tv [] s =
     (if \<not> blocked s then Returned (False, s)
      else if \<not> normalised tv then Aborted else Blocked)"
| "timed_wait_loop blocked tv (w # ws) s =
     (if \<not> blocked s then Returned (False, s)
      else bind_outcome (COND_VAR_timed_wait tv w s)
             (\<lambda>(expired, s'). if expired then Returned (True, s')
                              else timed_wait_loop blocked tv ws s'))"

text \<open>The loop \<open>while (blocked) condition.wait();\<close> has no time-out to be left by.\<close>

fun wait_loop :: "('s \<Rightarrow> bool) \<Rightarrow> 's wakeup list \<Rightarrow> 's \<Rightarrow> 's outcome" where
  "wait_loop blocked [] s = (if \<not> blocked s then Returned s else Blocked)"
| "wait_loop blocked (w # ws) s =
     (if \<not> blocked s then Returned s else wait_loop blocked ws (apply_wakeup w s))"

declare timed_wait_loop.simps [simp del] wait_loop.simps [simp del]

lemma timed_wait_loop_ready [simp]:
  "\<not> blocked s \<Longrightarrow> timed_wait_loop blocked tv ws s = Returned (False, s)"
  by (cases ws) (simp_all add: timed_wait_loop.simps)

lemma timed_wait_loop_denormal [simp]:
  "blocked s \<Longrightarrow> \<not> normalised tv \<Longrightarrow> timed_wait_loop blocked tv ws s = Aborted"
  by (cases ws) (simp_all add: timed_wait_loop.simps COND_VAR_timed_wait_def)

lemma timed_wait_loop_blocked [simp]:
  "blocked s \<Longrightarrow> normalised tv \<Longrightarrow> timed_wait_loop blocked tv [] s = Blocked"
  "blocked s \<Longrightarrow> normalised tv \<Longrightarrow>
     timed_wait_loop blocked tv (Woken f # ws) s = timed_wait_loop blocked tv ws (f s)"
  "blocked s \<Longrightarrow> normalised tv \<Longrightarrow>
     timed_wait_loop blocked tv (Expired f # ws) s = Returned (True, f s)"
  by (simp_all add: timed_wait_loop.simps COND_VAR_timed_wait_def)

lemma wait_loop_ready [simp]: "\<not> blocked s \<Longrightarrow> wait_loop blocked ws s = Returned s"
  by (cases ws) (simp_all add: wait_loop.simps)

lemma wait_loop_blocked [simp]:
  "blocked s \<Longrightarrow> wait_loop blocked [] s = Blocked"
  "blocked s \<Longrightarrow> wait_loop blocked (w # ws) s = wait_loop blocked ws (apply_wakeup w s)"
  by (simp_all add: wait_loop.simps)

lemma timed_wait_loop_defined:
  "timed_wait_loop blocked tv ws s \<noteq> Undef \<and>
   (normalised tv \<longrightarrow> timed_wait_loop blocked tv ws s \<noteq> Aborted)"
proof (induction ws arbitrary: s)
  case Nil
  then show ?case by (cases "blocked s"; cases "normalised tv") auto
next
  case (Cons w ws)
  then show ?case by (cases "blocked s"; cases "normalised tv"; cases w) auto
qed

lemma timed_wait_loop_not_Aborted:
  "normalised tv \<Longrightarrow> timed_wait_loop blocked tv ws s \<noteq> Aborted"
  using timed_wait_loop_defined [of blocked tv ws s] by simp

text \<open>What every move of the environment keeps holds when the loop is left, together with
  the loop's exit condition.\<close>

lemma timed_wait_loop_rely:
  assumes "timed_wait_loop blocked tv ws s = Returned (t, s')" "I s"
    and "\<And>w x. w \<in> set ws \<Longrightarrow> I x \<Longrightarrow> I (apply_wakeup w x)"
  shows "I s' \<and> (\<not> t \<longrightarrow> \<not> blocked s')"
  using assms
proof (induction ws arbitrary: s)
  case Nil
  then show ?case by (auto simp: timed_wait_loop.simps split: if_splits)
next
  case (Cons w ws)
  have I: "I (apply_wakeup w s)" using Cons.prems(2,3) by simp
  show ?case
  proof (cases "blocked s \<and> \<not> is_expired w")
    case True
    then have "timed_wait_loop blocked tv ws (apply_wakeup w s) = Returned (t, s')"
      using Cons.prems(1)
      by (auto simp: timed_wait_loop.simps COND_VAR_timed_wait_def split: if_splits)
    then show ?thesis using I by (rule Cons.IH) (simp add: Cons.prems(3))
  next
    case False
    then show ?thesis using Cons.prems(1,2) I
      by (auto simp: timed_wait_loop.simps COND_VAR_timed_wait_def split: if_splits)
  qed
qed

lemma timed_wait_loop_expired:
  assumes "timed_wait_loop blocked tv ws s = Returned (True, s')"
  shows "blocked s \<and> (\<exists>w\<in>set ws. is_expired w)"
  using assms
proof (induction ws arbitrary: s)
  case Nil
  then show ?case by (auto simp: timed_wait_loop.simps split: if_splits)
next
  case (Cons w ws)
  show ?case
  proof (cases "blocked s \<and> \<not> is_expired w")
    case True
    then have "timed_wait_loop blocked tv ws (apply_wakeup w s) = Returned (True, s')"
      using Cons.prems
      by (auto simp: timed_wait_loop.simps COND_VAR_timed_wait_def split: if_splits)
    from Cons.IH [OF this] True show ?thesis by auto
  next
    case False
    then show ?thesis using Cons.prems
      by (auto simp: timed_wait_loop.simps split: if_splits)
  qed
qed

lemma wait_loop_rely:
  assumes "wait_loop blocked ws s = Returned s'" "I s"
    and "\<And>w x. w \<in> set ws \<Longrightarrow> I x \<Longrightarrow> I (apply_wakeup w x)"
  shows "I s' \<and> \<not> blocked s'"
  using assms
proof (induction ws arbitrary: s)
  case Nil
  then show ?case by (auto simp: wait_loop.simps split: if_splits)
next
  case (Cons w ws)
  show ?case
  proof (cases "blocked s")
    case True
    then have "wait_loop blocked ws (apply_wakeup w s) = Returned s'" "I (apply_wakeup w s)"
      using Cons.prems by auto
    then show ?thesis by (rule Cons.IH) (simp add: Cons.prems(3))
  qed (use Cons.prems in simp)
qed

lemma wait_loop_not_Aborted [simp]:
  "wait_loop blocked ws s \<noteq> Aborted" "wait_loop blocked ws s \<noteq> Undef"
  by (induction ws arbitrary: s) (auto simp: wait_loop.simps)

end
