(* ===== verification/Semaphore.thy ===== *)
theory Semaphore
  imports CondVar
begin

text \<open>
  The classes SEMAPHORE (src/ACM\_THREAD\_SUPPORT.cc,
  include/ACM/INTERNAL/ACM\_THREAD\_SUPPORT.h) and RW\_LOCK\_SEM (the header).  A semaphore is
  part of a larger object (a BUFFER, a reader/writer lock, the partition), so its
  operations act on any state \<open>'s\<close> through the getter and the update function of
  the field that holds it; the environment of a blocked caller changes the whole object.
  \<open>SEMAPHORE_VALUE_TYPE\<close> is signed (\<^typ>\<open>int\<close>), the waiting counter unsigned
  (\<^typ>\<open>64 word\<close>, it wraps).
\<close>

record SEMAPHORE =
  counter :: int
  SEMAPHORE_NAME :: NAME_TYPE
  maximumvalue :: int
  APEX_UNSIGNED_WAITING_COUNTER :: "64 word"

definition SEMAPHORE_new :: "int \<Rightarrow> int \<Rightarrow> SEMAPHORE" where
  "SEMAPHORE_new value MAX_VALUE =
     \<lparr>counter = value, SEMAPHORE_NAME = ''NO_NAME'', maximumvalue = MAX_VALUE,
      APEX_UNSIGNED_WAITING_COUNTER = 0\<rparr>"

definition SEMAPHORE_new_named :: "NAME_TYPE \<Rightarrow> int \<Rightarrow> int \<Rightarrow> SEMAPHORE" where
  "SEMAPHORE_new_named name value MAX_VALUE =
     \<lparr>counter = value, SEMAPHORE_NAME = name, maximumvalue = MAX_VALUE,
      APEX_UNSIGNED_WAITING_COUNTER = 0\<rparr>"

abbreviation inc_waiting :: "SEMAPHORE \<Rightarrow> SEMAPHORE" where
  "inc_waiting sem \<equiv> sem\<lparr>APEX_UNSIGNED_WAITING_COUNTER := APEX_UNSIGNED_WAITING_COUNTER sem + 1\<rparr>"

abbreviation dec_waiting :: "SEMAPHORE \<Rightarrow> SEMAPHORE" where
  "dec_waiting sem \<equiv> sem\<lparr>APEX_UNSIGNED_WAITING_COUNTER := APEX_UNSIGNED_WAITING_COUNTER sem - 1\<rparr>"

abbreviation take_unit :: "SEMAPHORE \<Rightarrow> SEMAPHORE" where
  "take_unit sem \<equiv> sem\<lparr>counter := counter sem - 1\<rparr>"

text \<open>\<open>SEMAPHORE::wait(SYSTEM_TIMESPEC &)\<close>.\<close>

definition SEMAPHORE_wait_until ::
  "('s \<Rightarrow> SEMAPHORE) \<Rightarrow> ((SEMAPHORE \<Rightarrow> SEMAPHORE) \<Rightarrow> 's \<Rightarrow> 's) \<Rightarrow> SYSTEM_TIMESPEC \<Rightarrow>
   's wakeup list \<Rightarrow> 's \<Rightarrow> (RETURN_CODE_TYPE \<times> 's) outcome" where
  "SEMAPHORE_wait_until sem upd timeout_spec ws s =
     bind_outcome (timed_wait_loop (\<lambda>s. counter (sem s) = 0) timeout_spec ws (upd inc_waiting s))
       (\<lambda>(expired, s1).
          let RETURNVALUE = (if expired then TIMED_OUT else NO_ERROR);
              s2 = (if RETURNVALUE \<noteq> TIMED_OUT then upd take_unit s1 else s1)
          in Returned (RETURNVALUE, upd dec_waiting s2))"

text \<open>\<open>SEMAPHORE::wait()\<close>.\<close>

definition SEMAPHORE_wait_forever ::
  "('s \<Rightarrow> SEMAPHORE) \<Rightarrow> ((SEMAPHORE \<Rightarrow> SEMAPHORE) \<Rightarrow> 's \<Rightarrow> 's) \<Rightarrow>
   's wakeup list \<Rightarrow> 's \<Rightarrow> (RETURN_CODE_TYPE \<times> 's) outcome" where
  "SEMAPHORE_wait_forever sem upd ws s =
     bind_outcome (wait_loop (\<lambda>s. counter (sem s) = 0) ws (upd inc_waiting s))
       (\<lambda>s1. Returned (NO_ERROR, upd dec_waiting (upd take_unit s1)))"

text \<open>\<open>SEMAPHORE::wait(SYSTEM_TIME_TYPE)\<close>: the absolute time is computed, and its
  assertion checked, before the time-out is compared with \<open>INFINITE_TIME_VALUE\<close>.\<close>

definition SEMAPHORE_wait ::
  "('s \<Rightarrow> SEMAPHORE) \<Rightarrow> ((SEMAPHORE \<Rightarrow> SEMAPHORE) \<Rightarrow> 's \<Rightarrow> 's) \<Rightarrow> SYSTEM_TIMESPEC \<Rightarrow>
   SYSTEM_TIME_TYPE \<Rightarrow> 's wakeup list \<Rightarrow> 's \<Rightarrow> (RETURN_CODE_TYPE \<times> 's) outcome" where
  "SEMAPHORE_wait sem upd now timeout ws s =
     bind_outcome (assert_some (addTimeNano now timeout))
       (\<lambda>timeout_spec.
          if timeout = INFINITE_TIME_VALUE then SEMAPHORE_wait_forever sem upd ws s
          else SEMAPHORE_wait_until sem upd timeout_spec ws s)"

text \<open>\<open>SEMAPHORE::try_lock\<close> only looks at the counter.\<close>

definition SEMAPHORE_try_lock :: "SEMAPHORE \<Rightarrow> RETURN_CODE_TYPE" where
  "SEMAPHORE_try_lock sem = (if counter sem = 0 then NOT_AVAILABLE else NO_ERROR)"

definition SEMAPHORE_post :: "SEMAPHORE \<Rightarrow> RETURN_CODE_TYPE \<times> SEMAPHORE" where
  "SEMAPHORE_post sem =
     (if counter sem \<ge> maximumvalue sem then (NOT_AVAILABLE, sem)
      else (NO_ERROR, sem\<lparr>counter := counter sem + 1\<rparr>))"

section \<open>Invariant and behaviour of a semaphore\<close>

definition sem_inv :: "SEMAPHORE \<Rightarrow> bool" where
  "sem_inv sem \<longleftrightarrow> 0 \<le> counter sem \<and> counter sem \<le> maximumvalue sem"

text \<open>A getter and an update function of one component of the state; \<open>D\<close> is the domain where
  the component exists (an index within a vector).\<close>

definition field :: "('s \<Rightarrow> bool) \<Rightarrow> ('s \<Rightarrow> 'a) \<Rightarrow> (('a \<Rightarrow> 'a) \<Rightarrow> 's \<Rightarrow> 's) \<Rightarrow> bool" where
  "field D get upd \<longleftrightarrow>
     (\<forall>f s. D s \<longrightarrow> D (upd f s) \<and> get (upd f s) = f (get s)) \<and>
     (\<forall>f g s. D s \<longrightarrow> upd f (upd g s) = upd (f \<circ> g) s)"

lemma field_get: "field D get upd \<Longrightarrow> D s \<Longrightarrow> get (upd f s) = f (get s)"
  by (simp add: field_def)

lemma field_dom: "field D get upd \<Longrightarrow> D s \<Longrightarrow> D (upd f s)"
  by (simp add: field_def)

lemma field_upd_upd: "field D get upd \<Longrightarrow> D s \<Longrightarrow> upd f (upd g s) = upd (f \<circ> g) s"
  by (simp add: field_def)

lemmas field_rules = field_get field_dom field_upd_upd

lemma field_id: "field (\<lambda>_. True) (\<lambda>x. x) (\<lambda>f. f)"
  by (simp add: field_def)

lemma sem_inv_new [acm_inv]: "0 \<le> v \<Longrightarrow> v \<le> m \<Longrightarrow> sem_inv (SEMAPHORE_new v m)"
  by (simp add: sem_inv_def SEMAPHORE_new_def)

lemma sem_inv_post [acm_inv]: "sem_inv sem \<Longrightarrow> sem_inv (snd (SEMAPHORE_post sem))"
  by (simp add: sem_inv_def SEMAPHORE_post_def)

lemma SEMAPHORE_post_code:
  "fst (SEMAPHORE_post sem) = (if counter sem < maximumvalue sem then NO_ERROR else NOT_AVAILABLE)"
  by (simp add: SEMAPHORE_post_def)

lemma SEMAPHORE_post_frame [simp]:
  "maximumvalue (snd (SEMAPHORE_post sem)) = maximumvalue sem"
  "SEMAPHORE_NAME (snd (SEMAPHORE_post sem)) = SEMAPHORE_NAME sem"
  "APEX_UNSIGNED_WAITING_COUNTER (snd (SEMAPHORE_post sem)) = APEX_UNSIGNED_WAITING_COUNTER sem"
  by (simp_all add: SEMAPHORE_post_def)

text \<open>An available unit is taken at once, whatever the time-out.\<close>

lemma SEMAPHORE_wait_available:
  assumes "field D sem upd" "D s" "counter (sem s) \<noteq> 0" "timeout \<le> MAX_TIME_OUT"
  shows "SEMAPHORE_wait sem upd now timeout ws s = Returned (NO_ERROR, upd take_unit s)"
proof -
  note F = field_rules [OF assms(1)]
  obtain tv where tv: "addTimeNano now timeout = Some tv"
    using assms(4) addTimeNano_Some_iff by blast
  have "dec_waiting \<circ> take_unit \<circ> inc_waiting = take_unit" by (simp add: fun_eq_iff)
  then have "upd dec_waiting (upd take_unit (upd inc_waiting s)) = upd take_unit s"
    using assms(2) by (simp add: F comp_assoc)
  then show ?thesis using assms(2,3) tv
    by (simp add: SEMAPHORE_wait_def SEMAPHORE_wait_until_def SEMAPHORE_wait_forever_def F)
qed

text \<open>An empty semaphore with a time-out that expires: nothing of it changes but by the
  environment.\<close>

lemma SEMAPHORE_wait_expires:
  assumes "field D sem upd" "D s" "counter (sem s) = 0" "timeout \<le> MAX_TIME_OUT"
    "0 \<le> timeout" "normalised now"
  shows "SEMAPHORE_wait sem upd now timeout [Expired f] s =
           Returned (TIMED_OUT, upd dec_waiting (f (upd inc_waiting s)))"
proof -
  note F = field_rules [OF assms(1)]
  obtain tv where tv: "addTimeNano now timeout = Some tv"
    using assms(4) addTimeNano_Some_iff by blast
  have "normalised tv"
    by (rule addTimeNano_normalised [OF tv]) (use assms(5,6) in \<open>auto simp: normalised_def\<close>)
  then show ?thesis using assms(2-) tv
    by (simp add: SEMAPHORE_wait_def SEMAPHORE_wait_until_def INFINITE_TIME_VALUE_def F)
qed

lemma SEMAPHORE_wait_until_Returned:
  assumes "SEMAPHORE_wait_until sem upd tv ws s = Returned (rc, s')" "field D sem upd"
    "\<And>x. I x \<Longrightarrow> D x" and "I s" and rely: "\<And>w x. w \<in> set ws \<Longrightarrow> I x \<Longrightarrow> I (apply_wakeup w x)"
    and inc: "\<And>x. I x \<Longrightarrow> I (upd inc_waiting x)"
  obtains s1 where "I s1" "rc = NO_ERROR" "counter (sem s1) \<noteq> 0" "s' = upd (dec_waiting \<circ> take_unit) s1"
  | s1 where "I s1" "rc = TIMED_OUT" "s' = upd dec_waiting s1" "\<exists>w\<in>set ws. is_expired w"
proof -
  obtain expired s1 where loop:
    "timed_wait_loop (\<lambda>s. counter (sem s) = 0) tv ws (upd inc_waiting s) = Returned (expired, s1)"
    and res: "rc = (if expired then TIMED_OUT else NO_ERROR)"
      "s' = upd dec_waiting (if expired then s1 else upd take_unit s1)"
    using assms(1)
    by (auto simp: SEMAPHORE_wait_until_def bind_outcome_Returned Let_def split: if_splits)
  have I: "I s1 \<and> (\<not> expired \<longrightarrow> counter (sem s1) \<noteq> 0)"
    by (rule timed_wait_loop_rely [OF loop]) (use assms(4) inc rely in auto)
  show thesis
  proof (cases expired)
    case True
    have "\<exists>w\<in>set ws. is_expired w"
      by (rule timed_wait_loop_expired [THEN conjunct2, OF loop [unfolded eqTrueI [OF True]]])
    then show ?thesis using True I res by (intro that(2) [of s1]) simp_all
  next
    case False
    then show ?thesis using I res assms(3)
      by (intro that(1) [of s1]) (simp_all add: field_upd_upd [OF assms(2)])
  qed
qed

lemma SEMAPHORE_wait_Returned:
  assumes "SEMAPHORE_wait sem upd now timeout ws s = Returned (rc, s')" "field D sem upd"
    "\<And>x. I x \<Longrightarrow> D x" and "I s" and rely: "\<And>w x. w \<in> set ws \<Longrightarrow> I x \<Longrightarrow> I (apply_wakeup w x)"
    and inc: "\<And>x. I x \<Longrightarrow> I (upd inc_waiting x)"
  obtains s1 where "I s1" "rc = NO_ERROR" "counter (sem s1) \<noteq> 0" "s' = upd (dec_waiting \<circ> take_unit) s1"
  | s1 where "I s1" "rc = TIMED_OUT" "s' = upd dec_waiting s1" "timeout \<noteq> INFINITE_TIME_VALUE"
proof (cases "timeout = INFINITE_TIME_VALUE")
  case True
  then obtain s1 where loop: "wait_loop (\<lambda>s. counter (sem s) = 0) ws (upd inc_waiting s) = Returned s1"
    and "rc = NO_ERROR" "s' = upd dec_waiting (upd take_unit s1)"
    using assms(1)
    by (auto simp: SEMAPHORE_wait_def SEMAPHORE_wait_forever_def bind_outcome_Returned)
  moreover have "I s1 \<and> counter (sem s1) \<noteq> 0"
    by (rule wait_loop_rely [OF loop]) (use assms(4) inc rely in auto)
  ultimately show ?thesis using assms(3)
    by (intro that(1) [of s1]) (simp_all add: field_upd_upd [OF assms(2)])
next
  case False
  then obtain tv where "SEMAPHORE_wait_until sem upd tv ws s = Returned (rc, s')"
    using assms(1) by (auto simp: SEMAPHORE_wait_def bind_outcome_Returned)
  then show ?thesis
    by (rule SEMAPHORE_wait_until_Returned [OF _ assms(2), where I = I])
      (use assms(3-) that False in auto)
qed

lemma sem_inv_waiting [simp]: "sem_inv (sem\<lparr>APEX_UNSIGNED_WAITING_COUNTER := n\<rparr>) = sem_inv sem"
  by (simp add: sem_inv_def)

lemma sem_inv_take [simp]: "sem_inv sem \<Longrightarrow> counter sem \<noteq> 0 \<Longrightarrow> sem_inv (take_unit sem)"
  by (simp add: sem_inv_def)

lemma SEMAPHORE_wait_inv [acm_inv]:
  assumes "SEMAPHORE_wait sem upd now timeout ws s = Returned (rc, s')" "field D sem upd" "D s"
    and "sem_inv (sem s)"
    and "\<And>w x. w \<in> set ws \<Longrightarrow> D x \<Longrightarrow> sem_inv (sem x) \<Longrightarrow>
           D (apply_wakeup w x) \<and> sem_inv (sem (apply_wakeup w x))"
  shows "D s' \<and> sem_inv (sem s')"
  by (rule SEMAPHORE_wait_Returned [OF assms(1,2), where I = "\<lambda>x. D x \<and> sem_inv (sem x)"])
    (use assms(3-) in \<open>auto simp: field_rules [OF assms(2)]\<close>)

text \<open>A time-out below -1 second passes every check of the callers and ends the
  program in the assertion of \<open>COND_VAR::timed_wait\<close>.\<close>

lemma SEMAPHORE_wait_negative_aborts:
  assumes "field D sem upd" "D s" "counter (sem s) = 0" "normalised now"
    "timeout < - tv_nsec now" "timeout \<noteq> INFINITE_TIME_VALUE" "\<not> NANO dvd tv_nsec now + timeout"
  shows "SEMAPHORE_wait sem upd now timeout ws s = Aborted"
proof -
  obtain tv where "addTimeNano now timeout = Some tv" "\<not> normalised tv"
    using addTimeNano_denormal [OF assms(4-7)] by blast
  then show ?thesis using assms(2,3,6)
    by (simp add: SEMAPHORE_wait_def SEMAPHORE_wait_until_def field_get [OF assms(1)])
qed

lemma wait_until_available:
  assumes "field D sem upd" "D s" "counter (sem s) \<noteq> 0"
  shows "SEMAPHORE_wait_until sem upd tv ws s = Returned (NO_ERROR, upd take_unit s)"
proof -
  note F = field_rules [OF assms(1)]
  have "dec_waiting \<circ> take_unit \<circ> inc_waiting = take_unit" by (simp add: fun_eq_iff)
  then have "upd dec_waiting (upd take_unit (upd inc_waiting s)) = upd take_unit s"
    using assms(2) by (simp add: F comp_assoc)
  then show ?thesis using assms(2,3) by (simp add: SEMAPHORE_wait_until_def F)
qed

lemma wait_until_no_wakeup:
  assumes "field D sem upd" "D s" "SEMAPHORE_wait_until sem upd tv [] s = Returned (rc, s')"
  shows "counter (sem s) \<noteq> 0 \<and> rc = NO_ERROR \<and> s' = upd take_unit s"
proof (cases "counter (sem s) = 0")
  case True
  then show ?thesis using assms(2,3)
    by (cases "normalised tv") (simp_all add: SEMAPHORE_wait_until_def field_get [OF assms(1)])
next
  case False
  then show ?thesis using assms(2,3) by (simp add: wait_until_available [OF assms(1)])
qed

lemma wait_no_wakeup:
  assumes "field D sem upd" "D s" "SEMAPHORE_wait sem upd now t [] s = Returned (rc, s')"
  shows "counter (sem s) \<noteq> 0 \<and> rc = NO_ERROR \<and> s' = upd take_unit s"
proof -
  have t: "t \<le> MAX_TIME_OUT"
    using assms(3) addTimeNano_Some_iff by (auto simp: SEMAPHORE_wait_def bind_outcome_Returned)
  have c: "counter (sem s) \<noteq> 0"
  proof (cases "t = INFINITE_TIME_VALUE")
    case True
    then show ?thesis using assms(2,3)
      by (auto simp: SEMAPHORE_wait_def SEMAPHORE_wait_forever_def bind_outcome_Returned
          wait_loop.simps field_get [OF assms(1)] split: if_splits)
  next
    case False
    then obtain tv where "SEMAPHORE_wait_until sem upd tv [] s = Returned (rc, s')"
      using assms(3) by (auto simp: SEMAPHORE_wait_def bind_outcome_Returned)
    then show ?thesis using wait_until_no_wakeup [OF assms(1,2)] by simp
  qed
  then show ?thesis using SEMAPHORE_wait_available [OF assms(1,2) c t] assms(3) by simp
qed

end
