(* ===== verification/RwLock.thy ===== *)
theory RwLock
  imports Semaphore
begin

text \<open>
  The reader/writer lock RW\_LOCK\_SEM of include/ACM/INTERNAL/ACM\_THREAD\_SUPPORT.h: a
  semaphore of MAX\_READERS permits, of which a reader takes one and a writer all, and a
  writer token that keeps two writers from collecting permits at the same time.  The second
  half of the theory runs any number of threads over the lock, one atomic semaphore
  operation per step, and shows mutual exclusion.
\<close>

record RW_LOCK_SEM =
  RW_NAME :: NAME_TYPE
  MAX_READERS :: int
  RW_SEM :: SEMAPHORE
  WRITER_SEMAPHORE :: SEMAPHORE

definition RW_LOCK_SEM_new :: "NAME_TYPE \<Rightarrow> int \<Rightarrow> RW_LOCK_SEM" where
  "RW_LOCK_SEM_new Name num_readers =
     \<lparr>RW_NAME = Name, MAX_READERS = num_readers, RW_SEM = SEMAPHORE_new num_readers num_readers,
      WRITER_SEMAPHORE = SEMAPHORE_new 1 1\<rparr>"

text \<open>One blocking call of the lock: what the other threads did since the previous call, and
  the wake-ups while this one was blocked.\<close>

type_synonym 's interference = "('s \<Rightarrow> 's) \<times> 's wakeup list"

fun next_interference :: "'s interference list \<Rightarrow> 's interference \<times> 's interference list" where
  "next_interference [] = ((\<lambda>s. s, []), [])"
| "next_interference (i # is) = (i, is)"

definition readlock ::
  "SYSTEM_TIMESPEC \<Rightarrow> SYSTEM_TIME_TYPE \<Rightarrow> RW_LOCK_SEM wakeup list \<Rightarrow> RW_LOCK_SEM \<Rightarrow>
   (RETURN_CODE_TYPE \<times> RW_LOCK_SEM) outcome" where
  "readlock now TIMEOUT ws l = SEMAPHORE_wait RW_SEM RW_SEM_update now TIMEOUT ws l"

definition readunlock :: "RW_LOCK_SEM \<Rightarrow> RW_LOCK_SEM" where
  "readunlock l = l\<lparr>RW_SEM := snd (SEMAPHORE_post (RW_SEM l))\<rparr>"

text \<open>The \<open>for\<close> loop of \<open>writelock\<close>; the number is that of the permits still to take.\<close>

fun writelock_loop ::
  "SYSTEM_TIMESPEC \<Rightarrow> RW_LOCK_SEM interference list \<Rightarrow> nat \<Rightarrow> int \<Rightarrow> RETURN_CODE_TYPE \<Rightarrow> RW_LOCK_SEM \<Rightarrow>
   (RETURN_CODE_TYPE \<times> int \<times> RW_LOCK_SEM) outcome" where
  "writelock_loop timeout_spec is 0 successcount rc l = Returned (rc, successcount, l)"
| "writelock_loop timeout_spec is (Suc n) successcount rc l =
     (let ((f, ws), is') = next_interference is in
      bind_outcome (SEMAPHORE_wait_until RW_SEM RW_SEM_update timeout_spec ws (f l))
        (\<lambda>(rc', l'). if rc' = TIMED_OUT then Returned (rc', successcount, l')
                     else writelock_loop timeout_spec is' n (successcount + 1) rc' l'))"

definition give_back_permits :: "int \<Rightarrow> RW_LOCK_SEM \<Rightarrow> RW_LOCK_SEM" where
  "give_back_permits successcount l =
     l\<lparr>RW_SEM := (RW_SEM l)\<lparr>counter := counter (RW_SEM l) + successcount\<rparr>\<rparr>"

definition post_writer :: "RW_LOCK_SEM \<Rightarrow> RW_LOCK_SEM" where
  "post_writer l = l\<lparr>WRITER_SEMAPHORE := snd (SEMAPHORE_post (WRITER_SEMAPHORE l))\<rparr>"

definition writelock ::
  "SYSTEM_TIMESPEC \<Rightarrow> SYSTEM_TIME_TYPE \<Rightarrow> RW_LOCK_SEM wakeup list \<Rightarrow> RW_LOCK_SEM interference list \<Rightarrow>
   RW_LOCK_SEM \<Rightarrow> (RETURN_CODE_TYPE \<times> RW_LOCK_SEM) outcome" where
  "writelock now TIMEOUT ws is l =
     bind_outcome (assert_some (addTimeNano now TIMEOUT)) (\<lambda>timeout_spec.
     bind_outcome (SEMAPHORE_wait_until WRITER_SEMAPHORE WRITER_SEMAPHORE_update timeout_spec ws l)
       (\<lambda>(rc, l1).
          if rc = TIMED_OUT then Returned (rc, l1)
          else bind_outcome (writelock_loop timeout_spec is (nat (MAX_READERS l1)) 0 rc l1)
            (\<lambda>(rc', successcount, l2).
               let l3 = (if rc' = TIMED_OUT then give_back_permits successcount l2 else l2)
               in Returned (rc', post_writer l3))))"

definition writeunlock :: "RW_LOCK_SEM \<Rightarrow> RW_LOCK_SEM" where
  "writeunlock l = l\<lparr>RW_SEM := (RW_SEM l)\<lparr>counter := MAX_READERS l\<rparr>\<rparr>"

lemma field_RW_SEM: "field (\<lambda>_. True) RW_SEM RW_SEM_update"
  by (simp add: field_def)

lemma field_WRITER_SEMAPHORE: "field (\<lambda>_. True) WRITER_SEMAPHORE WRITER_SEMAPHORE_update"
  by (simp add: field_def)

section \<open>A writer that meets no other thread\<close>

lemma writelock_loop_alone:
  "counter (RW_SEM l) = int n + k \<Longrightarrow> 0 \<le> k \<Longrightarrow>
   writelock_loop tv [] n c NO_ERROR l =
     Returned (NO_ERROR, c + int n, l\<lparr>RW_SEM := (RW_SEM l)\<lparr>counter := k\<rparr>\<rparr>)"
  by (induction n arbitrary: l c)
    (simp_all add: wait_until_available [OF field_RW_SEM TrueI])

lemma writelock_loop_contended:
  assumes "counter (RW_SEM l) = int m" "m < n" "normalised tv"
  shows "writelock_loop tv (replicate m (\<lambda>l. l, []) @ [(\<lambda>l. l, [Expired (\<lambda>l. l)])]) n c NO_ERROR l =
     Returned (TIMED_OUT, c + int m, l\<lparr>RW_SEM := (RW_SEM l)\<lparr>counter := 0\<rparr>\<rparr>)"
  using assms
proof (induction m arbitrary: n l c)
  case 0
  then obtain n' where "n = Suc n'" by (cases n) auto
  then show ?case using 0 by (simp add: SEMAPHORE_wait_until_def)
next
  case (Suc m)
  then obtain n' where n: "n = Suc n'" "m < n'" by (cases n) auto
  have "counter (RW_SEM (RW_SEM_update take_unit l)) = int m" using Suc.prems by simp
  from Suc.IH [OF this n(2) Suc.prems(3)] show ?case
    using Suc.prems n by (simp add: wait_until_available [OF field_RW_SEM TrueI])
qed

section \<open>Threads over the lock\<close>

text \<open>Where a thread stands: outside, holding a read lock, holding the writer token and some
  permits in \<open>writelock\<close>, or holding the write lock.\<close>

datatype rw_pc = Out | Reading | Gathering int | Writing

record rw_system =
  lock :: RW_LOCK_SEM
  pcs :: "rw_pc list"

text \<open>The permits and the writer tokens a thread at a given point holds, of the \<open>m\<close> of the lock.\<close>

fun permits :: "int \<Rightarrow> rw_pc \<Rightarrow> int" where
  "permits m Out = 0"
| "permits m Reading = 1"
| "permits m (Gathering k) = k"
| "permits m Writing = m"

fun tokens :: "rw_pc \<Rightarrow> int" where
  "tokens (Gathering k) = 1"
| "tokens _ = 0"

text \<open>The moves of thread \<open>i\<close>, each one an operation of the lock that does not block: \<open>readlock\<close>
  and \<open>readunlock\<close>; the writer token, one permit, the exit of the loop with all permits, and the
  two exits of \<open>writelock\<close> by time-out; \<open>writeunlock\<close>.\<close>

inductive rw_step :: "rw_system \<Rightarrow> rw_system \<Rightarrow> bool" where
  read_enter:
  "i < length (pcs s) \<Longrightarrow> pcs s ! i = Out \<Longrightarrow>
   readlock now t [] (lock s) = Returned (NO_ERROR, l) \<Longrightarrow>
   rw_step s \<lparr>lock = l, pcs = (pcs s)[i := Reading]\<rparr>"
| read_leave:
  "i < length (pcs s) \<Longrightarrow> pcs s ! i = Reading \<Longrightarrow>
   rw_step s \<lparr>lock = readunlock (lock s), pcs = (pcs s)[i := Out]\<rparr>"
| write_token:
  "i < length (pcs s) \<Longrightarrow> pcs s ! i = Out \<Longrightarrow>
   SEMAPHORE_wait_until WRITER_SEMAPHORE WRITER_SEMAPHORE_update tv [] (lock s) =
     Returned (NO_ERROR, l) \<Longrightarrow>
   rw_step s \<lparr>lock = l, pcs = (pcs s)[i := Gathering 0]\<rparr>"
| write_permit:
  "i < length (pcs s) \<Longrightarrow> pcs s ! i = Gathering k \<Longrightarrow> k < MAX_READERS (lock s) \<Longrightarrow>
   SEMAPHORE_wait_until RW_SEM RW_SEM_update tv [] (lock s) = Returned (NO_ERROR, l) \<Longrightarrow>
   rw_step s \<lparr>lock = l, pcs = (pcs s)[i := Gathering (k + 1)]\<rparr>"
| write_enter:
  "i < length (pcs s) \<Longrightarrow> pcs s ! i = Gathering k \<Longrightarrow> k = MAX_READERS (lock s) \<Longrightarrow>
   rw_step s \<lparr>lock = post_writer (lock s), pcs = (pcs s)[i := Writing]\<rparr>"
| write_give_up:
  "i < length (pcs s) \<Longrightarrow> pcs s ! i = Gathering k \<Longrightarrow> k < MAX_READERS (lock s) \<Longrightarrow>
   rw_step s \<lparr>lock = post_writer (give_back_permits k (lock s)), pcs = (pcs s)[i := Out]\<rparr>"
| write_leave:
  "i < length (pcs s) \<Longrightarrow> pcs s ! i = Writing \<Longrightarrow>
   rw_step s \<lparr>lock = writeunlock (lock s), pcs = (pcs s)[i := Out]\<rparr>"

inductive rw_reachable :: "nat \<Rightarrow> int \<Rightarrow> rw_system \<Rightarrow> bool" for threads and m where
  rw_init: "rw_reachable threads m \<lparr>lock = RW_LOCK_SEM_new n m, pcs = replicate threads Out\<rparr>"
| rw_next: "rw_reachable threads m s \<Longrightarrow> rw_step s s' \<Longrightarrow> rw_reachable threads m s'"

text \<open>Every permit and the writer token are in their semaphore or with one thread.\<close>

definition rw_inv :: "int \<Rightarrow> rw_system \<Rightarrow> bool" where
  "rw_inv m s \<longleftrightarrow>
     MAX_READERS (lock s) = m \<and> maximumvalue (RW_SEM (lock s)) = m \<and>
     maximumvalue (WRITER_SEMAPHORE (lock s)) = 1 \<and>
     sem_inv (RW_SEM (lock s)) \<and> sem_inv (WRITER_SEMAPHORE (lock s)) \<and>
     (\<forall>p\<in>set (pcs s). 0 \<le> permits m p) \<and>
     counter (RW_SEM (lock s)) + sum_list (map (permits m) (pcs s)) = m \<and>
     counter (WRITER_SEMAPHORE (lock s)) + sum_list (map tokens (pcs s)) = 1"

lemma tokens_nonneg [simp]: "0 \<le> tokens p"
  by (cases p) simp_all

lemma rw_inv_new: "0 \<le> m \<Longrightarrow> rw_inv m \<lparr>lock = RW_LOCK_SEM_new n m, pcs = replicate threads Out\<rparr>"
  by (auto simp: rw_inv_def RW_LOCK_SEM_new_def SEMAPHORE_new_def sem_inv_def sum_list_replicate)

lemmas rw_step_defs = rw_inv_def sem_inv_def readunlock_def post_writer_def give_back_permits_def
  writeunlock_def SEMAPHORE_post_def sum_list_update_int

lemma rw_inv_step:
  assumes "rw_inv m s" "rw_step s s'" "1 \<le> m"
  shows "rw_inv m s'"
  using assms(2)
proof cases
  case (read_enter i now t l)
  then have "counter (RW_SEM (lock s)) \<noteq> 0" "l = RW_SEM_update take_unit (lock s)"
    using read_enter(4) wait_no_wakeup [OF field_RW_SEM TrueI, of now t "lock s" NO_ERROR l] by (simp_all add: readlock_def)
  then show ?thesis using read_enter assms by (auto simp: rw_step_defs dest!: set_update_subset_insert [THEN subsetD])
next
  case (read_leave i)
  have "permits m (pcs s ! i) \<le> sum_list (map (permits m) (pcs s))"
    by (rule sum_ge_nth) (use read_leave assms in \<open>auto simp: rw_inv_def\<close>)
  then show ?thesis using read_leave assms by (auto simp: rw_step_defs dest!: set_update_subset_insert [THEN subsetD])
next
  case (write_token i tv l)
  then have "counter (WRITER_SEMAPHORE (lock s)) \<noteq> 0"
    "l = WRITER_SEMAPHORE_update take_unit (lock s)"
    using wait_until_no_wakeup [OF field_WRITER_SEMAPHORE TrueI write_token(4)] by simp_all
  then show ?thesis using write_token assms by (auto simp: rw_step_defs dest!: set_update_subset_insert [THEN subsetD])
next
  case (write_permit i k tv l)
  then have c: "counter (RW_SEM (lock s)) \<noteq> 0" "l = RW_SEM_update take_unit (lock s)"
    using wait_until_no_wakeup [OF field_RW_SEM TrueI write_permit(5)] by simp_all
  have "0 \<le> permits m (pcs s ! i)" using write_permit(2) assms(1) by (simp add: rw_inv_def)
  then show ?thesis using c write_permit assms by (auto simp: rw_step_defs dest!: set_update_subset_insert [THEN subsetD])
next
  case (write_enter i k)
  have "tokens (pcs s ! i) \<le> sum_list (map tokens (pcs s))"
    by (rule sum_ge_nth) (use write_enter in simp_all)
  then show ?thesis using write_enter assms by (auto simp: rw_step_defs dest!: set_update_subset_insert [THEN subsetD])
next
  case (write_give_up i k)
  have p: "permits m (pcs s ! i) \<le> sum_list (map (permits m) (pcs s))" "0 \<le> permits m (pcs s ! i)"
    using sum_ge_nth [of i "pcs s" "permits m"] write_give_up(2) assms(1) by (simp_all add: rw_inv_def)
  have "tokens (pcs s ! i) \<le> sum_list (map tokens (pcs s))"
    by (rule sum_ge_nth) (use write_give_up in simp_all)
  with p show ?thesis using write_give_up assms by (auto simp: rw_step_defs dest!: set_update_subset_insert [THEN subsetD])
next
  case (write_leave i)
  have "permits m (pcs s ! i) \<le> sum_list (map (permits m) (pcs s))"
    by (rule sum_ge_nth) (use write_leave assms in \<open>auto simp: rw_inv_def\<close>)
  then show ?thesis using write_leave assms by (auto simp: rw_step_defs dest!: set_update_subset_insert [THEN subsetD])
qed

lemma rw_reachable_inv: "rw_reachable threads m s \<Longrightarrow> 1 \<le> m \<Longrightarrow> rw_inv m s"
  by (induction rule: rw_reachable.induct) (auto intro: rw_inv_new rw_inv_step)

lemma rw_inv_exclusion:
  assumes "rw_inv m s" "1 \<le> m" "i < length (pcs s)" "pcs s ! i = Writing"
    "j < length (pcs s)" "i \<noteq> j"
  shows "permits m (pcs s ! j) = 0"
proof -
  have p: "\<forall>p\<in>set (pcs s). 0 \<le> permits m p" using assms(1) by (simp add: rw_inv_def)
  have "m + permits m (pcs s ! j) \<le> sum_list (map (permits m) (pcs s))"
    using sum_ge_two [OF assms(3,5,6) p] assms(4) by simp
  moreover have "sum_list (map (permits m) (pcs s)) \<le> m"
    using assms(1) by (simp add: rw_inv_def sem_inv_def)
  ultimately show ?thesis using p assms(5) nth_mem by force
qed

end
