(* ===== verification/Event.thy ===== *)
theory Event
  imports CondVar
begin

text \<open>
  APEX\_EVENT\_TYPE of src/EVENT.cc: a two-valued state, a condition variable and a counter
  of waiting processes.  The counter is unsigned (\<^typ>\<open>64 word\<close>): \<open>WAIT_EVENT()\<close> adds and
  subtracts one, the timed waits only subtract, so each of them makes it wrap.  As in theory
  Semaphore the operations act on the object that holds the event, through a getter and
  an update function.  The mutex of the event protects the condition variable only; its lock
  state is not part of the model.
\<close>

datatype EVENT_STATE_TYPE = DOWN | UP

record APEX_EVENT_TYPE =
  EVENT_STATE :: EVENT_STATE_TYPE
  EVENT_NAME :: NAME_TYPE
  APEX_UNSIGNED_COUNTER :: "64 word"

definition EVENT_new :: "NAME_TYPE \<Rightarrow> APEX_EVENT_TYPE" where
  "EVENT_new name = \<lparr>EVENT_STATE = DOWN, EVENT_NAME = name, APEX_UNSIGNED_COUNTER = 0\<rparr>"

definition EVENT_set :: "APEX_EVENT_TYPE \<Rightarrow> RETURN_CODE_TYPE \<times> APEX_EVENT_TYPE" where
  "EVENT_set e = (NO_ERROR, if EVENT_STATE e = DOWN then e\<lparr>EVENT_STATE := UP\<rparr> else e)"

definition EVENT_reset :: "APEX_EVENT_TYPE \<Rightarrow> RETURN_CODE_TYPE \<times> APEX_EVENT_TYPE" where
  "EVENT_reset e = (NO_ERROR, e\<lparr>EVENT_STATE := DOWN\<rparr>)"

abbreviation inc_count :: "APEX_EVENT_TYPE \<Rightarrow> APEX_EVENT_TYPE" where
  "inc_count e \<equiv> e\<lparr>APEX_UNSIGNED_COUNTER := APEX_UNSIGNED_COUNTER e + 1\<rparr>"

abbreviation dec_count :: "APEX_EVENT_TYPE \<Rightarrow> APEX_EVENT_TYPE" where
  "dec_count e \<equiv> e\<lparr>APEX_UNSIGNED_COUNTER := APEX_UNSIGNED_COUNTER e - 1\<rparr>"

text \<open>\<open>WAIT_EVENT(RETURN_CODE)\<close>.\<close>

definition EVENT_wait_forever ::
  "('s \<Rightarrow> APEX_EVENT_TYPE) \<Rightarrow> ((APEX_EVENT_TYPE \<Rightarrow> APEX_EVENT_TYPE) \<Rightarrow> 's \<Rightarrow> 's) \<Rightarrow>
   's wakeup list \<Rightarrow> 's \<Rightarrow> (RETURN_CODE_TYPE \<times> 's) outcome" where
  "EVENT_wait_forever ev upd ws s =
     bind_outcome (wait_loop (\<lambda>s. EVENT_STATE (ev s) = DOWN) ws (upd inc_count s))
       (\<lambda>s1. Returned (NO_ERROR, upd dec_count s1))"

text \<open>\<open>WAIT_EVENT(SYSTEM_TIMESPEC, ..)\<close> and, but for the mutex it leaves locked,
  \<open>WAIT_AND_LOCK_EVENT\<close>: the counter is decremented and never incremented.\<close>

definition EVENT_wait_until ::
  "('s \<Rightarrow> APEX_EVENT_TYPE) \<Rightarrow> ((APEX_EVENT_TYPE \<Rightarrow> APEX_EVENT_TYPE) \<Rightarrow> 's \<Rightarrow> 's) \<Rightarrow> SYSTEM_TIMESPEC \<Rightarrow>
   's wakeup list \<Rightarrow> 's \<Rightarrow> (RETURN_CODE_TYPE \<times> 's) outcome" where
  "EVENT_wait_until ev upd timeout ws s =
     bind_outcome (timed_wait_loop (\<lambda>s. EVENT_STATE (ev s) = DOWN) timeout ws s)
       (\<lambda>(expired, s1). Returned (if expired then TIMED_OUT else NO_ERROR, upd dec_count s1))"

text \<open>\<open>WAIT_EVENT(SYSTEM_TIME_TYPE, ..)\<close>.\<close>

definition EVENT_wait ::
  "('s \<Rightarrow> APEX_EVENT_TYPE) \<Rightarrow> ((APEX_EVENT_TYPE \<Rightarrow> APEX_EVENT_TYPE) \<Rightarrow> 's \<Rightarrow> 's) \<Rightarrow> SYSTEM_TIMESPEC \<Rightarrow>
   SYSTEM_TIME_TYPE \<Rightarrow> 's wakeup list \<Rightarrow> 's \<Rightarrow> (RETURN_CODE_TYPE \<times> 's) outcome" where
  "EVENT_wait ev upd now TIME_OUT ws s =
     bind_outcome (assert_some (addTimeNano now TIME_OUT))
       (\<lambda>timeout. EVENT_wait_until ev upd timeout ws s)"

section \<open>Behaviour\<close>

lemma EVENT_set_state [simp]: "EVENT_STATE (snd (EVENT_set e)) = UP"
  by (cases "EVENT_STATE e") (simp_all add: EVENT_set_def)

lemma EVENT_reset_state [simp]: "EVENT_STATE (snd (EVENT_reset e)) = DOWN"
  by (simp add: EVENT_reset_def)

lemma EVENT_name_frame [simp]:
  "EVENT_NAME (snd (EVENT_set e)) = EVENT_NAME e"
  "EVENT_NAME (snd (EVENT_reset e)) = EVENT_NAME e"
  by (simp_all add: EVENT_set_def EVENT_reset_def)

lemma EVENT_codes [simp]: "fst (EVENT_set e) = NO_ERROR" "fst (EVENT_reset e) = NO_ERROR"
  by (simp_all add: EVENT_set_def EVENT_reset_def)

text \<open>A wait on an event that is up returns at once; only the untimed one leaves the counter
  as it was.\<close>

lemma EVENT_wait_forever_up:
  assumes "\<And>f s. ev (upd f s) = f (ev s)" "\<And>f g s. upd f (upd g s) = upd (f \<circ> g) s"
    "\<And>s. upd (\<lambda>e. e) s = s" "EVENT_STATE (ev s) = UP"
  shows "EVENT_wait_forever ev upd ws s = Returned (NO_ERROR, s)"
proof -
  have "dec_count \<circ> inc_count = (\<lambda>e. e)" by (simp add: fun_eq_iff)
  then have "upd dec_count (upd inc_count s) = s" using assms(2,3) by simp
  moreover have "EVENT_STATE (ev (upd inc_count s)) \<noteq> DOWN" using assms(1,4) by simp
  ultimately show ?thesis by (simp add: EVENT_wait_forever_def)
qed

lemma EVENT_wait_until_up:
  "EVENT_STATE (ev s) = UP \<Longrightarrow> EVENT_wait_until ev upd tv ws s = Returned (NO_ERROR, upd dec_count s)"
  by (simp add: EVENT_wait_until_def)

lemma EVENT_wait_up:
  assumes "EVENT_STATE (ev s) = UP" "TIME_OUT \<le> MAX_TIME_OUT"
  shows "EVENT_wait ev upd now TIME_OUT ws s = Returned (NO_ERROR, upd dec_count s)"
proof -
  obtain tv where "addTimeNano now TIME_OUT = Some tv" using assms(2) addTimeNano_Some_iff by blast
  then show ?thesis using assms(1) by (simp add: EVENT_wait_def EVENT_wait_until_up)
qed

text \<open>What a return of a timed wait means.\<close>

lemma EVENT_wait_until_Returned:
  assumes "EVENT_wait_until ev upd tv ws s = Returned (rc, s')" "I s"
    and rely: "\<And>w x. w \<in> set ws \<Longrightarrow> I x \<Longrightarrow> I (apply_wakeup w x)"
  obtains s1 where "I s1" "rc = NO_ERROR" "EVENT_STATE (ev s1) = UP" "s' = upd dec_count s1"
  | s1 where "I s1" "rc = TIMED_OUT" "s' = upd dec_count s1" "EVENT_STATE (ev s) = DOWN"
proof -
  obtain expired s1 where loop:
    "timed_wait_loop (\<lambda>s. EVENT_STATE (ev s) = DOWN) tv ws s = Returned (expired, s1)"
    and res: "rc = (if expired then TIMED_OUT else NO_ERROR)" "s' = upd dec_count s1"
    using assms(1) by (auto simp: EVENT_wait_until_def bind_outcome_Returned)
  have I: "I s1 \<and> (\<not> expired \<longrightarrow> EVENT_STATE (ev s1) \<noteq> DOWN)"
    by (rule timed_wait_loop_rely [OF loop]) (use assms(2) rely in auto)
  show thesis
  proof (cases expired)
    case True
    have "EVENT_STATE (ev s) = DOWN"
      by (rule timed_wait_loop_expired [THEN conjunct1, OF loop [unfolded eqTrueI [OF True]]])
    then show ?thesis using True I res by (intro that(2) [of s1]) simp_all
  next
    case False
    then have "EVENT_STATE (ev s1) = UP" using I by (cases "EVENT_STATE (ev s1)") auto
    then show ?thesis using I res False by (intro that(1) [of s1]) simp_all
  qed
qed

lemma EVENT_wait_Returned:
  assumes "EVENT_wait ev upd now TIME_OUT ws s = Returned (rc, s')" "I s"
    and rely: "\<And>w x. w \<in> set ws \<Longrightarrow> I x \<Longrightarrow> I (apply_wakeup w x)"
  obtains s1 where "I s1" "rc = NO_ERROR" "EVENT_STATE (ev s1) = UP" "s' = upd dec_count s1"
  | s1 where "I s1" "rc = TIMED_OUT" "s' = upd dec_count s1" "EVENT_STATE (ev s) = DOWN"
proof -
  obtain tv where "EVENT_wait_until ev upd tv ws s = Returned (rc, s')"
    using assms(1) by (auto simp: EVENT_wait_def bind_outcome_Returned)
  then show thesis by (rule EVENT_wait_until_Returned [where I = I]) (use assms(2) rely that in auto)
qed

text \<open>The counter after \<open>n\<close> timed waits on an event that is up: it went down \<open>n\<close> times.\<close>

fun timed_waits :: "nat \<Rightarrow> SYSTEM_TIMESPEC \<Rightarrow> APEX_EVENT_TYPE \<Rightarrow> APEX_EVENT_TYPE outcome" where
  "timed_waits 0 tv e = Returned e"
| "timed_waits (Suc n) tv e =
     bind_outcome (EVENT_wait_until (\<lambda>e. e) (\<lambda>f. f) tv [] e) (\<lambda>(rc, e'). timed_waits n tv e')"

lemma timed_waits_count:
  "EVENT_STATE e = UP \<Longrightarrow>
   timed_waits n tv e = Returned (e\<lparr>APEX_UNSIGNED_COUNTER := APEX_UNSIGNED_COUNTER e - of_nat n\<rparr>)"
  by (induction n arbitrary: e) (simp_all add: EVENT_wait_until_up algebra_simps)

end
