(* ===== verification/Fifo.thy ===== *)
theory Fifo
  imports Prelude
begin

text \<open>
  The contract of a bounded message queue, provided by the ring of an APEX buffer (theory
  Buffer) and by the POSIX queue under a queuing port (theory QueuePort): the
  object represents a list, \<open>put\<close> appends to it while there is room and \<open>get\<close>
  takes its first element.  Inside the locale a run of operations is shown to do
  what the list says; outside, the list's run delivers in order and without loss.
\<close>

datatype 'm fifo_op = Put 'm | Get

fun fifo_puts :: "'m fifo_op list \<Rightarrow> 'm list" where
  "fifo_puts [] = []"
| "fifo_puts (Put m # ops) = m # fifo_puts ops"
| "fifo_puts (Get # ops) = fifo_puts ops"

text \<open>The specification: what a run delivers and leaves, when no operation would block.\<close>

fun fifo_spec :: "nat \<Rightarrow> 'm fifo_op list \<Rightarrow> 'm list \<Rightarrow> ('m list \<times> 'm list) option" where
  "fifo_spec n [] q = Some ([], q)"
| "fifo_spec n (Put m # ops) q = (if length q < n then fifo_spec n ops (q @ [m]) else None)"
| "fifo_spec n (Get # ops) q =
     (case q of [] \<Rightarrow> None
      | m # q' \<Rightarrow> map_option (\<lambda>(out, r). (m # out, r)) (fifo_spec n ops q'))"

text \<open>The same run on an object with operations \<open>put\<close> and \<open>get\<close>.\<close>

fun fifo_run ::
  "('m \<Rightarrow> 's \<Rightarrow> 's outcome) \<Rightarrow> ('s \<Rightarrow> ('m \<times> 's) outcome) \<Rightarrow> 'm fifo_op list \<Rightarrow> 's \<Rightarrow> ('m list \<times> 's) outcome" where
  "fifo_run put get [] s = Returned ([], s)"
| "fifo_run put get (Put m # ops) s = bind_outcome (put m s) (fifo_run put get ops)"
| "fifo_run put get (Get # ops) s =
     bind_outcome (get s)
       (\<lambda>(m, s'). bind_outcome (fifo_run put get ops s') (\<lambda>(out, s''). Returned (m # out, s'')))"

lemma fifo_spec_in_order: "fifo_spec n ops q = Some (out, q') \<Longrightarrow> out @ q' = q @ fifo_puts ops"
  by (induction n ops q arbitrary: out q' rule: fifo_spec.induct) (auto split: if_splits list.splits)

lemma fifo_spec_bounded: "fifo_spec n ops q = Some (out, q') \<Longrightarrow> length q \<le> n \<Longrightarrow> length q' \<le> n"
  by (induction n ops q arbitrary: out q' rule: fifo_spec.induct) (auto split: if_splits list.splits)

lemma fifo_puts_map_Put [simp]: "fifo_puts (map Put ms @ replicate k Get) = ms"
  by (induction ms) (induction k, simp_all)

lemma fifo_spec_drain:
  "length q + length ms \<le> n \<Longrightarrow>
   fifo_spec n (map Put ms @ replicate (length q + length ms) Get) q = Some (q @ ms, [])"
proof (induction ms arbitrary: q)
  case Nil
  show ?case by (induction q) simp_all
next
  case (Cons m ms)
  then show ?case using Cons.IH [of "q @ [m]"] by simp
qed

locale bounded_fifo =
  fixes inv :: "'s \<Rightarrow> bool"
    and contents :: "'s \<Rightarrow> 'm list"
    and cap :: "'s \<Rightarrow> nat"
    and ok :: "'s \<Rightarrow> 'm \<Rightarrow> bool"
    and put :: "'m \<Rightarrow> 's \<Rightarrow> 's outcome"
    and get :: "'s \<Rightarrow> ('m \<times> 's) outcome"
  assumes put_law: "inv s \<Longrightarrow> length (contents s) < cap s \<Longrightarrow> ok s m \<Longrightarrow>
      \<exists>s'. put m s = Returned s' \<and> inv s' \<and> contents s' = contents s @ [m] \<and>
           cap s' = cap s \<and> ok s' = ok s"
    and get_law: "inv s \<Longrightarrow> contents s = m # ms \<Longrightarrow>
      \<exists>s'. get s = Returned (m, s') \<and> inv s' \<and> contents s' = ms \<and> cap s' = cap s \<and> ok s' = ok s"
    and bound_law: "inv s \<Longrightarrow> length (contents s) \<le> cap s"
begin

lemma run_refines:
  assumes "fifo_spec (cap s) ops (contents s) = Some (out, q)" "inv s" "\<forall>m\<in>set (fifo_puts ops). ok s m"
  shows "\<exists>s'. fifo_run put get ops s = Returned (out, s') \<and> inv s' \<and> contents s' = q \<and> cap s' = cap s"
  using assms
proof (induction ops arbitrary: s out)
  case Nil
  then show ?case by simp
next
  case (Cons op ops)
  show ?case
  proof (cases op)
    case (Put m)
    then have room: "length (contents s) < cap s" using Cons.prems(1) by (simp split: if_splits)
    obtain s1 where s1: "put m s = Returned s1" "inv s1" "contents s1 = contents s @ [m]"
      "cap s1 = cap s" "ok s1 = ok s"
      using put_law [OF Cons.prems(2) room] Cons.prems(3) Put by auto
    have "\<exists>s'. fifo_run put get ops s1 = Returned (out, s') \<and> inv s' \<and> contents s' = q \<and> cap s' = cap s1"
      by (rule Cons.IH) (use s1 room Put Cons.prems in auto)
    then show ?thesis using s1 Put by simp
  next
    case Get
    then obtain m ms out' where q: "contents s = m # ms" "fifo_spec (cap s) ops ms = Some (out', q)"
      "out = m # out'" using Cons.prems(1) by (auto split: list.splits)
    obtain s1 where s1: "get s = Returned (m, s1)" "inv s1" "contents s1 = ms" "cap s1 = cap s" "ok s1 = ok s"
      using get_law [OF Cons.prems(2) q(1)] by auto
    have "\<exists>s'. fifo_run put get ops s1 = Returned (out', s') \<and> inv s' \<and> contents s' = q \<and> cap s' = cap s1"
      by (rule Cons.IH) (use s1 q Get Cons.prems in auto)
    then show ?thesis using s1 Get q by auto
  qed
qed

lemma run_in_order:
  assumes "fifo_spec (cap s) ops (contents s) = Some (out, q)" "inv s" "\<forall>m\<in>set (fifo_puts ops). ok s m"
  shows "\<exists>s'. fifo_run put get ops s = Returned (out, s') \<and> out @ contents s' = contents s @ fifo_puts ops"
  using run_refines [OF assms] fifo_spec_in_order [OF assms(1)] by auto

lemma drain:
  assumes "inv s" "contents s = []" "length ms \<le> cap s" "\<forall>m\<in>set ms. ok s m"
  shows "\<exists>s'. fifo_run put get (map Put ms @ replicate (length ms) Get) s = Returned (ms, s') \<and>
              inv s' \<and> contents s' = []"
proof -
  have "fifo_spec (cap s) (map Put ms @ replicate (length ms) Get) (contents s) = Some (ms, [])"
    using fifo_spec_drain [of "[]" ms "cap s"] assms(2,3) by simp
  from run_refines [OF this assms(1)] show ?thesis using assms(4) by auto
qed

end

end
