(* ===== verification/Buffer.thy ===== *)
theory Buffer
  imports Fifo Semaphore
begin

text \<open>
  APEX\_BUFFER\_TYPE of src/BUFFER.cc and include/ACM/INTERNAL/BUFFER.h: a ring of
  \<open>BUFFER_MAX_NB_MESSAGE\<close> slots guarded by a semaphore of messages, a semaphore of free slots
  and a mutex.  A slot is a block of \<open>BUFFER_MAX_MESSAGE_SIZE\<close> bytes with the length of its
  message.  The critical sections of SEND\_MESSAGE and RECEIVE\_MESSAGE are definitions
  of their own; both operations wait on a semaphore first and then run one.
\<close>

record PAYLOAD_TYPE =
  ACTUAL_LOAD :: "byte list"
  MSG_LENGTH :: int

record APEX_BUFFER_TYPE =
  BUFFER_NAME :: NAME_TYPE
  BUFFER_ID :: nat
  BUFFER_MAX_MESSAGE_SIZE :: int
  BUFFER_MAX_NB_MESSAGE :: int
  CURRENT_MESSAGE_SIZE :: int
  BUFFER_HEAD :: int
  BUFFER_TAIL :: int
  PAYLOAD :: "PAYLOAD_TYPE list"
  BUFFER_READ_SEMAPHORE :: SEMAPHORE
  BUFFER_WRITE_SEMAPHORE :: SEMAPHORE

text \<open>\<open>heap\<close> is what the blocks handed out by malloc hold: the constructor does not clear them.\<close>

definition BUFFER_new :: "NAME_TYPE \<Rightarrow> nat \<Rightarrow> int \<Rightarrow> int \<Rightarrow> PAYLOAD_TYPE list \<Rightarrow> APEX_BUFFER_TYPE" where
  "BUFFER_new NAME ID sz MAX_NB_MESSAGE heap =
     \<lparr>BUFFER_NAME = NAME, BUFFER_ID = ID, BUFFER_MAX_MESSAGE_SIZE = sz,
      BUFFER_MAX_NB_MESSAGE = MAX_NB_MESSAGE, CURRENT_MESSAGE_SIZE = 0,
      BUFFER_HEAD = 0, BUFFER_TAIL = 0, PAYLOAD = heap,
      BUFFER_READ_SEMAPHORE = SEMAPHORE_new 0 MAX_NB_MESSAGE,
      BUFFER_WRITE_SEMAPHORE = SEMAPHORE_new MAX_NB_MESSAGE MAX_NB_MESSAGE\<rparr>"

text \<open>The ring index after \<open>i\<close>: \<open>i += 1; if (i == BUFFER_MAX_NB_MESSAGE) i = 0;\<close>.\<close>

definition ring_next :: "int \<Rightarrow> int \<Rightarrow> int" where
  "ring_next n i = (if i + 1 = n then 0 else i + 1)"

text \<open>RECEIVE\_MESSAGE under the mutex: the message copied out, the slot wiped with the
  character 0, the head moved on and a free slot posted.\<close>

definition receive_section :: "APEX_BUFFER_TYPE \<Rightarrow> (byte list \<times> APEX_BUFFER_TYPE) outcome" where
  "receive_section b =
     (let slot = PAYLOAD b ! nat (BUFFER_HEAD b) in
      bind_outcome (c_read (ACTUAL_LOAD slot) (MSG_LENGTH slot)) (\<lambda>message.
      bind_outcome (c_memset (ACTUAL_LOAD slot) char_0 (BUFFER_MAX_MESSAGE_SIZE b)) (\<lambda>wiped.
      Returned (message,
        b\<lparr>PAYLOAD := (PAYLOAD b)[nat (BUFFER_HEAD b) := \<lparr>ACTUAL_LOAD = wiped, MSG_LENGTH = 0\<rparr>],
          BUFFER_HEAD := ring_next (BUFFER_MAX_NB_MESSAGE b) (BUFFER_HEAD b),
          CURRENT_MESSAGE_SIZE := CURRENT_MESSAGE_SIZE b - 1,
          BUFFER_WRITE_SEMAPHORE := snd (SEMAPHORE_post (BUFFER_WRITE_SEMAPHORE b))\<rparr>))))"

text \<open>SEND\_MESSAGE under the mutex.  The length is not compared with the size of the slot.\<close>

definition send_section :: "byte list \<Rightarrow> int \<Rightarrow> APEX_BUFFER_TYPE \<Rightarrow> APEX_BUFFER_TYPE outcome" where
  "send_section MESSAGE_ADDR len b =
     (let slot = PAYLOAD b ! nat (BUFFER_TAIL b) in
      bind_outcome (c_memcpy (ACTUAL_LOAD slot) MESSAGE_ADDR len) (\<lambda>load.
      Returned (b\<lparr>PAYLOAD := (PAYLOAD b)[nat (BUFFER_TAIL b) := \<lparr>ACTUAL_LOAD = load, MSG_LENGTH = len\<rparr>],
          CURRENT_MESSAGE_SIZE := CURRENT_MESSAGE_SIZE b + 1,
          BUFFER_TAIL := ring_next (BUFFER_MAX_NB_MESSAGE b) (BUFFER_TAIL b),
          BUFFER_READ_SEMAPHORE := snd (SEMAPHORE_post (BUFFER_READ_SEMAPHORE b))\<rparr>)))"

text \<open>The operations.  The message and its length are out-parameters: \<^const>\<open>None\<close> when the code
  does not write them.\<close>

definition RECEIVE_MESSAGE ::
  "SYSTEM_TIMESPEC \<Rightarrow> SYSTEM_TIME_TYPE \<Rightarrow> APEX_BUFFER_TYPE wakeup list \<Rightarrow> APEX_BUFFER_TYPE \<Rightarrow>
   (RETURN_CODE_TYPE \<times> byte list option \<times> APEX_BUFFER_TYPE) outcome" where
  "RECEIVE_MESSAGE now TIME_OUT ws b =
     bind_outcome (SEMAPHORE_wait BUFFER_READ_SEMAPHORE BUFFER_READ_SEMAPHORE_update now TIME_OUT ws b)
       (\<lambda>(rc, b1).
          if rc = TIMED_OUT then Returned (if TIME_OUT = 0 then NOT_AVAILABLE else rc, None, b1)
          else bind_outcome (receive_section b1) (\<lambda>(m, b2). Returned (NO_ERROR, Some m, b2)))"

definition SEND_MESSAGE ::
  "SYSTEM_TIMESPEC \<Rightarrow> byte list \<Rightarrow> int \<Rightarrow> SYSTEM_TIME_TYPE \<Rightarrow> APEX_BUFFER_TYPE wakeup list \<Rightarrow>
   APEX_BUFFER_TYPE \<Rightarrow> (RETURN_CODE_TYPE \<times> APEX_BUFFER_TYPE) outcome" where
  "SEND_MESSAGE now MESSAGE_ADDR len TIME_OUT ws b =
     bind_outcome (SEMAPHORE_wait BUFFER_WRITE_SEMAPHORE BUFFER_WRITE_SEMAPHORE_update now TIME_OUT ws b)
       (\<lambda>(rc, b1).
          if rc = TIMED_OUT then Returned (if TIME_OUT = 0 then NOT_AVAILABLE else rc, b1)
          else bind_outcome (send_section MESSAGE_ADDR len b1) (\<lambda>b2. Returned (NO_ERROR, b2)))"

record BUFFER_STATUS_TYPE =
  NB_MESSAGE :: int
  MAX_NB_MESSAGE :: int
  MAX_MESSAGE_SIZE :: int
  WAITING_PROCESSES :: "64 word"

definition BUFFER_GET_STATUS :: "APEX_BUFFER_TYPE \<Rightarrow> RETURN_CODE_TYPE \<times> BUFFER_STATUS_TYPE" where
  "BUFFER_GET_STATUS b =
     (NO_ERROR,
      \<lparr>NB_MESSAGE = CURRENT_MESSAGE_SIZE b, MAX_NB_MESSAGE = BUFFER_MAX_NB_MESSAGE b,
       MAX_MESSAGE_SIZE = BUFFER_MAX_MESSAGE_SIZE b,
       WAITING_PROCESSES = APEX_UNSIGNED_WAITING_COUNTER (BUFFER_READ_SEMAPHORE b)
                         + APEX_UNSIGNED_WAITING_COUNTER (BUFFER_WRITE_SEMAPHORE b)\<rparr>)"

section \<open>The ring as a list\<close>

definition ring_index :: "APEX_BUFFER_TYPE \<Rightarrow> nat \<Rightarrow> nat" where
  "ring_index b k = (nat (BUFFER_HEAD b) + k) mod nat (BUFFER_MAX_NB_MESSAGE b)"

definition slot_message :: "PAYLOAD_TYPE \<Rightarrow> byte list" where
  "slot_message p = take (nat (MSG_LENGTH p)) (ACTUAL_LOAD p)"

definition buffer_contents :: "APEX_BUFFER_TYPE \<Rightarrow> byte list list" where
  "buffer_contents b =
     map (\<lambda>k. slot_message (PAYLOAD b ! ring_index b k)) [0..<nat (CURRENT_MESSAGE_SIZE b)]"

text \<open>The geometry of the ring; the semaphores are the subject of \<open>buffer_sems\<close>.\<close>

definition ring_inv :: "APEX_BUFFER_TYPE \<Rightarrow> bool" where
  "ring_inv b \<longleftrightarrow>
     0 < BUFFER_MAX_NB_MESSAGE b \<and> 0 \<le> BUFFER_MAX_MESSAGE_SIZE b \<and>
     length (PAYLOAD b) = nat (BUFFER_MAX_NB_MESSAGE b) \<and>
     (\<forall>p\<in>set (PAYLOAD b). int (length (ACTUAL_LOAD p)) = BUFFER_MAX_MESSAGE_SIZE b) \<and>
     0 \<le> BUFFER_HEAD b \<and> BUFFER_HEAD b < BUFFER_MAX_NB_MESSAGE b \<and>
     0 \<le> CURRENT_MESSAGE_SIZE b \<and> CURRENT_MESSAGE_SIZE b \<le> BUFFER_MAX_NB_MESSAGE b \<and>
     BUFFER_TAIL b = int (ring_index b (nat (CURRENT_MESSAGE_SIZE b))) \<and>
     (\<forall>k<nat (CURRENT_MESSAGE_SIZE b).
        0 \<le> MSG_LENGTH (PAYLOAD b ! ring_index b k) \<and>
        MSG_LENGTH (PAYLOAD b ! ring_index b k) \<le> BUFFER_MAX_MESSAGE_SIZE b)"

definition buffer_sems :: "int \<Rightarrow> int \<Rightarrow> APEX_BUFFER_TYPE \<Rightarrow> bool" where
  "buffer_sems r w b \<longleftrightarrow>
     maximumvalue (BUFFER_READ_SEMAPHORE b) = BUFFER_MAX_NB_MESSAGE b \<and>
     maximumvalue (BUFFER_WRITE_SEMAPHORE b) = BUFFER_MAX_NB_MESSAGE b \<and>
     0 \<le> counter (BUFFER_READ_SEMAPHORE b) \<and> 0 \<le> counter (BUFFER_WRITE_SEMAPHORE b) \<and>
     counter (BUFFER_READ_SEMAPHORE b) + r = CURRENT_MESSAGE_SIZE b \<and>
     counter (BUFFER_WRITE_SEMAPHORE b) + w = BUFFER_MAX_NB_MESSAGE b - CURRENT_MESSAGE_SIZE b"

lemma ring_next_mod: "0 \<le> i \<Longrightarrow> i < n \<Longrightarrow> ring_next n i = (i + 1) mod n"
  by (simp add: ring_next_def)

lemma ring_next_nat:
  assumes "k < nat n"
  shows "ring_next n (int k) = int (Suc k mod nat n)"
proof (cases "Suc k = nat n")
  case True
  then show ?thesis using assms by (simp add: ring_next_def)
next
  case False
  then show ?thesis using assms by (auto simp: ring_next_def)
qed

lemma ring_index_less: "ring_inv b \<Longrightarrow> ring_index b k < nat (BUFFER_MAX_NB_MESSAGE b)"
  by (simp add: ring_index_def ring_inv_def)

lemma ring_index_inj_le:
  assumes "i \<le> j" "j < n" "(h + i) mod n = (h + j) mod (n::nat)"
  shows "i = j"
proof -
  have "n dvd (h + j) - (h + i)" using assms by (metis add_left_mono mod_eq_dvd_iff_nat)
  then show ?thesis using assms(1,2) by (auto dest: dvd_imp_le)
qed

lemma ring_index_inj:
  "i < n \<Longrightarrow> j < n \<Longrightarrow> (h + i) mod n = (h + j) mod (n::nat) \<Longrightarrow> i = j"
  using ring_index_inj_le [of i j n h] ring_index_inj_le [of j i n h] by (metis linorder_linear)

lemma slot_length:
  "ring_inv b \<Longrightarrow> k < nat (BUFFER_MAX_NB_MESSAGE b) \<Longrightarrow>
   int (length (ACTUAL_LOAD (PAYLOAD b ! k))) = BUFFER_MAX_MESSAGE_SIZE b"
  by (simp add: ring_inv_def)

lemma length_buffer_contents [simp]: "length (buffer_contents b) = nat (CURRENT_MESSAGE_SIZE b)"
  by (simp add: buffer_contents_def)

section \<open>The critical sections on the list\<close>

lemma buffer_put:
  assumes inv: "ring_inv b" and room: "CURRENT_MESSAGE_SIZE b < BUFFER_MAX_NB_MESSAGE b"
    and len: "0 \<le> len" "len \<le> BUFFER_MAX_MESSAGE_SIZE b" "len \<le> int (length m)"
  obtains b' where "send_section m len b = Returned b'" "ring_inv b'"
    "buffer_contents b' = buffer_contents b @ [take (nat len) m]"
    "BUFFER_MAX_NB_MESSAGE b' = BUFFER_MAX_NB_MESSAGE b"
    "BUFFER_MAX_MESSAGE_SIZE b' = BUFFER_MAX_MESSAGE_SIZE b"
    "CURRENT_MESSAGE_SIZE b' = CURRENT_MESSAGE_SIZE b + 1"
    "BUFFER_READ_SEMAPHORE b' = snd (SEMAPHORE_post (BUFFER_READ_SEMAPHORE b))"
    "BUFFER_WRITE_SEMAPHORE b' = BUFFER_WRITE_SEMAPHORE b"
proof -
  define n c t slot where "n = nat (BUFFER_MAX_NB_MESSAGE b)" and "c = nat (CURRENT_MESSAGE_SIZE b)"
    and "t = nat (BUFFER_TAIL b)" and "slot = PAYLOAD b ! nat (BUFFER_TAIL b)"
  define load where "load = take (nat len) m @ drop (nat len) (ACTUAL_LOAD slot)"
  have t: "t = ring_index b c" "t < n" "BUFFER_TAIL b = int t"
    using inv ring_index_less [OF inv, of c] by (simp_all add: ring_inv_def t_def c_def n_def)
  have c: "c < n" "CURRENT_MESSAGE_SIZE b = int c" "BUFFER_MAX_NB_MESSAGE b = int n"
    using inv room by (auto simp: ring_inv_def c_def n_def)
  have slen: "int (length (ACTUAL_LOAD slot)) = BUFFER_MAX_MESSAGE_SIZE b"
    using slot_length [OF inv, of t] t(2) by (simp add: slot_def t_def n_def)
  define b' where "b' = b\<lparr>PAYLOAD := (PAYLOAD b)[t := \<lparr>ACTUAL_LOAD = load, MSG_LENGTH = len\<rparr>],
          CURRENT_MESSAGE_SIZE := CURRENT_MESSAGE_SIZE b + 1,
          BUFFER_TAIL := ring_next (BUFFER_MAX_NB_MESSAGE b) (BUFFER_TAIL b),
          BUFFER_READ_SEMAPHORE := snd (SEMAPHORE_post (BUFFER_READ_SEMAPHORE b))\<rparr>"
  have run: "send_section m len b = Returned b'"
    using len slen by (simp add: send_section_def c_memcpy_def b'_def load_def slot_def t_def)
  have idx: "ring_index b' k = ring_index b k" for k
    by (simp add: ring_index_def b'_def)
  have lp: "length (PAYLOAD b) = n" using inv by (simp add: ring_inv_def n_def)
  have old: "PAYLOAD b' ! ring_index b k = PAYLOAD b ! ring_index b k" if "k < c" for k
  proof -
    have "ring_index b k \<noteq> t"
      using ring_index_inj [of k n c "nat (BUFFER_HEAD b)"] that c(1) t(1)
      by (auto simp: ring_index_def n_def [symmetric])
    then show ?thesis by (simp add: b'_def)
  qed
  have new: "PAYLOAD b' ! ring_index b c = \<lparr>ACTUAL_LOAD = load, MSG_LENGTH = len\<rparr>"
    using t lp by (simp add: b'_def)
  have msg: "slot_message \<lparr>ACTUAL_LOAD = load, MSG_LENGTH = len\<rparr> = take (nat len) m"
    using len by (simp add: slot_message_def load_def)
  have "ring_next (int n) (int t) = int (ring_index b (Suc c))"
    using ring_next_nat [of t "int n"] t(1,2) by (simp add: ring_index_def n_def mod_Suc_eq)
  then have tail: "BUFFER_TAIL b' = int (ring_index b' (nat (CURRENT_MESSAGE_SIZE b')))"
    using t(3) c by (simp add: b'_def idx ring_index_def nat_add_distrib)
  have cur: "nat (CURRENT_MESSAGE_SIZE b') = Suc c" using c by (simp add: b'_def)
  have loads: "\<forall>p\<in>set (PAYLOAD b'). int (length (ACTUAL_LOAD p)) = BUFFER_MAX_MESSAGE_SIZE b"
    unfolding b'_def using inv len slen
    by (auto simp: ring_inv_def load_def dest!: set_update_subset_insert [THEN subsetD])
  have lens: "0 \<le> MSG_LENGTH (PAYLOAD b' ! ring_index b' k) \<and>
      MSG_LENGTH (PAYLOAD b' ! ring_index b' k) \<le> BUFFER_MAX_MESSAGE_SIZE b" if "k < Suc c" for k
    using that inv len old new by (cases "k = c") (auto simp: idx ring_inv_def c_def)
  have frame: "BUFFER_MAX_NB_MESSAGE b' = BUFFER_MAX_NB_MESSAGE b" "BUFFER_HEAD b' = BUFFER_HEAD b"
    "BUFFER_MAX_MESSAGE_SIZE b' = BUFFER_MAX_MESSAGE_SIZE b" "length (PAYLOAD b') = length (PAYLOAD b)"
    "CURRENT_MESSAGE_SIZE b' = CURRENT_MESSAGE_SIZE b + 1"
    by (simp_all add: b'_def)
  have inv': "ring_inv b'"
    unfolding ring_inv_def cur frame(1,2,3,4)
    using inv room tail [unfolded cur] loads lens frame(5) by (auto simp: ring_inv_def)
  have "buffer_contents b' = buffer_contents b @ [take (nat len) m]"
    using old new msg by (simp add: buffer_contents_def cur idx c_def [symmetric])
  with run inv' show thesis by (rule that) (simp_all add: b'_def)
qed

lemma buffer_get:
  assumes inv: "ring_inv b" and some: "0 < CURRENT_MESSAGE_SIZE b"
  obtains m b' where "receive_section b = Returned (m, b')" "ring_inv b'"
    "buffer_contents b = m # buffer_contents b'"
    "BUFFER_MAX_NB_MESSAGE b' = BUFFER_MAX_NB_MESSAGE b"
    "BUFFER_MAX_MESSAGE_SIZE b' = BUFFER_MAX_MESSAGE_SIZE b"
    "CURRENT_MESSAGE_SIZE b' = CURRENT_MESSAGE_SIZE b - 1"
    "BUFFER_WRITE_SEMAPHORE b' = snd (SEMAPHORE_post (BUFFER_WRITE_SEMAPHORE b))"
    "BUFFER_READ_SEMAPHORE b' = BUFFER_READ_SEMAPHORE b"
proof -
  define n c h slot where "n = nat (BUFFER_MAX_NB_MESSAGE b)" and "c = nat (CURRENT_MESSAGE_SIZE b)"
    and "h = nat (BUFFER_HEAD b)" and "slot = PAYLOAD b ! nat (BUFFER_HEAD b)"
  define wiped where "wiped = replicate (nat (BUFFER_MAX_MESSAGE_SIZE b)) char_0"
  have h: "h = ring_index b 0" "h < n" "BUFFER_HEAD b = int h"
    using inv by (auto simp: ring_inv_def ring_index_def h_def n_def)
  obtain d where d: "c = Suc d" using some by (cases c) (auto simp: c_def)
  have c: "c \<le> n" "CURRENT_MESSAGE_SIZE b = int c" "BUFFER_MAX_NB_MESSAGE b = int n"
    using inv by (auto simp: ring_inv_def c_def n_def)
  have slen: "int (length (ACTUAL_LOAD slot)) = BUFFER_MAX_MESSAGE_SIZE b"
    using slot_length [OF inv, of h] h(2) by (simp add: slot_def h_def n_def)
  have len: "0 \<le> MSG_LENGTH slot" "MSG_LENGTH slot \<le> BUFFER_MAX_MESSAGE_SIZE b"
    using inv d h(1) by (auto simp: ring_inv_def c_def slot_def h_def)
  have size: "0 \<le> BUFFER_MAX_MESSAGE_SIZE b" using inv by (simp add: ring_inv_def)
  define b' where "b' = b\<lparr>PAYLOAD := (PAYLOAD b)[h := \<lparr>ACTUAL_LOAD = wiped, MSG_LENGTH = 0\<rparr>],
          BUFFER_HEAD := ring_next (BUFFER_MAX_NB_MESSAGE b) (BUFFER_HEAD b),
          CURRENT_MESSAGE_SIZE := CURRENT_MESSAGE_SIZE b - 1,
          BUFFER_WRITE_SEMAPHORE := snd (SEMAPHORE_post (BUFFER_WRITE_SEMAPHORE b))\<rparr>"
  have run: "receive_section b = Returned (slot_message slot, b')"
    using len slen size
    by (simp add: receive_section_def c_read_def c_memset_def b'_def wiped_def slot_def [symmetric]
        slot_message_def h_def)
  have head: "BUFFER_HEAD b' = int (Suc h mod n)"
    using ring_next_nat [of h "int n"] h c by (simp add: b'_def)
  have idx: "ring_index b' k = ring_index b (Suc k)" for k
    using head c(3) by (simp add: ring_index_def b'_def h_def [symmetric] n_def [symmetric] mod_simps)
  have cur: "nat (CURRENT_MESSAGE_SIZE b') = d" using c d by (simp add: b'_def)
  have old: "PAYLOAD b' ! ring_index b (Suc k) = PAYLOAD b ! ring_index b (Suc k)" if "k < d" for k
  proof -
    have "ring_index b (Suc k) \<noteq> h"
      using ring_index_inj [of "Suc k" n 0 "nat (BUFFER_HEAD b)"] that c(1) d h(1)
      by (auto simp: ring_index_def n_def [symmetric])
    then show ?thesis by (simp add: b'_def)
  qed
  have loads: "\<forall>p\<in>set (PAYLOAD b'). int (length (ACTUAL_LOAD p)) = BUFFER_MAX_MESSAGE_SIZE b"
    unfolding b'_def using inv size
    by (auto simp: ring_inv_def wiped_def dest!: set_update_subset_insert [THEN subsetD])
  have lens: "0 \<le> MSG_LENGTH (PAYLOAD b' ! ring_index b' k) \<and>
      MSG_LENGTH (PAYLOAD b' ! ring_index b' k) \<le> BUFFER_MAX_MESSAGE_SIZE b" if "k < d" for k
    using that inv old d by (auto simp: idx ring_inv_def c_def [symmetric])
  have tail: "BUFFER_TAIL b' = int (ring_index b' (nat (CURRENT_MESSAGE_SIZE b')))"
    using inv d by (simp add: cur idx ring_inv_def c_def [symmetric]) (simp add: b'_def)
  have hd: "0 \<le> BUFFER_HEAD b'" "BUFFER_HEAD b' < int n" using head h(2) by auto
  have frame: "BUFFER_MAX_NB_MESSAGE b' = BUFFER_MAX_NB_MESSAGE b"
    "BUFFER_MAX_MESSAGE_SIZE b' = BUFFER_MAX_MESSAGE_SIZE b" "length (PAYLOAD b') = length (PAYLOAD b)"
    "CURRENT_MESSAGE_SIZE b' = CURRENT_MESSAGE_SIZE b - 1"
    by (simp_all add: b'_def)
  have inv': "ring_inv b'"
    unfolding ring_inv_def cur frame(1,2,3)
    using inv some tail [unfolded cur] loads lens frame(4) hd c(3) by (auto simp: ring_inv_def)
  have "buffer_contents b = slot_message slot # buffer_contents b'"
  proof -
    have "buffer_contents b = map (\<lambda>k. slot_message (PAYLOAD b ! ring_index b k)) (0 # map Suc [0..<d])"
      by (simp add: buffer_contents_def c_def [symmetric] d upt_conv_Cons map_Suc_upt del: upt_Suc)
    then show ?thesis
      using old h(1) by (simp add: buffer_contents_def cur idx slot_def h_def [symmetric])
  qed
  with run inv' show thesis by (rule that) (simp_all add: b'_def)
qed

section \<open>The bounded FIFO the buffer provides\<close>

definition buffer_ok :: "APEX_BUFFER_TYPE \<Rightarrow> byte list \<Rightarrow> bool" where
  "buffer_ok b m \<longleftrightarrow> int (length m) \<le> BUFFER_MAX_MESSAGE_SIZE b"

definition buffer_send :: "byte list \<Rightarrow> APEX_BUFFER_TYPE \<Rightarrow> APEX_BUFFER_TYPE outcome" where
  "buffer_send m b = send_section m (int (length m)) b"

interpretation buffer_fifo: bounded_fifo
  ring_inv buffer_contents "\<lambda>b. nat (BUFFER_MAX_NB_MESSAGE b)" buffer_ok buffer_send receive_section
proof
  fix b m assume "ring_inv b" "length (buffer_contents b) < nat (BUFFER_MAX_NB_MESSAGE b)" "buffer_ok b m"
  then show "\<exists>b'. buffer_send m b = Returned b' \<and> ring_inv b' \<and>
      buffer_contents b' = buffer_contents b @ [m] \<and>
      nat (BUFFER_MAX_NB_MESSAGE b') = nat (BUFFER_MAX_NB_MESSAGE b) \<and> buffer_ok b' = buffer_ok b"
    unfolding buffer_send_def
    by (auto simp: buffer_ok_def fun_eq_iff intro: buffer_put [of b "int (length m)" m])
next
  fix b m ms assume "ring_inv b" "buffer_contents b = m # ms"
  moreover from this(2) have "0 < CURRENT_MESSAGE_SIZE b"
    using length_buffer_contents [of b] by auto
  ultimately show "\<exists>b'. receive_section b = Returned (m, b') \<and> ring_inv b' \<and> buffer_contents b' = ms \<and>
      nat (BUFFER_MAX_NB_MESSAGE b') = nat (BUFFER_MAX_NB_MESSAGE b) \<and> buffer_ok b' = buffer_ok b"
    by (auto simp: buffer_ok_def fun_eq_iff intro: buffer_get [of b])
next
  fix b assume "ring_inv b"
  then show "length (buffer_contents b) \<le> nat (BUFFER_MAX_NB_MESSAGE b)"
    by (simp add: ring_inv_def nat_mono)
qed

lemma ring_inv_new:
  "0 < n \<Longrightarrow> 0 \<le> sz \<Longrightarrow> length heap = nat n \<Longrightarrow>
   \<forall>p\<in>set heap. int (length (ACTUAL_LOAD p)) = sz \<Longrightarrow>
   ring_inv (BUFFER_new name i sz n heap) \<and> buffer_contents (BUFFER_new name i sz n heap) = []"
  by (simp add: ring_inv_def BUFFER_new_def ring_index_def buffer_contents_def)

lemma buffer_sems_new: "0 < n \<Longrightarrow> buffer_sems 0 0 (BUFFER_new name i sz n heap)"
  by (simp add: buffer_sems_def BUFFER_new_def SEMAPHORE_new_def)

end
