(* ===== verification/SamplingPort.thy ===== *)
theory SamplingPort
  imports Prelude
begin

text \<open>
  SAMPLING\_PORT\_HELPER of src/SAMPLING\_PORT.cc and
  include/ACM/INTERNAL/SAMPLING\_PORT.h: a port keeps its last message, with the time it was
  written, in a block of shared memory.  The block is mapped with room for
  \<open>S_MAX_MESSAGE_SIZE\<close> bytes of data, so an access beyond them is undefined.  The time and
  the size travel through sockets as the eight bytes of their 64-bit representation
  (least significant first, the order of the machines the program is built for).
\<close>

section \<open>Eight-byte integers\<close>

definition le64_encode :: "64 word \<Rightarrow> byte list" where
  "le64_encode w = map (\<lambda>i. ucast (drop_bit (8 * i) w)) [0..<8]"

fun le_value :: "byte list \<Rightarrow> int" where
  "le_value [] = 0"
| "le_value (b # bs) = uint b + 256 * le_value bs"

definition le64_decode :: "byte list \<Rightarrow> 64 word" where
  "le64_decode bs = word_of_int (le_value (take 8 bs))"

lemma le_value_append: "le_value (xs @ ys) = le_value xs + 256 ^ length xs * le_value ys"
  by (induction xs) (simp_all add: algebra_simps)

lemma uint_byte_of: "uint (ucast (drop_bit k w) :: byte) = (uint (w :: 64 word) div 2 ^ k) mod 256"
proof -
  have "uint (ucast (drop_bit k w) :: byte) = uint (drop_bit k w) mod 256"
    by (simp add: unsigned_ucast_eq take_bit_eq_mod)
  also have "uint (drop_bit k w) = uint w div 2 ^ k"
    unfolding unsigned_drop_bit_eq
    using uint_lt2p [of w] by (simp add: drop_bit_eq_div take_bit_int_eq_self)
  finally show ?thesis .
qed

lemma le_value_bytes:
  "le_value (map (\<lambda>i. ucast (drop_bit (8 * i) w)) [0..<n]) = uint (w :: 64 word) mod 256 ^ n"
proof (induction n)
  case (Suc n)
  have "uint w mod 256 ^ Suc n = uint w mod 256 ^ n + 256 ^ n * ((uint w div 256 ^ n) mod 256)"
    using zmod_zmult2_eq [of 256 "uint w" "256 ^ n"] by (simp add: mult.commute)
  moreover have "uint (ucast (drop_bit (8 * n) w) :: byte) = (uint w div 256 ^ n) mod 256"
    by (simp add: uint_byte_of power_mult)
  ultimately show ?case by (simp add: Suc le_value_append)
qed simp

lemma length_le64_encode [simp]: "length (le64_encode w) = 8"
  by (simp add: le64_encode_def)

lemma le64_roundtrip: "le64_decode (le64_encode w @ rest) = w"
proof -
  have "uint w < 256 ^ 8" using uint_lt2p [of w] by simp
  then have "le_value (le64_encode w) = uint w"
    unfolding le64_encode_def le_value_bytes by simp
  then show ?thesis by (simp add: le64_decode_def)
qed

section \<open>The port\<close>

datatype DIRECTION_TYPE = PORT_SOURCE | PORT_DEST | PORT_SOURCE_DEST

datatype VALIDITY_TYPE = INVALID | VALID

definition SYSTEM_LIMIT_MAX_SAMPLING_MESSAGE_SIZE :: int where
  "SYSTEM_LIMIT_MAX_SAMPLING_MESSAGE_SIZE = 262144"

record SAMPLING_DATA =
  ABSOLUTE_TIME_WRITTEN :: int
  MESSAGE_SIZE :: int
  data :: "byte list"

record SAMPLING_PORT_HELPER =
  S_NAME :: NAME_TYPE
  S_MAX_MESSAGE_SIZE :: int
  S_PORT_DIRECTION :: DIRECTION_TYPE
  S_REFRESH_PERIOD :: SYSTEM_TIME_TYPE
  SAMPLING_DESCRIPTOR :: int
  S_REAL_MAX_MESSAGE_SIZE :: int
  S_EXTRA_MEMORY_REQUIRED :: int
  S_READY_OR_NOT :: bool
  LAST_VALIDITY :: VALIDITY_TYPE
  shared_memory :: SAMPLING_DATA

text \<open>What the system calls of the constructor answered: \<open>shm_open\<close> (a descriptor or -1),
  whether errno was EEXIST, and whether \<open>ftruncate\<close> and \<open>mmap\<close> succeeded with which memory.\<close>

record shm_answers =
  shm_descriptor :: int
  shm_eexist :: bool
  shm_truncated :: bool
  shm_mapped :: "SAMPLING_DATA option"

definition SAMPLING_PORT_new ::
  "NAME_TYPE \<Rightarrow> int \<Rightarrow> DIRECTION_TYPE \<Rightarrow> SYSTEM_TIME_TYPE \<Rightarrow> shm_answers \<Rightarrow> SAMPLING_DATA \<Rightarrow>
   RETURN_CODE_TYPE \<times> SAMPLING_PORT_HELPER" where
  "SAMPLING_PORT_new Name MAX_SIZE DIR REFRESH shm unmapped =
     (let p = \<lparr>S_NAME = Name, S_MAX_MESSAGE_SIZE = MAX_SIZE, S_PORT_DIRECTION = DIR,
               S_REFRESH_PERIOD = REFRESH, SAMPLING_DESCRIPTOR = -1,
               S_REAL_MAX_MESSAGE_SIZE = MAX_SIZE + 16, S_EXTRA_MEMORY_REQUIRED = 16,
               S_READY_OR_NOT = False, LAST_VALIDITY = VALID, shared_memory = unmapped\<rparr>;
          q = p\<lparr>SAMPLING_DESCRIPTOR := shm_descriptor shm\<rparr>
      in if MAX_SIZE > SYSTEM_LIMIT_MAX_SAMPLING_MESSAGE_SIZE then (INVALID_CONFIG, p)
         else if shm_descriptor shm = -1
           then (if shm_eexist shm then NO_ACTION else INVALID_CONFIG, q)
         else if \<not> shm_truncated shm then (NO_ACTION, q)
         else (case shm_mapped shm of
                 None \<Rightarrow> (NO_ACTION, q)
               | Some mem \<Rightarrow>
                   (NO_ERROR,
                    q\<lparr>S_READY_OR_NOT := True,
                      shared_memory :=
                        (if DIR = PORT_DEST then mem\<lparr>ABSOLUTE_TIME_WRITTEN := 0, MESSAGE_SIZE := 0\<rparr>
                         else mem)\<rparr>)))"

definition WRITE_SAMPLING_MESSAGE ::
  "int \<Rightarrow> byte list \<Rightarrow> int \<Rightarrow> SAMPLING_PORT_HELPER \<Rightarrow>
   (RETURN_CODE_TYPE \<times> SAMPLING_PORT_HELPER) outcome" where
  "WRITE_SAMPLING_MESSAGE now msg_ptr len p =
     (if \<not> S_READY_OR_NOT p then Returned (INVALID_MODE, p)
      else if S_PORT_DIRECTION p = PORT_DEST then Returned (INVALID_MODE, p)
      else if len > S_MAX_MESSAGE_SIZE p then Returned (INVALID_CONFIG, p)
      else bind_outcome (c_memcpy (data (shared_memory p)) msg_ptr len) (\<lambda>d.
        Returned (NO_ERROR,
          p\<lparr>shared_memory := \<lparr>ABSOLUTE_TIME_WRITTEN = now, MESSAGE_SIZE = len, data = d\<rparr>\<rparr>)))"

text \<open>\<open>READ_SAMPLING_MESSAGE\<close>: the return code and what it stores through its pointers, the
  length, the message and the validity (\<^const>\<open>None\<close> when it stores nothing).\<close>

record sampling_reply =
  reply_length :: "int option"
  reply_message :: "byte list option"
  reply_validity :: "VALIDITY_TYPE option"

definition READ_SAMPLING_MESSAGE ::
  "int \<Rightarrow> SAMPLING_PORT_HELPER \<Rightarrow>
   (RETURN_CODE_TYPE \<times> sampling_reply \<times> SAMPLING_PORT_HELPER) outcome" where
  "READ_SAMPLING_MESSAGE now p =
     (let none = \<lparr>reply_length = None, reply_message = None, reply_validity = None\<rparr>;
          mem = shared_memory p
      in if \<not> S_READY_OR_NOT p then Returned (INVALID_MODE, none, p)
         else if S_PORT_DIRECTION p = PORT_SOURCE then Returned (INVALID_MODE, none, p)
         else if MESSAGE_SIZE mem = 0 then
           Returned (NO_ACTION,
             \<lparr>reply_length = Some 0, reply_message = None, reply_validity = Some INVALID\<rparr>, p)
         else bind_outcome (c_read (data mem) (MESSAGE_SIZE mem)) (\<lambda>m.
           let AGE = now - ABSOLUTE_TIME_WRITTEN mem;
               v = (if AGE > S_REFRESH_PERIOD p then INVALID else VALID)
           in Returned (NO_ERROR,
                \<lparr>reply_length = Some (MESSAGE_SIZE mem), reply_message = Some m, reply_validity = Some v\<rparr>,
                p\<lparr>LAST_VALIDITY := v\<rparr>)))"

text \<open>\<open>READ_CONTENTS_TO_DATA_BUFFER\<close>: the bytes written from the start of the buffer.\<close>

definition READ_CONTENTS_TO_DATA_BUFFER ::
  "int \<Rightarrow> SAMPLING_PORT_HELPER \<Rightarrow> (RETURN_CODE_TYPE \<times> byte list) outcome" where
  "READ_CONTENTS_TO_DATA_BUFFER MAX_LEN p =
     (let mem = shared_memory p in
      if \<not> S_READY_OR_NOT p then Returned (INVALID_MODE, [])
      else if S_PORT_DIRECTION p = PORT_DEST then Returned (INVALID_MODE, [])
      else if MAX_LEN < S_REAL_MAX_MESSAGE_SIZE p then Returned (INVALID_PARAM, [])
      else bind_outcome (c_read (data mem) (MESSAGE_SIZE mem)) (\<lambda>m.
        Returned (NO_ERROR,
          le64_encode (word_of_int (ABSOLUTE_TIME_WRITTEN mem)) @
          le64_encode (word_of_int (MESSAGE_SIZE mem)) @ m)))"

text \<open>\<open>WRITE_CONTENTS_FROM_DATA_BUFFER\<close>: the size found in the buffer is compared neither with
  the length received nor with the room in the port.\<close>

definition WRITE_CONTENTS_FROM_DATA_BUFFER ::
  "byte list \<Rightarrow> int \<Rightarrow> SAMPLING_PORT_HELPER \<Rightarrow>
   (RETURN_CODE_TYPE \<times> SAMPLING_PORT_HELPER) outcome" where
  "WRITE_CONTENTS_FROM_DATA_BUFFER msg_ptr READ_LENGTH p =
     (if \<not> S_READY_OR_NOT p then Returned (INVALID_MODE, p)
      else if S_PORT_DIRECTION p = PORT_SOURCE then Returned (INVALID_MODE, p)
      else if READ_LENGTH < 16 then Returned (NO_ACTION, p)
      else if length msg_ptr < 16 then Undef
      else
        let t = sint (le64_decode msg_ptr);
            n = sint (le64_decode (drop 8 msg_ptr))
        in if n < 0 then Aborted
           else bind_outcome (c_memcpy (data (shared_memory p)) (drop 16 msg_ptr) n) (\<lambda>d.
             Returned (NO_ERROR,
               p\<lparr>shared_memory := \<lparr>ABSOLUTE_TIME_WRITTEN = t, MESSAGE_SIZE = n, data = d\<rparr>\<rparr>)))"

text \<open>The memory of a port that is not ready is not mapped.\<close>

definition COPY_CONTENTS_VERBATIM ::
  "SAMPLING_PORT_HELPER \<Rightarrow> SAMPLING_PORT_HELPER \<Rightarrow>
   (RETURN_CODE_TYPE \<times> SAMPLING_PORT_HELPER) outcome" where
  "COPY_CONTENTS_VERBATIM src dst =
     (if S_REAL_MAX_MESSAGE_SIZE src = S_REAL_MAX_MESSAGE_SIZE dst then
        if \<not> S_READY_OR_NOT src \<or> \<not> S_READY_OR_NOT dst then Undef
        else bind_outcome (c_memcpy (data (shared_memory dst)) (data (shared_memory src))
                        (MESSAGE_SIZE (shared_memory src))) (\<lambda>d.
          Returned (NO_ERROR,
            dst\<lparr>shared_memory :=
              \<lparr>ABSOLUTE_TIME_WRITTEN = ABSOLUTE_TIME_WRITTEN (shared_memory src),
               MESSAGE_SIZE = MESSAGE_SIZE (shared_memory src), data = d\<rparr>\<rparr>))
      else Returned (INVALID_CONFIG, dst))"

record SAMPLING_PORT_STATUS_TYPE =
  SP_REFRESH_PERIOD :: int
  SP_MAX_MESSAGE_SIZE :: int
  SP_PORT_DIRECTION :: PORT_DIRECTION_TYPE
  SP_LAST_MSG_VALIDITY :: VALIDITY_TYPE

definition SAMPLING_GET_STATUS ::
  "SAMPLING_PORT_HELPER \<Rightarrow> RETURN_CODE_TYPE \<times> SAMPLING_PORT_STATUS_TYPE option" where
  "SAMPLING_GET_STATUS p =
     (if \<not> S_READY_OR_NOT p then (INVALID_MODE, None)
      else (NO_ERROR, Some
        \<lparr>SP_REFRESH_PERIOD = S_REFRESH_PERIOD p, SP_MAX_MESSAGE_SIZE = S_MAX_MESSAGE_SIZE p,
         SP_PORT_DIRECTION = (if S_PORT_DIRECTION p = PORT_SOURCE then SOURCE else DESTINATION),
         SP_LAST_MSG_VALIDITY = LAST_VALIDITY p\<rparr>))"

section \<open>Invariant and message passing\<close>

definition sampling_inv :: "SAMPLING_PORT_HELPER \<Rightarrow> bool" where
  "sampling_inv p \<longleftrightarrow>
     S_REAL_MAX_MESSAGE_SIZE p = S_MAX_MESSAGE_SIZE p + 16 \<and>
     (S_READY_OR_NOT p \<longrightarrow>
        int (length (data (shared_memory p))) = S_MAX_MESSAGE_SIZE p \<and>
        S_MAX_MESSAGE_SIZE p \<le> SYSTEM_LIMIT_MAX_SAMPLING_MESSAGE_SIZE \<and>
        0 \<le> MESSAGE_SIZE (shared_memory p) \<and>
        MESSAGE_SIZE (shared_memory p) \<le> S_MAX_MESSAGE_SIZE p)"

definition port_message :: "SAMPLING_PORT_HELPER \<Rightarrow> byte list" where
  "port_message p = take (nat (MESSAGE_SIZE (shared_memory p))) (data (shared_memory p))"

lemma sampling_inv_write [acm_inv]:
  assumes "WRITE_SAMPLING_MESSAGE now m len p = Returned (rc, p')" "sampling_inv p"
  shows "sampling_inv p'"
  using assms
  by (auto simp: WRITE_SAMPLING_MESSAGE_def sampling_inv_def c_memcpy_def bind_outcome_Returned
      split: if_splits)

lemma sampling_inv_read [acm_inv]:
  assumes "READ_SAMPLING_MESSAGE now p = Returned (rc, r, p')" "sampling_inv p"
  shows "sampling_inv p'"
  using assms
  by (auto simp: READ_SAMPLING_MESSAGE_def sampling_inv_def bind_outcome_Returned Let_def
      split: if_splits)

lemma sampling_inv_write_contents [acm_inv]:
  assumes "WRITE_CONTENTS_FROM_DATA_BUFFER m len p = Returned (rc, p')" "sampling_inv p" "S_READY_OR_NOT p"
  shows "sampling_inv p'"
  using assms
  by (auto simp: WRITE_CONTENTS_FROM_DATA_BUFFER_def sampling_inv_def c_memcpy_def bind_outcome_Returned Let_def
      split: if_splits)

lemma sampling_read_defined:
  assumes "sampling_inv p"
  shows "\<exists>rc r p'. READ_SAMPLING_MESSAGE now p = Returned (rc, r, p')"
  using assms by (auto simp: READ_SAMPLING_MESSAGE_def sampling_inv_def c_read_def Let_def)

text \<open>A successful write replaces message and time, and nothing else.\<close>

lemma sampling_write_ok:
  assumes "sampling_inv p" "S_READY_OR_NOT p" "S_PORT_DIRECTION p \<noteq> PORT_DEST"
    "0 \<le> len" "len \<le> S_MAX_MESSAGE_SIZE p" "len \<le> int (length m)"
  obtains p' where "WRITE_SAMPLING_MESSAGE now m len p = Returned (NO_ERROR, p')" "sampling_inv p'"
    "port_message p' = take (nat len) m" "ABSOLUTE_TIME_WRITTEN (shared_memory p') = now"
    "MESSAGE_SIZE (shared_memory p') = len" "p'\<lparr>shared_memory := shared_memory p\<rparr> = p"
proof -
  let ?d = "take (nat len) m @ drop (nat len) (data (shared_memory p))"
  let ?p = "p\<lparr>shared_memory := \<lparr>ABSOLUTE_TIME_WRITTEN = now, MESSAGE_SIZE = len, data = ?d\<rparr>\<rparr>"
  have "WRITE_SAMPLING_MESSAGE now m len p = Returned (NO_ERROR, ?p)"
    using assms by (auto simp: WRITE_SAMPLING_MESSAGE_def c_memcpy_def sampling_inv_def)
  moreover from this have "sampling_inv ?p" using assms(1) by (rule sampling_inv_write)
  moreover have "port_message ?p = take (nat len) m"
    using assms(4,6) by (simp add: port_message_def nat_le_iff min_def)
  ultimately show thesis by (rule that) simp_all
qed

lemma copy_verbatim_ok:
  assumes "sampling_inv src" "sampling_inv dst" "S_READY_OR_NOT src" "S_READY_OR_NOT dst"
    "S_MAX_MESSAGE_SIZE src = S_MAX_MESSAGE_SIZE dst"
  obtains dst' where "COPY_CONTENTS_VERBATIM src dst = Returned (NO_ERROR, dst')" "sampling_inv dst'"
    "port_message dst' = port_message src"
    "ABSOLUTE_TIME_WRITTEN (shared_memory dst') = ABSOLUTE_TIME_WRITTEN (shared_memory src)"
    "MESSAGE_SIZE (shared_memory dst') = MESSAGE_SIZE (shared_memory src)"
    "dst'\<lparr>shared_memory := shared_memory dst\<rparr> = dst"
proof -
  let ?n = "MESSAGE_SIZE (shared_memory src)"
  let ?d = "take (nat ?n) (data (shared_memory src)) @ drop (nat ?n) (data (shared_memory dst))"
  let ?p = "dst\<lparr>shared_memory := \<lparr>ABSOLUTE_TIME_WRITTEN = ABSOLUTE_TIME_WRITTEN (shared_memory src),
      MESSAGE_SIZE = ?n, data = ?d\<rparr>\<rparr>"
  have n: "0 \<le> ?n" "?n \<le> int (length (data (shared_memory src)))"
    "length (data (shared_memory src)) = length (data (shared_memory dst))"
    using assms by (auto simp: sampling_inv_def)
  have "COPY_CONTENTS_VERBATIM src dst = Returned (NO_ERROR, ?p)"
    using assms n by (simp add: COPY_CONTENTS_VERBATIM_def c_memcpy_def sampling_inv_def)
  moreover have "sampling_inv ?p" using assms n by (auto simp: sampling_inv_def)
  moreover have "port_message ?p = port_message src"
    using n by (simp add: port_message_def nat_le_iff min_def)
  ultimately show thesis by (rule that) simp_all
qed

definition int64 :: "int \<Rightarrow> bool" where
  "int64 x \<longleftrightarrow> - (2 ^ 63) \<le> x \<and> x < 2 ^ 63"

lemma sint_word_of_int64: "int64 x \<Longrightarrow> sint (word_of_int x :: 64 word) = x"
  by (simp add: int64_def signed_of_int signed_take_bit_int_eq_self)

text \<open>What one port writes into a socket buffer another one reads back.\<close>

lemma contents_transfer:
  assumes "sampling_inv src" "sampling_inv dst" "S_READY_OR_NOT src" "S_READY_OR_NOT dst"
    "S_PORT_DIRECTION src \<noteq> PORT_DEST" "S_PORT_DIRECTION dst \<noteq> PORT_SOURCE"
    "S_MAX_MESSAGE_SIZE src \<le> S_MAX_MESSAGE_SIZE dst" "S_REAL_MAX_MESSAGE_SIZE src \<le> MAX_LEN"
    "int64 (ABSOLUTE_TIME_WRITTEN (shared_memory src))"
  obtains bytes dst' where "READ_CONTENTS_TO_DATA_BUFFER MAX_LEN src = Returned (NO_ERROR, bytes)"
    "int (length bytes) = 16 + MESSAGE_SIZE (shared_memory src)"
    "WRITE_CONTENTS_FROM_DATA_BUFFER bytes (int (length bytes)) dst = Returned (NO_ERROR, dst')"
    "sampling_inv dst'" "port_message dst' = port_message src"
    "ABSOLUTE_TIME_WRITTEN (shared_memory dst') = ABSOLUTE_TIME_WRITTEN (shared_memory src)"
proof -
  let ?mem = "shared_memory src"
  define n where "n = MESSAGE_SIZE ?mem"
  define m where "m = take (nat n) (data ?mem)"
  define bytes where "bytes = le64_encode (word_of_int (ABSOLUTE_TIME_WRITTEN ?mem)) @
      le64_encode (word_of_int n) @ m"
  have n: "0 \<le> n" "n \<le> int (length (data ?mem))" "n \<le> int (length (data (shared_memory dst)))"
    "n \<le> S_MAX_MESSAGE_SIZE dst" "n \<le> 262144"
    using assms by (auto simp: sampling_inv_def n_def SYSTEM_LIMIT_MAX_SAMPLING_MESSAGE_SIZE_def)
  have lm: "int (length m) = n" using n by (auto simp: m_def min_def)
  have n64: "int64 n" using n by (simp add: int64_def)
  have read: "READ_CONTENTS_TO_DATA_BUFFER MAX_LEN src = Returned (NO_ERROR, bytes)"
    using assms n(1,2)
    by (simp add: READ_CONTENTS_TO_DATA_BUFFER_def c_read_def bytes_def n_def m_def Let_def)
  have len: "int (length bytes) = 16 + n" using lm by (simp add: bytes_def)
  have dec: "le64_decode bytes = word_of_int (ABSOLUTE_TIME_WRITTEN ?mem)"
    "le64_decode (drop 8 bytes) = word_of_int n" "drop 16 bytes = m"
    by (simp_all add: bytes_def le64_roundtrip)
  let ?d = "take (nat n) m @ drop (nat n) (data (shared_memory dst))"
  let ?dst = "dst\<lparr>shared_memory := \<lparr>ABSOLUTE_TIME_WRITTEN = ABSOLUTE_TIME_WRITTEN ?mem,
     MESSAGE_SIZE = n, data = ?d\<rparr>\<rparr>"
  have written: "WRITE_CONTENTS_FROM_DATA_BUFFER bytes (int (length bytes)) dst = Returned (NO_ERROR, ?dst)"
    using assms(4,6) n lm len dec sint_word_of_int64 [OF n64] sint_word_of_int64 [OF assms(9)]
    by (simp add: WRITE_CONTENTS_FROM_DATA_BUFFER_def Let_def c_memcpy_def)
  have "sampling_inv ?dst" using assms(2,4) n lm by (auto simp: sampling_inv_def)
  moreover have "port_message ?dst = port_message src"
    using lm by (simp add: port_message_def n_def [symmetric] m_def)
  ultimately show thesis using read len written n_def by (intro that [of bytes ?dst]) simp_all
qed

end
