(* ===== verification/QueuePort.thy ===== *)
theory QueuePort
  imports AcmTime SamplingPort
begin

text \<open>
  MESSAGE\_QUEUE\_TYPE of src/QUEUE\_PORT.cc and include/ACM/INTERNAL/QUEUE\_PORT.h: a queuing
  port over a POSIX message queue of the operating system.  The queue itself is a parameter:
  the calls the class makes (\<open>mq_open\<close>, \<open>mq_getattr\<close>, \<open>mq_send\<close>, \<open>mq_timedsend\<close>, \<open>mq_receive\<close>,
  \<open>mq_timedreceive\<close>) as functions on the state \<open>'w\<close> of the system, and \<open>mq_laws\<close> for what
  POSIX promises of them for one open queue.  \<open>list_mq\<close> is an instance, used to show
  that the promises can be met.
\<close>

text \<open>The answer of a call: done, errno = ETIMEDOUT, another errno.\<close>

datatype 'a mq_answer = Mq_ok 'a | Mq_timedout | Mq_error

record 'w mq_calls =
  mq_open :: "NAME_TYPE \<Rightarrow> int \<Rightarrow> int \<Rightarrow> 'w \<Rightarrow> (int \<times> bool) \<times> 'w"
  mq_curmsgs :: "int \<Rightarrow> 'w \<Rightarrow> int option"
  mq_send :: "int \<Rightarrow> byte list \<Rightarrow> 'w \<Rightarrow> (unit mq_answer \<times> 'w) outcome"
  mq_timedsend :: "int \<Rightarrow> byte list \<Rightarrow> SYSTEM_TIMESPEC \<Rightarrow> 'w \<Rightarrow> (unit mq_answer \<times> 'w) outcome"
  mq_receive :: "int \<Rightarrow> int \<Rightarrow> 'w \<Rightarrow> (byte list mq_answer \<times> 'w) outcome"
  mq_timedreceive :: "int \<Rightarrow> int \<Rightarrow> SYSTEM_TIMESPEC \<Rightarrow> 'w \<Rightarrow> (byte list mq_answer \<times> 'w) outcome"

record MESSAGE_QUEUE_TYPE =
  ref :: int
  Q_NAME :: NAME_TYPE
  Q_MAX_MESSAGE_SIZE :: int
  Q_MAX_NB_MESSAGE :: int
  Q_PORT_DIRECTION :: DIRECTION_TYPE
  Q_READY_OR_NOT :: bool
  REAL_PLATFORM_NAME :: NAME_TYPE
  Q_MQDES :: int

definition MESSAGE_LIMIT_EXCEEDED :: "'w mq_calls \<Rightarrow> MESSAGE_QUEUE_TYPE \<Rightarrow> 'w \<Rightarrow> bool" where
  "MESSAGE_LIMIT_EXCEEDED mq p w =
     (case mq_curmsgs mq (Q_MQDES p) w of None \<Rightarrow> False | Some n \<Rightarrow> n \<ge> Q_MAX_NB_MESSAGE p)"

definition IS_EMPTY :: "'w mq_calls \<Rightarrow> MESSAGE_QUEUE_TYPE \<Rightarrow> 'w \<Rightarrow> bool" where
  "IS_EMPTY mq p w = (case mq_curmsgs mq (Q_MQDES p) w of None \<Rightarrow> False | Some n \<Rightarrow> n = 0)"

definition NUMBER_OF_MESSAGES :: "'w mq_calls \<Rightarrow> MESSAGE_QUEUE_TYPE \<Rightarrow> 'w \<Rightarrow> int" where
  "NUMBER_OF_MESSAGES mq p w = (case mq_curmsgs mq (Q_MQDES p) w of None \<Rightarrow> 0 | Some n \<Rightarrow> n)"

text \<open>The constructor; the three branches of its switch open the queue alike.\<close>

definition QUEUE_PORT_new ::
  "'w mq_calls \<Rightarrow> NAME_TYPE \<Rightarrow> int \<Rightarrow> int \<Rightarrow> DIRECTION_TYPE \<Rightarrow> 'w \<Rightarrow>
   RETURN_CODE_TYPE \<times> MESSAGE_QUEUE_TYPE \<times> 'w" where
  "QUEUE_PORT_new mq Name MAX_SIZE MAX_NB DIR w =
     (let real = ''/'' @ Name;
          ((des, eexist), w') = mq_open mq real MAX_NB MAX_SIZE w;
          rc = (if des = -1 then (if eexist then NO_ACTION else INVALID_CONFIG) else NO_ERROR)
      in (rc, \<lparr>ref = 1, Q_NAME = Name, Q_MAX_MESSAGE_SIZE = MAX_SIZE, Q_MAX_NB_MESSAGE = MAX_NB,
               Q_PORT_DIRECTION = DIR, Q_READY_OR_NOT = (rc = NO_ERROR), REAL_PLATFORM_NAME = real,
               Q_MQDES = des\<rparr>, w'))"

text \<open>The common body of \<open>SEND_MESSAGE\<close> and \<open>SEND_MESSAGE_FROM_BUFFER_READ_FROM_SOCKET\<close>, which
  differ in the direction they refuse.  A negative length is a huge \<open>size_t\<close> to the system, which
  answers EMSGSIZE.\<close>

definition send_to_queue ::
  "'w mq_calls \<Rightarrow> DIRECTION_TYPE \<Rightarrow> SYSTEM_TIMESPEC \<Rightarrow> byte list \<Rightarrow> int \<Rightarrow> SYSTEM_TIME_TYPE \<Rightarrow>
   MESSAGE_QUEUE_TYPE \<Rightarrow> 'w \<Rightarrow> (RETURN_CODE_TYPE \<times> 'w) outcome" where
  "send_to_queue mq refused now msg_ptr len TIME_OUT p w =
     (if \<not> Q_READY_OR_NOT p then Returned (INVALID_MODE, w)
      else if Q_PORT_DIRECTION p = refused then Returned (INVALID_MODE, w)
      else if TIME_OUT = 0 \<and> MESSAGE_LIMIT_EXCEEDED mq p w then Returned (TIMED_OUT, w)
      else if TIME_OUT > MAX_TIME_OUT \<and> TIME_OUT \<noteq> INFINITE_TIME_VALUE then Returned (INVALID_PARAM, w)
      else if len > Q_MAX_MESSAGE_SIZE p then Returned (INVALID_CONFIG, w)
      else if len < 0 then Returned (NO_ACTION, w)
      else bind_outcome (c_read msg_ptr len) (\<lambda>m.
        if TIME_OUT = INFINITE_TIME_VALUE then
          bind_outcome (mq_send mq (Q_MQDES p) m w)
            (\<lambda>(r, w'). Returned (case r of Mq_ok _ \<Rightarrow> NO_ERROR | _ \<Rightarrow> NO_ACTION, w'))
        else
          bind_outcome (assert_some (addTimeNano now TIME_OUT)) (\<lambda>absolute.
          bind_outcome (mq_timedsend mq (Q_MQDES p) m absolute w)
            (\<lambda>(r, w'). Returned (case r of Mq_ok _ \<Rightarrow> NO_ERROR | Mq_timedout \<Rightarrow> TIMED_OUT
                                           | Mq_error \<Rightarrow> NO_ACTION, w')))))"

definition QUEUE_SEND_MESSAGE ::
  "'w mq_calls \<Rightarrow> SYSTEM_TIMESPEC \<Rightarrow> byte list \<Rightarrow> int \<Rightarrow> SYSTEM_TIME_TYPE \<Rightarrow> MESSAGE_QUEUE_TYPE \<Rightarrow>
   'w \<Rightarrow> (RETURN_CODE_TYPE \<times> 'w) outcome" where
  "QUEUE_SEND_MESSAGE mq = send_to_queue mq PORT_DEST"

definition SEND_MESSAGE_FROM_SOCKET ::
  "'w mq_calls \<Rightarrow> SYSTEM_TIMESPEC \<Rightarrow> byte list \<Rightarrow> int \<Rightarrow> SYSTEM_TIME_TYPE \<Rightarrow> MESSAGE_QUEUE_TYPE \<Rightarrow>
   'w \<Rightarrow> (RETURN_CODE_TYPE \<times> 'w) outcome" where
  "SEND_MESSAGE_FROM_SOCKET mq = send_to_queue mq PORT_SOURCE"

definition QUEUE_RECEIVE_MESSAGE ::
  "'w mq_calls \<Rightarrow> SYSTEM_TIMESPEC \<Rightarrow> SYSTEM_TIME_TYPE \<Rightarrow> MESSAGE_QUEUE_TYPE \<Rightarrow> 'w \<Rightarrow>
   (RETURN_CODE_TYPE \<times> byte list option \<times> 'w) outcome" where
  "QUEUE_RECEIVE_MESSAGE mq now TIME_OUT p w =
     (if \<not> Q_READY_OR_NOT p then Returned (INVALID_MODE, None, w)
      else if Q_PORT_DIRECTION p = PORT_SOURCE then Returned (INVALID_MODE, None, w)
      else if TIME_OUT > MAX_TIME_OUT \<and> TIME_OUT \<noteq> INFINITE_TIME_VALUE
        then Returned (INVALID_PARAM, None, w)
      else if TIME_OUT = 0 \<and> IS_EMPTY mq p w then Returned (NOT_AVAILABLE, None, w)
      else if TIME_OUT = INFINITE_TIME_VALUE then
        bind_outcome (mq_receive mq (Q_MQDES p) (Q_MAX_MESSAGE_SIZE p) w)
          (\<lambda>(r, w'). case r of Mq_ok m \<Rightarrow> Returned (NO_ERROR, Some m, w')
                            | _ \<Rightarrow> Returned (NO_ACTION, None, w'))
      else
        bind_outcome (assert_some (addTimeNano now TIME_OUT)) (\<lambda>absolute.
        bind_outcome (mq_timedreceive mq (Q_MQDES p) (Q_MAX_MESSAGE_SIZE p) absolute w)
          (\<lambda>(r, w'). case r of Mq_ok m \<Rightarrow> Returned (NO_ERROR, Some m, w')
                            | Mq_timedout \<Rightarrow> Returned (TIMED_OUT, None, w')
                            | Mq_error \<Rightarrow> Returned (NO_ACTION, None, w'))))"

record QUEUING_PORT_STATUS_TYPE =
  QP_NB_MESSAGE :: int
  QP_MAX_NB_MESSAGE :: int
  QP_MAX_MESSAGE_SIZE :: int
  QP_PORT_DIRECTION :: PORT_DIRECTION_TYPE
  QP_WAITING_PROCESSES :: int

definition QUEUE_GET_STATUS ::
  "'w mq_calls \<Rightarrow> MESSAGE_QUEUE_TYPE \<Rightarrow> 'w \<Rightarrow> RETURN_CODE_TYPE \<times> QUEUING_PORT_STATUS_TYPE option" where
  "QUEUE_GET_STATUS mq p w =
     (if \<not> Q_READY_OR_NOT p then (INVALID_MODE, None)
      else case mq_curmsgs mq (Q_MQDES p) w of
             None \<Rightarrow> (NO_ACTION, None)
           | Some n \<Rightarrow> (NO_ERROR, Some
               \<lparr>QP_NB_MESSAGE = n, QP_MAX_NB_MESSAGE = Q_MAX_NB_MESSAGE p,
                QP_MAX_MESSAGE_SIZE = Q_MAX_MESSAGE_SIZE p,
                QP_PORT_DIRECTION = (if Q_PORT_DIRECTION p = PORT_SOURCE then SOURCE else DESTINATION),
                QP_WAITING_PROCESSES = 0\<rparr>))"

section \<open>What POSIX promises of one open queue\<close>

text \<open>\<open>contents\<close> is the list of messages in the queue \<open>des\<close>, all of one priority.  A send to a
  queue with room appends, a receive from a queue with messages takes the first; a timed
  call that finds the queue full (empty) changes nothing of it and reports the time-out.\<close>

definition mq_laws ::
  "'w mq_calls \<Rightarrow> ('w \<Rightarrow> byte list list) \<Rightarrow> int \<Rightarrow> int \<Rightarrow> int \<Rightarrow> bool" where
  "mq_laws mq contents des maxmsg msgsize \<longleftrightarrow>
     (\<forall>w. mq_curmsgs mq des w = Some (int (length (contents w)))) \<and>
     (\<forall>w m. int (length (contents w)) < maxmsg \<longrightarrow> int (length m) \<le> msgsize \<longrightarrow>
        (\<exists>w'. mq_send mq des m w = Returned (Mq_ok (), w') \<and> contents w' = contents w @ [m])) \<and>
     (\<forall>w m tv. int (length (contents w)) < maxmsg \<longrightarrow> int (length m) \<le> msgsize \<longrightarrow>
        (\<exists>w'. mq_timedsend mq des m tv w = Returned (Mq_ok (), w') \<and> contents w' = contents w @ [m])) \<and>
     (\<forall>w m tv. maxmsg \<le> int (length (contents w)) \<longrightarrow>
        (\<exists>w'. mq_timedsend mq des m tv w = Returned (Mq_timedout, w') \<and> contents w' = contents w)) \<and>
     (\<forall>w m ms. contents w = m # ms \<longrightarrow>
        (\<exists>w'. mq_receive mq des msgsize w = Returned (Mq_ok m, w') \<and> contents w' = ms)) \<and>
     (\<forall>w m ms tv. contents w = m # ms \<longrightarrow>
        (\<exists>w'. mq_timedreceive mq des msgsize tv w = Returned (Mq_ok m, w') \<and> contents w' = ms)) \<and>
     (\<forall>w tv. contents w = [] \<longrightarrow>
        (\<exists>w'. mq_timedreceive mq des msgsize tv w = Returned (Mq_timedout, w') \<and> contents w' = []))"

text \<open>An instance: one queue, kept as a list.\<close>

definition list_mq :: "int \<Rightarrow> byte list list mq_calls" where
  "list_mq maxmsg =
     \<lparr>mq_open = (\<lambda>name n sz w. ((3, False), [])),
      mq_curmsgs = (\<lambda>des w. Some (int (length w))),
      mq_send = (\<lambda>des m w. if int (length w) < maxmsg then Returned (Mq_ok (), w @ [m]) else Blocked),
      mq_timedsend = (\<lambda>des m tv w.
        Returned (if int (length w) < maxmsg then (Mq_ok (), w @ [m]) else (Mq_timedout, w))),
      mq_receive = (\<lambda>des n w. case w of [] \<Rightarrow> Blocked | m # ms \<Rightarrow> Returned (Mq_ok m, ms)),
      mq_timedreceive = (\<lambda>des n tv w.
        Returned (case w of [] \<Rightarrow> (Mq_timedout, []) | m # ms \<Rightarrow> (Mq_ok m, ms)))\<rparr>"

lemma list_mq_laws: "mq_laws (list_mq maxmsg) (\<lambda>w. w) des maxmsg msgsize"
  by (simp add: mq_laws_def list_mq_def)

section \<open>Behaviour of a port\<close>

lemma mq_laws_curmsgs: "mq_laws mq contents des n k \<Longrightarrow> mq_curmsgs mq des w = Some (int (length (contents w)))"
  by (simp add: mq_laws_def)

lemma mq_laws_send:
  assumes "mq_laws mq contents des n k" "int (length (contents w)) < n" "int (length m) \<le> k"
  obtains w' where "mq_send mq des m w = Returned (Mq_ok (), w')" "contents w' = contents w @ [m]"
  using assms unfolding mq_laws_def by blast

lemma mq_laws_timedsend:
  assumes "mq_laws mq contents des n k" "int (length (contents w)) < n" "int (length m) \<le> k"
  obtains w' where "mq_timedsend mq des m tv w = Returned (Mq_ok (), w')" "contents w' = contents w @ [m]"
  using assms unfolding mq_laws_def by blast

lemma mq_laws_receive:
  assumes "mq_laws mq contents des n k" "contents w = m # ms"
  obtains w' where "mq_receive mq des k w = Returned (Mq_ok m, w')" "contents w' = ms"
  using assms unfolding mq_laws_def by blast

lemma mq_laws_timedreceive:
  assumes "mq_laws mq contents des n k" "contents w = m # ms"
  obtains w' where "mq_timedreceive mq des k tv w = Returned (Mq_ok m, w')" "contents w' = ms"
  using assms unfolding mq_laws_def by blast

lemma queue_send_room:
  assumes laws: "mq_laws mq contents (Q_MQDES p) (Q_MAX_NB_MESSAGE p) (Q_MAX_MESSAGE_SIZE p)"
    and "Q_READY_OR_NOT p" "Q_PORT_DIRECTION p \<noteq> refused" "TIME_OUT \<le> MAX_TIME_OUT"
    and room: "int (length (contents w)) < Q_MAX_NB_MESSAGE p"
    and len: "0 \<le> len" "len \<le> Q_MAX_MESSAGE_SIZE p" "len \<le> int (length m)"
  shows "\<exists>w'. send_to_queue mq refused now m len TIME_OUT p w = Returned (NO_ERROR, w') \<and>
              contents w' = contents w @ [take (nat len) m]"
proof -
  let ?m = "take (nat len) m"
  have m: "int (length ?m) \<le> Q_MAX_MESSAGE_SIZE p" using len by simp
  have notfull: "\<not> MESSAGE_LIMIT_EXCEEDED mq p w"
    using room by (simp add: MESSAGE_LIMIT_EXCEEDED_def mq_laws_curmsgs [OF laws])
  show ?thesis
  proof (cases "TIME_OUT = INFINITE_TIME_VALUE")
    case True
    obtain w' where "mq_send mq (Q_MQDES p) ?m w = Returned (Mq_ok (), w')" "contents w' = contents w @ [?m]"
      by (rule mq_laws_send [OF laws room m])
    then show ?thesis using assms True notfull
      by (auto simp: send_to_queue_def c_read_def)
  next
    case False
    obtain tv where tv: "addTimeNano now TIME_OUT = Some tv" using assms(4) addTimeNano_Some_iff by blast
    obtain w' where "mq_timedsend mq (Q_MQDES p) ?m tv w = Returned (Mq_ok (), w')"
      "contents w' = contents w @ [?m]"
      by (rule mq_laws_timedsend [OF laws room m])
    then show ?thesis using assms False notfull tv
      by (auto simp: send_to_queue_def c_read_def)
  qed
qed

lemma queue_send_full:
  assumes "mq_laws mq contents (Q_MQDES p) (Q_MAX_NB_MESSAGE p) (Q_MAX_MESSAGE_SIZE p)"
    "Q_READY_OR_NOT p" "Q_PORT_DIRECTION p \<noteq> refused"
    "Q_MAX_NB_MESSAGE p \<le> int (length (contents w))"
  shows "send_to_queue mq refused now m len 0 p w = Returned (TIMED_OUT, w)"
  using assms by (simp add: send_to_queue_def MESSAGE_LIMIT_EXCEEDED_def mq_laws_curmsgs)

lemma queue_receive_some:
  assumes laws: "mq_laws mq contents (Q_MQDES p) (Q_MAX_NB_MESSAGE p) (Q_MAX_MESSAGE_SIZE p)"
    and "Q_READY_OR_NOT p" "Q_PORT_DIRECTION p \<noteq> PORT_SOURCE" "TIME_OUT \<le> MAX_TIME_OUT"
    and some: "contents w = m # ms"
  shows "\<exists>w'. QUEUE_RECEIVE_MESSAGE mq now TIME_OUT p w = Returned (NO_ERROR, Some m, w') \<and>
              contents w' = ms"
proof -
  have notempty: "\<not> IS_EMPTY mq p w" using some by (simp add: IS_EMPTY_def mq_laws_curmsgs [OF laws])
  show ?thesis
  proof (cases "TIME_OUT = INFINITE_TIME_VALUE")
    case True
    obtain w' where "mq_receive mq (Q_MQDES p) (Q_MAX_MESSAGE_SIZE p) w = Returned (Mq_ok m, w')"
      "contents w' = ms"
      by (rule mq_laws_receive [OF laws some])
    then show ?thesis using assms True notempty by (auto simp: QUEUE_RECEIVE_MESSAGE_def)
  next
    case False
    obtain tv where tv: "addTimeNano now TIME_OUT = Some tv" using assms(4) addTimeNano_Some_iff by blast
    obtain w' where "mq_timedreceive mq (Q_MQDES p) (Q_MAX_MESSAGE_SIZE p) tv w = Returned (Mq_ok m, w')"
      "contents w' = ms"
      by (rule mq_laws_timedreceive [OF laws some])
    then show ?thesis using assms False notempty tv by (auto simp: QUEUE_RECEIVE_MESSAGE_def)
  qed
qed

lemma queue_receive_empty:
  assumes "mq_laws mq contents (Q_MQDES p) (Q_MAX_NB_MESSAGE p) (Q_MAX_MESSAGE_SIZE p)"
    "Q_READY_OR_NOT p" "Q_PORT_DIRECTION p \<noteq> PORT_SOURCE" "contents w = []"
  shows "QUEUE_RECEIVE_MESSAGE mq now 0 p w = Returned (NOT_AVAILABLE, None, w)"
proof -
  have "(0::int) \<le> MAX_TIME_OUT" using MAX_TIME_OUT_pos by simp
  then show ?thesis using assms
    by (simp add: QUEUE_RECEIVE_MESSAGE_def IS_EMPTY_def mq_laws_curmsgs)
qed

end
