(* ===== verification/ApexState.thy ===== *)
theory ApexState
  imports RwLock Event Buffer SamplingPort QueuePort
begin

text \<open>
  The state of a partition: class APEX of include/ACM/INTERNAL/APEX.h with its vectors, the
  process descriptors and the processes they own (PROCESS.h), and the records of the
  health manager (include/ACM/USER/ACM\_HM\_TYPES.h).  The object identifiers are indices into
  the vectors.  The sorted vector of the scheduler holds pointers to the same descriptors
  and is a list of process identifiers here.  Pointers to functions and
  threads are numbers, 0 being NULL.  Two things are parameters: the memory layout the
  compiler gives to the structures copied through byte buffers, and the contents of
  memory fresh from malloc.
\<close>

section \<open>Processes\<close>

datatype PROCESS_state =
  DORMANT | READY | RUNNING | WAITING_ON_RESOURCE | WAITING_ON_PERIOD
  | WAITING_PARTITION_NOT_NORMAL | RESTARTING | WAITING_SUSPENDED_OTHER | WAITING_SUSPENDED_SELF
  | SUSPENDED_FOR_HEALTH_REASONS

datatype PROCESS_STATE_TYPE = DORMANT_EXT | READY_EXT | RUNNING_EXT | WAITING_EXT

datatype DEADLINE_TYPE = SOFT | HARD

datatype NEXT_SCHEDULING_INSTANCE_TYPE = RELEASE_PROCESS | CHECK_DEADLINE

record PROCESS_ATTRIBUTE_TYPE =
  PERIOD :: SYSTEM_TIME_TYPE
  TIME_CAPACITY :: SYSTEM_TIME_TYPE
  ENTRY_POINT :: nat
  STACK_SIZE :: nat
  BASE_PRIORITY :: int
  DEADLINE :: DEADLINE_TYPE
  PROCESS_NAME :: NAME_TYPE

datatype ERROR_CODE_TYPE =
  DEADLINE_MISSED | APPLICATION_ERROR | NUMERIC_ERROR | ILLEGAL_REQUEST | STACK_OVERFLOW
  | MEMORY_VIOLATION | HARDWARE_FAULT | POWER_FAIL

datatype HM_ACTION_ENUM_TYPE =
  HM_REFUSE | HM_IGNORE | HM_SUSPEND | HM_STOP | HM_START | HM_USE_PAST_DATA
  | HM_USER_SPECIFIC_RESPONSE

datatype HM_MESSAGE_DISCRIMINATOR_TYPE = STRING_MESSAGE | APPLICATION_SPECIFIC

datatype RESPONDING_ENTITY_TYPE = BY_PROCESS | BY_HM | BY_PARTITIONSCHEDULER

record HM_RESPONSE_TYPE =
  HM_ERROR_CODE :: ERROR_CODE_TYPE
  HM_TIMEOFMESSAGE :: SYSTEM_TIME_TYPE
  HM_MESSAGE_LENGTH :: nat
  HM_MESSAGE_DISCRIMINATOR :: HM_MESSAGE_DISCRIMINATOR_TYPE
  HM_MESSAGE :: "byte list"
  HM_ACTION :: HM_ACTION_ENUM_TYPE

record PROCESS_RESPONSE_TYPE =
  RESPONSE_NO_ERROR :: bool
  RESPONDING_ENTITY :: RESPONDING_ENTITY_TYPE
  TIMEOFMESSAGE :: SYSTEM_TIME_TYPE
  ERROR_RESPONSE :: HM_RESPONSE_TYPE

record ERROR_STATUS_TYPE =
  ES_ERROR_CODE :: ERROR_CODE_TYPE
  ES_LENGTH :: int
  FAILED_PROCESS_ID :: nat
  ES_MESSAGE :: "byte list"

text \<open>A process: \<open>thread_id\<close> is its POSIX thread, \<open>thread_priority\<close> the scheduling priority of
  that thread.\<close>

record PROCESS =
  thread_id :: nat
  process_id :: nat
  attribute :: PROCESS_ATTRIBUTE_TYPE
  state :: PROCESS_state
  sem_state :: SEMAPHORE
  PROCESS_RESPONSE :: PROCESS_RESPONSE_TYPE
  READLOCKS :: "nat list"
  WRITELOCKS :: "nat list"
  delayed_start_flag :: bool
  absolute_delay_start_time :: SYSTEM_TIMESPEC
  thread_priority :: int

definition isPeriodic :: "PROCESS \<Rightarrow> bool" where
  "isPeriodic p \<longleftrightarrow> PERIOD (attribute p) \<noteq> INFINITE_TIME_VALUE"

record PROCESS_DESCRIPTOR =
  ABSOLUTE_CRITICAL_TIME :: SYSTEM_TIMESPEC
  SUSPENSION_EVENT :: APEX_EVENT_TYPE
  THE_PROCESS :: PROCESS
  NEXT_SCHEDULING_INSTANCE :: NEXT_SCHEDULING_INSTANCE_TYPE
  ABSOLUTE_PREV_START_TIME :: SYSTEM_TIMESPEC
  ABSOLUTE_NEXT_SCHEDULED_TIME :: SYSTEM_TIMESPEC
  DEADLINE_TIME :: SYSTEM_TIMESPEC
  INITIAL_DELAY_TIME :: SYSTEM_TIME_TYPE
  CURRENT_PRIORITY :: int
  HM_DESCRIPTOR_ID :: int
  IS_HEALTH_MANAGER :: bool
  HM_RESPONSE_BOARD_ID :: nat
  PROCESS_NOTIFICATION_RESPONSE_BOARD_ID :: nat

section \<open>Blackboards and health managers\<close>

record APEX_BLACKBOARD_TYPE =
  BLACKBOARD_EVENT_ID :: nat
  BLACKBOARD_NAME :: NAME_TYPE
  BLACKBOARD_ID :: nat
  BB_MAX_MESSAGE_SIZE :: int
  BB_CURRENT_MESSAGE_SIZE :: int
  BB_PAYLOAD :: "byte list"

record PROC_HM_ASSOCIATION_TYPE =
  HMA_PROCESS_ID :: nat
  HMA_BLACKBOARD_ID :: nat

text \<open>The array \<open>PROC_HM_ASSOCIATION\<close> has \<open>MAX_HM_PROC_RELATIONSHIPS\<close> entries.\<close>

record HM_DESCRIPTOR_TYPE =
  HM_PROCESS_ID :: nat
  HM_BUFFER_ID :: nat
  PROC_HM_ASSOCIATION :: "PROC_HM_ASSOCIATION_TYPE list"
  CURRENTLY_REGISTERED_PROCS :: int

section \<open>The partition\<close>

record APEX =
  APEX_SCHEDULING_EVENT :: APEX_EVENT_TYPE
  CURRENT_OPERATING_MODE :: OPERATING_MODE_TYPE
  flagToTerminate :: bool
  PROCESS_DESCRIPTOR_VECTOR :: "PROCESS_DESCRIPTOR list"
  PROCESS_SCHEDULING_SORTED_VECTOR :: "nat list"
  EVENT_VECTOR :: "APEX_EVENT_TYPE list"
  BLACKBOARD_VECTOR :: "APEX_BLACKBOARD_TYPE list"
  SEMAPHORE_VECTOR :: "SEMAPHORE list"
  RW_LOCK_SEM_VECTOR :: "RW_LOCK_SEM list"
  SAMPLING_PORT_VECTOR :: "SAMPLING_PORT_HELPER list"
  QUEUING_PORT_VECTOR :: "MESSAGE_QUEUE_TYPE list"
  BUFFER_VECTOR :: "APEX_BUFFER_TYPE list"
  HM_VECTOR :: "HM_DESCRIPTOR_TYPE list"
  PROCESS_ID_TO_PTHREAD_ID_MAP :: "nat list"

text \<open>The constructor of APEX.\<close>

definition APEX_new :: APEX where
  "APEX_new =
     \<lparr>APEX_SCHEDULING_EVENT = EVENT_new ''APEX_SCHEDULING_EVENT'',
      CURRENT_OPERATING_MODE = COLD_START, flagToTerminate = False,
      PROCESS_DESCRIPTOR_VECTOR = [], PROCESS_SCHEDULING_SORTED_VECTOR = [], EVENT_VECTOR = [],
      BLACKBOARD_VECTOR = [], SEMAPHORE_VECTOR = [], RW_LOCK_SEM_VECTOR = [],
      SAMPLING_PORT_VECTOR = [], QUEUING_PORT_VECTOR = [], BUFFER_VECTOR = [], HM_VECTOR = [],
      PROCESS_ID_TO_PTHREAD_ID_MAP = []\<rparr>"

text \<open>\<open>getInstance\<close> and the macros \<open>__GET_SINGLETON_INSTANCE\<close> and
  \<open>__GET_SINGLETON_INSTANCE_AND_CREATE_IF_DOES_NOT_EXIST\<close>: a service works on the one instance;
  without one the first macro answers INVALID\_CONFIG, the second constructs it.  \<open>'o\<close> is what
  the service stores through its out-parameters.\<close>

type_synonym 'o reply = "RETURN_CODE_TYPE \<times> 'o option"

definition getInstance :: "APEX option \<Rightarrow> APEX" where
  "getInstance inst = (case inst of None \<Rightarrow> APEX_new | Some a \<Rightarrow> a)"

fun with_instance ::
  "(APEX \<Rightarrow> ('o reply \<times> APEX) outcome) \<Rightarrow> APEX option \<Rightarrow> ('o reply \<times> APEX option) outcome" where
  "with_instance f None = Returned ((INVALID_CONFIG, None), None)"
| "with_instance f (Some a) = bind_outcome (f a) (\<lambda>(r, a'). Returned (r, Some a'))"

definition with_instance_create ::
  "(APEX \<Rightarrow> ('o reply \<times> APEX) outcome) \<Rightarrow> APEX option \<Rightarrow> ('o reply \<times> APEX option) outcome" where
  "with_instance_create f inst = with_instance f (Some (getInstance inst))"

text \<open>The layout of the structures that travel through buffers and blackboards.\<close>

record layout =
  ERROR_STATUS_bytes :: "ERROR_STATUS_TYPE \<Rightarrow> byte list"
  ERROR_STATUS_of :: "byte list \<Rightarrow> ERROR_STATUS_TYPE"
  HM_RESPONSE_bytes :: "HM_RESPONSE_TYPE \<Rightarrow> byte list"
  HM_RESPONSE_of :: "byte list \<Rightarrow> HM_RESPONSE_TYPE"
  PROCESS_RESPONSE_bytes :: "PROCESS_RESPONSE_TYPE \<Rightarrow> byte list"
  sizeof_ERROR_STATUS :: int
  sizeof_HM_RESPONSE :: int
  sizeof_PROCESS_RESPONSE :: int

text \<open>A return of a service without out-parameters, or one that stores nothing.\<close>

abbreviation ret :: "RETURN_CODE_TYPE \<Rightarrow> APEX \<Rightarrow> ('o reply \<times> APEX) outcome" where
  "ret rc a \<equiv> Returned ((rc, None), a)"

abbreviation ret_out :: "RETURN_CODE_TYPE \<Rightarrow> 'o \<Rightarrow> APEX \<Rightarrow> ('o reply \<times> APEX) outcome" where
  "ret_out rc x a \<equiv> Returned ((rc, Some x), a)"

section \<open>Components of the state\<close>

definition at :: "('s \<Rightarrow> 'a list) \<Rightarrow> nat \<Rightarrow> 's \<Rightarrow> 'a" where
  "at vec i s = vec s ! i"

definition at_update ::
  "(('a list \<Rightarrow> 'a list) \<Rightarrow> 's \<Rightarrow> 's) \<Rightarrow> nat \<Rightarrow> ('a \<Rightarrow> 'a) \<Rightarrow> 's \<Rightarrow> 's" where
  "at_update upd i f = upd (\<lambda>xs. xs[i := f (xs ! i)])"

lemma field_at:
  assumes "\<And>f s. vec (upd f s) = f (vec s)" "\<And>f g s. upd f (upd g s) = upd (\<lambda>x. f (g x)) s"
    "\<And>f g s. f (vec s) = g (vec s) \<Longrightarrow> upd f s = upd g s"
  shows "field (\<lambda>s. i < length (vec s)) (at vec i) (at_update upd i)"
  using assms(1) unfolding field_def at_def at_update_def
  by (auto simp: assms(1,2) intro!: assms(3))

definition the_process :: "nat \<Rightarrow> APEX \<Rightarrow> PROCESS" where
  "the_process pid a = THE_PROCESS (PROCESS_DESCRIPTOR_VECTOR a ! pid)"

definition upd_descriptor :: "nat \<Rightarrow> (PROCESS_DESCRIPTOR \<Rightarrow> PROCESS_DESCRIPTOR) \<Rightarrow> APEX \<Rightarrow> APEX" where
  "upd_descriptor pid f a =
     a\<lparr>PROCESS_DESCRIPTOR_VECTOR := (PROCESS_DESCRIPTOR_VECTOR a)[pid := f (PROCESS_DESCRIPTOR_VECTOR a ! pid)]\<rparr>"

definition upd_process :: "nat \<Rightarrow> (PROCESS \<Rightarrow> PROCESS) \<Rightarrow> APEX \<Rightarrow> APEX" where
  "upd_process pid f = upd_descriptor pid (\<lambda>d. d\<lparr>THE_PROCESS := f (THE_PROCESS d)\<rparr>)"

definition process_exists :: "nat \<Rightarrow> APEX \<Rightarrow> bool" where
  "process_exists pid a \<longleftrightarrow> pid < length (PROCESS_DESCRIPTOR_VECTOR a)"

lemma process_exists_upd [simp]:
  "process_exists i (upd_descriptor pid f a) = process_exists i a"
  "process_exists i (upd_process pid g a) = process_exists i a"
  by (simp_all add: process_exists_def upd_descriptor_def upd_process_def)

lemma the_process_upd [simp]:
  "process_exists pid a \<Longrightarrow> the_process pid (upd_process pid f a) = f (the_process pid a)"
  by (simp add: the_process_def upd_process_def upd_descriptor_def process_exists_def)

lemma the_process_upd_other [simp]:
  "i \<noteq> pid \<Longrightarrow> the_process i (upd_process pid f a) = the_process i a"
  "i \<noteq> pid \<Longrightarrow> the_process i (upd_descriptor pid g a) = the_process i a"
  by (simp_all add: the_process_def upd_process_def upd_descriptor_def)

lemma upd_descriptor_nth [simp]:
  "process_exists pid a \<Longrightarrow>
    PROCESS_DESCRIPTOR_VECTOR (upd_descriptor pid f a) ! pid = f (PROCESS_DESCRIPTOR_VECTOR a ! pid)"
  by (simp add: upd_descriptor_def process_exists_def)

lemma upd_frame [simp]:
  "CURRENT_OPERATING_MODE (upd_descriptor pid f a) = CURRENT_OPERATING_MODE a"
  "CURRENT_OPERATING_MODE (upd_process pid g a) = CURRENT_OPERATING_MODE a"
  "BLACKBOARD_VECTOR (upd_descriptor pid f a) = BLACKBOARD_VECTOR a"
  "BLACKBOARD_VECTOR (upd_process pid g a) = BLACKBOARD_VECTOR a"
  "EVENT_VECTOR (upd_descriptor pid f a) = EVENT_VECTOR a"
  "EVENT_VECTOR (upd_process pid g a) = EVENT_VECTOR a"
  "length (PROCESS_DESCRIPTOR_VECTOR (upd_descriptor pid f a)) = length (PROCESS_DESCRIPTOR_VECTOR a)"
  "length (PROCESS_DESCRIPTOR_VECTOR (upd_process pid g a)) = length (PROCESS_DESCRIPTOR_VECTOR a)"
  "PROCESS_SCHEDULING_SORTED_VECTOR (upd_descriptor pid f a) = PROCESS_SCHEDULING_SORTED_VECTOR a"
  "PROCESS_SCHEDULING_SORTED_VECTOR (upd_process pid g a) = PROCESS_SCHEDULING_SORTED_VECTOR a"
  by (simp_all add: upd_descriptor_def upd_process_def)

section \<open>Names of objects are unique\<close>

text \<open>Every creation service looks for the name first; this is what the vectors keep.\<close>

definition names_distinct :: "APEX \<Rightarrow> bool" where
  "names_distinct a \<longleftrightarrow>
     distinct (map EVENT_NAME (EVENT_VECTOR a)) \<and>
     distinct (map BLACKBOARD_NAME (BLACKBOARD_VECTOR a)) \<and>
     distinct (map SEMAPHORE_NAME (SEMAPHORE_VECTOR a)) \<and>
     distinct (map RW_NAME (RW_LOCK_SEM_VECTOR a)) \<and>
     distinct (map BUFFER_NAME (BUFFER_VECTOR a)) \<and>
     distinct (map (\<lambda>d. PROCESS_NAME (attribute (THE_PROCESS d))) (PROCESS_DESCRIPTOR_VECTOR a))"

lemma names_distinct_new: "names_distinct APEX_new"
  by (simp add: names_distinct_def APEX_new_def)

end
