(* ===== verification/EventServices.thy ===== *)
theory EventServices
  imports ApexState
begin

text \<open>
  The event services of src/APEX\_EVENT\_SERVICES.cc and the services that find a process by
  thread or by name (GET\_MY\_ID, GET\_MY\_NAME, GET\_PROCESS\_ID, GET\_PROCESS\_NAME of
  src/APEX\_PROCESS\_SERVICES.cc).  Each service is a function of the instance; the macro it
  starts with, which answers INVALID\_CONFIG without one, is \<open>with_instance\<close> of theory
  ApexState.
\<close>

section \<open>Who is calling\<close>

text \<open>\<open>self\<close> is the calling thread; the map is searched in the order of its keys.\<close>

definition GET_MY_ID :: "nat \<Rightarrow> APEX \<Rightarrow> RETURN_CODE_TYPE \<times> nat option" where
  "GET_MY_ID self a =
     (case find_index (\<lambda>pid. thread_id (the_process pid a) = self) (PROCESS_ID_TO_PTHREAD_ID_MAP a) of
        Some i \<Rightarrow> (NO_ERROR, Some (PROCESS_ID_TO_PTHREAD_ID_MAP a ! i))
      | None \<Rightarrow> (INVALID_MODE, None))"

definition GET_PROCESS_ID :: "NAME_TYPE \<Rightarrow> APEX \<Rightarrow> (nat reply \<times> APEX) outcome" where
  "GET_PROCESS_ID name a =
     (case find_index (\<lambda>d. PROCESS_NAME (attribute (THE_PROCESS d)) = name) (PROCESS_DESCRIPTOR_VECTOR a) of
        Some i \<Rightarrow> ret_out NO_ERROR i a
      | None \<Rightarrow> ret INVALID_CONFIG a)"

definition GET_MY_NAME :: "nat \<Rightarrow> APEX \<Rightarrow> (NAME_TYPE reply \<times> APEX) outcome" where
  "GET_MY_NAME self a =
     (case GET_MY_ID self a of
        (NO_ERROR, Some pid) \<Rightarrow> ret_out NO_ERROR (PROCESS_NAME (attribute (the_process pid a))) a
      | (rc, _) \<Rightarrow> ret rc a)"

definition GET_PROCESS_NAME :: "nat \<Rightarrow> APEX \<Rightarrow> (NAME_TYPE reply \<times> APEX) outcome" where
  "GET_PROCESS_NAME pid a =
     (if length (PROCESS_DESCRIPTOR_VECTOR a) \<le> pid then ret INVALID_PARAM a
      else ret_out NO_ERROR (PROCESS_NAME (attribute (the_process pid a))) a)"

section \<open>Events\<close>

definition CREATE_EVENT :: "NAME_TYPE \<Rightarrow> APEX \<Rightarrow> (nat reply \<times> APEX) outcome" where
  "CREATE_EVENT name a =
     (if CURRENT_OPERATING_MODE a = IDLE \<or> CURRENT_OPERATING_MODE a = NORMAL then ret INVALID_MODE a
      else if \<exists>e\<in>set (EVENT_VECTOR a). EVENT_NAME e = name then ret INVALID_PARAM a
      else ret_out NO_ERROR (length (EVENT_VECTOR a))
             (a\<lparr>EVENT_VECTOR := EVENT_VECTOR a @ [EVENT_new name]\<rparr>))"

definition SET_EVENT :: "nat \<Rightarrow> APEX \<Rightarrow> ('o reply \<times> APEX) outcome" where
  "SET_EVENT eid a =
     (if length (EVENT_VECTOR a) \<le> eid then ret INVALID_PARAM a
      else let (rc, e) = EVENT_set (EVENT_VECTOR a ! eid)
           in ret rc (a\<lparr>EVENT_VECTOR := (EVENT_VECTOR a)[eid := e]\<rparr>))"

definition RESET_EVENT :: "nat \<Rightarrow> APEX \<Rightarrow> ('o reply \<times> APEX) outcome" where
  "RESET_EVENT eid a =
     (if length (EVENT_VECTOR a) \<le> eid then ret INVALID_PARAM a
      else let (rc, e) = EVENT_reset (EVENT_VECTOR a ! eid)
           in ret rc (a\<lparr>EVENT_VECTOR := (EVENT_VECTOR a)[eid := e]\<rparr>))"

definition WAIT_EVENT ::
  "SYSTEM_TIMESPEC \<Rightarrow> nat \<Rightarrow> SYSTEM_TIME_TYPE \<Rightarrow> APEX wakeup list \<Rightarrow> APEX \<Rightarrow> ('o reply \<times> APEX) outcome" where
  "WAIT_EVENT now eid TIME_OUT ws a =
     (if length (EVENT_VECTOR a) \<le> eid then ret INVALID_PARAM a
      else if TIME_OUT = INFINITE_TIME_VALUE then
        bind_outcome (EVENT_wait_forever (at EVENT_VECTOR eid) (at_update EVENT_VECTOR_update eid) ws a)
          (\<lambda>(rc, a'). ret rc a')
      else
        bind_outcome (EVENT_wait (at EVENT_VECTOR eid) (at_update EVENT_VECTOR_update eid) now TIME_OUT ws a)
          (\<lambda>(rc, a'). ret rc a'))"

definition GET_EVENT_ID :: "NAME_TYPE \<Rightarrow> APEX \<Rightarrow> (nat reply \<times> APEX) outcome" where
  "GET_EVENT_ID name a =
     (case find_index (\<lambda>e. EVENT_NAME e = name) (EVENT_VECTOR a) of
        Some i \<Rightarrow> ret_out NO_ERROR i a
      | None \<Rightarrow> ret INVALID_PARAM a)"

record EVENT_STATUS_TYPE =
  ES_EVENT_STATE :: EVENT_STATE_TYPE
  ES_WAITING_PROCESSES :: "64 word"

definition GET_EVENT_STATUS :: "nat \<Rightarrow> APEX \<Rightarrow> (EVENT_STATUS_TYPE reply \<times> APEX) outcome" where
  "GET_EVENT_STATUS eid a =
     (if length (EVENT_VECTOR a) \<le> eid then ret INVALID_PARAM a
      else ret_out NO_ERROR
             \<lparr>ES_EVENT_STATE = EVENT_STATE (EVENT_VECTOR a ! eid),
              ES_WAITING_PROCESSES = APEX_UNSIGNED_COUNTER (EVENT_VECTOR a ! eid)\<rparr> a)"

text \<open>\<open>APEX_HELPER_SET_EVENT\<close> and \<open>APEX_HELPER_RESET_EVENT\<close> of src/APEX\_INTERFACE\_IMPL.cc, used
  by a process on the event of its own name: nothing happens when there is none.\<close>

definition APEX_HELPER_SET_EVENT :: "NAME_TYPE \<Rightarrow> APEX \<Rightarrow> APEX" where
  "APEX_HELPER_SET_EVENT name a =
     (case find_index (\<lambda>e. EVENT_NAME e = name) (EVENT_VECTOR a) of
        Some i \<Rightarrow> a\<lparr>EVENT_VECTOR := (EVENT_VECTOR a)[i := snd (EVENT_set (EVENT_VECTOR a ! i))]\<rparr>
      | None \<Rightarrow> a)"

definition APEX_HELPER_RESET_EVENT :: "NAME_TYPE \<Rightarrow> APEX \<Rightarrow> APEX" where
  "APEX_HELPER_RESET_EVENT name a =
     (case find_index (\<lambda>e. EVENT_NAME e = name) (EVENT_VECTOR a) of
        Some i \<Rightarrow> a\<lparr>EVENT_VECTOR := (EVENT_VECTOR a)[i := snd (EVENT_reset (EVENT_VECTOR a ! i))]\<rparr>
      | None \<Rightarrow> a)"

section \<open>Behaviour\<close>

lemma field_EVENT:
  "field (\<lambda>a. eid < length (EVENT_VECTOR a)) (at EVENT_VECTOR eid) (at_update EVENT_VECTOR_update eid)"
  by (rule field_at) (simp_all cong: APEX.fold_congs)

lemma GET_MY_ID_found:
  "GET_MY_ID self a = (NO_ERROR, Some pid) \<Longrightarrow>
     pid \<in> set (PROCESS_ID_TO_PTHREAD_ID_MAP a) \<and> thread_id (the_process pid a) = self"
  by (auto simp: GET_MY_ID_def dest!: find_index_Some split: option.splits)

lemma GET_MY_ID_cases:
  obtains pid where "GET_MY_ID self a = (NO_ERROR, Some pid)" | "GET_MY_ID self a = (INVALID_MODE, None)"
proof (cases "find_index (\<lambda>pid. thread_id (the_process pid a) = self) (PROCESS_ID_TO_PTHREAD_ID_MAP a)")
  case None
  then show ?thesis using that(2) by (simp add: GET_MY_ID_def)
next
  case (Some i)
  then show ?thesis using that(1) by (simp add: GET_MY_ID_def)
qed

lemma SET_EVENT_simps:
  "eid < length (EVENT_VECTOR a) \<Longrightarrow>
    SET_EVENT eid a =
      ret NO_ERROR (a\<lparr>EVENT_VECTOR := (EVENT_VECTOR a)[eid := snd (EVENT_set (EVENT_VECTOR a ! eid))]\<rparr>)"
  by (simp add: SET_EVENT_def EVENT_set_def)

lemma RESET_EVENT_simps:
  "eid < length (EVENT_VECTOR a) \<Longrightarrow>
    RESET_EVENT eid a =
      ret NO_ERROR (a\<lparr>EVENT_VECTOR := (EVENT_VECTOR a)[eid := snd (EVENT_reset (EVENT_VECTOR a ! eid))]\<rparr>)"
  by (simp add: RESET_EVENT_def EVENT_reset_def)

lemma EVENT_VECTOR_update_id [simp]: "EVENT_VECTOR_update (\<lambda>x. x) a = a"
  by (cases a) simp

lemma WAIT_EVENT_up:
  assumes "eid < length (EVENT_VECTOR a)" "EVENT_STATE (EVENT_VECTOR a ! eid) = UP" "TIME_OUT \<le> MAX_TIME_OUT"
  obtains n where "WAIT_EVENT now eid TIME_OUT ws a =
     ret NO_ERROR (a\<lparr>EVENT_VECTOR := (EVENT_VECTOR a)[eid := (EVENT_VECTOR a ! eid)\<lparr>APEX_UNSIGNED_COUNTER := n\<rparr>]\<rparr>)"
proof (cases "TIME_OUT = INFINITE_TIME_VALUE")
  case True
  let ?u = "at_update EVENT_VECTOR_update eid"
  have "EVENT_STATE (at EVENT_VECTOR eid (?u inc_count a)) = UP"
    using assms(1,2) by (simp add: at_def at_update_def)
  then have "WAIT_EVENT now eid TIME_OUT ws a = ret NO_ERROR (?u dec_count (?u inc_count a))"
    using assms(1) True by (simp add: WAIT_EVENT_def EVENT_wait_forever_def)
  moreover have "dec_count \<circ> inc_count = (\<lambda>e. e)" by (simp add: fun_eq_iff)
  then have "?u dec_count (?u inc_count a) = ?u (\<lambda>e. e) a"
    using field_upd_upd [OF field_EVENT assms(1), of dec_count inc_count] by simp
  ultimately show ?thesis
    using that [of "APEX_UNSIGNED_COUNTER (EVENT_VECTOR a ! eid)"] by (simp add: at_update_def)
next
  case False
  then show ?thesis
    using that [of "APEX_UNSIGNED_COUNTER (EVENT_VECTOR a ! eid) - 1"] assms
    by (simp add: WAIT_EVENT_def EVENT_wait_up at_def at_update_def)
qed

lemma CREATE_EVENT_ok:
  "CREATE_EVENT name a = Returned ((NO_ERROR, out), a') \<longleftrightarrow>
     CURRENT_OPERATING_MODE a \<notin> {IDLE, NORMAL} \<and> name \<notin> EVENT_NAME ` set (EVENT_VECTOR a) \<and>
     out = Some (length (EVENT_VECTOR a)) \<and> a' = a\<lparr>EVENT_VECTOR := EVENT_VECTOR a @ [EVENT_new name]\<rparr>"
  by (auto simp: CREATE_EVENT_def)

lemma EVENT_new_name [simp]: "EVENT_NAME (EVENT_new name) = name"
  by (simp add: EVENT_new_def)

lemma names_distinct_CREATE_EVENT [acm_inv]:
  "CREATE_EVENT name a = Returned (r, a') \<Longrightarrow> names_distinct a \<Longrightarrow> names_distinct a'"
  by (auto simp: CREATE_EVENT_def names_distinct_def split: if_splits)

lemma names_distinct_event_update:
  "names_distinct a \<Longrightarrow> EVENT_NAME e = EVENT_NAME (EVENT_VECTOR a ! i) \<Longrightarrow>
   names_distinct (a\<lparr>EVENT_VECTOR := (EVENT_VECTOR a)[i := e]\<rparr>)"
  by (cases "i < length (EVENT_VECTOR a)")
    (simp_all add: names_distinct_def map_update_same list_update_beyond)

lemma names_distinct_SET_EVENT [acm_inv]:
  "SET_EVENT eid a = Returned (r, a') \<Longrightarrow> names_distinct a \<Longrightarrow> names_distinct a'"
  "RESET_EVENT eid a = Returned (r, a') \<Longrightarrow> names_distinct a \<Longrightarrow> names_distinct a'"
  by (auto simp: SET_EVENT_def RESET_EVENT_def EVENT_set_def EVENT_reset_def
      intro!: names_distinct_event_update split: if_splits)

text \<open>With unique names, the identifier a creation returns is the one the name is found under.\<close>

lemma GET_EVENT_ID_after_create:
  assumes "CREATE_EVENT name a = Returned ((NO_ERROR, Some eid), a')"
  shows "GET_EVENT_ID name a' = ret_out NO_ERROR eid a'"
proof -
  have "\<forall>e\<in>set (EVENT_VECTOR a). EVENT_NAME e \<noteq> name" and
    a': "a' = a\<lparr>EVENT_VECTOR := EVENT_VECTOR a @ [EVENT_new name]\<rparr>" "eid = length (EVENT_VECTOR a)"
    using assms by (auto simp: CREATE_EVENT_ok)
  then have "find_index (\<lambda>e. EVENT_NAME e = name) (EVENT_VECTOR a @ [EVENT_new name])
      = Some (length (EVENT_VECTOR a))"
    by (intro find_index_snoc_new) simp_all
  then show ?thesis using a' by (simp add: GET_EVENT_ID_def)
qed

end
