(* ===== verification/SemaphoreServices.thy ===== *)
theory SemaphoreServices
  imports EventServices
begin

text \<open>
  The counting semaphores and the reader/writer semaphores of src/APEX\_SEMAPHORE\_SERVICES.cc.
  A successful READLOCK or WRITELOCK records the semaphore with the calling process, so
  that the locks of a process that is stopped can be given back (theory ProcessServices).
  The argument \<open>is\<close> holds the interference met by the waits of a writer, as in theory
  RwLock.
\<close>

definition CREATE_SEMAPHORE :: "NAME_TYPE \<Rightarrow> int \<Rightarrow> int \<Rightarrow> APEX \<Rightarrow> (nat reply \<times> APEX) outcome" where
  "CREATE_SEMAPHORE name CURRENT_VALUE MAXIMUM_VALUE a =
     (if CURRENT_OPERATING_MODE a = IDLE \<or> CURRENT_OPERATING_MODE a = NORMAL then ret INVALID_MODE a
      else if \<exists>s\<in>set (SEMAPHORE_VECTOR a). SEMAPHORE_NAME s = name then ret INVALID_PARAM a
      else ret_out NO_ERROR (length (SEMAPHORE_VECTOR a))
             (a\<lparr>SEMAPHORE_VECTOR := SEMAPHORE_VECTOR a @
                                   [SEMAPHORE_new_named name CURRENT_VALUE MAXIMUM_VALUE]\<rparr>))"

definition WAIT_SEMAPHORE ::
  "SYSTEM_TIMESPEC \<Rightarrow> nat \<Rightarrow> SYSTEM_TIME_TYPE \<Rightarrow> APEX wakeup list \<Rightarrow> APEX \<Rightarrow> ('o reply \<times> APEX) outcome" where
  "WAIT_SEMAPHORE now sid TIME_OUT ws a =
     (if length (SEMAPHORE_VECTOR a) \<le> sid then ret INVALID_PARAM a
      else bind_outcome
             (SEMAPHORE_wait (at SEMAPHORE_VECTOR sid) (at_update SEMAPHORE_VECTOR_update sid) now TIME_OUT ws a)
             (\<lambda>(rc, a'). ret rc a'))"

definition SIGNAL_SEMAPHORE :: "nat \<Rightarrow> APEX \<Rightarrow> ('o reply \<times> APEX) outcome" where
  "SIGNAL_SEMAPHORE sid a =
     (if length (SEMAPHORE_VECTOR a) \<le> sid then ret INVALID_PARAM a
      else let (rc, s) = SEMAPHORE_post (SEMAPHORE_VECTOR a ! sid)
           in ret rc (a\<lparr>SEMAPHORE_VECTOR := (SEMAPHORE_VECTOR a)[sid := s]\<rparr>))"

definition GET_SEMAPHORE_ID :: "NAME_TYPE \<Rightarrow> APEX \<Rightarrow> (nat reply \<times> APEX) outcome" where
  "GET_SEMAPHORE_ID name a =
     (case find_index (\<lambda>s. SEMAPHORE_NAME s = name) (SEMAPHORE_VECTOR a) of
        Some i \<Rightarrow> ret_out NO_ERROR i a
      | None \<Rightarrow> ret INVALID_PARAM a)"

record SEMAPHORE_STATUS_TYPE =
  SS_CURRENT_VALUE :: int
  SS_MAXIMUM_VALUE :: int
  SS_WAITING_PROCESSES :: "64 word"

definition GET_SEMAPHORE_STATUS :: "nat \<Rightarrow> APEX \<Rightarrow> (SEMAPHORE_STATUS_TYPE reply \<times> APEX) outcome" where
  "GET_SEMAPHORE_STATUS sid a =
     (if length (SEMAPHORE_VECTOR a) \<le> sid then ret INVALID_PARAM a
      else let s = SEMAPHORE_VECTOR a ! sid in
        ret_out NO_ERROR
          \<lparr>SS_CURRENT_VALUE = counter s, SS_MAXIMUM_VALUE = maximumvalue s,
           SS_WAITING_PROCESSES = APEX_UNSIGNED_WAITING_COUNTER s\<rparr> a)"

section \<open>Reader/writer semaphores\<close>

definition CREATE_RW_SEMAPHORE :: "NAME_TYPE \<Rightarrow> int \<Rightarrow> APEX \<Rightarrow> (nat reply \<times> APEX) outcome" where
  "CREATE_RW_SEMAPHORE name MAXIMUM_READERS a =
     (if CURRENT_OPERATING_MODE a = IDLE \<or> CURRENT_OPERATING_MODE a = NORMAL then ret INVALID_MODE a
      else if \<exists>l\<in>set (RW_LOCK_SEM_VECTOR a). RW_NAME l = name then ret INVALID_PARAM a
      else ret_out NO_ERROR (length (RW_LOCK_SEM_VECTOR a))
             (a\<lparr>RW_LOCK_SEM_VECTOR := RW_LOCK_SEM_VECTOR a @ [RW_LOCK_SEM_new name MAXIMUM_READERS]\<rparr>))"

definition GET_RW_SEMAPHORE_ID :: "NAME_TYPE \<Rightarrow> APEX \<Rightarrow> (nat reply \<times> APEX) outcome" where
  "GET_RW_SEMAPHORE_ID name a =
     (case find_index (\<lambda>l. RW_NAME l = name) (RW_LOCK_SEM_VECTOR a) of
        Some i \<Rightarrow> ret_out NO_ERROR i a
      | None \<Rightarrow> ret INVALID_PARAM a)"

text \<open>The end of each service: the lists of the calling process, when there is one.\<close>

definition for_my_process :: "nat \<Rightarrow> (PROCESS \<Rightarrow> PROCESS) \<Rightarrow> APEX \<Rightarrow> APEX" where
  "for_my_process self f a =
     (case GET_MY_ID self a of (NO_ERROR, Some pid) \<Rightarrow> upd_process pid f a | _ \<Rightarrow> a)"

definition upd_rw :: "nat \<Rightarrow> (RW_LOCK_SEM \<Rightarrow> RW_LOCK_SEM) \<Rightarrow> APEX \<Rightarrow> APEX" where
  "upd_rw = at_update RW_LOCK_SEM_VECTOR_update"

text \<open>The other threads act on the lock while the caller is blocked in it.\<close>

definition READLOCK_RW_SEMAPHORE ::
  "nat \<Rightarrow> SYSTEM_TIMESPEC \<Rightarrow> nat \<Rightarrow> SYSTEM_TIME_TYPE \<Rightarrow> RW_LOCK_SEM wakeup list \<Rightarrow> APEX \<Rightarrow>
   ('o reply \<times> APEX) outcome" where
  "READLOCK_RW_SEMAPHORE self now sid TIME_OUT ws a =
     (if length (RW_LOCK_SEM_VECTOR a) \<le> sid then ret INVALID_PARAM a
      else bind_outcome (readlock now TIME_OUT ws (RW_LOCK_SEM_VECTOR a ! sid)) (\<lambda>(rc, l).
        let a1 = upd_rw sid (\<lambda>_. l) a
        in ret rc (if rc = NO_ERROR
                   then for_my_process self (\<lambda>p. p\<lparr>READLOCKS := READLOCKS p @ [sid]\<rparr>) a1 else a1)))"

definition READUNLOCK_RW_SEMAPHORE :: "nat \<Rightarrow> nat \<Rightarrow> APEX \<Rightarrow> ('o reply \<times> APEX) outcome" where
  "READUNLOCK_RW_SEMAPHORE self sid a =
     (if length (RW_LOCK_SEM_VECTOR a) \<le> sid then ret INVALID_PARAM a
      else ret NO_ERROR
             (for_my_process self (\<lambda>p. p\<lparr>READLOCKS := remove1 sid (READLOCKS p)\<rparr>)
               (upd_rw sid readunlock a)))"

definition WRITELOCK_RW_SEMAPHORE ::
  "nat \<Rightarrow> SYSTEM_TIMESPEC \<Rightarrow> nat \<Rightarrow> SYSTEM_TIME_TYPE \<Rightarrow> RW_LOCK_SEM wakeup list \<Rightarrow>
   RW_LOCK_SEM interference list \<Rightarrow> APEX \<Rightarrow> ('o reply \<times> APEX) outcome" where
  "WRITELOCK_RW_SEMAPHORE self now sid TIME_OUT ws is a =
     (if length (RW_LOCK_SEM_VECTOR a) \<le> sid then ret INVALID_PARAM a
      else bind_outcome (writelock now TIME_OUT ws is (RW_LOCK_SEM_VECTOR a ! sid)) (\<lambda>(rc, l).
        let a1 = upd_rw sid (\<lambda>_. l) a
        in ret rc (if rc = NO_ERROR
                   then for_my_process self (\<lambda>p. p\<lparr>WRITELOCKS := WRITELOCKS p @ [sid]\<rparr>) a1 else a1)))"

definition WRITEUNLOCK_RW_SEMAPHORE :: "nat \<Rightarrow> nat \<Rightarrow> APEX \<Rightarrow> ('o reply \<times> APEX) outcome" where
  "WRITEUNLOCK_RW_SEMAPHORE self sid a =
     (if length (RW_LOCK_SEM_VECTOR a) \<le> sid then ret INVALID_PARAM a
      else ret NO_ERROR
             (for_my_process self (\<lambda>p. p\<lparr>WRITELOCKS := remove1 sid (WRITELOCKS p)\<rparr>)
               (upd_rw sid writeunlock a)))"

section \<open>Behaviour\<close>

lemma field_SEMAPHORE:
  "field (\<lambda>a. sid < length (SEMAPHORE_VECTOR a)) (at SEMAPHORE_VECTOR sid) (at_update SEMAPHORE_VECTOR_update sid)"
  by (rule field_at) (simp_all cong: APEX.fold_congs)

definition sems_inv :: "APEX \<Rightarrow> bool" where
  "sems_inv a \<longleftrightarrow> (\<forall>s\<in>set (SEMAPHORE_VECTOR a). sem_inv s)"

lemma sems_inv_create [acm_inv]:
  "CREATE_SEMAPHORE name v m a = Returned (r, a') \<Longrightarrow> 0 \<le> v \<Longrightarrow> v \<le> m \<Longrightarrow> sems_inv a \<Longrightarrow> sems_inv a'"
  by (auto simp: CREATE_SEMAPHORE_def sems_inv_def sem_inv_def SEMAPHORE_new_named_def split: if_splits)

lemma sems_inv_signal [acm_inv]:
  assumes "SIGNAL_SEMAPHORE sid a = Returned (r, a')" "sems_inv a"
  shows "sems_inv a'"
proof (cases "sid < length (SEMAPHORE_VECTOR a)")
  case True
  then have "sem_inv (snd (SEMAPHORE_post (SEMAPHORE_VECTOR a ! sid)))"
    using assms(2) by (intro sem_inv_post) (simp add: sems_inv_def)
  then show ?thesis using assms True
    by (auto simp: SIGNAL_SEMAPHORE_def sems_inv_def case_prod_beta
        dest!: set_update_subset_insert [THEN subsetD])
qed (use assms in \<open>simp add: SIGNAL_SEMAPHORE_def\<close>)

text \<open>Signalling \<open>n\<close> times counts up to the maximum and not beyond.\<close>

fun signal_times :: "nat \<Rightarrow> nat \<Rightarrow> APEX \<Rightarrow> APEX outcome" where
  "signal_times 0 sid a = Returned a"
| "signal_times (Suc n) sid a =
     bind_outcome (SIGNAL_SEMAPHORE sid a :: (unit reply \<times> APEX) outcome) (\<lambda>(r, a'). signal_times n sid a')"

lemma signal_times_value:
  "sid < length (SEMAPHORE_VECTOR a) \<Longrightarrow> sem_inv (SEMAPHORE_VECTOR a ! sid) \<Longrightarrow>
   \<exists>a'. signal_times n sid a = Returned a' \<and> length (SEMAPHORE_VECTOR a') = length (SEMAPHORE_VECTOR a) \<and>
     SEMAPHORE_VECTOR a' ! sid = (SEMAPHORE_VECTOR a ! sid)\<lparr>counter :=
        min (counter (SEMAPHORE_VECTOR a ! sid) + int n) (maximumvalue (SEMAPHORE_VECTOR a ! sid))\<rparr>"
proof (induction n arbitrary: a)
  case 0
  then show ?case by (simp add: sem_inv_def min_def)
next
  case (Suc n)
  let ?s = "SEMAPHORE_VECTOR a ! sid" and ?s' = "snd (SEMAPHORE_post (SEMAPHORE_VECTOR a ! sid))"
  let ?a = "a\<lparr>SEMAPHORE_VECTOR := (SEMAPHORE_VECTOR a)[sid := ?s']\<rparr>"
  obtain rc where step: "SIGNAL_SEMAPHORE sid a = (ret rc ?a :: (unit reply \<times> APEX) outcome)"
    using Suc.prems(1) by (auto simp: SIGNAL_SEMAPHORE_def case_prod_beta)
  have "sem_inv ?s'" using Suc.prems(2) by (rule sem_inv_post)
  then obtain a' where "signal_times n sid ?a = Returned a'"
    "length (SEMAPHORE_VECTOR a') = length (SEMAPHORE_VECTOR ?a)"
    "SEMAPHORE_VECTOR a' ! sid = ?s'\<lparr>counter := min (counter ?s' + int n) (maximumvalue ?s')\<rparr>"
    using Suc.IH [of ?a] Suc.prems(1) by auto
  then show ?case using step Suc.prems(2)
    by (auto simp: SEMAPHORE_post_def sem_inv_def)
qed

lemma names_distinct_CREATE_SEMAPHORE [acm_inv]:
  "CREATE_SEMAPHORE name v m a = Returned (r, a') \<Longrightarrow> names_distinct a \<Longrightarrow> names_distinct a'"
  by (auto simp: CREATE_SEMAPHORE_def names_distinct_def SEMAPHORE_new_named_def split: if_splits)

lemma names_distinct_CREATE_RW [acm_inv]:
  "CREATE_RW_SEMAPHORE name m a = Returned (r, a') \<Longrightarrow> names_distinct a \<Longrightarrow> names_distinct a'"
  by (auto simp: CREATE_RW_SEMAPHORE_def names_distinct_def RW_LOCK_SEM_new_def split: if_splits)

text \<open>A read lock taken and given back: the process and the lock are as before.\<close>

lemma for_my_process_me:
  "GET_MY_ID self a = (NO_ERROR, Some pid) \<Longrightarrow> for_my_process self f a = upd_process pid f a"
  by (simp add: for_my_process_def)

lemma GET_MY_ID_upd_process [simp]:
  assumes "\<And>p. thread_id (f p) = thread_id p"
  shows "GET_MY_ID self (upd_process pid f a) = GET_MY_ID self a"
proof -
  have "thread_id (the_process i (upd_process pid f a)) = thread_id (the_process i a)" for i
    using assms
    by (cases "i = pid"; cases "process_exists pid a")
      (simp_all, simp add: the_process_def upd_process_def upd_descriptor_def process_exists_def
        list_update_beyond)
  moreover have "PROCESS_ID_TO_PTHREAD_ID_MAP (upd_process pid f a) = PROCESS_ID_TO_PTHREAD_ID_MAP a"
    by (simp add: upd_process_def upd_descriptor_def)
  ultimately show ?thesis by (simp add: GET_MY_ID_def split: option.split)
qed

lemma GET_MY_ID_upd_rw [simp]: "GET_MY_ID self (upd_rw sid f a) = GET_MY_ID self a"
  by (simp add: GET_MY_ID_def upd_rw_def at_update_def the_process_def split: option.split)

lemma upd_rw_fields [simp]:
  "PROCESS_DESCRIPTOR_VECTOR (upd_rw sid f a) = PROCESS_DESCRIPTOR_VECTOR a"
  "length (RW_LOCK_SEM_VECTOR (upd_rw sid f a)) = length (RW_LOCK_SEM_VECTOR a)"
  "RW_LOCK_SEM_VECTOR (upd_process pid g a) = RW_LOCK_SEM_VECTOR a"
  "sid < length (RW_LOCK_SEM_VECTOR a) \<Longrightarrow> RW_LOCK_SEM_VECTOR (upd_rw sid f a) ! sid = f (RW_LOCK_SEM_VECTOR a ! sid)"
  by (simp_all add: upd_rw_def at_update_def upd_process_def upd_descriptor_def)

end
