(* ===== verification/BlackboardServices.thy ===== *)
theory BlackboardServices
  imports EventServices
begin

text \<open>
  Blackboards: APEX\_BLACKBOARD\_TYPE of src/BLACKBOARD.cc and the services of
  src/APEX\_BLACKBOARD\_SERVICES.cc.  A board owns an event of the partition that has the name
  of the board; readers of an empty board wait for it.  The mutex and the reader/writer
  lock inside the board make each of its operations atomic here.
\<close>

abbreviation board :: "nat \<Rightarrow> APEX \<Rightarrow> APEX_BLACKBOARD_TYPE" where
  "board bid a \<equiv> BLACKBOARD_VECTOR a ! bid"

definition upd_board :: "nat \<Rightarrow> (APEX_BLACKBOARD_TYPE \<Rightarrow> APEX_BLACKBOARD_TYPE) \<Rightarrow> APEX \<Rightarrow> APEX" where
  "upd_board bid f a = a\<lparr>BLACKBOARD_VECTOR := (BLACKBOARD_VECTOR a)[bid := f (board bid a)]\<rparr>"

text \<open>CREATE\_BLACKBOARD with the constructor of the board, which creates the event and
  asserts that this succeeds; \<open>heap\<close> is the memory malloc hands out.\<close>

definition CREATE_BLACKBOARD :: "NAME_TYPE \<Rightarrow> int \<Rightarrow> byte list \<Rightarrow> APEX \<Rightarrow> (nat reply \<times> APEX) outcome" where
  "CREATE_BLACKBOARD name MAX_SIZE heap a =
     (if CURRENT_OPERATING_MODE a = NORMAL then ret INVALID_MODE a
      else if MAX_SIZE \<le> 0 then ret INVALID_PARAM a
      else if \<exists>b\<in>set (BLACKBOARD_VECTOR a). BLACKBOARD_NAME b = name then ret NO_ACTION a
      else bind_outcome (CREATE_EVENT name a) (\<lambda>((rc, eid), a1).
        if rc \<noteq> NO_ERROR then Aborted
        else ret_out NO_ERROR (length (BLACKBOARD_VECTOR a))
          (a1\<lparr>BLACKBOARD_VECTOR := BLACKBOARD_VECTOR a1 @
               [\<lparr>BLACKBOARD_EVENT_ID = the eid, BLACKBOARD_NAME = name,
                 BLACKBOARD_ID = length (BLACKBOARD_VECTOR a), BB_MAX_MESSAGE_SIZE = MAX_SIZE,
                 BB_CURRENT_MESSAGE_SIZE = 0, BB_PAYLOAD = heap\<rparr>]\<rparr>)))"

definition ERASE_BLACKBOARD :: "nat \<Rightarrow> APEX \<Rightarrow> ('o reply \<times> APEX) outcome" where
  "ERASE_BLACKBOARD bid a =
     bind_outcome (c_memset (BB_PAYLOAD (board bid a)) char_0 (BB_MAX_MESSAGE_SIZE (board bid a))) (\<lambda>wiped.
     bind_outcome (RESET_EVENT (BLACKBOARD_EVENT_ID (board bid a)) (upd_board bid (\<lambda>b. b\<lparr>BB_PAYLOAD := wiped\<rparr>) a))
       (\<lambda>(r, a1). Returned (r, upd_board bid (\<lambda>b. b\<lparr>BB_CURRENT_MESSAGE_SIZE := 0\<rparr>) a1)))"

definition WRITE_ON_BLACKBOARD :: "nat \<Rightarrow> byte list \<Rightarrow> int \<Rightarrow> APEX \<Rightarrow> ('o reply \<times> APEX) outcome" where
  "WRITE_ON_BLACKBOARD bid MESSAGE_ADDR len a =
     (if \<not> len \<le> BB_MAX_MESSAGE_SIZE (board bid a) then Aborted
      else bind_outcome (c_memcpy (BB_PAYLOAD (board bid a)) MESSAGE_ADDR len) (\<lambda>load.
        SET_EVENT (BLACKBOARD_EVENT_ID (board bid a))
          (upd_board bid (\<lambda>b. b\<lparr>BB_PAYLOAD := load, BB_CURRENT_MESSAGE_SIZE := len\<rparr>) a)))"

definition READ_FROM_BLACKBOARD :: "nat \<Rightarrow> APEX \<Rightarrow> (byte list reply \<times> APEX) outcome" where
  "READ_FROM_BLACKBOARD bid a =
     bind_outcome (c_read (BB_PAYLOAD (board bid a)) (BB_CURRENT_MESSAGE_SIZE (board bid a)))
       (\<lambda>m. ret_out NO_ERROR m a)"

section \<open>The services\<close>

definition CLEAR_BLACKBOARD :: "nat \<Rightarrow> APEX \<Rightarrow> ('o reply \<times> APEX) outcome" where
  "CLEAR_BLACKBOARD bid a =
     (if length (BLACKBOARD_VECTOR a) \<le> bid then ret INVALID_PARAM a else ERASE_BLACKBOARD bid a)"

definition DISPLAY_BLACKBOARD :: "nat \<Rightarrow> byte list \<Rightarrow> int \<Rightarrow> APEX \<Rightarrow> ('o reply \<times> APEX) outcome" where
  "DISPLAY_BLACKBOARD bid MESSAGE_ADDR len a =
     (if length (BLACKBOARD_VECTOR a) \<le> bid then ret INVALID_PARAM a
      else if BB_MAX_MESSAGE_SIZE (board bid a) < len then ret INVALID_PARAM a
      else bind_outcome (CLEAR_BLACKBOARD bid a) (\<lambda>((rc, out), a1).
        if rc \<noteq> NO_ERROR then Returned ((rc, out), a1)
        else WRITE_ON_BLACKBOARD bid MESSAGE_ADDR len a1))"

definition READ_BLACKBOARD ::
  "SYSTEM_TIMESPEC \<Rightarrow> nat \<Rightarrow> SYSTEM_TIME_TYPE \<Rightarrow> APEX wakeup list \<Rightarrow> APEX \<Rightarrow> (byte list reply \<times> APEX) outcome" where
  "READ_BLACKBOARD now bid TIME_OUT ws a =
     (if length (BLACKBOARD_VECTOR a) \<le> bid then ret INVALID_PARAM a
      else if TIME_OUT > MAX_TIME_OUT then ret INVALID_PARAM a
      else if BB_CURRENT_MESSAGE_SIZE (board bid a) = 0 then
        (if TIME_OUT = 0 then ret NOT_AVAILABLE a
         else bind_outcome (WAIT_EVENT now (BLACKBOARD_EVENT_ID (board bid a)) TIME_OUT ws a)
           (\<lambda>((rc, out :: unit option), a1).
              if rc = TIMED_OUT then ret rc a1 else READ_FROM_BLACKBOARD bid a1))
      else READ_FROM_BLACKBOARD bid a)"

definition GET_BLACKBOARD_ID :: "NAME_TYPE \<Rightarrow> APEX \<Rightarrow> (nat reply \<times> APEX) outcome" where
  "GET_BLACKBOARD_ID name a =
     (case find_index (\<lambda>b. BLACKBOARD_NAME b = name) (BLACKBOARD_VECTOR a) of
        Some i \<Rightarrow> ret_out NO_ERROR i a
      | None \<Rightarrow> ret INVALID_CONFIG a)"

datatype EMPTY_INDICATOR_TYPE = EMPTY | OCCUPIED

record BLACKBOARD_STATUS_TYPE =
  EMPTY_INDICATOR :: EMPTY_INDICATOR_TYPE
  BS_MAX_MESSAGE_SIZE :: int
  BS_WAITING_PROCESSES :: "64 word"

text \<open>The number of waiting processes is that of the event; when the event does not exist it is
  not set, and the return code is that of GET\_EVENT\_STATUS.\<close>

definition GET_BLACKBOARD_STATUS :: "nat \<Rightarrow> 64 word \<Rightarrow> APEX \<Rightarrow> (BLACKBOARD_STATUS_TYPE reply \<times> APEX) outcome" where
  "GET_BLACKBOARD_STATUS bid junk a =
     (if length (BLACKBOARD_VECTOR a) \<le> bid then ret INVALID_PARAM a
      else bind_outcome (GET_EVENT_STATUS (BLACKBOARD_EVENT_ID (board bid a)) a) (\<lambda>((rc, es), a1).
        ret_out rc
          \<lparr>EMPTY_INDICATOR = (if BB_CURRENT_MESSAGE_SIZE (board bid a) = 0 then EMPTY else OCCUPIED),
           BS_MAX_MESSAGE_SIZE = BB_MAX_MESSAGE_SIZE (board bid a),
           BS_WAITING_PROCESSES = (case es of Some e \<Rightarrow> ES_WAITING_PROCESSES e | None \<Rightarrow> junk)\<rparr> a1))"

section \<open>Invariant\<close>

definition board_ok :: "nat \<Rightarrow> APEX_BLACKBOARD_TYPE \<Rightarrow> bool" where
  "board_ok events b \<longleftrightarrow>
     0 < BB_MAX_MESSAGE_SIZE b \<and> int (length (BB_PAYLOAD b)) = BB_MAX_MESSAGE_SIZE b \<and>
     0 \<le> BB_CURRENT_MESSAGE_SIZE b \<and> BB_CURRENT_MESSAGE_SIZE b \<le> BB_MAX_MESSAGE_SIZE b \<and>
     BLACKBOARD_EVENT_ID b < events"

definition boards_inv :: "APEX \<Rightarrow> bool" where
  "boards_inv a \<longleftrightarrow> (\<forall>b\<in>set (BLACKBOARD_VECTOR a). board_ok (length (EVENT_VECTOR a)) b)"

lemma boards_inv_nth: "boards_inv a \<Longrightarrow> bid < length (BLACKBOARD_VECTOR a) \<Longrightarrow> board_ok (length (EVENT_VECTOR a)) (board bid a)"
  by (simp add: boards_inv_def)

lemma boards_inv_new: "boards_inv APEX_new"
  by (simp add: boards_inv_def APEX_new_def)

lemma boards_inv_upd:
  "boards_inv a \<Longrightarrow> board_ok (length (EVENT_VECTOR a)) (f (board bid a)) \<Longrightarrow> boards_inv (upd_board bid f a)"
  by (auto simp: boards_inv_def upd_board_def dest!: set_update_subset_insert [THEN subsetD])

lemma boards_inv_event_update [simp]:
  "length es = length (EVENT_VECTOR a) \<Longrightarrow> boards_inv (a\<lparr>EVENT_VECTOR := es\<rparr>) = boards_inv a"
  by (simp add: boards_inv_def)

lemma upd_board_frame [simp]:
  "EVENT_VECTOR (upd_board bid f a) = EVENT_VECTOR a"
  "length (BLACKBOARD_VECTOR (upd_board bid f a)) = length (BLACKBOARD_VECTOR a)"
  "bid < length (BLACKBOARD_VECTOR a) \<Longrightarrow> board bid (upd_board bid f a) = f (board bid a)"
  "CURRENT_OPERATING_MODE (upd_board bid f a) = CURRENT_OPERATING_MODE a"
  "PROCESS_DESCRIPTOR_VECTOR (upd_board bid f a) = PROCESS_DESCRIPTOR_VECTOR a"
  "PROCESS_SCHEDULING_SORTED_VECTOR (upd_board bid f a) = PROCESS_SCHEDULING_SORTED_VECTOR a"
  by (simp_all add: upd_board_def)

lemma board_event_update [simp]: "board bid (a\<lparr>EVENT_VECTOR := es\<rparr>) = board bid a"
  by simp

text \<open>What CLEAR and DISPLAY do on a board of the partition: they cannot fail.\<close>

definition erased :: "nat \<Rightarrow> APEX \<Rightarrow> APEX" where
  "erased bid a =
     (let eid = BLACKBOARD_EVENT_ID (board bid a);
          a1 = a\<lparr>EVENT_VECTOR := (EVENT_VECTOR a)[eid := snd (EVENT_reset (EVENT_VECTOR a ! eid))]\<rparr>
      in upd_board bid (\<lambda>b. b\<lparr>BB_PAYLOAD := replicate (nat (BB_MAX_MESSAGE_SIZE b)) char_0,
                              BB_CURRENT_MESSAGE_SIZE := 0\<rparr>) a1)"

lemma upd_board_upd_board:
  "upd_board bid f (upd_board bid g a) = upd_board bid (\<lambda>b. f (g b)) a"
  by (cases "bid < length (BLACKBOARD_VECTOR a)") (simp_all add: upd_board_def list_update_beyond)

lemma upd_board_event:
  "upd_board bid f (a\<lparr>EVENT_VECTOR := es\<rparr>) = (upd_board bid f a)\<lparr>EVENT_VECTOR := es\<rparr>"
  by (simp add: upd_board_def)

lemma CLEAR_BLACKBOARD_ok:
  assumes "boards_inv a" "bid < length (BLACKBOARD_VECTOR a)"
  shows "CLEAR_BLACKBOARD bid a = ret NO_ERROR (erased bid a)"
proof -
  have ok: "board_ok (length (EVENT_VECTOR a)) (board bid a)" using boards_inv_nth [OF assms] .
  then have "c_memset (BB_PAYLOAD (board bid a)) char_0 (BB_MAX_MESSAGE_SIZE (board bid a))
      = Returned (replicate (nat (BB_MAX_MESSAGE_SIZE (board bid a))) char_0)"
    by (auto simp: c_memset_def board_ok_def)
  then show ?thesis using ok assms(2)
    by (simp add: CLEAR_BLACKBOARD_def ERASE_BLACKBOARD_def RESET_EVENT_simps board_ok_def
        erased_def Let_def upd_board_def)
qed

lemma boards_inv_erased [acm_inv]:
  assumes "boards_inv a" "bid < length (BLACKBOARD_VECTOR a)"
  shows "boards_inv (erased bid a)"
  unfolding erased_def Let_def
  by (rule boards_inv_upd) (use assms boards_inv_nth [OF assms] in \<open>simp_all add: board_ok_def\<close>)

lemma erased_frame [simp]:
  "length (BLACKBOARD_VECTOR (erased bid a)) = length (BLACKBOARD_VECTOR a)"
  "length (EVENT_VECTOR (erased bid a)) = length (EVENT_VECTOR a)"
  "CURRENT_OPERATING_MODE (erased bid a) = CURRENT_OPERATING_MODE a"
  "PROCESS_DESCRIPTOR_VECTOR (erased bid a) = PROCESS_DESCRIPTOR_VECTOR a"
  "PROCESS_SCHEDULING_SORTED_VECTOR (erased bid a) = PROCESS_SCHEDULING_SORTED_VECTOR a"
  by (simp_all add: erased_def Let_def)

lemma erased_board [simp]:
  "bid < length (BLACKBOARD_VECTOR a) \<Longrightarrow>
    board bid (erased bid a) =
      (board bid a)\<lparr>BB_PAYLOAD := replicate (nat (BB_MAX_MESSAGE_SIZE (board bid a))) char_0,
                    BB_CURRENT_MESSAGE_SIZE := 0\<rparr>"
  by (simp add: erased_def Let_def)

text \<open>The partition after a message of \<open>len\<close> bytes has been displayed.\<close>

definition displayed :: "nat \<Rightarrow> byte list \<Rightarrow> APEX \<Rightarrow> APEX" where
  "displayed bid m a =
     (let a1 = erased bid a;
          eid = BLACKBOARD_EVENT_ID (board bid a);
          a2 = upd_board bid (\<lambda>b. b\<lparr>BB_PAYLOAD := m @ drop (length m) (BB_PAYLOAD b),
                                    BB_CURRENT_MESSAGE_SIZE := int (length m)\<rparr>) a1
      in a2\<lparr>EVENT_VECTOR := (EVENT_VECTOR a2)[eid := snd (EVENT_set (EVENT_VECTOR a2 ! eid))]\<rparr>)"

lemma DISPLAY_BLACKBOARD_ok:
  assumes "boards_inv a" "bid < length (BLACKBOARD_VECTOR a)"
    "0 \<le> len" "len \<le> int (length m)" "len \<le> BB_MAX_MESSAGE_SIZE (board bid a)"
  shows "DISPLAY_BLACKBOARD bid m len a = ret NO_ERROR (displayed bid (take (nat len) m) a)"
proof -
  have ok: "board_ok (length (EVENT_VECTOR a)) (board bid a)" using boards_inv_nth [OF assms(1,2)] .
  have len: "length (take (nat len) m) = nat len" using assms(3,4) by simp
  have "c_memcpy (replicate (nat (BB_MAX_MESSAGE_SIZE (board bid a))) char_0) m len
      = Returned (take (nat len) m @ drop (nat len) (replicate (nat (BB_MAX_MESSAGE_SIZE (board bid a))) char_0))"
    using assms ok by (simp add: c_memcpy_def board_ok_def)
  moreover have "BLACKBOARD_EVENT_ID (board bid a) < length (EVENT_VECTOR a)" using ok by (simp add: board_ok_def)
  ultimately show ?thesis using assms len
    by (simp add: CLEAR_BLACKBOARD_ok DISPLAY_BLACKBOARD_def WRITE_ON_BLACKBOARD_def SET_EVENT_simps displayed_def Let_def
        upd_board_def [of bid _ "erased bid a"])
qed

lemma displayed_frame [simp]:
  "length (BLACKBOARD_VECTOR (displayed bid m a)) = length (BLACKBOARD_VECTOR a)"
  "length (EVENT_VECTOR (displayed bid m a)) = length (EVENT_VECTOR a)"
  "CURRENT_OPERATING_MODE (displayed bid m a) = CURRENT_OPERATING_MODE a"
  "PROCESS_DESCRIPTOR_VECTOR (displayed bid m a) = PROCESS_DESCRIPTOR_VECTOR a"
  "PROCESS_SCHEDULING_SORTED_VECTOR (displayed bid m a) = PROCESS_SCHEDULING_SORTED_VECTOR a"
  by (simp_all add: displayed_def Let_def)

lemma displayed_board [simp]:
  "bid < length (BLACKBOARD_VECTOR a) \<Longrightarrow>
    board bid (displayed bid m a) =
      (board bid a)\<lparr>BB_PAYLOAD := m @ drop (length m) (replicate (nat (BB_MAX_MESSAGE_SIZE (board bid a))) char_0),
                    BB_CURRENT_MESSAGE_SIZE := int (length m)\<rparr>"
  by (simp add: displayed_def Let_def)

lemma displayed_event:
  "boards_inv a \<Longrightarrow> bid < length (BLACKBOARD_VECTOR a) \<Longrightarrow>
    EVENT_STATE (EVENT_VECTOR (displayed bid m a) ! BLACKBOARD_EVENT_ID (board bid a)) = UP"
  using boards_inv_nth [of a bid] by (simp add: displayed_def Let_def board_ok_def)

lemma boards_inv_displayed [acm_inv]:
  assumes "boards_inv a" "bid < length (BLACKBOARD_VECTOR a)"
    "int (length m) \<le> BB_MAX_MESSAGE_SIZE (board bid a)"
  shows "boards_inv (displayed bid m a)"
proof -
  have e: "boards_inv (erased bid a)" using assms(1,2) by (rule boards_inv_erased)
  then have "boards_inv (upd_board bid (\<lambda>b. b\<lparr>BB_PAYLOAD := m @ drop (length m) (BB_PAYLOAD b),
                                    BB_CURRENT_MESSAGE_SIZE := int (length m)\<rparr>) (erased bid a))"
    by (rule boards_inv_upd) (use boards_inv_nth [OF assms(1,2)] assms(2,3) in \<open>simp add: board_ok_def\<close>)
  then show ?thesis by (simp add: displayed_def Let_def)
qed

lemma boards_inv_create [acm_inv]:
  assumes "CREATE_BLACKBOARD name n heap a = Returned (r, a')" "boards_inv a" "int (length heap) = n"
  shows "boards_inv a'"
  using assms
  by (auto simp: CREATE_BLACKBOARD_def bind_outcome_Returned CREATE_EVENT_def boards_inv_def board_ok_def
      less_Suc_eq split: if_splits)

lemma READ_BLACKBOARD_occupied:
  assumes "boards_inv a" "bid < length (BLACKBOARD_VECTOR a)" "TIME_OUT \<le> MAX_TIME_OUT"
    "BB_CURRENT_MESSAGE_SIZE (board bid a) \<noteq> 0"
  shows "READ_BLACKBOARD now bid TIME_OUT ws a =
     ret_out NO_ERROR (take (nat (BB_CURRENT_MESSAGE_SIZE (board bid a))) (BB_PAYLOAD (board bid a))) a"
  using boards_inv_nth [OF assms(1,2)] assms
  by (simp add: READ_BLACKBOARD_def READ_FROM_BLACKBOARD_def c_read_def board_ok_def)

lemma READ_BLACKBOARD_empty_now:
  assumes "bid < length (BLACKBOARD_VECTOR a)" "BB_CURRENT_MESSAGE_SIZE (board bid a) = 0"
  shows "READ_BLACKBOARD now bid 0 ws a = ret NOT_AVAILABLE a"
  using assms MAX_TIME_OUT_pos by (simp add: READ_BLACKBOARD_def)

text \<open>A reader of an empty board that is woken by a DISPLAY gets the message displayed.\<close>

lemma READ_BLACKBOARD_woken:
  assumes inv: "boards_inv a" and bid: "bid < length (BLACKBOARD_VECTOR a)"
    and empty: "BB_CURRENT_MESSAGE_SIZE (board bid a) = 0"
    and down: "EVENT_STATE (EVENT_VECTOR a ! BLACKBOARD_EVENT_ID (board bid a)) = DOWN"
    and m: "m \<noteq> []" "int (length m) \<le> BB_MAX_MESSAGE_SIZE (board bid a)"
    and timeout: "TIME_OUT \<le> MAX_TIME_OUT" "0 < TIME_OUT" "normalised now"
  shows "\<exists>a'. READ_BLACKBOARD now bid TIME_OUT [Woken (displayed bid m)] a = ret_out NO_ERROR m a'"
proof -
  let ?eid = "BLACKBOARD_EVENT_ID (board bid a)" and ?d = "displayed bid m a"
  obtain tv where tv: "addTimeNano now TIME_OUT = Some tv" using timeout(1) addTimeNano_Some_iff by blast
  have ntv: "normalised tv"
    by (rule addTimeNano_normalised [OF tv timeout(3)]) (use timeout(2,3) in \<open>simp add: normalised_def\<close>)
  have up: "EVENT_STATE (at EVENT_VECTOR ?eid ?d) = UP"
    using displayed_event [OF inv bid] by (simp add: at_def)
  have inf: "TIME_OUT \<noteq> INFINITE_TIME_VALUE" "TIME_OUT \<noteq> 0"
    using timeout(2) by (auto simp: INFINITE_TIME_VALUE_def)
  have eid: "?eid < length (EVENT_VECTOR a)" using boards_inv_nth [OF inv bid] by (simp add: board_ok_def)
  let ?a1 = "at_update EVENT_VECTOR_update ?eid dec_count ?d"
  have "EVENT_wait (at EVENT_VECTOR ?eid) (at_update EVENT_VECTOR_update ?eid) now TIME_OUT [Woken (displayed bid m)] a
      = Returned (NO_ERROR, ?a1)"
    using tv ntv down up by (simp add: EVENT_wait_def EVENT_wait_until_def at_def)
  then have "READ_BLACKBOARD now bid TIME_OUT [Woken (displayed bid m)] a = READ_FROM_BLACKBOARD bid ?a1"
    using bid empty timeout(1) inf eid by (simp add: READ_BLACKBOARD_def WAIT_EVENT_def)
  moreover have "board bid ?a1 = board bid ?d" by (simp add: at_update_def)
  ultimately show ?thesis using bid m(2)
    by (auto simp: READ_FROM_BLACKBOARD_def c_read_def intro!: exI [of _ ?a1])
qed

end
