(* ===== verification/ProcessServices.thy ===== *)
theory ProcessServices
  imports SemaphoreServices BlackboardServices "HOL-Library.Multiset"
begin

text \<open>
  Processes: the class PROCESS of src/PROCESS.cc and the services of
  src/APEX\_PROCESS\_SERVICES.cc.  Threads belong to the operating system: a thread
  created by pthread\_create is a parameter (its identifier and the priority it inherits,
  \<open>None\<close> when the creation fails), pthread\_setschedparam is taken to succeed, and
  pthread\_cancel followed by pthread\_join runs the cleanup handler in the cancelled thread.
  An exception thrown out of a call is \<open>Aborted\<close>.  \<open>now\<close> is the time currentTime()
  reports; the scheduler mutex makes each service atomic.
\<close>

definition PARTITION_PROCESS_HIGHPRIORITY :: int where "PARTITION_PROCESS_HIGHPRIORITY = 96"
definition PARTITION_PROCESS_LOWPRIORITY :: int where "PARTITION_PROCESS_LOWPRIORITY = 83"
definition WORKER_THREAD_RESTART_PRIORITY :: int where "WORKER_THREAD_RESTART_PRIORITY = 95"
definition MINIMUM_TIME_CAPACITY :: int where "MINIMUM_TIME_CAPACITY = 1"

section \<open>The class PROCESS\<close>

record new_thread =
  new_thread_id :: nat
  inherited_priority :: int

definition set_state :: "nat \<Rightarrow> PROCESS_state \<Rightarrow> APEX \<Rightarrow> APEX" where
  "set_state pid s = upd_process pid (\<lambda>p. p\<lparr>state := s\<rparr>)"

definition set_priority :: "nat \<Rightarrow> int \<Rightarrow> APEX \<Rightarrow> APEX" where
  "set_priority pid prio = upd_process pid (\<lambda>p. p\<lparr>thread_priority := prio\<rparr>)"

definition create_thread :: "nat \<Rightarrow> new_thread \<Rightarrow> APEX \<Rightarrow> APEX" where
  "create_thread pid t = upd_process pid (\<lambda>p. p\<lparr>thread_id := new_thread_id t, thread_priority := inherited_priority t\<rparr>)"

text \<open>The constructor: \<open>fresh\<close> is the memory the object is allocated in.  A null entry point and
  a thread that cannot be created throw.\<close>

definition PROCESS_new :: "PROCESS \<Rightarrow> PROCESS_ATTRIBUTE_TYPE \<Rightarrow> nat \<Rightarrow> new_thread option \<Rightarrow> PROCESS outcome" where
  "PROCESS_new fresh attr unique_process_id thread =
     (if ENTRY_POINT attr = 0 then Aborted
      else case thread of
        None \<Rightarrow> Aborted
      | Some t \<Rightarrow> Returned
          (fresh\<lparr>thread_id := new_thread_id t, process_id := unique_process_id, attribute := attr,
                 state := DORMANT, sem_state := SEMAPHORE_new 0 MAX_SEMAPHORE_VALUE,
                 READLOCKS := [], WRITELOCKS := [], delayed_start_flag := False,
                 absolute_delay_start_time := \<lparr>tv_sec = 0, tv_nsec = 0\<rparr>,
                 thread_priority := inherited_priority t\<rparr>))"

definition INITIALIZE_PROCESS_RESPONSE :: "PROCESS \<Rightarrow> PROCESS" where
  "INITIALIZE_PROCESS_RESPONSE p =
     p\<lparr>PROCESS_RESPONSE := (PROCESS_RESPONSE p)
        \<lparr>RESPONSE_NO_ERROR := True, RESPONDING_ENTITY := BY_PROCESS,
         ERROR_RESPONSE := (ERROR_RESPONSE (PROCESS_RESPONSE p))\<lparr>HM_MESSAGE_LENGTH := 0\<rparr>\<rparr>\<rparr>"

text \<open>The semaphore a process waits on between two releases.\<close>

definition proc_sem :: "nat \<Rightarrow> APEX \<Rightarrow> SEMAPHORE" where
  "proc_sem pid a = sem_state (the_process pid a)"

definition upd_proc_sem :: "nat \<Rightarrow> (SEMAPHORE \<Rightarrow> SEMAPHORE) \<Rightarrow> APEX \<Rightarrow> APEX" where
  "upd_proc_sem pid f = upd_process pid (\<lambda>p. p\<lparr>sem_state := f (sem_state p)\<rparr>)"

definition waiting_on_period :: "nat \<Rightarrow> RETURN_CODE_TYPE \<Rightarrow> APEX wakeup list \<Rightarrow> APEX \<Rightarrow> ('o reply \<times> APEX) outcome" where
  "waiting_on_period pid RETURN_CODE ws a =
     (if \<not> isPeriodic (the_process pid a) then ret INVALID_MODE a
      else bind_outcome
             (SEMAPHORE_wait_forever (proc_sem pid) (upd_proc_sem pid) ws (set_state pid WAITING_ON_PERIOD a))
             (\<lambda>(rc, a'). ret RETURN_CODE a'))"

text \<open>The call start() of the partition controller, and delayed\_start(timeout).\<close>

definition post_state :: "nat \<Rightarrow> APEX \<Rightarrow> APEX" where
  "post_state pid = upd_proc_sem pid (\<lambda>s. snd (SEMAPHORE_post s))"

definition PROCESS_start :: "nat \<Rightarrow> APEX \<Rightarrow> APEX" where
  "PROCESS_start pid a =
     (if state (the_process pid a) = READY
      then post_state pid
             (APEX_HELPER_RESET_EVENT (PROCESS_NAME (attribute (the_process pid a))) (set_state pid RUNNING a))
      else a)"

definition PROCESS_delayed_start :: "nat \<Rightarrow> SYSTEM_TIMESPEC \<Rightarrow> SYSTEM_TIME_TYPE \<Rightarrow> APEX \<Rightarrow> APEX outcome" where
  "PROCESS_delayed_start pid now timeout a =
     (if state (the_process pid a) = READY
      then bind_outcome
             (if isPeriodic (the_process pid a)
              then bind_outcome (assert_some (addTimeNano now timeout)) (\<lambda>t.
                Returned (upd_process pid
                  (\<lambda>p. p\<lparr>absolute_delay_start_time := t, delayed_start_flag := True\<rparr>) a))
              else Returned a)
             (\<lambda>a1. Returned (post_state pid
               (APEX_HELPER_RESET_EVENT (PROCESS_NAME (attribute (the_process pid a1))) (set_state pid RUNNING a1))))
      else Returned a)"

text \<open>The cleanup handler of a cancelled thread: the thread gives back the locks its process
  holds, each through the service, and asserts that the service succeeds.\<close>

fun unlock_all :: "(nat \<Rightarrow> APEX \<Rightarrow> (unit reply \<times> APEX) outcome) \<Rightarrow> nat list \<Rightarrow> APEX \<Rightarrow> APEX outcome" where
  "unlock_all service [] a = Returned a"
| "unlock_all service (sid # SEM_ID_VEC) a =
     bind_outcome (service sid a) (\<lambda>((rc, out), a1).
       if rc \<noteq> NO_ERROR then Aborted else unlock_all service SEM_ID_VEC a1)"

definition Thread_cleanup_Handler :: "nat \<Rightarrow> APEX \<Rightarrow> APEX outcome" where
  "Thread_cleanup_Handler pid a =
     (let self = thread_id (the_process pid a) in
      bind_outcome (unlock_all (READUNLOCK_RW_SEMAPHORE self) (READLOCKS (the_process pid a)) a) (\<lambda>a1.
        unlock_all (WRITEUNLOCK_RW_SEMAPHORE self) (WRITELOCKS (the_process pid a1)) a1))"


section \<open>Starting and stopping\<close>

definition DELAYED_START :: "SYSTEM_TIMESPEC \<Rightarrow> nat \<Rightarrow> SYSTEM_TIME_TYPE \<Rightarrow> APEX \<Rightarrow> ('o reply \<times> APEX) outcome" where
  "DELAYED_START now pid DELAY_TIME a =
     (if DELAY_TIME < 0 then ret INVALID_PARAM a
      else if length (PROCESS_DESCRIPTOR_VECTOR a) \<le> pid then ret INVALID_PARAM a
      else if state (the_process pid a) \<noteq> DORMANT then ret NO_ACTION a
      else let base = BASE_PRIORITY (attribute (the_process pid a));
               a1 = upd_descriptor pid (\<lambda>d. d\<lparr>CURRENT_PRIORITY := base\<rparr>) (set_priority pid base a) in
        if CURRENT_OPERATING_MODE a = NORMAL then
          bind_outcome
            (if isPeriodic (the_process pid a) then Returned (set_state pid WAITING_ON_PERIOD a1)
             else bind_outcome
               (CLEAR_BLACKBOARD (PROCESS_NOTIFICATION_RESPONSE_BOARD_ID (PROCESS_DESCRIPTOR_VECTOR a1 ! pid)) a1
                  :: (unit reply \<times> APEX) outcome)
               (\<lambda>(r, a2). Returned (set_state pid READY a2)))
            (\<lambda>a2. bind_outcome (assert_some (addTimeNano now DELAY_TIME)) (\<lambda>next.
                  bind_outcome (assert_some (addTimeNano next (TIME_CAPACITY (attribute (the_process pid a))))) (\<lambda>deadline.
                    ret NO_ERROR
                      ((upd_descriptor pid
                         (\<lambda>d. d\<lparr>ABSOLUTE_NEXT_SCHEDULED_TIME := next, DEADLINE_TIME := deadline,
                               ABSOLUTE_CRITICAL_TIME := next, NEXT_SCHEDULING_INSTANCE := RELEASE_PROCESS\<rparr>)
                         a2)
                      \<lparr>APEX_SCHEDULING_EVENT := snd (EVENT_set (APEX_SCHEDULING_EVENT a2))\<rparr>))))
        else ret NO_ERROR
               (upd_descriptor pid (\<lambda>d. d\<lparr>INITIAL_DELAY_TIME := DELAY_TIME\<rparr>)
                 (set_state pid WAITING_PARTITION_NOT_NORMAL a1)))"

definition START :: "SYSTEM_TIMESPEC \<Rightarrow> nat \<Rightarrow> APEX \<Rightarrow> ('o reply \<times> APEX) outcome" where
  "START now pid = DELAYED_START now pid 0"

text \<open>restart(doMitigation): the old thread is cancelled and joined, its cleanup handler having
  run, and a new thread is created for the same process.  A thread that cancels and joins
  itself does not come back from the join.\<close>

definition PROCESS_restart ::
  "nat \<Rightarrow> bool \<Rightarrow> SYSTEM_TIMESPEC \<Rightarrow> new_thread option \<Rightarrow> nat \<Rightarrow> APEX \<Rightarrow> APEX outcome" where
  "PROCESS_restart self doMitigation now thread pid a =
     (if self = thread_id (the_process pid a) then Blocked
      else bind_outcome (Thread_cleanup_Handler pid (set_state pid RESTARTING a)) (\<lambda>a1.
        let a2 = set_state pid DORMANT a1 in
        case thread of
          None \<Rightarrow> Returned a2
        | Some t \<Rightarrow>
            let a3 = create_thread pid t a2 in
            if isPeriodic (the_process pid a3) \<and> doMitigation
            then bind_outcome (START now (process_id (the_process pid a3)) a3 :: (unit reply \<times> APEX) outcome)
                   (\<lambda>(r, a4). Returned a4)
            else Returned a3))"

definition PROCESS_stop ::
  "nat \<Rightarrow> bool \<Rightarrow> SYSTEM_TIMESPEC \<Rightarrow> new_thread option \<Rightarrow> nat \<Rightarrow> APEX \<Rightarrow> APEX outcome" where
  "PROCESS_stop self restart now thread pid a =
     (let a1 = set_state pid DORMANT a
      in if restart then PROCESS_restart self False now thread pid a1 else Returned a1)"

text \<open>What STOP, STOP\_SELF and the scheduler do with a process: raise the priority, restart,
  and go back to the base priority.\<close>

definition stop_process ::
  "nat \<Rightarrow> SYSTEM_TIMESPEC \<Rightarrow> new_thread option \<Rightarrow> nat \<Rightarrow> APEX \<Rightarrow> APEX outcome" where
  "stop_process self now thread pid a =
     bind_outcome (PROCESS_stop self True now thread pid (set_priority pid WORKER_THREAD_RESTART_PRIORITY a))
       (\<lambda>a1. Returned (set_priority pid (BASE_PRIORITY (attribute (the_process pid a1))) a1))"

definition STOP ::
  "nat \<Rightarrow> SYSTEM_TIMESPEC \<Rightarrow> new_thread option \<Rightarrow> nat \<Rightarrow> APEX \<Rightarrow> ('o reply \<times> APEX) outcome" where
  "STOP self now thread pid a =
     (if length (PROCESS_DESCRIPTOR_VECTOR a) \<le> pid then ret INVALID_PARAM a
      else if state (the_process pid a) = DORMANT then ret NO_ACTION a
      else bind_outcome (stop_process self now thread pid a) (\<lambda>a1. ret NO_ERROR a1))"

text \<open>STOP\_SELF asserts that there is no instance; without one GET\_MY\_ID answers
  INVALID\_CONFIG and it returns.\<close>

definition STOP_SELF :: "nat \<Rightarrow> SYSTEM_TIMESPEC \<Rightarrow> new_thread option \<Rightarrow> APEX option \<Rightarrow> APEX option outcome" where
  "STOP_SELF self now thread inst =
     (case inst of Some a \<Rightarrow> Aborted | None \<Rightarrow> Returned None)"

section \<open>Creation\<close>

text \<open>printf of a number with the conversion \<open>%d\<close>.\<close>

fun decimal :: "nat \<Rightarrow> string" where
  "decimal n = (if n < 10 then [char_of (48 + n)] else decimal (n div 10) @ [char_of (48 + n mod 10)])"

declare decimal.simps [simp del]

text \<open>The checks on the attributes, in the order of the code.\<close>

definition attributes_ok :: "PROCESS_ATTRIBUTE_TYPE \<Rightarrow> bool" where
  "attributes_ok attr \<longleftrightarrow>
     \<not> (BASE_PRIORITY attr < PARTITION_PROCESS_LOWPRIORITY \<or> BASE_PRIORITY attr > PARTITION_PROCESS_HIGHPRIORITY) \<and>
     \<not> ENTRY_POINT attr = 0 \<and>
     \<not> (TIME_CAPACITY attr \<noteq> INFINITE_TIME_VALUE \<and> TIME_CAPACITY attr < MINIMUM_TIME_CAPACITY) \<and>
     \<not> (PERIOD attr \<noteq> INFINITE_TIME_VALUE \<and> PERIOD attr \<le> 0) \<and>
     \<not> (TIME_CAPACITY attr \<noteq> INFINITE_TIME_VALUE \<and> TIME_CAPACITY attr \<le> 0) \<and>
     \<not> (TIME_CAPACITY attr = INFINITE_TIME_VALUE \<and> PERIOD attr \<noteq> INFINITE_TIME_VALUE) \<and>
     \<not> (PERIOD attr \<noteq> INFINITE_TIME_VALUE \<and> PERIOD attr < TIME_CAPACITY attr) \<and>
     \<not> (PERIOD attr \<noteq> INFINITE_TIME_VALUE \<and> PERIOD attr > MAX_TIME_OUT) \<and>
     \<not> (TIME_CAPACITY attr \<noteq> INFINITE_TIME_VALUE \<and> TIME_CAPACITY attr > MAX_TIME_OUT)"

text \<open>The constructor of the descriptor in memory \<open>fresh\<close>.\<close>

definition PROCESS_DESCRIPTOR_new :: "PROCESS_DESCRIPTOR \<Rightarrow> PROCESS \<Rightarrow> NAME_TYPE \<Rightarrow> PROCESS_DESCRIPTOR" where
  "PROCESS_DESCRIPTOR_new fresh process name =
     fresh\<lparr>SUSPENSION_EVENT := EVENT_new (name @ ''SuspensionEvent''), THE_PROCESS := process,
           NEXT_SCHEDULING_INSTANCE := RELEASE_PROCESS, INITIAL_DELAY_TIME := 0,
           HM_DESCRIPTOR_ID := -1, IS_HEALTH_MANAGER := False, HM_RESPONSE_BOARD_ID := 1000\<rparr>"

definition CREATE_PROCESS ::
  "layout \<Rightarrow> PROCESS_ATTRIBUTE_TYPE \<Rightarrow> PROCESS_DESCRIPTOR \<Rightarrow> byte list \<Rightarrow> new_thread option \<Rightarrow> APEX \<Rightarrow>
   (nat reply \<times> APEX) outcome" where
  "CREATE_PROCESS L attr fresh heap thread a =
     (let new_process_id = length (PROCESS_DESCRIPTOR_VECTOR a) in
      if CURRENT_OPERATING_MODE a = IDLE \<or> CURRENT_OPERATING_MODE a = NORMAL then ret INVALID_MODE a
      else if SYSTEM_LIMIT_NUMBER_OF_PROCESSES \<le> new_process_id then ret INVALID_CONFIG a
      else if \<not> attributes_ok attr then ret INVALID_PARAM a
      else if \<exists>d\<in>set (PROCESS_DESCRIPTOR_VECTOR a). PROCESS_NAME (attribute (THE_PROCESS d)) = PROCESS_NAME attr
      then ret INVALID_PARAM a
      else bind_outcome (PROCESS_new (THE_PROCESS fresh) attr new_process_id thread) (\<lambda>new_process.
        bind_outcome (CREATE_BLACKBOARD (''RESPONSE_'' @ decimal new_process_id) (sizeof_PROCESS_RESPONSE L) heap a)
          (\<lambda>((rc, board_id), a1).
            let d = PROCESS_DESCRIPTOR_new fresh new_process (PROCESS_NAME attr);
                descriptor = (case board_id of None \<Rightarrow> d | Some b \<Rightarrow> d\<lparr>PROCESS_NOTIFICATION_RESPONSE_BOARD_ID := b\<rparr>)
            in ret_out rc new_process_id
                 (a1\<lparr>PROCESS_DESCRIPTOR_VECTOR := PROCESS_DESCRIPTOR_VECTOR a1 @ [descriptor],
                     PROCESS_SCHEDULING_SORTED_VECTOR := PROCESS_SCHEDULING_SORTED_VECTOR a1 @ [new_process_id],
                     PROCESS_ID_TO_PTHREAD_ID_MAP := PROCESS_ID_TO_PTHREAD_ID_MAP a1 @ [new_process_id]\<rparr>))))"


section \<open>Suspension and priorities\<close>

text \<open>SUSPEND sends the signal SIGUSR2, whose handler calls SUSPEND\_SELF in the suspended
  thread; the thread signalled is the out-parameter here.\<close>

definition SUSPEND :: "nat \<Rightarrow> APEX \<Rightarrow> (nat reply \<times> APEX) outcome" where
  "SUSPEND pid a =
     (if length (PROCESS_DESCRIPTOR_VECTOR a) \<le> pid then ret INVALID_PARAM a
      else let process = the_process pid a in
        if state process = DORMANT then ret INVALID_MODE a
        else if isPeriodic process then ret INVALID_MODE a
        else if state process = WAITING_SUSPENDED_OTHER \<or> state process = WAITING_SUSPENDED_SELF then ret NO_ACTION a
        else ret_out NO_ERROR (thread_id process) a)"

definition suspension :: "nat \<Rightarrow> APEX \<Rightarrow> APEX_EVENT_TYPE" where
  "suspension pid a = SUSPENSION_EVENT (PROCESS_DESCRIPTOR_VECTOR a ! pid)"

definition upd_suspension :: "nat \<Rightarrow> (APEX_EVENT_TYPE \<Rightarrow> APEX_EVENT_TYPE) \<Rightarrow> APEX \<Rightarrow> APEX" where
  "upd_suspension pid f = upd_descriptor pid (\<lambda>d. d\<lparr>SUSPENSION_EVENT := f (SUSPENSION_EVENT d)\<rparr>)"

text \<open>SUSPEND\_SELF hands its time-out to the timed wait as it is, INFINITE\_TIME\_VALUE too.\<close>

definition SUSPEND_SELF ::
  "nat \<Rightarrow> SYSTEM_TIMESPEC \<Rightarrow> SYSTEM_TIME_TYPE \<Rightarrow> APEX wakeup list \<Rightarrow> APEX \<Rightarrow> ('o reply \<times> APEX) outcome" where
  "SUSPEND_SELF self now TIME_OUT ws a =
     (if TIME_OUT \<noteq> INFINITE_TIME_VALUE \<and> TIME_OUT > MAX_TIME_OUT then ret INVALID_PARAM a
      else case GET_MY_ID self a of
        (NO_ERROR, Some pid) \<Rightarrow>
          let process = the_process pid a in
          if isPeriodic process then ret INVALID_MODE a
          else if state process = WAITING_SUSPENDED_OTHER \<or> state process = WAITING_SUSPENDED_SELF then ret NO_ACTION a
          else bind_outcome
                 (EVENT_wait (suspension pid) (upd_suspension pid) now TIME_OUT ws (set_state pid WAITING_SUSPENDED_SELF a))
                 (\<lambda>(rc, a1). ret rc (upd_suspension pid (\<lambda>e. snd (EVENT_reset e)) (set_state pid (state process) a1)))
      | (rc, _) \<Rightarrow> ret rc a)"

definition RESUME :: "nat \<Rightarrow> APEX \<Rightarrow> ('o reply \<times> APEX) outcome" where
  "RESUME pid a =
     (if length (PROCESS_DESCRIPTOR_VECTOR a) \<le> pid then ret INVALID_PARAM a
      else let process = the_process pid a; pstate = state process in
        if pstate = DORMANT then ret INVALID_MODE a
        else if isPeriodic process then ret INVALID_MODE a
        else if pstate \<noteq> WAITING_SUSPENDED_OTHER \<and> pstate \<noteq> WAITING_SUSPENDED_SELF then ret NO_ACTION a
        else if pstate = WAITING_SUSPENDED_OTHER
        then ret NO_ERROR (set_state pid RUNNING
               (set_priority pid (CURRENT_PRIORITY (PROCESS_DESCRIPTOR_VECTOR a ! pid)) a))
        else ret (fst (EVENT_set (suspension pid a))) (upd_suspension pid (\<lambda>e. snd (EVENT_set e)) a))"

definition SET_PRIORITY :: "nat \<Rightarrow> int \<Rightarrow> APEX \<Rightarrow> ('o reply \<times> APEX) outcome" where
  "SET_PRIORITY pid PRIO a =
     (if length (PROCESS_DESCRIPTOR_VECTOR a) \<le> pid then ret INVALID_PARAM a
      else if PRIO < PARTITION_PROCESS_LOWPRIORITY \<or> PRIO > PARTITION_PROCESS_HIGHPRIORITY then ret INVALID_PARAM a
      else if state (the_process pid a) = DORMANT then ret INVALID_MODE a
      else ret NO_ERROR (upd_descriptor pid (\<lambda>d. d\<lparr>CURRENT_PRIORITY := PRIO\<rparr>) (set_priority pid PRIO a)))"

section \<open>Status and notification\<close>

fun external_state :: "PROCESS_state \<Rightarrow> PROCESS_STATE_TYPE" where
  "external_state DORMANT = DORMANT_EXT"
| "external_state READY = READY_EXT"
| "external_state RUNNING = RUNNING_EXT"
| "external_state WAITING_ON_RESOURCE = WAITING_EXT"
| "external_state WAITING_ON_PERIOD = WAITING_EXT"
| "external_state WAITING_SUSPENDED_OTHER = WAITING_EXT"
| "external_state WAITING_SUSPENDED_SELF = WAITING_EXT"
| "external_state WAITING_PARTITION_NOT_NORMAL = WAITING_EXT"
| "external_state _ = DORMANT_EXT"

record PROCESS_STATUS_TYPE =
  PS_PROCESS_STATE :: PROCESS_STATE_TYPE
  PS_CURRENT_PRIORITY :: int
  PS_ATTRIBUTES :: PROCESS_ATTRIBUTE_TYPE

definition GET_PROCESS_STATUS :: "nat \<Rightarrow> APEX \<Rightarrow> (PROCESS_STATUS_TYPE reply \<times> APEX) outcome" where
  "GET_PROCESS_STATUS pid a =
     (if length (PROCESS_DESCRIPTOR_VECTOR a) \<le> pid then ret INVALID_PARAM a
      else ret_out NO_ERROR
        \<lparr>PS_PROCESS_STATE = external_state (state (the_process pid a)),
         PS_CURRENT_PRIORITY = thread_priority (the_process pid a),
         PS_ATTRIBUTES = attribute (the_process pid a)\<rparr> a)"

text \<open>The response is stamped with the current time (in nanoseconds) in place; the stamped
  response is the out-parameter.\<close>

definition NOTIFY_PROCESS_FINISHED_STATUS ::
  "layout \<Rightarrow> SYSTEM_TIME_TYPE \<Rightarrow> nat \<Rightarrow> PROCESS_RESPONSE_TYPE \<Rightarrow> APEX \<Rightarrow>
   (PROCESS_RESPONSE_TYPE reply \<times> APEX) outcome" where
  "NOTIFY_PROCESS_FINISHED_STATUS L now_ns pid resp a =
     (if length (PROCESS_DESCRIPTOR_VECTOR a) \<le> pid then ret INVALID_PARAM a
      else let stamped = resp\<lparr>TIMEOFMESSAGE := now_ns\<rparr> in
        bind_outcome
          (DISPLAY_BLACKBOARD (PROCESS_NOTIFICATION_RESPONSE_BOARD_ID (PROCESS_DESCRIPTOR_VECTOR a ! pid))
             (PROCESS_RESPONSE_bytes L stamped) (sizeof_PROCESS_RESPONSE L) a :: (unit reply \<times> APEX) outcome)
          (\<lambda>((rc, out), a1). ret_out rc stamped a1))"

text \<open>GET\_PROCESS\_NOTIFICATION\_BOARD\_ID leaves the return code as it was when it succeeds.\<close>

definition GET_PROCESS_NOTIFICATION_BOARD_ID :: "nat \<Rightarrow> RETURN_CODE_TYPE \<Rightarrow> APEX \<Rightarrow> (nat reply \<times> APEX) outcome" where
  "GET_PROCESS_NOTIFICATION_BOARD_ID pid RETURN_CODE a =
     (if length (PROCESS_DESCRIPTOR_VECTOR a) \<le> pid then ret INVALID_PARAM a
      else ret_out RETURN_CODE (PROCESS_NOTIFICATION_RESPONSE_BOARD_ID (PROCESS_DESCRIPTOR_VECTOR a ! pid)) a)"

text \<open>The out-parameter is the message with its length; a time-out stores the length 0.\<close>

definition GET_PROCESS_FINISHED_STATUS ::
  "layout \<Rightarrow> SYSTEM_TIMESPEC \<Rightarrow> nat \<Rightarrow> SYSTEM_TIME_TYPE \<Rightarrow> int \<Rightarrow> APEX wakeup list \<Rightarrow> APEX \<Rightarrow>
   (byte list reply \<times> APEX) outcome" where
  "GET_PROCESS_FINISHED_STATUS L now pid TIME_OUT CAPACITY ws a =
     (if length (PROCESS_DESCRIPTOR_VECTOR a) \<le> pid then ret INVALID_PARAM a
      else if CAPACITY > sizeof_PROCESS_RESPONSE L then ret INVALID_PARAM a
      else bind_outcome
        (READ_BLACKBOARD now (PROCESS_NOTIFICATION_RESPONSE_BOARD_ID (PROCESS_DESCRIPTOR_VECTOR a ! pid)) TIME_OUT ws a)
        (\<lambda>((rc, m), a1). Returned ((rc, if rc = TIMED_OUT then Some [] else m), a1)))"


section \<open>Reading a process after an update\<close>

lemma the_process_descriptor [simp]:
  "process_exists pid a \<Longrightarrow> the_process pid (upd_descriptor pid f a) = THE_PROCESS (f (PROCESS_DESCRIPTOR_VECTOR a ! pid))"
  by (simp add: the_process_def upd_descriptor_def process_exists_def)

lemma descriptor_upd_process [simp]:
  "process_exists pid a \<Longrightarrow>
     PROCESS_DESCRIPTOR_VECTOR (upd_process pid f a) ! pid =
       (PROCESS_DESCRIPTOR_VECTOR a ! pid)\<lparr>THE_PROCESS := f (the_process pid a)\<rparr>"
  by (simp add: the_process_def upd_process_def upd_descriptor_def process_exists_def)

lemma THE_PROCESS_nth: "THE_PROCESS (PROCESS_DESCRIPTOR_VECTOR a ! pid) = the_process pid a"
  by (simp add: the_process_def)

lemma the_process_event [simp]:
  "the_process pid (a\<lparr>APEX_SCHEDULING_EVENT := e\<rparr>) = the_process pid a"
  "the_process pid (a\<lparr>EVENT_VECTOR := es\<rparr>) = the_process pid a"
  "process_exists pid (a\<lparr>APEX_SCHEDULING_EVENT := e\<rparr>) = process_exists pid a"
  "process_exists pid (a\<lparr>EVENT_VECTOR := es\<rparr>) = process_exists pid a"
  by (simp_all add: the_process_def process_exists_def)

lemma process_exists_iff: "\<not> length (PROCESS_DESCRIPTOR_VECTOR a) \<le> pid \<longleftrightarrow> process_exists pid a"
  by (simp add: process_exists_def not_le)

lemma RW_LOCK_SEM_VECTOR_descriptor [simp]:
  "RW_LOCK_SEM_VECTOR (upd_descriptor pid f a) = RW_LOCK_SEM_VECTOR a"
  "PROCESS_ID_TO_PTHREAD_ID_MAP (upd_descriptor pid f a) = PROCESS_ID_TO_PTHREAD_ID_MAP a"
  "PROCESS_ID_TO_PTHREAD_ID_MAP (upd_process pid g a) = PROCESS_ID_TO_PTHREAD_ID_MAP a"
  "APEX_SCHEDULING_EVENT (upd_descriptor pid f a) = APEX_SCHEDULING_EVENT a"
  "APEX_SCHEDULING_EVENT (upd_process pid g a) = APEX_SCHEDULING_EVENT a"
  "boards_inv (upd_descriptor pid f a) = boards_inv a"
  "boards_inv (upd_process pid g a) = boards_inv a"
  by (simp_all add: upd_descriptor_def upd_process_def boards_inv_def)

lemma erased_process [simp]:
  "the_process pid (erased bid a) = the_process pid a"
  "process_exists pid (erased bid a) = process_exists pid a"
  "APEX_SCHEDULING_EVENT (erased bid a) = APEX_SCHEDULING_EVENT a"
  "RW_LOCK_SEM_VECTOR (erased bid a) = RW_LOCK_SEM_VECTOR a"
  "PROCESS_ID_TO_PTHREAD_ID_MAP (erased bid a) = PROCESS_ID_TO_PTHREAD_ID_MAP a"
  by (simp_all add: the_process_def process_exists_def erased_def Let_def upd_board_def)

lemmas process_updates = set_state_def set_priority_def create_thread_def THE_PROCESS_nth

section \<open>Invariant of the processes\<close>

definition process_ok :: "APEX \<Rightarrow> nat \<Rightarrow> bool" where
  "process_ok a pid \<longleftrightarrow>
     process_id (the_process pid a) = pid \<and> attributes_ok (attribute (the_process pid a)) \<and>
     (\<forall>sid\<in>set (READLOCKS (the_process pid a)) \<union> set (WRITELOCKS (the_process pid a)).
        sid < length (RW_LOCK_SEM_VECTOR a))"

definition procs_inv :: "APEX \<Rightarrow> bool" where
  "procs_inv a \<longleftrightarrow>
     PROCESS_ID_TO_PTHREAD_ID_MAP a = [0..<length (PROCESS_DESCRIPTOR_VECTOR a)] \<and>
     mset (PROCESS_SCHEDULING_SORTED_VECTOR a) = mset [0..<length (PROCESS_DESCRIPTOR_VECTOR a)] \<and>
     (\<forall>pid<length (PROCESS_DESCRIPTOR_VECTOR a). process_ok a pid)"

lemma procs_inv_new: "procs_inv APEX_new"
  by (simp add: procs_inv_def APEX_new_def)

lemma procs_inv_nth: "procs_inv a \<Longrightarrow> process_exists pid a \<Longrightarrow> process_ok a pid"
  by (simp add: procs_inv_def process_exists_def)

lemma procs_inv_descriptor [acm_inv]:
  assumes "procs_inv a" "process_exists pid a \<Longrightarrow> process_ok (upd_descriptor pid f a) pid"
  shows "procs_inv (upd_descriptor pid f a)"
proof -
  have "process_ok (upd_descriptor pid f a) i" if "i < length (PROCESS_DESCRIPTOR_VECTOR a)" for i
  proof (cases "i = pid")
    case True
    then show ?thesis using assms(2) that by (simp add: process_exists_def)
  next
    case False
    have "process_ok a i" using assms(1) that by (simp add: procs_inv_def)
    then show ?thesis using False by (simp add: process_ok_def)
  qed
  then show ?thesis using assms(1) by (simp add: procs_inv_def)
qed

text \<open>Updates that keep the identity, the attributes and the lock lists of the process.\<close>

lemma procs_inv_upd_process [acm_inv]:
  assumes "procs_inv a" "\<And>p. process_id (f p) = process_id p" "\<And>p. attribute (f p) = attribute p"
    "\<And>p. READLOCKS (f p) = READLOCKS p" "\<And>p. WRITELOCKS (f p) = WRITELOCKS p"
  shows "procs_inv (upd_process pid f a)"
  unfolding upd_process_def
  by (rule procs_inv_descriptor [OF assms(1)])
    (use procs_inv_nth [OF assms(1)] assms(2-) in \<open>simp add: process_ok_def THE_PROCESS_nth\<close>)

lemma procs_inv_upd_descriptor_fields [acm_inv]:
  assumes "procs_inv a" "\<And>d. THE_PROCESS (f d) = THE_PROCESS d"
  shows "procs_inv (upd_descriptor pid f a)"
  by (rule procs_inv_descriptor [OF assms(1)])
    (use procs_inv_nth [OF assms(1)] assms(2) in \<open>simp add: process_ok_def THE_PROCESS_nth\<close>)

lemma procs_inv_frame:
  assumes "procs_inv a" "PROCESS_DESCRIPTOR_VECTOR a' = PROCESS_DESCRIPTOR_VECTOR a"
    "PROCESS_ID_TO_PTHREAD_ID_MAP a' = PROCESS_ID_TO_PTHREAD_ID_MAP a"
    "mset (PROCESS_SCHEDULING_SORTED_VECTOR a') = mset (PROCESS_SCHEDULING_SORTED_VECTOR a)"
    "length (RW_LOCK_SEM_VECTOR a) \<le> length (RW_LOCK_SEM_VECTOR a')"
  shows "procs_inv a'"
proof -
  have "process_ok a' pid" if "process_ok a pid" for pid
    using that assms(2,5) unfolding process_ok_def the_process_def by (metis order.strict_trans2)
  then show ?thesis using assms by (simp add: procs_inv_def)
qed

lemma procs_inv_simple [acm_inv]:
  "procs_inv a \<Longrightarrow> procs_inv (set_state pid s a)"
  "procs_inv a \<Longrightarrow> procs_inv (set_priority pid n a)"
  "procs_inv a \<Longrightarrow> procs_inv (create_thread pid t a)"
  "procs_inv a \<Longrightarrow> procs_inv (upd_proc_sem pid g a)"
  "procs_inv a \<Longrightarrow> procs_inv (erased bid a)"
  "procs_inv a \<Longrightarrow> procs_inv (a\<lparr>APEX_SCHEDULING_EVENT := e\<rparr>)"
  "procs_inv a \<Longrightarrow> procs_inv (a\<lparr>EVENT_VECTOR := es\<rparr>)"
  by (simp_all add: set_state_def set_priority_def create_thread_def upd_proc_sem_def procs_inv_upd_process)
    (erule procs_inv_frame; simp)+


section \<open>Giving back the locks of a process\<close>

lemma upd_process_upd_process [simp]:
  "upd_process pid f (upd_process pid g a) = upd_process pid (\<lambda>p. f (g p)) a"
  by (cases "pid < length (PROCESS_DESCRIPTOR_VECTOR a)")
    (simp_all add: upd_process_def upd_descriptor_def list_update_beyond)

lemma upd_rw_upd_process: "upd_rw sid f (upd_process pid g a) = upd_process pid g (upd_rw sid f a)"
  by (simp add: upd_rw_def at_update_def upd_process_def upd_descriptor_def)

definition release_locks :: "(RW_LOCK_SEM \<Rightarrow> RW_LOCK_SEM) \<Rightarrow> nat list \<Rightarrow> RW_LOCK_SEM list \<Rightarrow> RW_LOCK_SEM list" where
  "release_locks unlock = fold (\<lambda>sid locks. locks[sid := unlock (locks ! sid)])"

lemma length_release_locks [simp]: "length (release_locks u sids locks) = length locks"
  by (induction sids arbitrary: locks) (simp_all add: release_locks_def)

lemma fold_remove1_append: "fold remove1 xs (xs @ ys) = ys"
  by (induction xs) simp_all

lemma fold_remove1 [simp]: "fold remove1 xs xs = []"
  using fold_remove1_append [of xs "[]"] by simp

lemma unlock_all_fold:
  assumes "\<And>sid a. inva a \<Longrightarrow> sid < n \<Longrightarrow> service sid a = ret NO_ERROR (g sid a) \<and> inva (g sid a)"
    "inva a" "\<forall>sid\<in>set sids. sid < n"
  shows "unlock_all service sids a = Returned (fold g sids a)"
  using assms(2,3) by (induction sids arbitrary: a) (simp_all add: assms(1))

lemma fold_unlock:
  assumes "\<And>g a. g_of g a = upd_process pid (upd (remove1 g)) (upd_rw g u a)"
    "\<And>f h p. upd f (upd h p) = upd (\<lambda>xs. f (h xs)) p" "\<And>p. upd (\<lambda>xs. xs) p = p"
  shows "fold g_of sids a =
    upd_process pid (upd (fold remove1 sids)) (a\<lparr>RW_LOCK_SEM_VECTOR := release_locks u sids (RW_LOCK_SEM_VECTOR a)\<rparr>)"
proof (induction sids arbitrary: a)
  case Nil
  then show ?case by (simp add: release_locks_def upd_process_def upd_descriptor_def assms(3) id_def)
next
  case (Cons sid sids)
  have "upd_process pid f (b\<lparr>RW_LOCK_SEM_VECTOR := v\<rparr>) = (upd_process pid f b)\<lparr>RW_LOCK_SEM_VECTOR := v\<rparr>" for f b v
    by (simp add: upd_process_def upd_descriptor_def)
  moreover have "upd_rw sid u a = a\<lparr>RW_LOCK_SEM_VECTOR := (RW_LOCK_SEM_VECTOR a)[sid := u (RW_LOCK_SEM_VECTOR a ! sid)]\<rparr>"
    by (simp add: upd_rw_def at_update_def)
  moreover have "fold g_of (sid # sids) a = fold g_of sids (g_of sid a)" by simp
  ultimately show ?case
    unfolding Cons assms(1) by (simp add: assms(2) release_locks_def comp_def)
qed

text \<open>The thread of a process finds itself.\<close>

definition is_thread_of :: "nat \<Rightarrow> nat \<Rightarrow> APEX \<Rightarrow> bool" where
  "is_thread_of self pid a \<longleftrightarrow> GET_MY_ID self a = (NO_ERROR, Some pid)"

definition unlock_ready :: "nat \<Rightarrow> nat \<Rightarrow> nat \<Rightarrow> APEX \<Rightarrow> bool" where
  "unlock_ready self pid n a \<longleftrightarrow> is_thread_of self pid a \<and> length (RW_LOCK_SEM_VECTOR a) = n"

lemma read_unlock_all:
  assumes "is_thread_of self pid a" "\<forall>sid\<in>set sids. sid < length (RW_LOCK_SEM_VECTOR a)"
  shows "unlock_all (READUNLOCK_RW_SEMAPHORE self) sids a =
    Returned (upd_process pid (\<lambda>p. p\<lparr>READLOCKS := fold remove1 sids (READLOCKS p)\<rparr>)
      (a\<lparr>RW_LOCK_SEM_VECTOR := release_locks readunlock sids (RW_LOCK_SEM_VECTOR a)\<rparr>))"
proof -
  let ?g = "\<lambda>sid a. upd_process pid (\<lambda>p. p\<lparr>READLOCKS := remove1 sid (READLOCKS p)\<rparr>) (upd_rw sid readunlock a)"
  have "unlock_all (READUNLOCK_RW_SEMAPHORE self) sids a = Returned (fold ?g sids a)"
    by (rule unlock_all_fold [where inva = "unlock_ready self pid (length (RW_LOCK_SEM_VECTOR a))"])
      (use assms in \<open>simp_all add: unlock_ready_def is_thread_of_def READUNLOCK_RW_SEMAPHORE_def for_my_process_def\<close>)
  then show ?thesis
    by (simp add: fold_unlock [where upd = "\<lambda>f p. p\<lparr>READLOCKS := f (READLOCKS p)\<rparr>", OF refl])
qed

lemma write_unlock_all:
  assumes "is_thread_of self pid a" "\<forall>sid\<in>set sids. sid < length (RW_LOCK_SEM_VECTOR a)"
  shows "unlock_all (WRITEUNLOCK_RW_SEMAPHORE self) sids a =
    Returned (upd_process pid (\<lambda>p. p\<lparr>WRITELOCKS := fold remove1 sids (WRITELOCKS p)\<rparr>)
      (a\<lparr>RW_LOCK_SEM_VECTOR := release_locks writeunlock sids (RW_LOCK_SEM_VECTOR a)\<rparr>))"
proof -
  let ?g = "\<lambda>sid a. upd_process pid (\<lambda>p. p\<lparr>WRITELOCKS := remove1 sid (WRITELOCKS p)\<rparr>) (upd_rw sid writeunlock a)"
  have "unlock_all (WRITEUNLOCK_RW_SEMAPHORE self) sids a = Returned (fold ?g sids a)"
    by (rule unlock_all_fold [where inva = "unlock_ready self pid (length (RW_LOCK_SEM_VECTOR a))"])
      (use assms in \<open>simp_all add: unlock_ready_def is_thread_of_def WRITEUNLOCK_RW_SEMAPHORE_def for_my_process_def\<close>)
  then show ?thesis
    by (simp add: fold_unlock [where upd = "\<lambda>f p. p\<lparr>WRITELOCKS := f (WRITELOCKS p)\<rparr>", OF refl])
qed


text \<open>The partition after the locks of the process have been given back.\<close>

definition unlocked :: "nat \<Rightarrow> APEX \<Rightarrow> APEX" where
  "unlocked pid a =
     upd_process pid (\<lambda>p. p\<lparr>READLOCKS := [], WRITELOCKS := []\<rparr>)
       (a\<lparr>RW_LOCK_SEM_VECTOR :=
            release_locks writeunlock (WRITELOCKS (the_process pid a))
              (release_locks readunlock (READLOCKS (the_process pid a)) (RW_LOCK_SEM_VECTOR a))\<rparr>)"

lemma the_process_rw [simp]:
  "the_process i (a\<lparr>RW_LOCK_SEM_VECTOR := v\<rparr>) = the_process i a"
  "process_exists i (a\<lparr>RW_LOCK_SEM_VECTOR := v\<rparr>) = process_exists i a"
  by (simp_all add: the_process_def process_exists_def)

lemma GET_MY_ID_rw [simp]: "GET_MY_ID self (a\<lparr>RW_LOCK_SEM_VECTOR := v\<rparr>) = GET_MY_ID self a"
  by (simp add: GET_MY_ID_def split: option.split)

lemma upd_process_cong: "f (the_process pid a) = g (the_process pid a) \<Longrightarrow> upd_process pid f a = upd_process pid g a"
  by (simp add: upd_process_def upd_descriptor_def the_process_def)

lemma Thread_cleanup_Handler_ok:
  assumes "is_thread_of (thread_id (the_process pid a)) pid a" "process_exists pid a" "process_ok a pid"
  shows "Thread_cleanup_Handler pid a = Returned (unlocked pid a)"
proof -
  let ?self = "thread_id (the_process pid a)" and ?rs = "READLOCKS (the_process pid a)"
    and ?ws = "WRITELOCKS (the_process pid a)"
  let ?a1 = "upd_process pid (\<lambda>p. p\<lparr>READLOCKS := fold remove1 ?rs (READLOCKS p)\<rparr>)
      (a\<lparr>RW_LOCK_SEM_VECTOR := release_locks readunlock ?rs (RW_LOCK_SEM_VECTOR a)\<rparr>)"
  have me: "is_thread_of ?self pid ?a1" using assms(1) by (simp add: is_thread_of_def)
  have ws: "WRITELOCKS (the_process pid ?a1) = ?ws" using assms(2) by simp
  have "unlock_all (READUNLOCK_RW_SEMAPHORE ?self) ?rs a = Returned ?a1"
    by (rule read_unlock_all) (use assms in \<open>auto simp: process_ok_def\<close>)
  moreover have "unlock_all (WRITEUNLOCK_RW_SEMAPHORE ?self) ?ws ?a1 =
      Returned (upd_process pid (\<lambda>p. p\<lparr>WRITELOCKS := fold remove1 ?ws (WRITELOCKS p)\<rparr>)
        (?a1\<lparr>RW_LOCK_SEM_VECTOR := release_locks writeunlock ?ws (RW_LOCK_SEM_VECTOR ?a1)\<rparr>))"
    by (rule write_unlock_all [OF me]) (use assms(3) in \<open>auto simp: process_ok_def\<close>)
  moreover have "upd_process pid f (b\<lparr>RW_LOCK_SEM_VECTOR := v\<rparr>) = (upd_process pid f b)\<lparr>RW_LOCK_SEM_VECTOR := v\<rparr>" for f b v
    by (simp add: upd_process_def upd_descriptor_def)
  moreover have "upd_process pid (\<lambda>p. p\<lparr>READLOCKS := fold remove1 ?rs (READLOCKS p), WRITELOCKS := fold remove1 ?ws (WRITELOCKS p)\<rparr>) a
      = upd_process pid (\<lambda>p. p\<lparr>READLOCKS := [], WRITELOCKS := []\<rparr>) a"
    by (rule upd_process_cong) simp
  ultimately show ?thesis using ws
    unfolding Thread_cleanup_Handler_def Let_def unlocked_def by simp
qed

lemma unlocked_process [simp]:
  "process_exists pid a \<Longrightarrow> the_process pid (unlocked pid a) = (the_process pid a)\<lparr>READLOCKS := [], WRITELOCKS := []\<rparr>"
  "i \<noteq> pid \<Longrightarrow> the_process i (unlocked pid a) = the_process i a"
  "process_exists i (unlocked pid a) = process_exists i a"
  "length (RW_LOCK_SEM_VECTOR (unlocked pid a)) = length (RW_LOCK_SEM_VECTOR a)"
  "CURRENT_OPERATING_MODE (unlocked pid a) = CURRENT_OPERATING_MODE a"
  "boards_inv (unlocked pid a) = boards_inv a"
  "BLACKBOARD_VECTOR (unlocked pid a) = BLACKBOARD_VECTOR a"
  by (simp_all add: unlocked_def boards_inv_def)

lemma procs_inv_unlocked [acm_inv]:
  assumes "procs_inv a"
  shows "procs_inv (unlocked pid a)"
proof -
  have "process_ok (unlocked pid a) i" if "i < length (PROCESS_DESCRIPTOR_VECTOR a)" for i
    using assms that by (cases "i = pid") (simp_all add: procs_inv_def process_ok_def process_exists_def)
  then show ?thesis using assms by (simp add: procs_inv_def unlocked_def)
qed

section \<open>Stopping\<close>

lemma is_thread_of_state [simp]:
  "is_thread_of self i (set_state pid s a) = is_thread_of self i a"
  "is_thread_of self i (set_priority pid n a) = is_thread_of self i a"
  by (simp_all add: is_thread_of_def set_state_def set_priority_def)

text \<open>The partition after a process has been stopped by another thread.\<close>

definition stopped :: "nat \<Rightarrow> new_thread option \<Rightarrow> APEX \<Rightarrow> APEX" where
  "stopped pid thread a =
     (let p = the_process pid a in
      upd_process pid
        (\<lambda>p. p\<lparr>state := DORMANT, thread_priority := BASE_PRIORITY (attribute p),
               thread_id := (case thread of None \<Rightarrow> thread_id p | Some t \<Rightarrow> new_thread_id t)\<rparr>)
        (unlocked pid a))"

lemma unlocked_upd_process:
  assumes "process_exists pid a" "\<And>p. READLOCKS (f p) = READLOCKS p" "\<And>p. WRITELOCKS (f p) = WRITELOCKS p"
  shows "unlocked pid (upd_process pid f a) = upd_process pid (\<lambda>p. (f p)\<lparr>READLOCKS := [], WRITELOCKS := []\<rparr>)
    (a\<lparr>RW_LOCK_SEM_VECTOR := RW_LOCK_SEM_VECTOR (unlocked pid a)\<rparr>)"
proof -
  have "(upd_process pid g b)\<lparr>RW_LOCK_SEM_VECTOR := v\<rparr> = upd_process pid g (b\<lparr>RW_LOCK_SEM_VECTOR := v\<rparr>)" for g b v
    by (simp add: upd_process_def upd_descriptor_def)
  then show ?thesis using assms by (simp add: unlocked_def)
qed

lemma stop_process_ok:
  assumes "procs_inv a" "process_exists pid a" "is_thread_of (thread_id (the_process pid a)) pid a"
    "self \<noteq> thread_id (the_process pid a)"
  shows "stop_process self now thread pid a = Returned (stopped pid thread a)"
proof -
  let ?f = "\<lambda>p. p\<lparr>thread_priority := WORKER_THREAD_RESTART_PRIORITY, state := RESTARTING\<rparr>"
  have f: "set_state pid RESTARTING (set_state pid DORMANT (set_priority pid WORKER_THREAD_RESTART_PRIORITY a))
      = upd_process pid ?f a"
    by (simp add: set_state_def set_priority_def)
  have "process_ok (upd_process pid ?f a) pid"
    using procs_inv_nth [OF procs_inv_upd_process [OF assms(1), of ?f pid]] assms(2) by simp
  then have clean: "Thread_cleanup_Handler pid (upd_process pid ?f a) = Returned (unlocked pid (upd_process pid ?f a))"
    by (intro Thread_cleanup_Handler_ok) (use assms in \<open>simp_all add: is_thread_of_def\<close>)
  have other: "self \<noteq> thread_id (the_process pid (set_state pid DORMANT (set_priority pid WORKER_THREAD_RESTART_PRIORITY a)))"
    using assms(2,4) by (simp add: set_state_def set_priority_def)
  have "upd_process pid g (unlocked pid a)
      = upd_process pid (\<lambda>p. g (p\<lparr>READLOCKS := [], WRITELOCKS := []\<rparr>))
          (a\<lparr>RW_LOCK_SEM_VECTOR := RW_LOCK_SEM_VECTOR (unlocked pid a)\<rparr>)" for g
    by (simp add: unlocked_def)
  moreover have "unlocked pid (upd_process pid ?f a) = upd_process pid (\<lambda>p. (?f p)\<lparr>READLOCKS := [], WRITELOCKS := []\<rparr>)
    (a\<lparr>RW_LOCK_SEM_VECTOR := RW_LOCK_SEM_VECTOR (unlocked pid a)\<rparr>)"
    by (rule unlocked_upd_process) (use assms(2) in simp_all)
  ultimately show ?thesis
    using other clean assms(2)
    by (cases thread; simp add: stop_process_def PROCESS_stop_def PROCESS_restart_def f stopped_def Let_def)
      (simp add: set_state_def create_thread_def set_priority_def; rule upd_process_cong; simp)+
qed

lemma STOP_ok:
  assumes "procs_inv a" "process_exists pid a" "is_thread_of (thread_id (the_process pid a)) pid a"
    "self \<noteq> thread_id (the_process pid a)" "state (the_process pid a) \<noteq> DORMANT"
  shows "STOP self now thread pid a = ret NO_ERROR (stopped pid thread a)"
  using stop_process_ok [OF assms(1-4)] assms(2,5)
  by (simp add: STOP_def process_exists_iff process_exists_def)


section \<open>Starting\<close>

text \<open>What a start leaves for the scheduler.\<close>

definition to_be_released :: "nat \<Rightarrow> SYSTEM_TIMESPEC \<Rightarrow> APEX \<Rightarrow> bool" where
  "to_be_released pid t a \<longleftrightarrow>
     (let d = PROCESS_DESCRIPTOR_VECTOR a ! pid; p = THE_PROCESS d in
      state p = (if isPeriodic p then WAITING_ON_PERIOD else READY) \<and>
      thread_priority p = BASE_PRIORITY (attribute p) \<and> CURRENT_PRIORITY d = BASE_PRIORITY (attribute p) \<and>
      NEXT_SCHEDULING_INSTANCE d = RELEASE_PROCESS \<and>
      ABSOLUTE_CRITICAL_TIME d = t \<and> ABSOLUTE_NEXT_SCHEDULED_TIME d = t)"

lemma attributes_ok_times:
  "attributes_ok attr \<Longrightarrow> TIME_CAPACITY attr \<le> MAX_TIME_OUT"
  "attributes_ok attr \<Longrightarrow> PERIOD attr \<noteq> INFINITE_TIME_VALUE \<Longrightarrow> 0 < PERIOD attr \<and> PERIOD attr \<le> MAX_TIME_OUT"
  using MAX_TIME_OUT_pos by (auto simp: attributes_ok_def INFINITE_TIME_VALUE_def)

lemma addTimeNano_some:
  assumes "n \<le> MAX_TIME_OUT"
  obtains t where "addTimeNano tv n = Some t"
  using assms addTimeNano_Some_iff by blast

lemma DELAYED_START_normal:
  assumes "boards_inv a" "procs_inv a" "process_exists pid a" "state (the_process pid a) = DORMANT"
    "CURRENT_OPERATING_MODE a = NORMAL" "0 \<le> DELAY_TIME" "addTimeNano now DELAY_TIME = Some next"
    "PROCESS_NOTIFICATION_RESPONSE_BOARD_ID (PROCESS_DESCRIPTOR_VECTOR a ! pid) < length (BLACKBOARD_VECTOR a)"
  shows "\<exists>a'. DELAYED_START now pid DELAY_TIME a = (ret NO_ERROR a' :: ('o reply \<times> APEX) outcome) \<and>
    to_be_released pid next a' \<and> EVENT_STATE (APEX_SCHEDULING_EVENT a') = UP \<and> procs_inv a' \<and> boards_inv a'"
proof -
  let ?p = "the_process pid a" and ?base = "BASE_PRIORITY (attribute (the_process pid a))"
  let ?a1 = "upd_descriptor pid (\<lambda>d. d\<lparr>CURRENT_PRIORITY := ?base\<rparr>) (set_priority pid ?base a)"
  let ?bid = "PROCESS_NOTIFICATION_RESPONSE_BOARD_ID (PROCESS_DESCRIPTOR_VECTOR a ! pid)"
  have ex [simp]: "process_exists pid a" "\<not> length (PROCESS_DESCRIPTOR_VECTOR a) \<le> pid"
    using assms(3) by (simp_all add: process_exists_def)
  have "TIME_CAPACITY (attribute ?p) \<le> MAX_TIME_OUT"
    using procs_inv_nth [OF assms(2,3)] by (simp add: process_ok_def attributes_ok_times)
  then obtain deadline where dl: "addTimeNano next (TIME_CAPACITY (attribute ?p)) = Some deadline"
    by (rule addTimeNano_some)
  have inv1: "procs_inv ?a1" by (intro procs_inv_upd_descriptor_fields procs_inv_simple assms(2)) simp
  have b1: "boards_inv ?a1" using assms(1) by (simp add: set_priority_def)
  have bid: "PROCESS_NOTIFICATION_RESPONSE_BOARD_ID (PROCESS_DESCRIPTOR_VECTOR ?a1 ! pid) = ?bid" "?bid < length (BLACKBOARD_VECTOR ?a1)"
    using assms(8) by (simp_all add: set_priority_def)
  have clear: "CLEAR_BLACKBOARD ?bid ?a1 = (ret NO_ERROR (erased ?bid ?a1) :: (unit reply \<times> APEX) outcome)"
    by (rule CLEAR_BLACKBOARD_ok [OF b1 bid(2)])
  let ?a2 = "if isPeriodic ?p then set_state pid WAITING_ON_PERIOD ?a1 else set_state pid READY (erased ?bid ?a1)"
  let ?a' = "(upd_descriptor pid
                         (\<lambda>d. d\<lparr>ABSOLUTE_NEXT_SCHEDULED_TIME := next, DEADLINE_TIME := deadline,
                               ABSOLUTE_CRITICAL_TIME := next, NEXT_SCHEDULING_INSTANCE := RELEASE_PROCESS\<rparr>)
                         ?a2)
                      \<lparr>APEX_SCHEDULING_EVENT := snd (EVENT_set (APEX_SCHEDULING_EVENT ?a2))\<rparr>"
  have run: "DELAYED_START now pid DELAY_TIME a = (ret NO_ERROR ?a' :: ('o reply \<times> APEX) outcome)"
    using assms(4-7) dl clear bid(1) by (simp add: DELAYED_START_def Let_def)
  have inv2: "procs_inv ?a2" using inv1 by (simp add: procs_inv_simple)
  have "procs_inv ?a'" by (intro procs_inv_simple procs_inv_upd_descriptor_fields inv2) simp
  moreover have "boards_inv ?a'"
    using b1 boards_inv_erased [OF b1 bid(2)] by (simp add: set_state_def boards_inv_def upd_descriptor_def upd_process_def)
  moreover have "process_exists pid ?a1" by (simp add: set_priority_def)
  then have "to_be_released pid next ?a'"
    by (simp add: to_be_released_def Let_def set_state_def set_priority_def THE_PROCESS_nth isPeriodic_def)
  ultimately show ?thesis using run by (intro exI [of _ ?a']) simp
qed

lemma DELAYED_START_not_normal:
  assumes "process_exists pid a" "state (the_process pid a) = DORMANT"
    "CURRENT_OPERATING_MODE a \<noteq> NORMAL" "0 \<le> DELAY_TIME"
  shows "\<exists>a'. DELAYED_START now pid DELAY_TIME a = (ret NO_ERROR a' :: ('o reply \<times> APEX) outcome) \<and>
    state (the_process pid a') = WAITING_PARTITION_NOT_NORMAL \<and>
    INITIAL_DELAY_TIME (PROCESS_DESCRIPTOR_VECTOR a' ! pid) = DELAY_TIME"
  using assms by (simp add: DELAYED_START_def process_exists_def Let_def set_state_def set_priority_def)

section \<open>Suspending oneself\<close>

lemma field_suspension: "field (process_exists pid) (suspension pid) (upd_suspension pid)"
  unfolding field_def
proof (intro conjI allI impI)
  fix f g s assume "process_exists pid s"
  then show "process_exists pid (upd_suspension pid f s)" "suspension pid (upd_suspension pid f s) = f (suspension pid s)"
    "upd_suspension pid f (upd_suspension pid g s) = upd_suspension pid (f \<circ> g) s"
    by (simp_all add: suspension_def upd_suspension_def)
      (simp add: upd_descriptor_def process_exists_def)
qed

lemma suspension_set_state [simp]:
  "process_exists pid a \<Longrightarrow> suspension pid (upd_process pid f a) = suspension pid a"
  by (simp add: suspension_def)

text \<open>A process that suspends itself and is resumed by another one goes on in the state it was
  in; so it does, with TIMED\_OUT, when the time-out passes.\<close>

definition resumed :: "nat \<Rightarrow> APEX \<Rightarrow> APEX" where
  "resumed pid = upd_suspension pid (\<lambda>e. snd (EVENT_set e))"

lemma RESUME_suspended_self:
  "process_exists pid a \<Longrightarrow> \<not> isPeriodic (the_process pid a) \<Longrightarrow>
   state (the_process pid a) = WAITING_SUSPENDED_SELF \<Longrightarrow> RESUME pid a = ret NO_ERROR (resumed pid a)"
  by (simp add: RESUME_def process_exists_def Let_def resumed_def)

lemma SUSPEND_SELF_wait:
  assumes "is_thread_of self pid a" "process_exists pid a" "\<not> isPeriodic (the_process pid a)"
    "state (the_process pid a) \<notin> {WAITING_SUSPENDED_OTHER, WAITING_SUSPENDED_SELF}"
    "TIME_OUT \<le> MAX_TIME_OUT"
    "EVENT_wait (suspension pid) (upd_suspension pid) now TIME_OUT ws (set_state pid WAITING_SUSPENDED_SELF a)
       = Returned (rc, a1)"
  shows "SUSPEND_SELF self now TIME_OUT ws a =
    ret rc (upd_suspension pid (\<lambda>e. snd (EVENT_reset e)) (set_state pid (state (the_process pid a)) a1))"
  using assms by (simp add: SUSPEND_SELF_def is_thread_of_def Let_def)

lemma suspension_process [simp]:
  "process_exists pid a \<Longrightarrow> the_process pid (upd_suspension pid f a) = the_process pid a"
  "process_exists pid (upd_suspension i f a) = process_exists pid a"
  by (simp_all add: upd_suspension_def THE_PROCESS_nth)

lemma SUSPEND_SELF_resumed:
  assumes "is_thread_of self pid a" "process_exists pid a" "\<not> isPeriodic (the_process pid a)"
    "state (the_process pid a) \<notin> {WAITING_SUSPENDED_OTHER, WAITING_SUSPENDED_SELF}"
    "EVENT_STATE (suspension pid a) = DOWN" "normalised now" "0 \<le> TIME_OUT \<or> TIME_OUT = INFINITE_TIME_VALUE"
    "TIME_OUT \<le> MAX_TIME_OUT" and that: "w = Woken (resumed pid) \<or> w = Expired (\<lambda>a. a)"
  shows "\<exists>a'. SUSPEND_SELF self now TIME_OUT [w] a =
      (ret (case w of Woken f \<Rightarrow> NO_ERROR | Expired f \<Rightarrow> TIMED_OUT) a' :: ('o reply \<times> APEX) outcome) \<and>
      state (the_process pid a') = state (the_process pid a) \<and> EVENT_STATE (suspension pid a') = DOWN"
proof -
  let ?s = "set_state pid WAITING_SUSPENDED_SELF a"
  obtain t where t: "addTimeNano now TIME_OUT = Some t" using assms(8) by (rule addTimeNano_some)
  have nt: "normalised t"
    by (rule addTimeNano_normalised [OF t assms(6)]) (use assms(6,7) in \<open>auto simp: normalised_def\<close>)
  have s: "process_exists pid ?s" "EVENT_STATE (suspension pid ?s) = DOWN"
    using assms(2,5) by (simp_all add: set_state_def)
  let ?w = "apply_wakeup w ?s"
  have w: "process_exists pid ?w" "is_expired w \<or> EVENT_STATE (suspension pid ?w) = UP"
    using that s(1) by (auto simp: resumed_def field_get [OF field_suspension])
  have "EVENT_wait (suspension pid) (upd_suspension pid) now TIME_OUT [w] ?s
      = Returned (if is_expired w then TIMED_OUT else NO_ERROR, upd_suspension pid dec_count ?w)"
    using t nt s w that by (auto simp: EVENT_wait_def EVENT_wait_until_def)
  from SUSPEND_SELF_wait [OF assms(1-4,8) this]
  show ?thesis using w that by (auto simp: set_state_def field_get [OF field_suspension])
qed


section \<open>Creation\<close>

lemma CREATE_BLACKBOARD_frame:
  assumes "CREATE_BLACKBOARD name n heap a = Returned (r, a1)"
  shows "PROCESS_DESCRIPTOR_VECTOR a1 = PROCESS_DESCRIPTOR_VECTOR a \<and>
    PROCESS_SCHEDULING_SORTED_VECTOR a1 = PROCESS_SCHEDULING_SORTED_VECTOR a \<and>
    PROCESS_ID_TO_PTHREAD_ID_MAP a1 = PROCESS_ID_TO_PTHREAD_ID_MAP a \<and>
    RW_LOCK_SEM_VECTOR a1 = RW_LOCK_SEM_VECTOR a \<and> SEMAPHORE_VECTOR a1 = SEMAPHORE_VECTOR a \<and>
    BUFFER_VECTOR a1 = BUFFER_VECTOR a \<and> CURRENT_OPERATING_MODE a1 = CURRENT_OPERATING_MODE a \<and>
    HM_VECTOR a1 = HM_VECTOR a"
  using assms
  by (auto simp: CREATE_BLACKBOARD_def bind_outcome_Returned CREATE_EVENT_def split: if_splits)

lemma CREATE_BLACKBOARD_new:
  assumes "CURRENT_OPERATING_MODE a \<in> {COLD_START, WARM_START}" "0 < n"
    "name \<notin> BLACKBOARD_NAME ` set (BLACKBOARD_VECTOR a)" "name \<notin> EVENT_NAME ` set (EVENT_VECTOR a)"
  shows "\<exists>a1. CREATE_BLACKBOARD name n heap a = ret_out NO_ERROR (length (BLACKBOARD_VECTOR a)) a1 \<and>
    length (BLACKBOARD_VECTOR a1) = Suc (length (BLACKBOARD_VECTOR a)) \<and>
    (let b = board (length (BLACKBOARD_VECTOR a)) a1 in
      BLACKBOARD_NAME b = name \<and> BB_MAX_MESSAGE_SIZE b = n \<and> BB_CURRENT_MESSAGE_SIZE b = 0 \<and>
      EVENT_STATE (EVENT_VECTOR a1 ! BLACKBOARD_EVENT_ID b) = DOWN)"
  using assms
  by (auto simp: CREATE_BLACKBOARD_def CREATE_EVENT_def EVENT_new_def image_iff Let_def nth_append)

lemma names_distinct_CREATE_BLACKBOARD [acm_inv]:
  "CREATE_BLACKBOARD name n heap a = Returned (r, a') \<Longrightarrow> names_distinct a \<Longrightarrow> names_distinct a'"
  by (auto simp: CREATE_BLACKBOARD_def bind_outcome_Returned CREATE_EVENT_def names_distinct_def split: if_splits)

definition new_process :: "PROCESS \<Rightarrow> PROCESS_ATTRIBUTE_TYPE \<Rightarrow> nat \<Rightarrow> new_thread \<Rightarrow> PROCESS" where
  "new_process fresh attr pid t =
     fresh\<lparr>thread_id := new_thread_id t, process_id := pid, attribute := attr,
           state := DORMANT, sem_state := SEMAPHORE_new 0 MAX_SEMAPHORE_VALUE,
           READLOCKS := [], WRITELOCKS := [], delayed_start_flag := False,
           absolute_delay_start_time := \<lparr>tv_sec = 0, tv_nsec = 0\<rparr>,
           thread_priority := inherited_priority t\<rparr>"

lemma PROCESS_new_Returned:
  "PROCESS_new fresh attr pid thread = Returned p \<longleftrightarrow>
     ENTRY_POINT attr \<noteq> 0 \<and> (\<exists>t. thread = Some t \<and> p = new_process fresh attr pid t)"
  by (cases thread) (auto simp: PROCESS_new_def new_process_def)

definition new_descriptor ::
  "PROCESS_DESCRIPTOR \<Rightarrow> PROCESS_ATTRIBUTE_TYPE \<Rightarrow> nat \<Rightarrow> new_thread \<Rightarrow> nat option \<Rightarrow> PROCESS_DESCRIPTOR" where
  "new_descriptor fresh attr pid t board_id =
     (let d = PROCESS_DESCRIPTOR_new fresh (new_process (THE_PROCESS fresh) attr pid t) (PROCESS_NAME attr)
      in case board_id of None \<Rightarrow> d | Some b \<Rightarrow> d\<lparr>PROCESS_NOTIFICATION_RESPONSE_BOARD_ID := b\<rparr>)"

lemma CREATE_PROCESS_Returned:
  assumes "CREATE_PROCESS L attr fresh heap thread a = Returned ((rc, Some pid), a')"
  obtains t r a1 where "pid = length (PROCESS_DESCRIPTOR_VECTOR a)" "pid < SYSTEM_LIMIT_NUMBER_OF_PROCESSES"
    "CURRENT_OPERATING_MODE a \<notin> {IDLE, NORMAL}" "attributes_ok attr" "thread = Some t"
    "\<forall>d\<in>set (PROCESS_DESCRIPTOR_VECTOR a). PROCESS_NAME (attribute (THE_PROCESS d)) \<noteq> PROCESS_NAME attr"
    "CREATE_BLACKBOARD (''RESPONSE_'' @ decimal pid) (sizeof_PROCESS_RESPONSE L) heap a = Returned ((rc, r), a1)"
    "a' = a1\<lparr>PROCESS_DESCRIPTOR_VECTOR := PROCESS_DESCRIPTOR_VECTOR a1 @ [new_descriptor fresh attr pid t r],
              PROCESS_SCHEDULING_SORTED_VECTOR := PROCESS_SCHEDULING_SORTED_VECTOR a1 @ [pid],
              PROCESS_ID_TO_PTHREAD_ID_MAP := PROCESS_ID_TO_PTHREAD_ID_MAP a1 @ [pid]\<rparr>"
proof -
  obtain p r a1 where "PROCESS_new (THE_PROCESS fresh) attr (length (PROCESS_DESCRIPTOR_VECTOR a)) thread = Returned p"
    "CREATE_BLACKBOARD (''RESPONSE_'' @ decimal (length (PROCESS_DESCRIPTOR_VECTOR a))) (sizeof_PROCESS_RESPONSE L) heap a
       = Returned ((rc, r), a1)" "pid = length (PROCESS_DESCRIPTOR_VECTOR a)"
    "a' = a1\<lparr>PROCESS_DESCRIPTOR_VECTOR := PROCESS_DESCRIPTOR_VECTOR a1 @
                [let d = PROCESS_DESCRIPTOR_new fresh p (PROCESS_NAME attr)
                 in case r of None \<Rightarrow> d | Some b \<Rightarrow> d\<lparr>PROCESS_NOTIFICATION_RESPONSE_BOARD_ID := b\<rparr>],
              PROCESS_SCHEDULING_SORTED_VECTOR := PROCESS_SCHEDULING_SORTED_VECTOR a1 @ [pid],
              PROCESS_ID_TO_PTHREAD_ID_MAP := PROCESS_ID_TO_PTHREAD_ID_MAP a1 @ [pid]\<rparr>"
    using assms by (simp add: CREATE_PROCESS_def Let_def bind_outcome_Returned split: if_splits) force
  moreover have "pid < SYSTEM_LIMIT_NUMBER_OF_PROCESSES \<and> CURRENT_OPERATING_MODE a \<notin> {IDLE, NORMAL} \<and> attributes_ok attr \<and>
    (\<forall>d\<in>set (PROCESS_DESCRIPTOR_VECTOR a). PROCESS_NAME (attribute (THE_PROCESS d)) \<noteq> PROCESS_NAME attr)"
    using assms \<open>pid = _\<close> by (simp add: CREATE_PROCESS_def Let_def split: if_splits)
  ultimately show ?thesis using that by (simp add: PROCESS_new_Returned new_descriptor_def Let_def) blast
qed

lemma new_descriptor_simps [simp]:
  "state (THE_PROCESS (new_descriptor fresh attr pid t r)) = DORMANT"
  "process_id (THE_PROCESS (new_descriptor fresh attr pid t r)) = pid"
  "attribute (THE_PROCESS (new_descriptor fresh attr pid t r)) = attr"
  "thread_id (THE_PROCESS (new_descriptor fresh attr pid t r)) = new_thread_id t"
  "READLOCKS (THE_PROCESS (new_descriptor fresh attr pid t r)) = []"
  "WRITELOCKS (THE_PROCESS (new_descriptor fresh attr pid t r)) = []"
  "HM_DESCRIPTOR_ID (new_descriptor fresh attr pid t r) = -1"
  "PROCESS_NOTIFICATION_RESPONSE_BOARD_ID (new_descriptor fresh attr pid t (Some b)) = b"
  by (cases r; simp add: new_descriptor_def PROCESS_DESCRIPTOR_new_def new_process_def)+

lemma procs_inv_snoc:
  assumes "procs_inv a" "process_id (THE_PROCESS d) = length (PROCESS_DESCRIPTOR_VECTOR a)"
    "attributes_ok (attribute (THE_PROCESS d))" "READLOCKS (THE_PROCESS d) = []" "WRITELOCKS (THE_PROCESS d) = []"
    "n = length (PROCESS_DESCRIPTOR_VECTOR a)"
  shows "procs_inv (a\<lparr>PROCESS_DESCRIPTOR_VECTOR := PROCESS_DESCRIPTOR_VECTOR a @ [d],
              PROCESS_SCHEDULING_SORTED_VECTOR := PROCESS_SCHEDULING_SORTED_VECTOR a @ [n],
              PROCESS_ID_TO_PTHREAD_ID_MAP := PROCESS_ID_TO_PTHREAD_ID_MAP a @ [n]\<rparr>)"
  using assms by (auto simp: procs_inv_def process_ok_def the_process_def nth_append less_Suc_eq)

lemma procs_inv_CREATE_PROCESS [acm_inv]:
  assumes "CREATE_PROCESS L attr fresh heap thread a = Returned ((rc, out), a')" "procs_inv a"
  shows "procs_inv a'"
proof (cases out)
  case None
  then show ?thesis using assms
    by (auto simp: CREATE_PROCESS_def Let_def bind_outcome_Returned split: if_splits)
next
  case (Some pid)
  obtain t r a1 where pid: "pid = length (PROCESS_DESCRIPTOR_VECTOR a)" and ok: "attributes_ok attr"
    and cb: "CREATE_BLACKBOARD (''RESPONSE_'' @ decimal pid) (sizeof_PROCESS_RESPONSE L) heap a = Returned ((rc, r), a1)"
    and a': "a' = a1\<lparr>PROCESS_DESCRIPTOR_VECTOR := PROCESS_DESCRIPTOR_VECTOR a1 @ [new_descriptor fresh attr pid t r],
              PROCESS_SCHEDULING_SORTED_VECTOR := PROCESS_SCHEDULING_SORTED_VECTOR a1 @ [pid],
              PROCESS_ID_TO_PTHREAD_ID_MAP := PROCESS_ID_TO_PTHREAD_ID_MAP a1 @ [pid]\<rparr>"
    using assms(1) [unfolded Some] by (rule CREATE_PROCESS_Returned)
  note frame = CREATE_BLACKBOARD_frame [OF cb]
  have "procs_inv a1" using procs_inv_frame [OF assms(2)] frame by simp
  then show ?thesis unfolding a' by (rule procs_inv_snoc) (use pid ok frame in simp_all)
qed

lemma names_distinct_CREATE_PROCESS [acm_inv]:
  assumes "CREATE_PROCESS L attr fresh heap thread a = Returned ((rc, out), a')" "names_distinct a"
  shows "names_distinct a'"
proof (cases out)
  case None
  then show ?thesis using assms
    by (auto simp: CREATE_PROCESS_def Let_def bind_outcome_Returned split: if_splits)
next
  case (Some pid)
  obtain t r a1 where new: "\<forall>d\<in>set (PROCESS_DESCRIPTOR_VECTOR a). PROCESS_NAME (attribute (THE_PROCESS d)) \<noteq> PROCESS_NAME attr"
    and cb: "CREATE_BLACKBOARD (''RESPONSE_'' @ decimal pid) (sizeof_PROCESS_RESPONSE L) heap a = Returned ((rc, r), a1)"
    and a': "a' = a1\<lparr>PROCESS_DESCRIPTOR_VECTOR := PROCESS_DESCRIPTOR_VECTOR a1 @ [new_descriptor fresh attr pid t r],
              PROCESS_SCHEDULING_SORTED_VECTOR := PROCESS_SCHEDULING_SORTED_VECTOR a1 @ [pid],
              PROCESS_ID_TO_PTHREAD_ID_MAP := PROCESS_ID_TO_PTHREAD_ID_MAP a1 @ [pid]\<rparr>"
    using assms(1) [unfolded Some] by (rule CREATE_PROCESS_Returned)
  have "names_distinct a1" using cb assms(2) by (rule names_distinct_CREATE_BLACKBOARD)
  then show ?thesis unfolding a' using new CREATE_BLACKBOARD_frame [OF cb]
    by (auto simp: names_distinct_def)
qed


lemma CREATE_PROCESS_new:
  assumes "procs_inv a" "CURRENT_OPERATING_MODE a \<in> {COLD_START, WARM_START}"
    "length (PROCESS_DESCRIPTOR_VECTOR a) = pid" "pid < SYSTEM_LIMIT_NUMBER_OF_PROCESSES" "attributes_ok attr"
    "\<forall>d\<in>set (PROCESS_DESCRIPTOR_VECTOR a). PROCESS_NAME (attribute (THE_PROCESS d)) \<noteq> PROCESS_NAME attr"
    "''RESPONSE_'' @ decimal pid \<notin> BLACKBOARD_NAME ` set (BLACKBOARD_VECTOR a)"
    "''RESPONSE_'' @ decimal pid \<notin> EVENT_NAME ` set (EVENT_VECTOR a)" "0 < sizeof_PROCESS_RESPONSE L"
  shows "\<exists>a'. CREATE_PROCESS L attr fresh heap (Some t) a = ret_out NO_ERROR pid a' \<and>
    GET_PROCESS_ID (PROCESS_NAME attr) a' = ret_out NO_ERROR pid a' \<and>
    state (the_process pid a') = DORMANT \<and> attribute (the_process pid a') = attr \<and>
    thread_id (the_process pid a') = new_thread_id t \<and>
    PROCESS_NOTIFICATION_RESPONSE_BOARD_ID (PROCESS_DESCRIPTOR_VECTOR a' ! pid) = length (BLACKBOARD_VECTOR a) \<and>
    length (BLACKBOARD_VECTOR a') = Suc (length (BLACKBOARD_VECTOR a)) \<and>
    BB_MAX_MESSAGE_SIZE (board (length (BLACKBOARD_VECTOR a)) a') = sizeof_PROCESS_RESPONSE L"
proof -
  obtain a1 where cb: "CREATE_BLACKBOARD (''RESPONSE_'' @ decimal pid) (sizeof_PROCESS_RESPONSE L) heap a =
      ret_out NO_ERROR (length (BLACKBOARD_VECTOR a)) a1"
    and len: "length (BLACKBOARD_VECTOR a1) = Suc (length (BLACKBOARD_VECTOR a))"
    and size: "BB_MAX_MESSAGE_SIZE (board (length (BLACKBOARD_VECTOR a)) a1) = sizeof_PROCESS_RESPONSE L"
    using CREATE_BLACKBOARD_new [OF assms(2,9,7,8), of heap] by (auto simp: Let_def)
  note frame = CREATE_BLACKBOARD_frame [OF cb]
  let ?d = "new_descriptor fresh attr pid t (Some (length (BLACKBOARD_VECTOR a)))"
  let ?a' = "a1\<lparr>PROCESS_DESCRIPTOR_VECTOR := PROCESS_DESCRIPTOR_VECTOR a1 @ [?d],
              PROCESS_SCHEDULING_SORTED_VECTOR := PROCESS_SCHEDULING_SORTED_VECTOR a1 @ [pid],
              PROCESS_ID_TO_PTHREAD_ID_MAP := PROCESS_ID_TO_PTHREAD_ID_MAP a1 @ [pid]\<rparr>"
  have "PROCESS_new (THE_PROCESS fresh) attr pid (Some t) = Returned (new_process (THE_PROCESS fresh) attr pid t)"
    using assms(5) by (simp add: PROCESS_new_Returned attributes_ok_def)
  then have run: "CREATE_PROCESS L attr fresh heap (Some t) a = ret_out NO_ERROR pid ?a'"
    using assms(2-6) cb by (auto simp: CREATE_PROCESS_def Let_def new_descriptor_def)
  have "find_index (\<lambda>d. PROCESS_NAME (attribute (THE_PROCESS d)) = PROCESS_NAME attr) (PROCESS_DESCRIPTOR_VECTOR a @ [?d])
      = Some (length (PROCESS_DESCRIPTOR_VECTOR a))"
    by (rule find_index_snoc_new) (use assms(6) in simp_all)
  then have "GET_PROCESS_ID (PROCESS_NAME attr) ?a' = ret_out NO_ERROR pid ?a'"
    using frame assms(3) by (simp add: GET_PROCESS_ID_def)
  then show ?thesis using run len size frame assms(3)
    by (intro exI [of _ ?a']) (simp add: the_process_def nth_append)
qed

section \<open>What the services keep\<close>

lemma CLEAR_BLACKBOARD_frame:
  assumes "CLEAR_BLACKBOARD bid a = Returned (r, a')"
  shows "PROCESS_DESCRIPTOR_VECTOR a' = PROCESS_DESCRIPTOR_VECTOR a \<and>
    PROCESS_ID_TO_PTHREAD_ID_MAP a' = PROCESS_ID_TO_PTHREAD_ID_MAP a \<and>
    PROCESS_SCHEDULING_SORTED_VECTOR a' = PROCESS_SCHEDULING_SORTED_VECTOR a \<and>
    RW_LOCK_SEM_VECTOR a' = RW_LOCK_SEM_VECTOR a \<and> CURRENT_OPERATING_MODE a' = CURRENT_OPERATING_MODE a"
  using assms
  by (auto simp: CLEAR_BLACKBOARD_def ERASE_BLACKBOARD_def bind_outcome_Returned RESET_EVENT_def EVENT_reset_def
      upd_board_def split: if_splits)

lemma procs_inv_DELAYED_START [acm_inv]:
  assumes "DELAYED_START now pid DELAY_TIME a = Returned (r, a')" "procs_inv a"
  shows "procs_inv a'"
proof -
  let ?a1 = "upd_descriptor pid (\<lambda>d. d\<lparr>CURRENT_PRIORITY := BASE_PRIORITY (attribute (the_process pid a))\<rparr>)
      (set_priority pid (BASE_PRIORITY (attribute (the_process pid a))) a)"
  have a1: "procs_inv ?a1"
    by (intro procs_inv_upd_descriptor_fields procs_inv_simple assms(2)) simp
  have clear: "procs_inv a2" if "CLEAR_BLACKBOARD bid ?a1 = Returned (r', a2)" for bid a2 and r' :: "unit reply"
    using procs_inv_frame [OF a1] CLEAR_BLACKBOARD_frame [OF that] by simp
  show ?thesis using assms a1 clear
    by (auto simp: DELAYED_START_def Let_def bind_outcome_Returned
        intro!: procs_inv_simple procs_inv_upd_descriptor_fields split: if_splits)
qed

lemma procs_inv_services [acm_inv]:
  "SUSPEND pid a = Returned (r1, a') \<Longrightarrow> procs_inv a \<Longrightarrow> procs_inv a'"
  "RESUME pid a = Returned (r2, a') \<Longrightarrow> procs_inv a \<Longrightarrow> procs_inv a'"
  "SET_PRIORITY pid n a = Returned (r2, a') \<Longrightarrow> procs_inv a \<Longrightarrow> procs_inv a'"
  "START now pid a = Returned (r2, a') \<Longrightarrow> procs_inv a \<Longrightarrow> procs_inv a'"
  by (auto simp: SUSPEND_def RESUME_def SET_PRIORITY_def Let_def upd_suspension_def START_def procs_inv_DELAYED_START
      intro!: procs_inv_simple procs_inv_upd_descriptor_fields split: if_splits)

lemma procs_inv_stopped [acm_inv]: "procs_inv a \<Longrightarrow> procs_inv (stopped pid thread a)"
  by (simp add: stopped_def Let_def procs_inv_upd_process procs_inv_unlocked)

section \<open>Notification\<close>

lemma NOTIFY_then_GET:
  assumes "boards_inv a" "process_exists pid a"
    "PROCESS_NOTIFICATION_RESPONSE_BOARD_ID (PROCESS_DESCRIPTOR_VECTOR a ! pid) = bid" "bid < length (BLACKBOARD_VECTOR a)"
    "BB_MAX_MESSAGE_SIZE (board bid a) = sizeof_PROCESS_RESPONSE L"
    "\<And>x. int (length (PROCESS_RESPONSE_bytes L x)) = sizeof_PROCESS_RESPONSE L"
    "CAPACITY \<le> sizeof_PROCESS_RESPONSE L" "TIME_OUT \<le> MAX_TIME_OUT"
  shows "\<exists>a'. NOTIFY_PROCESS_FINISHED_STATUS L t pid resp a = ret_out NO_ERROR (resp\<lparr>TIMEOFMESSAGE := t\<rparr>) a' \<and>
    GET_PROCESS_FINISHED_STATUS L now pid TIME_OUT CAPACITY ws a' =
      ret_out NO_ERROR (PROCESS_RESPONSE_bytes L (resp\<lparr>TIMEOFMESSAGE := t\<rparr>)) a'"
proof -
  let ?m = "PROCESS_RESPONSE_bytes L (resp\<lparr>TIMEOFMESSAGE := t\<rparr>)" let ?a' = "displayed bid ?m a"
  have pos: "0 < sizeof_PROCESS_RESPONSE L"
    using boards_inv_nth [OF assms(1,4)] assms(5) by (simp add: board_ok_def)
  have len: "int (length ?m) = sizeof_PROCESS_RESPONSE L" by (rule assms(6))
  have take: "take (nat (sizeof_PROCESS_RESPONSE L)) ?m = ?m" using len by simp
  have d: "DISPLAY_BLACKBOARD bid ?m (sizeof_PROCESS_RESPONSE L) a = (ret NO_ERROR ?a' :: (unit reply \<times> APEX) outcome)"
    using DISPLAY_BLACKBOARD_ok [OF assms(1,4), of "sizeof_PROCESS_RESPONSE L" ?m] pos len assms(5) take by simp
  have b: "boards_inv ?a'" by (rule boards_inv_displayed [OF assms(1,4)]) (use len assms(5) in simp)
  have notify: "NOTIFY_PROCESS_FINISHED_STATUS L t pid resp a = ret_out NO_ERROR (resp\<lparr>TIMEOFMESSAGE := t\<rparr>) ?a'"
    using assms(2,3) d by (simp add: NOTIFY_PROCESS_FINISHED_STATUS_def process_exists_def Let_def)
  have "READ_BLACKBOARD now bid TIME_OUT ws ?a' = ret_out NO_ERROR ?m ?a'"
    using READ_BLACKBOARD_occupied [OF b, of bid TIME_OUT now ws] assms(4,8) len pos by simp
  then have "GET_PROCESS_FINISHED_STATUS L now pid TIME_OUT CAPACITY ws ?a' = ret_out NO_ERROR ?m ?a'"
    using assms(2,3,7) by (simp add: GET_PROCESS_FINISHED_STATUS_def process_exists_def)
  then show ?thesis using notify by blast
qed

end
