(* ===== verification/TimeServices.thy ===== *)
theory TimeServices
  imports ProcessServices
begin

text \<open>
  Time management: src/APEX\_TIME\_MANAGEMENT\_SERVICES.cc.  The answers of clock\_nanosleep to
  a valid deadline are chosen by the environment (the deadline was reached, or a signal
  interrupted the sleep); to a nanosecond field outside its range it answers
  EINVAL, as POSIX says, and the loop of TIMED\_WAIT asks again.
\<close>

datatype sleep = Slept | Interrupted

fun nanosleep_loop :: "SYSTEM_TIMESPEC \<Rightarrow> sleep list \<Rightarrow> unit outcome" where
  "nanosleep_loop t [] = Blocked"
| "nanosleep_loop t (x # xs) =
     (if normalised t \<and> x = Slept then Returned () else nanosleep_loop t xs)"

definition TIMED_WAIT :: "SYSTEM_TIMESPEC \<Rightarrow> SYSTEM_TIME_TYPE \<Rightarrow> sleep list \<Rightarrow> RETURN_CODE_TYPE outcome" where
  "TIMED_WAIT now DELAY_TIME xs =
     bind_outcome (assert_some (addTimeNano now DELAY_TIME)) (\<lambda>t.
       bind_outcome (nanosleep_loop t xs) (\<lambda>_. Returned NO_ERROR))"

definition PERIODIC_WAIT :: "nat \<Rightarrow> APEX wakeup list \<Rightarrow> APEX \<Rightarrow> ('o reply \<times> APEX) outcome" where
  "PERIODIC_WAIT self ws a =
     (case GET_MY_ID self a of
        (NO_ERROR, Some pid) \<Rightarrow>
          if \<not> isPeriodic (the_process pid a) then ret INVALID_MODE a
          else waiting_on_period pid NO_ERROR ws a
      | (rc, _) \<Rightarrow> ret rc a)"

definition GET_TIME :: "SYSTEM_TIME_TYPE \<Rightarrow> SYSTEM_TIME_TYPE reply" where
  "GET_TIME now_ns = (NO_ERROR, Some now_ns)"

definition REPLENISH :: "nat \<Rightarrow> SYSTEM_TIMESPEC \<Rightarrow> SYSTEM_TIME_TYPE \<Rightarrow> APEX \<Rightarrow> ('o reply \<times> APEX) outcome" where
  "REPLENISH self now BUDGET_TIME a =
     (if CURRENT_OPERATING_MODE a \<noteq> NORMAL then ret NO_ACTION a
      else if BUDGET_TIME \<noteq> INFINITE_TIME_VALUE \<and> BUDGET_TIME > MAX_TIME_OUT then ret INVALID_PARAM a
      else case GET_MY_ID self a of
        (NO_ERROR, Some pid) \<Rightarrow>
          if state (the_process pid a) = DORMANT then ret NO_ACTION a
          else bind_outcome (assert_some (computeDeadlineTimeSpecs now BUDGET_TIME)) (\<lambda>new_Deadline.
            if isPeriodic (the_process pid a) \<and>
               compareTime (ABSOLUTE_NEXT_SCHEDULED_TIME (PROCESS_DESCRIPTOR_VECTOR a ! pid)) new_Deadline
            then ret INVALID_MODE a
            else ret NO_ERROR
              ((upd_descriptor pid (\<lambda>d. d\<lparr>DEADLINE_TIME := new_Deadline, ABSOLUTE_CRITICAL_TIME := new_Deadline\<rparr>) a)
                 \<lparr>APEX_SCHEDULING_EVENT := snd (EVENT_set (APEX_SCHEDULING_EVENT a))\<rparr>))
      | (rc, _) \<Rightarrow> ret rc a)"

section \<open>Behaviour\<close>

lemma nanosleep_loop_Returned: "nanosleep_loop t xs = Returned () \<longleftrightarrow> normalised t \<and> Slept \<in> set xs"
  by (induction t xs rule: nanosleep_loop.induct) auto

lemma nanosleep_loop_cases: "nanosleep_loop t xs = (if normalised t \<and> Slept \<in> set xs then Returned () else Blocked)"
  by (induction t xs rule: nanosleep_loop.induct) auto

text \<open>A delay the services let through ends when the clock gets there; a negative delay never
  ends, whatever the clock answers.\<close>

lemma TIMED_WAIT_returns:
  assumes "0 \<le> DELAY_TIME" "DELAY_TIME \<le> MAX_TIME_OUT" "normalised now" "Slept \<in> set xs"
  shows "TIMED_WAIT now DELAY_TIME xs = Returned NO_ERROR"
proof -
  obtain t where t: "addTimeNano now DELAY_TIME = Some t" using assms(2) by (rule addTimeNano_some)
  have "normalised t" by (rule addTimeNano_normalised [OF t assms(3)]) (use assms(1,3) in \<open>simp add: normalised_def\<close>)
  then show ?thesis using t assms(4) by (simp add: TIMED_WAIT_def nanosleep_loop_cases)
qed

lemma TIMED_WAIT_never:
  assumes "normalised now" "DELAY_TIME < - tv_nsec now" "DELAY_TIME \<noteq> INFINITE_TIME_VALUE"
    "\<not> NANO dvd tv_nsec now + DELAY_TIME"
  shows "TIMED_WAIT now DELAY_TIME xs = Blocked"
  using addTimeNano_denormal [OF assms] by (auto simp: TIMED_WAIT_def nanosleep_loop_cases)

text \<open>PERIODIC\_WAIT consumes a release that is already there, and otherwise waits for
  the one the scheduler posts.\<close>

lemma PERIODIC_WAIT_released:
  assumes "is_thread_of self pid a" "process_exists pid a" "isPeriodic (the_process pid a)"
    "0 < counter (proc_sem pid a)"
  shows "\<exists>a'. PERIODIC_WAIT self [] a = (ret NO_ERROR a' :: ('o reply \<times> APEX) outcome) \<and>
    state (the_process pid a') = WAITING_ON_PERIOD \<and> counter (proc_sem pid a') = counter (proc_sem pid a) - 1"
  using assms
  by (simp add: PERIODIC_WAIT_def is_thread_of_def waiting_on_period_def SEMAPHORE_wait_forever_def proc_sem_def
      upd_proc_sem_def set_state_def)

lemma REPLENISH_ok:
  assumes "is_thread_of self pid a" "process_exists pid a" "CURRENT_OPERATING_MODE a = NORMAL"
    "state (the_process pid a) \<noteq> DORMANT" "BUDGET_TIME \<le> MAX_TIME_OUT"
    "computeDeadlineTimeSpecs now BUDGET_TIME = Some t"
  shows "REPLENISH self now BUDGET_TIME a =
    (if isPeriodic (the_process pid a) \<and>
        compareTime (ABSOLUTE_NEXT_SCHEDULED_TIME (PROCESS_DESCRIPTOR_VECTOR a ! pid)) t
     then ret INVALID_MODE a
     else ret NO_ERROR
       ((upd_descriptor pid (\<lambda>d. d\<lparr>DEADLINE_TIME := t, ABSOLUTE_CRITICAL_TIME := t\<rparr>) a)
          \<lparr>APEX_SCHEDULING_EVENT := snd (EVENT_set (APEX_SCHEDULING_EVENT a))\<rparr>))"
  using assms by (simp add: REPLENISH_def is_thread_of_def)

end
