(* ===== verification/BufferThreads.thy ===== *)
theory BufferThreads
  imports Buffer
begin

text \<open>
  Any number of threads over one APEX buffer (src/BUFFER.cc).  SEND\_MESSAGE and
  RECEIVE\_MESSAGE are two steps each, the semaphore wait and the critical section, and other
  threads may run in between; the messages sent and received are recorded in the order of
  the critical sections.
\<close>

datatype buf_pc = Idle_thread | Has_message | Has_slot "byte list"

record buf_system =
  buf :: APEX_BUFFER_TYPE
  bpcs :: "buf_pc list"
  sent :: "byte list list"
  received :: "byte list list"

fun reader_token :: "buf_pc \<Rightarrow> int" where
  "reader_token Has_message = 1"
| "reader_token _ = 0"

fun writer_token :: "buf_pc \<Rightarrow> int" where
  "writer_token (Has_slot m) = 1"
| "writer_token _ = 0"

inductive buf_step :: "buf_system \<Rightarrow> buf_system \<Rightarrow> bool" where
  receive_wait:
  "i < length (bpcs s) \<Longrightarrow> bpcs s ! i = Idle_thread \<Longrightarrow>
   SEMAPHORE_wait BUFFER_READ_SEMAPHORE BUFFER_READ_SEMAPHORE_update now t [] (buf s) =
     Returned (NO_ERROR, b) \<Longrightarrow>
   buf_step s (s\<lparr>buf := b, bpcs := (bpcs s)[i := Has_message]\<rparr>)"
| receive_section:
  "i < length (bpcs s) \<Longrightarrow> bpcs s ! i = Has_message \<Longrightarrow>
   receive_section (buf s) = Returned (m, b) \<Longrightarrow>
   buf_step s (s\<lparr>buf := b, bpcs := (bpcs s)[i := Idle_thread], received := received s @ [m]\<rparr>)"
| send_wait:
  "i < length (bpcs s) \<Longrightarrow> bpcs s ! i = Idle_thread \<Longrightarrow> buffer_ok (buf s) m \<Longrightarrow>
   SEMAPHORE_wait BUFFER_WRITE_SEMAPHORE BUFFER_WRITE_SEMAPHORE_update now t [] (buf s) =
     Returned (NO_ERROR, b) \<Longrightarrow>
   buf_step s (s\<lparr>buf := b, bpcs := (bpcs s)[i := Has_slot m]\<rparr>)"
| send_section:
  "i < length (bpcs s) \<Longrightarrow> bpcs s ! i = Has_slot m \<Longrightarrow>
   send_section m (int (length m)) (buf s) = Returned b \<Longrightarrow>
   buf_step s (s\<lparr>buf := b, bpcs := (bpcs s)[i := Idle_thread], sent := sent s @ [m]\<rparr>)"

inductive_cases buf_stepE: "buf_step s s'"

inductive buf_reachable :: "APEX_BUFFER_TYPE \<Rightarrow> nat \<Rightarrow> buf_system \<Rightarrow> bool" for b0 and threads where
  buf_init: "buf_reachable b0 threads
     \<lparr>buf = b0, bpcs = replicate threads Idle_thread, sent = [], received = []\<rparr>"
| buf_next: "buf_reachable b0 threads s \<Longrightarrow> buf_step s s' \<Longrightarrow> buf_reachable b0 threads s'"

definition buf_system_inv :: "buf_system \<Rightarrow> bool" where
  "buf_system_inv s \<longleftrightarrow>
     ring_inv (buf s) \<and>
     buffer_sems (sum_list (map reader_token (bpcs s))) (sum_list (map writer_token (bpcs s))) (buf s) \<and>
     (\<forall>m. Has_slot m \<in> set (bpcs s) \<longrightarrow> buffer_ok (buf s) m) \<and>
     received s @ buffer_contents (buf s) = sent s"

lemma field_READ: "field (\<lambda>_. True) BUFFER_READ_SEMAPHORE BUFFER_READ_SEMAPHORE_update"
  by (simp add: field_def)

lemma field_WRITE: "field (\<lambda>_. True) BUFFER_WRITE_SEMAPHORE BUFFER_WRITE_SEMAPHORE_update"
  by (simp add: field_def)

lemma token_nonneg [simp]: "0 \<le> reader_token p" "0 \<le> writer_token p"
  by (cases p; simp)+

lemma sem_update_ring [simp]:
  "ring_inv (BUFFER_READ_SEMAPHORE_update f b) = ring_inv b"
  "ring_inv (BUFFER_WRITE_SEMAPHORE_update f b) = ring_inv b"
  "buffer_contents (BUFFER_READ_SEMAPHORE_update f b) = buffer_contents b"
  "buffer_contents (BUFFER_WRITE_SEMAPHORE_update f b) = buffer_contents b"
  "buffer_ok (BUFFER_READ_SEMAPHORE_update f b) = buffer_ok b"
  "buffer_ok (BUFFER_WRITE_SEMAPHORE_update f b) = buffer_ok b"
  by (simp_all add: ring_inv_def buffer_contents_def ring_index_def buffer_ok_def fun_eq_iff)

lemma reader_has_message:
  assumes "buf_system_inv s" "i < length (bpcs s)" "bpcs s ! i = Has_message"
  shows "0 < CURRENT_MESSAGE_SIZE (buf s)"
proof -
  have "reader_token (bpcs s ! i) \<le> sum_list (map reader_token (bpcs s))"
    by (rule sum_ge_nth) (use assms(2) in simp_all)
  then show ?thesis using assms by (simp add: buf_system_inv_def buffer_sems_def)
qed

lemma writer_has_slot:
  assumes "buf_system_inv s" "i < length (bpcs s)" "bpcs s ! i = Has_slot m"
  shows "CURRENT_MESSAGE_SIZE (buf s) < BUFFER_MAX_NB_MESSAGE (buf s)" "buffer_ok (buf s) m"
proof -
  have "writer_token (bpcs s ! i) \<le> sum_list (map writer_token (bpcs s))"
    by (rule sum_ge_nth) (use assms(2) in simp_all)
  then show "CURRENT_MESSAGE_SIZE (buf s) < BUFFER_MAX_NB_MESSAGE (buf s)"
    using assms by (simp add: buf_system_inv_def buffer_sems_def)
  show "buffer_ok (buf s) m" using assms nth_mem by (fastforce simp: buf_system_inv_def)
qed

lemma buf_inv_update:
  assumes "buf_system_inv s" "i < length (bpcs s)"
    "ring_inv b" "buffer_ok b = buffer_ok (buf s)" "\<And>m. p = Has_slot m \<Longrightarrow> buffer_ok b m"
    "rec @ buffer_contents b = snt"
    "buffer_sems (sum_list (map reader_token (bpcs s)) - reader_token (bpcs s ! i) + reader_token p)
       (sum_list (map writer_token (bpcs s)) - writer_token (bpcs s ! i) + writer_token p) b"
  shows "buf_system_inv (s\<lparr>buf := b, bpcs := (bpcs s)[i := p], sent := snt, received := rec\<rparr>)"
  using assms
  by (auto simp: buf_system_inv_def sum_list_update_int
      dest!: set_update_subset_insert [THEN subsetD])

lemma buf_inv_step:
  assumes inv: "buf_system_inv s" and step: "buf_step s s'"
  shows "buf_system_inv s'"
  using step
proof cases
  case (receive_wait i now t b)
  then have "counter (BUFFER_READ_SEMAPHORE (buf s)) \<noteq> 0"
    "b = BUFFER_READ_SEMAPHORE_update take_unit (buf s)"
    using wait_no_wakeup [OF field_READ TrueI receive_wait(4)] by simp_all
  then show ?thesis
    using buf_inv_update [of s i b Has_message "received s" "sent s"] receive_wait inv
    by (simp add: buf_system_inv_def buffer_sems_def)
next
  case (receive_section i m b)
  from inv have ri: "ring_inv (buf s)" by (simp add: buf_system_inv_def)
  note some = reader_has_message [OF inv receive_section(2,3)]
  obtain m' b' where get: "receive_section (buf s) = Returned (m', b')" "ring_inv b'"
    "buffer_contents (buf s) = m' # buffer_contents b'"
    "BUFFER_MAX_NB_MESSAGE b' = BUFFER_MAX_NB_MESSAGE (buf s)"
    "BUFFER_MAX_MESSAGE_SIZE b' = BUFFER_MAX_MESSAGE_SIZE (buf s)"
    "CURRENT_MESSAGE_SIZE b' = CURRENT_MESSAGE_SIZE (buf s) - 1"
    "BUFFER_WRITE_SEMAPHORE b' = snd (SEMAPHORE_post (BUFFER_WRITE_SEMAPHORE (buf s)))"
    "BUFFER_READ_SEMAPHORE b' = BUFFER_READ_SEMAPHORE (buf s)"
    using buffer_get [OF ri some] by blast
  then have mb: "m' = m" "b' = b" using receive_section(4) by simp_all
  have w: "0 \<le> sum_list (map writer_token (bpcs s))" by (rule sum_list_nonneg) auto
  have sems: "buffer_sems (sum_list (map reader_token (bpcs s)) - 1) (sum_list (map writer_token (bpcs s))) b"
    using inv get(4,6-8) mb some w by (auto simp: buf_system_inv_def buffer_sems_def SEMAPHORE_post_def)
  have "received s @ buffer_contents (buf s) = sent s" using inv by (simp add: buf_system_inv_def)
  then show ?thesis
    using buf_inv_update [of s i b Idle_thread "received s @ [m]" "sent s"] receive_section inv get mb sems
    by (simp add: buffer_ok_def fun_eq_iff)
next
  case (send_wait i m now t b)
  then have "counter (BUFFER_WRITE_SEMAPHORE (buf s)) \<noteq> 0"
    "b = BUFFER_WRITE_SEMAPHORE_update take_unit (buf s)"
    using wait_no_wakeup [OF field_WRITE TrueI send_wait(5)] by simp_all
  then show ?thesis
    using buf_inv_update [of s i b "Has_slot m" "received s" "sent s"] send_wait inv
    by (simp add: buf_system_inv_def buffer_sems_def)
next
  case (send_section i m b)
  from inv have ri: "ring_inv (buf s)" by (simp add: buf_system_inv_def)
  note room = writer_has_slot [OF inv send_section(2,3)]
  have len: "int (length m) \<le> BUFFER_MAX_MESSAGE_SIZE (buf s)" using room(2) by (simp add: buffer_ok_def)
  obtain b' where put: "send_section m (int (length m)) (buf s) = Returned b'" "ring_inv b'"
    "buffer_contents b' = buffer_contents (buf s) @ [take (nat (int (length m))) m]"
    "BUFFER_MAX_NB_MESSAGE b' = BUFFER_MAX_NB_MESSAGE (buf s)"
    "BUFFER_MAX_MESSAGE_SIZE b' = BUFFER_MAX_MESSAGE_SIZE (buf s)"
    "CURRENT_MESSAGE_SIZE b' = CURRENT_MESSAGE_SIZE (buf s) + 1"
    "BUFFER_READ_SEMAPHORE b' = snd (SEMAPHORE_post (BUFFER_READ_SEMAPHORE (buf s)))"
    "BUFFER_WRITE_SEMAPHORE b' = BUFFER_WRITE_SEMAPHORE (buf s)"
    using buffer_put [OF ri room(1) _ len, of m] by auto
  then have mb: "b' = b" using send_section(4) by simp
  have r: "0 \<le> sum_list (map reader_token (bpcs s))" by (rule sum_list_nonneg) auto
  have sems: "buffer_sems (sum_list (map reader_token (bpcs s))) (sum_list (map writer_token (bpcs s)) - 1) b"
    using inv put(4,6-8) mb room(1) r by (auto simp: buf_system_inv_def buffer_sems_def SEMAPHORE_post_def)
  have "received s @ buffer_contents (buf s) = sent s" using inv by (simp add: buf_system_inv_def)
  then show ?thesis
    using buf_inv_update [of s i b Idle_thread "received s" "sent s @ [m]"] send_section inv put mb sems
    by (simp add: buffer_ok_def fun_eq_iff)
qed

lemma buf_inv_init:
  "ring_inv b0 \<Longrightarrow> buffer_sems 0 0 b0 \<Longrightarrow> buffer_contents b0 = [] \<Longrightarrow>
   buf_system_inv \<lparr>buf = b0, bpcs = replicate threads Idle_thread, sent = [], received = []\<rparr>"
  by (simp add: buf_system_inv_def sum_list_replicate)

lemma buf_reachable_inv:
  assumes "buf_reachable b0 threads s" "ring_inv b0" "buffer_sems 0 0 b0" "buffer_contents b0 = []"
  shows "buf_system_inv s"
  using assms by (induction rule: buf_reachable.induct) (auto intro: buf_inv_init buf_inv_step)

text \<open>A thread that has passed its wait runs its critical section without leaving the ring.\<close>

lemma buf_reader_defined:
  assumes "buf_system_inv s" "i < length (bpcs s)" "bpcs s ! i = Has_message"
  shows "\<exists>m b. receive_section (buf s) = Returned (m, b)"
  using buffer_get [OF _ reader_has_message [OF assms]] assms(1) by (metis buf_system_inv_def)

lemma buf_writer_defined:
  assumes "buf_system_inv s" "i < length (bpcs s)" "bpcs s ! i = Has_slot m"
  shows "\<exists>b. send_section m (int (length m)) (buf s) = Returned b"
  using buffer_put [of "buf s" "int (length m)" m] writer_has_slot [OF assms] assms(1)
  by (metis buf_system_inv_def buffer_ok_def of_nat_0_le_iff order_refl)

end
