(* ===== verification/BufferServices.thy ===== *)
theory BufferServices
  imports EventServices BufferThreads
begin

text \<open>
  The buffer services of src/APEX\_BUFFER\_SERVICES.cc.  A buffer identifier is a 64-bit
  number (\<^typ>\<open>nat\<close> here) that the services convert to 32 bits before they compare it
  with the number of buffers, and use unconverted as the index.
\<close>

definition unsigned_int :: "nat \<Rightarrow> nat" where
  "unsigned_int n = n mod 2 ^ 32"

definition CREATE_BUFFER ::
  "NAME_TYPE \<Rightarrow> int \<Rightarrow> int \<Rightarrow> QUEUING_DISCIPLINE_TYPE \<Rightarrow> PAYLOAD_TYPE list \<Rightarrow> APEX \<Rightarrow>
   (nat reply \<times> APEX) outcome" where
  "CREATE_BUFFER name MAX_SIZE MAX_NB discipline heap a =
     (if CURRENT_OPERATING_MODE a = NORMAL then ret INVALID_MODE a
      else if length (BUFFER_VECTOR a) \<ge> SYSTEM_LIMIT_NUMBER_OF_BUFFERS then ret INVALID_CONFIG a
      else if MAX_SIZE \<le> 0 then ret INVALID_CONFIG a
      else if MAX_NB \<le> 0 \<or> MAX_NB > int SYSTEM_LIMIT_NUMBER_OF_MESSAGES then ret INVALID_CONFIG a
      else if \<exists>b\<in>set (BUFFER_VECTOR a). BUFFER_NAME b = name then ret NO_ACTION a
      else ret_out NO_ERROR (length (BUFFER_VECTOR a))
             (a\<lparr>BUFFER_VECTOR := BUFFER_VECTOR a @
                  [BUFFER_new name (length (BUFFER_VECTOR a)) MAX_SIZE MAX_NB heap]\<rparr>))"

text \<open>While a caller is blocked in a buffer the other threads act on that buffer.\<close>

definition SEND_BUFFER ::
  "SYSTEM_TIMESPEC \<Rightarrow> nat \<Rightarrow> byte list \<Rightarrow> int \<Rightarrow> SYSTEM_TIME_TYPE \<Rightarrow> APEX_BUFFER_TYPE wakeup list \<Rightarrow> APEX \<Rightarrow>
   ('o reply \<times> APEX) outcome" where
  "SEND_BUFFER now bid MESSAGE_ADDR len TIME_OUT ws a =
     (if unsigned_int bid \<ge> length (BUFFER_VECTOR a) then ret INVALID_PARAM a
      else if TIME_OUT > MAX_TIME_OUT then ret INVALID_PARAM a
      else if bid \<ge> length (BUFFER_VECTOR a) then Undef
      else bind_outcome (SEND_MESSAGE now MESSAGE_ADDR len TIME_OUT ws (BUFFER_VECTOR a ! bid))
             (\<lambda>(rc, b). ret rc (a\<lparr>BUFFER_VECTOR := (BUFFER_VECTOR a)[bid := b]\<rparr>)))"

definition RECEIVE_BUFFER ::
  "SYSTEM_TIMESPEC \<Rightarrow> nat \<Rightarrow> SYSTEM_TIME_TYPE \<Rightarrow> APEX_BUFFER_TYPE wakeup list \<Rightarrow> APEX \<Rightarrow>
   (byte list reply \<times> APEX) outcome" where
  "RECEIVE_BUFFER now bid TIME_OUT ws a =
     (if unsigned_int bid \<ge> length (BUFFER_VECTOR a) then ret INVALID_PARAM a
      else if TIME_OUT > MAX_TIME_OUT then ret INVALID_PARAM a
      else if bid \<ge> length (BUFFER_VECTOR a) then Undef
      else bind_outcome (RECEIVE_MESSAGE now TIME_OUT ws (BUFFER_VECTOR a ! bid))
             (\<lambda>(rc, m, b). Returned ((rc, m), a\<lparr>BUFFER_VECTOR := (BUFFER_VECTOR a)[bid := b]\<rparr>)))"

definition GET_BUFFER_ID :: "NAME_TYPE \<Rightarrow> APEX \<Rightarrow> (nat reply \<times> APEX) outcome" where
  "GET_BUFFER_ID name a =
     (case find_index (\<lambda>b. BUFFER_NAME b = name) (BUFFER_VECTOR a) of
        Some i \<Rightarrow> ret_out NO_ERROR i a
      | None \<Rightarrow> ret INVALID_CONFIG a)"

definition GET_BUFFER_STATUS :: "nat \<Rightarrow> APEX \<Rightarrow> (BUFFER_STATUS_TYPE reply \<times> APEX) outcome" where
  "GET_BUFFER_STATUS bid a =
     (if unsigned_int bid \<ge> length (BUFFER_VECTOR a) then ret INVALID_PARAM a
      else if bid \<ge> length (BUFFER_VECTOR a) then Undef
      else let (rc, st) = BUFFER_GET_STATUS (BUFFER_VECTOR a ! bid) in ret_out rc st a)"

section \<open>Behaviour\<close>

definition buffers_inv :: "APEX \<Rightarrow> bool" where
  "buffers_inv a \<longleftrightarrow>
     length (BUFFER_VECTOR a) \<le> SYSTEM_LIMIT_NUMBER_OF_BUFFERS \<and>
     (\<forall>b\<in>set (BUFFER_VECTOR a). ring_inv b \<and> buffer_sems 0 0 b)"

lemma buffers_inv_nth:
  "buffers_inv a \<Longrightarrow> bid < length (BUFFER_VECTOR a) \<Longrightarrow>
     ring_inv (BUFFER_VECTOR a ! bid) \<and> buffer_sems 0 0 (BUFFER_VECTOR a ! bid)"
  by (simp add: buffers_inv_def)

lemma buffers_inv_update:
  "buffers_inv a \<Longrightarrow> ring_inv b \<Longrightarrow> buffer_sems 0 0 b \<Longrightarrow>
     buffers_inv (a\<lparr>BUFFER_VECTOR := (BUFFER_VECTOR a)[bid := b]\<rparr>)"
  by (auto simp: buffers_inv_def dest!: set_update_subset_insert [THEN subsetD])

lemma unsigned_int_id: "buffers_inv a \<Longrightarrow> bid < length (BUFFER_VECTOR a) \<Longrightarrow> unsigned_int bid = bid"
  by (simp add: unsigned_int_def buffers_inv_def SYSTEM_LIMIT_NUMBER_OF_BUFFERS_def)

lemma buffers_inv_create [acm_inv]:
  assumes "CREATE_BUFFER name n k d heap a = Returned (r, a')" "buffers_inv a"
    "length heap = nat k" "\<forall>p\<in>set heap. int (length (ACTUAL_LOAD p)) = n"
  shows "buffers_inv a'"
  using assms ring_inv_new [of k n heap name "length (BUFFER_VECTOR a)"]
    buffer_sems_new [of k name "length (BUFFER_VECTOR a)" n heap]
  by (auto simp: CREATE_BUFFER_def buffers_inv_def split: if_splits)

text \<open>A send to a buffer with room, by a caller that meets no other thread.\<close>

lemma SEND_MESSAGE_room:
  assumes inv: "ring_inv b" "buffer_sems 0 0 b"
    and room: "CURRENT_MESSAGE_SIZE b < BUFFER_MAX_NB_MESSAGE b"
    and len: "0 \<le> len" "len \<le> BUFFER_MAX_MESSAGE_SIZE b" "len \<le> int (length m)"
    and timeout: "TIME_OUT \<le> MAX_TIME_OUT"
  obtains b' where "SEND_MESSAGE now m len TIME_OUT ws b = Returned (NO_ERROR, b')"
    "ring_inv b'" "buffer_sems 0 0 b'" "buffer_contents b' = buffer_contents b @ [take (nat len) m]"
    "BUFFER_MAX_NB_MESSAGE b' = BUFFER_MAX_NB_MESSAGE b"
    "BUFFER_MAX_MESSAGE_SIZE b' = BUFFER_MAX_MESSAGE_SIZE b"
proof -
  let ?b1 = "BUFFER_WRITE_SEMAPHORE_update take_unit b"
  have c: "counter (BUFFER_WRITE_SEMAPHORE b) \<noteq> 0" using inv(2) room by (simp add: buffer_sems_def)
  have wait: "SEMAPHORE_wait BUFFER_WRITE_SEMAPHORE BUFFER_WRITE_SEMAPHORE_update now TIME_OUT ws b =
      Returned (NO_ERROR, ?b1)"
    by (rule SEMAPHORE_wait_available [OF field_WRITE TrueI c timeout])
  have "ring_inv ?b1" "CURRENT_MESSAGE_SIZE ?b1 < BUFFER_MAX_NB_MESSAGE ?b1"
    "len \<le> BUFFER_MAX_MESSAGE_SIZE ?b1" using inv room len by simp_all
  then obtain b' where put: "send_section m len ?b1 = Returned b'" "ring_inv b'"
    "buffer_contents b' = buffer_contents ?b1 @ [take (nat len) m]"
    "BUFFER_MAX_NB_MESSAGE b' = BUFFER_MAX_NB_MESSAGE ?b1"
    "BUFFER_MAX_MESSAGE_SIZE b' = BUFFER_MAX_MESSAGE_SIZE ?b1"
    "CURRENT_MESSAGE_SIZE b' = CURRENT_MESSAGE_SIZE ?b1 + 1"
    "BUFFER_READ_SEMAPHORE b' = snd (SEMAPHORE_post (BUFFER_READ_SEMAPHORE ?b1))"
    "BUFFER_WRITE_SEMAPHORE b' = BUFFER_WRITE_SEMAPHORE ?b1"
    using buffer_put [of ?b1 len m] len by blast
  have "buffer_sems 0 0 b'"
    using inv(2) room put(4,6-8) by (auto simp: buffer_sems_def SEMAPHORE_post_def)
  then show thesis using put wait by (intro that [of b']) (simp_all add: SEND_MESSAGE_def)
qed

lemma RECEIVE_MESSAGE_some:
  assumes inv: "ring_inv b" "buffer_sems 0 0 b" and some: "buffer_contents b = m # ms"
    and timeout: "TIME_OUT \<le> MAX_TIME_OUT"
  obtains b' where "RECEIVE_MESSAGE now TIME_OUT ws b = Returned (NO_ERROR, Some m, b')"
    "ring_inv b'" "buffer_sems 0 0 b'" "buffer_contents b' = ms"
    "BUFFER_MAX_NB_MESSAGE b' = BUFFER_MAX_NB_MESSAGE b"
    "BUFFER_MAX_MESSAGE_SIZE b' = BUFFER_MAX_MESSAGE_SIZE b"
proof -
  let ?b1 = "BUFFER_READ_SEMAPHORE_update take_unit b"
  have n: "0 < CURRENT_MESSAGE_SIZE b" using some length_buffer_contents [of b] by simp
  have c: "counter (BUFFER_READ_SEMAPHORE b) \<noteq> 0" using inv(2) n by (simp add: buffer_sems_def)
  have wait: "SEMAPHORE_wait BUFFER_READ_SEMAPHORE BUFFER_READ_SEMAPHORE_update now TIME_OUT ws b =
      Returned (NO_ERROR, ?b1)"
    by (rule SEMAPHORE_wait_available [OF field_READ TrueI c timeout])
  have "ring_inv ?b1" "0 < CURRENT_MESSAGE_SIZE ?b1" using inv n by simp_all
  then obtain m' b' where get: "receive_section ?b1 = Returned (m', b')" "ring_inv b'"
    "buffer_contents ?b1 = m' # buffer_contents b'"
    "BUFFER_MAX_NB_MESSAGE b' = BUFFER_MAX_NB_MESSAGE ?b1"
    "BUFFER_MAX_MESSAGE_SIZE b' = BUFFER_MAX_MESSAGE_SIZE ?b1"
    "CURRENT_MESSAGE_SIZE b' = CURRENT_MESSAGE_SIZE ?b1 - 1"
    "BUFFER_WRITE_SEMAPHORE b' = snd (SEMAPHORE_post (BUFFER_WRITE_SEMAPHORE ?b1))"
    "BUFFER_READ_SEMAPHORE b' = BUFFER_READ_SEMAPHORE ?b1"
    using buffer_get [of ?b1] by blast
  have "buffer_sems 0 0 b'"
    using inv(2) n get(4,6-8) by (auto simp: buffer_sems_def SEMAPHORE_post_def)
  then show thesis using get wait some by (intro that [of b']) (simp_all add: RECEIVE_MESSAGE_def)
qed

text \<open>A full buffer refuses a send that will not wait, an empty one a receive.\<close>

lemma SEND_MESSAGE_full:
  assumes "buffer_sems 0 0 b" "CURRENT_MESSAGE_SIZE b = BUFFER_MAX_NB_MESSAGE b" "normalised now"
  obtains b' where "SEND_MESSAGE now m len 0 [Expired (\<lambda>b. b)] b = Returned (NOT_AVAILABLE, b')"
    "b' = b"
proof -
  have c: "counter (BUFFER_WRITE_SEMAPHORE b) = 0" using assms(1,2) by (simp add: buffer_sems_def)
  have "dec_waiting \<circ> inc_waiting = (\<lambda>s. s)" by (simp add: fun_eq_iff)
  then have "BUFFER_WRITE_SEMAPHORE_update dec_waiting (BUFFER_WRITE_SEMAPHORE_update inc_waiting b) =
      BUFFER_WRITE_SEMAPHORE_update (\<lambda>s. s) b"
    using field_upd_upd [OF field_WRITE TrueI, of dec_waiting inc_waiting b] by simp
  also have "\<dots> = b" by (cases b) simp
  finally have "SEMAPHORE_wait BUFFER_WRITE_SEMAPHORE BUFFER_WRITE_SEMAPHORE_update now 0 [Expired (\<lambda>b. b)] b
      = Returned (TIMED_OUT, b)"
    using SEMAPHORE_wait_expires [OF field_WRITE TrueI c _ _ assms(3), of 0 "\<lambda>b. b"] MAX_TIME_OUT_pos by simp
  then show thesis by (intro that) (simp_all add: SEND_MESSAGE_def)
qed

lemma RECEIVE_MESSAGE_empty:
  assumes "buffer_sems 0 0 b" "CURRENT_MESSAGE_SIZE b = 0" "normalised now"
  shows "RECEIVE_MESSAGE now 0 [Expired (\<lambda>b. b)] b = Returned (NOT_AVAILABLE, None, b)"
proof -
  have c: "counter (BUFFER_READ_SEMAPHORE b) = 0" using assms(1,2) by (simp add: buffer_sems_def)
  have "dec_waiting \<circ> inc_waiting = (\<lambda>s. s)" by (simp add: fun_eq_iff)
  then have "BUFFER_READ_SEMAPHORE_update dec_waiting (BUFFER_READ_SEMAPHORE_update inc_waiting b) =
      BUFFER_READ_SEMAPHORE_update (\<lambda>s. s) b"
    using field_upd_upd [OF field_READ TrueI, of dec_waiting inc_waiting b] by simp
  also have "\<dots> = b" by (cases b) simp
  finally have "SEMAPHORE_wait BUFFER_READ_SEMAPHORE BUFFER_READ_SEMAPHORE_update now 0 [Expired (\<lambda>b. b)] b
      = Returned (TIMED_OUT, b)"
    using SEMAPHORE_wait_expires [OF field_READ TrueI c _ _ assms(3), of 0 "\<lambda>b. b"] MAX_TIME_OUT_pos by simp
  then show ?thesis by (simp add: RECEIVE_MESSAGE_def)
qed

text \<open>A message longer than the slot is copied past its end.\<close>

lemma SEND_MESSAGE_too_long:
  assumes inv: "ring_inv b" "buffer_sems 0 0 b"
    and room: "CURRENT_MESSAGE_SIZE b < BUFFER_MAX_NB_MESSAGE b"
    and len: "BUFFER_MAX_MESSAGE_SIZE b < len" and timeout: "TIME_OUT \<le> MAX_TIME_OUT"
  shows "SEND_MESSAGE now m len TIME_OUT ws b = Undef"
proof -
  let ?b1 = "BUFFER_WRITE_SEMAPHORE_update take_unit b"
  have c: "counter (BUFFER_WRITE_SEMAPHORE b) \<noteq> 0" using inv(2) room by (simp add: buffer_sems_def)
  have wait: "SEMAPHORE_wait BUFFER_WRITE_SEMAPHORE BUFFER_WRITE_SEMAPHORE_update now TIME_OUT ws b =
      Returned (NO_ERROR, ?b1)"
    by (rule SEMAPHORE_wait_available [OF field_WRITE TrueI c timeout])
  have "nat (BUFFER_TAIL b) < nat (BUFFER_MAX_NB_MESSAGE b)"
    using inv(1) ring_index_less [OF inv(1), of "nat (CURRENT_MESSAGE_SIZE b)"] by (simp add: ring_inv_def)
  then have "int (length (ACTUAL_LOAD (PAYLOAD b ! nat (BUFFER_TAIL b)))) = BUFFER_MAX_MESSAGE_SIZE b"
    using slot_length [OF inv(1)] by blast
  then have "send_section m len ?b1 = Undef" using len by (simp add: send_section_def c_memcpy_def)
  then show ?thesis using wait by (simp add: SEND_MESSAGE_def)
qed

lemma names_distinct_CREATE_BUFFER [acm_inv]:
  "CREATE_BUFFER name n k d heap a = Returned (r, a') \<Longrightarrow> names_distinct a \<Longrightarrow> names_distinct a'"
  by (auto simp: CREATE_BUFFER_def names_distinct_def BUFFER_new_def split: if_splits)

end
