(* ===== verification/HealthManager.thy ===== *)
theory HealthManager
  imports TimeServices BufferServices
begin

text \<open>
  The health manager services of src/APEX\_HM\_SERVICES.cc and
  APEX\_HELPER\_CREATE\_PROCESS of src/APEX\_INTERFACE\_IMPL.cc, which creates the
  process of a health manager.  A process that raises an error sends an ERROR\_STATUS\_TYPE to the
  buffer of its health manager and can wait for the response on a blackboard of its
  own.  An index outside a vector or array is \<open>Undef\<close>.  Local variables of the code hold what
  was in memory (\<open>fresh\<close>).
\<close>

definition MAX_HM_BUFFER_MESSGAES :: int where "MAX_HM_BUFFER_MESSGAES = 20"
definition MAX_HM_PROC_RELATIONSHIPS :: nat where "MAX_HM_PROC_RELATIONSHIPS = 128"
definition MAX_NAME_LENGTH :: nat where "MAX_NAME_LENGTH = 100"
definition HMPRIORITY :: int where "HMPRIORITY = 96"

text \<open>Access to a vector by a signed index.\<close>

definition vec_at :: "'a list \<Rightarrow> int \<Rightarrow> 'a outcome" where
  "vec_at xs i = (if 0 \<le> i \<and> i < int (length xs) then Returned (xs ! nat i) else Undef)"

section \<open>Raising errors\<close>

text \<open>The part both versions of RAISE\_APPLICATION\_ERROR share: a descriptor without health
  manager has the identifier -1.\<close>

definition raise_error ::
  "layout \<Rightarrow> SYSTEM_TIMESPEC \<Rightarrow> nat \<Rightarrow> ERROR_CODE_TYPE \<Rightarrow> byte list \<Rightarrow> int \<Rightarrow> ERROR_STATUS_TYPE \<Rightarrow>
   APEX_BUFFER_TYPE wakeup list \<Rightarrow> APEX \<Rightarrow> ('o reply \<times> APEX) outcome" where
  "raise_error L now pid CODE MESSAGE_ADDR len fresh ws a =
     (let hm = HM_DESCRIPTOR_ID (PROCESS_DESCRIPTOR_VECTOR a ! pid) in
      if hm = -1 then ret NOT_AVAILABLE a
      else bind_outcome (c_memcpy (ES_MESSAGE fresh) MESSAGE_ADDR len) (\<lambda>m.
        let ERROR_STATUS = \<lparr>ES_ERROR_CODE = CODE, ES_LENGTH = len, FAILED_PROCESS_ID = pid, ES_MESSAGE = m\<rparr> in
        bind_outcome (vec_at (HM_VECTOR a) hm) (\<lambda>h.
          SEND_BUFFER now (HM_BUFFER_ID h) (ERROR_STATUS_bytes L ERROR_STATUS) (sizeof_ERROR_STATUS L)
            INFINITE_TIME_VALUE ws a)))"

definition RAISE_APPLICATION_ERROR ::
  "layout \<Rightarrow> nat \<Rightarrow> SYSTEM_TIMESPEC \<Rightarrow> ERROR_CODE_TYPE \<Rightarrow> byte list \<Rightarrow> int \<Rightarrow> ERROR_STATUS_TYPE \<Rightarrow>
   APEX_BUFFER_TYPE wakeup list \<Rightarrow> APEX \<Rightarrow> ('o reply \<times> APEX) outcome" where
  "RAISE_APPLICATION_ERROR L self now CODE MESSAGE_ADDR len fresh ws a =
     (case GET_MY_ID self a of
        (NO_ERROR, Some pid) \<Rightarrow> raise_error L now pid CODE MESSAGE_ADDR len fresh ws a
      | (rc, _) \<Rightarrow> ret rc a)"

text \<open>The version of the scheduler names the faulty process.\<close>

definition RAISE_APPLICATION_ERROR_FOR ::
  "layout \<Rightarrow> SYSTEM_TIMESPEC \<Rightarrow> nat \<Rightarrow> ERROR_CODE_TYPE \<Rightarrow> byte list \<Rightarrow> int \<Rightarrow> ERROR_STATUS_TYPE \<Rightarrow>
   APEX_BUFFER_TYPE wakeup list \<Rightarrow> APEX \<Rightarrow> ('o reply \<times> APEX) outcome" where
  "RAISE_APPLICATION_ERROR_FOR L now FAULTY_PROCESS_ID CODE MESSAGE_ADDR len fresh ws a =
     (if \<not> process_exists FAULTY_PROCESS_ID a then Undef
      else raise_error L now FAULTY_PROCESS_ID CODE MESSAGE_ADDR len fresh ws a)"

text \<open>The result of GET\_MY\_ID is not looked at: a caller that is no process
  indexes the vector with an uninitialised variable.\<close>

definition RAISE_APPLICATION_ERROR_AND_GET_RESPONSE ::
  "layout \<Rightarrow> nat \<Rightarrow> SYSTEM_TIMESPEC \<Rightarrow> ERROR_CODE_TYPE \<Rightarrow> byte list \<Rightarrow> int \<Rightarrow> int \<Rightarrow> SYSTEM_TIME_TYPE \<Rightarrow>
   ERROR_STATUS_TYPE \<Rightarrow> APEX_BUFFER_TYPE wakeup list \<Rightarrow> APEX wakeup list \<Rightarrow> APEX \<Rightarrow>
   (byte list reply \<times> APEX) outcome" where
  "RAISE_APPLICATION_ERROR_AND_GET_RESPONSE L self now CODE MESSAGE_ADDR len CAPACITY TIME_OUT fresh bws ws a =
     (case GET_MY_ID self a of
        (NO_ERROR, Some pid) \<Rightarrow>
          if HM_DESCRIPTOR_ID (PROCESS_DESCRIPTOR_VECTOR a ! pid) = -1 then ret NOT_AVAILABLE a
          else let TARGET_BOARD_ID = HM_RESPONSE_BOARD_ID (PROCESS_DESCRIPTOR_VECTOR a ! pid) in
            bind_outcome (CLEAR_BLACKBOARD TARGET_BOARD_ID a :: (unit reply \<times> APEX) outcome) (\<lambda>(r1, a1).
            bind_outcome (RAISE_APPLICATION_ERROR L self now CODE MESSAGE_ADDR len fresh bws a1
                :: (unit reply \<times> APEX) outcome) (\<lambda>(r2, a2).
            if CAPACITY > sizeof_HM_RESPONSE L then ret INVALID_PARAM a2
            else READ_BLACKBOARD now TARGET_BOARD_ID TIME_OUT ws a2))
      | (rc, _) \<Rightarrow> Undef)"

definition GET_PROCESS_HM_BOARD_ID :: "nat \<Rightarrow> APEX \<Rightarrow> (nat reply \<times> APEX) outcome" where
  "GET_PROCESS_HM_BOARD_ID pid a =
     (if length (PROCESS_DESCRIPTOR_VECTOR a) \<le> pid then ret INVALID_PARAM a
      else if HM_DESCRIPTOR_ID (PROCESS_DESCRIPTOR_VECTOR a ! pid) = -1 then ret NOT_AVAILABLE a
      else ret_out NO_ERROR (HM_RESPONSE_BOARD_ID (PROCESS_DESCRIPTOR_VECTOR a ! pid)) a)"

section \<open>Creating a health manager and registering processes with it\<close>

text \<open>A name of exactly MAX\_NAME\_LENGTH characters fills the array of the attributes and is not
  terminated.  The out-parameter is missing when the identifier is the initial -1.\<close>

definition APEX_HELPER_CREATE_PROCESS ::
  "layout \<Rightarrow> SYSTEM_TIME_TYPE \<Rightarrow> SYSTEM_TIME_TYPE \<Rightarrow> nat \<Rightarrow> nat \<Rightarrow> int \<Rightarrow> DEADLINE_TYPE \<Rightarrow> NAME_TYPE \<Rightarrow>
   PROCESS_DESCRIPTOR \<Rightarrow> byte list \<Rightarrow> new_thread option \<Rightarrow> APEX \<Rightarrow> (nat reply \<times> APEX) outcome" where
  "APEX_HELPER_CREATE_PROCESS L period capacity entry stack prio deadline name fresh heap thread a =
     (if length name > MAX_NAME_LENGTH then ret INVALID_PARAM a
      else if length name = MAX_NAME_LENGTH then Undef
      else CREATE_PROCESS L
             \<lparr>PERIOD = period, TIME_CAPACITY = capacity, ENTRY_POINT = entry, STACK_SIZE = stack,
              BASE_PRIORITY = prio, DEADLINE = deadline, PROCESS_NAME = name\<rparr> fresh heap thread a)"

text \<open>The name of the buffer is built by strcpy and strcat in an array of MAX\_NAME\_LENGTH
  characters.\<close>

definition CREATE_HEALTH_MANAGER_PROCESS ::
  "layout \<Rightarrow> nat \<Rightarrow> NAME_TYPE \<Rightarrow> nat \<Rightarrow> PROCESS_DESCRIPTOR \<Rightarrow> byte list \<Rightarrow> PAYLOAD_TYPE list \<Rightarrow>
   PROC_HM_ASSOCIATION_TYPE list \<Rightarrow> new_thread option \<Rightarrow> APEX \<Rightarrow> (nat reply \<times> APEX) outcome" where
  "CREATE_HEALTH_MANAGER_PROCESS L entry name stack fresh heap slots assoc thread a =
     (if CURRENT_OPERATING_MODE a = IDLE \<or> CURRENT_OPERATING_MODE a = NORMAL then ret INVALID_MODE a
      else bind_outcome
        (APEX_HELPER_CREATE_PROCESS L INFINITE_TIME_VALUE INFINITE_TIME_VALUE entry stack HMPRIORITY HARD name
           fresh heap thread a)
        (\<lambda>((rc, out), a1). case (rc, out) of
          (NO_ERROR, Some HM_PROC_ID) \<Rightarrow>
            let a2 = upd_descriptor HM_PROC_ID (\<lambda>d. d\<lparr>IS_HEALTH_MANAGER := True\<rparr>) a1 in
            if length name + 4 \<ge> MAX_NAME_LENGTH then Undef
            else bind_outcome
              (CREATE_BUFFER (name @ ''_HMB'') (sizeof_ERROR_STATUS L) MAX_HM_BUFFER_MESSGAES FIFO slots a2)
              (\<lambda>((rc2, buf), a3). case (rc2, buf) of
                (NO_ERROR, Some buffer_id) \<Rightarrow>
                  ret_out NO_ERROR (length (HM_VECTOR a3))
                    (a3\<lparr>HM_VECTOR := HM_VECTOR a3 @
                          [\<lparr>HM_PROCESS_ID = HM_PROC_ID, HM_BUFFER_ID = buffer_id,
                            PROC_HM_ASSOCIATION = assoc, CURRENTLY_REGISTERED_PROCS = -1\<rparr>]\<rparr>)
              | _ \<Rightarrow> ret rc2 a3)
        | _ \<Rightarrow> ret rc a1))"

definition REGISTER_PROCESS_WITH_HEALTH_MANAGER ::
  "layout \<Rightarrow> nat \<Rightarrow> int \<Rightarrow> byte list \<Rightarrow> APEX \<Rightarrow> (nat reply \<times> APEX) outcome" where
  "REGISTER_PROCESS_WITH_HEALTH_MANAGER L pid hm heap a =
     (if CURRENT_OPERATING_MODE a = IDLE \<or> CURRENT_OPERATING_MODE a = NORMAL then ret INVALID_MODE a
      else if unsigned_int pid \<ge> length (PROCESS_DESCRIPTOR_VECTOR a) then ret INVALID_PARAM a
      else if hm \<ge> int (length (HM_VECTOR a)) then ret INVALID_PARAM a
      else bind_outcome (CREATE_BLACKBOARD (''Process'' @ decimal pid) (sizeof_HM_RESPONSE L) heap a)
        (\<lambda>((rc, out), a1). case (rc, out) of
          (NO_ERROR, Some board_id) \<Rightarrow>
            if \<not> process_exists pid a1 then Undef
            else bind_outcome (vec_at (HM_VECTOR a1) hm) (\<lambda>h.
              let a2 = upd_descriptor pid (\<lambda>d. d\<lparr>HM_DESCRIPTOR_ID := hm, HM_RESPONSE_BOARD_ID := board_id\<rparr>) a1;
                  registerednumber = CURRENTLY_REGISTERED_PROCS h + 1
              in if registerednumber < 0 \<or> int (length (PROC_HM_ASSOCIATION h)) \<le> registerednumber then Undef
                 else ret_out NO_ERROR board_id
                   (a2\<lparr>HM_VECTOR := (HM_VECTOR a2)[nat hm :=
                        h\<lparr>CURRENTLY_REGISTERED_PROCS := registerednumber,
                          PROC_HM_ASSOCIATION := (PROC_HM_ASSOCIATION h)[nat registerednumber :=
                            \<lparr>HMA_PROCESS_ID = pid, HMA_BLACKBOARD_ID = board_id\<rparr>]\<rparr>]\<rparr>))
        | _ \<Rightarrow> Returned ((rc, out), a1)))"

definition START_HM :: "SYSTEM_TIMESPEC \<Rightarrow> int \<Rightarrow> APEX \<Rightarrow> ('o reply \<times> APEX) outcome" where
  "START_HM now hm a =
     (if hm \<ge> int (length (HM_VECTOR a)) \<or> hm < 0 then ret INVALID_PARAM a
      else START now (HM_PROCESS_ID (HM_VECTOR a ! nat hm)) a)"

section \<open>What a health manager does\<close>

definition HM_GET_MY_DESCRIPTOR_ID :: "nat \<Rightarrow> APEX \<Rightarrow> RETURN_CODE_TYPE \<times> nat option" where
  "HM_GET_MY_DESCRIPTOR_ID self a =
     (case GET_MY_ID self a of
        (NO_ERROR, Some pid) \<Rightarrow>
          if \<not> IS_HEALTH_MANAGER (PROCESS_DESCRIPTOR_VECTOR a ! pid) then (NOT_AVAILABLE, None)
          else (case find_index (\<lambda>h. HM_PROCESS_ID h = pid) (HM_VECTOR a) of
                  Some idx \<Rightarrow> (NO_ERROR, Some idx)
                | None \<Rightarrow> (INVALID_CONFIG, None))
      | (rc, _) \<Rightarrow> (rc, None))"

definition HM_GET_MY_BUFFER_ID :: "nat \<Rightarrow> APEX \<Rightarrow> (nat reply \<times> APEX) outcome" where
  "HM_GET_MY_BUFFER_ID self a =
     (case HM_GET_MY_DESCRIPTOR_ID self a of
        (NO_ERROR, Some hm) \<Rightarrow> ret_out NO_ERROR (HM_BUFFER_ID (HM_VECTOR a ! hm)) a
      | (rc, _) \<Rightarrow> ret rc a)"

definition HM_NOTIFY_PROCESS :: "layout \<Rightarrow> nat \<Rightarrow> nat \<Rightarrow> HM_RESPONSE_TYPE \<Rightarrow> APEX \<Rightarrow> ('o reply \<times> APEX) outcome" where
  "HM_NOTIFY_PROCESS L self pid resp a =
     (case HM_GET_MY_DESCRIPTOR_ID self a of
        (NO_ERROR, Some hm) \<Rightarrow>
          if \<not> process_exists pid a then Undef
          else if HM_DESCRIPTOR_ID (PROCESS_DESCRIPTOR_VECTOR a ! pid) \<noteq> int hm then ret NOT_AVAILABLE a
          else DISPLAY_BLACKBOARD (HM_RESPONSE_BOARD_ID (PROCESS_DESCRIPTOR_VECTOR a ! pid))
                 (HM_RESPONSE_bytes L resp) (sizeof_HM_RESPONSE L) a
      | (rc, _) \<Rightarrow> ret rc a)"

text \<open>The search \<open>for (i = 0; i <= registeredProcNumbers; i++)\<close> in the array of associations.\<close>

function assoc_loop :: "PROC_HM_ASSOCIATION_TYPE list \<Rightarrow> int \<Rightarrow> nat \<Rightarrow> nat \<Rightarrow> nat option outcome" where
  "assoc_loop xs n FAILED_ID i =
     (if \<not> int i \<le> n then Returned None
      else if length xs \<le> i then Undef
      else if HMA_PROCESS_ID (xs ! i) = FAILED_ID then Returned (Some (HMA_BLACKBOARD_ID (xs ! i)))
      else assoc_loop xs n FAILED_ID (Suc i))"
  by pat_completeness auto
termination by (relation "measure (\<lambda>(xs, n, f, i). nat (n + 1) - i)") auto

declare assoc_loop.simps [simp del]

text \<open>The out-parameters are the error and, when it is found, the blackboard of the faulty
  process.  The message is written over the structure of the caller.\<close>

definition HM_GET_PROCESS_ERROR_MESSAGE ::
  "layout \<Rightarrow> nat \<Rightarrow> SYSTEM_TIMESPEC \<Rightarrow> APEX_BUFFER_TYPE wakeup list \<Rightarrow> APEX \<Rightarrow>
   ((ERROR_STATUS_TYPE \<times> nat option) reply \<times> APEX) outcome" where
  "HM_GET_PROCESS_ERROR_MESSAGE L self now ws a =
     (case HM_GET_MY_DESCRIPTOR_ID self a of
        (NO_ERROR, Some hm) \<Rightarrow>
          bind_outcome (RECEIVE_BUFFER now (HM_BUFFER_ID (HM_VECTOR a ! hm)) INFINITE_TIME_VALUE ws a)
            (\<lambda>((rc, m), a1). case (rc, m) of
              (NO_ERROR, Some bytes) \<Rightarrow>
                let ERROR_STATUS = ERROR_STATUS_of L bytes; FAILED_ID = FAILED_PROCESS_ID ERROR_STATUS in
                if \<not> process_exists FAILED_ID a1 then Undef
                else if HM_DESCRIPTOR_ID (PROCESS_DESCRIPTOR_VECTOR a1 ! FAILED_ID) \<noteq> int hm
                then ret_out NOT_AVAILABLE (ERROR_STATUS, None) a1
                else bind_outcome
                  (assoc_loop (PROC_HM_ASSOCIATION (HM_VECTOR a1 ! hm)) (CURRENTLY_REGISTERED_PROCS (HM_VECTOR a1 ! hm))
                     FAILED_ID 0)
                  (\<lambda>found. case found of
                    Some board_id \<Rightarrow> ret_out NO_ERROR (ERROR_STATUS, Some board_id) a1
                  | None \<Rightarrow> ret_out NOT_AVAILABLE (ERROR_STATUS, None) a1)
            | _ \<Rightarrow> ret rc a1)
      | (rc, _) \<Rightarrow> ret rc a)"


section \<open>Numbers in names\<close>

fun undecimal :: "string \<Rightarrow> nat" where
  "undecimal cs = foldl (\<lambda>n c. 10 * n + (of_char c - 48)) 0 cs"

lemma of_char_digit: "d < 10 \<Longrightarrow> (of_char (char_of (48 + d :: nat)) :: nat) = 48 + d"
  by (simp only: char_of_take_bit_eq of_char_of)
    (simp add: take_bit_eq_mod)

lemma undecimal_decimal: "undecimal (decimal n) = n"
proof (induction n rule: decimal.induct)
  case (1 n)
  show ?case
  proof (cases "n < 10")
    case True
    then show ?thesis by (simp add: decimal.simps [of n] of_char_digit)
  next
    case False
    then show ?thesis using 1 by (simp add: decimal.simps [of n] of_char_digit)
  qed
qed

lemma decimal_inj [simp]: "decimal m = decimal n \<longleftrightarrow> m = n"
  by (metis undecimal_decimal)

section \<open>Invariant of the health managers\<close>

definition registered :: "HM_DESCRIPTOR_TYPE \<Rightarrow> PROC_HM_ASSOCIATION_TYPE list" where
  "registered h = take (nat (CURRENTLY_REGISTERED_PROCS h + 1)) (PROC_HM_ASSOCIATION h)"

definition hm_ok :: "APEX \<Rightarrow> HM_DESCRIPTOR_TYPE \<Rightarrow> bool" where
  "hm_ok a h \<longleftrightarrow>
     length (PROC_HM_ASSOCIATION h) = MAX_HM_PROC_RELATIONSHIPS \<and>
     - 1 \<le> CURRENTLY_REGISTERED_PROCS h \<and>
     CURRENTLY_REGISTERED_PROCS h + 1 \<le> int MAX_HM_PROC_RELATIONSHIPS \<and>
     distinct (map HMA_PROCESS_ID (registered h)) \<and>
     (\<forall>x\<in>set (registered h). process_exists (HMA_PROCESS_ID x) a \<and>
        ''Process'' @ decimal (HMA_PROCESS_ID x) \<in> BLACKBOARD_NAME ` set (BLACKBOARD_VECTOR a))"

definition hm_inv :: "APEX \<Rightarrow> bool" where
  "hm_inv a \<longleftrightarrow>
     length (PROCESS_DESCRIPTOR_VECTOR a) \<le> SYSTEM_LIMIT_NUMBER_OF_PROCESSES \<and>
     (\<forall>h\<in>set (HM_VECTOR a). hm_ok a h)"

lemma hm_inv_new: "hm_inv APEX_new"
  by (simp add: hm_inv_def APEX_new_def)

lemma CREATE_BLACKBOARD_names:
  assumes "CREATE_BLACKBOARD name n heap a = Returned ((NO_ERROR, out), a1)"
  shows "name \<notin> BLACKBOARD_NAME ` set (BLACKBOARD_VECTOR a) \<and>
    BLACKBOARD_NAME ` set (BLACKBOARD_VECTOR a1) = insert name (BLACKBOARD_NAME ` set (BLACKBOARD_VECTOR a)) \<and>
    out = Some (length (BLACKBOARD_VECTOR a)) \<and> length (BLACKBOARD_VECTOR a1) = Suc (length (BLACKBOARD_VECTOR a))"
  using assms
  by (auto simp: CREATE_BLACKBOARD_def bind_outcome_Returned CREATE_EVENT_def split: if_splits)

lemma distinct_bound:
  assumes "distinct xs" "\<forall>x\<in>set xs. x < (n :: nat)"
  shows "length xs \<le> n"
proof -
  have "set xs \<subseteq> {..<n}" using assms(2) by auto
  then have "card (set xs) \<le> n" using card_mono [of "{..<n}" "set xs"] by simp
  then show ?thesis using distinct_card [OF assms(1)] by simp
qed

lemma unsigned_int_small:
  assumes "unsigned_int pid < n" "n \<le> SYSTEM_LIMIT_NUMBER_OF_PROCESSES" "pid < 2 ^ 32"
  shows "pid < n"
  using assms by (simp add: unsigned_int_def)

text \<open>A process registers at most once, since the board named after it must be new; so the
  array of associations is never full.\<close>

lemma registration_fits:
  assumes "hm_inv a" "h \<in> set (HM_VECTOR a)" "process_exists pid a"
    "''Process'' @ decimal pid \<notin> BLACKBOARD_NAME ` set (BLACKBOARD_VECTOR a)"
  shows "CURRENTLY_REGISTERED_PROCS h + 1 < int (length (PROC_HM_ASSOCIATION h))"
    "pid \<notin> HMA_PROCESS_ID ` set (registered h)"
proof -
  have ok: "hm_ok a h" using assms(1,2) by (simp add: hm_inv_def)
  show new: "pid \<notin> HMA_PROCESS_ID ` set (registered h)" using ok assms(4) by (auto simp: hm_ok_def)
  let ?pids = "pid # map HMA_PROCESS_ID (registered h)"
  have "distinct ?pids" using ok new by (simp add: hm_ok_def)
  moreover have "\<forall>x\<in>set ?pids. x < length (PROCESS_DESCRIPTOR_VECTOR a)"
    using ok assms(3) by (auto simp: hm_ok_def process_exists_def)
  ultimately have "length ?pids \<le> length (PROCESS_DESCRIPTOR_VECTOR a)" by (rule distinct_bound)
  then have "length (registered h) < MAX_HM_PROC_RELATIONSHIPS"
    using assms(1) by (simp add: hm_inv_def MAX_HM_PROC_RELATIONSHIPS_def SYSTEM_LIMIT_NUMBER_OF_PROCESSES_def)
  then show "CURRENTLY_REGISTERED_PROCS h + 1 < int (length (PROC_HM_ASSOCIATION h))"
    using ok by (auto simp: hm_ok_def registered_def min_def split: if_splits)
qed

lemma take_update_snoc: "n < length xs \<Longrightarrow> take (Suc n) (xs[n := x]) = take n xs @ [x]"
  by (simp add: take_Suc_conv_app_nth)

lemma REGISTER_ok:
  assumes inv: "hm_inv a" and hm: "0 \<le> hm" and pid: "pid < 2 ^ 32"
    and run: "REGISTER_PROCESS_WITH_HEALTH_MANAGER L pid hm heap a = r"
  shows "r \<noteq> Undef \<and> (\<forall>rr a'. r = Returned (rr, a') \<longrightarrow> hm_inv a')"
proof (cases "CREATE_BLACKBOARD (''Process'' @ decimal pid) (sizeof_HM_RESPONSE L) heap a")
  case (Returned x)
  obtain rc out a1 where x: "x = ((rc, out), a1)" by (metis prod.exhaust)
  note frame = CREATE_BLACKBOARD_frame [OF Returned [unfolded x]]
  let ?bad = "CURRENT_OPERATING_MODE a = IDLE \<or> CURRENT_OPERATING_MODE a = NORMAL \<or>
     unsigned_int pid \<ge> length (PROCESS_DESCRIPTOR_VECTOR a) \<or> hm \<ge> int (length (HM_VECTOR a))"
  show ?thesis
  proof (cases ?bad)
    case True
    then show ?thesis using run inv by (auto simp: REGISTER_PROCESS_WITH_HEALTH_MANAGER_def split: if_splits)
  next
    case good: False
    then have ex: "process_exists pid a"
      using unsigned_int_small [OF _ _ pid] inv by (simp add: hm_inv_def process_exists_def)
    show ?thesis
    proof (cases "rc = NO_ERROR")
      case False
      have "hm_ok a1 h = hm_ok a h" if "h \<in> set (HM_VECTOR a)" for h
        using Returned False unfolding x
        by (auto simp: CREATE_BLACKBOARD_def bind_outcome_Returned split: if_splits)
      then show ?thesis using run good Returned x False frame inv
        by (cases rc) (auto simp: REGISTER_PROCESS_WITH_HEALTH_MANAGER_def hm_inv_def)
    next
      case True
      note names = CREATE_BLACKBOARD_names [OF Returned [unfolded x True]]
      define h where "h = HM_VECTOR a ! nat hm"
      have h: "h \<in> set (HM_VECTOR a)" using good hm unfolding h_def by (intro nth_mem) linarith
      note fits = registration_fits [OF inv h ex conjunct1 [OF names]]
      define k where "k = nat (CURRENTLY_REGISTERED_PROCS h + 1)"
      have ok: "hm_ok a h" using inv h by (simp add: hm_inv_def)
      have k1: "CURRENTLY_REGISTERED_PROCS h + 1 = int k" using ok by (simp add: hm_ok_def k_def)
      have k: "CURRENTLY_REGISTERED_PROCS h + 1 = int k" "k < length (PROC_HM_ASSOCIATION h)"
        using k1 fits(1) by linarith+
      let ?x = "\<lparr>HMA_PROCESS_ID = pid, HMA_BLACKBOARD_ID = length (BLACKBOARD_VECTOR a)\<rparr>"
      let ?h = "h\<lparr>CURRENTLY_REGISTERED_PROCS := int k, PROC_HM_ASSOCIATION := (PROC_HM_ASSOCIATION h)[k := ?x]\<rparr>"
      let ?a2 = "upd_descriptor pid (\<lambda>d. d\<lparr>HM_DESCRIPTOR_ID := hm, HM_RESPONSE_BOARD_ID := length (BLACKBOARD_VECTOR a)\<rparr>) a1"
      let ?a' = "?a2\<lparr>HM_VECTOR := (HM_VECTOR ?a2)[nat hm := ?h]\<rparr>"
      have ex1: "process_exists pid a1" using ex frame by (simp add: process_exists_def)
      have r: "r = ret_out NO_ERROR (length (BLACKBOARD_VECTOR a)) ?a'"
        using run good Returned x True names frame ex1 hm k
        by (simp add: REGISTER_PROCESS_WITH_HEALTH_MANAGER_def vec_at_def h_def [symmetric] Let_def)
      have reg: "registered ?h = registered h @ [?x]"
        using k take_update_snoc [of k "PROC_HM_ASSOCIATION h" ?x]
        by (simp add: registered_def nat_add_distrib)
      have mono: "hm_ok ?a' g" if "hm_ok a g" for g
        using that names frame by (auto simp: hm_ok_def process_exists_def)
      have "hm_ok ?a' ?h"
        using mono [OF ok] k fits reg ok ex1 names
        by (auto simp: hm_ok_def process_exists_def)
      then have "hm_inv ?a'" using inv frame mono
        by (auto simp: hm_inv_def upd_descriptor_def dest!: set_update_subset_insert [THEN subsetD])
      then show ?thesis using r by simp
    qed
  qed
qed (use assms in \<open>auto simp: REGISTER_PROCESS_WITH_HEALTH_MANAGER_def CREATE_BLACKBOARD_def CREATE_EVENT_def split: if_splits\<close>)


section \<open>From the error to the response\<close>

lemma assoc_loop_find:
  "k \<le> length xs \<Longrightarrow> assoc_loop xs (int k - 1) f i =
     Returned (map_option HMA_BLACKBOARD_ID (List.find (\<lambda>x. HMA_PROCESS_ID x = f) (drop i (take k xs))))"
proof (induction "k - i" arbitrary: i)
  case 0
  then show ?case by (subst assoc_loop.simps) simp
next
  case (Suc n)
  then have i: "i < k" "i < length xs" by simp_all
  then have "drop i (take k xs) = xs ! i # drop (Suc i) (take k xs)"
    using Cons_nth_drop_Suc [of i "take k xs"] by simp
  moreover have "assoc_loop xs (int k - 1) f (Suc i) =
     Returned (map_option HMA_BLACKBOARD_ID (List.find (\<lambda>x. HMA_PROCESS_ID x = f) (drop (Suc i) (take k xs))))"
    using Suc by (intro Suc.hyps(1)) simp_all
  ultimately show ?case using i by (subst assoc_loop.simps) simp
qed

lemma find_distinct:
  "distinct (map f xs) \<Longrightarrow> x \<in> set xs \<Longrightarrow> List.find (\<lambda>y. f y = f x) xs = Some x"
  by (induction xs) (auto simp: rev_image_eqI)

lemma assoc_loop_registered:
  assumes "hm_ok a h" "x \<in> set (registered h)"
  shows "assoc_loop (PROC_HM_ASSOCIATION h) (CURRENTLY_REGISTERED_PROCS h) (HMA_PROCESS_ID x) 0 =
    Returned (Some (HMA_BLACKBOARD_ID x))"
proof -
  define k where "k = nat (CURRENTLY_REGISTERED_PROCS h + 1)"
  have k: "CURRENTLY_REGISTERED_PROCS h = int k - 1" using assms(1) by (simp add: hm_ok_def k_def)
  then have le: "k \<le> length (PROC_HM_ASSOCIATION h)"
    using assms(1) unfolding hm_ok_def by linarith
  have "List.find (\<lambda>y. HMA_PROCESS_ID y = HMA_PROCESS_ID x) (registered h) = Some x"
    using assms by (intro find_distinct) (simp_all add: hm_ok_def)
  then show ?thesis using assoc_loop_find [OF le, of "HMA_PROCESS_ID x" 0]
    by (simp add: k registered_def)
qed

text \<open>A process \<open>pid\<close> served by the health manager \<open>hm\<close>, whose buffer is \<open>bid\<close>; its responses go
  to the board \<open>rid\<close>.\<close>

definition served :: "layout \<Rightarrow> nat \<Rightarrow> nat \<Rightarrow> nat \<Rightarrow> nat \<Rightarrow> APEX \<Rightarrow> bool" where
  "served L pid hm bid rid a \<longleftrightarrow>
     process_exists pid a \<and> HM_DESCRIPTOR_ID (PROCESS_DESCRIPTOR_VECTOR a ! pid) = int hm \<and>
     HM_RESPONSE_BOARD_ID (PROCESS_DESCRIPTOR_VECTOR a ! pid) = rid \<and>
     hm < length (HM_VECTOR a) \<and> hm_ok a (HM_VECTOR a ! hm) \<and> HM_BUFFER_ID (HM_VECTOR a ! hm) = bid \<and>
     \<lparr>HMA_PROCESS_ID = pid, HMA_BLACKBOARD_ID = rid\<rparr> \<in> set (registered (HM_VECTOR a ! hm)) \<and>
     bid < length (BUFFER_VECTOR a) \<and> BUFFER_MAX_MESSAGE_SIZE (BUFFER_VECTOR a ! bid) = sizeof_ERROR_STATUS L \<and>
     rid < length (BLACKBOARD_VECTOR a) \<and> BB_MAX_MESSAGE_SIZE (board rid a) = sizeof_HM_RESPONSE L"

text \<open>The layout the compiler chose: the bytes have the size of the type, and reading them back
  gives the structure.\<close>

definition layout_laws :: "layout \<Rightarrow> bool" where
  "layout_laws L \<longleftrightarrow>
     (\<forall>x. int (length (ERROR_STATUS_bytes L x)) = sizeof_ERROR_STATUS L) \<and>
     (\<forall>x. int (length (HM_RESPONSE_bytes L x)) = sizeof_HM_RESPONSE L) \<and>
     (\<forall>x. int (length (PROCESS_RESPONSE_bytes L x)) = sizeof_PROCESS_RESPONSE L) \<and>
     0 < sizeof_ERROR_STATUS L \<and> 0 < sizeof_HM_RESPONSE L \<and> 0 < sizeof_PROCESS_RESPONSE L"

lemma raise_error_served:
  assumes "served L pid hm bid rid a" "layout_laws L" "buffers_inv a"
    "CURRENT_MESSAGE_SIZE (BUFFER_VECTOR a ! bid) < BUFFER_MAX_NB_MESSAGE (BUFFER_VECTOR a ! bid)"
    "0 \<le> len" "len \<le> int (length m)" "len \<le> int (length (ES_MESSAGE fresh))"
  obtains b' where
    "raise_error L now pid CODE m len fresh ws a =
       (ret NO_ERROR (a\<lparr>BUFFER_VECTOR := (BUFFER_VECTOR a)[bid := b']\<rparr>) :: ('o reply \<times> APEX) outcome)"
    "ring_inv b'" "buffer_sems 0 0 b'"
    "buffer_contents b' = buffer_contents (BUFFER_VECTOR a ! bid) @
       [ERROR_STATUS_bytes L \<lparr>ES_ERROR_CODE = CODE, ES_LENGTH = len, FAILED_PROCESS_ID = pid,
                              ES_MESSAGE = take (nat len) m @ drop (nat len) (ES_MESSAGE fresh)\<rparr>]"
    "BUFFER_MAX_MESSAGE_SIZE b' = BUFFER_MAX_MESSAGE_SIZE (BUFFER_VECTOR a ! bid)"
proof -
  let ?b = "BUFFER_VECTOR a ! bid"
  let ?es = "\<lparr>ES_ERROR_CODE = CODE, ES_LENGTH = len, FAILED_PROCESS_ID = pid,
              ES_MESSAGE = take (nat len) m @ drop (nat len) (ES_MESSAGE fresh)\<rparr>"
  have bid: "bid < length (BUFFER_VECTOR a)" "BUFFER_MAX_MESSAGE_SIZE ?b = sizeof_ERROR_STATUS L"
    using assms(1) by (simp_all add: served_def)
  have len: "int (length (ERROR_STATUS_bytes L ?es)) = sizeof_ERROR_STATUS L"
    using assms(2) by (simp add: layout_laws_def)
  have tk: "take (nat (sizeof_ERROR_STATUS L)) (ERROR_STATUS_bytes L ?es) = ERROR_STATUS_bytes L ?es"
    using len by simp
  have ring: "ring_inv ?b" "buffer_sems 0 0 ?b" using buffers_inv_nth [OF assms(3) bid(1)] by simp_all
  obtain b' where send: "SEND_MESSAGE now (ERROR_STATUS_bytes L ?es) (sizeof_ERROR_STATUS L) INFINITE_TIME_VALUE ws ?b
      = Returned (NO_ERROR, b')" and b': "ring_inv b'" "buffer_sems 0 0 b'"
    "buffer_contents b' = buffer_contents ?b @ [ERROR_STATUS_bytes L ?es]"
    "BUFFER_MAX_MESSAGE_SIZE b' = BUFFER_MAX_MESSAGE_SIZE ?b"
    by (rule SEND_MESSAGE_room [OF ring assms(4), of "sizeof_ERROR_STATUS L" "ERROR_STATUS_bytes L ?es" INFINITE_TIME_VALUE])
      (use bid len assms(2) tk MAX_TIME_OUT_pos in \<open>simp_all add: layout_laws_def INFINITE_TIME_VALUE_def\<close>)
  have "\<not> INFINITE_TIME_VALUE > MAX_TIME_OUT" using MAX_TIME_OUT_pos by (simp add: INFINITE_TIME_VALUE_def)
  then have "raise_error L now pid CODE m len fresh ws a =
       (ret NO_ERROR (a\<lparr>BUFFER_VECTOR := (BUFFER_VECTOR a)[bid := b']\<rparr>) :: ('o reply \<times> APEX) outcome)"
    using assms(1,5-7) send bid unsigned_int_id [OF assms(3) bid(1)]
    by (simp add: raise_error_def served_def c_memcpy_def vec_at_def SEND_BUFFER_def)
  then show thesis using b' by (rule that)
qed

text \<open>The health manager that finds one error in its buffer gets it with the board of the process.\<close>

lemma served_buffer:
  assumes "served L pid hm bid rid a" "BUFFER_MAX_MESSAGE_SIZE b' = BUFFER_MAX_MESSAGE_SIZE (BUFFER_VECTOR a ! bid)"
  shows "served L pid hm bid rid (a\<lparr>BUFFER_VECTOR := (BUFFER_VECTOR a)[bid := b']\<rparr>)"
  using assms by (simp add: served_def hm_ok_def process_exists_def)

lemma HM_GET_MY_DESCRIPTOR_ID_buffer [simp]:
  "HM_GET_MY_DESCRIPTOR_ID self (a\<lparr>BUFFER_VECTOR := v\<rparr>) = HM_GET_MY_DESCRIPTOR_ID self a"
proof -
  have "GET_MY_ID self (a\<lparr>BUFFER_VECTOR := v\<rparr>) = GET_MY_ID self a"
    by (simp add: GET_MY_ID_def the_process_def split: option.split)
  then show ?thesis by (cases rule: GET_MY_ID_cases [of self a]) (simp_all add: HM_GET_MY_DESCRIPTOR_ID_def)
qed

lemma HM_GET_served:
  assumes "served L pid hm bid rid a" "buffers_inv a"
    "buffer_contents (BUFFER_VECTOR a ! bid) = ERROR_STATUS_bytes L es # rest"
    "ERROR_STATUS_of L (ERROR_STATUS_bytes L es) = es" "FAILED_PROCESS_ID es = pid"
    "HM_GET_MY_DESCRIPTOR_ID self a = (NO_ERROR, Some hm)"
  obtains b' where
    "HM_GET_PROCESS_ERROR_MESSAGE L self now ws a =
       ret_out NO_ERROR (es, Some rid) (a\<lparr>BUFFER_VECTOR := (BUFFER_VECTOR a)[bid := b']\<rparr>)"
    "buffer_contents b' = rest" "BUFFER_MAX_MESSAGE_SIZE b' = BUFFER_MAX_MESSAGE_SIZE (BUFFER_VECTOR a ! bid)"
proof -
  let ?b = "BUFFER_VECTOR a ! bid" and ?h = "HM_VECTOR a ! hm"
  have bid: "bid < length (BUFFER_VECTOR a)" "HM_BUFFER_ID ?h = bid" using assms(1) by (simp_all add: served_def)
  have ring: "ring_inv ?b" "buffer_sems 0 0 ?b" using buffers_inv_nth [OF assms(2) bid(1)] by simp_all
  have inf: "INFINITE_TIME_VALUE \<le> MAX_TIME_OUT" using MAX_TIME_OUT_pos by (simp add: INFINITE_TIME_VALUE_def)
  obtain b' where rec: "RECEIVE_MESSAGE now INFINITE_TIME_VALUE ws ?b = Returned (NO_ERROR, Some (ERROR_STATUS_bytes L es), b')"
    and b': "buffer_contents b' = rest" "BUFFER_MAX_MESSAGE_SIZE b' = BUFFER_MAX_MESSAGE_SIZE ?b"
    by (rule RECEIVE_MESSAGE_some [OF ring assms(3) inf, of now ws])
  let ?a' = "a\<lparr>BUFFER_VECTOR := (BUFFER_VECTOR a)[bid := b']\<rparr>"
  have "RECEIVE_BUFFER now (HM_BUFFER_ID ?h) INFINITE_TIME_VALUE ws a = ret_out NO_ERROR (ERROR_STATUS_bytes L es) ?a'"
    using rec bid inf unsigned_int_id [OF assms(2) bid(1)] by (simp add: RECEIVE_BUFFER_def)
  moreover have "assoc_loop (PROC_HM_ASSOCIATION ?h) (CURRENTLY_REGISTERED_PROCS ?h) pid 0 = Returned (Some rid)"
    using assoc_loop_registered [of a ?h "\<lparr>HMA_PROCESS_ID = pid, HMA_BLACKBOARD_ID = rid\<rparr>"] assms(1)
    by (simp add: served_def)
  ultimately have "HM_GET_PROCESS_ERROR_MESSAGE L self now ws a = ret_out NO_ERROR (es, Some rid) ?a'"
    using assms by (simp add: HM_GET_PROCESS_ERROR_MESSAGE_def served_def process_exists_def)
  then show thesis using b' by (rule that)
qed

text \<open>The response it sends is the one the process reads.\<close>

lemma HM_NOTIFY_served:
  assumes "served L pid hm bid rid a" "layout_laws L" "boards_inv a" "TIME_OUT \<le> MAX_TIME_OUT"
    "HM_GET_MY_DESCRIPTOR_ID self a = (NO_ERROR, Some hm)"
  shows "\<exists>a'. HM_NOTIFY_PROCESS L self pid resp a = (ret NO_ERROR a' :: ('o reply \<times> APEX) outcome) \<and>
    READ_BLACKBOARD now rid TIME_OUT ws a' = ret_out NO_ERROR (HM_RESPONSE_bytes L resp) a'"
proof -
  let ?m = "HM_RESPONSE_bytes L resp" let ?a' = "displayed rid ?m a"
  have rid: "rid < length (BLACKBOARD_VECTOR a)" "BB_MAX_MESSAGE_SIZE (board rid a) = sizeof_HM_RESPONSE L"
    using assms(1) by (simp_all add: served_def)
  have len: "int (length ?m) = sizeof_HM_RESPONSE L" "0 < sizeof_HM_RESPONSE L"
    using assms(2) by (simp_all add: layout_laws_def)
  have tk: "take (nat (sizeof_HM_RESPONSE L)) ?m = ?m" using len by simp
  have "DISPLAY_BLACKBOARD rid ?m (sizeof_HM_RESPONSE L) a = (ret NO_ERROR ?a' :: ('o reply \<times> APEX) outcome)"
    using DISPLAY_BLACKBOARD_ok [OF assms(3) rid(1), of "sizeof_HM_RESPONSE L" ?m] len rid tk by simp
  then have "HM_NOTIFY_PROCESS L self pid resp a = (ret NO_ERROR ?a' :: ('o reply \<times> APEX) outcome)"
    using assms(1,5) by (simp add: HM_NOTIFY_PROCESS_def served_def)
  moreover have "READ_BLACKBOARD now rid TIME_OUT ws ?a' = ret_out NO_ERROR ?m ?a'"
    using READ_BLACKBOARD_occupied [OF boards_inv_displayed [OF assms(3) rid(1)], of ?m rid TIME_OUT now ws] rid len assms(4)
    by simp
  ultimately show ?thesis by blast
qed

end
