(* ===== verification/ProcessRun.thy ===== *)
theory ProcessRun
  imports HealthManager
begin

text \<open>
  The body of a process thread: one turn of the endless loop of \<open>PROCESS::run\<close>
  (src/PROCESS.cc), built without USE\_MICO, USE\_CIAO and OPTIMAL.  The user code is a
  function of the partition that either returns or throws ACM\_BASE\_EXCEPTION\_TYPE with a message.
\<close>

definition ERROR_RESPONSE_TYPE_MESSAGE_SIZE :: nat where "ERROR_RESPONSE_TYPE_MESSAGE_SIZE = 200"

datatype user_end = Finished | Threw "byte list"

text \<open>\<open>strncpy(array, message, ERROR_RESPONSE_TYPE_MESSAGE_SIZE)\<close> of a message without
  null characters pads with null characters.\<close>

definition strncpy_message :: "byte list \<Rightarrow> byte list" where
  "strncpy_message m =
     take ERROR_RESPONSE_TYPE_MESSAGE_SIZE (m @ replicate (ERROR_RESPONSE_TYPE_MESSAGE_SIZE - length m) 0)"

fun exception_response :: "user_end \<Rightarrow> PROCESS \<Rightarrow> PROCESS" where
  "exception_response Finished p = p"
| "exception_response (Threw m) p =
     p\<lparr>PROCESS_RESPONSE := (PROCESS_RESPONSE p)
        \<lparr>RESPONSE_NO_ERROR := False,
         ERROR_RESPONSE := (ERROR_RESPONSE (PROCESS_RESPONSE p))
           \<lparr>HM_MESSAGE_DISCRIMINATOR := STRING_MESSAGE, HM_MESSAGE := strncpy_message m,
            HM_MESSAGE_LENGTH := ERROR_RESPONSE_TYPE_MESSAGE_SIZE\<rparr>\<rparr>\<rparr>"

text \<open>After the user code: the next state of the process.\<close>

definition after_user :: "nat \<Rightarrow> APEX \<Rightarrow> APEX" where
  "after_user pid a =
     (if isPeriodic (the_process pid a) then set_state pid WAITING_ON_PERIOD a
      else set_state pid DORMANT (APEX_HELPER_SET_EVENT (PROCESS_NAME (attribute (the_process pid a))) a))"

text \<open>A response of the health manager that is younger than the start of the run replaces
  the error part of the response.  \<open>junk\<close> is the indicator the local status variable holds
  when GET\_BLACKBOARD\_STATUS does not store one.\<close>

definition take_hm_response ::
  "layout \<Rightarrow> SYSTEM_TIMESPEC \<Rightarrow> SYSTEM_TIME_TYPE \<Rightarrow> EMPTY_INDICATOR_TYPE \<Rightarrow> nat \<Rightarrow> APEX \<Rightarrow> APEX outcome" where
  "take_hm_response L now TIME_OF_START junk pid a =
     bind_outcome (GET_PROCESS_HM_BOARD_ID pid a) (\<lambda>((rc, board_id), a1). case (rc, board_id) of
       (NO_ERROR, Some bid) \<Rightarrow>
         bind_outcome (GET_BLACKBOARD_STATUS bid 0 a1) (\<lambda>((rc2, st), a2).
           if (case st of None \<Rightarrow> junk | Some s \<Rightarrow> EMPTY_INDICATOR s) \<noteq> EMPTY
           then bind_outcome (READ_BLACKBOARD now bid 0 [] a2) (\<lambda>((rc3, m), a3). case (rc3, m) of
                  (NO_ERROR, Some bytes) \<Rightarrow>
                    if bytes \<noteq> [] \<and> TIME_OF_START < HM_TIMEOFMESSAGE (HM_RESPONSE_of L bytes)
                    then Returned (upd_process pid (\<lambda>p. p\<lparr>PROCESS_RESPONSE := (PROCESS_RESPONSE p)
                           \<lparr>ERROR_RESPONSE := HM_RESPONSE_of L bytes, RESPONSE_NO_ERROR := False,
                            RESPONDING_ENTITY := BY_HM\<rparr>\<rparr>) a3)
                    else Returned a3
                | _ \<Rightarrow> Returned a3)
           else Returned a2)
     | _ \<Rightarrow> Returned a1)"

definition notify_finished :: "layout \<Rightarrow> SYSTEM_TIME_TYPE \<Rightarrow> nat \<Rightarrow> APEX \<Rightarrow> APEX outcome" where
  "notify_finished L now_ns pid a =
     bind_outcome (NOTIFY_PROCESS_FINISHED_STATUS L now_ns (process_id (the_process pid a))
                     (PROCESS_RESPONSE (the_process pid a)) a)
       (\<lambda>((rc, out), a1). Returned (case out of
          None \<Rightarrow> a1 | Some resp \<Rightarrow> upd_process pid (\<lambda>p. p\<lparr>PROCESS_RESPONSE := resp\<rparr>) a1))"

text \<open>What is after the call of the user code, and the whole turn.  \<open>TIME_OF_START\<close> and \<open>now_ns\<close>
  are the clock readings before and after the user code.\<close>

definition finish_run ::
  "layout \<Rightarrow> SYSTEM_TIMESPEC \<Rightarrow> SYSTEM_TIME_TYPE \<Rightarrow> SYSTEM_TIME_TYPE \<Rightarrow> EMPTY_INDICATOR_TYPE \<Rightarrow> nat \<Rightarrow>
   user_end \<Rightarrow> APEX \<Rightarrow> APEX outcome" where
  "finish_run L now TIME_OF_START now_ns junk pid result a =
     (let a1 = after_user pid (upd_process pid (exception_response result) a) in
      if flagToTerminate a1 then Returned a1
      else bind_outcome (take_hm_response L now TIME_OF_START junk pid a1) (\<lambda>a2. notify_finished L now_ns pid a2))"

definition run_turn ::
  "layout \<Rightarrow> (APEX \<Rightarrow> user_end \<times> APEX) \<Rightarrow> SYSTEM_TIMESPEC \<Rightarrow> SYSTEM_TIME_TYPE \<Rightarrow> SYSTEM_TIME_TYPE \<Rightarrow>
   EMPTY_INDICATOR_TYPE \<Rightarrow> APEX wakeup list \<Rightarrow> sleep list \<Rightarrow> nat \<Rightarrow> APEX \<Rightarrow> APEX outcome" where
  "run_turn L user now TIME_OF_START now_ns junk ws xs pid a =
     bind_outcome (SEMAPHORE_wait_forever (proc_sem pid) (upd_proc_sem pid) ws a) (\<lambda>(rc, a1).
       if state (the_process pid a1) \<noteq> RUNNING then Returned a1
       else bind_outcome
         (if delayed_start_flag (the_process pid a1)
          then nanosleep_loop (absolute_delay_start_time (the_process pid a1)) xs else Returned ())
         (\<lambda>_. let (result, a2) = user (upd_process pid (\<lambda>p. p\<lparr>delayed_start_flag := False\<rparr>) a1)
              in finish_run L now TIME_OF_START now_ns junk pid result a2))"

section \<open>Behaviour\<close>

lemma APEX_HELPER_SET_EVENT_frame [simp]:
  "PROCESS_DESCRIPTOR_VECTOR (APEX_HELPER_SET_EVENT name a) = PROCESS_DESCRIPTOR_VECTOR a"
  "BLACKBOARD_VECTOR (APEX_HELPER_SET_EVENT name a) = BLACKBOARD_VECTOR a"
  "flagToTerminate (APEX_HELPER_SET_EVENT name a) = flagToTerminate a"
  "length (EVENT_VECTOR (APEX_HELPER_SET_EVENT name a)) = length (EVENT_VECTOR a)"
  "the_process pid (APEX_HELPER_SET_EVENT name a) = the_process pid a"
  "process_exists pid (APEX_HELPER_SET_EVENT name a) = process_exists pid a"
  "boards_inv (APEX_HELPER_SET_EVENT name a) = boards_inv a"
  by (simp_all add: APEX_HELPER_SET_EVENT_def the_process_def process_exists_def split: option.split)

lemma after_user_process:
  assumes "process_exists pid a"
  shows "the_process pid (after_user pid a) =
      (the_process pid a)\<lparr>state := (if isPeriodic (the_process pid a) then WAITING_ON_PERIOD else DORMANT)\<rparr>"
    "process_exists pid (after_user pid a)" "boards_inv (after_user pid a) = boards_inv a"
    "BLACKBOARD_VECTOR (after_user pid a) = BLACKBOARD_VECTOR a"
    "PROCESS_NOTIFICATION_RESPONSE_BOARD_ID (PROCESS_DESCRIPTOR_VECTOR (after_user pid a) ! pid) =
       PROCESS_NOTIFICATION_RESPONSE_BOARD_ID (PROCESS_DESCRIPTOR_VECTOR a ! pid)"
    "HM_DESCRIPTOR_ID (PROCESS_DESCRIPTOR_VECTOR (after_user pid a) ! pid) =
       HM_DESCRIPTOR_ID (PROCESS_DESCRIPTOR_VECTOR a ! pid)"
    "flagToTerminate (after_user pid a) = flagToTerminate a"
proof -
  note frame = APEX_HELPER_SET_EVENT_frame
  show "the_process pid (after_user pid a) =
      (the_process pid a)\<lparr>state := (if isPeriodic (the_process pid a) then WAITING_ON_PERIOD else DORMANT)\<rparr>"
    "process_exists pid (after_user pid a)" "boards_inv (after_user pid a) = boards_inv a"
    "BLACKBOARD_VECTOR (after_user pid a) = BLACKBOARD_VECTOR a"
    using assms by (simp_all add: after_user_def set_state_def)
  show "PROCESS_NOTIFICATION_RESPONSE_BOARD_ID (PROCESS_DESCRIPTOR_VECTOR (after_user pid a) ! pid) =
       PROCESS_NOTIFICATION_RESPONSE_BOARD_ID (PROCESS_DESCRIPTOR_VECTOR a ! pid)"
    "HM_DESCRIPTOR_ID (PROCESS_DESCRIPTOR_VECTOR (after_user pid a) ! pid) =
       HM_DESCRIPTOR_ID (PROCESS_DESCRIPTOR_VECTOR a ! pid)"
    "flagToTerminate (after_user pid a) = flagToTerminate a"
    using assms by (simp_all add: after_user_def set_state_def upd_process_def upd_descriptor_def process_exists_def)
qed

lemma take_hm_response_none:
  assumes "process_exists pid a" "HM_DESCRIPTOR_ID (PROCESS_DESCRIPTOR_VECTOR a ! pid) = -1"
  shows "take_hm_response L now t junk pid a = Returned a"
  using assms by (simp add: take_hm_response_def GET_PROCESS_HM_BOARD_ID_def process_exists_def)

lemma exception_response_frame [simp]:
  "process_id (exception_response r p) = process_id p" "attribute (exception_response r p) = attribute p"
  "state (exception_response r p) = state p"
  by (cases r; simp)+

lemma GET_displayed:
  assumes "boards_inv a" "process_exists pid a"
    "PROCESS_NOTIFICATION_RESPONSE_BOARD_ID (PROCESS_DESCRIPTOR_VECTOR a ! pid) = bid" "bid < length (BLACKBOARD_VECTOR a)"
    "BB_CURRENT_MESSAGE_SIZE (board bid a) = int (length m)" "m \<noteq> []"
    "take (length m) (BB_PAYLOAD (board bid a)) = m"
    "CAPACITY \<le> sizeof_PROCESS_RESPONSE L" "TIME_OUT \<le> MAX_TIME_OUT"
  shows "GET_PROCESS_FINISHED_STATUS L now pid TIME_OUT CAPACITY ws a = ret_out NO_ERROR m a"
  using READ_BLACKBOARD_occupied [OF assms(1,4,9), of now ws] assms
  by (simp add: GET_PROCESS_FINISHED_STATUS_def process_exists_def)

text \<open>A finished run without health manager: the process waits for its next release, and its
  notification board shows its response, stamped.\<close>

lemma finish_run_ok:
  assumes "process_exists pid a" "process_id (the_process pid a) = pid"
    "HM_DESCRIPTOR_ID (PROCESS_DESCRIPTOR_VECTOR a ! pid) = -1" "\<not> flagToTerminate a" "layout_laws L" "boards_inv a"
    "PROCESS_NOTIFICATION_RESPONSE_BOARD_ID (PROCESS_DESCRIPTOR_VECTOR a ! pid) = bid" "bid < length (BLACKBOARD_VECTOR a)"
    "BB_MAX_MESSAGE_SIZE (board bid a) = sizeof_PROCESS_RESPONSE L"
    "TIME_OUT \<le> MAX_TIME_OUT" "CAPACITY \<le> sizeof_PROCESS_RESPONSE L"
  shows "\<exists>a'. finish_run L now t0 t1 junk pid result a = Returned a' \<and>
    state (the_process pid a') = (if isPeriodic (the_process pid a) then WAITING_ON_PERIOD else DORMANT) \<and>
    GET_PROCESS_FINISHED_STATUS L now pid TIME_OUT CAPACITY ws a' = ret_out NO_ERROR
      (PROCESS_RESPONSE_bytes L
        ((PROCESS_RESPONSE (exception_response result (the_process pid a)))\<lparr>TIMEOFMESSAGE := t1\<rparr>)) a'"
proof -
  let ?a0 = "upd_process pid (exception_response result) a"
  let ?a1 = "after_user pid ?a0" let ?resp = "PROCESS_RESPONSE (exception_response result (the_process pid a))"
  have ex: "process_exists pid ?a0" using assms(1) by simp
  note after = after_user_process [OF ex]
  have p0: "the_process pid ?a0 = exception_response result (the_process pid a)" using assms(1) by simp
  have hm: "take_hm_response L now t0 junk pid ?a1 = Returned ?a1"
    by (rule take_hm_response_none) (use assms(1,3) after in simp_all)
  let ?m = "PROCESS_RESPONSE_bytes L (?resp\<lparr>TIMEOFMESSAGE := t1\<rparr>)" let ?d = "displayed bid ?m ?a1"
  have len: "int (length ?m) = sizeof_PROCESS_RESPONSE L" "0 < sizeof_PROCESS_RESPONSE L"
    using assms(5) by (simp_all add: layout_laws_def)
  have tk: "take (nat (sizeof_PROCESS_RESPONSE L)) ?m = ?m" using len by simp
  have b1: "boards_inv ?a1" "bid < length (BLACKBOARD_VECTOR ?a1)" "board bid ?a1 = board bid a"
    using after assms(6,8) by simp_all
  have d: "DISPLAY_BLACKBOARD bid ?m (sizeof_PROCESS_RESPONSE L) ?a1 = (ret NO_ERROR ?d :: (unit reply \<times> APEX) outcome)"
    using DISPLAY_BLACKBOARD_ok [OF b1(1,2), of "sizeof_PROCESS_RESPONSE L" ?m] len tk b1(3) assms(9) by simp
  let ?f = "\<lambda>p. p\<lparr>PROCESS_RESPONSE := ?resp\<lparr>TIMEOFMESSAGE := t1\<rparr>\<rparr>" let ?a' = "upd_process pid ?f ?d"
  have d_proc: "process_exists pid ?d" "the_process pid ?d = the_process pid ?a1"
    using after(2) by (simp_all add: process_exists_def the_process_def)
  have "NOTIFY_PROCESS_FINISHED_STATUS L t1 pid ?resp ?a1 = ret_out NO_ERROR (?resp\<lparr>TIMEOFMESSAGE := t1\<rparr>) ?d"
    using d after(2,5) assms(1,7) by (simp add: NOTIFY_PROCESS_FINISHED_STATUS_def process_exists_def Let_def)
  then have run: "finish_run L now t0 t1 junk pid result a = Returned ?a'"
    using hm assms(2,4) after p0 by (simp add: finish_run_def notify_finished_def Let_def upd_process_def upd_descriptor_def)
  have bd: "boards_inv ?a'" using boards_inv_displayed [OF b1(1,2)] len b1(3) assms(9) by simp
  have "GET_PROCESS_FINISHED_STATUS L now pid TIME_OUT CAPACITY ws ?a' = ret_out NO_ERROR ?m ?a'"
  proof (rule GET_displayed [OF bd])
    show "process_exists pid ?a'" using d_proc(1) by simp
    show "PROCESS_NOTIFICATION_RESPONSE_BOARD_ID (PROCESS_DESCRIPTOR_VECTOR ?a' ! pid) = bid"
      using d_proc(1) after(5) assms(1,7) by simp
    show "bid < length (BLACKBOARD_VECTOR ?a')" "take (length ?m) (BB_PAYLOAD (board bid ?a')) = ?m"
      "BB_CURRENT_MESSAGE_SIZE (board bid ?a') = int (length ?m)"
      using displayed_board [OF b1(2), of ?m] b1(2) by simp_all
    show "?m \<noteq> []" using len by auto
  qed (use assms(10,11) in simp_all)
  moreover have "state (the_process pid ?a') = (if isPeriodic (the_process pid a) then WAITING_ON_PERIOD else DORMANT)"
    using d_proc after(1) p0 by (simp add: isPeriodic_def)
  ultimately show ?thesis using run by blast
qed

end
