(* ===== verification/StdSort.thy ===== *)
theory StdSort
  imports Prelude "HOL-Library.Multiset"
begin

text \<open>
  The algorithm behind std::sort in sortProcessDescriptorVector
  (include/ACM/INTERNAL/APEX.h).  The comparison the code passes answers True for equal
  elements, so it is no strict weak ordering and the standard promises nothing; what happens
  is what the algorithm does.  libstdc++ sorts up to 16 elements by insertion.  The
  contract the scheduler needs is a locale, which the insertion sort satisfies.
\<close>

section \<open>Insertion sort\<close>

text \<open>std::sort of libstdc++ is an insertion sort up to 16 elements: a new element goes to the
  front when it compares with the first element, and otherwise down the sorted part
  while it compares.\<close>

fun unguarded_linear_insert :: "('a \<Rightarrow> 'a \<Rightarrow> bool) \<Rightarrow> 'a \<Rightarrow> 'a list \<Rightarrow> 'a list" where
  "unguarded_linear_insert cmp val [] = [val]"
| "unguarded_linear_insert cmp val (next # before) =
     (if cmp val next then next # unguarded_linear_insert cmp val before else val # next # before)"

definition insertion_step :: "('a \<Rightarrow> 'a \<Rightarrow> bool) \<Rightarrow> 'a list \<Rightarrow> 'a \<Rightarrow> 'a list" where
  "insertion_step cmp sorted_part val =
     (if sorted_part \<noteq> [] \<and> cmp val (hd sorted_part) then val # sorted_part
      else rev (unguarded_linear_insert cmp val (rev sorted_part)))"

definition insertion_sort :: "('a \<Rightarrow> 'a \<Rightarrow> bool) \<Rightarrow> 'a list \<Rightarrow> 'a list" where
  "insertion_sort cmp xs = foldl (insertion_step cmp) [] xs"

text \<open>The type of a sorting algorithm for a vector of process identifiers.\<close>

type_synonym sorter = "(nat \<Rightarrow> nat \<Rightarrow> bool) \<Rightarrow> nat list \<Rightarrow> nat list"

section \<open>The contract\<close>

text \<open>\<open>order_of le cmp\<close>: the comparison agrees with a total preorder, whatever it answers on
  equal elements.\<close>

definition order_of :: "('a \<Rightarrow> 'a \<Rightarrow> bool) \<Rightarrow> ('a \<Rightarrow> 'a \<Rightarrow> bool) \<Rightarrow> bool" where
  "order_of le cmp \<longleftrightarrow>
     (\<forall>x y z. le x y \<longrightarrow> le y z \<longrightarrow> le x z) \<and> (\<forall>x y. cmp x y \<longrightarrow> le x y) \<and> (\<forall>x y. \<not> cmp x y \<longrightarrow> le y x)"

locale sort_contract =
  fixes srt :: sorter
  assumes sort_perm: "mset (srt cmp xs) = mset xs"
    and sort_sorted: "order_of le cmp \<Longrightarrow> sorted_wrt le (srt cmp xs)"
begin

lemma sort_set [simp]: "set (srt cmp xs) = set xs"
  using sort_perm [of cmp xs] mset_eq_setD by blast

lemma sort_length [simp]: "length (srt cmp xs) = length xs"
  using sort_perm [of cmp xs] mset_eq_length by blast

text \<open>The head is a least element.\<close>

lemma sort_head:
  assumes "order_of le cmp" "x \<in> set xs"
  shows "le (hd (srt cmp xs)) x"
proof -
  have refl: "le x x" for x using assms(1) unfolding order_of_def by blast
  have "srt cmp xs \<noteq> []" using assms(2) sort_set [of cmp xs] by (metis empty_iff empty_set)
  then obtain y ys where ys: "srt cmp xs = y # ys" by (cases "srt cmp xs") auto
  have "sorted_wrt le (y # ys)" using sort_sorted [OF assms(1), of xs] ys by simp
  moreover have "x \<in> set (y # ys)" using assms(2) sort_set [of cmp xs] ys by simp
  ultimately show ?thesis using refl ys by auto
qed

end

section \<open>The insertion sort satisfies it\<close>

lemma mset_linear_insert: "mset (unguarded_linear_insert cmp x xs) = add_mset x (mset xs)"
  by (induction cmp x xs rule: unguarded_linear_insert.induct) auto

lemma mset_insertion_step: "mset (insertion_step cmp xs x) = add_mset x (mset xs)"
  by (simp add: insertion_step_def mset_linear_insert)

lemma mset_insertion_sort: "mset (insertion_sort cmp xs) = mset xs"
proof -
  have "mset (foldl (insertion_step cmp) ys xs) = mset ys + mset xs" for ys
    by (induction xs arbitrary: ys) (simp_all add: mset_insertion_step)
  from this [of "[]"] show ?thesis by (simp add: insertion_sort_def)
qed

lemma set_linear_insert: "set (unguarded_linear_insert cmp x xs) = insert x (set xs)"
  by (induction cmp x xs rule: unguarded_linear_insert.induct) auto

lemma sorted_linear_insert:
  assumes "order_of le cmp"
  shows "sorted_wrt (\<lambda>x y. le y x) xs \<Longrightarrow> sorted_wrt (\<lambda>x y. le y x) (unguarded_linear_insert cmp x xs)"
proof (induction xs)
  case (Cons y ys)
  have le: "cmp x y \<Longrightarrow> le x y" "\<not> cmp x y \<Longrightarrow> le y x" "\<And>z. le z y \<Longrightarrow> le y x \<Longrightarrow> le z x"
    using assms unfolding order_of_def by blast+
  show ?case using Cons le by (auto simp: set_linear_insert)
qed simp

lemma sorted_insertion_step:
  assumes "order_of le cmp" "sorted_wrt le xs"
  shows "sorted_wrt le (insertion_step cmp xs x)"
proof (cases "xs \<noteq> [] \<and> cmp x (hd xs)")
  case True
  then obtain y ys where xs: "xs = y # ys" "cmp x y" by (cases xs) auto
  have "le x y" "\<And>z. le y z \<Longrightarrow> le x z" using assms(1) xs(2) unfolding order_of_def by blast+
  then show ?thesis using True assms(2) xs by (auto simp: insertion_step_def)
next
  case False
  have "sorted_wrt (\<lambda>x y. le y x) (rev xs)" using assms(2) by (simp add: sorted_wrt_rev)
  then have "sorted_wrt (\<lambda>x y. le y x) (unguarded_linear_insert cmp x (rev xs))"
    by (rule sorted_linear_insert [OF assms(1)])
  then show ?thesis using False by (auto simp: insertion_step_def sorted_wrt_rev)
qed

lemma sorted_insertion_sort:
  assumes "order_of le cmp"
  shows "sorted_wrt le (insertion_sort cmp xs)"
proof -
  have "sorted_wrt le ys \<Longrightarrow> sorted_wrt le (foldl (insertion_step cmp) ys xs)" for ys
    by (induction xs arbitrary: ys) (simp_all add: sorted_insertion_step [OF assms])
  then show ?thesis by (simp add: insertion_sort_def)
qed

interpretation std_sort: sort_contract insertion_sort
  by unfold_locales (simp_all add: mset_insertion_sort sorted_insertion_sort)

end
