(* ===== verification/Scheduler.thy ===== *)
theory Scheduler
  imports ProcessRun StdSort
begin

text \<open>
  The partition scheduler: \<open>RunPartitionScheduler\<close> of src/APEX\_SCHEDULING.cc with the
  comparison, the sorting and the wait of include/ACM/INTERNAL/APEX.h.  The clock readings, the
  wake-ups and the threads created by a restart are inputs.  PROCESS\_TABLE\_MUTEX, held by the
  scheduler except while it waits for its event, makes one pass of the loop atomic.  Not
  modelled: DoSchedulabilityAnalysis (it returns at once) and the handshake with the
  module manager under OPTIMAL.
\<close>

section \<open>Sorting the descriptors\<close>

abbreviation descr :: "nat \<Rightarrow> APEX \<Rightarrow> PROCESS_DESCRIPTOR" where
  "descr pid a \<equiv> PROCESS_DESCRIPTOR_VECTOR a ! pid"

definition PROCESS_DESCRIPTOR_COMP :: "APEX \<Rightarrow> nat \<Rightarrow> nat \<Rightarrow> bool" where
  "PROCESS_DESCRIPTOR_COMP a first second =
     (if state (the_process first a) = DORMANT \<and> state (the_process second a) = DORMANT then False
      else if state (the_process second a) = DORMANT then True
      else if state (the_process first a) = DORMANT then False
      else compareTime (ABSOLUTE_CRITICAL_TIME (descr first a)) (ABSOLUTE_CRITICAL_TIME (descr second a)))"

text \<open>The sorting algorithm is a parameter; \<open>insertion_sort\<close> of theory StdSort is its instance.\<close>

definition sortProcessDescriptorVector :: "sorter \<Rightarrow> APEX \<Rightarrow> APEX" where
  "sortProcessDescriptorVector srt a =
     a\<lparr>PROCESS_SCHEDULING_SORTED_VECTOR := srt (PROCESS_DESCRIPTOR_COMP a) (PROCESS_SCHEDULING_SORTED_VECTOR a)\<rparr>"

section \<open>Waiting for the next critical time\<close>

text \<open>The answer tells whether the wait timed out; an event set by a service ends it
  early and is reset.\<close>

definition APEX_SCHEDULER_WAIT_ABSOLUTE_TIME ::
  "SYSTEM_TIMESPEC \<Rightarrow> APEX wakeup list \<Rightarrow> APEX \<Rightarrow> (bool \<times> APEX) outcome" where
  "APEX_SCHEDULER_WAIT_ABSOLUTE_TIME TIME_OUT ws a =
     bind_outcome (EVENT_wait_until APEX_SCHEDULING_EVENT APEX_SCHEDULING_EVENT_update TIME_OUT ws a) (\<lambda>(returncode, a1).
       if returncode = TIMED_OUT then Returned (True, a1)
       else Returned (False, a1\<lparr>APEX_SCHEDULING_EVENT := snd (EVENT_reset (APEX_SCHEDULING_EVENT a1))\<rparr>))"

section \<open>Before the first pass\<close>

definition init_process :: "SYSTEM_TIMESPEC \<Rightarrow> nat \<Rightarrow> APEX \<Rightarrow> APEX outcome" where
  "init_process now pid a =
     (let a1 = upd_descriptor pid (\<lambda>d. d\<lparr>NEXT_SCHEDULING_INSTANCE := RELEASE_PROCESS\<rparr>) a in
      if state (the_process pid a1) = WAITING_PARTITION_NOT_NORMAL then
        bind_outcome
          (if INITIAL_DELAY_TIME (descr pid a1) = 0 then Returned now
           else assert_some (addTimeNano now (INITIAL_DELAY_TIME (descr pid a1))))
          (\<lambda>t. Returned
            (set_state pid (if isPeriodic (the_process pid a1) then WAITING_ON_PERIOD else READY)
              (upd_descriptor pid (\<lambda>d. d\<lparr>ABSOLUTE_NEXT_SCHEDULED_TIME := t, ABSOLUTE_CRITICAL_TIME := t\<rparr>) a1)))
      else Returned a1)"

fun init_processes :: "(nat \<Rightarrow> SYSTEM_TIMESPEC) \<Rightarrow> nat list \<Rightarrow> APEX \<Rightarrow> APEX outcome" where
  "init_processes clock [] a = Returned a"
| "init_processes clock (pid # pids) a = bind_outcome (init_process (clock pid) pid a) (init_processes clock pids)"

definition init_schedule :: "(nat \<Rightarrow> SYSTEM_TIMESPEC) \<Rightarrow> APEX \<Rightarrow> APEX outcome" where
  "init_schedule clock a = init_processes clock [0..<length (PROCESS_DESCRIPTOR_VECTOR a)] a"

section \<open>Releasing a process\<close>

definition release_process :: "SYSTEM_TIMESPEC \<Rightarrow> nat \<Rightarrow> APEX \<Rightarrow> APEX outcome" where
  "release_process current_time pid a =
     (if state (the_process pid a) = WAITING_ON_PERIOD \<or> state (the_process pid a) = READY then
        let attr = attribute (the_process pid a);
            critical = ABSOLUTE_CRITICAL_TIME (descr pid a);
            a1 = upd_descriptor pid (\<lambda>d. d\<lparr>CURRENT_PRIORITY := BASE_PRIORITY attr\<rparr>)
                   (set_priority pid (BASE_PRIORITY attr) a);
            a2 = set_state pid READY (upd_process pid INITIALIZE_PROCESS_RESPONSE a1);
            a3 = upd_descriptor pid (\<lambda>d. d\<lparr>ABSOLUTE_PREV_START_TIME := current_time\<rparr>) (PROCESS_start pid a2)
        in bind_outcome
             (if isPeriodic (the_process pid a)
              then bind_outcome (assert_some (addTimeNano critical (PERIOD attr))) (\<lambda>next.
                Returned (upd_descriptor pid (\<lambda>d. d\<lparr>ABSOLUTE_NEXT_SCHEDULED_TIME := next\<rparr>) a3))
              else Returned a3)
             (\<lambda>a4. bind_outcome (assert_some (computeDeadlineTimeSpecs critical (TIME_CAPACITY attr))) (\<lambda>deadline.
                Returned (upd_descriptor pid
                  (\<lambda>d. d\<lparr>DEADLINE_TIME := deadline, ABSOLUTE_CRITICAL_TIME := deadline,
                        NEXT_SCHEDULING_INSTANCE := CHECK_DEADLINE\<rparr>) a4)))
      else Returned a)"

section \<open>Checking a deadline\<close>

text \<open>The loop that keeps a late process in phase: \<open>while (next <= critical) next += PERIOD\<close>.  \<open>None\<close>:
  it does not end.\<close>

partial_function (option) catch_up :: "SYSTEM_TIMESPEC \<Rightarrow> SYSTEM_TIME_TYPE \<Rightarrow> SYSTEM_TIMESPEC \<Rightarrow> SYSTEM_TIMESPEC outcome option" where
  [code]: "catch_up next period critical =
     (if compareTime next critical
      then (case addTimeNano next period of None \<Rightarrow> Some Aborted | Some n \<Rightarrow> catch_up n period critical)
      else Some (Returned next))"

fun loop_outcome :: "'a outcome option \<Rightarrow> 'a outcome" where
  "loop_outcome None = Blocked"
| "loop_outcome (Some r) = r"

text \<open>The response for a missed hard deadline: the fields the code sets in a local variable.\<close>

definition HARD_DEADLINE_PROCESS_RESPONSE :: "PROCESS_RESPONSE_TYPE \<Rightarrow> PROCESS_RESPONSE_TYPE" where
  "HARD_DEADLINE_PROCESS_RESPONSE fresh =
     fresh\<lparr>RESPONSE_NO_ERROR := False, RESPONDING_ENTITY := BY_PARTITIONSCHEDULER,
           ERROR_RESPONSE := (ERROR_RESPONSE fresh)
             \<lparr>HM_ERROR_CODE := DEADLINE_MISSED, HM_MESSAGE_LENGTH := 0, HM_ACTION := HM_STOP\<rparr>\<rparr>"

text \<open>The inputs of one check: the clock readings, the thread a restart creates, uninitialised
  memory, and what happens while the error is sent to a full buffer.\<close>

record check_env =
  env_clock :: SYSTEM_TIMESPEC
  env_nanos :: SYSTEM_TIME_TYPE
  env_thread :: "new_thread option"
  env_response :: PROCESS_RESPONSE_TYPE
  env_status :: ERROR_STATUS_TYPE
  env_wakeups :: "APEX_BUFFER_TYPE wakeup list"

definition raise_deadline_missed :: "layout \<Rightarrow> check_env \<Rightarrow> nat \<Rightarrow> APEX \<Rightarrow> APEX outcome" where
  "raise_deadline_missed L e pid a =
     bind_outcome (RAISE_APPLICATION_ERROR_FOR L (env_clock e) (process_id (the_process pid a)) DEADLINE_MISSED [] 0
                     (env_status e) (env_wakeups e) a :: (unit reply \<times> APEX) outcome)
       (\<lambda>(r, a1). Returned a1)"

definition hard_violation :: "layout \<Rightarrow> nat \<Rightarrow> check_env \<Rightarrow> nat \<Rightarrow> APEX \<Rightarrow> APEX outcome" where
  "hard_violation L self e pid a =
     bind_outcome (stop_process self (env_clock e) (env_thread e) pid a) (\<lambda>a1.
       let a2 = upd_descriptor pid (\<lambda>d. d\<lparr>NEXT_SCHEDULING_INSTANCE := RELEASE_PROCESS\<rparr>) a1 in
       bind_outcome (NOTIFY_PROCESS_FINISHED_STATUS L (env_nanos e) (process_id (the_process pid a2))
                       (HARD_DEADLINE_PROCESS_RESPONSE (env_response e)) a2)
         (\<lambda>(r, a3). raise_deadline_missed L e pid a3))"

definition soft_violation :: "layout \<Rightarrow> check_env \<Rightarrow> nat \<Rightarrow> APEX \<Rightarrow> APEX outcome" where
  "soft_violation L e pid a =
     bind_outcome (assert_some (addTimeNano (env_clock e) NANO)) (\<lambda>critical.
       let a1 = upd_descriptor pid (\<lambda>d. d\<lparr>ABSOLUTE_CRITICAL_TIME := critical\<rparr>) a in
       bind_outcome
         (if isPeriodic (the_process pid a1)
          then bind_outcome
            (loop_outcome (catch_up (ABSOLUTE_NEXT_SCHEDULED_TIME (descr pid a1)) (PERIOD (attribute (the_process pid a1))) critical))
            (\<lambda>next. Returned (upd_descriptor pid (\<lambda>d. d\<lparr>ABSOLUTE_NEXT_SCHEDULED_TIME := next\<rparr>) a1))
          else Returned a1)
         (\<lambda>a2. raise_deadline_missed L e pid a2))"

definition check_deadline :: "layout \<Rightarrow> nat \<Rightarrow> check_env \<Rightarrow> nat \<Rightarrow> APEX \<Rightarrow> APEX outcome" where
  "check_deadline L self e pid a =
     (let s = state (the_process pid a) in
      if s = DORMANT \<or> s = WAITING_ON_PERIOD then
        let a1 = (if s = WAITING_ON_PERIOD
                  then upd_descriptor pid (\<lambda>d. d\<lparr>ABSOLUTE_CRITICAL_TIME := ABSOLUTE_NEXT_SCHEDULED_TIME d\<rparr>) a else a)
        in Returned (upd_descriptor pid (\<lambda>d. d\<lparr>NEXT_SCHEDULING_INSTANCE := RELEASE_PROCESS\<rparr>) a1)
      else if DEADLINE (attribute (the_process pid a)) = HARD then hard_violation L self e pid a
      else soft_violation L e pid a)"

section \<open>The loop\<close>

definition schedule_one :: "layout \<Rightarrow> nat \<Rightarrow> check_env \<Rightarrow> SYSTEM_TIMESPEC \<Rightarrow> nat \<Rightarrow> APEX \<Rightarrow> APEX outcome" where
  "schedule_one L self e current_time pid a =
     (case NEXT_SCHEDULING_INSTANCE (descr pid a) of
        RELEASE_PROCESS \<Rightarrow> release_process current_time pid a
      | CHECK_DEADLINE \<Rightarrow> check_deadline L self e pid a)"

fun schedule_loop :: "layout \<Rightarrow> nat \<Rightarrow> (nat \<Rightarrow> check_env) \<Rightarrow> SYSTEM_TIMESPEC \<Rightarrow> nat list \<Rightarrow> APEX \<Rightarrow> APEX outcome" where
  "schedule_loop L self env current_time [] a = Returned a"
| "schedule_loop L self env current_time (pid # pids) a =
     (if compareTime (ABSOLUTE_CRITICAL_TIME (descr pid a)) current_time
      then bind_outcome (schedule_one L self (env pid) current_time pid a) (schedule_loop L self env current_time pids)
      else Returned a)"

definition nothing_to_do :: "APEX \<Rightarrow> bool" where
  "nothing_to_do a =
     (case PROCESS_SCHEDULING_SORTED_VECTOR a of
        [] \<Rightarrow> True
      | pid # pids \<Rightarrow>
          state (the_process pid a) = DORMANT \<or>
          (TIME_CAPACITY (attribute (the_process pid a)) = INFINITE_TIME_VALUE \<and>
           NEXT_SCHEDULING_INSTANCE (descr pid a) = CHECK_DEADLINE))"

record pass_env =
  pass_start :: SYSTEM_TIMESPEC
  pass_woken :: SYSTEM_TIMESPEC
  pass_wakeups :: "APEX wakeup list"
  pass_checks :: "nat \<Rightarrow> check_env"

definition scheduler_pass :: "layout \<Rightarrow> sorter \<Rightarrow> nat \<Rightarrow> pass_env \<Rightarrow> APEX \<Rightarrow> APEX outcome" where
  "scheduler_pass L srt self e a =
     (let a1 = sortProcessDescriptorVector srt a in
      bind_outcome (assert_some (addTimeNano (pass_start e) NANO)) (\<lambda>in_a_second.
        if nothing_to_do a1
        then bind_outcome (APEX_SCHEDULER_WAIT_ABSOLUTE_TIME in_a_second (pass_wakeups e) a1) (\<lambda>(r, a2). Returned a2)
        else bind_outcome
          (APEX_SCHEDULER_WAIT_ABSOLUTE_TIME
             (ABSOLUTE_CRITICAL_TIME (descr (hd (PROCESS_SCHEDULING_SORTED_VECTOR a1)) a1)) (pass_wakeups e) a1)
          (\<lambda>(timed_out, a2).
             if \<not> timed_out then Returned a2
             else schedule_loop L self (pass_checks e) (pass_woken e) (PROCESS_SCHEDULING_SORTED_VECTOR a2) a2)))"

text \<open>The list holds the inputs of the passes; \<open>Blocked\<close> is a scheduler that still runs when they
  are used up.\<close>

fun RunPartitionScheduler_loop :: "layout \<Rightarrow> sorter \<Rightarrow> nat \<Rightarrow> pass_env list \<Rightarrow> APEX \<Rightarrow> APEX outcome" where
  "RunPartitionScheduler_loop L srt self es a =
     (if CURRENT_OPERATING_MODE a = NORMAL \<and> \<not> flagToTerminate a
      then (case es of [] \<Rightarrow> Blocked
            | e # es' \<Rightarrow> bind_outcome (scheduler_pass L srt self e a) (RunPartitionScheduler_loop L srt self es'))
      else Returned a)"

definition RunPartitionScheduler ::
  "layout \<Rightarrow> sorter \<Rightarrow> nat \<Rightarrow> (nat \<Rightarrow> SYSTEM_TIMESPEC) \<Rightarrow> pass_env list \<Rightarrow> APEX \<Rightarrow> APEX outcome" where
  "RunPartitionScheduler L srt self clock es a =
     bind_outcome (init_schedule clock a) (RunPartitionScheduler_loop L srt self es)"

end
