(* ===== verification/SchedulerProperties.thy ===== *)
theory SchedulerProperties
  imports Scheduler
begin

text \<open>
  What the partition scheduler does: the order it keeps its processes in, what a release and a
  deadline check do to a process, and that one pass handles the processes whose critical
  time has come and leaves the others alone.
\<close>

section \<open>The order of the processes\<close>

definition before :: "APEX \<Rightarrow> nat \<Rightarrow> nat \<Rightarrow> bool" where
  "before a i j \<longleftrightarrow>
     state (the_process j a) = DORMANT \<or>
     (state (the_process i a) \<noteq> DORMANT \<and>
      compareTime (ABSOLUTE_CRITICAL_TIME (descr i a)) (ABSOLUTE_CRITICAL_TIME (descr j a)))"

lemma COMP_order: "order_of (before a) (PROCESS_DESCRIPTOR_COMP a)"
  unfolding order_of_def before_def PROCESS_DESCRIPTOR_COMP_def
  using compareTime_trans compareTime_total by (auto split: if_splits) blast+

lemma sort_frame [simp]:
  "PROCESS_DESCRIPTOR_VECTOR (sortProcessDescriptorVector srt a) = PROCESS_DESCRIPTOR_VECTOR a"
  "the_process pid (sortProcessDescriptorVector srt a) = the_process pid a"
  "process_exists pid (sortProcessDescriptorVector srt a) = process_exists pid a"
  "CURRENT_OPERATING_MODE (sortProcessDescriptorVector srt a) = CURRENT_OPERATING_MODE a"
  by (simp_all add: sortProcessDescriptorVector_def the_process_def process_exists_def)

lemma before_sort [simp]: "before (sortProcessDescriptorVector srt a) = before a"
  by (simp add: before_def fun_eq_iff)

context sort_contract
begin

lemma sorted_vector:
  "sorted_wrt (before a) (PROCESS_SCHEDULING_SORTED_VECTOR (sortProcessDescriptorVector srt a))"
  by (simp add: sortProcessDescriptorVector_def sort_sorted [OF COMP_order])

lemma procs_inv_sort: "procs_inv a \<Longrightarrow> procs_inv (sortProcessDescriptorVector srt a)"
  by (erule procs_inv_frame) (simp_all add: sortProcessDescriptorVector_def sort_perm)

lemma head_earliest:
  assumes "pid \<in> set (PROCESS_SCHEDULING_SORTED_VECTOR a)" "state (the_process pid a) \<noteq> DORMANT"
  shows "let h = hd (PROCESS_SCHEDULING_SORTED_VECTOR (sortProcessDescriptorVector srt a)) in
    state (the_process h a) \<noteq> DORMANT \<and>
    compareTime (ABSOLUTE_CRITICAL_TIME (descr h a)) (ABSOLUTE_CRITICAL_TIME (descr pid a))"
  using sort_head [OF COMP_order assms(1), of a] assms(2)
  by (simp add: before_def sortProcessDescriptorVector_def)

end

section \<open>A release\<close>

lemma APEX_HELPER_RESET_EVENT_frame [simp]:
  "PROCESS_DESCRIPTOR_VECTOR (APEX_HELPER_RESET_EVENT name a) = PROCESS_DESCRIPTOR_VECTOR a"
  "the_process pid (APEX_HELPER_RESET_EVENT name a) = the_process pid a"
  "process_exists pid (APEX_HELPER_RESET_EVENT name a) = process_exists pid a"
  "PROCESS_SCHEDULING_SORTED_VECTOR (APEX_HELPER_RESET_EVENT name a) = PROCESS_SCHEDULING_SORTED_VECTOR a"
  "PROCESS_ID_TO_PTHREAD_ID_MAP (APEX_HELPER_RESET_EVENT name a) = PROCESS_ID_TO_PTHREAD_ID_MAP a"
  "RW_LOCK_SEM_VECTOR (APEX_HELPER_RESET_EVENT name a) = RW_LOCK_SEM_VECTOR a"
  by (simp_all add: APEX_HELPER_RESET_EVENT_def the_process_def process_exists_def split: option.split)

text \<open>What a release makes of the descriptor of the process.\<close>

definition is_released :: "PROCESS_DESCRIPTOR \<Rightarrow> PROCESS_DESCRIPTOR \<Rightarrow> bool" where
  "is_released d d' \<longleftrightarrow>
     (let p = THE_PROCESS d; p' = THE_PROCESS d'; attr = attribute p; critical = ABSOLUTE_CRITICAL_TIME d in
      state p' = RUNNING \<and> attribute p' = attr \<and> sem_state p' = snd (SEMAPHORE_post (sem_state p)) \<and>
      thread_priority p' = BASE_PRIORITY attr \<and> CURRENT_PRIORITY d' = BASE_PRIORITY attr \<and>
      RESPONSE_NO_ERROR (PROCESS_RESPONSE p') \<and>
      NEXT_SCHEDULING_INSTANCE d' = CHECK_DEADLINE \<and>
      computeDeadlineTimeSpecs critical (TIME_CAPACITY attr) = Some (DEADLINE_TIME d') \<and>
      ABSOLUTE_CRITICAL_TIME d' = DEADLINE_TIME d' \<and>
      (if isPeriodic p then addTimeNano critical (PERIOD attr) = Some (ABSOLUTE_NEXT_SCHEDULED_TIME d')
       else ABSOLUTE_NEXT_SCHEDULED_TIME d' = ABSOLUTE_NEXT_SCHEDULED_TIME d))"

lemma release_process_Returned:
  assumes "release_process current_time pid a = Returned a'" "process_exists pid a"
    "state (the_process pid a) = WAITING_ON_PERIOD \<or> state (the_process pid a) = READY"
  shows "is_released (descr pid a) (descr pid a')"
  using assms
  by (cases "isPeriodic (the_process pid a)")
    (auto simp: release_process_def Let_def bind_outcome_Returned PROCESS_start_def post_state_def upd_proc_sem_def
      set_state_def set_priority_def is_released_def THE_PROCESS_nth isPeriodic_def INITIALIZE_PROCESS_RESPONSE_def)

lemma release_process_defined:
  assumes "procs_inv a" "process_exists pid a"
  shows "\<exists>a'. release_process current_time pid a = Returned a'"
proof -
  let ?attr = "attribute (the_process pid a)"
  have ok: "attributes_ok ?attr" using procs_inv_nth [OF assms] by (simp add: process_ok_def)
  obtain t where "computeDeadlineTimeSpecs (ABSOLUTE_CRITICAL_TIME (descr pid a)) (TIME_CAPACITY ?attr) = Some t"
    using attributes_ok_times(1) [OF ok] addTimeNano_some
    by (auto simp: computeDeadlineTimeSpecs_def) (metis addTimeNano_some order.refl)
  moreover obtain u where "isPeriodic (the_process pid a) \<longrightarrow> addTimeNano (ABSOLUTE_CRITICAL_TIME (descr pid a)) (PERIOD ?attr) = Some u"
    using attributes_ok_times(2) [OF ok] addTimeNano_some by (metis isPeriodic_def)
  ultimately show ?thesis
    by (simp add: release_process_def Let_def)
qed

section \<open>Catching up\<close>

lemma catch_up_done: "\<not> compareTime next critical \<Longrightarrow> catch_up next period critical = Some (Returned next)"
  by (subst catch_up.simps) simp

lemma catch_up_ends:
  assumes "0 < period" "period \<le> MAX_TIME_OUT" "normalised critical"
  shows "normalised next \<Longrightarrow> \<exists>k t. catch_up next period critical = Some (Returned t) \<and> normalised t \<and>
    convertTimeSpecToNano t = convertTimeSpecToNano next + int k * period \<and>
    convertTimeSpecToNano critical < convertTimeSpecToNano t \<and>
    (0 < k \<longrightarrow> convertTimeSpecToNano t \<le> convertTimeSpecToNano critical + period)"
proof (induction "nat (convertTimeSpecToNano critical + 1 - convertTimeSpecToNano next)" arbitrary: "next" rule: less_induct)
  case less
  show ?case
  proof (cases "compareTime next critical")
    case False
    then have "convertTimeSpecToNano critical < convertTimeSpecToNano next"
      using compareTime_value [OF less.prems assms(3)] by simp
    then show ?thesis using less.prems catch_up_done [OF False, of period]
      by (intro exI [of _ "0::nat"] exI [of _ "next"]) simp
  next
    case True
    obtain n where n: "addTimeNano next period = Some n" using assms(2) by (rule addTimeNano_some)
    have v: "convertTimeSpecToNano n = convertTimeSpecToNano next + period"
      using addTimeNano_value [OF n] assms(1) by (simp add: INFINITE_TIME_VALUE_def)
    have nn: "normalised n"
      by (rule addTimeNano_normalised [OF n less.prems]) (use assms(1) less.prems in \<open>simp add: normalised_def\<close>)
    have le: "convertTimeSpecToNano next \<le> convertTimeSpecToNano critical"
      using True compareTime_value [OF less.prems assms(3)] by simp
    obtain k t where t: "catch_up n period critical = Some (Returned t)" "normalised t"
      "convertTimeSpecToNano t = convertTimeSpecToNano n + int k * period"
      "convertTimeSpecToNano critical < convertTimeSpecToNano t"
      "0 < k \<longrightarrow> convertTimeSpecToNano t \<le> convertTimeSpecToNano critical + period"
      using less.hyps [of n] nn v le assms(1) by auto
    have "catch_up next period critical = Some (Returned t)"
      using True n t(1) by (subst catch_up.simps) simp
    moreover have "convertTimeSpecToNano t \<le> convertTimeSpecToNano critical + period"
      using t(3,5) v le by (cases "k = 0") simp_all
    ultimately show ?thesis using t v
      by (intro exI [of _ "Suc k"] exI [of _ t]) (simp add: algebra_simps)
  qed
qed


section \<open>What a pass leaves alone\<close>

text \<open>The locks of a stopped process are given back by whichever process its thread finds itself to
  be; everything else of a descriptor is its view.\<close>

definition sched_view :: "PROCESS_DESCRIPTOR \<Rightarrow> PROCESS_DESCRIPTOR" where
  "sched_view d = d\<lparr>THE_PROCESS := (THE_PROCESS d)\<lparr>READLOCKS := [], WRITELOCKS := []\<rparr>\<rparr>"

lemma sched_view_eqD:
  assumes "sched_view d = sched_view d'"
  shows "ABSOLUTE_CRITICAL_TIME d = ABSOLUTE_CRITICAL_TIME d'" "state (THE_PROCESS d) = state (THE_PROCESS d')"
    "NEXT_SCHEDULING_INSTANCE d = NEXT_SCHEDULING_INSTANCE d'" "attribute (THE_PROCESS d) = attribute (THE_PROCESS d')"
    "ABSOLUTE_NEXT_SCHEDULED_TIME d = ABSOLUTE_NEXT_SCHEDULED_TIME d'" "DEADLINE_TIME d = DEADLINE_TIME d'"
    "CURRENT_PRIORITY d = CURRENT_PRIORITY d'" "sem_state (THE_PROCESS d) = sem_state (THE_PROCESS d')"
    "PROCESS_RESPONSE (THE_PROCESS d) = PROCESS_RESPONSE (THE_PROCESS d')"
    "thread_priority (THE_PROCESS d) = thread_priority (THE_PROCESS d')"
  using arg_cong [OF assms, of ABSOLUTE_CRITICAL_TIME] arg_cong [OF assms, of "\<lambda>d. state (THE_PROCESS d)"]
    arg_cong [OF assms, of NEXT_SCHEDULING_INSTANCE] arg_cong [OF assms, of "\<lambda>d. attribute (THE_PROCESS d)"]
    arg_cong [OF assms, of ABSOLUTE_NEXT_SCHEDULED_TIME] arg_cong [OF assms, of DEADLINE_TIME]
    arg_cong [OF assms, of CURRENT_PRIORITY] arg_cong [OF assms, of "\<lambda>d. sem_state (THE_PROCESS d)"]
    arg_cong [OF assms, of "\<lambda>d. PROCESS_RESPONSE (THE_PROCESS d)"]
    arg_cong [OF assms, of "\<lambda>d. thread_priority (THE_PROCESS d)"]
  by (simp_all add: sched_view_def)

text \<open>\<open>keeps i a a'\<close>: the view of \<open>i\<close> and the vectors of the scheduler are the same.\<close>

definition keeps :: "nat \<Rightarrow> APEX \<Rightarrow> APEX \<Rightarrow> bool" where
  "keeps i a a' \<longleftrightarrow>
     sched_view (descr i a') = sched_view (descr i a) \<and>
     length (PROCESS_DESCRIPTOR_VECTOR a') = length (PROCESS_DESCRIPTOR_VECTOR a) \<and>
     PROCESS_SCHEDULING_SORTED_VECTOR a' = PROCESS_SCHEDULING_SORTED_VECTOR a"

lemma keeps_refl [simp]: "keeps i a a"
  by (simp add: keeps_def)

lemma keeps_trans: "keeps i a b \<Longrightarrow> keeps i b c \<Longrightarrow> keeps i a c"
  by (simp add: keeps_def)

lemma keeps_vector:
  "PROCESS_DESCRIPTOR_VECTOR a' = PROCESS_DESCRIPTOR_VECTOR a \<Longrightarrow>
   PROCESS_SCHEDULING_SORTED_VECTOR a' = PROCESS_SCHEDULING_SORTED_VECTOR a \<Longrightarrow> keeps i a a'"
  by (simp add: keeps_def)

lemma keeps_updates [simp]:
  "i \<noteq> pid \<Longrightarrow> keeps i a (upd_descriptor pid f b) = keeps i a b"
  "i \<noteq> pid \<Longrightarrow> keeps i a (upd_process pid g b) = keeps i a b"
  "i \<noteq> pid \<Longrightarrow> keeps i a (set_state pid s b) = keeps i a b"
  "i \<noteq> pid \<Longrightarrow> keeps i a (set_priority pid n b) = keeps i a b"
  "i \<noteq> pid \<Longrightarrow> keeps i a (create_thread pid t b) = keeps i a b"
  "i \<noteq> pid \<Longrightarrow> keeps i a (post_state pid b) = keeps i a b"
  "keeps i a (APEX_HELPER_RESET_EVENT name b) = keeps i a b"
  by (simp_all add: keeps_def upd_descriptor_def upd_process_def set_state_def set_priority_def create_thread_def
      post_state_def upd_proc_sem_def)

lemma keeps_lock_lists:
  assumes "\<And>p. (f p)\<lparr>READLOCKS := [], WRITELOCKS := []\<rparr> = p\<lparr>READLOCKS := [], WRITELOCKS := []\<rparr>"
  shows "keeps i a (for_my_process self f a)"
proof -
  have "keeps i a (upd_process pid f a)" for pid
    using assms
    by (cases "i = pid"; cases "pid < length (PROCESS_DESCRIPTOR_VECTOR a)")
      (simp_all add: keeps_def upd_process_def upd_descriptor_def sched_view_def list_update_beyond)
  then show ?thesis by (simp add: for_my_process_def split: prod.split RETURN_CODE_TYPE.split option.split)
qed

lemma keeps_unlock:
  "READUNLOCK_RW_SEMAPHORE self sid a = Returned (r, a') \<Longrightarrow> keeps i a a'"
  "WRITEUNLOCK_RW_SEMAPHORE self sid a = Returned (r, a') \<Longrightarrow> keeps i a a'"
proof -
  have rw: "keeps i a (upd_rw sid u a)" for u
    by (rule keeps_vector) (simp_all add: upd_rw_def at_update_def)
  show "READUNLOCK_RW_SEMAPHORE self sid a = Returned (r, a') \<Longrightarrow> keeps i a a'"
    "WRITEUNLOCK_RW_SEMAPHORE self sid a = Returned (r, a') \<Longrightarrow> keeps i a a'"
    by (auto simp: READUNLOCK_RW_SEMAPHORE_def WRITEUNLOCK_RW_SEMAPHORE_def
        intro!: keeps_trans [OF rw keeps_lock_lists] split: if_splits)
qed

lemma keeps_unlock_all:
  assumes "\<And>sid a r a'. service sid a = Returned (r, a') \<Longrightarrow> keeps i a a'"
  shows "unlock_all service sids a = Returned a' \<Longrightarrow> keeps i a a'"
  by (induction sids arbitrary: a)
    (auto simp: bind_outcome_Returned intro: keeps_trans assms split: if_splits)

lemma keeps_cleanup:
  assumes "Thread_cleanup_Handler pid a = Returned a'"
  shows "keeps i a a'"
proof -
  obtain a1 where 1: "unlock_all (READUNLOCK_RW_SEMAPHORE (thread_id (the_process pid a))) (READLOCKS (the_process pid a)) a = Returned a1"
    and 2: "unlock_all (WRITEUNLOCK_RW_SEMAPHORE (thread_id (the_process pid a))) (WRITELOCKS (the_process pid a1)) a1 = Returned a'"
    using assms by (auto simp: Thread_cleanup_Handler_def Let_def bind_outcome_Returned)
  show ?thesis
    by (rule keeps_trans [OF keeps_unlock_all [OF keeps_unlock(1) 1] keeps_unlock_all [OF keeps_unlock(2) 2]])
qed

lemma keeps_stop:
  assumes "stop_process self now thread pid a = Returned a'" "i \<noteq> pid"
  shows "keeps i a a'"
proof -
  let ?a1 = "set_state pid RESTARTING (set_state pid DORMANT (set_priority pid WORKER_THREAD_RESTART_PRIORITY a))"
  have k: "keeps i a ?a1" using assms(2) by simp
  obtain a1 where a1: "PROCESS_restart self False now thread pid (set_state pid DORMANT (set_priority pid WORKER_THREAD_RESTART_PRIORITY a)) = Returned a1"
    and last: "a' = set_priority pid (BASE_PRIORITY (attribute (the_process pid a1))) a1"
    using assms(1) by (auto simp: stop_process_def PROCESS_stop_def Let_def bind_outcome_Returned)
  obtain a2 where a2: "Thread_cleanup_Handler pid ?a1 = Returned a2"
    and a1': "(case thread of None \<Rightarrow> Returned (set_state pid DORMANT a2)
       | Some t \<Rightarrow> Returned (create_thread pid t (set_state pid DORMANT a2))) = Returned a1"
    using a1 unfolding PROCESS_restart_def Let_def
    by (cases "Thread_cleanup_Handler pid ?a1"; cases thread) (auto split: if_splits)
  have a': "\<exists>n a3. a' = set_priority pid n a3 \<and>
       (a3 = set_state pid DORMANT a2 \<or> (\<exists>t. a3 = create_thread pid t (set_state pid DORMANT a2)))"
    using a1' last by (cases thread) auto
  show ?thesis
    using keeps_trans [OF k keeps_cleanup [OF a2, of i]] a' assms(2) by auto
qed

lemma DISPLAY_BLACKBOARD_frame:
  assumes "DISPLAY_BLACKBOARD bid m n a = Returned (r, a')"
  shows "PROCESS_DESCRIPTOR_VECTOR a' = PROCESS_DESCRIPTOR_VECTOR a \<and>
    PROCESS_ID_TO_PTHREAD_ID_MAP a' = PROCESS_ID_TO_PTHREAD_ID_MAP a \<and>
    PROCESS_SCHEDULING_SORTED_VECTOR a' = PROCESS_SCHEDULING_SORTED_VECTOR a \<and>
    RW_LOCK_SEM_VECTOR a' = RW_LOCK_SEM_VECTOR a"
  using assms
  by (auto simp: DISPLAY_BLACKBOARD_def WRITE_ON_BLACKBOARD_def bind_outcome_Returned SET_EVENT_def EVENT_set_def
      upd_board_def dest!: CLEAR_BLACKBOARD_frame split: if_splits)

lemma NOTIFY_frame:
  assumes "NOTIFY_PROCESS_FINISHED_STATUS L t pid resp a = Returned (r, a')"
  shows "PROCESS_DESCRIPTOR_VECTOR a' = PROCESS_DESCRIPTOR_VECTOR a \<and>
    PROCESS_ID_TO_PTHREAD_ID_MAP a' = PROCESS_ID_TO_PTHREAD_ID_MAP a \<and>
    PROCESS_SCHEDULING_SORTED_VECTOR a' = PROCESS_SCHEDULING_SORTED_VECTOR a \<and>
    RW_LOCK_SEM_VECTOR a' = RW_LOCK_SEM_VECTOR a"
  using assms
  by (auto simp: NOTIFY_PROCESS_FINISHED_STATUS_def Let_def bind_outcome_Returned dest!: DISPLAY_BLACKBOARD_frame
      split: if_splits)

lemma raise_frame:
  assumes "raise_deadline_missed L e pid a = Returned a'"
  shows "PROCESS_DESCRIPTOR_VECTOR a' = PROCESS_DESCRIPTOR_VECTOR a \<and>
    PROCESS_ID_TO_PTHREAD_ID_MAP a' = PROCESS_ID_TO_PTHREAD_ID_MAP a \<and>
    PROCESS_SCHEDULING_SORTED_VECTOR a' = PROCESS_SCHEDULING_SORTED_VECTOR a \<and>
    RW_LOCK_SEM_VECTOR a' = RW_LOCK_SEM_VECTOR a"
  using assms
  by (auto simp: raise_deadline_missed_def RAISE_APPLICATION_ERROR_FOR_def raise_error_def SEND_BUFFER_def Let_def
      bind_outcome_Returned split: if_splits)

lemma keeps_raise: "raise_deadline_missed L e pid b = Returned a' \<Longrightarrow> keeps i a b \<Longrightarrow> keeps i a a'"
  using raise_frame keeps_trans keeps_vector by metis

lemma keeps_notify: "NOTIFY_PROCESS_FINISHED_STATUS L t pid resp b = Returned (r, a') \<Longrightarrow> keeps i a b \<Longrightarrow> keeps i a a'"
  using NOTIFY_frame keeps_trans keeps_vector by metis

lemma keeps_hard:
  assumes "hard_violation L self e pid a = Returned a'" "i \<noteq> pid"
  shows "keeps i a a'"
proof -
  obtain a1 r a3 where 1: "stop_process self (env_clock e) (env_thread e) pid a = Returned a1"
    and 2: "NOTIFY_PROCESS_FINISHED_STATUS L (env_nanos e)
        (process_id (the_process pid (upd_descriptor pid (\<lambda>d. d\<lparr>NEXT_SCHEDULING_INSTANCE := RELEASE_PROCESS\<rparr>) a1)))
        (HARD_DEADLINE_PROCESS_RESPONSE (env_response e))
        (upd_descriptor pid (\<lambda>d. d\<lparr>NEXT_SCHEDULING_INSTANCE := RELEASE_PROCESS\<rparr>) a1) = Returned (r, a3)"
    and 3: "raise_deadline_missed L e pid a3 = Returned a'"
    using assms(1) by (auto simp: hard_violation_def Let_def bind_outcome_Returned)
  show ?thesis
    using keeps_stop [OF 1 assms(2)] assms(2) by (intro keeps_raise [OF 3] keeps_notify [OF 2]) simp
qed

lemma keeps_soft:
  assumes "soft_violation L e pid a = Returned a'" "i \<noteq> pid"
  shows "keeps i a a'"
proof -
  obtain critical a2 where 1: "raise_deadline_missed L e pid a2 = Returned a'"
    and 2: "\<exists>f. a2 = upd_descriptor pid f (upd_descriptor pid (\<lambda>d. d\<lparr>ABSOLUTE_CRITICAL_TIME := critical\<rparr>) a) \<or>
        a2 = upd_descriptor pid (\<lambda>d. d\<lparr>ABSOLUTE_CRITICAL_TIME := critical\<rparr>) a"
    using assms(1) by (simp add: soft_violation_def Let_def bind_outcome_Returned split: if_splits) blast+
  show ?thesis by (rule keeps_raise [OF 1]) (use 2 assms(2) in auto)
qed

lemma keeps_release:
  assumes "release_process t pid a = Returned a'" "i \<noteq> pid"
  shows "keeps i a a'"
proof -
  have start: "keeps i a (PROCESS_start pid b)" if "keeps i a b" for b
    using assms(2) that by (simp add: PROCESS_start_def)
  show ?thesis using assms
    by (auto simp: release_process_def Let_def bind_outcome_Returned start split: if_splits)
qed

lemma keeps_schedule_one:
  assumes "schedule_one L self e t pid a = Returned a'" "i \<noteq> pid"
  shows "keeps i a a'"
proof (cases "NEXT_SCHEDULING_INSTANCE (descr pid a)")
  case RELEASE_PROCESS
  then show ?thesis using assms keeps_release by (simp add: schedule_one_def)
next
  case CHECK_DEADLINE
  then have "check_deadline L self e pid a = Returned a'" using assms(1) by (simp add: schedule_one_def)
  then show ?thesis using assms(2)
    by (auto simp: check_deadline_def Let_def keeps_hard keeps_soft split: if_splits)
qed


section \<open>A pass\<close>

lemma keepsD:
  assumes "keeps i a a'"
  shows "ABSOLUTE_CRITICAL_TIME (descr i a') = ABSOLUTE_CRITICAL_TIME (descr i a)"
    "state (the_process i a') = state (the_process i a)"
    "NEXT_SCHEDULING_INSTANCE (descr i a') = NEXT_SCHEDULING_INSTANCE (descr i a)"
    "process_exists i a' = process_exists i a"
  using sched_view_eqD [of "descr i a'" "descr i a"] assms
  by (simp_all add: keeps_def the_process_def process_exists_def)

lemma schedule_loop_not_due:
  assumes "schedule_loop L self env t pids a = Returned a'"
    "\<not> compareTime (ABSOLUTE_CRITICAL_TIME (descr i a)) t"
  shows "keeps i a a'"
  using assms
proof (induction pids arbitrary: a)
  case (Cons pid pids)
  show ?case
  proof (cases "compareTime (ABSOLUTE_CRITICAL_TIME (descr pid a)) t")
    case True
    then obtain a1 where 1: "schedule_one L self (env pid) t pid a = Returned a1"
      and 2: "schedule_loop L self env t pids a1 = Returned a'"
      using Cons.prems(1) by (auto simp: bind_outcome_Returned)
    have k: "keeps i a a1" by (rule keeps_schedule_one [OF 1]) (use True Cons.prems(2) in auto)
    show ?thesis by (rule keeps_trans [OF k Cons.IH [OF 2]]) (use Cons.prems(2) keepsD(1) [OF k] in simp)
  qed (use Cons.prems in simp)
qed simp

text \<open>A process that is not in the vector is not touched.\<close>

lemma schedule_loop_other:
  assumes "schedule_loop L self env t pids a = Returned a'" "i \<notin> set pids"
  shows "keeps i a a'"
  using assms
proof (induction pids arbitrary: a)
  case (Cons pid pids)
  then show ?case
    by (auto simp: bind_outcome_Returned intro: keeps_trans keeps_schedule_one split: if_splits)
qed simp

text \<open>The process after a prefix of due processes gets its turn.\<close>

lemma schedule_loop_reaches:
  assumes "schedule_loop L self env t (xs @ pid # ys) a = Returned a'" "distinct (xs @ pid # ys)"
    "\<forall>x\<in>set (xs @ [pid]). compareTime (ABSOLUTE_CRITICAL_TIME (descr x a)) t"
  shows "\<exists>a1 a2. keeps pid a a1 \<and> schedule_one L self (env pid) t pid a1 = Returned a2 \<and> keeps pid a2 a'"
  using assms
proof (induction xs arbitrary: a)
  case Nil
  then obtain a2 where "schedule_one L self (env pid) t pid a = Returned a2"
    "schedule_loop L self env t ys a2 = Returned a'"
    by (auto simp: bind_outcome_Returned)
  then show ?case using schedule_loop_other [of L self env t ys a2 a' pid] Nil.prems(2)
    by (intro exI [of _ a] exI [of _ a2]) simp
next
  case (Cons x xs)
  then obtain a1 where 1: "schedule_one L self (env x) t x a = Returned a1"
    and 2: "schedule_loop L self env t (xs @ pid # ys) a1 = Returned a'"
    by (auto simp: bind_outcome_Returned)
  have k: "keeps i a a1" if "i \<noteq> x" for i by (rule keeps_schedule_one [OF 1 that])
  have "\<forall>i\<in>set (xs @ [pid]). compareTime (ABSOLUTE_CRITICAL_TIME (descr i a1)) t"
  proof
    fix i assume "i \<in> set (xs @ [pid])"
    then have "i \<noteq> x" "compareTime (ABSOLUTE_CRITICAL_TIME (descr i a)) t" using Cons.prems(2,3) by auto
    then show "compareTime (ABSOLUTE_CRITICAL_TIME (descr i a1)) t" using keepsD(1) [OF k] by simp
  qed
  then obtain a2 a3 where "keeps pid a1 a2" "schedule_one L self (env pid) t pid a2 = Returned a3" "keeps pid a3 a'"
    using Cons.IH [OF 2] Cons.prems(2) by auto
  moreover have "keeps pid a a1" using Cons.prems(2) by (intro k) auto
  ultimately show ?case using keeps_trans by blast
qed

lemma is_released_view:
  assumes "is_released d1 d2" "sched_view d1 = sched_view d" "sched_view d2 = sched_view d'"
  shows "is_released d d'"
proof -
  have "isPeriodic (THE_PROCESS d1) = isPeriodic (THE_PROCESS d)"
    using sched_view_eqD(4) [OF assms(2)] by (simp add: isPeriodic_def)
  then show ?thesis using assms(1) sched_view_eqD [OF assms(2)] sched_view_eqD [OF assms(3)]
    unfolding is_released_def Let_def by (cases "isPeriodic (THE_PROCESS d)") simp_all
qed

text \<open>In a sorted vector every due process that waits for its release is released.\<close>

lemma schedule_loop_releases:
  assumes run: "schedule_loop L self env t pids a = Returned a'"
    and vec: "sorted_wrt (before a) pids" "distinct pids" "pid \<in> set pids" "process_exists pid a"
    and due: "compareTime (ABSOLUTE_CRITICAL_TIME (descr pid a)) t"
    and waits: "NEXT_SCHEDULING_INSTANCE (descr pid a) = RELEASE_PROCESS"
      "state (the_process pid a) = WAITING_ON_PERIOD \<or> state (the_process pid a) = READY"
  shows "is_released (descr pid a) (descr pid a')"
proof -
  obtain xs ys where pids: "pids = xs @ pid # ys" using vec(3) by (meson split_list)
  have "\<forall>x\<in>set xs. compareTime (ABSOLUTE_CRITICAL_TIME (descr x a)) (ABSOLUTE_CRITICAL_TIME (descr pid a))"
    using vec(1) waits(2) unfolding pids by (auto simp: sorted_wrt_append before_def)
  then have "\<forall>x\<in>set (xs @ [pid]). compareTime (ABSOLUTE_CRITICAL_TIME (descr x a)) t"
    using due compareTime_trans by auto
  then obtain a1 a2 where 1: "keeps pid a a1" and 2: "schedule_one L self (env pid) t pid a1 = Returned a2"
    and 3: "keeps pid a2 a'"
    using schedule_loop_reaches [OF run [unfolded pids]] vec(2) pids by auto
  have "release_process t pid a1 = Returned a2"
    using 2 waits(1) keepsD(3) [OF 1] by (simp add: schedule_one_def)
  then have "is_released (descr pid a1) (descr pid a2)"
    using release_process_Returned keepsD [OF 1] vec(4) waits(2) by simp
  then show ?thesis using 1 3 by (auto simp: keeps_def intro: is_released_view)
qed

section \<open>Deadlines\<close>

lemma check_deadline_met:
  assumes "process_exists pid a" "state (the_process pid a) = WAITING_ON_PERIOD"
  shows "\<exists>a'. check_deadline L self e pid a = Returned a' \<and>
    NEXT_SCHEDULING_INSTANCE (descr pid a') = RELEASE_PROCESS \<and> the_process pid a' = the_process pid a \<and>
    ABSOLUTE_CRITICAL_TIME (descr pid a') = ABSOLUTE_NEXT_SCHEDULED_TIME (descr pid a)"
  using assms by (simp add: check_deadline_def Let_def THE_PROCESS_nth)

lemma raise_deadline_none:
  assumes "process_exists pid a" "process_id (the_process pid a) = pid" "HM_DESCRIPTOR_ID (descr pid a) = -1"
  shows "raise_deadline_missed L e pid a = Returned a"
  using assms by (simp add: raise_deadline_missed_def RAISE_APPLICATION_ERROR_FOR_def raise_error_def)

text \<open>A missed soft deadline without health manager: the next check is a second away, and the next
  release is the first one after it that is in phase.\<close>

lemma soft_violation_ok:
  assumes "procs_inv a" "process_exists pid a" "HM_DESCRIPTOR_ID (descr pid a) = -1"
    "isPeriodic (the_process pid a)" "normalised (env_clock e)" "normalised (ABSOLUTE_NEXT_SCHEDULED_TIME (descr pid a))"
  shows "\<exists>a' k. soft_violation L e pid a = Returned a' \<and> the_process pid a' = the_process pid a \<and>
    (let n = convertTimeSpecToNano (ABSOLUTE_NEXT_SCHEDULED_TIME (descr pid a'));
         c = convertTimeSpecToNano (ABSOLUTE_CRITICAL_TIME (descr pid a')) in
     c = convertTimeSpecToNano (env_clock e) + NANO \<and> c < n \<and>
     n = convertTimeSpecToNano (ABSOLUTE_NEXT_SCHEDULED_TIME (descr pid a)) + int k * PERIOD (attribute (the_process pid a)) \<and>
     (0 < k \<longrightarrow> n \<le> c + PERIOD (attribute (the_process pid a))))"
proof -
  let ?p = "the_process pid a"
  have ok: "process_id ?p = pid" "0 < PERIOD (attribute ?p)" "PERIOD (attribute ?p) \<le> MAX_TIME_OUT"
    using procs_inv_nth [OF assms(1,2)] attributes_ok_times(2) [of "attribute ?p"] assms(4)
    by (simp_all add: process_ok_def isPeriodic_def)
  have "NANO \<le> MAX_TIME_OUT" by (simp add: MAX_TIME_OUT_def NANO_def)
  then obtain c where c: "addTimeNano (env_clock e) NANO = Some c" by (rule addTimeNano_some)
  have cv: "convertTimeSpecToNano c = convertTimeSpecToNano (env_clock e) + NANO"
    using addTimeNano_value [OF c] by (simp add: INFINITE_TIME_VALUE_def NANO_def)
  have cn: "normalised c"
    by (rule addTimeNano_normalised [OF c assms(5)]) (use assms(5) in \<open>simp add: normalised_def NANO_def\<close>)
  obtain k t where t: "catch_up (ABSOLUTE_NEXT_SCHEDULED_TIME (descr pid a)) (PERIOD (attribute ?p)) c = Some (Returned t)"
    "convertTimeSpecToNano t = convertTimeSpecToNano (ABSOLUTE_NEXT_SCHEDULED_TIME (descr pid a)) + int k * PERIOD (attribute ?p)"
    "convertTimeSpecToNano c < convertTimeSpecToNano t"
    "0 < k \<longrightarrow> convertTimeSpecToNano t \<le> convertTimeSpecToNano c + PERIOD (attribute ?p)"
    using catch_up_ends [OF ok(2,3) cn assms(6)] by blast
  let ?a1 = "upd_descriptor pid (\<lambda>d. d\<lparr>ABSOLUTE_CRITICAL_TIME := c\<rparr>) a"
  let ?a2 = "upd_descriptor pid (\<lambda>d. d\<lparr>ABSOLUTE_NEXT_SCHEDULED_TIME := t\<rparr>) ?a1"
  have p2: "the_process pid ?a2 = ?p" using assms(2) by (simp add: THE_PROCESS_nth)
  have "raise_deadline_missed L e pid ?a2 = Returned ?a2"
    by (rule raise_deadline_none) (use assms(2,3) ok(1) p2 in simp_all)
  then have "soft_violation L e pid a = Returned ?a2"
    using c t(1) assms(2,4) by (simp add: soft_violation_def Let_def THE_PROCESS_nth)
  then show ?thesis using p2 t(2-4) cv assms(2)
    by (intro exI [of _ ?a2] exI [of _ k]) (simp add: Let_def)
qed


lemma stopped_process:
  assumes "process_exists pid a"
  shows "the_process pid (stopped pid thread a) =
      (the_process pid a)\<lparr>READLOCKS := [], WRITELOCKS := [], state := DORMANT,
        thread_priority := BASE_PRIORITY (attribute (the_process pid a)),
        thread_id := (case thread of None \<Rightarrow> thread_id (the_process pid a) | Some t \<Rightarrow> new_thread_id t)\<rparr>"
    "process_exists pid (stopped pid thread a)" "boards_inv (stopped pid thread a) = boards_inv a"
    "BLACKBOARD_VECTOR (stopped pid thread a) = BLACKBOARD_VECTOR a"
    "PROCESS_NOTIFICATION_RESPONSE_BOARD_ID (descr pid (stopped pid thread a)) = PROCESS_NOTIFICATION_RESPONSE_BOARD_ID (descr pid a)"
    "HM_DESCRIPTOR_ID (descr pid (stopped pid thread a)) = HM_DESCRIPTOR_ID (descr pid a)"
  using assms by (cases thread; simp add: stopped_def Let_def; simp add: unlocked_def)+

lemma hard_violation_ok:
  assumes "procs_inv a" "process_exists pid a" "is_thread_of (thread_id (the_process pid a)) pid a"
    "self \<noteq> thread_id (the_process pid a)" "HM_DESCRIPTOR_ID (descr pid a) = -1"
    "boards_inv a" "PROCESS_NOTIFICATION_RESPONSE_BOARD_ID (descr pid a) = bid" "bid < length (BLACKBOARD_VECTOR a)"
    "BB_MAX_MESSAGE_SIZE (board bid a) = sizeof_PROCESS_RESPONSE L" "layout_laws L"
    "TIME_OUT \<le> MAX_TIME_OUT" "CAPACITY \<le> sizeof_PROCESS_RESPONSE L"
  shows "\<exists>a'. hard_violation L self e pid a = Returned a' \<and>
    state (the_process pid a') = DORMANT \<and> READLOCKS (the_process pid a') = [] \<and> WRITELOCKS (the_process pid a') = [] \<and>
    thread_priority (the_process pid a') = BASE_PRIORITY (attribute (the_process pid a)) \<and>
    NEXT_SCHEDULING_INSTANCE (descr pid a') = RELEASE_PROCESS \<and>
    GET_PROCESS_FINISHED_STATUS L now pid TIME_OUT CAPACITY ws a' = ret_out NO_ERROR
      (PROCESS_RESPONSE_bytes L ((HARD_DEADLINE_PROCESS_RESPONSE (env_response e))\<lparr>TIMEOFMESSAGE := env_nanos e\<rparr>)) a'"
proof -
  let ?s = "stopped pid (env_thread e) a"
  let ?a2 = "upd_descriptor pid (\<lambda>d. d\<lparr>NEXT_SCHEDULING_INSTANCE := RELEASE_PROCESS\<rparr>) ?s"
  let ?resp = "HARD_DEADLINE_PROCESS_RESPONSE (env_response e)"
  note s = stopped_process [OF assms(2), of "env_thread e"]
  have stop: "stop_process self (env_clock e) (env_thread e) pid a = Returned ?s"
    by (rule stop_process_ok [OF assms(1-4)])
  have pid: "process_id (the_process pid a) = pid"
    using procs_inv_nth [OF assms(1,2)] by (simp add: process_ok_def)
  have p2: "the_process pid ?a2 = the_process pid ?s" "process_exists pid ?a2" using s(2) by (simp_all add: THE_PROCESS_nth)
  obtain a3 where notify: "NOTIFY_PROCESS_FINISHED_STATUS L (env_nanos e) pid ?resp ?a2 =
      ret_out NO_ERROR (?resp\<lparr>TIMEOFMESSAGE := env_nanos e\<rparr>) a3"
    and get: "GET_PROCESS_FINISHED_STATUS L now pid TIME_OUT CAPACITY ws a3 =
      ret_out NO_ERROR (PROCESS_RESPONSE_bytes L (?resp\<lparr>TIMEOFMESSAGE := env_nanos e\<rparr>)) a3"
    using NOTIFY_then_GET [of ?a2 pid bid L CAPACITY TIME_OUT "env_nanos e" ?resp now ws] s p2 assms
    by (auto simp: layout_laws_def)
  have vec: "PROCESS_DESCRIPTOR_VECTOR a3 = PROCESS_DESCRIPTOR_VECTOR ?a2" using NOTIFY_frame [OF notify] by blast
  have p3: "the_process pid a3 = the_process pid ?s" "process_exists pid a3" "HM_DESCRIPTOR_ID (descr pid a3) = -1"
    "NEXT_SCHEDULING_INSTANCE (descr pid a3) = RELEASE_PROCESS"
    using vec p2 s assms(5) by (simp_all add: the_process_def process_exists_def)
  have "raise_deadline_missed L e pid a3 = Returned a3"
    by (rule raise_deadline_none) (use p3 s pid in simp_all)
  then have "hard_violation L self e pid a = Returned a3"
    using stop notify p2(1) s(1) pid by (simp add: hard_violation_def Let_def)
  then show ?thesis using get p3 s(1) by (intro exI [of _ a3]) simp
qed

section \<open>Releases in phase\<close>

text \<open>\<open>in_phase phi d\<close>: the next release of a periodic process is a whole number of periods from
  \<open>phi\<close>, and a process that waits for its release waits for that time.\<close>

definition in_phase :: "int \<Rightarrow> PROCESS_DESCRIPTOR \<Rightarrow> bool" where
  "in_phase phi d \<longleftrightarrow>
     (isPeriodic (THE_PROCESS d) \<longrightarrow>
        PERIOD (attribute (THE_PROCESS d)) dvd convertTimeSpecToNano (ABSOLUTE_NEXT_SCHEDULED_TIME d) - phi \<and>
        normalised (ABSOLUTE_NEXT_SCHEDULED_TIME d) \<and>
        (NEXT_SCHEDULING_INSTANCE d = RELEASE_PROCESS \<and> state (THE_PROCESS d) \<noteq> DORMANT \<longrightarrow>
           ABSOLUTE_CRITICAL_TIME d = ABSOLUTE_NEXT_SCHEDULED_TIME d))"

lemma in_phase_view:
  assumes "sched_view d = sched_view d'"
  shows "in_phase phi d = in_phase phi d'"
  using sched_view_eqD(1-5) [OF assms] by (simp add: in_phase_def isPeriodic_def)

lemma in_phase_keeps: "keeps i a a' \<Longrightarrow> in_phase phi (descr i a) \<Longrightarrow> in_phase phi (descr i a')"
  using in_phase_view [of "descr i a'" "descr i a" phi] by (simp add: keeps_def)

lemma in_phase_dormant:
  assumes "in_phase phi d" "attribute (THE_PROCESS d') = attribute (THE_PROCESS d)" "state (THE_PROCESS d') = DORMANT"
    "ABSOLUTE_NEXT_SCHEDULED_TIME d' = ABSOLUTE_NEXT_SCHEDULED_TIME d"
  shows "in_phase phi d'"
  using assms by (simp add: in_phase_def isPeriodic_def)

lemma in_phase_release:
  assumes "release_process t pid a = Returned a'" "procs_inv a" "process_exists pid a"
    "NEXT_SCHEDULING_INSTANCE (descr pid a) = RELEASE_PROCESS" "in_phase phi (descr pid a)"
  shows "in_phase phi (descr pid a')"
proof (cases "state (the_process pid a) = WAITING_ON_PERIOD \<or> state (the_process pid a) = READY")
  case False
  then show ?thesis using assms(1,5) by (simp add: release_process_def)
next
  case True
  have r: "is_released (descr pid a) (descr pid a')" by (rule release_process_Returned [OF assms(1,3) True])
  show ?thesis
  proof (cases "isPeriodic (the_process pid a)")
    case False
    then show ?thesis using r by (simp add: is_released_def in_phase_def Let_def THE_PROCESS_nth isPeriodic_def)
  next
    case per: True
    let ?attr = "attribute (the_process pid a)"
    have "process_ok a pid" by (rule procs_inv_nth [OF assms(2,3)])
    then have ok: "0 < PERIOD ?attr" using attributes_ok_times(2) [of ?attr] per by (simp add: process_ok_def isPeriodic_def)
    have "state (the_process pid a) \<noteq> DORMANT" using True by auto
    then have crit: "ABSOLUTE_CRITICAL_TIME (descr pid a) = ABSOLUTE_NEXT_SCHEDULED_TIME (descr pid a)"
      "normalised (ABSOLUTE_NEXT_SCHEDULED_TIME (descr pid a))"
      "PERIOD ?attr dvd convertTimeSpecToNano (ABSOLUTE_NEXT_SCHEDULED_TIME (descr pid a)) - phi"
      using assms(4,5) per by (simp_all add: in_phase_def THE_PROCESS_nth)
    have n: "addTimeNano (ABSOLUTE_CRITICAL_TIME (descr pid a)) (PERIOD ?attr) = Some (ABSOLUTE_NEXT_SCHEDULED_TIME (descr pid a'))"
      "attribute (the_process pid a') = ?attr" "NEXT_SCHEDULING_INSTANCE (descr pid a') = CHECK_DEADLINE"
      using r per by (simp_all add: is_released_def Let_def THE_PROCESS_nth)
    have "normalised (ABSOLUTE_NEXT_SCHEDULED_TIME (descr pid a'))"
      by (rule addTimeNano_normalised [OF n(1)]) (use crit ok in \<open>simp_all add: normalised_def\<close>)
    moreover have v: "convertTimeSpecToNano (ABSOLUTE_NEXT_SCHEDULED_TIME (descr pid a')) - phi
        = convertTimeSpecToNano (ABSOLUTE_NEXT_SCHEDULED_TIME (descr pid a)) - phi + PERIOD ?attr"
      using addTimeNano_value [OF n(1)] crit(1) ok by (simp add: INFINITE_TIME_VALUE_def)
    have "PERIOD ?attr dvd convertTimeSpecToNano (ABSOLUTE_NEXT_SCHEDULED_TIME (descr pid a')) - phi"
      unfolding v by (rule dvd_add [OF crit(3) dvd_refl])
    ultimately show ?thesis using n by (simp add: in_phase_def THE_PROCESS_nth)
  qed
qed


section \<open>What every pass keeps\<close>

lemma procs_inv_lock_lists:
  assumes "procs_inv a" "\<And>p. process_id (f p) = process_id p" "\<And>p. attribute (f p) = attribute p"
    "\<And>p. set (READLOCKS (f p)) \<subseteq> set (READLOCKS p)" "\<And>p. set (WRITELOCKS (f p)) \<subseteq> set (WRITELOCKS p)"
  shows "procs_inv (for_my_process self f a)"
proof -
  have "procs_inv (upd_process pid f a)" for pid
    unfolding upd_process_def
  proof (rule procs_inv_descriptor [OF assms(1)])
    assume ex: "process_exists pid a"
    have "process_ok a pid" by (rule procs_inv_nth [OF assms(1) ex])
    then show "process_ok (upd_descriptor pid (\<lambda>d. d\<lparr>THE_PROCESS := f (THE_PROCESS d)\<rparr>) a) pid"
      using ex assms(2,3) assms(4,5) [of "the_process pid a"] by (auto simp: process_ok_def THE_PROCESS_nth)
  qed
  then show ?thesis using assms(1) by (simp add: for_my_process_def split: prod.split RETURN_CODE_TYPE.split option.split)
qed

lemma procs_inv_upd_rw: "procs_inv a \<Longrightarrow> procs_inv (upd_rw sid u a)"
  by (erule procs_inv_frame) (simp_all add: upd_rw_def at_update_def)

lemma procs_inv_unlock:
  "READUNLOCK_RW_SEMAPHORE self sid a = Returned (r, a') \<Longrightarrow> procs_inv a \<Longrightarrow> procs_inv a'"
  "WRITEUNLOCK_RW_SEMAPHORE self sid a = Returned (r, a') \<Longrightarrow> procs_inv a \<Longrightarrow> procs_inv a'"
  by (auto simp: READUNLOCK_RW_SEMAPHORE_def WRITEUNLOCK_RW_SEMAPHORE_def dest!: set_remove1_subset [THEN subsetD]
      intro!: procs_inv_lock_lists procs_inv_upd_rw split: if_splits)

lemma procs_inv_unlock_all:
  assumes "\<And>sid a r a'. service sid a = Returned (r, a') \<Longrightarrow> procs_inv a \<Longrightarrow> procs_inv a'"
  shows "unlock_all service sids a = Returned a' \<Longrightarrow> procs_inv a \<Longrightarrow> procs_inv a'"
  by (induction sids arbitrary: a) (auto simp: bind_outcome_Returned intro: assms split: if_splits)

lemma procs_inv_cleanup:
  assumes "Thread_cleanup_Handler pid a = Returned a'" "procs_inv a"
  shows "procs_inv a'"
proof -
  obtain a1 where 1: "unlock_all (READUNLOCK_RW_SEMAPHORE (thread_id (the_process pid a))) (READLOCKS (the_process pid a)) a = Returned a1"
    and 2: "unlock_all (WRITEUNLOCK_RW_SEMAPHORE (thread_id (the_process pid a))) (WRITELOCKS (the_process pid a1)) a1 = Returned a'"
    using assms(1) by (auto simp: Thread_cleanup_Handler_def Let_def bind_outcome_Returned)
  show ?thesis
    by (rule procs_inv_unlock_all [OF procs_inv_unlock(2) 2 procs_inv_unlock_all [OF procs_inv_unlock(1) 1 assms(2)]])
qed

text \<open>The steps of a stop.\<close>

lemma stop_process_steps:
  assumes "stop_process self now thread pid a = Returned a'"
  obtains a2 n a3 where
    "Thread_cleanup_Handler pid (set_state pid RESTARTING (set_state pid DORMANT (set_priority pid WORKER_THREAD_RESTART_PRIORITY a)))
       = Returned a2"
    "a3 = set_state pid DORMANT a2 \<or> (\<exists>t. a3 = create_thread pid t (set_state pid DORMANT a2))"
    "a' = set_priority pid n a3"
proof -
  let ?a1 = "set_state pid RESTARTING (set_state pid DORMANT (set_priority pid WORKER_THREAD_RESTART_PRIORITY a))"
  obtain a1 where a1: "PROCESS_restart self False now thread pid (set_state pid DORMANT (set_priority pid WORKER_THREAD_RESTART_PRIORITY a)) = Returned a1"
    and last: "a' = set_priority pid (BASE_PRIORITY (attribute (the_process pid a1))) a1"
    using assms(1) by (auto simp: stop_process_def PROCESS_stop_def Let_def bind_outcome_Returned)
  obtain a2 where "Thread_cleanup_Handler pid ?a1 = Returned a2"
    "(case thread of None \<Rightarrow> Returned (set_state pid DORMANT a2)
       | Some t \<Rightarrow> Returned (create_thread pid t (set_state pid DORMANT a2))) = Returned a1"
    using a1 unfolding PROCESS_restart_def Let_def
    by (cases "Thread_cleanup_Handler pid ?a1"; cases thread) (auto split: if_splits)
  then show ?thesis using last that by (cases thread) auto
qed

lemma procs_inv_stop:
  assumes "stop_process self now thread pid a = Returned a'" "procs_inv a"
  shows "procs_inv a'"
  using assms(1)
proof (rule stop_process_steps)
  fix a2 a3 n
  assume 1: "Thread_cleanup_Handler pid (set_state pid RESTARTING (set_state pid DORMANT (set_priority pid WORKER_THREAD_RESTART_PRIORITY a)))
       = Returned a2"
    and "a3 = set_state pid DORMANT a2 \<or> (\<exists>t. a3 = create_thread pid t (set_state pid DORMANT a2))"
    and "a' = set_priority pid n a3"
  moreover have "procs_inv a2" by (rule procs_inv_cleanup [OF 1]) (simp add: procs_inv_simple assms(2))
  ultimately show ?thesis by (auto simp: procs_inv_simple)
qed

lemma stop_dormant:
  assumes "stop_process self now thread pid a = Returned a'" "process_exists pid a"
  shows "state (the_process pid a') = DORMANT" "attribute (the_process pid a') = attribute (the_process pid a)"
    "ABSOLUTE_NEXT_SCHEDULED_TIME (descr pid a') = ABSOLUTE_NEXT_SCHEDULED_TIME (descr pid a)" "process_exists pid a'"
proof -
  let ?a1 = "set_state pid RESTARTING (set_state pid DORMANT (set_priority pid WORKER_THREAD_RESTART_PRIORITY a))"
  obtain a2 n a3 where 1: "Thread_cleanup_Handler pid ?a1 = Returned a2"
    and 2: "a3 = set_state pid DORMANT a2 \<or> (\<exists>t. a3 = create_thread pid t (set_state pid DORMANT a2))"
    "a' = set_priority pid n a3"
    using assms(1) by (rule stop_process_steps)
  have k: "keeps pid ?a1 a2" by (rule keeps_cleanup [OF 1])
  have v: "sched_view (descr pid a2) = sched_view (descr pid ?a1)" using k by (simp add: keeps_def)
  have ex: "process_exists pid a2" "process_exists pid ?a1"
    using keepsD(4) [OF k] assms(2) by (simp_all add: set_state_def set_priority_def)
  show "state (the_process pid a') = DORMANT" "attribute (the_process pid a') = attribute (the_process pid a)"
    "ABSOLUTE_NEXT_SCHEDULED_TIME (descr pid a') = ABSOLUTE_NEXT_SCHEDULED_TIME (descr pid a)" "process_exists pid a'"
    using 2 ex sched_view_eqD(4,5) [OF v] assms(2)
    by (auto simp: set_state_def set_priority_def create_thread_def THE_PROCESS_nth)
qed

lemma procs_inv_notify:
  "NOTIFY_PROCESS_FINISHED_STATUS L t pid resp a = Returned (r, a') \<Longrightarrow> procs_inv a \<Longrightarrow> procs_inv a'"
  using NOTIFY_frame [of L t pid resp a r a'] procs_inv_frame [of a a'] by simp

lemma procs_inv_raise: "raise_deadline_missed L e pid a = Returned a' \<Longrightarrow> procs_inv a \<Longrightarrow> procs_inv a'"
  using raise_frame [of L e pid a a'] procs_inv_frame [of a a'] by simp

lemma procs_inv_schedule_one:
  assumes "schedule_one L self e t pid a = Returned a'" "procs_inv a"
  shows "procs_inv a'"
proof -
  have d: "procs_inv (upd_descriptor pid f b)" if "procs_inv b" "\<And>d. THE_PROCESS (f d) = THE_PROCESS d" for f b
    using that by (rule procs_inv_upd_descriptor_fields)
  have reset: "procs_inv (APEX_HELPER_RESET_EVENT name b)" if "procs_inv b" for name b
    by (rule procs_inv_frame [OF that]) simp_all
  have init: "procs_inv (upd_process pid INITIALIZE_PROCESS_RESPONSE b)" if "procs_inv b" for b
    by (rule procs_inv_upd_process [OF that]) (simp_all add: INITIALIZE_PROCESS_RESPONSE_def)
  have start: "procs_inv (PROCESS_start pid b)" if "procs_inv b" for b
    using that by (simp add: PROCESS_start_def post_state_def procs_inv_simple reset)
  have rel: "procs_inv a'" if "release_process t pid a = Returned a'"
    using that assms(2)
    by (auto simp: release_process_def Let_def bind_outcome_Returned
        intro!: d start init procs_inv_simple split: if_splits)
  have hard: "procs_inv a'" if hv: "hard_violation L self e pid a = Returned a'"
  proof -
    obtain a1 r a3 where 1: "stop_process self (env_clock e) (env_thread e) pid a = Returned a1"
      and 2: "NOTIFY_PROCESS_FINISHED_STATUS L (env_nanos e)
          (process_id (the_process pid (upd_descriptor pid (\<lambda>d. d\<lparr>NEXT_SCHEDULING_INSTANCE := RELEASE_PROCESS\<rparr>) a1)))
          (HARD_DEADLINE_PROCESS_RESPONSE (env_response e))
          (upd_descriptor pid (\<lambda>d. d\<lparr>NEXT_SCHEDULING_INSTANCE := RELEASE_PROCESS\<rparr>) a1) = Returned (r, a3)"
      and 3: "raise_deadline_missed L e pid a3 = Returned a'"
      using hv by (auto simp: hard_violation_def Let_def bind_outcome_Returned)
    have "procs_inv a1" by (rule procs_inv_stop [OF 1 assms(2)])
    then have "procs_inv (upd_descriptor pid (\<lambda>d. d\<lparr>NEXT_SCHEDULING_INSTANCE := RELEASE_PROCESS\<rparr>) a1)" by (rule d) simp
    then show ?thesis by (rule procs_inv_raise [OF 3 procs_inv_notify [OF 2]])
  qed
  have soft: "procs_inv a'" if "soft_violation L e pid a = Returned a'"
    using that assms(2)
    by (auto simp: soft_violation_def Let_def bind_outcome_Returned d elim!: procs_inv_raise split: if_splits)
  show ?thesis using assms rel hard soft
    by (auto simp: schedule_one_def check_deadline_def Let_def intro!: d
        split: NEXT_SCHEDULING_INSTANCE_TYPE.splits if_splits)
qed

lemma procs_inv_schedule_loop:
  "schedule_loop L self env t pids a = Returned a' \<Longrightarrow> procs_inv a \<Longrightarrow> procs_inv a'"
  by (induction pids arbitrary: a) (auto simp: bind_outcome_Returned intro: procs_inv_schedule_one split: if_splits)


lemma in_phase_soft:
  assumes "soft_violation L e pid a = Returned a'" "procs_inv a" "process_exists pid a" "normalised (env_clock e)"
    "NEXT_SCHEDULING_INSTANCE (descr pid a) = CHECK_DEADLINE" "in_phase phi (descr pid a)"
  shows "in_phase phi (descr pid a')"
proof -
  obtain c where c: "addTimeNano (env_clock e) NANO = Some c"
    using assms(1) by (auto simp: soft_violation_def bind_outcome_Returned)
  let ?a1 = "upd_descriptor pid (\<lambda>d. d\<lparr>ABSOLUTE_CRITICAL_TIME := c\<rparr>) a" let ?p = "the_process pid a"
  have v: "in_phase phi (descr pid b) \<Longrightarrow> raise_deadline_missed L e pid b = Returned a' \<Longrightarrow> in_phase phi (descr pid a')" for b
    using raise_frame [of L e pid b a'] by simp
  show ?thesis
  proof (cases "isPeriodic ?p")
    case False
    then show ?thesis
      using assms(1,3) c v [of ?a1] by (simp add: soft_violation_def Let_def THE_PROCESS_nth in_phase_def)
  next
    case True
    let ?P = "PERIOD (attribute ?p)" and ?n = "ABSOLUTE_NEXT_SCHEDULED_TIME (descr pid a)"
    have "process_ok a pid" by (rule procs_inv_nth [OF assms(2,3)])
    then have P: "0 < ?P" "?P \<le> MAX_TIME_OUT"
      using attributes_ok_times(2) [of "attribute ?p"] True by (simp_all add: process_ok_def isPeriodic_def)
    have ph: "normalised ?n" "?P dvd convertTimeSpecToNano ?n - phi"
      using assms(6) True by (simp_all add: in_phase_def THE_PROCESS_nth)
    have cn: "normalised c"
      by (rule addTimeNano_normalised [OF c assms(4)]) (use assms(4) in \<open>simp add: normalised_def NANO_def\<close>)
    obtain k t where t: "catch_up ?n ?P c = Some (Returned t)" "normalised t"
      "convertTimeSpecToNano t = convertTimeSpecToNano ?n + int k * ?P"
      using catch_up_ends [OF P cn ph(1)] by blast
    let ?a2 = "upd_descriptor pid (\<lambda>d. d\<lparr>ABSOLUTE_NEXT_SCHEDULED_TIME := t\<rparr>) ?a1"
    have raised: "raise_deadline_missed L e pid ?a2 = Returned a'"
      using assms(1,3) c t(1) True by (simp add: soft_violation_def Let_def THE_PROCESS_nth)
    have "convertTimeSpecToNano t - phi = (convertTimeSpecToNano ?n - phi) + int k * ?P" using t(3) by simp
    then have "?P dvd convertTimeSpecToNano t - phi" using ph(2) by (metis dvd_add dvd_triv_right)
    then have "in_phase phi (descr pid ?a2)"
      using assms(3,5) t(2) by (simp add: in_phase_def THE_PROCESS_nth)
    then show ?thesis using raised by (rule v)
  qed
qed

lemma in_phase_hard:
  assumes "hard_violation L self e pid a = Returned a'" "process_exists pid a" "in_phase phi (descr pid a)"
  shows "in_phase phi (descr pid a')"
proof -
  let ?f = "\<lambda>d :: PROCESS_DESCRIPTOR. d\<lparr>NEXT_SCHEDULING_INSTANCE := RELEASE_PROCESS\<rparr>"
  obtain a1 r a3 where 1: "stop_process self (env_clock e) (env_thread e) pid a = Returned a1"
    and 2: "NOTIFY_PROCESS_FINISHED_STATUS L (env_nanos e) (process_id (the_process pid (upd_descriptor pid ?f a1)))
        (HARD_DEADLINE_PROCESS_RESPONSE (env_response e)) (upd_descriptor pid ?f a1) = Returned (r, a3)"
    and 3: "raise_deadline_missed L e pid a3 = Returned a'"
    using assms(1) by (auto simp: hard_violation_def Let_def bind_outcome_Returned)
  have "PROCESS_DESCRIPTOR_VECTOR a' = PROCESS_DESCRIPTOR_VECTOR (upd_descriptor pid ?f a1)"
    using NOTIFY_frame [OF 2] raise_frame [OF 3] by simp
  then have "descr pid a' = ?f (descr pid a1)" using stop_dormant(4) [OF 1 assms(2)] by simp
  moreover have "in_phase phi (?f (descr pid a1))"
    by (rule in_phase_dormant [OF assms(3)]) (use stop_dormant [OF 1 assms(2)] in \<open>simp_all add: THE_PROCESS_nth\<close>)
  ultimately show ?thesis by simp
qed

lemma in_phase_schedule_one:
  assumes "schedule_one L self e t pid a = Returned a'" "procs_inv a" "process_exists pid a" "normalised (env_clock e)"
    "in_phase phi (descr pid a)"
  shows "in_phase phi (descr pid a')"
proof (cases "NEXT_SCHEDULING_INSTANCE (descr pid a)")
  case RELEASE_PROCESS
  then show ?thesis using assms in_phase_release by (simp add: schedule_one_def)
next
  case CHECK_DEADLINE
  then have "check_deadline L self e pid a = Returned a'" using assms(1) by (simp add: schedule_one_def)
  moreover have "in_phase phi (descr pid a')"
    if "a' = upd_descriptor pid (\<lambda>d. d\<lparr>NEXT_SCHEDULING_INSTANCE := RELEASE_PROCESS\<rparr>)
        (if state (the_process pid a) = WAITING_ON_PERIOD
         then upd_descriptor pid (\<lambda>d. d\<lparr>ABSOLUTE_CRITICAL_TIME := ABSOLUTE_NEXT_SCHEDULED_TIME d\<rparr>) a else a)"
      "state (the_process pid a) = DORMANT \<or> state (the_process pid a) = WAITING_ON_PERIOD"
    using that assms(3,5) by (auto simp: in_phase_def THE_PROCESS_nth split: if_splits)
  ultimately show ?thesis
    using in_phase_hard [of L self e pid a a' phi] in_phase_soft [of L e pid a a' phi] assms(2-5) CHECK_DEADLINE
    by (auto simp: check_deadline_def Let_def split: if_splits)
qed

lemma in_phase_schedule_loop:
  assumes "schedule_loop L self env t pids a = Returned a'" "procs_inv a" "process_exists i a"
    "\<forall>p. normalised (env_clock (env p))" "in_phase phi (descr i a)"
  shows "in_phase phi (descr i a')"
  using assms
proof (induction pids arbitrary: a)
  case (Cons pid pids)
  show ?case
  proof (cases "compareTime (ABSOLUTE_CRITICAL_TIME (descr pid a)) t")
    case True
    then obtain a1 where 1: "schedule_one L self (env pid) t pid a = Returned a1"
      and 2: "schedule_loop L self env t pids a1 = Returned a'"
      using Cons.prems(1) by (auto simp: bind_outcome_Returned)
    have "in_phase phi (descr i a1) \<and> process_exists i a1"
    proof (cases "i = pid")
      case True
      have "process_exists pid a1"
        using 1 Cons.prems(2,3) keeps_schedule_one [OF 1, of "Suc pid"] by (simp add: keeps_def process_exists_def True)
      then show ?thesis using in_phase_schedule_one [OF 1] Cons.prems True by simp
    next
      case False
      have k: "keeps i a a1" by (rule keeps_schedule_one [OF 1 False])
      show ?thesis using in_phase_keeps [OF k] keepsD(4) [OF k] Cons.prems by simp
    qed
    then show ?thesis
      by (intro Cons.IH [OF 2]) (use procs_inv_schedule_one [OF 1] Cons.prems in simp_all)
  qed (use Cons.prems in simp)
qed simp

declare RunPartitionScheduler_loop.simps [simp del]

text \<open>The wait of the scheduler touches its event only, but for what the others do.\<close>

lemma scheduler_wait:
  assumes "APEX_SCHEDULER_WAIT_ABSOLUTE_TIME tv ws a = Returned (r, a')" "inva a"
    "\<And>w x. w \<in> set ws \<Longrightarrow> inva x \<Longrightarrow> inva (apply_wakeup w x)"
    "\<And>x e. inva x \<Longrightarrow> inva (x\<lparr>APEX_SCHEDULING_EVENT := e\<rparr>)"
  shows "inva a'"
proof -
  obtain rc a1 where 1: "EVENT_wait_until APEX_SCHEDULING_EVENT APEX_SCHEDULING_EVENT_update tv ws a = Returned (rc, a1)"
    and 2: "a' = a1 \<or> a' = a1\<lparr>APEX_SCHEDULING_EVENT := snd (EVENT_reset (APEX_SCHEDULING_EVENT a1))\<rparr>"
    using assms(1) by (auto simp: APEX_SCHEDULER_WAIT_ABSOLUTE_TIME_def bind_outcome_Returned split: if_splits)
  have dec: "inva (APEX_SCHEDULING_EVENT_update dec_count x)" if "inva x" for x
  proof -
    have eq: "x\<lparr>APEX_SCHEDULING_EVENT := dec_count (APEX_SCHEDULING_EVENT x)\<rparr> = APEX_SCHEDULING_EVENT_update dec_count x"
      by (cases x) simp
    show ?thesis using assms(4) [OF that, of "dec_count (APEX_SCHEDULING_EVENT x)"] unfolding eq .
  qed
  have "inva a1"
    by (rule EVENT_wait_until_Returned [where I = inva, OF 1 assms(2) assms(3)]) (simp_all only: dec)
  then show ?thesis using 2 assms(4) [of a1] by blast
qed

context sort_contract
begin

lemma pass_invariant:
  assumes "scheduler_pass L srt self e a = Returned a'" "procs_inv a"
    "\<And>w x. w \<in> set (pass_wakeups e) \<Longrightarrow> procs_inv x \<Longrightarrow> procs_inv (apply_wakeup w x)"
  shows "procs_inv a'"
proof -
  have s: "procs_inv (sortProcessDescriptorVector srt a)" by (rule procs_inv_sort [OF assms(2)])
  have wait: "procs_inv a2"
    if "APEX_SCHEDULER_WAIT_ABSOLUTE_TIME tv (pass_wakeups e) (sortProcessDescriptorVector srt a) = Returned (r, a2)" for tv r a2
    by (rule scheduler_wait [where inva = procs_inv, OF that s assms(3)]) (auto intro: procs_inv_simple)
  show ?thesis using assms(1) wait
    by (auto simp: scheduler_pass_def Let_def bind_outcome_Returned intro: procs_inv_schedule_loop split: if_splits)
qed

lemma loop_invariant:
  "RunPartitionScheduler_loop L srt self es a = Returned a' \<Longrightarrow> procs_inv a \<Longrightarrow>
   \<forall>e\<in>set es. \<forall>w\<in>set (pass_wakeups e). \<forall>x. procs_inv x \<longrightarrow> procs_inv (apply_wakeup w x) \<Longrightarrow> procs_inv a'"
proof (induction es arbitrary: a)
  case Nil
  then show ?case by (subst (asm) RunPartitionScheduler_loop.simps) (auto split: if_splits)
next
  case (Cons e es)
  show ?case
  proof (cases "CURRENT_OPERATING_MODE a = NORMAL \<and> \<not> flagToTerminate a")
    case False
    then show ?thesis using Cons.prems(1,2) by (subst (asm) RunPartitionScheduler_loop.simps) auto
  next
    case True
    then obtain a1 where 1: "scheduler_pass L srt self e a = Returned a1"
      and 2: "RunPartitionScheduler_loop L srt self es a1 = Returned a'"
      using Cons.prems(1) by (subst (asm) RunPartitionScheduler_loop.simps) (auto simp: bind_outcome_Returned)
    have "procs_inv a1" by (rule pass_invariant [OF 1]) (use Cons.prems(2,3) in auto)
    then show ?thesis using 2 Cons.prems(3) by (intro Cons.IH) auto
  qed
qed

text \<open>A pass that sleeps to the end: every process whose release is due at the time it wakes up is
  released.\<close>

lemma pass_releases:
  assumes run: "scheduler_pass L srt self e a = Returned a'" and quiet: "pass_wakeups e = [Expired (\<lambda>x. x)]"
    and inv: "procs_inv a" and down: "EVENT_STATE (APEX_SCHEDULING_EVENT a) = DOWN"
    and work: "\<not> nothing_to_do (sortProcessDescriptorVector srt a)"
    and pid: "process_exists pid a" "compareTime (ABSOLUTE_CRITICAL_TIME (descr pid a)) (pass_woken e)"
      "NEXT_SCHEDULING_INSTANCE (descr pid a) = RELEASE_PROCESS"
      "state (the_process pid a) = WAITING_ON_PERIOD \<or> state (the_process pid a) = READY"
  shows "is_released (descr pid a) (descr pid a')"
proof -
  let ?s = "sortProcessDescriptorVector srt a" let ?v = "PROCESS_SCHEDULING_SORTED_VECTOR ?s"
  let ?tv = "ABSOLUTE_CRITICAL_TIME (descr (hd ?v) ?s)"
  obtain timed_out a2 where wait: "APEX_SCHEDULER_WAIT_ABSOLUTE_TIME ?tv (pass_wakeups e) ?s = Returned (timed_out, a2)"
    and a': "(if \<not> timed_out then Returned a2
       else schedule_loop L self (pass_checks e) (pass_woken e) (PROCESS_SCHEDULING_SORTED_VECTOR a2) a2) = Returned a'"
    using run work by (auto simp: scheduler_pass_def Let_def bind_outcome_Returned split del: if_split)
  have ev: "EVENT_STATE (APEX_SCHEDULING_EVENT ?s) = DOWN" using down by (simp add: sortProcessDescriptorVector_def)
  have a2: "timed_out" "a2 = APEX_SCHEDULING_EVENT_update dec_count ?s"
    using wait quiet ev
    by (cases "normalised ?tv"; simp add: APEX_SCHEDULER_WAIT_ABSOLUTE_TIME_def EVENT_wait_until_def)+
  have d: "PROCESS_DESCRIPTOR_VECTOR a2 = PROCESS_DESCRIPTOR_VECTOR a" "PROCESS_SCHEDULING_SORTED_VECTOR a2 = ?v"
    by (simp_all add: a2(2))
  have p: "the_process i a2 = the_process i a" for i using d by (simp add: the_process_def)
  have ms: "mset ?v = mset [0..<length (PROCESS_DESCRIPTOR_VECTOR a)]"
    using procs_inv_sort [OF inv] by (simp add: procs_inv_def)
  have "distinct ?v" using ms by (metis distinct_upt mset_eq_imp_distinct_iff)
  moreover have "set ?v = set [0..<length (PROCESS_DESCRIPTOR_VECTOR a)]" using ms by (rule mset_eq_setD)
  then have "pid \<in> set ?v" using pid(1) by (simp add: process_exists_def)
  moreover have "before a2 = before a" using d p by (simp add: before_def fun_eq_iff)
  then have "sorted_wrt (before a2) ?v" using sorted_vector [of a] by simp
  ultimately have "is_released (descr pid a2) (descr pid a')"
    using a' a2(1) d p pid
    by (intro schedule_loop_releases [where pids = ?v and L = L and self = self and env = "pass_checks e" and t = "pass_woken e"])
      (simp_all add: process_exists_def)
  then show ?thesis using d by simp
qed

end

end
