(* ===== verification/Demo.thy ===== *)
theory Demo
  imports SchedulerProperties
begin

text \<open>A small partition on which the properties are applied to concrete inputs: two processes, 0 with
  a period of 50 ms and a capacity of 20 ms and 1 with one of 100 ms and a soft deadline, each with
  its notification blackboard, one readers-writers lock that process 0 holds for reading, and a layout
  whose structures have four bytes.\<close>

definition demo_attribute :: "SYSTEM_TIME_TYPE \<Rightarrow> DEADLINE_TYPE \<Rightarrow> NAME_TYPE \<Rightarrow> PROCESS_ATTRIBUTE_TYPE" where
  "demo_attribute period deadline name =
     \<lparr>PERIOD = period, TIME_CAPACITY = 20000000, ENTRY_POINT = 1, STACK_SIZE = 4096,
      BASE_PRIORITY = 90, DEADLINE = deadline, PROCESS_NAME = name\<rparr>"

definition demo_hm_response :: HM_RESPONSE_TYPE where
  "demo_hm_response =
     \<lparr>HM_ERROR_CODE = APPLICATION_ERROR, HM_TIMEOFMESSAGE = 0, HM_MESSAGE_LENGTH = 0,
      HM_MESSAGE_DISCRIMINATOR = STRING_MESSAGE, HM_MESSAGE = [], HM_ACTION = HM_IGNORE\<rparr>"

definition demo_response :: PROCESS_RESPONSE_TYPE where
  "demo_response =
     \<lparr>RESPONSE_NO_ERROR = True, RESPONDING_ENTITY = BY_PROCESS, TIMEOFMESSAGE = 0,
      ERROR_RESPONSE = demo_hm_response\<rparr>"

definition demo_process :: "nat \<Rightarrow> PROCESS_ATTRIBUTE_TYPE \<Rightarrow> PROCESS_state \<Rightarrow> nat list \<Rightarrow> PROCESS" where
  "demo_process pid attr s locks =
     \<lparr>thread_id = pid, process_id = pid, attribute = attr, state = s, sem_state = SEMAPHORE_new 0 1,
      PROCESS_RESPONSE = demo_response, READLOCKS = locks, WRITELOCKS = [], delayed_start_flag = False,
      absolute_delay_start_time = \<lparr>tv_sec = 0, tv_nsec = 0\<rparr>, thread_priority = 90\<rparr>"

definition demo_descriptor ::
  "PROCESS \<Rightarrow> NEXT_SCHEDULING_INSTANCE_TYPE \<Rightarrow> SYSTEM_TIMESPEC \<Rightarrow> SYSTEM_TIMESPEC \<Rightarrow> PROCESS_DESCRIPTOR" where
  "demo_descriptor p inst critical next =
     \<lparr>ABSOLUTE_CRITICAL_TIME = critical, SUSPENSION_EVENT = EVENT_new ''SUSPENSION'', THE_PROCESS = p,
      NEXT_SCHEDULING_INSTANCE = inst, ABSOLUTE_PREV_START_TIME = \<lparr>tv_sec = 0, tv_nsec = 0\<rparr>,
      ABSOLUTE_NEXT_SCHEDULED_TIME = next, DEADLINE_TIME = critical, INITIAL_DELAY_TIME = 0,
      CURRENT_PRIORITY = 90, HM_DESCRIPTOR_ID = -1, IS_HEALTH_MANAGER = False,
      HM_RESPONSE_BOARD_ID = 0, PROCESS_NOTIFICATION_RESPONSE_BOARD_ID = process_id p\<rparr>"

definition demo_board :: "nat \<Rightarrow> APEX_BLACKBOARD_TYPE" where
  "demo_board i =
     \<lparr>BLACKBOARD_EVENT_ID = i, BLACKBOARD_NAME = ''RESPONSE_'' @ decimal i, BLACKBOARD_ID = i,
      BB_MAX_MESSAGE_SIZE = 4, BB_CURRENT_MESSAGE_SIZE = 0, BB_PAYLOAD = [48, 48, 48, 48]\<rparr>"

definition demo_with :: "PROCESS_state \<Rightarrow> PROCESS_state \<Rightarrow> NEXT_SCHEDULING_INSTANCE_TYPE \<Rightarrow> APEX" where
  "demo_with s0 s1 inst =
     APEX_new\<lparr>CURRENT_OPERATING_MODE := NORMAL,
       PROCESS_DESCRIPTOR_VECTOR :=
         [demo_descriptor (demo_process 0 (demo_attribute 50000000 HARD ''P0'') s0 [0]) inst
            \<lparr>tv_sec = 100, tv_nsec = 0\<rparr> \<lparr>tv_sec = 100, tv_nsec = 0\<rparr>,
          demo_descriptor (demo_process 1 (demo_attribute 100000000 SOFT ''P1'') s1 []) inst
            \<lparr>tv_sec = 100, tv_nsec = 50000000\<rparr> \<lparr>tv_sec = 100, tv_nsec = 50000000\<rparr>],
       PROCESS_SCHEDULING_SORTED_VECTOR := [1, 0], PROCESS_ID_TO_PTHREAD_ID_MAP := [0, 1],
       EVENT_VECTOR := [EVENT_new ''RESPONSE_0'', EVENT_new ''RESPONSE_1''],
       BLACKBOARD_VECTOR := [demo_board 0, demo_board 1],
       RW_LOCK_SEM_VECTOR := [readunlock (RW_LOCK_SEM_new ''LOCK'' 2)]\<rparr>"

abbreviation demo :: APEX where
  "demo \<equiv> demo_with WAITING_ON_PERIOD WAITING_ON_PERIOD RELEASE_PROCESS"

definition demo_layout :: layout where
  "demo_layout =
     \<lparr>ERROR_STATUS_bytes = (\<lambda>x. replicate 4 1),
      ERROR_STATUS_of = (\<lambda>bs. \<lparr>ES_ERROR_CODE = APPLICATION_ERROR, ES_LENGTH = 0, FAILED_PROCESS_ID = 0, ES_MESSAGE = []\<rparr>),
      HM_RESPONSE_bytes = (\<lambda>x. replicate 4 2), HM_RESPONSE_of = (\<lambda>bs. demo_hm_response),
      PROCESS_RESPONSE_bytes = (\<lambda>x. replicate 4 3),
      sizeof_ERROR_STATUS = 4, sizeof_HM_RESPONSE = 4, sizeof_PROCESS_RESPONSE = 4\<rparr>"

lemmas demo_defs = demo_with_def demo_attribute_def demo_process_def demo_descriptor_def demo_board_def
  demo_response_def APEX_new_def EVENT_new_def SEMAPHORE_new_def

lemma demo_vectors [simp]:
  "length (PROCESS_DESCRIPTOR_VECTOR (demo_with s0 s1 i)) = 2" "length (BLACKBOARD_VECTOR (demo_with s0 s1 i)) = 2"
  "length (EVENT_VECTOR (demo_with s0 s1 i)) = 2" "length (RW_LOCK_SEM_VECTOR (demo_with s0 s1 i)) = 1"
  "PROCESS_SCHEDULING_SORTED_VECTOR (demo_with s0 s1 i) = [1, 0]"
  "PROCESS_ID_TO_PTHREAD_ID_MAP (demo_with s0 s1 i) = [0, 1]"
  "CURRENT_OPERATING_MODE (demo_with s0 s1 i) = NORMAL"
  by (simp_all add: demo_defs)

lemma demo_process_exists [simp]:
  "process_exists 0 (demo_with s0 s1 i)" "process_exists (Suc 0) (demo_with s0 s1 i)"
  by (simp_all add: process_exists_def)

definition demo_process_of :: "PROCESS_state \<Rightarrow> PROCESS_state \<Rightarrow> nat \<Rightarrow> PROCESS" where
  "demo_process_of s0 s1 pid =
     (if pid = 0 then demo_process 0 (demo_attribute 50000000 HARD ''P0'') s0 [0]
      else demo_process 1 (demo_attribute 100000000 SOFT ''P1'') s1 [])"

lemma demo_descr [simp]:
  "descr 0 (demo_with s0 s1 i) = demo_descriptor (demo_process_of s0 s1 0) i
     \<lparr>tv_sec = 100, tv_nsec = 0\<rparr> \<lparr>tv_sec = 100, tv_nsec = 0\<rparr>"
  "descr (Suc 0) (demo_with s0 s1 i) = demo_descriptor (demo_process_of s0 s1 1) i
     \<lparr>tv_sec = 100, tv_nsec = 50000000\<rparr> \<lparr>tv_sec = 100, tv_nsec = 50000000\<rparr>"
  "the_process 0 (demo_with s0 s1 i) = demo_process_of s0 s1 0"
  "the_process (Suc 0) (demo_with s0 s1 i) = demo_process_of s0 s1 1"
  "board 0 (demo_with s0 s1 i) = demo_board 0" "board (Suc 0) (demo_with s0 s1 i) = demo_board (Suc 0)"
  by (simp_all add: the_process_def demo_with_def demo_process_of_def demo_descriptor_def APEX_new_def)

lemma demo_attribute_ok [simp]: "attributes_ok (demo_attribute 50000000 d n)" "attributes_ok (demo_attribute 100000000 d n)"
  by (simp_all add: demo_attribute_def attributes_ok_def PARTITION_PROCESS_LOWPRIORITY_def
      PARTITION_PROCESS_HIGHPRIORITY_def MINIMUM_TIME_CAPACITY_def INFINITE_TIME_VALUE_def MAX_TIME_OUT_def NANO_def)

lemma demo_process_ok: "process_ok (demo_with s0 s1 i) 0" "process_ok (demo_with s0 s1 i) (Suc 0)"
  by (simp_all add: process_ok_def demo_process_of_def) (simp_all add: demo_process_def)

lemma upt_2: "[0..<2] = [0, 1]"
  by (simp add: upt_rec)

lemma demo_procs_inv [simp]: "procs_inv (demo_with s0 s1 i)"
proof -
  have "process_ok (demo_with s0 s1 i) pid" if "pid < length (PROCESS_DESCRIPTOR_VECTOR (demo_with s0 s1 i))" for pid
    using that demo_process_ok [of s0 s1 i] by (auto simp: less_2_cases_iff)
  then show ?thesis by (simp add: procs_inv_def upt_2 del: mset_upt)
qed

lemma demo_boards_inv [simp]: "boards_inv (demo_with s0 s1 i)"
  by (simp add: boards_inv_def board_ok_def demo_defs)

lemma demo_layout_laws [simp]: "layout_laws demo_layout"
  by (simp add: layout_laws_def demo_layout_def)

lemma demo_thread [simp]: "is_thread_of 0 0 (demo_with s0 s1 i)" "is_thread_of (Suc 0) (Suc 0) (demo_with s0 s1 i)"
  by (simp_all add: is_thread_of_def GET_MY_ID_def demo_process_of_def) (simp_all add: demo_process_def)

lemma demo_layout_sizes [simp]:
  "sizeof_ERROR_STATUS demo_layout = 4" "sizeof_HM_RESPONSE demo_layout = 4" "sizeof_PROCESS_RESPONSE demo_layout = 4"
  by (simp_all add: demo_layout_def)

lemma demo_locks: "RW_LOCK_SEM_VECTOR (demo_with s0 s1 i) = [readunlock (RW_LOCK_SEM_new ''LOCK'' 2)]"
  by (simp add: demo_with_def)

lemma is_thread_of_upd:
  "(\<And>p. thread_id (f p) = thread_id p) \<Longrightarrow> is_thread_of self i (upd_process pid f a) = is_thread_of self i a"
  by (simp add: is_thread_of_def)

lemma demo_not_terminated: "\<not> flagToTerminate (demo_with s0 s1 i)"
  by (simp add: demo_with_def APEX_new_def)

text \<open>The partition with process 1 as a health manager at which process 0 is registered: its buffer
  holds 20 errors and the response board of process 0 is board 2.\<close>

definition demo_hm_buffer :: APEX_BUFFER_TYPE where
  "demo_hm_buffer = BUFFER_new ''P1_HMB'' 0 4 20 (replicate 20 \<lparr>ACTUAL_LOAD = [0, 0, 0, 0], MSG_LENGTH = 0\<rparr>)"

definition demo_associations :: "PROC_HM_ASSOCIATION_TYPE list" where
  "demo_associations = \<lparr>HMA_PROCESS_ID = 0, HMA_BLACKBOARD_ID = 2\<rparr> # replicate 127 \<lparr>HMA_PROCESS_ID = 0, HMA_BLACKBOARD_ID = 0\<rparr>"

definition demo_hm :: APEX where
  "demo_hm =
     (upd_descriptor 1 (\<lambda>d. d\<lparr>IS_HEALTH_MANAGER := True\<rparr>)
       (upd_descriptor 0 (\<lambda>d. d\<lparr>HM_DESCRIPTOR_ID := 0, HM_RESPONSE_BOARD_ID := 2\<rparr>) (demo_with RUNNING RUNNING CHECK_DEADLINE)))
     \<lparr>EVENT_VECTOR := [EVENT_new ''RESPONSE_0'', EVENT_new ''RESPONSE_1'', EVENT_new ''Process0''],
      BLACKBOARD_VECTOR := [demo_board 0, demo_board 1, (demo_board 2)\<lparr>BLACKBOARD_NAME := ''Process'' @ decimal 0\<rparr>],
      BUFFER_VECTOR := [demo_hm_buffer],
      HM_VECTOR := [\<lparr>HM_PROCESS_ID = 1, HM_BUFFER_ID = 0, PROC_HM_ASSOCIATION = demo_associations,
                     CURRENTLY_REGISTERED_PROCS = 0\<rparr>]\<rparr>"

lemma demo_hm_buffer [simp]:
  "ring_inv demo_hm_buffer" "buffer_sems 0 0 demo_hm_buffer" "buffer_contents demo_hm_buffer = []"
  "BUFFER_MAX_MESSAGE_SIZE demo_hm_buffer = 4"
proof -
  have "ring_inv demo_hm_buffer \<and> buffer_contents demo_hm_buffer = []"
    unfolding demo_hm_buffer_def by (rule ring_inv_new) simp_all
  then show "ring_inv demo_hm_buffer" "buffer_contents demo_hm_buffer = []" by simp_all
  show "buffer_sems 0 0 demo_hm_buffer" unfolding demo_hm_buffer_def by (rule buffer_sems_new) simp
  show "BUFFER_MAX_MESSAGE_SIZE demo_hm_buffer = 4" by (simp add: demo_hm_buffer_def BUFFER_new_def)
qed

lemma demo_hm_invs [simp]: "boards_inv demo_hm" "buffers_inv demo_hm"
  by (simp_all add: demo_hm_def boards_inv_def board_ok_def demo_board_def buffers_inv_def SYSTEM_LIMIT_NUMBER_OF_BUFFERS_def)

lemma demo_hm_served: "served demo_layout 0 0 0 2 demo_hm"
proof -
  have "descr 0 demo_hm = (descr 0 (demo_with RUNNING RUNNING CHECK_DEADLINE))\<lparr>HM_DESCRIPTOR_ID := 0, HM_RESPONSE_BOARD_ID := 2\<rparr>"
    by (simp add: demo_hm_def upd_descriptor_def demo_with_def APEX_new_def)
  moreover have "process_exists 0 demo_hm" by (simp add: demo_hm_def process_exists_def)
  ultimately show ?thesis
    by (simp add: served_def hm_ok_def registered_def)
      (simp add: demo_hm_def demo_associations_def demo_board_def MAX_HM_PROC_RELATIONSHIPS_def)
qed

lemma demo_hm_self: "HM_GET_MY_DESCRIPTOR_ID 1 demo_hm = (NO_ERROR, Some 0)"
  by code_simp

lemma demo_layout_status:
  "ERROR_STATUS_of demo_layout bs = \<lparr>ES_ERROR_CODE = APPLICATION_ERROR, ES_LENGTH = 0, FAILED_PROCESS_ID = 0, ES_MESSAGE = []\<rparr>"
  by (simp add: demo_layout_def)

lemma demo_events: "EVENT_VECTOR (demo_with s0 s1 i) = [EVENT_new ''RESPONSE_0'', EVENT_new ''RESPONSE_1'']"
  by (simp add: demo_with_def)

end
