(* ===== verification/SchedulingTheorems.thy ===== *)
theory SchedulingTheorems
  imports Demo
begin

text \<open>What the partition scheduler guarantees, for the \<open>std::sort\<close> of the C++ library as theory StdSort
  models it; each theorem is applied to the partition of theory Demo.\<close>

section \<open>The whole run\<close>




definition demo_check :: check_env where
  "demo_check =
     \<lparr>env_clock = \<lparr>tv_sec = 100, tv_nsec = 50000000\<rparr>, env_nanos = 100050000000, env_thread = None,
      env_response = demo_response,
      env_status = \<lparr>ES_ERROR_CODE = APPLICATION_ERROR, ES_LENGTH = 0, FAILED_PROCESS_ID = 0, ES_MESSAGE = []\<rparr>,
      env_wakeups = []\<rparr>"







section \<open>One pass\<close>


lemma demo_sorted: "PROCESS_SCHEDULING_SORTED_VECTOR (sortProcessDescriptorVector insertion_sort demo) = [0, 1]"
  by code_simp





text \<open>After sorting, the head of the scheduling vector is a process with the earliest critical time of all
  processes that are not dormant: it is not dormant itself and no later than any of them.  The scheduler
  waits for exactly this time.\<close>

theorem earliest_critical_first:
  assumes "procs_inv a" "process_exists pid a" "state (the_process pid a) \<noteq> DORMANT"
    "h = hd (PROCESS_SCHEDULING_SORTED_VECTOR (sortProcessDescriptorVector insertion_sort a))"
  shows "state (the_process h a) \<noteq> DORMANT \<and>
    compareTime (ABSOLUTE_CRITICAL_TIME (descr h a)) (ABSOLUTE_CRITICAL_TIME (descr pid a))"
proof -
  have "set (PROCESS_SCHEDULING_SORTED_VECTOR a) = {0..<length (PROCESS_DESCRIPTOR_VECTOR a)}"
    using assms(1) unfolding procs_inv_def by (metis mset_eq_setD set_upt)
  then have "pid \<in> set (PROCESS_SCHEDULING_SORTED_VECTOR a)"
    using assms(2) by (simp add: process_exists_def)
  then show ?thesis using std_sort.head_earliest [OF _ assms(3)] assms(4) by (simp add: Let_def)
qed

theorem earliest_critical_first_witness:
  "compareTime (ABSOLUTE_CRITICAL_TIME (descr 0 demo)) (ABSOLUTE_CRITICAL_TIME (descr 1 demo))"
  using earliest_critical_first [of demo 1 0]
  by (simp add: demo_sorted) (simp add: demo_process_of_def demo_process_def)

text \<open>The pass changes nothing in the schedule of a process that is not yet due: critical time, state,
  next instance, priorities, release time, deadline, semaphore and response are as before.\<close>

theorem pass_leaves_not_due:
  assumes "schedule_loop L self env t pids a = Returned a'"
    "\<not> compareTime (ABSOLUTE_CRITICAL_TIME (descr i a)) t"
  shows "ABSOLUTE_CRITICAL_TIME (descr i a') = ABSOLUTE_CRITICAL_TIME (descr i a) \<and>
    state (the_process i a') = state (the_process i a) \<and>
    NEXT_SCHEDULING_INSTANCE (descr i a') = NEXT_SCHEDULING_INSTANCE (descr i a) \<and>
    sched_view (descr i a') = sched_view (descr i a)"
  using keepsD [OF schedule_loop_not_due [OF assms]] schedule_loop_not_due [OF assms] by (simp add: keeps_def)

lemma demo_loop_value:
  "case schedule_loop demo_layout 9 (\<lambda>_. demo_check) \<lparr>tv_sec = 100, tv_nsec = 10\<rparr> [0, 1] demo of
     Returned a \<Rightarrow> state (the_process 0 a) = RUNNING | _ \<Rightarrow> False"
  by code_simp

theorem pass_leaves_not_due_witness:
  "\<exists>a'. schedule_loop demo_layout 9 (\<lambda>_. demo_check) \<lparr>tv_sec = 100, tv_nsec = 10\<rparr> [0, 1] demo = Returned a' \<and>
     state (the_process 0 a') = RUNNING \<and> state (the_process 1 a') = WAITING_ON_PERIOD"
proof -
  let ?run = "schedule_loop demo_layout 9 (\<lambda>_. demo_check) \<lparr>tv_sec = 100, tv_nsec = 10\<rparr> [0, 1] demo"
  obtain a' where run: "?run = Returned a'" and 0: "state (the_process 0 a') = RUNNING"
    using demo_loop_value by (cases ?run) auto
  have "state (the_process 1 a') = WAITING_ON_PERIOD"
    using pass_leaves_not_due [OF run, of 1]
    by (simp add: demo_descriptor_def compareTime_def demo_process_of_def demo_process_def)
  with run 0 show ?thesis by blast
qed

section \<open>One process\<close>

text \<open>Releasing a process that waits for its period or is ready never fails an assertion (the attributes
  accepted by CREATE\_PROCESS keep the time arithmetic below MAX\_TIME\_OUT) and leaves it released as
  \<open>is_released\<close> says.\<close>

theorem release_total:
  assumes "procs_inv a" "process_exists pid a"
    "state (the_process pid a) = WAITING_ON_PERIOD \<or> state (the_process pid a) = READY"
  shows "\<exists>a'. release_process current_time pid a = Returned a' \<and> is_released (descr pid a) (descr pid a')"
  using release_process_defined [OF assms(1,2), of current_time] release_process_Returned [OF _ assms(2,3)] by blast

theorem release_total_witness:
  "\<exists>a'. release_process \<lparr>tv_sec = 100, tv_nsec = 10\<rparr> 0 demo = Returned a' \<and> is_released (descr 0 demo) (descr 0 a')"
  by (rule release_total) (simp_all add: demo_process_of_def demo_process_def)

text \<open>C3. Periodic processes do not drift: whatever deadlines are met or missed, the pass keeps the release
  point of every periodic process at a whole number of periods from its phase (and normalised), and a
  process that is not dormant and waits for its release waits for exactly that point.\<close>

theorem periodic_release_points:
  assumes "schedule_loop L self env t pids a = Returned a'" "procs_inv a" "process_exists i a"
    "\<forall>p. normalised (env_clock (env p))" "in_phase phi (descr i a)"
  shows "in_phase phi (descr i a')"
  by (rule in_phase_schedule_loop [OF assms])

theorem periodic_release_points_witness:
  "\<exists>a'. schedule_loop demo_layout 9 (\<lambda>_. demo_check) \<lparr>tv_sec = 100, tv_nsec = 10\<rparr> [0, 1] demo = Returned a' \<and>
     in_phase 100000000000 (descr 0 a')"
proof -
  let ?run = "schedule_loop demo_layout 9 (\<lambda>_. demo_check) \<lparr>tv_sec = 100, tv_nsec = 10\<rparr> [0, 1] demo"
  obtain a' where run: "?run = Returned a'" using demo_loop_value by (cases ?run) auto
  have "in_phase 100000000000 (descr 0 a')"
    by (rule periodic_release_points [OF run])
      (simp_all add: demo_check_def in_phase_def demo_descriptor_def demo_process_of_def demo_process_def
        demo_attribute_def normalised_def convertTimeSpecToNano_def NANO_def)
  with run show ?thesis by blast
qed

text \<open>The loop that brings a late process back into phase ends for every period that CREATE\_PROCESS
  accepts: it returns the first of the points next, next + period, next + 2 period, ... that is later
  than the critical time.\<close>

theorem catch_up_terminates:
  assumes "0 < period" "period \<le> MAX_TIME_OUT" "normalised critical" "normalised next"
  shows "\<exists>k t. catch_up next period critical = Some (Returned t) \<and> normalised t \<and>
    convertTimeSpecToNano t = convertTimeSpecToNano next + int k * period \<and>
    convertTimeSpecToNano critical < convertTimeSpecToNano t \<and>
    (0 < k \<longrightarrow> convertTimeSpecToNano t \<le> convertTimeSpecToNano critical + period)"
  by (rule catch_up_ends [OF assms])

theorem catch_up_terminates_witness:
  "\<exists>t. catch_up \<lparr>tv_sec = 5, tv_nsec = 0\<rparr> 300000000 \<lparr>tv_sec = 6, tv_nsec = 1\<rparr> = Some (Returned t) \<and>
     6000000001 < convertTimeSpecToNano t"
  using catch_up_terminates [of 300000000 "\<lparr>tv_sec = 6, tv_nsec = 1\<rparr>" "\<lparr>tv_sec = 5, tv_nsec = 0\<rparr>"]
  by (auto simp: MAX_TIME_OUT_def NANO_def normalised_def convertTimeSpecToNano_def)

section \<open>Deadlines\<close>

text \<open>A process that met its deadline (it waits for its period when the deadline is checked) is left
  alone, and is next looked at when it is to be released.\<close>

theorem deadline_met:
  assumes "process_exists pid a" "state (the_process pid a) = WAITING_ON_PERIOD"
  shows "\<exists>a'. check_deadline L self e pid a = Returned a' \<and>
    NEXT_SCHEDULING_INSTANCE (descr pid a') = RELEASE_PROCESS \<and> the_process pid a' = the_process pid a \<and>
    ABSOLUTE_CRITICAL_TIME (descr pid a') = ABSOLUTE_NEXT_SCHEDULED_TIME (descr pid a)"
  by (rule check_deadline_met [OF assms])

theorem deadline_met_witness:
  "\<exists>a'. check_deadline demo_layout 9 demo_check 0 (demo_with WAITING_ON_PERIOD RUNNING CHECK_DEADLINE) = Returned a' \<and>
    NEXT_SCHEDULING_INSTANCE (descr 0 a') = RELEASE_PROCESS"
  using deadline_met [of 0 "demo_with WAITING_ON_PERIOD RUNNING CHECK_DEADLINE" demo_layout 9 demo_check]
  by (auto simp: demo_process_of_def demo_process_def)



text \<open>A periodic process with a SOFT deadline that is still running when its deadline is checked keeps
  running: its deadline is looked at again a second later, and its next release is moved by whole
  periods to the first release point after that check.\<close>

theorem soft_deadline_missed:
  assumes "procs_inv a" "process_exists pid a" "DEADLINE (attribute (the_process pid a)) = SOFT"
    "state (the_process pid a) \<notin> {DORMANT, WAITING_ON_PERIOD}" "HM_DESCRIPTOR_ID (descr pid a) = -1"
    "isPeriodic (the_process pid a)" "normalised (env_clock e)" "normalised (ABSOLUTE_NEXT_SCHEDULED_TIME (descr pid a))"
  shows "\<exists>a' k. check_deadline L self e pid a = Returned a' \<and> the_process pid a' = the_process pid a \<and>
    (let n = convertTimeSpecToNano (ABSOLUTE_NEXT_SCHEDULED_TIME (descr pid a'));
         c = convertTimeSpecToNano (ABSOLUTE_CRITICAL_TIME (descr pid a')) in
     c = convertTimeSpecToNano (env_clock e) + NANO \<and> c < n \<and>
     n = convertTimeSpecToNano (ABSOLUTE_NEXT_SCHEDULED_TIME (descr pid a)) + int k * PERIOD (attribute (the_process pid a)) \<and>
     (0 < k \<longrightarrow> n \<le> c + PERIOD (attribute (the_process pid a))))"
  using soft_violation_ok [OF assms(1,2,5-), of L] assms(3,4) by (simp add: check_deadline_def Let_def)

theorem soft_deadline_missed_witness:
  "\<exists>a'. check_deadline demo_layout 9 demo_check 1 (demo_with RUNNING RUNNING CHECK_DEADLINE) = Returned a' \<and>
    state (the_process 1 a') = RUNNING \<and> convertTimeSpecToNano (ABSOLUTE_CRITICAL_TIME (descr 1 a')) = 101050000000"
  using soft_deadline_missed [of "demo_with RUNNING RUNNING CHECK_DEADLINE" 1 demo_check demo_layout 9]
  by (auto simp: demo_process_of_def demo_process_def demo_attribute_def demo_descriptor_def isPeriodic_def
      INFINITE_TIME_VALUE_def normalised_def NANO_def demo_check_def convertTimeSpecToNano_def Let_def)

text \<open>The comparison handed to \<open>std::sort\<close> is not a strict weak ordering: it answers true for a
  process that is not dormant and itself, so the precondition of \<open>std::sort\<close> is not met.\<close>

lemma sort_comparison_not_strict: "state (the_process pid a) \<noteq> DORMANT \<Longrightarrow> PROCESS_DESCRIPTOR_COMP a pid pid"
  by (simp add: PROCESS_DESCRIPTOR_COMP_def compareTime_refl)

end
