(* ===== verification/ProcessTheorems.thy ===== *)
theory ProcessTheorems
  imports Demo
begin

text \<open>What the services on processes and the turns of a process guarantee: creation, start, stop,
  suspension, the end of a turn and the services on time.\<close>

section \<open>Creating a process\<close>

text \<open>CREATE\_PROCESS during COLD\_START or WARM\_START, with legal attributes and an unused name,
  creates the process with the next identifier: it is DORMANT, has the given attributes, is found by its
  name, runs in the new thread and has a notification blackboard of the size of a process response.\<close>

theorem create_process:
  assumes "procs_inv a" "CURRENT_OPERATING_MODE a \<in> {COLD_START, WARM_START}"
    "length (PROCESS_DESCRIPTOR_VECTOR a) = pid" "pid < SYSTEM_LIMIT_NUMBER_OF_PROCESSES" "attributes_ok attr"
    "\<forall>d\<in>set (PROCESS_DESCRIPTOR_VECTOR a). PROCESS_NAME (attribute (THE_PROCESS d)) \<noteq> PROCESS_NAME attr"
    "''RESPONSE_'' @ decimal pid \<notin> BLACKBOARD_NAME ` set (BLACKBOARD_VECTOR a)"
    "''RESPONSE_'' @ decimal pid \<notin> EVENT_NAME ` set (EVENT_VECTOR a)" "0 < sizeof_PROCESS_RESPONSE L"
  shows "\<exists>a'. CREATE_PROCESS L attr fresh heap (Some t) a = ret_out NO_ERROR pid a' \<and> procs_inv a' \<and>
    GET_PROCESS_ID (PROCESS_NAME attr) a' = ret_out NO_ERROR pid a' \<and>
    state (the_process pid a') = DORMANT \<and> attribute (the_process pid a') = attr \<and>
    thread_id (the_process pid a') = new_thread_id t \<and>
    PROCESS_NOTIFICATION_RESPONSE_BOARD_ID (PROCESS_DESCRIPTOR_VECTOR a' ! pid) = length (BLACKBOARD_VECTOR a) \<and>
    length (BLACKBOARD_VECTOR a') = Suc (length (BLACKBOARD_VECTOR a)) \<and>
    BB_MAX_MESSAGE_SIZE (board (length (BLACKBOARD_VECTOR a)) a') = sizeof_PROCESS_RESPONSE L"
  using CREATE_PROCESS_new [OF assms, of fresh heap t] procs_inv_CREATE_PROCESS [OF _ assms(1)] by blast

theorem create_process_witness:
  "\<exists>a'. CREATE_PROCESS demo_layout (demo_attribute 50000000 HARD ''P0'') (descr 0 demo) [0, 0, 0, 0]
          (Some \<lparr>new_thread_id = 7, inherited_priority = 90\<rparr>) APEX_new = ret_out NO_ERROR 0 a' \<and>
    state (the_process 0 a') = DORMANT"
  using create_process [OF procs_inv_new, of 0 "demo_attribute 50000000 HARD ''P0''" demo_layout "descr 0 demo" "[0, 0, 0, 0]"
      "\<lparr>new_thread_id = 7, inherited_priority = 90\<rparr>"]
  by (auto simp: APEX_new_def SYSTEM_LIMIT_NUMBER_OF_PROCESSES_def)

section \<open>Starting a process\<close>

text \<open>DELAYED\_START of a dormant process in NORMAL mode: the process waits (for its period, or ready) with
  its base priority, its release is due the delay after the call, its notification blackboard is
  cleared, and the scheduler is woken up to look at it.\<close>

theorem delayed_start_normal:
  fixes a :: APEX
  assumes "boards_inv a" "procs_inv a" "process_exists pid a" "state (the_process pid a) = DORMANT"
    "CURRENT_OPERATING_MODE a = NORMAL" "0 \<le> DELAY_TIME" "addTimeNano now DELAY_TIME = Some next"
    "PROCESS_NOTIFICATION_RESPONSE_BOARD_ID (PROCESS_DESCRIPTOR_VECTOR a ! pid) < length (BLACKBOARD_VECTOR a)"
  shows "\<exists>a'. DELAYED_START now pid DELAY_TIME a = (ret NO_ERROR a' :: (unit reply \<times> APEX) outcome) \<and>
    to_be_released pid next a' \<and> EVENT_STATE (APEX_SCHEDULING_EVENT a') = UP \<and> procs_inv a' \<and> boards_inv a'"
  by (rule DELAYED_START_normal [OF assms])

theorem delayed_start_normal_witness:
  "\<exists>a'. DELAYED_START \<lparr>tv_sec = 7, tv_nsec = 0\<rparr> 0 5 (demo_with DORMANT DORMANT RELEASE_PROCESS) =
      (ret NO_ERROR a' :: (unit reply \<times> APEX) outcome) \<and>
    to_be_released 0 \<lparr>tv_sec = 7, tv_nsec = 5\<rparr> a'"
proof -
  have "addTimeNano \<lparr>tv_sec = 7, tv_nsec = 0\<rparr> 5 = Some \<lparr>tv_sec = 7, tv_nsec = 5\<rparr>" by code_simp
  from delayed_start_normal [OF demo_boards_inv demo_procs_inv demo_process_exists(1) _ _ _ this,
    of DORMANT DORMANT RELEASE_PROCESS]
  show ?thesis by (auto simp: demo_process_of_def demo_process_def demo_descriptor_def)
qed

text \<open>DELAYED\_START before NORMAL mode only records the delay; when the partition becomes NORMAL the
  scheduler's initialisation starts the process: its release is due the delay after the initialisation.\<close>

theorem delayed_start_before_normal:
  assumes "process_exists pid a" "state (the_process pid a) = DORMANT"
    "CURRENT_OPERATING_MODE a \<noteq> NORMAL" "0 \<le> DELAY_TIME" "DELAY_TIME \<le> MAX_TIME_OUT"
  shows "\<exists>a'. DELAYED_START now pid DELAY_TIME a = (ret NO_ERROR a' :: (unit reply \<times> APEX) outcome) \<and>
    state (the_process pid a') = WAITING_PARTITION_NOT_NORMAL \<and>
    (\<exists>a'' t. init_process start pid a' = Returned a'' \<and>
      state (the_process pid a'') = (if isPeriodic (the_process pid a') then WAITING_ON_PERIOD else READY) \<and>
      NEXT_SCHEDULING_INSTANCE (descr pid a'') = RELEASE_PROCESS \<and>
      ABSOLUTE_CRITICAL_TIME (descr pid a'') = t \<and> ABSOLUTE_NEXT_SCHEDULED_TIME (descr pid a'') = t \<and>
      convertTimeSpecToNano t = convertTimeSpecToNano start + DELAY_TIME)"
proof -
  have "\<exists>a'. DELAYED_START now pid DELAY_TIME a = (ret NO_ERROR a' :: (unit reply \<times> APEX) outcome) \<and>
      state (the_process pid a') = WAITING_PARTITION_NOT_NORMAL \<and> INITIAL_DELAY_TIME (descr pid a') = DELAY_TIME \<and>
      process_exists pid a'"
    using assms(1-4) by (simp add: DELAYED_START_def process_exists_def Let_def set_state_def set_priority_def)
  then obtain a' where start: "DELAYED_START now pid DELAY_TIME a = (ret NO_ERROR a' :: (unit reply \<times> APEX) outcome)"
    and s: "state (the_process pid a') = WAITING_PARTITION_NOT_NORMAL"
      "INITIAL_DELAY_TIME (descr pid a') = DELAY_TIME" and ex: "process_exists pid a'"
    by blast
  obtain t0 where "addTimeNano start DELAY_TIME = Some t0" by (rule addTimeNano_some [OF assms(5)])
  then obtain t where t: "(if DELAY_TIME = 0 then Returned start else assert_some (addTimeNano start DELAY_TIME)) = Returned t"
    "convertTimeSpecToNano t = convertTimeSpecToNano start + DELAY_TIME"
    using addTimeNano_value [of start DELAY_TIME] assms(4)
    by (cases "DELAY_TIME = 0") (auto simp: INFINITE_TIME_VALUE_def)
  let ?next = "set_state pid (if isPeriodic (the_process pid a') then WAITING_ON_PERIOD else READY)
    (upd_descriptor pid (\<lambda>d. d\<lparr>ABSOLUTE_NEXT_SCHEDULED_TIME := t, ABSOLUTE_CRITICAL_TIME := t\<rparr>)
      (upd_descriptor pid (\<lambda>d. d\<lparr>NEXT_SCHEDULING_INSTANCE := RELEASE_PROCESS\<rparr>) a'))"
  have "init_process start pid a' = Returned ?next"
    using s ex t(1)
    by (cases "DELAY_TIME = 0"; cases "addTimeNano start DELAY_TIME") (simp_all add: init_process_def Let_def THE_PROCESS_nth)
  moreover have "state (the_process pid ?next) = (if isPeriodic (the_process pid a') then WAITING_ON_PERIOD else READY)"
    "NEXT_SCHEDULING_INSTANCE (descr pid ?next) = RELEASE_PROCESS" "ABSOLUTE_CRITICAL_TIME (descr pid ?next) = t"
    "ABSOLUTE_NEXT_SCHEDULED_TIME (descr pid ?next) = t"
    using ex by (simp_all add: set_state_def)
  ultimately show ?thesis using start s(1) t(2) by blast
qed

theorem delayed_start_before_normal_witness:
  "\<exists>a'. DELAYED_START \<lparr>tv_sec = 7, tv_nsec = 0\<rparr> 0 5
      ((demo_with DORMANT DORMANT RELEASE_PROCESS)\<lparr>CURRENT_OPERATING_MODE := COLD_START\<rparr>) =
      (ret NO_ERROR a' :: (unit reply \<times> APEX) outcome) \<and>
    state (the_process 0 a') = WAITING_PARTITION_NOT_NORMAL"
  using delayed_start_before_normal [of 0 "(demo_with DORMANT DORMANT RELEASE_PROCESS)\<lparr>CURRENT_OPERATING_MODE := COLD_START\<rparr>" 5
      "\<lparr>tv_sec = 7, tv_nsec = 0\<rparr>" "\<lparr>tv_sec = 9, tv_nsec = 0\<rparr>"]
  by (auto simp: process_exists_def the_process_def demo_process_of_def demo_process_def demo_descriptor_def
      MAX_TIME_OUT_def NANO_def)

section \<open>Stopping a process\<close>



section \<open>Suspending oneself\<close>

text \<open>An aperiodic process that calls SUSPEND\_SELF waits until it is resumed or the time-out expires,
  the first of which decides the return code; afterwards it has the state it had before and its
  suspension event is down again, so that the next suspension waits anew.  What RESUME does to a process
  suspended in this way is \<open>resumed\<close>.\<close>

theorem suspend_self_resumed:
  assumes "is_thread_of self pid a" "process_exists pid a" "\<not> isPeriodic (the_process pid a)"
    "state (the_process pid a) \<notin> {WAITING_SUSPENDED_OTHER, WAITING_SUSPENDED_SELF}"
    "EVENT_STATE (suspension pid a) = DOWN" "normalised now" "0 \<le> TIME_OUT \<or> TIME_OUT = INFINITE_TIME_VALUE"
    "TIME_OUT \<le> MAX_TIME_OUT" "w = Woken (resumed pid) \<or> w = Expired (\<lambda>a. a)"
  shows "(\<exists>a'. SUSPEND_SELF self now TIME_OUT [w] a =
      (ret (case w of Woken f \<Rightarrow> NO_ERROR | Expired f \<Rightarrow> TIMED_OUT) a' :: (unit reply \<times> APEX) outcome) \<and>
      state (the_process pid a') = state (the_process pid a) \<and> EVENT_STATE (suspension pid a') = DOWN) \<and>
    (\<forall>x. process_exists pid x \<longrightarrow> \<not> isPeriodic (the_process pid x) \<longrightarrow>
      state (the_process pid x) = WAITING_SUSPENDED_SELF \<longrightarrow>
      RESUME pid x = (ret NO_ERROR (resumed pid x) :: (unit reply \<times> APEX) outcome))"
  using SUSPEND_SELF_resumed [OF assms, where 'o = unit] RESUME_suspended_self by blast

definition demo_aperiodic :: APEX where
  "demo_aperiodic = upd_process 0 (\<lambda>p. p\<lparr>attribute := (attribute p)\<lparr>PERIOD := -1\<rparr>\<rparr>) (demo_with RUNNING RUNNING CHECK_DEADLINE)"

theorem suspend_self_resumed_witness:
  "\<exists>a'. SUSPEND_SELF 0 \<lparr>tv_sec = 7, tv_nsec = 0\<rparr> 1000 [Woken (resumed 0)] demo_aperiodic =
      (ret NO_ERROR a' :: (unit reply \<times> APEX) outcome) \<and> state (the_process 0 a') = RUNNING"
  using suspend_self_resumed [of 0 0 demo_aperiodic "\<lparr>tv_sec = 7, tv_nsec = 0\<rparr>" 1000 "Woken (resumed 0)"]
  by (auto simp: demo_aperiodic_def is_thread_of_upd isPeriodic_def INFINITE_TIME_VALUE_def suspension_def EVENT_new_def
      demo_process_of_def demo_process_def demo_descriptor_def normalised_def NANO_def MAX_TIME_OUT_def)

section \<open>Waiting for the next period\<close>

definition released_by :: "SYSTEM_TIMESPEC \<Rightarrow> nat \<Rightarrow> APEX \<Rightarrow> APEX" where
  "released_by t pid x = (case release_process t pid x of Returned y \<Rightarrow> y | _ \<Rightarrow> x)"

lemma released_by_is_released:
  assumes "procs_inv x" "process_exists pid x" "state (the_process pid x) = WAITING_ON_PERIOD"
  shows "is_released (descr pid x) (descr pid (released_by t pid x))" "process_exists pid (released_by t pid x)"
proof -
  obtain y where y: "release_process t pid x = Returned y" using release_process_defined [OF assms(1,2)] by blast
  show "is_released (descr pid x) (descr pid (released_by t pid x))"
    using release_process_Returned [OF y assms(2)] assms(3) y by (simp add: released_by_def)
  show "process_exists pid (released_by t pid x)"
    using keeps_release [OF y, of "Suc pid"] assms(2) y by (simp add: released_by_def keeps_def process_exists_def)
qed

text \<open>C38. PERIODIC\_WAIT blocks until the scheduler releases the process: the release posts the semaphore the
  process waits on, so the call returns NO\_ERROR with the process RUNNING, its deadline set from the
  release point, and no release left over for the next period.\<close>

theorem periodic_wait_released:
  assumes "is_thread_of self pid a" "process_exists pid a" "isPeriodic (the_process pid a)" "procs_inv a"
    "counter (proc_sem pid a) = 0" "0 < maximumvalue (proc_sem pid a)"
  shows "PERIODIC_WAIT self [] a = (Blocked :: (unit reply \<times> APEX) outcome) \<and>
    (\<exists>a'. PERIODIC_WAIT self [Woken (released_by t pid)] a = (ret NO_ERROR a' :: (unit reply \<times> APEX) outcome) \<and>
      state (the_process pid a') = RUNNING \<and> counter (proc_sem pid a') = 0 \<and>
      NEXT_SCHEDULING_INSTANCE (descr pid a') = CHECK_DEADLINE \<and>
      computeDeadlineTimeSpecs (ABSOLUTE_CRITICAL_TIME (descr pid a)) (TIME_CAPACITY (attribute (the_process pid a))) =
        Some (DEADLINE_TIME (descr pid a')))"
proof -
  let ?a = "set_state pid WAITING_ON_PERIOD a"
  let ?b = "upd_proc_sem pid inc_waiting ?a"
  let ?c = "released_by t pid ?b"
  have b: "procs_inv ?b" "process_exists pid ?b" "state (the_process pid ?b) = WAITING_ON_PERIOD"
    using assms by (auto simp: upd_proc_sem_def set_state_def intro!: procs_inv_upd_process)
  have "is_released (descr pid ?b) (descr pid ?c)" "process_exists pid ?c"
    by (rule released_by_is_released [OF b])+
  moreover have "sem_state (the_process pid ?b) = inc_waiting (proc_sem pid a)"
    using assms(2) by (simp add: upd_proc_sem_def set_state_def proc_sem_def)
  ultimately have c: "process_exists pid ?c" "state (the_process pid ?c) = RUNNING" "counter (proc_sem pid ?c) = 1"
    "NEXT_SCHEDULING_INSTANCE (descr pid ?c) = CHECK_DEADLINE"
    "computeDeadlineTimeSpecs (ABSOLUTE_CRITICAL_TIME (descr pid a)) (TIME_CAPACITY (attribute (the_process pid a))) =
       Some (DEADLINE_TIME (descr pid ?c))"
    using assms(2,5,6)
    by (auto simp: is_released_def Let_def THE_PROCESS_nth proc_sem_def SEMAPHORE_post_def upd_proc_sem_def set_state_def)
  have 0: "counter (proc_sem pid ?b) = 0"
    using assms(2,5) by (simp add: proc_sem_def upd_proc_sem_def set_state_def)
  have waits: "wait_loop (\<lambda>s. counter (proc_sem pid s) = 0) [] ?b = Blocked"
    "wait_loop (\<lambda>s. counter (proc_sem pid s) = 0) [Woken (released_by t pid)] ?b = Returned ?c"
    using 0 c(3) by (simp_all add: wait_loop.simps)
  have "PERIODIC_WAIT self ws a = (bind_outcome (wait_loop (\<lambda>s. counter (proc_sem pid s) = 0) ws ?b)
      (\<lambda>c. ret NO_ERROR (upd_proc_sem pid dec_waiting (upd_proc_sem pid take_unit c))) :: (unit reply \<times> APEX) outcome)" for ws
    using assms(1,3)
    by (cases "wait_loop (\<lambda>s. counter (proc_sem pid s) = 0) ws ?b")
      (simp_all add: PERIODIC_WAIT_def is_thread_of_def waiting_on_period_def SEMAPHORE_wait_forever_def)
  moreover have "state (the_process pid (upd_proc_sem pid dec_waiting (upd_proc_sem pid take_unit ?c))) = RUNNING"
    "counter (proc_sem pid (upd_proc_sem pid dec_waiting (upd_proc_sem pid take_unit ?c))) = 0"
    "NEXT_SCHEDULING_INSTANCE (descr pid (upd_proc_sem pid dec_waiting (upd_proc_sem pid take_unit ?c))) = CHECK_DEADLINE"
    "DEADLINE_TIME (descr pid (upd_proc_sem pid dec_waiting (upd_proc_sem pid take_unit ?c))) = DEADLINE_TIME (descr pid ?c)"
    using c(1-4) by (simp_all add: upd_proc_sem_def proc_sem_def)
  ultimately show ?thesis using waits c(5) by simp
qed

theorem periodic_wait_released_witness:
  "\<exists>a'. PERIODIC_WAIT 0 [Woken (released_by \<lparr>tv_sec = 100, tv_nsec = 10\<rparr> 0)] (demo_with RUNNING RUNNING RELEASE_PROCESS) =
      (ret NO_ERROR a' :: (unit reply \<times> APEX) outcome) \<and> state (the_process 0 a') = RUNNING"
  using periodic_wait_released [of 0 0 "demo_with RUNNING RUNNING RELEASE_PROCESS" "\<lparr>tv_sec = 100, tv_nsec = 10\<rparr>"]
  by (auto simp: proc_sem_def demo_process_of_def demo_process_def isPeriodic_def demo_attribute_def INFINITE_TIME_VALUE_def
      SEMAPHORE_new_def)

text \<open>REPLENISH in NORMAL mode moves the deadline of the calling process to now plus the budget and wakes the
  scheduler up, unless that deadline lies at or after the next release of a periodic process: then the
  answer is INVALID\_MODE and nothing changes.\<close>

theorem replenish_moves_deadline:
  assumes "is_thread_of self pid a" "process_exists pid a" "CURRENT_OPERATING_MODE a = NORMAL"
    "state (the_process pid a) \<noteq> DORMANT" "BUDGET_TIME \<le> MAX_TIME_OUT"
  shows "\<exists>t. computeDeadlineTimeSpecs now BUDGET_TIME = Some t \<and>
    (if isPeriodic (the_process pid a) \<and> compareTime (ABSOLUTE_NEXT_SCHEDULED_TIME (descr pid a)) t
     then REPLENISH self now BUDGET_TIME a = (ret INVALID_MODE a :: (unit reply \<times> APEX) outcome)
     else \<exists>a'. REPLENISH self now BUDGET_TIME a = (ret NO_ERROR a' :: (unit reply \<times> APEX) outcome) \<and>
       DEADLINE_TIME (descr pid a') = t \<and> ABSOLUTE_CRITICAL_TIME (descr pid a') = t \<and>
       the_process pid a' = the_process pid a \<and> EVENT_STATE (APEX_SCHEDULING_EVENT a') = UP)"
proof -
  have "\<exists>t. computeDeadlineTimeSpecs now BUDGET_TIME = Some t"
    using assms(5) addTimeNano_Some_iff [of now BUDGET_TIME] addTimeNano_Some_iff [of now MAX_TIME_OUT]
    by (simp add: computeDeadlineTimeSpecs_def)
  then obtain t where t: "computeDeadlineTimeSpecs now BUDGET_TIME = Some t" by blast
  show ?thesis
    using REPLENISH_ok [where 'a = unit, OF assms t] t assms(2) by (simp add: THE_PROCESS_nth)
qed

theorem replenish_moves_deadline_witness:
  "\<exists>a'. REPLENISH 0 \<lparr>tv_sec = 99, tv_nsec = 0\<rparr> 1000 (demo_with RUNNING RUNNING CHECK_DEADLINE) =
      (ret NO_ERROR a' :: (unit reply \<times> APEX) outcome) \<and>
    DEADLINE_TIME (descr 0 a') = \<lparr>tv_sec = 99, tv_nsec = 1000\<rparr>"
proof -
  have "computeDeadlineTimeSpecs \<lparr>tv_sec = 99, tv_nsec = 0\<rparr> 1000 = Some \<lparr>tv_sec = 99, tv_nsec = 1000\<rparr>" by code_simp
  then show ?thesis
    using replenish_moves_deadline [of 0 0 "demo_with RUNNING RUNNING CHECK_DEADLINE" 1000 "\<lparr>tv_sec = 99, tv_nsec = 0\<rparr>"]
    by (auto simp: demo_process_of_def demo_process_def demo_descriptor_def MAX_TIME_OUT_def NANO_def compareTime_def)
qed

text \<open>TIMED\_WAIT returns NO\_ERROR for every delay between 0 and MAX\_TIME\_OUT as soon as one of its sleeps
  reaches the end, however often signals interrupt the others; a delay so negative that the absolute
  time is not a normalised time is retried for ever, because clock\_nanosleep never answers 0.\<close>

theorem timed_wait_ends:
  assumes "normalised now" "DELAY_TIME \<noteq> INFINITE_TIME_VALUE" "DELAY_TIME \<le> MAX_TIME_OUT"
    "DELAY_TIME < 0 \<longrightarrow> DELAY_TIME < - tv_nsec now \<and> \<not> NANO dvd tv_nsec now + DELAY_TIME"
  shows "TIMED_WAIT now DELAY_TIME xs = (if 0 \<le> DELAY_TIME \<and> Slept \<in> set xs then Returned NO_ERROR else Blocked)"
proof (cases "0 \<le> DELAY_TIME")
  case True
  obtain t where t: "addTimeNano now DELAY_TIME = Some t" using assms(3) by (rule addTimeNano_some)
  have "normalised t"
    by (rule addTimeNano_normalised [OF t assms(1)]) (use assms(1) True in \<open>simp add: normalised_def\<close>)
  with t True show ?thesis by (simp add: TIMED_WAIT_def nanosleep_loop_cases)
next
  case False
  then show ?thesis using TIMED_WAIT_never [of now DELAY_TIME xs] assms by simp
qed

theorem timed_wait_ends_witness:
  "TIMED_WAIT \<lparr>tv_sec = 7, tv_nsec = 0\<rparr> 1000 [Interrupted, Slept] = Returned NO_ERROR"
  using timed_wait_ends [of "\<lparr>tv_sec = 7, tv_nsec = 0\<rparr>" 1000 "[Interrupted, Slept]"]
  by (simp add: normalised_def INFINITE_TIME_VALUE_def MAX_TIME_OUT_def NANO_def)

section \<open>The end of a turn\<close>

text \<open>When the function of a process that has no health manager returns or throws, the process waits for
  its next period if it is periodic and is DORMANT otherwise, and whoever asks for its finished status reads
  its response: the one it had if the function returned, and one that carries the exception's message if
  it threw.\<close>

theorem end_of_turn:
  assumes "process_exists pid a" "process_id (the_process pid a) = pid"
    "HM_DESCRIPTOR_ID (PROCESS_DESCRIPTOR_VECTOR a ! pid) = -1" "\<not> flagToTerminate a" "layout_laws L" "boards_inv a"
    "PROCESS_NOTIFICATION_RESPONSE_BOARD_ID (PROCESS_DESCRIPTOR_VECTOR a ! pid) = bid" "bid < length (BLACKBOARD_VECTOR a)"
    "BB_MAX_MESSAGE_SIZE (board bid a) = sizeof_PROCESS_RESPONSE L"
    "TIME_OUT \<le> MAX_TIME_OUT" "CAPACITY \<le> sizeof_PROCESS_RESPONSE L"
  shows "\<exists>a'. finish_run L now t0 t1 junk pid result a = Returned a' \<and>
    state (the_process pid a') = (if isPeriodic (the_process pid a) then WAITING_ON_PERIOD else DORMANT) \<and>
    GET_PROCESS_FINISHED_STATUS L now pid TIME_OUT CAPACITY ws a' = ret_out NO_ERROR
      (PROCESS_RESPONSE_bytes L
        ((PROCESS_RESPONSE (exception_response result (the_process pid a)))\<lparr>TIMEOFMESSAGE := t1\<rparr>)) a'"
  by (rule finish_run_ok [OF assms])

theorem end_of_turn_witness:
  "\<exists>a'. finish_run demo_layout \<lparr>tv_sec = 7, tv_nsec = 0\<rparr> 1 2 EMPTY 0 (Threw [66, 97, 100])
          (demo_with RUNNING RUNNING CHECK_DEADLINE) = Returned a' \<and>
    state (the_process 0 a') = WAITING_ON_PERIOD"
  using end_of_turn [of 0 "demo_with RUNNING RUNNING CHECK_DEADLINE" demo_layout 0 0 4 "\<lparr>tv_sec = 7, tv_nsec = 0\<rparr>" 1 2 EMPTY
      "Threw [66, 97, 100]"]
  by (auto simp: demo_process_of_def demo_process_def demo_descriptor_def demo_board_def MAX_TIME_OUT_def NANO_def
      isPeriodic_def demo_attribute_def INFINITE_TIME_VALUE_def demo_not_terminated)

end
