(* ===== verification/CommunicationTheorems.thy ===== *)
theory CommunicationTheorems
  imports Demo
begin

text \<open>What the objects through which processes communicate guarantee: the chain from an error to the
  response of the health manager, blackboards, buffers, events and semaphores.\<close>

section \<open>Errors and health managers\<close>

text \<open>C9. An error reaches the health manager and its answer the process: for a process registered with a
  health manager whose buffer is empty, RAISE\_APPLICATION\_ERROR\_FOR stores the error, the health
  manager reads exactly this error together with the response board of the process, and the response it
  then sends is what the process reads from that board.\<close>

theorem error_to_response:
  assumes "served L pid hm bid rid a" "layout_laws L" "buffers_inv a" "boards_inv a"
    "buffer_contents (BUFFER_VECTOR a ! bid) = []"
    "0 \<le> len" "len \<le> int (length m)" "len \<le> int (length (ES_MESSAGE fresh))"
    "es = \<lparr>ES_ERROR_CODE = CODE, ES_LENGTH = len, FAILED_PROCESS_ID = pid,
           ES_MESSAGE = take (nat len) m @ drop (nat len) (ES_MESSAGE fresh)\<rparr>"
    "ERROR_STATUS_of L (ERROR_STATUS_bytes L es) = es"
    "HM_GET_MY_DESCRIPTOR_ID hmself a = (NO_ERROR, Some hm)" "TIME_OUT \<le> MAX_TIME_OUT"
  shows "\<exists>a1 a2 a3.
    RAISE_APPLICATION_ERROR_FOR L now pid CODE m len fresh ws a = (ret NO_ERROR a1 :: (unit reply \<times> APEX) outcome) \<and>
    HM_GET_PROCESS_ERROR_MESSAGE L hmself now1 ws1 a1 = ret_out NO_ERROR (es, Some rid) a2 \<and>
    HM_NOTIFY_PROCESS L hmself pid resp a2 = (ret NO_ERROR a3 :: (unit reply \<times> APEX) outcome) \<and>
    READ_BLACKBOARD now2 rid TIME_OUT ws2 a3 = ret_out NO_ERROR (HM_RESPONSE_bytes L resp) a3"
proof -
  let ?b = "BUFFER_VECTOR a ! bid"
  have bid: "bid < length (BUFFER_VECTOR a)" "process_exists pid a" using assms(1) by (simp_all add: served_def)
  have "ring_inv ?b" using buffers_inv_nth [OF assms(3) bid(1)] by simp
  then have "CURRENT_MESSAGE_SIZE ?b < BUFFER_MAX_NB_MESSAGE ?b"
    using assms(5) length_buffer_contents [of ?b] by (simp add: ring_inv_def)
  then obtain b1 where
    r1: "raise_error L now pid CODE m len fresh ws a =
       (ret NO_ERROR (a\<lparr>BUFFER_VECTOR := (BUFFER_VECTOR a)[bid := b1]\<rparr>) :: (unit reply \<times> APEX) outcome)"
    and b1: "ring_inv b1" "buffer_sems 0 0 b1" "buffer_contents b1 = buffer_contents ?b @ [ERROR_STATUS_bytes L es]"
      "BUFFER_MAX_MESSAGE_SIZE b1 = BUFFER_MAX_MESSAGE_SIZE ?b"
    using raise_error_served [where 'o = unit, OF assms(1-3) _ assms(6-8)] assms(9) by metis
  let ?a1 = "a\<lparr>BUFFER_VECTOR := (BUFFER_VECTOR a)[bid := b1]\<rparr>"
  have s1: "served L pid hm bid rid ?a1" by (rule served_buffer [OF assms(1) b1(4)])
  have i1: "buffers_inv ?a1" by (rule buffers_inv_update [OF assms(3) b1(1,2)])
  have c1: "buffer_contents (BUFFER_VECTOR ?a1 ! bid) = ERROR_STATUS_bytes L es # []" using b1(3) assms(5) bid by simp
  obtain b2 where
    r2: "HM_GET_PROCESS_ERROR_MESSAGE L hmself now1 ws1 ?a1 =
       ret_out NO_ERROR (es, Some rid) (?a1\<lparr>BUFFER_VECTOR := (BUFFER_VECTOR ?a1)[bid := b2]\<rparr>)"
    and b2: "BUFFER_MAX_MESSAGE_SIZE b2 = BUFFER_MAX_MESSAGE_SIZE (BUFFER_VECTOR ?a1 ! bid)"
    by (rule HM_GET_served [OF s1 i1 c1 assms(10), of hmself now1 ws1]) (use assms(9,11) in simp_all)
  let ?a2 = "?a1\<lparr>BUFFER_VECTOR := (BUFFER_VECTOR ?a1)[bid := b2]\<rparr>"
  have "served L pid hm bid rid ?a2" by (rule served_buffer [OF s1 b2])
  moreover have "boards_inv ?a2" using assms(4) by (simp add: boards_inv_def)
  moreover have "HM_GET_MY_DESCRIPTOR_ID hmself ?a2 = (NO_ERROR, Some hm)" using assms(11) by simp
  ultimately obtain a3 where r3: "HM_NOTIFY_PROCESS L hmself pid resp ?a2 = (ret NO_ERROR a3 :: (unit reply \<times> APEX) outcome)"
    "READ_BLACKBOARD now2 rid TIME_OUT ws2 a3 = ret_out NO_ERROR (HM_RESPONSE_bytes L resp) a3"
    using HM_NOTIFY_served [where 'o = unit, OF _ assms(2) _ assms(12)] by blast
  have "RAISE_APPLICATION_ERROR_FOR L now pid CODE m len fresh ws a = (ret NO_ERROR ?a1 :: (unit reply \<times> APEX) outcome)"
    using r1 bid(2) by (simp add: RAISE_APPLICATION_ERROR_FOR_def)
  with r2 r3 show ?thesis by blast
qed

theorem error_to_response_witness:
  "\<exists>a1 a2 a3.
    RAISE_APPLICATION_ERROR_FOR demo_layout \<lparr>tv_sec = 7, tv_nsec = 0\<rparr> 0 APPLICATION_ERROR [] 0
      \<lparr>ES_ERROR_CODE = DEADLINE_MISSED, ES_LENGTH = 0, FAILED_PROCESS_ID = 0, ES_MESSAGE = []\<rparr> [] demo_hm =
      (ret NO_ERROR a1 :: (unit reply \<times> APEX) outcome) \<and>
    HM_GET_PROCESS_ERROR_MESSAGE demo_layout 1 \<lparr>tv_sec = 7, tv_nsec = 0\<rparr> [] a1 =
      ret_out NO_ERROR (\<lparr>ES_ERROR_CODE = APPLICATION_ERROR, ES_LENGTH = 0, FAILED_PROCESS_ID = 0, ES_MESSAGE = []\<rparr>, Some 2) a2 \<and>
    HM_NOTIFY_PROCESS demo_layout 1 0 demo_hm_response a2 = (ret NO_ERROR a3 :: (unit reply \<times> APEX) outcome) \<and>
    READ_BLACKBOARD \<lparr>tv_sec = 7, tv_nsec = 0\<rparr> 2 0 [] a3 = ret_out NO_ERROR [2, 2, 2, 2] a3"
proof -
  have "HM_RESPONSE_bytes demo_layout demo_hm_response = [2, 2, 2, 2]"
    by (simp add: demo_layout_def eval_nat_numeral)
  then show ?thesis
    using error_to_response [OF demo_hm_served demo_layout_laws demo_hm_invs(2,1), of 0 "[]"
        "\<lparr>ES_ERROR_CODE = DEADLINE_MISSED, ES_LENGTH = 0, FAILED_PROCESS_ID = 0, ES_MESSAGE = []\<rparr>" _ APPLICATION_ERROR 1 0
        "\<lparr>tv_sec = 7, tv_nsec = 0\<rparr>" "[]" "\<lparr>tv_sec = 7, tv_nsec = 0\<rparr>" "[]" demo_hm_response "\<lparr>tv_sec = 7, tv_nsec = 0\<rparr>" "[]"]
      demo_hm_self
    by (simp add: demo_hm_def demo_layout_status MAX_TIME_OUT_def NANO_def)
qed

text \<open>The array of associations of a health manager never overflows: registering a process under its
  blackboard name with a health manager identifier that is not negative keeps every health manager's
  table within its 128 entries with distinct processes, and performs no undefined access.\<close>

theorem registration_within_bounds:
  assumes "hm_inv a" "0 \<le> hm" "pid < 2 ^ 32"
  shows "REGISTER_PROCESS_WITH_HEALTH_MANAGER L pid hm heap a \<noteq> Undef \<and>
    (\<forall>r a'. REGISTER_PROCESS_WITH_HEALTH_MANAGER L pid hm heap a = Returned (r, a') \<longrightarrow> hm_inv a')"
  using REGISTER_ok [OF assms refl] by blast

lemma demo_hm_inv: "hm_inv (demo_hm\<lparr>CURRENT_OPERATING_MODE := COLD_START\<rparr>)"
  by (simp add: hm_inv_def demo_hm_def SYSTEM_LIMIT_NUMBER_OF_PROCESSES_def hm_ok_def registered_def demo_associations_def
      MAX_HM_PROC_RELATIONSHIPS_def process_exists_def)

lemma demo_register_value:
  "\<exists>a'. REGISTER_PROCESS_WITH_HEALTH_MANAGER demo_layout 1 0 [0, 0, 0, 0] (demo_hm\<lparr>CURRENT_OPERATING_MODE := COLD_START\<rparr>) =
     ret_out NO_ERROR 3 a'"
proof -
  let ?a = "demo_hm\<lparr>CURRENT_OPERATING_MODE := COLD_START\<rparr>"
  have dec: "decimal (Suc 0) \<noteq> ''0''" by code_simp
  have v: "length (PROCESS_DESCRIPTOR_VECTOR ?a) = 2" "length (BLACKBOARD_VECTOR ?a) = 3"
    "''Process'' @ decimal 1 \<notin> BLACKBOARD_NAME ` set (BLACKBOARD_VECTOR ?a)"
    "''Process'' @ decimal 1 \<notin> EVENT_NAME ` set (EVENT_VECTOR ?a)"
    using dec by (simp_all add: demo_hm_def demo_board_def EVENT_new_def)
  have h: "HM_VECTOR ?a = [\<lparr>HM_PROCESS_ID = 1, HM_BUFFER_ID = 0, PROC_HM_ASSOCIATION = demo_associations,
                     CURRENTLY_REGISTERED_PROCS = 0\<rparr>]" "length demo_associations = 128"
    by (simp_all add: demo_hm_def demo_associations_def)
  obtain a1 where c: "CREATE_BLACKBOARD (''Process'' @ decimal 1) 4 [0, 0, 0, 0] ?a = ret_out NO_ERROR 3 a1"
    using CREATE_BLACKBOARD_new [OF _ _ v(3,4), of 4 "[0, 0, 0, 0]"] v(2) by auto
  have "process_exists 1 a1" "HM_VECTOR a1 = HM_VECTOR ?a"
    using CREATE_BLACKBOARD_frame [OF c] v(1) by (simp_all add: process_exists_def)
  then show ?thesis
    using c h v(1) by (simp add: REGISTER_PROCESS_WITH_HEALTH_MANAGER_def unsigned_int_def vec_at_def Let_def)
qed

theorem registration_within_bounds_witness:
  "\<exists>a'. REGISTER_PROCESS_WITH_HEALTH_MANAGER demo_layout 1 0 [0, 0, 0, 0] (demo_hm\<lparr>CURRENT_OPERATING_MODE := COLD_START\<rparr>) =
     ret_out NO_ERROR 3 a' \<and> hm_inv a'"
proof -
  obtain a' where run: "REGISTER_PROCESS_WITH_HEALTH_MANAGER demo_layout 1 0 [0, 0, 0, 0]
      (demo_hm\<lparr>CURRENT_OPERATING_MODE := COLD_START\<rparr>) = ret_out NO_ERROR 3 a'"
    using demo_register_value by blast
  have "hm_inv a'"
    using registration_within_bounds [OF demo_hm_inv, of 0 1 demo_layout "[0, 0, 0, 0]"] run by simp
  with run show ?thesis by blast
qed

section \<open>Blackboards\<close>

text \<open>A process that reads an empty blackboard and waits is woken by the message displayed next and gets
  exactly this message.\<close>

theorem blocked_reader_gets_message:
  assumes "boards_inv a" "bid < length (BLACKBOARD_VECTOR a)" "BB_CURRENT_MESSAGE_SIZE (board bid a) = 0"
    "EVENT_STATE (EVENT_VECTOR a ! BLACKBOARD_EVENT_ID (board bid a)) = DOWN"
    "0 < len" "len \<le> int (length m)" "len \<le> BB_MAX_MESSAGE_SIZE (board bid a)"
    "TIME_OUT \<le> MAX_TIME_OUT" "0 < TIME_OUT" "normalised now"
  shows "\<exists>show_it. (\<forall>x. boards_inv x \<longrightarrow> bid < length (BLACKBOARD_VECTOR x) \<longrightarrow> len \<le> BB_MAX_MESSAGE_SIZE (board bid x) \<longrightarrow>
        DISPLAY_BLACKBOARD bid m len x = (ret NO_ERROR (show_it x) :: (unit reply \<times> APEX) outcome)) \<and>
    (\<exists>a'. READ_BLACKBOARD now bid TIME_OUT [Woken show_it] a = ret_out NO_ERROR (take (nat len) m) a')"
proof (intro exI conjI allI impI)
  let ?m = "take (nat len) m"
  fix x assume "boards_inv x" "bid < length (BLACKBOARD_VECTOR x)" "len \<le> BB_MAX_MESSAGE_SIZE (board bid x)"
  then show "DISPLAY_BLACKBOARD bid m len x = (ret NO_ERROR (displayed bid ?m x) :: (unit reply \<times> APEX) outcome)"
    using DISPLAY_BLACKBOARD_ok [of x bid len m] assms(5,6) by simp
next
  have "take (nat len) m \<noteq> []" "int (length (take (nat len) m)) \<le> BB_MAX_MESSAGE_SIZE (board bid a)"
    using assms(5-7) by auto
  from someI_ex [OF READ_BLACKBOARD_woken [OF assms(1-4) this assms(8-10)]]
  show "READ_BLACKBOARD now bid TIME_OUT [Woken (displayed bid (take (nat len) m))] a =
     ret_out NO_ERROR (take (nat len) m) (SOME a'. READ_BLACKBOARD now bid TIME_OUT [Woken (displayed bid (take (nat len) m))] a =
     ret_out NO_ERROR (take (nat len) m) a')" .
qed

theorem blocked_reader_gets_message_witness:
  "\<exists>show_it a'. READ_BLACKBOARD \<lparr>tv_sec = 7, tv_nsec = 0\<rparr> 0 1000 [Woken show_it] demo = ret_out NO_ERROR [1, 2, 3] a'"
  using blocked_reader_gets_message [OF demo_boards_inv, of 0 WAITING_ON_PERIOD WAITING_ON_PERIOD RELEASE_PROCESS 3 "[1, 2, 3]" 1000
      "\<lparr>tv_sec = 7, tv_nsec = 0\<rparr>"]
  by (auto simp: demo_board_def demo_events EVENT_new_def MAX_TIME_OUT_def NANO_def normalised_def)

text \<open>A displayed message is read by everybody until it is replaced or cleared: a read returns it and
  changes nothing; after CLEAR\_BLACKBOARD a read that does not wait answers NOT\_AVAILABLE.  All three
  services keep the invariant of the blackboards.\<close>

theorem display_read_clear:
  assumes "boards_inv a" "bid < length (BLACKBOARD_VECTOR a)"
    "0 < len" "len \<le> int (length m)" "len \<le> BB_MAX_MESSAGE_SIZE (board bid a)" "TIME_OUT \<le> MAX_TIME_OUT"
  shows "\<exists>a1 a2. DISPLAY_BLACKBOARD bid m len a = (ret NO_ERROR a1 :: (unit reply \<times> APEX) outcome) \<and> boards_inv a1 \<and>
    READ_BLACKBOARD now bid TIME_OUT ws a1 = ret_out NO_ERROR (take (nat len) m) a1 \<and>
    CLEAR_BLACKBOARD bid a1 = (ret NO_ERROR a2 :: (unit reply \<times> APEX) outcome) \<and> boards_inv a2 \<and>
    READ_BLACKBOARD now bid 0 ws a2 = ret NOT_AVAILABLE a2"
proof -
  let ?m = "take (nat len) m"
  let ?a1 = "displayed bid ?m a"
  have len: "int (length ?m) = len" using assms(3,4) by simp
  have inv: "boards_inv ?a1" by (rule boards_inv_displayed [OF assms(1,2)]) (use assms(5) len in simp)
  have bid: "bid < length (BLACKBOARD_VECTOR ?a1)" using assms(2) by simp
  have "DISPLAY_BLACKBOARD bid m len a = (ret NO_ERROR ?a1 :: (unit reply \<times> APEX) outcome)"
    using DISPLAY_BLACKBOARD_ok [OF assms(1,2), of len m] assms(3-5) by simp
  moreover have "READ_BLACKBOARD now bid TIME_OUT ws ?a1 = ret_out NO_ERROR ?m ?a1"
    using READ_BLACKBOARD_occupied [OF inv bid assms(6), of now ws] assms(2-4) len by simp
  moreover have "READ_BLACKBOARD now bid 0 ws (erased bid ?a1) = ret NOT_AVAILABLE (erased bid ?a1)"
    by (rule READ_BLACKBOARD_empty_now) (use bid in simp_all)
  ultimately show ?thesis using inv CLEAR_BLACKBOARD_ok [OF inv bid] boards_inv_erased [OF inv bid] by blast
qed

theorem display_read_clear_witness:
  "\<exists>a1. DISPLAY_BLACKBOARD 0 [1, 2, 3] 3 demo = (ret NO_ERROR a1 :: (unit reply \<times> APEX) outcome) \<and>
    READ_BLACKBOARD \<lparr>tv_sec = 7, tv_nsec = 0\<rparr> 0 5 [] a1 = ret_out NO_ERROR [1, 2, 3] a1"
  using display_read_clear [OF demo_boards_inv, of 0 WAITING_ON_PERIOD WAITING_ON_PERIOD RELEASE_PROCESS 3 "[1, 2, 3]" 5
      "\<lparr>tv_sec = 7, tv_nsec = 0\<rparr>" "[]"]
  by (auto simp: demo_board_def MAX_TIME_OUT_def NANO_def)

section \<open>Buffers\<close>

text \<open>C7. A buffer is a bounded queue: every sequence of sends and receives that a queue of BUFFER\_MAX\_NB\_MESSAGE
  messages allows runs without an error on the ring of slots, and the messages received are those the
  queue gives, in the same order; the slots hold the contents of the queue afterwards.\<close>

theorem buffer_refines_queue:
  assumes "fifo_spec (nat (BUFFER_MAX_NB_MESSAGE b)) ops (buffer_contents b) = Some (out, q)" "ring_inv b"
    "\<forall>m\<in>set (fifo_puts ops). buffer_ok b m"
  shows "\<exists>b'. fifo_run buffer_send receive_section ops b = Returned (out, b') \<and> ring_inv b' \<and> buffer_contents b' = q"
  using buffer_fifo.run_refines [OF assms] by blast

lemma demo_hm_buffer_size [simp]:
  "BUFFER_MAX_NB_MESSAGE demo_hm_buffer = 20" "CURRENT_MESSAGE_SIZE demo_hm_buffer = 0"
  by (simp_all add: demo_hm_buffer_def BUFFER_new_def)

theorem buffer_refines_queue_witness:
  "\<exists>b'. fifo_run buffer_send receive_section [Put [1], Put [2, 3], Get, Put [4], Get] demo_hm_buffer =
      Returned ([[1], [2, 3]], b') \<and> buffer_contents b' = [[4]]"
  using buffer_refines_queue [of demo_hm_buffer "[Put [1], Put [2, 3], Get, Put [4], Get]" "[[1], [2, 3]]" "[[4]]"]
  by (auto simp: buffer_ok_def)

text \<open>C8. Whatever the interleaving of the threads that send to a buffer and receive from it, each of them
  stopping between the wait for its semaphore and its critical section: the messages received are the
  first of the messages sent, in order, the rest is in the buffer, there are never more than
  BUFFER\_MAX\_NB\_MESSAGE of them, and no critical section that was entered reads an empty slot or writes
  outside a slot.\<close>

theorem buffer_threads_in_order:
  assumes "buf_reachable b0 threads s" "ring_inv b0" "buffer_sems 0 0 b0" "buffer_contents b0 = []"
  shows "received s @ buffer_contents (buf s) = sent s \<and>
    int (length (buffer_contents (buf s))) \<le> BUFFER_MAX_NB_MESSAGE (buf s) \<and>
    (\<forall>i<length (bpcs s). (bpcs s ! i = Has_message \<longrightarrow> (\<exists>m b. receive_section (buf s) = Returned (m, b))) \<and>
      (\<forall>m. bpcs s ! i = Has_slot m \<longrightarrow> (\<exists>b. send_section m (int (length m)) (buf s) = Returned b)))"
proof -
  have inv: "buf_system_inv s" by (rule buf_reachable_inv [OF assms])
  then have "ring_inv (buf s)" "received s @ buffer_contents (buf s) = sent s" by (simp_all add: buf_system_inv_def)
  then show ?thesis using buf_reader_defined [OF inv] buf_writer_defined [OF inv] by (auto simp: ring_inv_def)
qed

lemma demo_send_steps:
  "\<exists>s. buf_reachable demo_hm_buffer 2 s \<and> sent s = [[1]]"
proof -
  let ?s0 = "\<lparr>buf = demo_hm_buffer, bpcs = replicate 2 Idle_thread, sent = [], received = []\<rparr>"
  let ?b1 = "BUFFER_WRITE_SEMAPHORE_update take_unit demo_hm_buffer"
  let ?s1 = "?s0\<lparr>buf := ?b1, bpcs := (bpcs ?s0)[0 := Has_slot [1]]\<rparr>"
  have 0: "buf_reachable demo_hm_buffer 2 ?s0" by (rule buf_init)
  have "SEMAPHORE_wait BUFFER_WRITE_SEMAPHORE BUFFER_WRITE_SEMAPHORE_update \<lparr>tv_sec = 7, tv_nsec = 0\<rparr> 0 [] demo_hm_buffer =
      Returned (NO_ERROR, ?b1)"
    by (rule SEMAPHORE_wait_available [OF field_WRITE])
      (simp_all add: demo_hm_buffer_def BUFFER_new_def SEMAPHORE_new_def MAX_TIME_OUT_def NANO_def)
  then have "buf_step ?s0 ?s1" by (intro send_wait [of 0 ?s0 "[1]" _ 0]) (simp_all add: buffer_ok_def)
  with 0 have 1: "buf_reachable demo_hm_buffer 2 ?s1" by (rule buf_next)
  have "buf_system_inv ?s1" by (rule buf_reachable_inv [OF 1]) simp_all
  then obtain b2 where "send_section [1] (int (length [1 :: byte])) (buf ?s1) = Returned b2"
    using buf_writer_defined [of ?s1 0 "[1]"] by auto
  then have "buf_step ?s1 (?s1\<lparr>buf := b2, bpcs := (bpcs ?s1)[0 := Idle_thread], sent := sent ?s1 @ [[1]]\<rparr>)"
    by (intro buf_step.send_section) simp_all
  with 1 have 2: "buf_reachable demo_hm_buffer 2 (?s1\<lparr>buf := b2, bpcs := (bpcs ?s1)[0 := Idle_thread], sent := sent ?s1 @ [[1]]\<rparr>)"
    by (rule buf_next)
  show ?thesis by (intro exI conjI, rule 2) simp
qed

theorem buffer_threads_in_order_witness:
  "\<exists>s. buf_reachable demo_hm_buffer 2 s \<and> received s @ buffer_contents (buf s) = [[1]]"
  using demo_send_steps buffer_threads_in_order [of demo_hm_buffer 2] by fastforce

text \<open>The services on a buffer that is not full and not empty: SEND\_BUFFER stores the first LENGTH bytes as
  the newest message, RECEIVE\_BUFFER hands out the oldest one, and neither waits.\<close>

theorem send_receive_buffer:
  assumes "buffers_inv a" "bid < length (BUFFER_VECTOR a)" "buffer_contents (BUFFER_VECTOR a ! bid) = m # ms"
    "CURRENT_MESSAGE_SIZE (BUFFER_VECTOR a ! bid) < BUFFER_MAX_NB_MESSAGE (BUFFER_VECTOR a ! bid)"
    "0 \<le> len" "len \<le> int (length new)" "len \<le> BUFFER_MAX_MESSAGE_SIZE (BUFFER_VECTOR a ! bid)" "TIME_OUT \<le> MAX_TIME_OUT"
  shows "\<exists>a1 a2. SEND_BUFFER now bid new len TIME_OUT ws a = (ret NO_ERROR a1 :: (unit reply \<times> APEX) outcome) \<and> buffers_inv a1 \<and>
    RECEIVE_BUFFER now' bid TIME_OUT ws' a1 = ret_out NO_ERROR m a2 \<and> buffers_inv a2 \<and>
    buffer_contents (BUFFER_VECTOR a2 ! bid) = ms @ [take (nat len) new]"
proof -
  let ?b = "BUFFER_VECTOR a ! bid"
  have ring: "ring_inv ?b" "buffer_sems 0 0 ?b" using buffers_inv_nth [OF assms(1,2)] by simp_all
  obtain b1 where s: "SEND_MESSAGE now new len TIME_OUT ws ?b = Returned (NO_ERROR, b1)"
    "ring_inv b1" "buffer_sems 0 0 b1" "buffer_contents b1 = buffer_contents ?b @ [take (nat len) new]"
    by (rule SEND_MESSAGE_room [OF ring assms(4,5,7,6,8)])
  have c1: "buffer_contents b1 = m # (ms @ [take (nat len) new])" using s(4) assms(3) by simp
  obtain b2 where r: "RECEIVE_MESSAGE now' TIME_OUT ws' b1 = Returned (NO_ERROR, Some m, b2)"
    "ring_inv b2" "buffer_sems 0 0 b2" "buffer_contents b2 = ms @ [take (nat len) new]"
    by (rule RECEIVE_MESSAGE_some [OF s(2,3) c1 assms(8)])
  let ?a1 = "a\<lparr>BUFFER_VECTOR := (BUFFER_VECTOR a)[bid := b1]\<rparr>"
  let ?a2 = "?a1\<lparr>BUFFER_VECTOR := (BUFFER_VECTOR ?a1)[bid := b2]\<rparr>"
  have inv1: "buffers_inv ?a1" by (rule buffers_inv_update [OF assms(1) s(2,3)])
  have inv2: "buffers_inv ?a2" by (rule buffers_inv_update [OF inv1 r(2,3)])
  have u: "unsigned_int bid = bid" by (rule unsigned_int_id [OF assms(1,2)])
  have "SEND_BUFFER now bid new len TIME_OUT ws a = (ret NO_ERROR ?a1 :: (unit reply \<times> APEX) outcome)"
    using s(1) u assms(2,8) by (simp add: SEND_BUFFER_def)
  moreover have "RECEIVE_BUFFER now' bid TIME_OUT ws' ?a1 = ret_out NO_ERROR m ?a2"
    using r(1) u assms(2,8) by (simp add: RECEIVE_BUFFER_def)
  ultimately show ?thesis using inv1 inv2 r(4) assms(2) by (intro exI [of _ ?a1] exI [of _ ?a2]) simp
qed

lemma demo_one_message:
  "\<exists>b. ring_inv b \<and> buffer_sems 0 0 b \<and> buffer_contents b = [[9]] \<and> BUFFER_MAX_NB_MESSAGE b = 20 \<and>
     BUFFER_MAX_MESSAGE_SIZE b = 4"
proof -
  obtain b where "ring_inv b" "buffer_sems 0 0 b" "buffer_contents b = [[9]]" "BUFFER_MAX_NB_MESSAGE b = 20"
     "BUFFER_MAX_MESSAGE_SIZE b = 4"
    by (rule SEND_MESSAGE_room [OF demo_hm_buffer(1,2), of 1 "[9]" 0 "\<lparr>tv_sec = 7, tv_nsec = 0\<rparr>" "[]"])
      (simp_all add: MAX_TIME_OUT_def NANO_def)
  then show ?thesis by blast
qed

theorem send_receive_buffer_witness:
  "\<exists>a a1 a2. buffer_contents (BUFFER_VECTOR a ! 0) = [[9]] \<and>
    SEND_BUFFER \<lparr>tv_sec = 7, tv_nsec = 0\<rparr> 0 [1, 2, 3] 2 0 [] a = (ret NO_ERROR a1 :: (unit reply \<times> APEX) outcome) \<and>
    RECEIVE_BUFFER \<lparr>tv_sec = 7, tv_nsec = 0\<rparr> 0 0 [] a1 = ret_out NO_ERROR [9] a2 \<and>
    buffer_contents (BUFFER_VECTOR a2 ! 0) = [[1, 2]]"
proof -
  obtain b where b: "ring_inv b" "buffer_sems 0 0 b" "buffer_contents b = [[9]]" "BUFFER_MAX_NB_MESSAGE b = 20"
    "BUFFER_MAX_MESSAGE_SIZE b = 4" using demo_one_message by blast
  have n: "CURRENT_MESSAGE_SIZE b = 1"
    using b(1,3) length_buffer_contents [of b] by (simp add: ring_inv_def)
  have inv: "buffers_inv (APEX_new\<lparr>BUFFER_VECTOR := [b]\<rparr>)"
    using b by (simp add: buffers_inv_def SYSTEM_LIMIT_NUMBER_OF_BUFFERS_def)
  let ?a = "APEX_new\<lparr>BUFFER_VECTOR := [b]\<rparr>" and ?t = "\<lparr>tv_sec = 7, tv_nsec = 0\<rparr>"
  have "\<exists>a1 a2. SEND_BUFFER ?t 0 [1, 2, 3] 2 0 [] ?a = (ret NO_ERROR a1 :: (unit reply \<times> APEX) outcome) \<and> buffers_inv a1 \<and>
    RECEIVE_BUFFER ?t 0 0 [] a1 = ret_out NO_ERROR [9] a2 \<and> buffers_inv a2 \<and>
    buffer_contents (BUFFER_VECTOR a2 ! 0) = [] @ [take (nat 2) [1, 2, 3]]"
    by (rule send_receive_buffer [OF inv]) (use b n in \<open>simp_all add: MAX_TIME_OUT_def NANO_def\<close>)
  then obtain a1 a2 where r: "SEND_BUFFER ?t 0 [1, 2, 3] 2 0 [] ?a = (ret NO_ERROR a1 :: (unit reply \<times> APEX) outcome)"
    "RECEIVE_BUFFER ?t 0 0 [] a1 = ret_out NO_ERROR [9] a2" "buffer_contents (BUFFER_VECTOR a2 ! 0) = [[1, 2]]"
    by (auto simp: eval_nat_numeral)
  show ?thesis by (intro exI [of _ ?a] exI [of _ a1] exI [of _ a2]) (use b(3) r in simp)
qed

text \<open>SEND\_BUFFER does not compare LENGTH with the size of the slots: a longer message is copied beyond the end
  of its slot.\<close>

theorem send_buffer_overflow:
  assumes "buffers_inv a" "bid < length (BUFFER_VECTOR a)"
    "CURRENT_MESSAGE_SIZE (BUFFER_VECTOR a ! bid) < BUFFER_MAX_NB_MESSAGE (BUFFER_VECTOR a ! bid)"
    "BUFFER_MAX_MESSAGE_SIZE (BUFFER_VECTOR a ! bid) < len" "TIME_OUT \<le> MAX_TIME_OUT"
  shows "SEND_BUFFER now bid m len TIME_OUT ws a = (Undef :: (unit reply \<times> APEX) outcome)"
proof -
  have ring: "ring_inv (BUFFER_VECTOR a ! bid)" "buffer_sems 0 0 (BUFFER_VECTOR a ! bid)"
    using buffers_inv_nth [OF assms(1,2)] by simp_all
  show ?thesis
    using SEND_MESSAGE_too_long [OF ring assms(3-5)] unsigned_int_id [OF assms(1,2)] assms(2,5)
    by (simp add: SEND_BUFFER_def)
qed

theorem send_buffer_overflow_witness:
  "SEND_BUFFER \<lparr>tv_sec = 7, tv_nsec = 0\<rparr> 0 [1, 2, 3, 4, 5] 5 0 [] demo_hm = (Undef :: (unit reply \<times> APEX) outcome)"
  by (rule send_buffer_overflow [OF demo_hm_invs(2)]) (simp_all add: demo_hm_def MAX_TIME_OUT_def NANO_def)

end
