(* ===== verification/PrimitiveTheorems.thy ===== *)
theory PrimitiveTheorems
  imports Demo RwLock SamplingPort QueuePort
begin

text \<open>What the building blocks guarantee: time arithmetic, semaphores, events, readers-writers locks
  and the two kinds of ports.\<close>

section \<open>Time\<close>

text \<open>Adding a duration between 0 and MAX\_TIME\_OUT to a normalised time gives a normalised time that is exactly
  that much later, without overflow of the 64-bit fields; adding INFINITE\_TIME\_VALUE means
  MAX\_TIME\_OUT, and a longer duration fails the assertion.\<close>

theorem add_time_exact:
  assumes "normalised tv" "\<bar>tv_sec tv\<bar> < 2 ^ 62" "0 \<le> n \<or> n = INFINITE_TIME_VALUE"
  shows "if n \<le> MAX_TIME_OUT
    then \<exists>tv'. addTimeNano tv n = Some tv' \<and> normalised tv' \<and> tv_sec tv' \<in> {- (2 ^ 63) ..< 2 ^ 63} \<and>
      convertTimeSpecToNano tv' = convertTimeSpecToNano tv + (if n = INFINITE_TIME_VALUE then MAX_TIME_OUT else n)
    else addTimeNano tv n = None"
proof (cases "n \<le> MAX_TIME_OUT")
  case True
  then obtain tv' where tv': "addTimeNano tv n = Some tv'" by (rule addTimeNano_some)
  have "- tv_nsec tv \<le> n \<or> n = INFINITE_TIME_VALUE" using assms(1,3) by (auto simp: normalised_def)
  moreover have "- 1 \<le> n" using assms(3) by (auto simp: INFINITE_TIME_VALUE_def)
  ultimately have "normalised tv'" "tv_sec tv' \<in> {- (2 ^ 63) ..< 2 ^ 63}"
    using addTimeNano_normalised [OF tv' assms(1)] addTimeNano_fits(3) [OF tv' assms(1,2)] by blast+
  with tv' True addTimeNano_value [OF tv'] show ?thesis by simp
next
  case False
  then show ?thesis using addTimeNano_Some_iff [of tv n] by auto
qed

theorem add_time_exact_witness:
  "\<exists>tv'. addTimeNano \<lparr>tv_sec = 7, tv_nsec = 999999999\<rparr> 2 = Some tv' \<and> convertTimeSpecToNano tv' = 8000000001"
  using add_time_exact [of "\<lparr>tv_sec = 7, tv_nsec = 999999999\<rparr>" 2]
  by (auto simp: normalised_def NANO_def MAX_TIME_OUT_def INFINITE_TIME_VALUE_def convertTimeSpecToNano_def)

text \<open>On normalised times compareTime is the order of the instants they denote, compareTimeLess its strict part,
  and subtractTime the normalised difference.\<close>

theorem compare_subtract_times:
  assumes "normalised a" "normalised b"
  shows "compareTime a b = (convertTimeSpecToNano a \<le> convertTimeSpecToNano b) \<and>
    compareTimeLess a b = (convertTimeSpecToNano a < convertTimeSpecToNano b) \<and>
    normalised (subtractTime a b) \<and>
    convertTimeSpecToNano (subtractTime a b) = convertTimeSpecToNano a - convertTimeSpecToNano b"
  using compareTime_value [OF assms] compareTimeLess_value [OF assms] subtractTime_normalised [OF assms] subtractTime_value
  by blast

theorem compare_subtract_times_witness:
  "convertTimeSpecToNano (subtractTime \<lparr>tv_sec = 7, tv_nsec = 1\<rparr> \<lparr>tv_sec = 5, tv_nsec = 999999999\<rparr>) = 1000000002"
  using compare_subtract_times [of "\<lparr>tv_sec = 7, tv_nsec = 1\<rparr>" "\<lparr>tv_sec = 5, tv_nsec = 999999999\<rparr>"]
  by (simp add: normalised_def NANO_def convertTimeSpecToNano_def)

section \<open>Readers-writers locks\<close>

text \<open>C4. Mutual exclusion: whatever the interleaving of the threads that take and give back a readers-writers
  lock, a writer takes the permits of the semaphore one by one, while a thread writes no other thread
  reads, writes, or holds any permit; and the permits in the semaphore and those held always add up to
  the maximal number of readers.\<close>

theorem writer_excludes_all:
  assumes "rw_reachable threads m s" "1 \<le> m"
  shows "counter (RW_SEM (lock s)) + sum_list (map (permits m) (pcs s)) = m \<and>
    (\<forall>i j. i < length (pcs s) \<longrightarrow> j < length (pcs s) \<longrightarrow> i \<noteq> j \<longrightarrow> pcs s ! i = Writing \<longrightarrow>
      pcs s ! j \<notin> {Reading, Writing} \<and> permits m (pcs s ! j) = 0)"
proof -
  have inv: "rw_inv m s" by (rule rw_reachable_inv [OF assms])
  have "pcs s ! j \<notin> {Reading, Writing} \<and> permits m (pcs s ! j) = 0"
    if "i < length (pcs s)" "j < length (pcs s)" "i \<noteq> j" "pcs s ! i = Writing" for i j
    using rw_inv_exclusion [OF inv assms(2) that(1,4,2,3)] assms(2) by auto
  then show ?thesis using inv unfolding rw_inv_def by blast
qed

lemma demo_writer: "\<exists>s. rw_reachable 2 1 s \<and> pcs s = [Writing, Out]"
proof -
  let ?l0 = "RW_LOCK_SEM_new ''LOCK'' 1"
  let ?s0 = "\<lparr>lock = ?l0, pcs = replicate 2 Out\<rparr>"
  let ?l1 = "WRITER_SEMAPHORE_update take_unit ?l0"
  let ?s1 = "\<lparr>lock = ?l1, pcs = (pcs ?s0)[0 := Gathering 0]\<rparr>"
  let ?l2 = "RW_SEM_update take_unit ?l1"
  let ?s2 = "\<lparr>lock = ?l2, pcs = (pcs ?s1)[0 := Gathering (0 + 1)]\<rparr>"
  let ?s3 = "\<lparr>lock = post_writer (lock ?s2), pcs = (pcs ?s2)[0 := Writing]\<rparr>"
  let ?t = "\<lparr>tv_sec = 7, tv_nsec = 0\<rparr>"
  note defs = RW_LOCK_SEM_new_def SEMAPHORE_new_def
  have "SEMAPHORE_wait_until WRITER_SEMAPHORE WRITER_SEMAPHORE_update ?t [] ?l0 = Returned (NO_ERROR, ?l1)"
    by (rule wait_until_available [OF field_WRITER_SEMAPHORE]) (simp_all add: defs)
  then have 1: "rw_step ?s0 ?s1" by (intro write_token [of 0 ?s0 ?t]) simp_all
  have "SEMAPHORE_wait_until RW_SEM RW_SEM_update ?t [] ?l1 = Returned (NO_ERROR, ?l2)"
    by (rule wait_until_available [OF field_RW_SEM]) (simp_all add: defs)
  then have 2: "rw_step ?s1 ?s2" by (intro write_permit [of 0 ?s1 0 ?t]) (simp_all add: defs)
  have 3: "rw_step ?s2 ?s3" by (rule write_enter [of 0 ?s2 1]) (simp_all add: defs)
  have "rw_reachable 2 1 ?s3"
    by (rule rw_next [OF rw_next [OF rw_next [OF rw_init 1] 2] 3])
  then show ?thesis by (intro exI [of _ ?s3]) (simp add: eval_nat_numeral)
qed

theorem writer_excludes_all_witness:
  "\<exists>s. rw_reachable 2 1 s \<and> pcs s = [Writing, Out] \<and> counter (RW_SEM (lock s)) = 0"
  using demo_writer writer_excludes_all [of 2 1] by fastforce

section \<open>Semaphores and events\<close>

text \<open>Signalling a counting semaphore n times raises its value by n but never beyond its maximum, and every
  signal keeps all semaphores of the partition between 0 and their maximum.\<close>

theorem signals_saturate:
  assumes "sid < length (SEMAPHORE_VECTOR a)" "sems_inv a"
  shows "\<exists>a'. signal_times n sid a = Returned a' \<and>
     counter (SEMAPHORE_VECTOR a' ! sid) =
        min (counter (SEMAPHORE_VECTOR a ! sid) + int n) (maximumvalue (SEMAPHORE_VECTOR a ! sid))"
  using signal_times_value [OF assms(1), of n] assms by (auto simp: sems_inv_def)

theorem signals_saturate_witness:
  "\<exists>a'. signal_times 5 0 (APEX_new\<lparr>SEMAPHORE_VECTOR := [SEMAPHORE_new 1 3]\<rparr>) = Returned a' \<and>
     counter (SEMAPHORE_VECTOR a' ! 0) = 3"
  using signals_saturate [of 0 "APEX_new\<lparr>SEMAPHORE_VECTOR := [SEMAPHORE_new 1 3]\<rparr>" 5]
  by (auto simp: sems_inv_def sem_inv_def SEMAPHORE_new_def)

text \<open>A wait on a semaphore or an event relies on an absolute time computed from the time-out; a negative
  time-out (other than INFINITE\_TIME\_VALUE) that takes the nanoseconds below zero is not refused: a wait
  that has to block then fails the assertion on pthread\_cond\_timedwait and ends the partition.\<close>

theorem negative_timeout_aborts:
  assumes "sid < length (SEMAPHORE_VECTOR a)" "counter (SEMAPHORE_VECTOR a ! sid) = 0" "normalised now"
    "TIME_OUT < - tv_nsec now" "TIME_OUT \<noteq> INFINITE_TIME_VALUE" "\<not> NANO dvd tv_nsec now + TIME_OUT"
  shows "WAIT_SEMAPHORE now sid TIME_OUT ws a = (Aborted :: (unit reply \<times> APEX) outcome)"
proof -
  have "tv_nsec now \<ge> 0" using assms(3) by (simp add: normalised_def)
  then have "TIME_OUT \<le> MAX_TIME_OUT" using assms(4) MAX_TIME_OUT_pos by linarith
  then show ?thesis
    using SEMAPHORE_wait_negative_aborts [OF field_SEMAPHORE [of sid] assms(1) _ assms(3-6)] assms(1,2)
    by (simp add: WAIT_SEMAPHORE_def at_def)
qed

theorem negative_timeout_aborts_witness:
  "WAIT_SEMAPHORE \<lparr>tv_sec = 7, tv_nsec = 0\<rparr> 0 (-5) [] (APEX_new\<lparr>SEMAPHORE_VECTOR := [SEMAPHORE_new 0 3]\<rparr>) =
     (Aborted :: (unit reply \<times> APEX) outcome)"
  by (rule negative_timeout_aborts)
    (simp_all add: SEMAPHORE_new_def normalised_def NANO_def INFINITE_TIME_VALUE_def)

section \<open>Ports\<close>

text \<open>What a source sampling port holds arrives in a destination port of another partition: the bytes that
  READ\_CONTENTS\_TO\_DATA\_BUFFER puts on the wire (the time, the length and the message, little-endian)
  are accepted by WRITE\_CONTENTS\_FROM\_DATA\_BUFFER, and the destination then holds the same message with
  the same time of writing.\<close>

theorem sampling_message_arrives:
  assumes "sampling_inv src" "sampling_inv dst" "S_READY_OR_NOT src" "S_READY_OR_NOT dst"
    "S_PORT_DIRECTION src \<noteq> PORT_DEST" "S_PORT_DIRECTION dst \<noteq> PORT_SOURCE"
    "S_MAX_MESSAGE_SIZE src \<le> S_MAX_MESSAGE_SIZE dst" "S_REAL_MAX_MESSAGE_SIZE src \<le> MAX_LEN"
    "int64 (ABSOLUTE_TIME_WRITTEN (shared_memory src))"
  shows "\<exists>bytes dst'. READ_CONTENTS_TO_DATA_BUFFER MAX_LEN src = Returned (NO_ERROR, bytes) \<and>
    int (length bytes) = 16 + MESSAGE_SIZE (shared_memory src) \<and>
    WRITE_CONTENTS_FROM_DATA_BUFFER bytes (int (length bytes)) dst = Returned (NO_ERROR, dst') \<and>
    sampling_inv dst' \<and> port_message dst' = port_message src \<and>
    ABSOLUTE_TIME_WRITTEN (shared_memory dst') = ABSOLUTE_TIME_WRITTEN (shared_memory src)"
  by (rule contents_transfer [OF assms]) blast

definition demo_port :: "DIRECTION_TYPE \<Rightarrow> byte list \<Rightarrow> SAMPLING_PORT_HELPER" where
  "demo_port d m =
     \<lparr>S_NAME = ''PORT'', S_MAX_MESSAGE_SIZE = 4, S_PORT_DIRECTION = d, S_REFRESH_PERIOD = 1000,
      SAMPLING_DESCRIPTOR = 3, S_REAL_MAX_MESSAGE_SIZE = 20, S_EXTRA_MEMORY_REQUIRED = 16, S_READY_OR_NOT = True,
      LAST_VALIDITY = INVALID,
      shared_memory = \<lparr>ABSOLUTE_TIME_WRITTEN = 12345, MESSAGE_SIZE = int (length m), data = m @ replicate (4 - length m) 0\<rparr>\<rparr>"

theorem sampling_message_arrives_witness:
  "\<exists>bytes dst'. READ_CONTENTS_TO_DATA_BUFFER 20 (demo_port PORT_SOURCE [1, 2, 3]) = Returned (NO_ERROR, bytes) \<and>
    WRITE_CONTENTS_FROM_DATA_BUFFER bytes 19 (demo_port PORT_DEST []) = Returned (NO_ERROR, dst') \<and>
    port_message dst' = [1, 2, 3]"
proof -
  have 1: "sampling_inv (demo_port PORT_SOURCE [1, 2, 3])" "sampling_inv (demo_port PORT_DEST [])"
    "port_message (demo_port PORT_SOURCE [1, 2, 3]) = [1, 2, 3]"
    by (simp_all add: demo_port_def sampling_inv_def SYSTEM_LIMIT_MAX_SAMPLING_MESSAGE_SIZE_def port_message_def)
  obtain bytes dst' where r: "READ_CONTENTS_TO_DATA_BUFFER 20 (demo_port PORT_SOURCE [1, 2, 3]) = Returned (NO_ERROR, bytes)"
    "int (length bytes) = 16 + MESSAGE_SIZE (shared_memory (demo_port PORT_SOURCE [1, 2, 3]))"
    "WRITE_CONTENTS_FROM_DATA_BUFFER bytes (int (length bytes)) (demo_port PORT_DEST []) = Returned (NO_ERROR, dst')"
    "port_message dst' = [1, 2, 3]"
    using sampling_message_arrives [OF 1(1,2), of 20] 1(3) by (auto simp: demo_port_def int64_def)
  moreover have "int (length bytes) = 19" using r(2) by (simp add: demo_port_def)
  ultimately show ?thesis by auto
qed

text \<open>C40. A queuing port on a POSIX message queue that keeps its documented laws (messages leave in the order of
  arrival, a full queue does not take one, an empty one does not give one) is a bounded queue: a send
  with room appends the first LENGTH bytes, a receive takes the oldest message, and with a zero time-out a
  send on a full port answers TIMED\_OUT and a receive on an empty one NOT\_AVAILABLE, without change.\<close>

theorem queuing_port_is_a_queue:
  assumes laws: "mq_laws mq contents (Q_MQDES p) (Q_MAX_NB_MESSAGE p) (Q_MAX_MESSAGE_SIZE p)"
    and p: "Q_READY_OR_NOT p" "Q_PORT_DIRECTION p = PORT_SOURCE_DEST"
    and len: "0 \<le> len" "len \<le> Q_MAX_MESSAGE_SIZE p" "len \<le> int (length m)"
  shows "(int (length (contents w)) < Q_MAX_NB_MESSAGE p \<longrightarrow>
      (\<exists>w'. QUEUE_SEND_MESSAGE mq now m len 0 p w = Returned (NO_ERROR, w') \<and> contents w' = contents w @ [take (nat len) m])) \<and>
    (Q_MAX_NB_MESSAGE p \<le> int (length (contents w)) \<longrightarrow> QUEUE_SEND_MESSAGE mq now m len 0 p w = Returned (TIMED_OUT, w)) \<and>
    (case contents w of
       [] \<Rightarrow> QUEUE_RECEIVE_MESSAGE mq now 0 p w = Returned (NOT_AVAILABLE, None, w)
     | x # xs \<Rightarrow> \<exists>w'. QUEUE_RECEIVE_MESSAGE mq now 0 p w = Returned (NO_ERROR, Some x, w') \<and> contents w' = xs)"
proof -
  have 0: "0 \<le> MAX_TIME_OUT" using MAX_TIME_OUT_pos by simp
  have "int (length (contents w)) < Q_MAX_NB_MESSAGE p \<longrightarrow>
      (\<exists>w'. QUEUE_SEND_MESSAGE mq now m len 0 p w = Returned (NO_ERROR, w') \<and> contents w' = contents w @ [take (nat len) m])"
    unfolding QUEUE_SEND_MESSAGE_def using queue_send_room [OF laws p(1) _ 0 _ len] p(2) by simp
  moreover have "Q_MAX_NB_MESSAGE p \<le> int (length (contents w)) \<longrightarrow> QUEUE_SEND_MESSAGE mq now m len 0 p w = Returned (TIMED_OUT, w)"
    unfolding QUEUE_SEND_MESSAGE_def using queue_send_full [OF laws p(1)] p(2) by simp
  moreover have "case contents w of
       [] \<Rightarrow> QUEUE_RECEIVE_MESSAGE mq now 0 p w = Returned (NOT_AVAILABLE, None, w)
     | x # xs \<Rightarrow> \<exists>w'. QUEUE_RECEIVE_MESSAGE mq now 0 p w = Returned (NO_ERROR, Some x, w') \<and> contents w' = xs"
    using queue_receive_some [OF laws p(1) _ 0] queue_receive_empty [OF laws p(1)] p(2) by (simp split: list.split)
  ultimately show ?thesis by blast
qed

definition demo_queue :: MESSAGE_QUEUE_TYPE where
  "demo_queue =
     \<lparr>ref = 1, Q_NAME = ''Q'', Q_MAX_MESSAGE_SIZE = 4, Q_MAX_NB_MESSAGE = 2, Q_PORT_DIRECTION = PORT_SOURCE_DEST,
      Q_READY_OR_NOT = True, REAL_PLATFORM_NAME = ''/Q'', Q_MQDES = 3\<rparr>"

lemma demo_queue_size: "Q_MAX_NB_MESSAGE demo_queue = 2"
  and demo_queue_ready: "Q_READY_OR_NOT demo_queue" "Q_PORT_DIRECTION demo_queue = PORT_SOURCE_DEST"
  by (simp_all add: demo_queue_def)

lemma demo_queue_laws:
  "mq_laws (list_mq 2) (\<lambda>w. w) (Q_MQDES demo_queue) (Q_MAX_NB_MESSAGE demo_queue) (Q_MAX_MESSAGE_SIZE demo_queue)"
  by (simp add: demo_queue_size list_mq_laws)

theorem queuing_port_is_a_queue_witness:
  "(\<exists>w'. QUEUE_SEND_MESSAGE (list_mq 2) \<lparr>tv_sec = 7, tv_nsec = 0\<rparr> [1, 2, 3] 2 0 demo_queue [[9]] = Returned (NO_ERROR, w') \<and>
      w' = [[9], [1, 2]]) \<and>
    (\<exists>w'. QUEUE_RECEIVE_MESSAGE (list_mq 2) \<lparr>tv_sec = 7, tv_nsec = 0\<rparr> 0 demo_queue [[9]] = Returned (NO_ERROR, Some [9], w'))"
  using queuing_port_is_a_queue [OF demo_queue_laws demo_queue_ready, of 2 "[1, 2, 3]" "[[9]]" "\<lparr>tv_sec = 7, tv_nsec = 0\<rparr>"]
  by (auto simp: demo_queue_def eval_nat_numeral)

end
