(* ===== verification/Sockets.thy ===== *)
theory Sockets
  imports Prelude
begin

text \<open>
  What the module manager uses of the UDP sockets of the operating system (class UDPSocket):
  a datagram is sent to a node and a port, which fails with an exception when the system does not
  take it, and the next datagram is received, when there is one.  The calls are parameters on the
  state \<open>'w\<close> of the system; \<open>list_net\<close> is an instance that keeps the datagrams sent and those that
  arrive in lists.
\<close>

record DESTINATION_URL =
  node_name :: NAME_TYPE
  url_port :: nat

datatype recv_answer = Received "byte list" | Would_block | Recv_error

record 'w socket_calls =
  send_to :: "byte list \<Rightarrow> DESTINATION_URL \<Rightarrow> 'w \<Rightarrow> 'w option"
  recv_from :: "nat \<Rightarrow> int \<Rightarrow> 'w \<Rightarrow> recv_answer \<times> 'w"

text \<open>A message to every address in turn; a \<open>SocketException\<close>, which no caller of the channels
  handles, ends the program.\<close>

fun send_all :: "'w socket_calls \<Rightarrow> byte list \<Rightarrow> DESTINATION_URL list \<Rightarrow> 'w \<Rightarrow> 'w outcome" where
  "send_all net bytes [] w = Returned w"
| "send_all net bytes (u # us) w =
     (case send_to net bytes u w of None \<Rightarrow> Aborted | Some w' \<Rightarrow> send_all net bytes us w')"

text \<open>A network that takes every datagram and reports what was sent.\<close>

definition net_laws :: "'w socket_calls \<Rightarrow> ('w \<Rightarrow> (DESTINATION_URL \<times> byte list) list) \<Rightarrow> bool" where
  "net_laws net sent \<longleftrightarrow>
     (\<forall>bytes u w. \<exists>w'. send_to net bytes u w = Some w' \<and> sent w' = sent w @ [(u, bytes)])"

lemma send_all_sent:
  assumes "net_laws net sent"
  shows "\<exists>w'. send_all net bytes us w = Returned w' \<and> sent w' = sent w @ map (\<lambda>u. (u, bytes)) us"
proof (induction us arbitrary: w)
  case (Cons u us)
  obtain w1 where w1: "send_to net bytes u w = Some w1" "sent w1 = sent w @ [(u, bytes)]"
    using assms unfolding net_laws_def by blast
  then show ?case using Cons.IH [of w1] by auto
qed simp

lemma send_all_preserves:
  assumes "send_all net bytes us w = Returned w'" "\<And>b u w w'. send_to net b u w = Some w' \<Longrightarrow> P w \<Longrightarrow> P w'" "P w"
  shows "P w'"
  using assms(1,3) by (induction us arbitrary: w) (auto split: option.splits dest: assms(2))

text \<open>The instance: datagrams sent, and for each port those that wait there.\<close>

record list_net =
  net_sent :: "(DESTINATION_URL \<times> byte list) list"
  net_arrived :: "nat \<Rightarrow> byte list list"

definition list_net_calls :: "'a list_net_scheme socket_calls" where
  "list_net_calls =
     \<lparr>send_to = (\<lambda>bytes u w. Some (w\<lparr>net_sent := net_sent w @ [(u, bytes)]\<rparr>)),
      recv_from = (\<lambda>port maxlen w. case net_arrived w port of
         [] \<Rightarrow> (Would_block, w)
       | m # ms \<Rightarrow> (Received (take (nat maxlen) m), w\<lparr>net_arrived := (net_arrived w)(port := ms)\<rparr>))\<rparr>"

lemma list_net_laws: "net_laws list_net_calls net_sent"
  by (auto simp: net_laws_def list_net_calls_def)

end
