(* ===== verification/SamplingChannel.thy ===== *)
theory SamplingChannel
  imports SamplingPort Sockets
begin

text \<open>
  SAMPLING\_CHANNEL of src/SAMPLING\_CHANNEL.cc and include/ACM/INTERNAL/SAMPLING\_CHANNEL.h: the
  module manager copies the message of one source port into the destination ports, sends it to other
  modules as a datagram of the time of writing, the length and the message, or takes such a datagram
  and writes it into the destination ports.  The socket of a sending channel is only there or not;
  that of a receiving channel is known by its local port.  The data buffer keeps what it held when a
  datagram is shorter than it, or when none could be read.
\<close>

datatype COMMUNICATION_TYPE_ENUM = INTRA_MODULE | INTER_MODULE_SRC | INTER_MODULE_DST

record SAMPLING_CHANNEL =
  SC_CHANNEL_NAME :: NAME_TYPE
  SC_SOURCE_PORT :: "SAMPLING_PORT_HELPER option"
  SC_INITIALIZED :: bool
  SC_MAX_SIZE_OF_MESSAGE :: int
  SC_DESTINATION_PORT_VECTOR :: "SAMPLING_PORT_HELPER list"
  SC_sender_mySocket :: bool
  SC_recv_mySocket :: "nat option"
  SC_MAX_SOCKET_MESSAGE :: nat
  SC_destination_url_vector :: "DESTINATION_URL list"
  SC_DataBuffer :: "byte list"
  SC_COMMUNICATION_TYPE :: COMMUNICATION_TYPE_ENUM

text \<open>The sockets a constructor makes for the type of the channel; both constructors agree but for the
  name, and creating a socket that fails throws.\<close>

definition SAMPLING_CHANNEL_new ::
  "NAME_TYPE \<Rightarrow> COMMUNICATION_TYPE_ENUM \<Rightarrow> nat \<Rightarrow> byte list \<Rightarrow> SAMPLING_CHANNEL" where
  "SAMPLING_CHANNEL_new name ty srcport buffer =
     \<lparr>SC_CHANNEL_NAME = name, SC_SOURCE_PORT = None, SC_INITIALIZED = False, SC_MAX_SIZE_OF_MESSAGE = 0,
      SC_DESTINATION_PORT_VECTOR = [], SC_sender_mySocket = (ty = INTER_MODULE_SRC),
      SC_recv_mySocket = (if ty = INTER_MODULE_DST then Some (srcport mod 65536) else None),
      SC_MAX_SOCKET_MESSAGE = 1, SC_destination_url_vector = [], SC_DataBuffer = buffer,
      SC_COMMUNICATION_TYPE = ty\<rparr>"

section \<open>Configuration\<close>

definition SC_SET_MAX_SOCKET_MESSAGE :: "nat \<Rightarrow> SAMPLING_CHANNEL \<Rightarrow> RETURN_CODE_TYPE \<times> SAMPLING_CHANNEL" where
  "SC_SET_MAX_SOCKET_MESSAGE n c =
     (if SC_INITIALIZED c then (NO_ACTION, c) else (NO_ERROR, c\<lparr>SC_MAX_SOCKET_MESSAGE := n\<rparr>))"

definition SC_SET_COMMUNICATION_TYPE_ENUM ::
  "COMMUNICATION_TYPE_ENUM \<Rightarrow> nat \<Rightarrow> SAMPLING_CHANNEL \<Rightarrow> RETURN_CODE_TYPE \<times> SAMPLING_CHANNEL" where
  "SC_SET_COMMUNICATION_TYPE_ENUM ty srcport c =
     (if SC_INITIALIZED c then (NO_ACTION, c)
      else if SC_COMMUNICATION_TYPE c \<noteq> INTRA_MODULE then (NO_ACTION, c)
      else (NO_ERROR,
        case ty of
          INTRA_MODULE \<Rightarrow> c\<lparr>SC_COMMUNICATION_TYPE := ty\<rparr>
        | INTER_MODULE_SRC \<Rightarrow> c\<lparr>SC_COMMUNICATION_TYPE := ty, SC_sender_mySocket := True\<rparr>
        | INTER_MODULE_DST \<Rightarrow> c\<lparr>SC_COMMUNICATION_TYPE := ty, SC_recv_mySocket := Some (srcport mod 65536)\<rparr>))"

definition SC_GET_SOURCE_NAME :: "SAMPLING_CHANNEL \<Rightarrow> NAME_TYPE" where
  "SC_GET_SOURCE_NAME c = (case SC_SOURCE_PORT c of None \<Rightarrow> '''' | Some p \<Rightarrow> S_NAME p)"

definition SC_GET_DESTINATION_NAMES :: "SAMPLING_CHANNEL \<Rightarrow> string" where
  "SC_GET_DESTINATION_NAMES c = concat (map (\<lambda>p. S_NAME p @ '':'') (SC_DESTINATION_PORT_VECTOR c))"

definition SC_ADD_DESTINATION_URL ::
  "DESTINATION_URL \<Rightarrow> SAMPLING_CHANNEL \<Rightarrow> RETURN_CODE_TYPE \<times> SAMPLING_CHANNEL" where
  "SC_ADD_DESTINATION_URL u c =
     (if SC_INITIALIZED c then (NO_ACTION, c)
      else if \<not> SC_sender_mySocket c then (NOT_AVAILABLE, c)
      else (NO_ERROR, c\<lparr>SC_destination_url_vector := SC_destination_url_vector c @ [u]\<rparr>))"

definition SC_SET_MAX_SIZE_OF_MESSAGE :: "int \<Rightarrow> SAMPLING_CHANNEL \<Rightarrow> RETURN_CODE_TYPE \<times> SAMPLING_CHANNEL" where
  "SC_SET_MAX_SIZE_OF_MESSAGE n c =
     (if SC_INITIALIZED c then (NO_ACTION, c)
      else if SC_COMMUNICATION_TYPE c \<noteq> INTER_MODULE_DST then (NOT_AVAILABLE, c)
      else (NO_ERROR, c\<lparr>SC_MAX_SIZE_OF_MESSAGE := n\<rparr>))"

definition SC_SET_INITIALIZED :: "SAMPLING_CHANNEL \<Rightarrow> SAMPLING_CHANNEL" where
  "SC_SET_INITIALIZED c = c\<lparr>SC_INITIALIZED := True\<rparr>"

text \<open>A new port of a channel starts without a message.\<close>

definition empty_port :: "SAMPLING_PORT_HELPER \<Rightarrow> SAMPLING_PORT_HELPER" where
  "empty_port p = p\<lparr>shared_memory := (shared_memory p)\<lparr>ABSOLUTE_TIME_WRITTEN := 0, MESSAGE_SIZE := 0\<rparr>\<rparr>"

text \<open>ADD\_SOURCE keeps the new port even when its constructor reports an error.\<close>

definition SC_ADD_SOURCE ::
  "NAME_TYPE \<Rightarrow> int \<Rightarrow> SYSTEM_TIME_TYPE \<Rightarrow> shm_answers \<Rightarrow> SAMPLING_DATA \<Rightarrow> SAMPLING_CHANNEL \<Rightarrow>
   RETURN_CODE_TYPE \<times> SAMPLING_CHANNEL" where
  "SC_ADD_SOURCE name MAX_SIZE REFRESH shm unmapped c =
     (if SC_INITIALIZED c then (NO_ACTION, c)
      else if SC_SOURCE_PORT c \<noteq> None then (NO_ACTION, c)
      else if SC_recv_mySocket c \<noteq> None then (NO_ACTION, c)
      else case SAMPLING_PORT_new name MAX_SIZE PORT_SOURCE_DEST REFRESH shm unmapped of
             (rc, p) \<Rightarrow>
               (rc, if rc = NO_ERROR
                    then c\<lparr>SC_SOURCE_PORT := Some (empty_port p), SC_MAX_SIZE_OF_MESSAGE := MAX_SIZE\<rparr>
                    else c\<lparr>SC_SOURCE_PORT := Some p\<rparr>))"

definition SC_ADD_DESTINATION ::
  "NAME_TYPE \<Rightarrow> int \<Rightarrow> SYSTEM_TIME_TYPE \<Rightarrow> shm_answers \<Rightarrow> SAMPLING_DATA \<Rightarrow> SAMPLING_CHANNEL \<Rightarrow>
   RETURN_CODE_TYPE \<times> SAMPLING_CHANNEL" where
  "SC_ADD_DESTINATION name MAX_SIZE REFRESH shm unmapped c =
     (if SC_INITIALIZED c then (NO_ACTION, c)
      else if SC_MAX_SIZE_OF_MESSAGE c \<noteq> MAX_SIZE then (INVALID_CONFIG, c)
      else case SAMPLING_PORT_new name MAX_SIZE PORT_SOURCE_DEST REFRESH shm unmapped of
             (rc, p) \<Rightarrow>
               (rc, if rc = NO_ERROR
                    then c\<lparr>SC_DESTINATION_PORT_VECTOR := SC_DESTINATION_PORT_VECTOR c @ [empty_port p]\<rparr>
                    else c))"

section \<open>MOVE\_MESSAGES\<close>

text \<open>The copy into every destination; the return code is that of the last one.\<close>

fun copy_to_all ::
  "SAMPLING_PORT_HELPER \<Rightarrow> RETURN_CODE_TYPE \<Rightarrow> SAMPLING_PORT_HELPER list \<Rightarrow>
   (RETURN_CODE_TYPE \<times> SAMPLING_PORT_HELPER list) outcome" where
  "copy_to_all src rc [] = Returned (rc, [])"
| "copy_to_all src rc (d # ds) =
     bind_outcome (COPY_CONTENTS_VERBATIM src d) (\<lambda>(rc', d').
     bind_outcome (copy_to_all src rc' ds) (\<lambda>(rc'', ds'). Returned (rc'', d' # ds')))"

text \<open>The datagram of a port, as it is laid out in the data buffer.\<close>

definition marshal_port :: "SAMPLING_PORT_HELPER \<Rightarrow> byte list outcome" where
  "marshal_port p =
     (if \<not> S_READY_OR_NOT p then Undef
      else bind_outcome (c_read (data (shared_memory p)) (MESSAGE_SIZE (shared_memory p))) (\<lambda>m.
        Returned (le64_encode (word_of_int (ABSOLUTE_TIME_WRITTEN (shared_memory p))) @
                  le64_encode (word_of_int (MESSAGE_SIZE (shared_memory p))) @ m)))"

definition send_port ::
  "'w socket_calls \<Rightarrow> SAMPLING_PORT_HELPER \<Rightarrow> SAMPLING_CHANNEL \<Rightarrow> 'w \<Rightarrow> (SAMPLING_CHANNEL \<times> 'w) outcome" where
  "send_port net src c w =
     (if \<not> SC_sender_mySocket c then Returned (c, w)
      else bind_outcome (marshal_port src) (\<lambda>bytes.
           bind_outcome (c_memcpy (SC_DataBuffer c) bytes (int (length bytes))) (\<lambda>buffer.
           bind_outcome (send_all net bytes (SC_destination_url_vector c) w) (\<lambda>w'.
             Returned (c\<lparr>SC_DataBuffer := buffer\<rparr>, w')))))"

text \<open>A datagram is written into a destination with the size found in it.\<close>

fun write_to_all ::
  "int \<Rightarrow> int \<Rightarrow> byte list \<Rightarrow> SAMPLING_PORT_HELPER list \<Rightarrow> SAMPLING_PORT_HELPER list outcome" where
  "write_to_all t n bytes [] = Returned []"
| "write_to_all t n bytes (d # ds) =
     bind_outcome (c_memcpy (data (shared_memory d)) bytes n) (\<lambda>x.
     bind_outcome (write_to_all t n bytes ds) (\<lambda>ds'.
       Returned (d\<lparr>shared_memory := \<lparr>ABSOLUTE_TIME_WRITTEN = t, MESSAGE_SIZE = n, data = x\<rparr>\<rparr> # ds')))"

fun receive_datagrams ::
  "'w socket_calls \<Rightarrow> nat \<Rightarrow> nat \<Rightarrow> SAMPLING_CHANNEL \<Rightarrow> 'w \<Rightarrow> (SAMPLING_CHANNEL \<times> 'w) outcome" where
  "receive_datagrams net sock 0 c w = Returned (c, w)"
| "receive_datagrams net sock (Suc k) c w =
     (let (answer, w') = recv_from net sock (16 + SYSTEM_LIMIT_MAX_SAMPLING_MESSAGE_SIZE) w in
      if answer = Would_block then Returned (c, w')
      else bind_outcome
        (case answer of Received m \<Rightarrow> c_memcpy (SC_DataBuffer c) m (int (length m)) | _ \<Rightarrow> Returned (SC_DataBuffer c))
        (\<lambda>buffer.
           if length buffer < 16 then Undef
           else
             let t = sint (le64_decode buffer); n = sint (le64_decode (drop 8 buffer)) in
             if n < 0 then Aborted
             else bind_outcome (write_to_all t n (drop 16 buffer) (SC_DESTINATION_PORT_VECTOR c)) (\<lambda>ds.
               receive_datagrams net sock k
                 (c\<lparr>SC_DataBuffer := buffer, SC_DESTINATION_PORT_VECTOR := ds\<rparr>) w')))"

definition SC_MOVE_MESSAGES ::
  "'w socket_calls \<Rightarrow> SAMPLING_CHANNEL \<Rightarrow> 'w \<Rightarrow> (RETURN_CODE_TYPE \<times> SAMPLING_CHANNEL \<times> 'w) outcome" where
  "SC_MOVE_MESSAGES net c w =
     (if \<not> SC_INITIALIZED c then Returned (NO_ACTION, c, w)
      else case SC_recv_mySocket c of
        None \<Rightarrow>
          (case SC_SOURCE_PORT c of
             None \<Rightarrow> Returned (NO_ACTION, c, w)
           | Some src \<Rightarrow>
               if SC_DESTINATION_PORT_VECTOR c = [] \<and> \<not> SC_sender_mySocket c then Returned (NO_ACTION, c, w)
               else bind_outcome (copy_to_all src NO_ERROR (SC_DESTINATION_PORT_VECTOR c)) (\<lambda>(rc, ds).
                 bind_outcome (send_port net src (c\<lparr>SC_DESTINATION_PORT_VECTOR := ds\<rparr>) w) (\<lambda>(c', w').
                   Returned (rc, c', w'))))
      | Some sock \<Rightarrow>
          if SC_DESTINATION_PORT_VECTOR c = [] then Returned (NO_ACTION, c, w)
          else bind_outcome (receive_datagrams net sock (SC_MAX_SOCKET_MESSAGE c) c w)
            (\<lambda>(c', w'). Returned (NO_ERROR, c', w')))"

section \<open>What a channel delivers\<close>

definition live_port :: "SAMPLING_PORT_HELPER \<Rightarrow> bool" where
  "live_port p \<longleftrightarrow> sampling_inv p \<and> S_READY_OR_NOT p"

definition sc_inv :: "SAMPLING_CHANNEL \<Rightarrow> bool" where
  "sc_inv c \<longleftrightarrow>
     (\<forall>p\<in>set (SC_DESTINATION_PORT_VECTOR c). live_port p) \<and>
     (\<forall>p. SC_SOURCE_PORT c = Some p \<longrightarrow> live_port p) \<and>
     length (SC_DataBuffer c) = nat (16 + SYSTEM_LIMIT_MAX_SAMPLING_MESSAGE_SIZE)"

text \<open>\<open>d'\<close> is the port \<open>d\<close> with the message and the time of \<open>src\<close>.\<close>

definition delivered :: "SAMPLING_PORT_HELPER \<Rightarrow> SAMPLING_PORT_HELPER \<Rightarrow> SAMPLING_PORT_HELPER \<Rightarrow> bool" where
  "delivered src d d' \<longleftrightarrow>
     port_message d' = port_message src \<and>
     ABSOLUTE_TIME_WRITTEN (shared_memory d') = ABSOLUTE_TIME_WRITTEN (shared_memory src) \<and>
     MESSAGE_SIZE (shared_memory d') = MESSAGE_SIZE (shared_memory src) \<and>
     d'\<lparr>shared_memory := shared_memory d\<rparr> = d"

lemma sc_inv_new:
  "length buffer = nat (16 + SYSTEM_LIMIT_MAX_SAMPLING_MESSAGE_SIZE) \<Longrightarrow> sc_inv (SAMPLING_CHANNEL_new name ty port buffer)"
  by (simp add: sc_inv_def SAMPLING_CHANNEL_new_def)

text \<open>A step of the configuration that succeeds keeps the invariant.\<close>

lemma live_empty_port: "live_port p \<Longrightarrow> 0 \<le> S_MAX_MESSAGE_SIZE p \<Longrightarrow> live_port (empty_port p)"
  by (simp add: live_port_def sampling_inv_def empty_port_def)

lemma sc_inv_configuration:
  "SC_SET_MAX_SOCKET_MESSAGE n c = (rc, c') \<Longrightarrow> sc_inv c \<Longrightarrow> sc_inv c'"
  "SC_SET_COMMUNICATION_TYPE_ENUM ty port c = (rc, c') \<Longrightarrow> sc_inv c \<Longrightarrow> sc_inv c'"
  "SC_ADD_DESTINATION_URL u c = (rc, c') \<Longrightarrow> sc_inv c \<Longrightarrow> sc_inv c'"
  "SC_SET_MAX_SIZE_OF_MESSAGE m c = (rc, c') \<Longrightarrow> sc_inv c \<Longrightarrow> sc_inv c'"
  "sc_inv c \<Longrightarrow> sc_inv (SC_SET_INITIALIZED c)"
  by (auto simp: SC_SET_MAX_SOCKET_MESSAGE_def SC_SET_COMMUNICATION_TYPE_ENUM_def SC_ADD_DESTINATION_URL_def
      SC_SET_MAX_SIZE_OF_MESSAGE_def SC_SET_INITIALIZED_def sc_inv_def
      split: if_splits COMMUNICATION_TYPE_ENUM.splits)

lemma new_port_live:
  assumes "SAMPLING_PORT_new name MAX_SIZE PORT_SOURCE_DEST REFRESH shm unmapped = (NO_ERROR, p)"
    "\<And>mem. shm_mapped shm = Some mem \<Longrightarrow> int (length (data mem)) = MAX_SIZE"
  shows "live_port (empty_port p)" "S_MAX_MESSAGE_SIZE p = MAX_SIZE" "S_NAME p = name"
  using assms
  by (auto simp: SAMPLING_PORT_new_def Let_def live_port_def sampling_inv_def empty_port_def
    split: if_splits option.splits)

lemma sc_inv_add:
  assumes "sc_inv c" "\<And>mem. shm_mapped shm = Some mem \<Longrightarrow> int (length (data mem)) = MAX_SIZE"
  shows "SC_ADD_SOURCE name MAX_SIZE REFRESH shm unmapped c = (NO_ERROR, c') \<Longrightarrow> sc_inv c'"
    "SC_ADD_DESTINATION name MAX_SIZE REFRESH shm unmapped c = (rc, c') \<Longrightarrow> sc_inv c'"
  using assms(1) new_port_live(1) [OF _ assms(2)]
  by (auto simp: SC_ADD_SOURCE_def SC_ADD_DESTINATION_def sc_inv_def split: if_splits prod.splits)

lemma live_delivered: "live_port d \<Longrightarrow> live_port src \<Longrightarrow> delivered src d d' \<Longrightarrow> sampling_inv d' \<Longrightarrow> live_port d'"
  unfolding live_port_def delivered_def by (metis SAMPLING_PORT_HELPER.select_convs(8) SAMPLING_PORT_HELPER.surjective SAMPLING_PORT_HELPER.update_convs(10))

lemma copy_to_all_delivers:
  assumes "live_port src" "\<forall>d\<in>set ds. live_port d"
  shows "\<exists>ds'. copy_to_all src rc ds =
      Returned (if ds = [] then rc
                else if S_MAX_MESSAGE_SIZE (last ds) = S_MAX_MESSAGE_SIZE src then NO_ERROR else INVALID_CONFIG, ds') \<and>
    list_all2 (\<lambda>d d'. live_port d' \<and>
      (if S_MAX_MESSAGE_SIZE d = S_MAX_MESSAGE_SIZE src then delivered src d d' else d' = d)) ds ds'"
  using assms(2)
proof (induction ds arbitrary: rc)
  case (Cons d ds)
  have d: "live_port d" using Cons.prems by simp
  have real: "(S_REAL_MAX_MESSAGE_SIZE src = S_REAL_MAX_MESSAGE_SIZE d) =
      (S_MAX_MESSAGE_SIZE d = S_MAX_MESSAGE_SIZE src)"
    using assms(1) d by (auto simp: live_port_def sampling_inv_def)
  show ?case
  proof (cases "S_MAX_MESSAGE_SIZE d = S_MAX_MESSAGE_SIZE src")
    case True
    obtain d' where copy: "COPY_CONTENTS_VERBATIM src d = Returned (NO_ERROR, d')"
      and d': "sampling_inv d'" "delivered src d d'"
      using copy_verbatim_ok [of src d] assms(1) d True by (auto simp: live_port_def delivered_def)
    obtain ds' where rest: "copy_to_all src NO_ERROR ds = Returned (if ds = [] then NO_ERROR
        else if S_MAX_MESSAGE_SIZE (last ds) = S_MAX_MESSAGE_SIZE src then NO_ERROR else INVALID_CONFIG, ds')"
      and all: "list_all2 (\<lambda>d d'. live_port d' \<and>
        (if S_MAX_MESSAGE_SIZE d = S_MAX_MESSAGE_SIZE src then delivered src d d' else d' = d)) ds ds'"
      using Cons.IH [of NO_ERROR] Cons.prems by auto
    show ?thesis
      using copy rest all True live_delivered [OF d assms(1) d'(2,1)] d'(2)
      by (intro exI [of _ "d' # ds'"]) simp
  next
    case False
    obtain ds' where rest: "copy_to_all src INVALID_CONFIG ds = Returned (if ds = [] then INVALID_CONFIG
        else if S_MAX_MESSAGE_SIZE (last ds) = S_MAX_MESSAGE_SIZE src then NO_ERROR else INVALID_CONFIG, ds')"
      and all: "list_all2 (\<lambda>d d'. live_port d' \<and>
        (if S_MAX_MESSAGE_SIZE d = S_MAX_MESSAGE_SIZE src then delivered src d d' else d' = d)) ds ds'"
      using Cons.IH [of INVALID_CONFIG] Cons.prems by auto
    have "COPY_CONTENTS_VERBATIM src d = Returned (INVALID_CONFIG, d)"
      using False real by (simp add: COPY_CONTENTS_VERBATIM_def)
    then show ?thesis using rest all False d by (intro exI [of _ "d # ds'"]) simp
  qed
qed simp

definition port_datagram :: "SAMPLING_PORT_HELPER \<Rightarrow> byte list" where
  "port_datagram p =
     le64_encode (word_of_int (ABSOLUTE_TIME_WRITTEN (shared_memory p))) @
     le64_encode (word_of_int (MESSAGE_SIZE (shared_memory p))) @ port_message p"

lemma live_port_sizes:
  assumes "live_port p"
  shows "0 \<le> MESSAGE_SIZE (shared_memory p)" "MESSAGE_SIZE (shared_memory p) \<le> S_MAX_MESSAGE_SIZE p"
    "int (length (data (shared_memory p))) = S_MAX_MESSAGE_SIZE p"
    "S_MAX_MESSAGE_SIZE p \<le> SYSTEM_LIMIT_MAX_SAMPLING_MESSAGE_SIZE"
    "int (length (port_message p)) = MESSAGE_SIZE (shared_memory p)"
  using assms by (auto simp: live_port_def sampling_inv_def port_message_def min_def)

lemma marshal_port_live: "live_port p \<Longrightarrow> marshal_port p = Returned (port_datagram p)"
  using live_port_sizes [of p]
  by (simp add: marshal_port_def c_read_def port_datagram_def port_message_def live_port_def)

lemma port_datagram_fits:
  "live_port p \<Longrightarrow> length (port_datagram p) \<le> nat (16 + SYSTEM_LIMIT_MAX_SAMPLING_MESSAGE_SIZE)"
  using live_port_sizes [of p] by (simp add: port_datagram_def)

lemma send_port_sends:
  assumes "sc_inv c" "live_port src" "net_laws net sent"
  shows "\<exists>c' w'. send_port net src c w = Returned (c', w') \<and> sc_inv c' \<and>
    SC_DESTINATION_PORT_VECTOR c' = SC_DESTINATION_PORT_VECTOR c \<and> SC_SOURCE_PORT c' = SC_SOURCE_PORT c \<and>
    sent w' = sent w @ (if SC_sender_mySocket c then map (\<lambda>u. (u, port_datagram src)) (SC_destination_url_vector c) else [])"
proof (cases "SC_sender_mySocket c")
  case True
  obtain w' where w': "send_all net (port_datagram src) (SC_destination_url_vector c) w = Returned w'"
    "sent w' = sent w @ map (\<lambda>u. (u, port_datagram src)) (SC_destination_url_vector c)"
    using send_all_sent [OF assms(3)] by blast
  have "length (port_datagram src) \<le> length (SC_DataBuffer c)"
    using port_datagram_fits [OF assms(2)] assms(1) by (simp add: sc_inv_def)
  then show ?thesis
    using True w' assms(1)
    by (simp add: send_port_def marshal_port_live [OF assms(2)] c_memcpy_def sc_inv_def
        SYSTEM_LIMIT_MAX_SAMPLING_MESSAGE_SIZE_def)
qed (use assms(1) in \<open>simp add: send_port_def\<close>)

text \<open>One round of a channel inside a module: every destination of the size of the source has its message,
  every address is sent it, and a destination of another size is left alone.\<close>

lemma MOVE_MESSAGES_delivers:
  assumes "sc_inv c" "SC_INITIALIZED c" "SC_recv_mySocket c = None" "SC_SOURCE_PORT c = Some src"
    "SC_DESTINATION_PORT_VECTOR c \<noteq> [] \<or> SC_sender_mySocket c" "net_laws net sent"
  shows "\<exists>rc c' w'. SC_MOVE_MESSAGES net c w = Returned (rc, c', w') \<and> sc_inv c' \<and> SC_SOURCE_PORT c' = Some src \<and>
    list_all2 (\<lambda>d d'. if S_MAX_MESSAGE_SIZE d = S_MAX_MESSAGE_SIZE src then delivered src d d' else d' = d)
      (SC_DESTINATION_PORT_VECTOR c) (SC_DESTINATION_PORT_VECTOR c') \<and>
    sent w' = sent w @ (if SC_sender_mySocket c then map (\<lambda>u. (u, port_datagram src)) (SC_destination_url_vector c) else [])"
proof -
  have src: "live_port src" using assms(1,4) by (simp add: sc_inv_def)
  obtain rc ds' where copy: "copy_to_all src NO_ERROR (SC_DESTINATION_PORT_VECTOR c) = Returned (rc, ds')"
    and all: "list_all2 (\<lambda>d d'. live_port d' \<and>
      (if S_MAX_MESSAGE_SIZE d = S_MAX_MESSAGE_SIZE src then delivered src d d' else d' = d))
      (SC_DESTINATION_PORT_VECTOR c) ds'"
    using copy_to_all_delivers [OF src, of "SC_DESTINATION_PORT_VECTOR c" NO_ERROR] assms(1)
    by (auto simp: sc_inv_def)
  have "\<forall>d\<in>set ds'. live_port d" using all by (auto simp: list_all2_conv_all_nth in_set_conv_nth)
  then have "sc_inv (c\<lparr>SC_DESTINATION_PORT_VECTOR := ds'\<rparr>)" using assms(1) by (simp add: sc_inv_def)
  from send_port_sends [OF this src assms(6), of w] obtain c' w' where
    send: "send_port net src (c\<lparr>SC_DESTINATION_PORT_VECTOR := ds'\<rparr>) w = Returned (c', w')" "sc_inv c'"
      "SC_DESTINATION_PORT_VECTOR c' = ds'" "SC_SOURCE_PORT c' = SC_SOURCE_PORT c"
      "sent w' = sent w @ (if SC_sender_mySocket c then map (\<lambda>u. (u, port_datagram src)) (SC_destination_url_vector c) else [])"
    by auto
  have "list_all2 (\<lambda>d d'. if S_MAX_MESSAGE_SIZE d = S_MAX_MESSAGE_SIZE src then delivered src d d' else d' = d)
      (SC_DESTINATION_PORT_VECTOR c) ds'"
    by (rule list_all2_mono [OF all]) auto
  moreover have "SC_MOVE_MESSAGES net c w = Returned (rc, c', w')"
    using assms(2-5) copy send(1) by (auto simp: SC_MOVE_MESSAGES_def)
  ultimately show ?thesis using send assms(4) by auto
qed

lemma write_to_all_delivers:
  assumes "\<forall>d\<in>set ds. live_port d \<and> n \<le> S_MAX_MESSAGE_SIZE d" "0 \<le> n" "n \<le> int (length bytes)"
  shows "\<exists>ds'. write_to_all t n bytes ds = Returned ds' \<and>
    list_all2 (\<lambda>d d'. live_port d' \<and> port_message d' = take (nat n) bytes \<and>
      ABSOLUTE_TIME_WRITTEN (shared_memory d') = t \<and> MESSAGE_SIZE (shared_memory d') = n \<and>
      d'\<lparr>shared_memory := shared_memory d\<rparr> = d) ds ds'"
  using assms(1)
proof (induction ds)
  case (Cons d ds)
  have d: "live_port d" "n \<le> S_MAX_MESSAGE_SIZE d" using Cons.prems by auto
  obtain ds' where ds': "write_to_all t n bytes ds = Returned ds'"
    "list_all2 (\<lambda>d d'. live_port d' \<and> port_message d' = take (nat n) bytes \<and>
      ABSOLUTE_TIME_WRITTEN (shared_memory d') = t \<and> MESSAGE_SIZE (shared_memory d') = n \<and>
      d'\<lparr>shared_memory := shared_memory d\<rparr> = d) ds ds'"
    using Cons by auto
  let ?x = "take (nat n) bytes @ drop (nat n) (data (shared_memory d))"
  let ?d = "d\<lparr>shared_memory := \<lparr>ABSOLUTE_TIME_WRITTEN = t, MESSAGE_SIZE = n, data = ?x\<rparr>\<rparr>"
  have "c_memcpy (data (shared_memory d)) bytes n = Returned ?x"
    using live_port_sizes [OF d(1)] d(2) assms(2,3) by (simp add: c_memcpy_def)
  moreover have "live_port ?d" "port_message ?d = take (nat n) bytes"
    using d live_port_sizes [OF d(1)] assms(2,3)
    by (auto simp: live_port_def sampling_inv_def port_message_def nat_le_iff min_def)
  ultimately show ?case using ds' by (intro exI [of _ "?d # ds'"]) simp
qed simp

lemma port_datagram_decode:
  assumes "live_port src" "int64 (ABSOLUTE_TIME_WRITTEN (shared_memory src))"
  shows "sint (le64_decode (port_datagram src @ rest)) = ABSOLUTE_TIME_WRITTEN (shared_memory src)"
    "sint (le64_decode (drop 8 (port_datagram src @ rest))) = MESSAGE_SIZE (shared_memory src)"
    "drop 16 (port_datagram src @ rest) = port_message src @ rest"
proof -
  have "int64 (MESSAGE_SIZE (shared_memory src))"
    using live_port_sizes [OF assms(1)] by (simp add: int64_def SYSTEM_LIMIT_MAX_SAMPLING_MESSAGE_SIZE_def)
  then show "sint (le64_decode (port_datagram src @ rest)) = ABSOLUTE_TIME_WRITTEN (shared_memory src)"
    "sint (le64_decode (drop 8 (port_datagram src @ rest))) = MESSAGE_SIZE (shared_memory src)"
    "drop 16 (port_datagram src @ rest) = port_message src @ rest"
    using assms(2) by (simp_all add: port_datagram_def le64_roundtrip sint_word_of_int64)
qed

text \<open>A module that receives the datagram of a port delivers it to its destinations.\<close>

lemma MOVE_MESSAGES_receives:
  assumes "sc_inv c" "SC_INITIALIZED c" "SC_recv_mySocket c = Some sock" "SC_DESTINATION_PORT_VECTOR c \<noteq> []"
    "live_port src" "int64 (ABSOLUTE_TIME_WRITTEN (shared_memory src))"
    "\<forall>d\<in>set (SC_DESTINATION_PORT_VECTOR c). MESSAGE_SIZE (shared_memory src) \<le> S_MAX_MESSAGE_SIZE d"
    "recv_from net sock (16 + SYSTEM_LIMIT_MAX_SAMPLING_MESSAGE_SIZE) w = (Received (port_datagram src), w1)"
    "SC_MAX_SOCKET_MESSAGE c = Suc k"
    "0 < k \<longrightarrow> recv_from net sock (16 + SYSTEM_LIMIT_MAX_SAMPLING_MESSAGE_SIZE) w1 = (Would_block, w2)"
  shows "\<exists>c' w'. SC_MOVE_MESSAGES net c w = Returned (NO_ERROR, c', w') \<and> sc_inv c' \<and>
    list_all2 (delivered src) (SC_DESTINATION_PORT_VECTOR c) (SC_DESTINATION_PORT_VECTOR c')"
proof -
  let ?m = "port_datagram src" and ?n = "MESSAGE_SIZE (shared_memory src)"
  let ?buffer = "?m @ drop (length ?m) (SC_DataBuffer c)"
  have buf: "length ?m \<le> length (SC_DataBuffer c)"
    using port_datagram_fits [OF assms(5)] assms(1) by (simp add: sc_inv_def)
  then have copy: "c_memcpy (SC_DataBuffer c) ?m (int (length ?m)) = Returned ?buffer"
    by (simp add: c_memcpy_def)
  let ?rest = "drop (length ?m) (SC_DataBuffer c)"
  note n = live_port_sizes [OF assms(5)]
  obtain ds' where ds': "write_to_all (ABSOLUTE_TIME_WRITTEN (shared_memory src)) ?n (port_message src @ ?rest)
      (SC_DESTINATION_PORT_VECTOR c) = Returned ds'"
    and all: "list_all2 (\<lambda>d d'. live_port d' \<and> port_message d' = take (nat ?n) (port_message src @ ?rest) \<and>
      ABSOLUTE_TIME_WRITTEN (shared_memory d') = ABSOLUTE_TIME_WRITTEN (shared_memory src) \<and>
      MESSAGE_SIZE (shared_memory d') = ?n \<and> d'\<lparr>shared_memory := shared_memory d\<rparr> = d)
      (SC_DESTINATION_PORT_VECTOR c) ds'"
    using write_to_all_delivers [of "SC_DESTINATION_PORT_VECTOR c" ?n "port_message src @ ?rest"
        "ABSOLUTE_TIME_WRITTEN (shared_memory src)"] assms(1,7) n
    by (auto simp: sc_inv_def)
  let ?c = "c\<lparr>SC_DataBuffer := ?buffer, SC_DESTINATION_PORT_VECTOR := ds'\<rparr>"
  have take: "take (nat ?n) (port_message src @ ?rest) = port_message src" using n by simp
  have "\<not> length ?buffer < 16" by (simp add: port_datagram_def)
  then have "receive_datagrams net sock (Suc k) c w = receive_datagrams net sock k ?c w1"
    using assms(8) copy ds' n port_datagram_decode [OF assms(5,6), of ?rest]
    by (simp add: Let_def del: c_memcpy_def)
  also have "\<exists>w'. receive_datagrams net sock k ?c w1 = Returned (?c, w')"
    using assms(10) by (cases k) auto
  finally obtain w' where "receive_datagrams net sock (Suc k) c w = Returned (?c, w')" by blast
  then have "SC_MOVE_MESSAGES net c w = Returned (NO_ERROR, ?c, w')"
    using assms(2,3,4,9) by (simp add: SC_MOVE_MESSAGES_def)
  moreover have "sc_inv ?c"
    using assms(1) all buf by (auto simp: sc_inv_def list_all2_conv_all_nth in_set_conv_nth)
  moreover have "list_all2 (delivered src) (SC_DESTINATION_PORT_VECTOR c) ds'"
    using all unfolding take by (rule list_all2_mono) (simp add: delivered_def)
  ultimately show ?thesis by auto
qed

end
