(* ===== verification/QueueChannel.thy ===== *)
theory QueueChannel
  imports QueuePort SamplingChannel
begin

text \<open>
  QUEUE\_CHANNEL of src/QUEUE\_CHANNEL.cc and include/ACM/INTERNAL/QUEUE\_CHANNEL.h: the module
  manager takes the messages of a source queue one by one and sends each to every destination
  queue, without waiting for room, and to the addresses in other modules; or it takes datagrams from
  a socket and sends them to the destination queues.  Queues and sockets are calls on one state
  \<open>'w\<close> of the system; \<open>now\<close> gives the readings of the clock of the calls on queues.
\<close>

record QUEUE_CHANNEL =
  QC_CHANNEL_NAME :: NAME_TYPE
  QC_SOURCE_QUEUE :: "MESSAGE_QUEUE_TYPE option"
  QC_INITIALIZED :: bool
  QC_INTERNAL_BUFFER :: "byte list option"
  QC_MAX_SIZEOFMESSAGE :: int
  QC_DESTINATION_QUEUE_VECTOR :: "MESSAGE_QUEUE_TYPE list"
  QC_sender_mySocket :: bool
  QC_recv_mySocket :: "nat option"
  QC_MAX_SOCKET_MESSAGE :: nat
  QC_destination_url_vector :: "DESTINATION_URL list"
  QC_COMMUNICATION_TYPE :: COMMUNICATION_TYPE_ENUM

definition QUEUE_CHANNEL_new :: "NAME_TYPE \<Rightarrow> COMMUNICATION_TYPE_ENUM \<Rightarrow> nat \<Rightarrow> QUEUE_CHANNEL" where
  "QUEUE_CHANNEL_new name ty srcport =
     \<lparr>QC_CHANNEL_NAME = name, QC_SOURCE_QUEUE = None, QC_INITIALIZED = False, QC_INTERNAL_BUFFER = None,
      QC_MAX_SIZEOFMESSAGE = 0, QC_DESTINATION_QUEUE_VECTOR = [],
      QC_sender_mySocket = (ty = INTER_MODULE_SRC),
      QC_recv_mySocket = (if ty = INTER_MODULE_DST then Some (srcport mod 65536) else None),
      QC_MAX_SOCKET_MESSAGE = 1, QC_destination_url_vector = [], QC_COMMUNICATION_TYPE = ty\<rparr>"

text \<open>The copy constructor: the copy and what it leaves of the original.  It copies the fresh array
  \<open>heap\<close> of the copy into the array of the original; destinations and addresses are not copied.\<close>

definition QUEUE_CHANNEL_copy :: "byte list \<Rightarrow> QUEUE_CHANNEL \<Rightarrow> (QUEUE_CHANNEL \<times> QUEUE_CHANNEL) outcome" where
  "QUEUE_CHANNEL_copy heap q =
     (let src = map_option (\<lambda>s. s\<lparr>ref := ref s + 1\<rparr>) (QC_SOURCE_QUEUE q);
          c = q\<lparr>QC_SOURCE_QUEUE := src, QC_DESTINATION_QUEUE_VECTOR := [], QC_destination_url_vector := []\<rparr>
      in case QC_INTERNAL_BUFFER q of
           None \<Rightarrow> Returned (c\<lparr>QC_INTERNAL_BUFFER := None\<rparr>, q\<lparr>QC_SOURCE_QUEUE := src\<rparr>)
         | Some b \<Rightarrow> bind_outcome (c_memcpy b heap (QC_MAX_SIZEOFMESSAGE q)) (\<lambda>b'.
             Returned (c\<lparr>QC_INTERNAL_BUFFER := Some heap\<rparr>,
                       q\<lparr>QC_SOURCE_QUEUE := src, QC_INTERNAL_BUFFER := Some b'\<rparr>)))"

section \<open>Configuration\<close>

text \<open>\<open>heap\<close> is the memory of the new internal buffer.\<close>

definition QC_SET_MAX_SIZE_OF_MESSAGE :: "int \<Rightarrow> byte list \<Rightarrow> QUEUE_CHANNEL \<Rightarrow> RETURN_CODE_TYPE \<times> QUEUE_CHANNEL" where
  "QC_SET_MAX_SIZE_OF_MESSAGE n heap c =
     (if QC_INITIALIZED c then (NO_ACTION, c)
      else if QC_COMMUNICATION_TYPE c \<noteq> INTER_MODULE_DST then (NOT_AVAILABLE, c)
      else (NO_ERROR, c\<lparr>QC_MAX_SIZEOFMESSAGE := n, QC_INTERNAL_BUFFER := Some heap\<rparr>))"

definition QC_SET_COMMUNICATION_TYPE_ENUM ::
  "COMMUNICATION_TYPE_ENUM \<Rightarrow> nat \<Rightarrow> QUEUE_CHANNEL \<Rightarrow> RETURN_CODE_TYPE \<times> QUEUE_CHANNEL" where
  "QC_SET_COMMUNICATION_TYPE_ENUM ty srcport c =
     (if QC_INITIALIZED c then (NO_ACTION, c)
      else if QC_COMMUNICATION_TYPE c \<noteq> INTRA_MODULE then (NO_ACTION, c)
      else (NO_ERROR,
        case ty of
          INTRA_MODULE \<Rightarrow> c\<lparr>QC_COMMUNICATION_TYPE := ty\<rparr>
        | INTER_MODULE_SRC \<Rightarrow> c\<lparr>QC_COMMUNICATION_TYPE := ty, QC_sender_mySocket := True\<rparr>
        | INTER_MODULE_DST \<Rightarrow> c\<lparr>QC_COMMUNICATION_TYPE := ty, QC_recv_mySocket := Some (srcport mod 65536)\<rparr>))"

definition QC_SET_MAX_SOCKET_MESSAGE :: "nat \<Rightarrow> QUEUE_CHANNEL \<Rightarrow> RETURN_CODE_TYPE \<times> QUEUE_CHANNEL" where
  "QC_SET_MAX_SOCKET_MESSAGE n c =
     (if QC_INITIALIZED c then (NO_ACTION, c) else (NO_ERROR, c\<lparr>QC_MAX_SOCKET_MESSAGE := n\<rparr>))"

definition QC_ADD_DESTINATION_URL :: "DESTINATION_URL \<Rightarrow> QUEUE_CHANNEL \<Rightarrow> RETURN_CODE_TYPE \<times> QUEUE_CHANNEL" where
  "QC_ADD_DESTINATION_URL u c =
     (if QC_INITIALIZED c then (NO_ACTION, c)
      else if \<not> QC_sender_mySocket c then (NOT_AVAILABLE, c)
      else (NO_ERROR, c\<lparr>QC_destination_url_vector := QC_destination_url_vector c @ [u]\<rparr>))"

definition QC_SET_INITIALIZED :: "QUEUE_CHANNEL \<Rightarrow> QUEUE_CHANNEL" where
  "QC_SET_INITIALIZED c = c\<lparr>QC_INITIALIZED := True\<rparr>"

definition QC_ADD_SOURCE_QUEUE ::
  "'w mq_calls \<Rightarrow> NAME_TYPE \<Rightarrow> int \<Rightarrow> int \<Rightarrow> byte list \<Rightarrow> QUEUE_CHANNEL \<Rightarrow> 'w \<Rightarrow>
   (RETURN_CODE_TYPE \<times> QUEUE_CHANNEL \<times> 'w) outcome" where
  "QC_ADD_SOURCE_QUEUE mq name MAX_SIZE MAX_NB heap c w =
     (if QC_INITIALIZED c then Returned (NO_ACTION, c, w)
      else if QC_SOURCE_QUEUE c \<noteq> None then Returned (NO_ACTION, c, w)
      else let (rc, p, w') = QUEUE_PORT_new mq name MAX_SIZE MAX_NB PORT_SOURCE_DEST w in
        if rc \<noteq> NO_ERROR then Aborted
        else Returned (rc, c\<lparr>QC_SOURCE_QUEUE := Some p, QC_MAX_SIZEOFMESSAGE := MAX_SIZE,
                             QC_INTERNAL_BUFFER := Some heap\<rparr>, w'))"

text \<open>A destination queue is added even when it cannot be opened.\<close>

definition QC_ADD_DESTINATION_QUEUE ::
  "'w mq_calls \<Rightarrow> NAME_TYPE \<Rightarrow> int \<Rightarrow> int \<Rightarrow> QUEUE_CHANNEL \<Rightarrow> 'w \<Rightarrow> RETURN_CODE_TYPE \<times> QUEUE_CHANNEL \<times> 'w" where
  "QC_ADD_DESTINATION_QUEUE mq name MAX_SIZE MAX_NB c w =
     (if QC_INITIALIZED c then (NO_ACTION, c, w)
      else if QC_MAX_SIZEOFMESSAGE c > MAX_SIZE then (INVALID_CONFIG, c, w)
      else let (rc, p, w') = QUEUE_PORT_new mq name MAX_SIZE MAX_NB PORT_SOURCE_DEST w in
        (rc, c\<lparr>QC_DESTINATION_QUEUE_VECTOR := QC_DESTINATION_QUEUE_VECTOR c @ [p]\<rparr>, w'))"

section \<open>MOVE\_MESSAGES\<close>

text \<open>One message to every destination; the return code is that of the last send.\<close>

fun send_to_queues ::
  "'w mq_calls \<Rightarrow> (nat \<Rightarrow> SYSTEM_TIMESPEC) \<Rightarrow> byte list \<Rightarrow> int \<Rightarrow> RETURN_CODE_TYPE \<Rightarrow> MESSAGE_QUEUE_TYPE list \<Rightarrow> 'w \<Rightarrow>
   (RETURN_CODE_TYPE \<times> 'w) outcome" where
  "send_to_queues mq now buffer len rc [] w = Returned (rc, w)"
| "send_to_queues mq now buffer len rc (d # ds) w =
     bind_outcome (QUEUE_SEND_MESSAGE mq (now (length ds)) buffer len 0 d w) (\<lambda>(rc', w').
       send_to_queues mq now buffer len rc' ds w')"

definition set_buffer :: "byte list \<Rightarrow> QUEUE_CHANNEL \<Rightarrow> QUEUE_CHANNEL outcome" where
  "set_buffer m c =
     (case QC_INTERNAL_BUFFER c of
        None \<Rightarrow> Undef
      | Some b \<Rightarrow> bind_outcome (c_memcpy b m (int (length m))) (\<lambda>b'. Returned (c\<lparr>QC_INTERNAL_BUFFER := Some b'\<rparr>)))"

text \<open>The loop over the messages found in the source queue; the number is that of the messages still
  to move.\<close>

fun move_queue ::
  "'w mq_calls \<Rightarrow> 'w socket_calls \<Rightarrow> (nat \<Rightarrow> nat \<Rightarrow> SYSTEM_TIMESPEC) \<Rightarrow> MESSAGE_QUEUE_TYPE \<Rightarrow> nat \<Rightarrow> RETURN_CODE_TYPE \<Rightarrow>
   QUEUE_CHANNEL \<Rightarrow> 'w \<Rightarrow> (RETURN_CODE_TYPE \<times> QUEUE_CHANNEL \<times> 'w) outcome" where
  "move_queue mq net now src 0 rc c w = Returned (rc, c, w)"
| "move_queue mq net now src (Suc k) rc c w =
     bind_outcome (QUEUE_RECEIVE_MESSAGE mq (now k (length (QC_DESTINATION_QUEUE_VECTOR c))) 0 src w) (\<lambda>(rc1, m, w1).
       case m of
         None \<Rightarrow> Returned (rc1, c, w1)
       | Some m \<Rightarrow>
           if rc1 \<noteq> NO_ERROR then Returned (rc1, c, w1)
           else bind_outcome (set_buffer m c) (\<lambda>c1.
                bind_outcome (send_to_queues mq (now k) (the (QC_INTERNAL_BUFFER c1)) (int (length m)) rc1
                                (QC_DESTINATION_QUEUE_VECTOR c1) w1) (\<lambda>(rc2, w2).
                bind_outcome (if QC_sender_mySocket c1 then send_all net m (QC_destination_url_vector c1) w2
                              else Returned w2) (\<lambda>w3.
                  move_queue mq net now src k rc2 c1 w3))))"

text \<open>A read from the socket that fails for another reason than the lack of a datagram has the length
  -1, which the sends refuse.\<close>

fun receive_to_queues ::
  "'w mq_calls \<Rightarrow> 'w socket_calls \<Rightarrow> (nat \<Rightarrow> nat \<Rightarrow> SYSTEM_TIMESPEC) \<Rightarrow> nat \<Rightarrow> nat \<Rightarrow> RETURN_CODE_TYPE \<Rightarrow>
   QUEUE_CHANNEL \<Rightarrow> 'w \<Rightarrow> (RETURN_CODE_TYPE \<times> QUEUE_CHANNEL \<times> 'w) outcome" where
  "receive_to_queues mq net now sock 0 rc c w = Returned (rc, c, w)"
| "receive_to_queues mq net now sock (Suc k) rc c w =
     (let (answer, w1) = recv_from net sock (QC_MAX_SIZEOFMESSAGE c) w in
      if answer = Would_block then Returned (rc, c, w1)
      else bind_outcome (case answer of Received m \<Rightarrow> set_buffer m c | _ \<Rightarrow> Returned c) (\<lambda>c1.
           bind_outcome (send_to_queues mq (now k) (case QC_INTERNAL_BUFFER c1 of None \<Rightarrow> [] | Some b \<Rightarrow> b)
               (case answer of Received m \<Rightarrow> int (length m) | _ \<Rightarrow> -1) rc (QC_DESTINATION_QUEUE_VECTOR c1) w1)
             (\<lambda>(rc2, w2). receive_to_queues mq net now sock k rc2 c1 w2)))"

definition QC_MOVE_MESSAGES ::
  "'w mq_calls \<Rightarrow> 'w socket_calls \<Rightarrow> (nat \<Rightarrow> nat \<Rightarrow> SYSTEM_TIMESPEC) \<Rightarrow> QUEUE_CHANNEL \<Rightarrow> 'w \<Rightarrow>
   (RETURN_CODE_TYPE \<times> QUEUE_CHANNEL \<times> 'w) outcome" where
  "QC_MOVE_MESSAGES mq net now c w =
     (if \<not> QC_INITIALIZED c then Returned (NO_ACTION, c, w)
      else case QC_recv_mySocket c of
        None \<Rightarrow>
          (case QC_SOURCE_QUEUE c of
             None \<Rightarrow> Returned (NO_ACTION, c, w)
           | Some src \<Rightarrow>
               if QC_DESTINATION_QUEUE_VECTOR c = [] \<and> \<not> QC_sender_mySocket c then Returned (NO_ACTION, c, w)
               else move_queue mq net now src (nat (NUMBER_OF_MESSAGES mq src w)) (fst (QUEUE_GET_STATUS mq src w)) c w)
      | Some sock \<Rightarrow>
          if QC_DESTINATION_QUEUE_VECTOR c = [] then Returned (NO_ACTION, c, w)
          else receive_to_queues mq net now sock (QC_MAX_SOCKET_MESSAGE c) NO_ERROR c w)"

section \<open>Several queues and a network\<close>

text \<open>The queues of the ports \<open>Q\<close> keep the laws of theory QueuePort each, a call on one queue leaves the
  others and the datagrams sent alone, and sending a datagram leaves the queues alone.\<close>

definition queue_system ::
  "'w mq_calls \<Rightarrow> 'w socket_calls \<Rightarrow> (int \<Rightarrow> 'w \<Rightarrow> byte list list) \<Rightarrow> ('w \<Rightarrow> (DESTINATION_URL \<times> byte list) list) \<Rightarrow>
   MESSAGE_QUEUE_TYPE set \<Rightarrow> bool" where
  "queue_system mq net contents sent Q \<longleftrightarrow>
     (\<forall>p\<in>Q. Q_READY_OR_NOT p \<and> Q_PORT_DIRECTION p = PORT_SOURCE_DEST \<and>
        mq_laws mq (contents (Q_MQDES p)) (Q_MQDES p) (Q_MAX_NB_MESSAGE p) (Q_MAX_MESSAGE_SIZE p)) \<and>
     (\<forall>des m tv w r w'. mq_timedsend mq des m tv w = Returned (r, w') \<longrightarrow>
        sent w' = sent w \<and> (\<forall>other. other \<noteq> des \<longrightarrow> contents other w' = contents other w)) \<and>
     (\<forall>des n tv w r w'. mq_timedreceive mq des n tv w = Returned (r, w') \<longrightarrow>
        sent w' = sent w \<and> (\<forall>other. other \<noteq> des \<longrightarrow> contents other w' = contents other w)) \<and>
     net_laws net sent \<and>
     (\<forall>bytes u w w'. send_to net bytes u w = Some w' \<longrightarrow> (\<forall>des. contents des w' = contents des w))"

lemma queue_systemD:
  assumes "queue_system mq net contents sent Q"
  shows "\<And>p. p \<in> Q \<Longrightarrow> Q_READY_OR_NOT p" "\<And>p. p \<in> Q \<Longrightarrow> Q_PORT_DIRECTION p = PORT_SOURCE_DEST"
    "\<And>p. p \<in> Q \<Longrightarrow> mq_laws mq (contents (Q_MQDES p)) (Q_MQDES p) (Q_MAX_NB_MESSAGE p) (Q_MAX_MESSAGE_SIZE p)"
    "\<And>des m tv w r w'. mq_timedsend mq des m tv w = Returned (r, w') \<Longrightarrow> sent w' = sent w"
    "\<And>des m tv w r w' other. mq_timedsend mq des m tv w = Returned (r, w') \<Longrightarrow> other \<noteq> des \<Longrightarrow> contents other w' = contents other w"
    "\<And>des n tv w r w'. mq_timedreceive mq des n tv w = Returned (r, w') \<Longrightarrow> sent w' = sent w"
    "\<And>des n tv w r w' other. mq_timedreceive mq des n tv w = Returned (r, w') \<Longrightarrow> other \<noteq> des \<Longrightarrow> contents other w' = contents other w"
    "net_laws net sent"
    "\<And>bytes u w w' des. send_to net bytes u w = Some w' \<Longrightarrow> contents des w' = contents des w"
  using assms unfolding queue_system_def by blast+

text \<open>An instance: queues as lists beside the network of theory Sockets.\<close>

record list_sys = list_net + sys_queues :: "int \<Rightarrow> byte list list"

definition list_sys_mq :: "(int \<Rightarrow> int) \<Rightarrow> list_sys mq_calls" where
  "list_sys_mq maxmsg =
     (let put = (\<lambda>des m w. w\<lparr>sys_queues := (sys_queues w)(des := sys_queues w des @ [m])\<rparr>);
          get = (\<lambda>des w. w\<lparr>sys_queues := (sys_queues w)(des := tl (sys_queues w des))\<rparr>) in
     \<lparr>mq_open = (\<lambda>name n sz w. ((3, False), w)),
      mq_curmsgs = (\<lambda>des w. Some (int (length (sys_queues w des)))),
      mq_send = (\<lambda>des m w. if int (length (sys_queues w des)) < maxmsg des then Returned (Mq_ok (), put des m w) else Blocked),
      mq_timedsend = (\<lambda>des m tv w.
        Returned (if int (length (sys_queues w des)) < maxmsg des then (Mq_ok (), put des m w) else (Mq_timedout, w))),
      mq_receive = (\<lambda>des n w. case sys_queues w des of [] \<Rightarrow> Blocked | m # ms \<Rightarrow> Returned (Mq_ok m, get des w)),
      mq_timedreceive = (\<lambda>des n tv w.
        Returned (case sys_queues w des of [] \<Rightarrow> (Mq_timedout, w) | m # ms \<Rightarrow> (Mq_ok m, get des w)))\<rparr>)"

lemma list_sys_laws:
  assumes "\<And>p. p \<in> Q \<Longrightarrow> Q_READY_OR_NOT p \<and> Q_PORT_DIRECTION p = PORT_SOURCE_DEST \<and> maxmsg (Q_MQDES p) = Q_MAX_NB_MESSAGE p"
  shows "queue_system (list_sys_mq maxmsg) list_net_calls (\<lambda>des w. sys_queues w des) net_sent Q"
  using assms
  by (auto simp: queue_system_def mq_laws_def list_sys_mq_def Let_def net_laws_def list_net_calls_def
      split: if_splits list.splits)

section \<open>What a channel moves\<close>

text \<open>A message sent without waiting to a queue of \<open>n\<close> messages: lost when the queue is full.\<close>

definition deliver :: "int \<Rightarrow> 'm list \<Rightarrow> 'm \<Rightarrow> 'm list" where
  "deliver n q m = (if int (length q) < n then q @ [m] else q)"

lemma foldl_deliver: "foldl (deliver n) q ms = q @ take (nat n - length q) ms"
proof (induction ms arbitrary: q)
  case (Cons m ms)
  show ?case
  proof (cases "int (length q) < n")
    case True
    then have "nat n - length q = Suc (nat n - Suc (length q))" by simp
    moreover have "deliver n q m = q @ [m]" using True by (simp add: deliver_def)
    ultimately show ?thesis by (simp add: Cons.IH)
  next
    case False
    then have "nat n - length q = 0" by simp
    moreover have "deliver n q m = q" using False by (simp add: deliver_def)
    ultimately show ?thesis by (simp add: Cons.IH)
  qed
qed simp

lemma send_to_queue_step:
  assumes sys: "queue_system mq net contents sent Q" and d: "d \<in> Q"
    and len: "int (length m) \<le> Q_MAX_MESSAGE_SIZE d" "take (length m) buffer = m" "length m \<le> length buffer"
  shows "\<exists>rc w'. QUEUE_SEND_MESSAGE mq now buffer (int (length m)) 0 d w = Returned (rc, w') \<and>
    contents (Q_MQDES d) w' = deliver (Q_MAX_NB_MESSAGE d) (contents (Q_MQDES d) w) m \<and>
    sent w' = sent w \<and> (\<forall>other. other \<noteq> Q_MQDES d \<longrightarrow> contents other w' = contents other w)"
proof -
  note D = queue_systemD [OF sys]
  show ?thesis
  proof (cases "int (length (contents (Q_MQDES d) w)) < Q_MAX_NB_MESSAGE d")
    case True
    have not_full: "\<not> MESSAGE_LIMIT_EXCEEDED mq d w"
      using True by (simp add: MESSAGE_LIMIT_EXCEEDED_def mq_laws_curmsgs [OF D(3) [OF d]])
    have zero: "(0::int) \<le> MAX_TIME_OUT" "(0::int) \<noteq> INFINITE_TIME_VALUE"
      using MAX_TIME_OUT_pos by (simp_all add: INFINITE_TIME_VALUE_def)
    obtain tv where tv: "addTimeNano now 0 = Some tv" using zero addTimeNano_Some_iff by blast
    obtain w' where w': "mq_timedsend mq (Q_MQDES d) m tv w = Returned (Mq_ok (), w')"
      "contents (Q_MQDES d) w' = contents (Q_MQDES d) w @ [m]"
      by (rule mq_laws_timedsend [OF D(3) [OF d] True len(1)])
    have "QUEUE_SEND_MESSAGE mq now buffer (int (length m)) 0 d w = Returned (NO_ERROR, w')"
      using D(1,2) [OF d] not_full zero tv w'(1) len
      by (simp add: QUEUE_SEND_MESSAGE_def send_to_queue_def c_read_def)
    then show ?thesis using w'(2) D(4,5) [OF w'(1)] True by (auto simp: deliver_def)
  next
    case False
    then have "QUEUE_SEND_MESSAGE mq now buffer (int (length m)) 0 d w = Returned (TIMED_OUT, w)"
      unfolding QUEUE_SEND_MESSAGE_def
      by (intro queue_send_full [OF D(3) [OF d]]) (simp_all add: D(1,2) [OF d])
    then show ?thesis using False by (simp add: deliver_def)
  qed
qed

lemma send_to_queues_delivers:
  assumes sys: "queue_system mq net contents sent Q"
    and "set ds \<subseteq> Q" "distinct (map Q_MQDES ds)" "\<forall>d\<in>set ds. int (length m) \<le> Q_MAX_MESSAGE_SIZE d"
    and buffer: "take (length m) buffer = m" "length m \<le> length buffer"
  shows "\<exists>rc' w'. send_to_queues mq now buffer (int (length m)) rc ds w = Returned (rc', w') \<and>
    (\<forall>d\<in>set ds. contents (Q_MQDES d) w' = deliver (Q_MAX_NB_MESSAGE d) (contents (Q_MQDES d) w) m) \<and>
    sent w' = sent w \<and> (\<forall>other. other \<notin> Q_MQDES ` set ds \<longrightarrow> contents other w' = contents other w)"
  using assms(2-4)
proof (induction ds arbitrary: rc w)
  case (Cons d ds)
  have d: "d \<in> Q" "int (length m) \<le> Q_MAX_MESSAGE_SIZE d" using Cons.prems by auto
  obtain rc1 w1 where first: "QUEUE_SEND_MESSAGE mq (now (length ds)) buffer (int (length m)) 0 d w = Returned (rc1, w1)"
    "contents (Q_MQDES d) w1 = deliver (Q_MAX_NB_MESSAGE d) (contents (Q_MQDES d) w) m"
    "sent w1 = sent w" "\<forall>other. other \<noteq> Q_MQDES d \<longrightarrow> contents other w1 = contents other w"
    using send_to_queue_step [OF sys d(1,2) buffer, of "now (length ds)" w] by auto
  obtain rc2 w2 where rest: "send_to_queues mq now buffer (int (length m)) rc1 ds w1 = Returned (rc2, w2)"
    "\<forall>d\<in>set ds. contents (Q_MQDES d) w2 = deliver (Q_MAX_NB_MESSAGE d) (contents (Q_MQDES d) w1) m"
    "sent w2 = sent w1" "\<forall>other. other \<notin> Q_MQDES ` set ds \<longrightarrow> contents other w2 = contents other w1"
    using Cons.IH [of rc1 w1] Cons.prems by auto
  have d': "Q_MQDES d \<notin> Q_MQDES ` set ds" using Cons.prems(2) by auto
  have "contents (Q_MQDES x) w1 = contents (Q_MQDES x) w" if "x \<in> set ds" for x
    using d' first(4) that by (metis imageI)
  then show ?case using first rest d' by (auto intro!: exI [of _ rc2] exI [of _ w2])
qed simp

lemma receive_step:
  assumes sys: "queue_system mq net contents sent Q" and src: "src \<in> Q" and ms: "contents (Q_MQDES src) w = m # ms"
  shows "\<exists>w'. QUEUE_RECEIVE_MESSAGE mq now 0 src w = Returned (NO_ERROR, Some m, w') \<and>
    contents (Q_MQDES src) w' = ms \<and> sent w' = sent w \<and>
    (\<forall>other. other \<noteq> Q_MQDES src \<longrightarrow> contents other w' = contents other w)"
proof -
  note D = queue_systemD [OF sys]
  have zero: "(0::int) \<le> MAX_TIME_OUT" "(0::int) \<noteq> INFINITE_TIME_VALUE"
    using MAX_TIME_OUT_pos by (simp_all add: INFINITE_TIME_VALUE_def)
  obtain tv where tv: "addTimeNano now 0 = Some tv" using zero addTimeNano_Some_iff by blast
  have not_empty: "\<not> IS_EMPTY mq src w"
    using ms by (simp add: IS_EMPTY_def mq_laws_curmsgs [OF D(3) [OF src]])
  obtain w' where w': "mq_timedreceive mq (Q_MQDES src) (Q_MAX_MESSAGE_SIZE src) tv w = Returned (Mq_ok m, w')"
    "contents (Q_MQDES src) w' = ms"
    by (rule mq_laws_timedreceive [OF D(3) [OF src] ms])
  have "QUEUE_RECEIVE_MESSAGE mq now 0 src w = Returned (NO_ERROR, Some m, w')"
    using D(1,2) [OF src] zero tv not_empty w'(1) by (simp add: QUEUE_RECEIVE_MESSAGE_def)
  then show ?thesis using w'(2) D(6,7) [OF w'(1)] by auto
qed

text \<open>The whole loop: the source is emptied, every destination gets the messages in order as long as it has
  room, every address gets all of them.\<close>

lemma move_queue_moves:
  assumes sys: "queue_system mq net contents sent Q"
    and "set (QC_DESTINATION_QUEUE_VECTOR c) \<subseteq> Q" "distinct (map Q_MQDES (QC_DESTINATION_QUEUE_VECTOR c))"
    and src: "src \<in> Q" "Q_MQDES src \<notin> Q_MQDES ` set (QC_DESTINATION_QUEUE_VECTOR c)"
    and "QC_INTERNAL_BUFFER c = Some b" "contents (Q_MQDES src) w = ms"
    and "\<forall>m\<in>set ms. length m \<le> length b \<and> (\<forall>d\<in>set (QC_DESTINATION_QUEUE_VECTOR c). int (length m) \<le> Q_MAX_MESSAGE_SIZE d)"
  shows "\<exists>rc' b' w'. move_queue mq net now src (length ms) rc c w = Returned (rc', c\<lparr>QC_INTERNAL_BUFFER := Some b'\<rparr>, w') \<and>
    length b' = length b \<and> contents (Q_MQDES src) w' = [] \<and>
    (\<forall>d\<in>set (QC_DESTINATION_QUEUE_VECTOR c).
       contents (Q_MQDES d) w' = foldl (deliver (Q_MAX_NB_MESSAGE d)) (contents (Q_MQDES d) w) ms) \<and>
    sent w' = sent w @ (if QC_sender_mySocket c
      then concat (map (\<lambda>m. map (\<lambda>u. (u, m)) (QC_destination_url_vector c)) ms) else []) \<and>
    (\<forall>other. other \<noteq> Q_MQDES src \<and> other \<notin> Q_MQDES ` set (QC_DESTINATION_QUEUE_VECTOR c) \<longrightarrow>
       contents other w' = contents other w)"
  using assms(2,3,5-8)
proof (induction ms arbitrary: c w rc b)
  case Nil
  then show ?case by (intro exI [of _ rc] exI [of _ b] exI [of _ w]) simp
next
  case (Cons m ms)
  let ?D = "QC_DESTINATION_QUEUE_VECTOR c" and ?U = "QC_destination_url_vector c"
  obtain w1 where w1: "QUEUE_RECEIVE_MESSAGE mq (now (length ms) (length ?D)) 0 src w = Returned (NO_ERROR, Some m, w1)"
    "contents (Q_MQDES src) w1 = ms" "sent w1 = sent w"
    "\<forall>other. other \<noteq> Q_MQDES src \<longrightarrow> contents other w1 = contents other w"
    using receive_step [OF sys src(1) Cons.prems(5)] by blast
  let ?b = "m @ drop (length m) b" and ?c = "c\<lparr>QC_INTERNAL_BUFFER := Some (m @ drop (length m) b)\<rparr>"
  have m: "length m \<le> length b" "\<forall>d\<in>set ?D. int (length m) \<le> Q_MAX_MESSAGE_SIZE d" using Cons.prems(6) by auto
  have buf: "set_buffer m c = Returned ?c" using m(1) Cons.prems(4) by (simp add: set_buffer_def c_memcpy_def)
  obtain rc2 w2 where w2: "send_to_queues mq (now (length ms)) ?b (int (length m)) NO_ERROR ?D w1 = Returned (rc2, w2)"
    "\<forall>d\<in>set ?D. contents (Q_MQDES d) w2 = deliver (Q_MAX_NB_MESSAGE d) (contents (Q_MQDES d) w1) m"
    "sent w2 = sent w1" "\<forall>other. other \<notin> Q_MQDES ` set ?D \<longrightarrow> contents other w2 = contents other w1"
    using send_to_queues_delivers [OF sys Cons.prems(1,2) m(2), of ?b "now (length ms)" NO_ERROR w1] by auto
  obtain w3 where w3: "(if QC_sender_mySocket c then send_all net m ?U w2 else Returned w2) = Returned w3"
    "sent w3 = sent w2 @ (if QC_sender_mySocket c then map (\<lambda>u. (u, m)) ?U else [])"
    using send_all_sent [OF queue_systemD(8) [OF sys], of m ?U w2] by (cases "QC_sender_mySocket c") auto
  have same: "contents des w3 = contents des w2" for des
  proof (cases "QC_sender_mySocket c")
    case True
    then show ?thesis
      using w3(1) send_all_preserves [of net m ?U w2 w3 "\<lambda>w. contents des w = contents des w2"] queue_systemD(9) [OF sys]
      by simp
  qed (use w3(1) in simp)
  have src3: "contents (Q_MQDES src) w3 = ms" using same w2(4) src(2) w1(2) Cons.prems(3) by simp
  have "\<forall>m\<in>set ms. length m \<le> length ?b \<and> (\<forall>d\<in>set ?D. int (length m) \<le> Q_MAX_MESSAGE_SIZE d)"
    using Cons.prems(6) m(1) by auto
  then obtain rc' b' w' where rest:
    "move_queue mq net now src (length ms) rc2 ?c w3 = Returned (rc', ?c\<lparr>QC_INTERNAL_BUFFER := Some b'\<rparr>, w')"
    "length b' = length ?b" "contents (Q_MQDES src) w' = []"
    "\<forall>d\<in>set ?D. contents (Q_MQDES d) w' = foldl (deliver (Q_MAX_NB_MESSAGE d)) (contents (Q_MQDES d) w3) ms"
    "sent w' = sent w3 @ (if QC_sender_mySocket c then concat (map (\<lambda>m. map (\<lambda>u. (u, m)) ?U) ms) else [])"
    "\<forall>other. other \<noteq> Q_MQDES src \<and> other \<notin> Q_MQDES ` set ?D \<longrightarrow> contents other w' = contents other w3"
    using Cons.IH [of ?c ?b w3 rc2] Cons.prems(1-3) src3 by auto
  have "contents (Q_MQDES d) w3 = deliver (Q_MAX_NB_MESSAGE d) (contents (Q_MQDES d) w) m" if "d \<in> set ?D" for d
    using that same w2(2) w1(4) Cons.prems(3) by (metis imageI)
  moreover have "move_queue mq net now src (Suc (length ms)) rc c w =
      Returned (rc', c\<lparr>QC_INTERNAL_BUFFER := Some b'\<rparr>, w')"
    using w1(1) buf w2(1) w3(1) rest(1) by (cases "QC_sender_mySocket c") simp_all
  moreover have "contents other w3 = contents other w"
    if "other \<noteq> Q_MQDES src \<and> other \<notin> Q_MQDES ` set ?D" for other
    using that same w2(4) w1(4) by simp
  ultimately show ?case
    using rest m(1) w1(3) w2(3) w3(2) by (auto intro!: exI [of _ rc'] exI [of _ b'] exI [of _ w'])
qed

end
