(* ===== verification/ModuleManager.thy ===== *)
theory ModuleManager
  imports QueueChannel TimeServices
begin

text \<open>
  The module manager (include/ACM/INTERNAL/ModuleManager.h, ModuleManager/ModuleScheduler.cc,
  ModuleManager.cc, ModuleSignalHandlers.cc): it gives every partition its windows of the
  hyperperiod by sending SIGCONT and SIGSTOP to its process, and moves the messages of its channels
  while the partition is stopped.  What it does to the processes is recorded as a list of events
  \<open>mm_event\<close>: the sleep until a point in time, the signals, the channels moved, and the datagrams to the
  module managers of other modules (theory ModuleSync).
  The answers of clock\_nanosleep and the readings of the clock are inputs.
\<close>

section \<open>State\<close>

record QUEUING_PORT_DESCRIPTOR =
  QD_Name :: NAME_TYPE
  QD_MAX_MESSAGE_SIZE :: int
  QD_MAX_NB_MESSAGE :: int
  QD_PORT_DIRECTION :: PORT_DIRECTION_TYPE

record SAMPLING_PORT_DESCRIPTOR =
  SD_Name :: NAME_TYPE
  SD_MAX_MESSAGE_SIZE :: int
  SD_REFRESH_PERIOD :: SYSTEM_TIME_TYPE
  SD_PORT_DIRECTION :: PORT_DIRECTION_TYPE

datatype PROXY_PORT_DESCRIPTORS_TYPE = SAMPLING | QUEUEING

record PROXY_PORT_DESCRIPTORS =
  PROXY_TYPE :: PROXY_PORT_DESCRIPTORS_TYPE
  PX_Name :: NAME_TYPE
  PX_hostName :: NAME_TYPE
  PX_portNumber :: nat
  PX_MAX_MESSAGE_SIZE :: int
  PX_MAX_NB_MESSAGE :: int
  PX_PORT_DIRECTION :: PORT_DIRECTION_TYPE

record CHANNEL_DESCRIPTOR =
  CD_source :: NAME_TYPE
  CD_destination :: "NAME_TYPE list"

record SCHEDULING_TUPLE =
  OFFSET :: SYSTEM_TIME_TYPE
  DURATION :: SYSTEM_TIME_TYPE
  PARTITION_INDEX :: nat

record PARTITION =
  PID :: nat
  P_Name :: NAME_TYPE
  Executable :: NAME_TYPE
  isNetworkPartition :: bool
  QUEUING_PORTS :: "QUEUING_PORT_DESCRIPTOR list"
  SAMPLING_PORTS :: "SAMPLING_PORT_DESCRIPTOR list"
  SAMPLING_CHANNEL_SOURCE_VECTOR :: "NAME_TYPE list"
  QUEUE_CHANNEL_SOURCE_VECTOR :: "NAME_TYPE list"
  QUEUE_CHANNEL_INTER_MODULE_DST_VECTOR :: "NAME_TYPE list"
  SAMPLING_CHANNEL_INTER_MODULE_DST_VECTOR :: "NAME_TYPE list"
  CONFIGURATION_QUEUE :: NAME_TYPE

definition CheckIfChannelExists :: "NAME_TYPE \<Rightarrow> PARTITION \<Rightarrow> bool" where
  "CheckIfChannelExists name p \<longleftrightarrow>
     name \<in> set (SAMPLING_CHANNEL_SOURCE_VECTOR p) \<or>
     name \<in> set (QUEUE_CHANNEL_SOURCE_VECTOR p) \<or>
     name \<in> set (QUEUE_CHANNEL_INTER_MODULE_DST_VECTOR p) \<or>
     name \<in> set (SAMPLING_CHANNEL_INTER_MODULE_DST_VECTOR p)"

text \<open>A configuration queue that is in the map but null is \<open>Some None\<close>.\<close>

record MODULE_MANAGER =
  PARTITION_VECTOR :: "PARTITION list"
  SCHEDULING_VECTOR :: "SCHEDULING_TUPLE list"
  MAJOR_FRAME_SIZE :: SYSTEM_TIME_TYPE
  isMAX_NUMBER_OF_FRAMES_SET :: bool
  MAX_NUMBER_OF_FRAMES :: int
  MAP_OF_QUEUEING_CHANNELS :: "NAME_TYPE \<Rightarrow> QUEUE_CHANNEL option"
  MAP_OF_SAMPLING_CHANNELS :: "NAME_TYPE \<Rightarrow> SAMPLING_CHANNEL option"
  MAP_OF_CONFIGURATION_QUEUE :: "NAME_TYPE \<Rightarrow> MESSAGE_QUEUE_TYPE option option"
  PROXY_PORTS :: "PROXY_PORT_DESCRIPTORS list"
  DUMMY_PROCESS_ID :: nat

datatype mm_event =
  Until SYSTEM_TIMESPEC | Cont nat | Stop nat | Sigint nat | Waited nat | Moved NAME_TYPE | Sent DESTINATION_URL "byte list"

section \<open>The check of the schedule\<close>

definition SCHEDULE_COMP :: "SCHEDULING_TUPLE \<Rightarrow> SCHEDULING_TUPLE \<Rightarrow> bool" where
  "SCHEDULE_COMP first second \<longleftrightarrow> OFFSET first < OFFSET second"

text \<open>The constructor throws -5 for a schedule it refuses; \<open>size() - 1\<close> of an empty vector wraps
  around, and the loop reads outside it.\<close>

fun windows_apart :: "SCHEDULING_TUPLE list \<Rightarrow> bool" where
  "windows_apart (x # y # xs) \<longleftrightarrow> OFFSET x + DURATION x \<le> OFFSET y \<and> windows_apart (y # xs)"
| "windows_apart xs \<longleftrightarrow> True"

definition check_schedule :: "SYSTEM_TIME_TYPE \<Rightarrow> SCHEDULING_TUPLE list \<Rightarrow> (int + unit) outcome" where
  "check_schedule frame xs =
     (if xs = [] then Undef
      else if \<not> windows_apart xs then Returned (Inl (-5))
      else if OFFSET (last xs) + DURATION (last xs) > frame then Returned (Inl (-5))
      else Returned (Inr ()))"

section \<open>A window\<close>

fun move_queues ::
  "'w mq_calls \<Rightarrow> 'w socket_calls \<Rightarrow> (nat \<Rightarrow> nat \<Rightarrow> nat \<Rightarrow> SYSTEM_TIMESPEC) \<Rightarrow> NAME_TYPE list \<Rightarrow>
   MODULE_MANAGER \<Rightarrow> 'w \<Rightarrow> (MODULE_MANAGER \<times> 'w) outcome" where
  "move_queues mq net now [] m w = Returned (m, w)"
| "move_queues mq net now (name # names) m w =
     (case MAP_OF_QUEUEING_CHANNELS m name of
        None \<Rightarrow> Undef
      | Some c \<Rightarrow> bind_outcome (QC_MOVE_MESSAGES mq net (now (length names)) c w) (\<lambda>(rc, c', w').
          move_queues mq net now names
            (m\<lparr>MAP_OF_QUEUEING_CHANNELS := (MAP_OF_QUEUEING_CHANNELS m)(name \<mapsto> c')\<rparr>) w'))"

fun move_samples ::
  "'w socket_calls \<Rightarrow> NAME_TYPE list \<Rightarrow> MODULE_MANAGER \<Rightarrow> 'w \<Rightarrow> (MODULE_MANAGER \<times> 'w) outcome" where
  "move_samples net [] m w = Returned (m, w)"
| "move_samples net (name # names) m w =
     (case MAP_OF_SAMPLING_CHANNELS m name of
        None \<Rightarrow> Undef
      | Some c \<Rightarrow> bind_outcome (SC_MOVE_MESSAGES net c w) (\<lambda>(rc, c', w').
          move_samples net names
            (m\<lparr>MAP_OF_SAMPLING_CHANNELS := (MAP_OF_SAMPLING_CHANNELS m)(name \<mapsto> c')\<rparr>) w'))"

text \<open>The inputs of a window: what the two sleeps answer, the clock readings of the channels moved before
  and after, and of the token sent to a network partition.\<close>

record window_env =
  offset_sleep :: "sleep list"
  end_sleep :: "sleep list"
  before_clock :: "nat \<Rightarrow> nat \<Rightarrow> nat \<Rightarrow> SYSTEM_TIMESPEC"
  after_clock :: "nat \<Rightarrow> nat \<Rightarrow> nat \<Rightarrow> SYSTEM_TIMESPEC"
  token_clock :: SYSTEM_TIMESPEC

definition NETWORK_PARTITION_PETRI_NET_TOKEN :: "byte list" where
  "NETWORK_PARTITION_PETRI_NET_TOKEN = [71, 79, 0, 0]"

definition send_token ::
  "'w mq_calls \<Rightarrow> SYSTEM_TIMESPEC \<Rightarrow> PARTITION \<Rightarrow> MODULE_MANAGER \<Rightarrow> 'w \<Rightarrow> 'w outcome" where
  "send_token mq now p m w =
     (case MAP_OF_CONFIGURATION_QUEUE m (CONFIGURATION_QUEUE p) of
        Some (Some q) \<Rightarrow>
          bind_outcome (QUEUE_SEND_MESSAGE mq now NETWORK_PARTITION_PETRI_NET_TOKEN 4 0 q w) (\<lambda>(rc, w'). Returned w')
      | _ \<Rightarrow> Returned w)"

definition RUN_PARTITION ::
  "'w mq_calls \<Rightarrow> 'w socket_calls \<Rightarrow> window_env \<Rightarrow> nat \<Rightarrow> SYSTEM_TIMESPEC \<Rightarrow>
   MODULE_MANAGER \<times> 'w \<times> mm_event list \<Rightarrow> (MODULE_MANAGER \<times> 'w \<times> mm_event list) outcome" where
  "RUN_PARTITION mq net e i ABSOLUTE_DURATION_TIME = (\<lambda>(m, w, tr).
     if length (PARTITION_VECTOR m) \<le> i then Undef
     else let p = PARTITION_VECTOR m ! i;
              before = (if isNetworkPartition p then []
                        else QUEUE_CHANNEL_INTER_MODULE_DST_VECTOR p @ SAMPLING_CHANNEL_INTER_MODULE_DST_VECTOR p);
              after = (if isNetworkPartition p then []
                       else QUEUE_CHANNEL_SOURCE_VECTOR p @ SAMPLING_CHANNEL_SOURCE_VECTOR p)
     in bind_outcome
          (if isNetworkPartition p then bind_outcome (send_token mq (token_clock e) p m w) (\<lambda>w'. Returned (m, w'))
           else bind_outcome (move_queues mq net (before_clock e) (QUEUE_CHANNEL_INTER_MODULE_DST_VECTOR p) m w)
             (\<lambda>(m1, w1). move_samples net (SAMPLING_CHANNEL_INTER_MODULE_DST_VECTOR p) m1 w1))
          (\<lambda>(m1, w1).
        bind_outcome (nanosleep_loop ABSOLUTE_DURATION_TIME (end_sleep e)) (\<lambda>_.
        bind_outcome
          (if isNetworkPartition p then Returned (m1, w1)
           else bind_outcome (move_queues mq net (after_clock e) (QUEUE_CHANNEL_SOURCE_VECTOR p) m1 w1)
             (\<lambda>(m2, w2). move_samples net (SAMPLING_CHANNEL_SOURCE_VECTOR p) m2 w2))
          (\<lambda>(m2, w2). Returned (m2, w2, tr @ map Moved before @
             [Cont (PID p), Until ABSOLUTE_DURATION_TIME, Stop (PID p)] @ map Moved after)))))"

section \<open>The hyperperiod\<close>

fun run_windows ::
  "'w mq_calls \<Rightarrow> 'w socket_calls \<Rightarrow> (nat \<Rightarrow> window_env) \<Rightarrow> SYSTEM_TIMESPEC \<Rightarrow> SCHEDULING_TUPLE list \<Rightarrow>
   MODULE_MANAGER \<times> 'w \<times> mm_event list \<Rightarrow> (MODULE_MANAGER \<times> 'w \<times> mm_event list) outcome" where
  "run_windows mq net env start [] s = Returned s"
| "run_windows mq net env start (x # xs) s =
     bind_outcome (assert_some (addTimeNano start (OFFSET x))) (\<lambda>ABSOLUTE_OFFSET_TIME.
     bind_outcome (assert_some (addTimeNano start (OFFSET x + DURATION x))) (\<lambda>ABSOLUTE_DURATION_TIME.
     bind_outcome (nanosleep_loop ABSOLUTE_OFFSET_TIME (offset_sleep (env (length xs)))) (\<lambda>_.
     bind_outcome (RUN_PARTITION mq net (env (length xs)) (PARTITION_INDEX x) ABSOLUTE_DURATION_TIME
                     (case s of (m, w, tr) \<Rightarrow> (m, w, tr @ [Until ABSOLUTE_OFFSET_TIME])))
       (run_windows mq net env start xs))))"

record frame_env =
  window_envs :: "nat \<Rightarrow> window_env"
  frame_sleep :: "sleep list"

definition more_frames :: "MODULE_MANAGER \<Rightarrow> int \<Rightarrow> bool" where
  "more_frames m NumberofIterations \<longleftrightarrow>
     isMAX_NUMBER_OF_FRAMES_SET m \<and> NumberofIterations < MAX_NUMBER_OF_FRAMES m \<or> \<not> isMAX_NUMBER_OF_FRAMES_SET m"

text \<open>The loop of RUN\_WITHOUT\_SYSTEM\_MANAGER; the list has the inputs of the frames to come.\<close>

fun run_frames ::
  "'w mq_calls \<Rightarrow> 'w socket_calls \<Rightarrow> frame_env list \<Rightarrow> int \<Rightarrow> SYSTEM_TIMESPEC \<Rightarrow>
   MODULE_MANAGER \<times> 'w \<times> mm_event list \<Rightarrow> (MODULE_MANAGER \<times> 'w \<times> mm_event list) outcome" where
  "run_frames mq net es k START_HYPER_PERIOD s =
     (if \<not> more_frames (fst s) k then Returned s
      else case es of
        [] \<Rightarrow> Blocked
      | e # es' \<Rightarrow>
          bind_outcome (run_windows mq net (window_envs e) START_HYPER_PERIOD (SCHEDULING_VECTOR (fst s)) s) (\<lambda>s1.
          bind_outcome (assert_some (addTimeNano START_HYPER_PERIOD (MAJOR_FRAME_SIZE (fst s1)))) (\<lambda>next.
          bind_outcome (nanosleep_loop next (frame_sleep e)) (\<lambda>_.
            run_frames mq net es' (if isMAX_NUMBER_OF_FRAMES_SET (fst s) then k + 1 else k) next
              (case s1 of (m, w, tr) \<Rightarrow> (m, w, tr @ [Until next]))))))"

text \<open>DOSHUTDOWN: every partition is stopped; then one after the other is continued to take the SIGINT
  and waited for.\<close>

definition DOSHUTDOWN :: "MODULE_MANAGER \<Rightarrow> mm_event list" where
  "DOSHUTDOWN m =
     (let pids = filter (\<lambda>pid. pid \<noteq> 0) (map PID (PARTITION_VECTOR m)) in
      (if DUMMY_PROCESS_ID m \<noteq> 0 then [Sigint (DUMMY_PROCESS_ID m)] else []) @
      map Stop pids @ concat (map (\<lambda>pid. [Cont pid, Sigint pid, Waited pid]) pids))"

definition RUN_WITHOUT_SYSTEM_MANAGER ::
  "'w mq_calls \<Rightarrow> 'w socket_calls \<Rightarrow> frame_env list \<Rightarrow> SYSTEM_TIMESPEC \<Rightarrow> MODULE_MANAGER \<Rightarrow> 'w \<Rightarrow>
   (MODULE_MANAGER \<times> 'w \<times> mm_event list) outcome" where
  "RUN_WITHOUT_SYSTEM_MANAGER mq net es MM_START_TIME m w =
     bind_outcome (run_frames mq net es 0 MM_START_TIME (m, w, []))
       (\<lambda>(m', w', tr). Returned (m'\<lparr>PARTITION_VECTOR := []\<rparr>, w', tr @ DOSHUTDOWN m'))"

end
