(* ===== verification/ModuleProperties.thy ===== *)
theory ModuleProperties
  imports ModuleManager
begin

text \<open>
  What the module manager does over a run: the events of a window, a hyperperiod and a whole run
  written down as functions of the configuration and the start alone; the partitions run one at a
  time; and the points in time come in order for every schedule that the check accepts.
\<close>

section \<open>Points in time\<close>

definition timespec_at :: "int \<Rightarrow> SYSTEM_TIMESPEC" where
  "timespec_at n = \<lparr>tv_sec = n div NANO, tv_nsec = n mod NANO\<rparr>"

lemma timespec_at_normalised [simp]: "normalised (timespec_at n)"
  by (simp add: timespec_at_def normalised_def)

lemma timespec_at_value [simp]: "convertTimeSpecToNano (timespec_at n) = n"
  by (simp add: timespec_at_def convertTimeSpecToNano_def mult.commute)

lemma addTimeNano_at:
  assumes "0 \<le> n" "n \<le> MAX_TIME_OUT"
  shows "addTimeNano (timespec_at t) n = Some (timespec_at (t + n))"
proof -
  obtain tv where tv: "addTimeNano (timespec_at t) n = Some tv" using assms(2) addTimeNano_Some_iff by blast
  have "tv = timespec_at (t + n)"
  proof (rule normalised_eqI)
    have "- tv_nsec (timespec_at t) \<le> n"
      using timespec_at_normalised [of t] assms(1) unfolding normalised_def by linarith
    then show "normalised tv"
      using addTimeNano_normalised [OF tv timespec_at_normalised] by blast
    show "convertTimeSpecToNano tv = convertTimeSpecToNano (timespec_at (t + n))"
      using addTimeNano_value [OF tv] assms(1) by (simp add: INFINITE_TIME_VALUE_def)
  qed simp
  then show ?thesis using tv by simp
qed

section \<open>The events of a run\<close>

definition channels_before :: "PARTITION \<Rightarrow> NAME_TYPE list" where
  "channels_before p =
     (if isNetworkPartition p then []
      else QUEUE_CHANNEL_INTER_MODULE_DST_VECTOR p @ SAMPLING_CHANNEL_INTER_MODULE_DST_VECTOR p)"

definition channels_after :: "PARTITION \<Rightarrow> NAME_TYPE list" where
  "channels_after p =
     (if isNetworkPartition p then [] else QUEUE_CHANNEL_SOURCE_VECTOR p @ SAMPLING_CHANNEL_SOURCE_VECTOR p)"

definition window_events :: "MODULE_MANAGER \<Rightarrow> int \<Rightarrow> SCHEDULING_TUPLE \<Rightarrow> mm_event list" where
  "window_events m start x =
     (let p = PARTITION_VECTOR m ! PARTITION_INDEX x in
      [Until (timespec_at (start + OFFSET x))] @ map Moved (channels_before p) @
      [Cont (PID p), Until (timespec_at (start + (OFFSET x + DURATION x))), Stop (PID p)] @
      map Moved (channels_after p))"

definition frame_events :: "MODULE_MANAGER \<Rightarrow> int \<Rightarrow> mm_event list" where
  "frame_events m start =
     concat (map (window_events m start) (SCHEDULING_VECTOR m)) @ [Until (timespec_at (start + MAJOR_FRAME_SIZE m))]"

definition run_events :: "MODULE_MANAGER \<Rightarrow> int \<Rightarrow> nat \<Rightarrow> mm_event list" where
  "run_events m start n = concat (map (\<lambda>k. frame_events m (start + int k * MAJOR_FRAME_SIZE m)) [0..<n])"

text \<open>What the moves of channels leave alone.\<close>

definition same_config :: "MODULE_MANAGER \<Rightarrow> MODULE_MANAGER \<Rightarrow> bool" where
  "same_config m m' \<longleftrightarrow>
     (\<exists>qs ss. m' = m\<lparr>MAP_OF_QUEUEING_CHANNELS := qs, MAP_OF_SAMPLING_CHANNELS := ss\<rparr>)"

lemma same_config_refl [simp]: "same_config m m"
  unfolding same_config_def
  by (intro exI [of _ "MAP_OF_QUEUEING_CHANNELS m"] exI [of _ "MAP_OF_SAMPLING_CHANNELS m"]) simp

lemma same_config_trans: "same_config m m' \<Longrightarrow> same_config m' m'' \<Longrightarrow> same_config m m''"
  unfolding same_config_def
proof (elim exE)
  fix qs ss qs' ss'
  assume "m' = m\<lparr>MAP_OF_QUEUEING_CHANNELS := qs, MAP_OF_SAMPLING_CHANNELS := ss\<rparr>"
    "m'' = m'\<lparr>MAP_OF_QUEUEING_CHANNELS := qs', MAP_OF_SAMPLING_CHANNELS := ss'\<rparr>"
  then have "m'' = m\<lparr>MAP_OF_QUEUEING_CHANNELS := qs', MAP_OF_SAMPLING_CHANNELS := ss'\<rparr>" by simp
  then show "\<exists>qs ss. m'' = m\<lparr>MAP_OF_QUEUEING_CHANNELS := qs, MAP_OF_SAMPLING_CHANNELS := ss\<rparr>" by blast
qed

lemma same_config_fields:
  assumes "same_config m m'"
  shows "PARTITION_VECTOR m' = PARTITION_VECTOR m" "SCHEDULING_VECTOR m' = SCHEDULING_VECTOR m"
    "MAJOR_FRAME_SIZE m' = MAJOR_FRAME_SIZE m" "isMAX_NUMBER_OF_FRAMES_SET m' = isMAX_NUMBER_OF_FRAMES_SET m"
    "MAX_NUMBER_OF_FRAMES m' = MAX_NUMBER_OF_FRAMES m" "DUMMY_PROCESS_ID m' = DUMMY_PROCESS_ID m"
    "window_events m' = window_events m" "frame_events m' = frame_events m" "DOSHUTDOWN m' = DOSHUTDOWN m"
    "more_frames m' = more_frames m" "run_events m' = run_events m"
proof -
  show f: "PARTITION_VECTOR m' = PARTITION_VECTOR m" "SCHEDULING_VECTOR m' = SCHEDULING_VECTOR m"
    "MAJOR_FRAME_SIZE m' = MAJOR_FRAME_SIZE m" "isMAX_NUMBER_OF_FRAMES_SET m' = isMAX_NUMBER_OF_FRAMES_SET m"
    "MAX_NUMBER_OF_FRAMES m' = MAX_NUMBER_OF_FRAMES m" "DUMMY_PROCESS_ID m' = DUMMY_PROCESS_ID m"
    using assms by (auto simp: same_config_def)
  show w: "window_events m' = window_events m" by (intro ext) (simp add: window_events_def f)
  show g: "frame_events m' = frame_events m" by (intro ext) (simp add: frame_events_def f w)
  show "DOSHUTDOWN m' = DOSHUTDOWN m" by (simp add: DOSHUTDOWN_def f)
  show "more_frames m' = more_frames m" by (intro ext) (simp add: more_frames_def f)
  show "run_events m' = run_events m" by (intro ext) (simp add: run_events_def f g)
qed

lemma same_config_moves:
  "move_queues mq net now names m w = Returned (m', w') \<Longrightarrow> same_config m m'"
  "move_samples net names m w = Returned (m', w') \<Longrightarrow> same_config m m'"
proof -
  have upd: "same_config m (m\<lparr>MAP_OF_QUEUEING_CHANNELS := f\<rparr>)" "same_config m (m\<lparr>MAP_OF_SAMPLING_CHANNELS := g\<rparr>)" for m f g
    unfolding same_config_def
    by (intro exI [of _ f] exI [of _ "MAP_OF_SAMPLING_CHANNELS m"]; simp)
      (intro exI [of _ g] exI [of _ "MAP_OF_QUEUEING_CHANNELS m"]; simp)
  show "move_queues mq net now names m w = Returned (m', w') \<Longrightarrow> same_config m m'"
  proof (induction names arbitrary: m w)
    case (Cons name names)
    then show ?case by (auto simp: bind_outcome_Returned split: option.splits intro: same_config_trans [OF upd(1)])
  qed simp
  show "move_samples net names m w = Returned (m', w') \<Longrightarrow> same_config m m'"
  proof (induction names arbitrary: m w)
    case (Cons name names)
    then show ?case by (auto simp: bind_outcome_Returned split: option.splits intro: same_config_trans [OF upd(2)])
  qed simp
qed

lemma RUN_PARTITION_events:
  assumes "RUN_PARTITION mq net e i t (m, w, tr) = Returned (m', w', tr')"
  shows "i < length (PARTITION_VECTOR m)" "same_config m m'"
    "tr' = tr @ map Moved (channels_before (PARTITION_VECTOR m ! i)) @
       [Cont (PID (PARTITION_VECTOR m ! i)), Until t, Stop (PID (PARTITION_VECTOR m ! i))] @
       map Moved (channels_after (PARTITION_VECTOR m ! i))"
  using assms
  by (auto simp: RUN_PARTITION_def Let_def bind_outcome_Returned channels_before_def channels_after_def
      dest!: same_config_moves split: if_splits intro: same_config_trans)


section \<open>One partition at a time\<close>

text \<open>The partition that may run: \<open>Cont\<close> gives a partition the processor, which must be free;
  \<open>Stop\<close> and \<open>Waited\<close> take it away; channels are moved only while no partition runs.\<close>

fun one_at_a_time :: "nat option \<Rightarrow> mm_event list \<Rightarrow> bool" where
  "one_at_a_time r [] = True"
| "one_at_a_time r (Cont p # es) \<longleftrightarrow> r = None \<and> one_at_a_time (Some p) es"
| "one_at_a_time r (Stop p # es) \<longleftrightarrow> r \<in> {None, Some p} \<and> one_at_a_time None es"
| "one_at_a_time r (Waited p # es) \<longleftrightarrow> r \<in> {None, Some p} \<and> one_at_a_time None es"
| "one_at_a_time r (Moved c # es) \<longleftrightarrow> r = None \<and> one_at_a_time r es"
| "one_at_a_time r (Until t # es) \<longleftrightarrow> one_at_a_time r es"
| "one_at_a_time r (Sigint p # es) \<longleftrightarrow> one_at_a_time r es"
| "one_at_a_time r (Sent u m # es) \<longleftrightarrow> one_at_a_time r es"

text \<open>A stretch of events that leaves the processor free.\<close>

definition handed_back :: "mm_event list \<Rightarrow> bool" where
  "handed_back es \<longleftrightarrow> (\<forall>rest. one_at_a_time None (es @ rest) = one_at_a_time None rest)"

lemma handed_back_one_at_a_time: "handed_back es \<Longrightarrow> one_at_a_time None es"
  unfolding handed_back_def by (metis append_Nil2 one_at_a_time.simps(1))

lemma handed_back_intros [intro, simp]:
  "handed_back []"
  "handed_back [Until t]"
  "handed_back es \<Longrightarrow> handed_back es' \<Longrightarrow> handed_back (es @ es')"
  "(\<And>es. es \<in> set ess \<Longrightarrow> handed_back es) \<Longrightarrow> handed_back (concat ess)"
proof -
  show app: "handed_back es \<Longrightarrow> handed_back es' \<Longrightarrow> handed_back (es @ es')" for es es'
    by (simp add: handed_back_def)
  show "(\<And>es. es \<in> set ess \<Longrightarrow> handed_back es) \<Longrightarrow> handed_back (concat ess)"
    by (induction ess) (auto intro: app simp: handed_back_def)
qed (simp_all add: handed_back_def)

lemma handed_back_moves [simp]: "handed_back (map Moved names)"
  unfolding handed_back_def by (induction names) auto

lemma handed_back_stops [simp]: "handed_back (map Stop pids)"
  unfolding handed_back_def by (induction pids) auto

lemma handed_back_window [simp]: "handed_back [Cont p, Until t, Stop p]"
  by (simp add: handed_back_def)

lemma RUN_PARTITION_handed_back:
  assumes "RUN_PARTITION mq net e i t (m, w, tr) = Returned (m', w', tr')" "handed_back tr"
  shows "handed_back tr'"
  unfolding RUN_PARTITION_events(3) [OF assms(1)] using assms(2)
  by (intro handed_back_intros handed_back_moves handed_back_window)

lemma run_windows_step:
  assumes "run_windows mq net env start (x # xs) (m, w, tr) = Returned r"
  obtains t1 t2 m1 w1 tr1 where
    "addTimeNano start (OFFSET x) = Some t1" "addTimeNano start (OFFSET x + DURATION x) = Some t2"
    "RUN_PARTITION mq net (env (length xs)) (PARTITION_INDEX x) t2 (m, w, tr @ [Until t1]) = Returned (m1, w1, tr1)"
    "run_windows mq net env start xs (m1, w1, tr1) = Returned r"
  using assms by (auto simp: bind_outcome_Returned)

lemma run_windows_handed_back:
  assumes "run_windows mq net env start xs (m, w, tr) = Returned (m', w', tr')" "handed_back tr"
  shows "handed_back tr'"
  using assms
proof (induction xs arbitrary: m w tr)
  case (Cons x xs)
  obtain t1 t2 m1 w1 tr1 where
    part: "RUN_PARTITION mq net (env (length xs)) (PARTITION_INDEX x) t2 (m, w, tr @ [Until t1]) = Returned (m1, w1, tr1)"
    and rest: "run_windows mq net env start xs (m1, w1, tr1) = Returned (m', w', tr')"
    by (rule run_windows_step [OF Cons.prems(1)])
  have "handed_back (tr @ [Until t1])" using Cons.prems(2) by simp
  then show ?case using Cons.IH [OF rest] RUN_PARTITION_handed_back [OF part] by simp
qed simp

declare run_frames.simps [simp del]

lemma run_frames_stop: "\<not> more_frames m k \<Longrightarrow> run_frames mq net es k start (m, w, tr) = Returned (m, w, tr)"
  by (simp add: run_frames.simps)

lemma run_frames_step:
  assumes more: "more_frames m k" and run: "run_frames mq net es k start (m, w, tr) = Returned r"
  obtains e es' m1 w1 tr1 tv where "es = e # es'"
    "run_windows mq net (window_envs e) start (SCHEDULING_VECTOR m) (m, w, tr) = Returned (m1, w1, tr1)"
    "addTimeNano start (MAJOR_FRAME_SIZE m1) = Some tv" "nanosleep_loop tv (frame_sleep e) = Returned ()"
    "run_frames mq net es' (if isMAX_NUMBER_OF_FRAMES_SET m then k + 1 else k) tv (m1, w1, tr1 @ [Until tv]) = Returned r"
proof (cases es)
  case Nil
  then show ?thesis using assms by (simp add: run_frames.simps)
next
  case (Cons e es')
  show ?thesis using run unfolding Cons run_frames.simps [of mq net "e # es'"]
    using more that [OF Cons] by (auto simp: bind_outcome_Returned)
qed

lemma run_frames_handed_back:
  assumes "run_frames mq net es k start (m, w, tr) = Returned (m', w', tr')" "handed_back tr"
  shows "handed_back tr'"
  using assms
proof (induction es arbitrary: k start m w tr)
  case Nil
  then show ?case by (simp add: run_frames.simps split: if_splits)
next
  case (Cons e es)
  show ?case
  proof (cases "more_frames m k")
    case True
    obtain m1 w1 tr1 t where
      win: "run_windows mq net (window_envs e) start (SCHEDULING_VECTOR m) (m, w, tr) = Returned (m1, w1, tr1)"
      and rest: "run_frames mq net es (if isMAX_NUMBER_OF_FRAMES_SET m then k + 1 else k) t (m1, w1, tr1 @ [Until t]) =
         Returned (m', w', tr')"
      by (rule run_frames_step [OF True Cons.prems(1)]) auto
    have "handed_back (tr1 @ [Until t])" using run_windows_handed_back [OF win Cons.prems(2)] by simp
    then show ?thesis by (rule Cons.IH [OF rest])
  qed (use Cons.prems in \<open>simp add: run_frames_stop\<close>)
qed

lemma handed_back_shutdown: "handed_back (DOSHUTDOWN m)"
proof -
  have one: "handed_back [Cont p, Sigint p, Waited p]" "handed_back [Sigint p]" for p
    by (simp_all add: handed_back_def)
  show ?thesis unfolding DOSHUTDOWN_def Let_def
    by (intro handed_back_intros handed_back_stops) (auto intro: one)
qed

lemma run_one_at_a_time:
  assumes "RUN_WITHOUT_SYSTEM_MANAGER mq net es start m w = Returned (m', w', tr)"
  shows "one_at_a_time None tr"
proof -
  obtain m1 tr1 where "run_frames mq net es 0 start (m, w, []) = Returned (m1, w', tr1)" "tr = tr1 @ DOSHUTDOWN m1"
    using assms by (auto simp: RUN_WITHOUT_SYSTEM_MANAGER_def bind_outcome_Returned)
  then show ?thesis
    using run_frames_handed_back [of mq net es 0 start m w "[]"] handed_back_shutdown [of m1]
    by (auto intro: handed_back_one_at_a_time)
qed

section \<open>The events of a run are those of the configuration\<close>

lemma timespec_at_offset:
  "addTimeNano (timespec_at t) n = Some tv \<Longrightarrow> 0 \<le> n \<Longrightarrow> tv = timespec_at (t + n)"
  using addTimeNano_at [of n t] addTimeNano_Some_iff [of "timespec_at t" n] by auto

lemma run_windows_events:
  assumes "run_windows mq net env (timespec_at t) xs (m, w, tr) = Returned (m', w', tr')"
    "\<forall>x\<in>set xs. 0 \<le> OFFSET x \<and> 0 \<le> DURATION x"
  shows "same_config m m' \<and> tr' = tr @ concat (map (window_events m t) xs)"
  using assms
proof (induction xs arbitrary: m w tr)
  case (Cons x xs)
  obtain t1 t2 m1 w1 tr1 where
    add: "addTimeNano (timespec_at t) (OFFSET x) = Some t1" "addTimeNano (timespec_at t) (OFFSET x + DURATION x) = Some t2"
    and part: "RUN_PARTITION mq net (env (length xs)) (PARTITION_INDEX x) t2 (m, w, tr @ [Until t1]) = Returned (m1, w1, tr1)"
    and rest: "run_windows mq net env (timespec_at t) xs (m1, w1, tr1) = Returned (m', w', tr')"
    by (rule run_windows_step [OF Cons.prems(1)])
  have times: "t1 = timespec_at (t + OFFSET x)" "t2 = timespec_at (t + (OFFSET x + DURATION x))"
    using add [THEN timespec_at_offset] Cons.prems(2) by simp_all
  have same: "same_config m m1" and "tr1 = tr @ window_events m t x"
    using RUN_PARTITION_events [OF part] by (simp_all add: window_events_def Let_def times)
  moreover have "same_config m1 m' \<and> tr' = tr1 @ concat (map (window_events m1 t) xs)"
    using Cons.IH [OF rest] Cons.prems(2) by simp
  ultimately show ?case using same_config_trans same_config_fields(7) [OF same] by auto
qed simp

lemma run_events_Suc:
  "run_events m t (Suc n) = frame_events m t @ run_events m (t + MAJOR_FRAME_SIZE m) n"
proof -
  have "[0..<Suc n] = 0 # map Suc [0..<n]" by (simp add: map_Suc_upt upt_conv_Cons del: upt_Suc)
  then show ?thesis by (simp add: run_events_def comp_def algebra_simps del: upt_Suc)
qed

lemma run_frames_events:
  assumes "run_frames mq net es k (timespec_at t) (m, w, tr) = Returned (m', w', tr')"
    "\<forall>x\<in>set (SCHEDULING_VECTOR m). 0 \<le> OFFSET x \<and> 0 \<le> DURATION x" "0 \<le> MAJOR_FRAME_SIZE m"
    "isMAX_NUMBER_OF_FRAMES_SET m"
  shows "same_config m m' \<and> tr' = tr @ run_events m t (nat (MAX_NUMBER_OF_FRAMES m - k))"
  using assms
proof (induction es arbitrary: k t m w tr)
  case Nil
  then show ?case by (simp add: run_frames.simps more_frames_def run_events_def split: if_splits)
next
  case (Cons e es)
  show ?case
  proof (cases "more_frames m k")
    case True
    obtain m1 w1 tr1 tv where
      win: "run_windows mq net (window_envs e) (timespec_at t) (SCHEDULING_VECTOR m) (m, w, tr) = Returned (m1, w1, tr1)"
      and add: "addTimeNano (timespec_at t) (MAJOR_FRAME_SIZE m1) = Some tv"
      and rest: "run_frames mq net es (if isMAX_NUMBER_OF_FRAMES_SET m then k + 1 else k) tv
         (m1, w1, tr1 @ [Until tv]) = Returned (m', w', tr')"
      by (rule run_frames_step [OF True Cons.prems(1)]) auto
    have same: "same_config m m1" and tr1: "tr1 = tr @ concat (map (window_events m t) (SCHEDULING_VECTOR m))"
      using run_windows_events [OF win Cons.prems(2)] by auto
    note f = same_config_fields [OF same]
    have at: "tv = timespec_at (t + MAJOR_FRAME_SIZE m)"
      using timespec_at_offset [OF add] Cons.prems(3) f(3) by simp
    have "same_config m1 m' \<and> tr' = (tr1 @ [Until tv]) @
        run_events m1 (t + MAJOR_FRAME_SIZE m) (nat (MAX_NUMBER_OF_FRAMES m1 - (k + 1)))"
      by (rule Cons.IH) (use rest at Cons.prems(2-4) f in simp_all)
    moreover have "nat (MAX_NUMBER_OF_FRAMES m - k) = Suc (nat (MAX_NUMBER_OF_FRAMES m - (k + 1)))"
      using True Cons.prems(4) by (simp add: more_frames_def)
    ultimately show ?thesis
      using same_config_trans [OF same] tr1 at f
      by (simp add: run_events_Suc frame_events_def)
  qed (use Cons.prems in \<open>simp add: run_frames_stop more_frames_def run_events_def\<close>)
qed

lemma run_events_of_run:
  assumes "RUN_WITHOUT_SYSTEM_MANAGER mq net es (timespec_at t) m w = Returned (m', w', tr)"
    "\<forall>x\<in>set (SCHEDULING_VECTOR m). 0 \<le> OFFSET x \<and> 0 \<le> DURATION x" "0 \<le> MAJOR_FRAME_SIZE m"
    "isMAX_NUMBER_OF_FRAMES_SET m"
  shows "tr = run_events m t (nat (MAX_NUMBER_OF_FRAMES m)) @ DOSHUTDOWN m"
proof -
  obtain m1 tr1 where "run_frames mq net es 0 (timespec_at t) (m, w, []) = Returned (m1, w', tr1)" "tr = tr1 @ DOSHUTDOWN m1"
    using assms(1) by (auto simp: RUN_WITHOUT_SYSTEM_MANAGER_def bind_outcome_Returned)
  then show ?thesis using run_frames_events [OF _ assms(2-4)] same_config_fields(9) by fastforce
qed

section \<open>An accepted schedule keeps the order of time\<close>

fun until_times :: "mm_event list \<Rightarrow> int list" where
  "until_times [] = []"
| "until_times (Until t # es) = convertTimeSpecToNano t # until_times es"
| "until_times (e # es) = until_times es"

lemma until_times_append [simp]: "until_times (es @ es') = until_times es @ until_times es'"
  by (induction es rule: until_times.induct) auto

lemma until_times_others [simp]:
  "until_times (map Moved names) = []" "until_times (map Stop pids) = []"
  by (induction names; simp) (induction pids; simp)

lemma until_times_concat [simp]: "until_times (concat ess) = concat (map until_times ess)"
  by (induction ess) auto

lemma until_times_window [simp]:
  "until_times (window_events m t x) = [t + OFFSET x, t + (OFFSET x + DURATION x)]"
  by (simp add: window_events_def Let_def)

lemma until_times_shutdown [simp]: "until_times (DOSHUTDOWN m) = []"
  by (auto simp: DOSHUTDOWN_def Let_def)

lemma until_times_frame [simp]:
  "until_times (frame_events m t) =
     concat (map (\<lambda>x. [t + OFFSET x, t + (OFFSET x + DURATION x)]) (SCHEDULING_VECTOR m)) @ [t + MAJOR_FRAME_SIZE m]"
  by (simp add: frame_events_def comp_def)

definition good_schedule :: "SYSTEM_TIME_TYPE \<Rightarrow> SCHEDULING_TUPLE list \<Rightarrow> bool" where
  "good_schedule frame xs \<longleftrightarrow>
     check_schedule frame xs = Returned (Inr ()) \<and> (\<forall>x\<in>set xs. 0 \<le> OFFSET x \<and> 0 \<le> DURATION x)"

lemma windows_in_order:
  assumes "windows_apart xs" "\<forall>x\<in>set xs. 0 \<le> DURATION x" "xs \<noteq> []"
  shows "sorted (concat (map (\<lambda>x. [t + OFFSET x, t + (OFFSET x + DURATION x)]) xs)) \<and>
    (\<forall>s\<in>set (concat (map (\<lambda>x. [t + OFFSET x, t + (OFFSET x + DURATION x)]) xs)).
       t + OFFSET (hd xs) \<le> s \<and> s \<le> t + (OFFSET (last xs) + DURATION (last xs)))"
  using assms
proof (induction xs rule: windows_apart.induct)
  case (1 x y xs)
  have IH: "sorted (concat (map (\<lambda>x. [t + OFFSET x, t + (OFFSET x + DURATION x)]) (y # xs)))"
    "\<And>s. s \<in> set (concat (map (\<lambda>x. [t + OFFSET x, t + (OFFSET x + DURATION x)]) (y # xs))) \<Longrightarrow>
       t + OFFSET y \<le> s \<and> s \<le> t + (OFFSET (last (y # xs)) + DURATION (last (y # xs)))"
    using 1 by auto
  have x: "0 \<le> DURATION x" "OFFSET x + DURATION x \<le> OFFSET y" using 1 by auto
  have end_y: "t + OFFSET y \<le> t + (OFFSET (last (y # xs)) + DURATION (last (y # xs)))"
    using IH(2) [of "t + OFFSET y"] by simp
  have ge: "t + (OFFSET x + DURATION x) \<le> s"
    if "s \<in> set (concat (map (\<lambda>x. [t + OFFSET x, t + (OFFSET x + DURATION x)]) (y # xs)))" for s
    using IH(2) [OF that] x by linarith
  have "sorted (concat (map (\<lambda>x. [t + OFFSET x, t + (OFFSET x + DURATION x)]) (x # y # xs)))"
    using IH(1) x(1) ge by fastforce
  moreover have "t + OFFSET x \<le> s \<and> s \<le> t + (OFFSET (last (y # xs)) + DURATION (last (y # xs)))"
    if s: "s \<in> set (concat (map (\<lambda>x. [t + OFFSET x, t + (OFFSET x + DURATION x)]) (x # y # xs)))" for s
  proof -
    consider "s = t + OFFSET x" | "s = t + (OFFSET x + DURATION x)"
      | "s \<in> set (concat (map (\<lambda>x. [t + OFFSET x, t + (OFFSET x + DURATION x)]) (y # xs)))"
      using s by auto
    then show ?thesis
    proof cases
      case 3
      then show ?thesis using IH(2) ge x by force
    qed (use x end_y in linarith)+
  qed
  ultimately show ?case by simp
qed auto

lemma good_schedule_frame:
  assumes "good_schedule (MAJOR_FRAME_SIZE m) (SCHEDULING_VECTOR m)"
  shows "0 \<le> MAJOR_FRAME_SIZE m" "sorted (until_times (frame_events m t))"
    "\<forall>s\<in>set (until_times (frame_events m t)). t \<le> s \<and> s \<le> t + MAJOR_FRAME_SIZE m"
proof -
  let ?xs = "SCHEDULING_VECTOR m"
  let ?ts = "concat (map (\<lambda>x. [t + OFFSET x, t + (OFFSET x + DURATION x)]) ?xs)"
  have xs: "?xs \<noteq> []" "windows_apart ?xs" "OFFSET (last ?xs) + DURATION (last ?xs) \<le> MAJOR_FRAME_SIZE m"
    and nonneg: "\<forall>x\<in>set ?xs. 0 \<le> OFFSET x \<and> 0 \<le> DURATION x"
    using assms by (auto simp: good_schedule_def check_schedule_def split: if_splits)
  have ord: "sorted ?ts" "\<And>s. s \<in> set ?ts \<Longrightarrow>
      t + OFFSET (hd ?xs) \<le> s \<and> s \<le> t + (OFFSET (last ?xs) + DURATION (last ?xs))"
    using windows_in_order [OF xs(2) _ xs(1), of t] nonneg by blast+
  have ends: "0 \<le> OFFSET (hd ?xs)" "0 \<le> OFFSET (last ?xs) + DURATION (last ?xs)"
    using nonneg xs(1) by auto
  show "0 \<le> MAJOR_FRAME_SIZE m" using ends(2) xs(3) by linarith
  have inside: "t \<le> s \<and> s \<le> t + MAJOR_FRAME_SIZE m" if "s \<in> set ?ts" for s
    using ord(2) [OF that] ends xs(3) by linarith
  show "sorted (until_times (frame_events m t))"
    unfolding until_times_frame sorted_append using ord(1) inside by auto
  show "\<forall>s\<in>set (until_times (frame_events m t)). t \<le> s \<and> s \<le> t + MAJOR_FRAME_SIZE m"
    unfolding until_times_frame set_append using inside \<open>0 \<le> MAJOR_FRAME_SIZE m\<close> by auto
qed

lemma run_events_in_order:
  assumes "good_schedule (MAJOR_FRAME_SIZE m) (SCHEDULING_VECTOR m)"
  shows "sorted (until_times (run_events m t n)) \<and> (\<forall>s\<in>set (until_times (run_events m t n)). t \<le> s)"
proof (induction n arbitrary: t)
  case 0
  then show ?case by (simp add: run_events_def)
next
  case (Suc n)
  note F = good_schedule_frame [OF assms]
  let ?a = "until_times (frame_events m t)" and ?b = "until_times (run_events m (t + MAJOR_FRAME_SIZE m) n)"
  have b: "sorted ?b" "\<And>s. s \<in> set ?b \<Longrightarrow> t + MAJOR_FRAME_SIZE m \<le> s" using Suc.IH by blast+
  have a: "sorted ?a" "\<And>s. s \<in> set ?a \<Longrightarrow> t \<le> s \<and> s \<le> t + MAJOR_FRAME_SIZE m" using F(2,3) by blast+
  have "x \<le> y" if "x \<in> set ?a" "y \<in> set ?b" for x y
    using a(2) [OF that(1)] b(2) [OF that(2)] by linarith
  then have "sorted (?a @ ?b)" unfolding sorted_append using a(1) b(1) by blast
  moreover have "t \<le> s" if "s \<in> set (?a @ ?b)" for s
    using that a(2) [of s] b(2) [of s] F(1) unfolding set_append by (elim UnE) linarith+
  ultimately show ?case unfolding run_events_Suc until_times_append by blast
qed

end
