(* ===== verification/ModuleRuns.thy ===== *)
theory ModuleRuns
  imports ModuleProperties
begin

text \<open>
  A run of the module manager ends: with channels that deliver inside the module or send to others
  (none waits for a datagram), message queues that keep the POSIX laws and a network that takes
  every datagram, every window returns and leaves the channels ready for the next.  The channels
  that receive datagrams are left out because what arrives is not checked (theory SamplingChannel).
\<close>

section \<open>Channels that are ready to move\<close>

definition sizes_ok :: "(int \<Rightarrow> 'w \<Rightarrow> byte list list) \<Rightarrow> MESSAGE_QUEUE_TYPE set \<Rightarrow> 'w \<Rightarrow> bool" where
  "sizes_ok contents Q w \<longleftrightarrow>
     (\<forall>p\<in>Q. \<forall>x\<in>set (contents (Q_MQDES p) w). int (length x) \<le> Q_MAX_MESSAGE_SIZE p)"

definition queue_channel_ok :: "MESSAGE_QUEUE_TYPE set \<Rightarrow> QUEUE_CHANNEL \<Rightarrow> bool" where
  "queue_channel_ok Q c \<longleftrightarrow> QC_recv_mySocket c = None \<and>
     (\<forall>src. QC_SOURCE_QUEUE c = Some src \<longrightarrow>
        src \<in> Q \<and> set (QC_DESTINATION_QUEUE_VECTOR c) \<subseteq> Q \<and>
        distinct (map Q_MQDES (QC_DESTINATION_QUEUE_VECTOR c)) \<and>
        Q_MQDES src \<notin> Q_MQDES ` set (QC_DESTINATION_QUEUE_VECTOR c) \<and>
        (\<exists>b. QC_INTERNAL_BUFFER c = Some b \<and> Q_MAX_MESSAGE_SIZE src \<le> int (length b)) \<and>
        (\<forall>d\<in>set (QC_DESTINATION_QUEUE_VECTOR c). Q_MAX_MESSAGE_SIZE src \<le> Q_MAX_MESSAGE_SIZE d))"

definition sampling_channel_ok :: "SAMPLING_CHANNEL \<Rightarrow> bool" where
  "sampling_channel_ok c \<longleftrightarrow> sc_inv c \<and> SC_recv_mySocket c = None"

definition channels_ready :: "MESSAGE_QUEUE_TYPE set \<Rightarrow> MODULE_MANAGER \<Rightarrow> bool" where
  "channels_ready Q m \<longleftrightarrow>
     (\<forall>c\<in>ran (MAP_OF_QUEUEING_CHANNELS m). queue_channel_ok Q c) \<and>
     (\<forall>c\<in>ran (MAP_OF_SAMPLING_CHANNELS m). sampling_channel_ok c) \<and>
     (\<forall>name q. MAP_OF_CONFIGURATION_QUEUE m name = Some (Some q) \<longrightarrow> q \<in> Q) \<and>
     (\<forall>p\<in>set (PARTITION_VECTOR m). \<not> isNetworkPartition p \<longrightarrow>
        set (QUEUE_CHANNEL_INTER_MODULE_DST_VECTOR p @ QUEUE_CHANNEL_SOURCE_VECTOR p) \<subseteq> dom (MAP_OF_QUEUEING_CHANNELS m) \<and>
        set (SAMPLING_CHANNEL_INTER_MODULE_DST_VECTOR p @ SAMPLING_CHANNEL_SOURCE_VECTOR p) \<subseteq> dom (MAP_OF_SAMPLING_CHANNELS m))"

lemma set_deliver: "set (foldl (deliver n) q ms) \<subseteq> set q \<union> set ms"
  by (auto simp: foldl_deliver dest: in_set_takeD)

lemma queue_channel_moves:
  assumes sys: "queue_system mq net contents sent Q" and inj: "inj_on Q_MQDES Q"
    and sizes: "sizes_ok contents Q w" and ok: "queue_channel_ok Q c"
  shows "\<exists>rc c' w'. QC_MOVE_MESSAGES mq net now c w = Returned (rc, c', w') \<and>
    sizes_ok contents Q w' \<and> queue_channel_ok Q c'"
proof (cases "QC_INITIALIZED c \<and> QC_SOURCE_QUEUE c \<noteq> None \<and>
    (QC_DESTINATION_QUEUE_VECTOR c \<noteq> [] \<or> QC_sender_mySocket c)")
  case True
  let ?D = "QC_DESTINATION_QUEUE_VECTOR c"
  obtain src where src: "QC_SOURCE_QUEUE c = Some src" using True by blast
  obtain b where c: "src \<in> Q" "set ?D \<subseteq> Q" "distinct (map Q_MQDES ?D)" "Q_MQDES src \<notin> Q_MQDES ` set ?D"
    "QC_INTERNAL_BUFFER c = Some b" "Q_MAX_MESSAGE_SIZE src \<le> int (length b)"
    "\<forall>d\<in>set ?D. Q_MAX_MESSAGE_SIZE src \<le> Q_MAX_MESSAGE_SIZE d" "QC_recv_mySocket c = None"
    using ok src by (auto simp: queue_channel_ok_def)
  let ?ms = "contents (Q_MQDES src) w"
  have ms: "\<forall>m\<in>set ?ms. length m \<le> length b \<and> (\<forall>d\<in>set ?D. int (length m) \<le> Q_MAX_MESSAGE_SIZE d)"
    using sizes c by (force simp: sizes_ok_def)
  obtain rc b' w' where move:
    "move_queue mq net now src (length ?ms) (fst (QUEUE_GET_STATUS mq src w)) c w =
       Returned (rc, c\<lparr>QC_INTERNAL_BUFFER := Some b'\<rparr>, w')"
    "length b' = length b" "contents (Q_MQDES src) w' = []"
    "\<forall>d\<in>set ?D. contents (Q_MQDES d) w' = foldl (deliver (Q_MAX_NB_MESSAGE d)) (contents (Q_MQDES d) w) ?ms"
    "\<forall>other. other \<noteq> Q_MQDES src \<and> other \<notin> Q_MQDES ` set ?D \<longrightarrow> contents other w' = contents other w"
    using move_queue_moves [OF sys c(2,3,1,4,5) refl ms, of now "fst (QUEUE_GET_STATUS mq src w)"] by blast
  have num: "nat (NUMBER_OF_MESSAGES mq src w) = length ?ms"
    using mq_laws_curmsgs [OF queue_systemD(3) [OF sys c(1)]] by (simp add: NUMBER_OF_MESSAGES_def)
  have "QC_MOVE_MESSAGES mq net now c w = Returned (rc, c\<lparr>QC_INTERNAL_BUFFER := Some b'\<rparr>, w')"
    using True src c(8) num move(1) by (auto simp: QC_MOVE_MESSAGES_def)
  moreover have "int (length x) \<le> Q_MAX_MESSAGE_SIZE p"
    if p: "p \<in> Q" and x: "x \<in> set (contents (Q_MQDES p) w')" for p x
  proof (cases "Q_MQDES p \<in> Q_MQDES ` set ?D")
    case True
    then have "p \<in> set ?D" using inj p c(2) by (auto simp: inj_on_eq_iff subset_eq)
    then have "x \<in> set (contents (Q_MQDES p) w) \<union> set ?ms" and "Q_MAX_MESSAGE_SIZE src \<le> Q_MAX_MESSAGE_SIZE p"
      using move(4) x set_deliver c(7) by fastforce+
    then show ?thesis using sizes p c(1) by (force simp: sizes_ok_def)
  next
    case False
    then show ?thesis using move(3,5) x sizes p by (cases "Q_MQDES p = Q_MQDES src") (auto simp: sizes_ok_def)
  qed
  moreover have "queue_channel_ok Q (c\<lparr>QC_INTERNAL_BUFFER := Some b'\<rparr>)"
    using ok move(2) c(5,6) src by (auto simp: queue_channel_ok_def)
  ultimately show ?thesis by (auto simp: sizes_ok_def)
next
  case False
  then have "\<exists>rc. QC_MOVE_MESSAGES mq net now c w = Returned (rc, c, w)"
    using ok by (cases "QC_SOURCE_QUEUE c") (auto simp: QC_MOVE_MESSAGES_def queue_channel_ok_def)
  then show ?thesis using sizes ok by blast
qed

lemma sampling_channel_keeps:
  assumes "SC_MOVE_MESSAGES net c w = Returned (rc, c', w')" "SC_recv_mySocket c = None"
    "\<And>b u w w'. send_to net b u w = Some w' \<Longrightarrow> P w \<Longrightarrow> P w'" "P w"
  shows "SC_recv_mySocket c' = None" "P w'"
proof -
  have send: "SC_recv_mySocket c2 = SC_recv_mySocket c1 \<and> P w2" if "send_port net src c1 w = Returned (c2, w2)" for src c1 c2 w2
    using that assms(4)
    by (auto simp: send_port_def bind_outcome_Returned split: if_splits intro: send_all_preserves [OF _ assms(3)])
  show "SC_recv_mySocket c' = None" "P w'"
    using assms(1,2,4)
    by (auto simp: SC_MOVE_MESSAGES_def bind_outcome_Returned split: if_splits option.splits dest!: send)
qed

lemma sampling_channel_moves:
  assumes sys: "queue_system mq net contents sent Q" and sizes: "sizes_ok contents Q w" and ok: "sampling_channel_ok c"
  shows "\<exists>rc c' w'. SC_MOVE_MESSAGES net c w = Returned (rc, c', w') \<and>
    sizes_ok contents Q w' \<and> sampling_channel_ok c'"
proof -
  have c: "sc_inv c" "SC_recv_mySocket c = None" using ok by (simp_all add: sampling_channel_ok_def)
  have "\<exists>rc c' w'. SC_MOVE_MESSAGES net c w = Returned (rc, c', w') \<and> sc_inv c'"
  proof (cases "SC_INITIALIZED c \<and> SC_SOURCE_PORT c \<noteq> None \<and>
      (SC_DESTINATION_PORT_VECTOR c \<noteq> [] \<or> SC_sender_mySocket c)")
    case True
    then show ?thesis using MOVE_MESSAGES_delivers [OF c(1) _ c(2) _ _ queue_systemD(8) [OF sys], of _ w] by blast
  next
    case False
    then have "\<exists>rc. SC_MOVE_MESSAGES net c w = Returned (rc, c, w)"
      using c(2) by (cases "SC_SOURCE_PORT c") (auto simp: SC_MOVE_MESSAGES_def)
    then show ?thesis using c(1) by blast
  qed
  then obtain rc c' w' where move: "SC_MOVE_MESSAGES net c w = Returned (rc, c', w')" "sc_inv c'" by blast
  have "sizes_ok contents Q w2" if "send_to net b u w1 = Some w2" "sizes_ok contents Q w1" for b u w1 w2
    using that queue_systemD(9) [OF sys that(1)] by (simp add: sizes_ok_def)
  then show ?thesis
    using move sampling_channel_keeps [OF move(1) c(2), of "sizes_ok contents Q"] sizes
    by (auto simp: sampling_channel_ok_def)
qed

lemma token_sent:
  assumes sys: "queue_system mq net contents sent Q" and inj: "inj_on Q_MQDES Q"
    and sizes: "sizes_ok contents Q w" and ready: "channels_ready Q m"
  shows "\<exists>w'. send_token mq now p m w = Returned w' \<and> sizes_ok contents Q w'"
proof (cases "\<exists>q. MAP_OF_CONFIGURATION_QUEUE m (CONFIGURATION_QUEUE p) = Some (Some q)")
  case True
  let ?m = NETWORK_PARTITION_PETRI_NET_TOKEN
  obtain q where q: "MAP_OF_CONFIGURATION_QUEUE m (CONFIGURATION_QUEUE p) = Some (Some q)" "q \<in> Q"
    using True ready by (auto simp: channels_ready_def)
  have len: "length ?m = 4" by (simp add: NETWORK_PARTITION_PETRI_NET_TOKEN_def)
  have "\<exists>rc w'. QUEUE_SEND_MESSAGE mq now ?m 4 0 q w = Returned (rc, w') \<and> sizes_ok contents Q w'"
  proof (cases "4 \<le> Q_MAX_MESSAGE_SIZE q")
    case True
    then obtain rc w' where w': "QUEUE_SEND_MESSAGE mq now ?m 4 0 q w = Returned (rc, w')"
      "contents (Q_MQDES q) w' = deliver (Q_MAX_NB_MESSAGE q) (contents (Q_MQDES q) w) ?m"
      "\<forall>other. other \<noteq> Q_MQDES q \<longrightarrow> contents other w' = contents other w"
      using send_to_queue_step [OF sys q(2), of ?m ?m now w] len by auto
    have "int (length x) \<le> Q_MAX_MESSAGE_SIZE r" if "r \<in> Q" "x \<in> set (contents (Q_MQDES r) w')" for r x
    proof (cases "Q_MQDES r = Q_MQDES q")
      case True
      then have "r = q" using inj q(2) that(1) by (simp add: inj_on_eq_iff)
      then show ?thesis using that w'(2) sizes \<open>4 \<le> Q_MAX_MESSAGE_SIZE q\<close> len
        by (auto simp: deliver_def sizes_ok_def split: if_splits)
    qed (use that w'(3) sizes in \<open>simp add: sizes_ok_def\<close>)
    then show ?thesis using w'(1) by (auto simp: sizes_ok_def)
  next
    case False
    have "(0::int) \<le> MAX_TIME_OUT" using MAX_TIME_OUT_pos by simp
    then have "\<exists>rc. QUEUE_SEND_MESSAGE mq now ?m 4 0 q w = Returned (rc, w)"
      using False by (auto simp: QUEUE_SEND_MESSAGE_def send_to_queue_def)
    then show ?thesis using sizes by blast
  qed
  then show ?thesis using q(1) by (auto simp: send_token_def)
next
  case False
  then have "send_token mq now p m w = Returned w" by (auto simp: send_token_def split: option.splits)
  then show ?thesis using sizes by blast
qed

section \<open>A window, a hyperperiod, a run\<close>

lemma channels_ready_update:
  assumes "channels_ready Q m"
  shows "queue_channel_ok Q c \<Longrightarrow>
      channels_ready Q (m\<lparr>MAP_OF_QUEUEING_CHANNELS := (MAP_OF_QUEUEING_CHANNELS m)(name \<mapsto> c)\<rparr>)"
    "sampling_channel_ok c' \<Longrightarrow>
      channels_ready Q (m\<lparr>MAP_OF_SAMPLING_CHANNELS := (MAP_OF_SAMPLING_CHANNELS m)(name \<mapsto> c')\<rparr>)"
proof -
  have ran: "ran (f(name \<mapsto> y)) \<subseteq> insert y (ran f)" for f and y :: 'x
    by (auto simp: ran_def)
  note A = assms [unfolded channels_ready_def]
  show "channels_ready Q (m\<lparr>MAP_OF_QUEUEING_CHANNELS := (MAP_OF_QUEUEING_CHANNELS m)(name \<mapsto> c)\<rparr>)"
    if c: "queue_channel_ok Q c"
  proof -
    have "\<forall>x\<in>ran ((MAP_OF_QUEUEING_CHANNELS m)(name \<mapsto> c)). queue_channel_ok Q x"
      using A c ran [of "MAP_OF_QUEUEING_CHANNELS m" c] by blast
    then show ?thesis using A unfolding channels_ready_def by (simp add: subset_insertI2)
  qed
  show "channels_ready Q (m\<lparr>MAP_OF_SAMPLING_CHANNELS := (MAP_OF_SAMPLING_CHANNELS m)(name \<mapsto> c')\<rparr>)"
    if c': "sampling_channel_ok c'"
  proof -
    have "\<forall>x\<in>ran ((MAP_OF_SAMPLING_CHANNELS m)(name \<mapsto> c')). sampling_channel_ok x"
      using A c' ran [of "MAP_OF_SAMPLING_CHANNELS m" c'] by blast
    then show ?thesis using A unfolding channels_ready_def by (simp add: subset_insertI2)
  qed
qed

lemma queue_moves:
  assumes sys: "queue_system mq net contents sent Q" and inj: "inj_on Q_MQDES Q"
    and "sizes_ok contents Q w" "channels_ready Q m" "set names \<subseteq> dom (MAP_OF_QUEUEING_CHANNELS m)"
  shows "\<exists>m' w'. move_queues mq net now names m w = Returned (m', w') \<and> sizes_ok contents Q w' \<and> channels_ready Q m'"
  using assms(3-)
proof (induction names arbitrary: m w)
  case (Cons name names)
  obtain c where c: "MAP_OF_QUEUEING_CHANNELS m name = Some c" using Cons.prems(3) by auto
  then have "queue_channel_ok Q c" using Cons.prems(2) by (auto simp: channels_ready_def intro: ranI)
  then obtain rc c' w1 where move: "QC_MOVE_MESSAGES mq net (now (length names)) c w = Returned (rc, c', w1)"
    "sizes_ok contents Q w1" "queue_channel_ok Q c'"
    using queue_channel_moves [OF sys inj Cons.prems(1)] by blast
  let ?m = "m\<lparr>MAP_OF_QUEUEING_CHANNELS := (MAP_OF_QUEUEING_CHANNELS m)(name \<mapsto> c')\<rparr>"
  have "\<exists>m' w'. move_queues mq net now names ?m w1 = Returned (m', w') \<and> sizes_ok contents Q w' \<and> channels_ready Q m'"
    by (rule Cons.IH [OF move(2) channels_ready_update(1) [OF Cons.prems(2) move(3)]]) (use Cons.prems(3) in auto)
  then show ?case using move(1) c by simp
qed auto

lemma sampling_moves:
  assumes sys: "queue_system mq net contents sent Q"
    and "sizes_ok contents Q w" "channels_ready Q m" "set names \<subseteq> dom (MAP_OF_SAMPLING_CHANNELS m)"
  shows "\<exists>m' w'. move_samples net names m w = Returned (m', w') \<and> sizes_ok contents Q w' \<and> channels_ready Q m'"
  using assms(2-)
proof (induction names arbitrary: m w)
  case (Cons name names)
  obtain c where c: "MAP_OF_SAMPLING_CHANNELS m name = Some c" using Cons.prems(3) by auto
  then have "sampling_channel_ok c" using Cons.prems(2) by (auto simp: channels_ready_def intro: ranI)
  then obtain rc c' w1 where move: "SC_MOVE_MESSAGES net c w = Returned (rc, c', w1)"
    "sizes_ok contents Q w1" "sampling_channel_ok c'"
    using sampling_channel_moves [OF sys Cons.prems(1)] by blast
  let ?m = "m\<lparr>MAP_OF_SAMPLING_CHANNELS := (MAP_OF_SAMPLING_CHANNELS m)(name \<mapsto> c')\<rparr>"
  have "\<exists>m' w'. move_samples net names ?m w1 = Returned (m', w') \<and> sizes_ok contents Q w' \<and> channels_ready Q m'"
    by (rule Cons.IH [OF move(2) channels_ready_update(2) [OF Cons.prems(2) move(3)]]) (use Cons.prems(3) in auto)
  then show ?case using move(1) c by simp
qed auto

lemma all_moves:
  assumes sys: "queue_system mq net contents sent Q" and inj: "inj_on Q_MQDES Q"
    and "sizes_ok contents Q w" "channels_ready Q m" "set qs \<subseteq> dom (MAP_OF_QUEUEING_CHANNELS m)"
    "set ss \<subseteq> dom (MAP_OF_SAMPLING_CHANNELS m)"
  shows "\<exists>m' w'. bind_outcome (move_queues mq net now qs m w) (\<lambda>(m1, w1). move_samples net ss m1 w1) = Returned (m', w') \<and>
    sizes_ok contents Q w' \<and> channels_ready Q m'"
proof -
  obtain m1 w1 where move: "move_queues mq net now qs m w = Returned (m1, w1)" "sizes_ok contents Q w1" "channels_ready Q m1"
    using queue_moves [OF sys inj assms(3-5)] by blast
  have "MAP_OF_SAMPLING_CHANNELS m1 = MAP_OF_SAMPLING_CHANNELS m"
    using move(1) by (induction mq net now qs m w rule: move_queues.induct)
      (auto simp: bind_outcome_Returned split: option.splits)
  then show ?thesis using sampling_moves [OF sys move(2,3)] assms(6) move(1) by simp
qed

lemma same_config_all_moves:
  assumes "bind_outcome (move_queues mq net now qs m w) (\<lambda>(m1, w1). move_samples net ss m1 w1) = Returned (m', w')"
  shows "same_config m m'"
proof -
  obtain m1 w1 where "move_queues mq net now qs m w = Returned (m1, w1)" "move_samples net ss m1 w1 = Returned (m', w')"
    using assms by (auto simp: bind_outcome_Returned)
  then show ?thesis by (rule same_config_trans [OF same_config_moves(1) same_config_moves(2)])
qed

lemma ready_partition:
  assumes "channels_ready Q m" "i < length (PARTITION_VECTOR m)" "\<not> isNetworkPartition (PARTITION_VECTOR m ! i)"
  shows "set (QUEUE_CHANNEL_INTER_MODULE_DST_VECTOR (PARTITION_VECTOR m ! i)) \<subseteq> dom (MAP_OF_QUEUEING_CHANNELS m)"
    "set (SAMPLING_CHANNEL_INTER_MODULE_DST_VECTOR (PARTITION_VECTOR m ! i)) \<subseteq> dom (MAP_OF_SAMPLING_CHANNELS m)"
    "set (QUEUE_CHANNEL_SOURCE_VECTOR (PARTITION_VECTOR m ! i)) \<subseteq> dom (MAP_OF_QUEUEING_CHANNELS m)"
    "set (SAMPLING_CHANNEL_SOURCE_VECTOR (PARTITION_VECTOR m ! i)) \<subseteq> dom (MAP_OF_SAMPLING_CHANNELS m)"
  using assms nth_mem [OF assms(2)] by (auto simp: channels_ready_def)

lemma window_returns:
  assumes sys: "queue_system mq net contents sent Q" and inj: "inj_on Q_MQDES Q"
    and "sizes_ok contents Q w" "channels_ready Q m" "i < length (PARTITION_VECTOR m)"
    and sleep: "normalised t" "Slept \<in> set (end_sleep e)"
  shows "\<exists>m' w' tr'. RUN_PARTITION mq net e i t (m, w, tr) = Returned (m', w', tr') \<and>
    sizes_ok contents Q w' \<and> channels_ready Q m'"
proof (cases "isNetworkPartition (PARTITION_VECTOR m ! i)")
  case True
  then show ?thesis
    using token_sent [OF sys inj assms(3,4), of "token_clock e" "PARTITION_VECTOR m ! i"] assms(4,5) sleep
    by (auto simp: RUN_PARTITION_def Let_def nanosleep_loop_cases)
next
  case False
  let ?p = "PARTITION_VECTOR m ! i"
  note P = ready_partition [OF assms(4,5) False]
  obtain m1 w1 where one: "bind_outcome (move_queues mq net (before_clock e) (QUEUE_CHANNEL_INTER_MODULE_DST_VECTOR ?p) m w)
      (\<lambda>(m1, w1). move_samples net (SAMPLING_CHANNEL_INTER_MODULE_DST_VECTOR ?p) m1 w1) = Returned (m1, w1)"
    "sizes_ok contents Q w1" "channels_ready Q m1"
    using all_moves [OF sys inj assms(3,4) P(1,2)] by blast
  have "same_config m m1" using one(1) by (rule same_config_all_moves)
  then have pv: "PARTITION_VECTOR m1 = PARTITION_VECTOR m" by (rule same_config_fields)
  note P1 = ready_partition [OF one(3), of i, unfolded pv, OF assms(5) False]
  obtain m2 w2 where two: "bind_outcome (move_queues mq net (after_clock e) (QUEUE_CHANNEL_SOURCE_VECTOR ?p) m1 w1)
      (\<lambda>(m2, w2). move_samples net (SAMPLING_CHANNEL_SOURCE_VECTOR ?p) m2 w2) = Returned (m2, w2)"
    "sizes_ok contents Q w2" "channels_ready Q m2"
    using all_moves [OF sys inj one(2,3) P1(3,4)] by blast
  have "RUN_PARTITION mq net e i t (m, w, tr) = Returned (m2, w2, tr @ map Moved
      (QUEUE_CHANNEL_INTER_MODULE_DST_VECTOR ?p @ SAMPLING_CHANNEL_INTER_MODULE_DST_VECTOR ?p) @
      [Cont (PID ?p), Until t, Stop (PID ?p)] @ map Moved (QUEUE_CHANNEL_SOURCE_VECTOR ?p @ SAMPLING_CHANNEL_SOURCE_VECTOR ?p))"
    using False assms(5) sleep one(1) two(1) by (simp add: RUN_PARTITION_def Let_def nanosleep_loop_cases)
  then show ?thesis using two(2,3) by blast
qed

lemma windows_return:
  assumes sys: "queue_system mq net contents sent Q" and inj: "inj_on Q_MQDES Q"
    and "sizes_ok contents Q w" "channels_ready Q m"
    and "\<forall>x\<in>set xs. PARTITION_INDEX x < length (PARTITION_VECTOR m) \<and> 0 \<le> OFFSET x \<and> 0 \<le> DURATION x \<and>
           OFFSET x + DURATION x \<le> MAX_TIME_OUT"
    and sleeps: "\<forall>k. Slept \<in> set (offset_sleep (env k)) \<and> Slept \<in> set (end_sleep (env k))"
  shows "\<exists>m' w' tr'. run_windows mq net env (timespec_at t) xs (m, w, tr) = Returned (m', w', tr') \<and>
    sizes_ok contents Q w' \<and> channels_ready Q m'"
  using assms(3-5)
proof (induction xs arbitrary: m w tr)
  case (Cons x xs)
  let ?t1 = "timespec_at (t + OFFSET x)" and ?t2 = "timespec_at (t + (OFFSET x + DURATION x))"
  have x: "PARTITION_INDEX x < length (PARTITION_VECTOR m)" "0 \<le> OFFSET x" "0 \<le> DURATION x"
    "OFFSET x + DURATION x \<le> MAX_TIME_OUT" using Cons.prems(3) by auto
  have add: "addTimeNano (timespec_at t) (OFFSET x) = Some ?t1" "addTimeNano (timespec_at t) (OFFSET x + DURATION x) = Some ?t2"
    using x by (auto intro!: addTimeNano_at)
  obtain m1 w1 tr1 where part: "RUN_PARTITION mq net (env (length xs)) (PARTITION_INDEX x) ?t2 (m, w, tr @ [Until ?t1]) =
      Returned (m1, w1, tr1)" "sizes_ok contents Q w1" "channels_ready Q m1"
    using window_returns [OF sys inj Cons.prems(1,2) x(1) timespec_at_normalised] sleeps by blast
  have "PARTITION_VECTOR m1 = PARTITION_VECTOR m"
    by (rule same_config_fields(1) [OF RUN_PARTITION_events(2) [OF part(1)]])
  then obtain m' w' tr' where "run_windows mq net env (timespec_at t) xs (m1, w1, tr1) = Returned (m', w', tr')"
    "sizes_ok contents Q w'" "channels_ready Q m'"
    using Cons.IH [OF part(2,3), of tr1] Cons.prems(3) by auto
  then show ?case using add part(1) sleeps by (simp add: nanosleep_loop_cases)
qed simp

definition frame_wakes :: "frame_env \<Rightarrow> bool" where
  "frame_wakes e \<longleftrightarrow> Slept \<in> set (frame_sleep e) \<and>
     (\<forall>k. Slept \<in> set (offset_sleep (window_envs e k)) \<and> Slept \<in> set (end_sleep (window_envs e k)))"

definition runnable :: "MODULE_MANAGER \<Rightarrow> bool" where
  "runnable m \<longleftrightarrow> isMAX_NUMBER_OF_FRAMES_SET m \<and>
     good_schedule (MAJOR_FRAME_SIZE m) (SCHEDULING_VECTOR m) \<and> MAJOR_FRAME_SIZE m \<le> MAX_TIME_OUT \<and>
     (\<forall>x\<in>set (SCHEDULING_VECTOR m). PARTITION_INDEX x < length (PARTITION_VECTOR m))"

lemma runnable_same: "same_config m m' \<Longrightarrow> runnable m' = runnable m"
  using same_config_fields [of m m'] by (simp add: runnable_def)

lemma windows_inside:
  assumes "windows_apart xs" "\<forall>x\<in>set xs. 0 \<le> OFFSET x \<and> 0 \<le> DURATION x" "x \<in> set xs"
  shows "OFFSET x + DURATION x \<le> OFFSET (last xs) + DURATION (last xs)"
proof -
  have "0 + (OFFSET x + DURATION x) \<in> set (concat (map (\<lambda>x. [0 + OFFSET x, 0 + (OFFSET x + DURATION x)]) xs))"
    using assms(3) by force
  moreover have "xs \<noteq> []" using assms(3) by auto
  ultimately show ?thesis using windows_in_order [OF assms(1), of 0] assms(2) by force
qed

lemma runnable_windows:
  assumes "runnable m" "x \<in> set (SCHEDULING_VECTOR m)"
  shows "PARTITION_INDEX x < length (PARTITION_VECTOR m) \<and> 0 \<le> OFFSET x \<and> 0 \<le> DURATION x \<and>
           OFFSET x + DURATION x \<le> MAX_TIME_OUT"
proof -
  have s: "windows_apart (SCHEDULING_VECTOR m)" "\<forall>x\<in>set (SCHEDULING_VECTOR m). 0 \<le> OFFSET x \<and> 0 \<le> DURATION x"
    "OFFSET (last (SCHEDULING_VECTOR m)) + DURATION (last (SCHEDULING_VECTOR m)) \<le> MAJOR_FRAME_SIZE m"
    "MAJOR_FRAME_SIZE m \<le> MAX_TIME_OUT"
    using assms(1) by (auto simp: runnable_def good_schedule_def check_schedule_def split: if_splits)
  then show ?thesis using windows_inside [OF s(1,2) assms(2)] assms by (auto simp: runnable_def)
qed

lemma frames_return:
  assumes sys: "queue_system mq net contents sent Q" and inj: "inj_on Q_MQDES Q"
    and "sizes_ok contents Q w" "channels_ready Q m" "runnable m"
    and "nat (MAX_NUMBER_OF_FRAMES m - k) \<le> length es" "\<forall>e\<in>set es. frame_wakes e"
  shows "\<exists>m' w' tr'. run_frames mq net es k (timespec_at t) (m, w, tr) = Returned (m', w', tr')"
  using assms(3-)
proof (induction es arbitrary: m w k t tr)
  case Nil
  then have "\<not> more_frames m k" by (simp add: more_frames_def runnable_def)
  then show ?case by (simp add: run_frames_stop)
next
  case (Cons e es)
  show ?case
  proof (cases "more_frames m k")
    case True
    have e: "Slept \<in> set (frame_sleep e)"
      "\<forall>k. Slept \<in> set (offset_sleep (window_envs e k)) \<and> Slept \<in> set (end_sleep (window_envs e k))"
      using Cons.prems(5) by (simp_all add: frame_wakes_def)
    obtain m1 w1 tr1 where win: "run_windows mq net (window_envs e) (timespec_at t) (SCHEDULING_VECTOR m) (m, w, tr) =
        Returned (m1, w1, tr1)" "sizes_ok contents Q w1" "channels_ready Q m1"
      using windows_return [OF sys inj Cons.prems(1,2) _ e(2)] runnable_windows [OF Cons.prems(3)] by blast
    have good: "good_schedule (MAJOR_FRAME_SIZE m) (SCHEDULING_VECTOR m)" "MAJOR_FRAME_SIZE m \<le> MAX_TIME_OUT"
      "isMAX_NUMBER_OF_FRAMES_SET m" using Cons.prems(3) by (simp_all add: runnable_def)
    have same: "same_config m m1"
      using run_windows_events [OF win(1)] good(1) by (simp add: good_schedule_def)
    note f = same_config_fields [OF same]
    let ?t = "timespec_at (t + MAJOR_FRAME_SIZE m)"
    have add: "addTimeNano (timespec_at t) (MAJOR_FRAME_SIZE m1) = Some ?t"
      using good good_schedule_frame(1) [OF good(1)] f(3) by (simp add: addTimeNano_at)
    have left: "nat (MAX_NUMBER_OF_FRAMES m1 - (k + 1)) \<le> length es" using Cons.prems(4) f(5) by simp
    have "\<exists>m' w' tr'. run_frames mq net es (k + 1) ?t (m1, w1, tr1 @ [Until ?t]) = Returned (m', w', tr')"
      by (rule Cons.IH [OF win(2,3) _ left]) (use Cons.prems(3,5) runnable_same [OF same] in auto)
    then show ?thesis using True win(1) add e(1) good(3)
      by (subst run_frames.simps) (simp add: nanosleep_loop_cases)
  qed (simp add: run_frames_stop)
qed

lemma run_returns:
  assumes "queue_system mq net contents sent Q" "inj_on Q_MQDES Q" "sizes_ok contents Q w" "channels_ready Q m"
    "runnable m" "nat (MAX_NUMBER_OF_FRAMES m) \<le> length es" "\<forall>e\<in>set es. frame_wakes e"
  shows "\<exists>m' w'. RUN_WITHOUT_SYSTEM_MANAGER mq net es (timespec_at t) m w =
    Returned (m', w', run_events m t (nat (MAX_NUMBER_OF_FRAMES m)) @ DOSHUTDOWN m)"
proof -
  obtain m1 w1 tr1 where "run_frames mq net es 0 (timespec_at t) (m, w, []) = Returned (m1, w1, tr1)"
    using frames_return [OF assms(1-5), of 0 es t "[]"] assms(6,7) by auto
  then have run: "RUN_WITHOUT_SYSTEM_MANAGER mq net es (timespec_at t) m w =
      Returned (m1\<lparr>PARTITION_VECTOR := []\<rparr>, w1, tr1 @ DOSHUTDOWN m1)"
    by (simp add: RUN_WITHOUT_SYSTEM_MANAGER_def)
  have good: "good_schedule (MAJOR_FRAME_SIZE m) (SCHEDULING_VECTOR m)" "isMAX_NUMBER_OF_FRAMES_SET m"
    using assms(5) by (simp_all add: runnable_def)
  then have "tr1 @ DOSHUTDOWN m1 = run_events m t (nat (MAX_NUMBER_OF_FRAMES m)) @ DOSHUTDOWN m"
    using run_events_of_run [OF run] good_schedule_frame(1) [OF good(1)] by (simp add: good_schedule_def)
  then show ?thesis using run by simp
qed

end
