(* ===== verification/PortServices.thy ===== *)
theory PortServices
  imports BufferServices
begin

text \<open>
  The services on the ports of a partition: src/APEX\_SAMPLING\_SERVICES.cc and
  src/APEX\_QUEUING\_SERVICES.cc.  They find the port by its identifier, converted to 32 bits for
  the comparison as in the buffer services, and call the operation of the port (theories
  SamplingPort and QueuePort).  A service that has the name of the operation carries the suffix
  \<open>_service\<close>.  The state \<open>'w\<close> of the message queues of the operating system is a second state.
\<close>

fun port_direction :: "PORT_DIRECTION_TYPE \<Rightarrow> DIRECTION_TYPE" where
  "port_direction SOURCE = PORT_SOURCE"
| "port_direction DESTINATION = PORT_DEST"

section \<open>Sampling ports\<close>

definition CREATE_SAMPLING_PORT ::
  "NAME_TYPE \<Rightarrow> int \<Rightarrow> PORT_DIRECTION_TYPE \<Rightarrow> SYSTEM_TIME_TYPE \<Rightarrow> shm_answers \<Rightarrow> SAMPLING_DATA \<Rightarrow> APEX \<Rightarrow>
   (nat reply \<times> APEX) outcome" where
  "CREATE_SAMPLING_PORT name MAX_SIZE direction REFRESH shm unmapped a =
     (if CURRENT_OPERATING_MODE a = NORMAL then ret INVALID_MODE a
      else if length (SAMPLING_PORT_VECTOR a) \<ge> SYSTEM_LIMIT_NUMBER_OF_SAMPLING_PORTS then ret INVALID_CONFIG a
      else if MAX_SIZE = 0 \<or> MAX_SIZE > SYSTEM_LIMIT_MAX_SAMPLING_MESSAGE_SIZE then ret INVALID_CONFIG a
      else if REFRESH = 0 \<or> REFRESH > MAX_TIME_OUT then ret INVALID_CONFIG a
      else if \<exists>p\<in>set (SAMPLING_PORT_VECTOR a). S_NAME p = name then ret NO_ACTION a
      else let (rc, p) = SAMPLING_PORT_new name MAX_SIZE (port_direction direction) REFRESH shm unmapped in
        ret_out rc (length (SAMPLING_PORT_VECTOR a))
          (if rc = NO_ERROR then a\<lparr>SAMPLING_PORT_VECTOR := SAMPLING_PORT_VECTOR a @ [p]\<rparr> else a))"

definition WRITE_SAMPLING_MESSAGE_service ::
  "int \<Rightarrow> nat \<Rightarrow> byte list \<Rightarrow> int \<Rightarrow> APEX \<Rightarrow> ('o reply \<times> APEX) outcome" where
  "WRITE_SAMPLING_MESSAGE_service now pid msg len a =
     (if unsigned_int pid \<ge> length (SAMPLING_PORT_VECTOR a) then ret INVALID_PARAM a
      else if pid \<ge> length (SAMPLING_PORT_VECTOR a) then Undef
      else bind_outcome (WRITE_SAMPLING_MESSAGE now msg len (SAMPLING_PORT_VECTOR a ! pid))
        (\<lambda>(rc, p). ret rc (a\<lparr>SAMPLING_PORT_VECTOR := (SAMPLING_PORT_VECTOR a)[pid := p]\<rparr>)))"

definition READ_SAMPLING_MESSAGE_service :: "int \<Rightarrow> nat \<Rightarrow> APEX \<Rightarrow> (sampling_reply reply \<times> APEX) outcome" where
  "READ_SAMPLING_MESSAGE_service now pid a =
     (if unsigned_int pid \<ge> length (SAMPLING_PORT_VECTOR a) then ret INVALID_PARAM a
      else if pid \<ge> length (SAMPLING_PORT_VECTOR a) then Undef
      else bind_outcome (READ_SAMPLING_MESSAGE now (SAMPLING_PORT_VECTOR a ! pid))
        (\<lambda>(rc, r, p). ret_out rc r (a\<lparr>SAMPLING_PORT_VECTOR := (SAMPLING_PORT_VECTOR a)[pid := p]\<rparr>)))"

definition GET_SAMPLING_PORT_ID :: "NAME_TYPE \<Rightarrow> APEX \<Rightarrow> (nat reply \<times> APEX) outcome" where
  "GET_SAMPLING_PORT_ID name a =
     (case find_index (\<lambda>p. S_NAME p = name) (SAMPLING_PORT_VECTOR a) of
        Some i \<Rightarrow> ret_out NO_ERROR i a
      | None \<Rightarrow> ret INVALID_CONFIG a)"

definition GET_SAMPLING_PORT_STATUS :: "nat \<Rightarrow> APEX \<Rightarrow> (SAMPLING_PORT_STATUS_TYPE reply \<times> APEX) outcome" where
  "GET_SAMPLING_PORT_STATUS pid a =
     (if unsigned_int pid \<ge> length (SAMPLING_PORT_VECTOR a) then ret INVALID_PARAM a
      else if pid \<ge> length (SAMPLING_PORT_VECTOR a) then Undef
      else Returned (SAMPLING_GET_STATUS (SAMPLING_PORT_VECTOR a ! pid), a))"

definition WRITE_CONTENTS_service :: "nat \<Rightarrow> byte list \<Rightarrow> int \<Rightarrow> APEX \<Rightarrow> ('o reply \<times> APEX) outcome" where
  "WRITE_CONTENTS_service pid msg len a =
     (if unsigned_int pid \<ge> length (SAMPLING_PORT_VECTOR a) then ret INVALID_PARAM a
      else if pid \<ge> length (SAMPLING_PORT_VECTOR a) then Undef
      else bind_outcome (WRITE_CONTENTS_FROM_DATA_BUFFER msg len (SAMPLING_PORT_VECTOR a ! pid))
        (\<lambda>(rc, p). ret rc (a\<lparr>SAMPLING_PORT_VECTOR := (SAMPLING_PORT_VECTOR a)[pid := p]\<rparr>)))"

definition READ_CONTENTS_service :: "nat \<Rightarrow> int \<Rightarrow> APEX \<Rightarrow> (byte list reply \<times> APEX) outcome" where
  "READ_CONTENTS_service pid MAX_LEN a =
     (if unsigned_int pid \<ge> length (SAMPLING_PORT_VECTOR a) then ret INVALID_PARAM a
      else if pid \<ge> length (SAMPLING_PORT_VECTOR a) then Undef
      else bind_outcome (READ_CONTENTS_TO_DATA_BUFFER MAX_LEN (SAMPLING_PORT_VECTOR a ! pid))
        (\<lambda>(rc, bytes). ret_out rc bytes a))"

section \<open>Queuing ports\<close>

text \<open>Both disciplines are accepted, and neither changes anything.\<close>

definition CREATE_QUEUING_PORT ::
  "'w mq_calls \<Rightarrow> NAME_TYPE \<Rightarrow> int \<Rightarrow> int \<Rightarrow> PORT_DIRECTION_TYPE \<Rightarrow> QUEUING_DISCIPLINE_TYPE \<Rightarrow> APEX \<Rightarrow> 'w \<Rightarrow>
   (nat reply \<times> APEX) outcome \<times> 'w" where
  "CREATE_QUEUING_PORT mq name MAX_SIZE MAX_NB direction discipline a w =
     (if CURRENT_OPERATING_MODE a = NORMAL then (ret INVALID_MODE a, w)
      else if length (QUEUING_PORT_VECTOR a) \<ge> SYSTEM_LIMIT_NUMBER_OF_QUEUING_PORTS then (ret INVALID_CONFIG a, w)
      else if MAX_SIZE \<le> 0 then (ret INVALID_CONFIG a, w)
      else if MAX_NB \<le> 0 \<or> MAX_NB > int SYSTEM_LIMIT_NUMBER_OF_MESSAGES then (ret INVALID_CONFIG a, w)
      else if \<exists>p\<in>set (QUEUING_PORT_VECTOR a). Q_NAME p = name then (ret NO_ACTION a, w)
      else let (rc, p, w') = QUEUE_PORT_new mq name MAX_SIZE MAX_NB (port_direction direction) w in
        (ret_out rc (length (QUEUING_PORT_VECTOR a))
          (if rc = NO_ERROR then a\<lparr>QUEUING_PORT_VECTOR := QUEUING_PORT_VECTOR a @ [p]\<rparr> else a), w'))"

definition SEND_QUEUING_MESSAGE ::
  "'w mq_calls \<Rightarrow> SYSTEM_TIMESPEC \<Rightarrow> nat \<Rightarrow> byte list \<Rightarrow> int \<Rightarrow> SYSTEM_TIME_TYPE \<Rightarrow> APEX \<Rightarrow> 'w \<Rightarrow>
   (RETURN_CODE_TYPE \<times> 'w) outcome" where
  "SEND_QUEUING_MESSAGE mq now pid msg len TIME_OUT a w =
     (if unsigned_int pid \<ge> length (QUEUING_PORT_VECTOR a) then Returned (INVALID_PARAM, w)
      else if pid \<ge> length (QUEUING_PORT_VECTOR a) then Undef
      else QUEUE_SEND_MESSAGE mq now msg len TIME_OUT (QUEUING_PORT_VECTOR a ! pid) w)"

definition MESSAGE_QUEUE_SEND_MESSAGE_FROM_BUFFER ::
  "'w mq_calls \<Rightarrow> SYSTEM_TIMESPEC \<Rightarrow> nat \<Rightarrow> byte list \<Rightarrow> int \<Rightarrow> SYSTEM_TIME_TYPE \<Rightarrow> APEX \<Rightarrow> 'w \<Rightarrow>
   (RETURN_CODE_TYPE \<times> 'w) outcome" where
  "MESSAGE_QUEUE_SEND_MESSAGE_FROM_BUFFER mq now pid msg len TIME_OUT a w =
     (if unsigned_int pid \<ge> length (QUEUING_PORT_VECTOR a) then Returned (INVALID_PARAM, w)
      else if pid \<ge> length (QUEUING_PORT_VECTOR a) then Undef
      else SEND_MESSAGE_FROM_SOCKET mq now msg len TIME_OUT (QUEUING_PORT_VECTOR a ! pid) w)"

definition RECEIVE_QUEUING_MESSAGE ::
  "'w mq_calls \<Rightarrow> SYSTEM_TIMESPEC \<Rightarrow> nat \<Rightarrow> SYSTEM_TIME_TYPE \<Rightarrow> APEX \<Rightarrow> 'w \<Rightarrow>
   (RETURN_CODE_TYPE \<times> byte list option \<times> 'w) outcome" where
  "RECEIVE_QUEUING_MESSAGE mq now pid TIME_OUT a w =
     (if unsigned_int pid \<ge> length (QUEUING_PORT_VECTOR a) then Returned (INVALID_PARAM, None, w)
      else if pid \<ge> length (QUEUING_PORT_VECTOR a) then Undef
      else QUEUE_RECEIVE_MESSAGE mq now TIME_OUT (QUEUING_PORT_VECTOR a ! pid) w)"

definition GET_QUEUING_PORT_ID :: "NAME_TYPE \<Rightarrow> APEX \<Rightarrow> (nat reply \<times> APEX) outcome" where
  "GET_QUEUING_PORT_ID name a =
     (case find_index (\<lambda>p. Q_NAME p = name) (QUEUING_PORT_VECTOR a) of
        Some i \<Rightarrow> ret_out NO_ERROR i a
      | None \<Rightarrow> ret INVALID_CONFIG a)"

definition GET_QUEUING_PORT_STATUS ::
  "'w mq_calls \<Rightarrow> nat \<Rightarrow> APEX \<Rightarrow> 'w \<Rightarrow> (QUEUING_PORT_STATUS_TYPE reply \<times> APEX) outcome" where
  "GET_QUEUING_PORT_STATUS mq pid a w =
     (if unsigned_int pid \<ge> length (QUEUING_PORT_VECTOR a) then ret INVALID_PARAM a
      else if pid \<ge> length (QUEUING_PORT_VECTOR a) then Undef
      else Returned (QUEUE_GET_STATUS mq (QUEUING_PORT_VECTOR a ! pid) w, a))"

section \<open>The invariant of the ports\<close>

definition ports_inv :: "APEX \<Rightarrow> bool" where
  "ports_inv a \<longleftrightarrow>
     length (SAMPLING_PORT_VECTOR a) \<le> SYSTEM_LIMIT_NUMBER_OF_SAMPLING_PORTS \<and>
     (\<forall>p\<in>set (SAMPLING_PORT_VECTOR a). sampling_inv p \<and> S_READY_OR_NOT p) \<and>
     distinct (map S_NAME (SAMPLING_PORT_VECTOR a)) \<and>
     length (QUEUING_PORT_VECTOR a) \<le> SYSTEM_LIMIT_NUMBER_OF_QUEUING_PORTS \<and>
     (\<forall>p\<in>set (QUEUING_PORT_VECTOR a). Q_READY_OR_NOT p \<and> 0 < Q_MAX_MESSAGE_SIZE p \<and> 0 < Q_MAX_NB_MESSAGE p) \<and>
     distinct (map Q_NAME (QUEUING_PORT_VECTOR a))"

lemma ports_inv_new: "ports_inv APEX_new"
  by (simp add: ports_inv_def APEX_new_def)

lemma ports_inv_sampling_update:
  assumes "ports_inv a" "pid < length (SAMPLING_PORT_VECTOR a)" "sampling_inv p" "S_READY_OR_NOT p"
    "S_NAME p = S_NAME (SAMPLING_PORT_VECTOR a ! pid)"
  shows "ports_inv (a\<lparr>SAMPLING_PORT_VECTOR := (SAMPLING_PORT_VECTOR a)[pid := p]\<rparr>)"
  using assms
  by (auto simp: ports_inv_def map_update list_update_same_conv dest!: set_update_subset_insert [THEN subsetD])
    (metis assms(2) length_map list_update_id map_update nth_map)

text \<open>The memory a new port is mapped to has room for the messages, and the sizes found in it, for a
  port that does not start empty, are sizes of messages.\<close>

lemma ports_inv_create:
  assumes "CREATE_SAMPLING_PORT name MAX_SIZE direction REFRESH shm unmapped a = Returned (r, a')" "ports_inv a"
    "\<And>mem. shm_mapped shm = Some mem \<Longrightarrow>
       int (length (data mem)) = MAX_SIZE \<and> 0 \<le> MESSAGE_SIZE mem \<and> MESSAGE_SIZE mem \<le> MAX_SIZE"
  shows "ports_inv a'"
  using assms
  by (auto simp: CREATE_SAMPLING_PORT_def SAMPLING_PORT_new_def Let_def ports_inv_def sampling_inv_def
    split: if_splits option.splits)

lemma ports_inv_write:
  assumes "WRITE_SAMPLING_MESSAGE_service now pid m len a = Returned (r, a')" "ports_inv a"
  shows "ports_inv a'"
proof (cases "length (SAMPLING_PORT_VECTOR a) \<le> unsigned_int pid")
  case False
  then obtain rc p where pid: "pid < length (SAMPLING_PORT_VECTOR a)"
    and w: "WRITE_SAMPLING_MESSAGE now m len (SAMPLING_PORT_VECTOR a ! pid) = Returned (rc, p)"
    and a': "a' = a\<lparr>SAMPLING_PORT_VECTOR := (SAMPLING_PORT_VECTOR a)[pid := p]\<rparr>"
    using assms(1) by (auto simp: WRITE_SAMPLING_MESSAGE_service_def bind_outcome_Returned split: if_splits)
  have "sampling_inv (SAMPLING_PORT_VECTOR a ! pid)" "S_READY_OR_NOT (SAMPLING_PORT_VECTOR a ! pid)"
    using assms(2) pid by (auto simp: ports_inv_def)
  then show ?thesis
    using sampling_inv_write [OF w] w unfolding a'
    by (intro ports_inv_sampling_update [OF assms(2) pid])
      (auto simp: WRITE_SAMPLING_MESSAGE_def bind_outcome_Returned split: if_splits)
qed (use assms in \<open>simp add: WRITE_SAMPLING_MESSAGE_service_def\<close>)

lemma ports_inv_read:
  assumes "READ_SAMPLING_MESSAGE_service now pid a = Returned (r, a')" "ports_inv a"
  shows "ports_inv a'"
proof (cases "length (SAMPLING_PORT_VECTOR a) \<le> unsigned_int pid")
  case False
  then obtain rc x p where pid: "pid < length (SAMPLING_PORT_VECTOR a)"
    and w: "READ_SAMPLING_MESSAGE now (SAMPLING_PORT_VECTOR a ! pid) = Returned (rc, x, p)"
    and a': "a' = a\<lparr>SAMPLING_PORT_VECTOR := (SAMPLING_PORT_VECTOR a)[pid := p]\<rparr>"
    using assms(1) by (auto simp: READ_SAMPLING_MESSAGE_service_def bind_outcome_Returned split: if_splits)
  have "sampling_inv (SAMPLING_PORT_VECTOR a ! pid)" "S_READY_OR_NOT (SAMPLING_PORT_VECTOR a ! pid)"
    using assms(2) pid by (auto simp: ports_inv_def)
  then show ?thesis
    using sampling_inv_read [OF w] w unfolding a'
    by (intro ports_inv_sampling_update [OF assms(2) pid])
      (auto simp: READ_SAMPLING_MESSAGE_def bind_outcome_Returned Let_def split: if_splits)
qed (use assms in \<open>simp add: READ_SAMPLING_MESSAGE_service_def\<close>)

lemma sampling_port_id_small:
  "ports_inv a \<Longrightarrow> pid < length (SAMPLING_PORT_VECTOR a) \<Longrightarrow> unsigned_int pid = pid"
  by (simp add: ports_inv_def unsigned_int_def SYSTEM_LIMIT_NUMBER_OF_SAMPLING_PORTS_def)

lemma queuing_port_id_small:
  "ports_inv a \<Longrightarrow> pid < length (QUEUING_PORT_VECTOR a) \<Longrightarrow> unsigned_int pid = pid"
  by (simp add: ports_inv_def unsigned_int_def SYSTEM_LIMIT_NUMBER_OF_QUEUING_PORTS_def)

lemma GET_SAMPLING_PORT_ID_after_create:
  assumes "CREATE_SAMPLING_PORT name MAX_SIZE direction REFRESH shm unmapped a = ret_out NO_ERROR i a'"
  shows "GET_SAMPLING_PORT_ID name a' = ret_out NO_ERROR i a'" "i = length (SAMPLING_PORT_VECTOR a)"
proof -
  let ?new = "SAMPLING_PORT_new name MAX_SIZE (port_direction direction) REFRESH shm unmapped"
  have name: "S_NAME (snd ?new) = name"
    by (simp add: SAMPLING_PORT_new_def Let_def split: option.splits)
  have fresh: "\<forall>q\<in>set (SAMPLING_PORT_VECTOR a). S_NAME q \<noteq> name"
    and i: "i = length (SAMPLING_PORT_VECTOR a)"
    and a': "a' = a\<lparr>SAMPLING_PORT_VECTOR := SAMPLING_PORT_VECTOR a @ [snd ?new]\<rparr>"
    using assms by (auto simp: CREATE_SAMPLING_PORT_def case_prod_beta Let_def split: if_splits)
  show "i = length (SAMPLING_PORT_VECTOR a)" by (rule i)
  show "GET_SAMPLING_PORT_ID name a' = ret_out NO_ERROR i a'"
    using fresh name by (simp add: GET_SAMPLING_PORT_ID_def a' i find_index_snoc_new)
qed

lemma CREATE_QUEUING_PORT_inv:
  assumes "CREATE_QUEUING_PORT mq name MAX_SIZE MAX_NB direction discipline a w = (Returned (r, a'), w')" "ports_inv a"
  shows "ports_inv a'"
  using assms
  by (auto simp: CREATE_QUEUING_PORT_def QUEUE_PORT_new_def Let_def ports_inv_def
    split: if_splits prod.splits)

lemma ports_inv_write_contents:
  assumes "WRITE_CONTENTS_service pid m len a = Returned (r, a')" "ports_inv a"
  shows "ports_inv a'"
proof (cases "length (SAMPLING_PORT_VECTOR a) \<le> unsigned_int pid")
  case False
  then obtain rc p where pid: "pid < length (SAMPLING_PORT_VECTOR a)"
    and w: "WRITE_CONTENTS_FROM_DATA_BUFFER m len (SAMPLING_PORT_VECTOR a ! pid) = Returned (rc, p)"
    and a': "a' = a\<lparr>SAMPLING_PORT_VECTOR := (SAMPLING_PORT_VECTOR a)[pid := p]\<rparr>"
    using assms(1) by (auto simp: WRITE_CONTENTS_service_def bind_outcome_Returned split: if_splits)
  have "sampling_inv (SAMPLING_PORT_VECTOR a ! pid)" "S_READY_OR_NOT (SAMPLING_PORT_VECTOR a ! pid)"
    using assms(2) pid by (auto simp: ports_inv_def)
  then show ?thesis
    using sampling_inv_write_contents [OF w] w unfolding a'
    by (intro ports_inv_sampling_update [OF assms(2) pid])
      (auto simp: WRITE_CONTENTS_FROM_DATA_BUFFER_def Let_def bind_outcome_Returned split: if_splits)
qed (use assms in \<open>simp add: WRITE_CONTENTS_service_def\<close>)

section \<open>Histories of the port services\<close>

text \<open>A call of a service that changes the ports of the partition; a message queue that is opened, the
  clock, the buffers and the other components are arbitrary.  A port is mapped to memory of its size.\<close>

inductive port_step :: "'w mq_calls \<Rightarrow> APEX \<Rightarrow> APEX \<Rightarrow> bool" for mq :: "'w mq_calls" where
  create_sampling:
    "CREATE_SAMPLING_PORT name MAX_SIZE direction REFRESH shm unmapped a = Returned (r, a') \<Longrightarrow>
     (\<And>mem. shm_mapped shm = Some mem \<Longrightarrow>
        int (length (data mem)) = MAX_SIZE \<and> 0 \<le> MESSAGE_SIZE mem \<and> MESSAGE_SIZE mem \<le> MAX_SIZE) \<Longrightarrow>
     port_step mq a a'"
| write_message: "WRITE_SAMPLING_MESSAGE_service now pid m len a = Returned (r :: unit reply, a') \<Longrightarrow> port_step mq a a'"
| read_message: "READ_SAMPLING_MESSAGE_service now pid a = Returned (s, a') \<Longrightarrow> port_step mq a a'"
| write_contents: "WRITE_CONTENTS_service pid m len a = Returned (r :: unit reply, a') \<Longrightarrow> port_step mq a a'"
| create_queuing:
    "CREATE_QUEUING_PORT mq name MAX_SIZE MAX_NB direction discipline a w = (Returned (r, a'), w') \<Longrightarrow> port_step mq a a'"
| other_call:
    "SAMPLING_PORT_VECTOR a' = SAMPLING_PORT_VECTOR a \<Longrightarrow> QUEUING_PORT_VECTOR a' = QUEUING_PORT_VECTOR a \<Longrightarrow> port_step mq a a'"

lemma port_step_inv: "port_step mq a a' \<Longrightarrow> ports_inv a \<Longrightarrow> ports_inv a'"
proof (induction rule: port_step.induct)
  case create_sampling
  show ?case by (rule ports_inv_create [OF create_sampling(1,3,2)])
next
  case write_message
  then show ?case by (rule ports_inv_write)
next
  case read_message
  then show ?case by (rule ports_inv_read)
next
  case write_contents
  then show ?case by (rule ports_inv_write_contents)
next
  case create_queuing
  then show ?case by (rule CREATE_QUEUING_PORT_inv)
qed (simp add: ports_inv_def)

lemma ports_reachable: "(port_step mq)\<^sup>*\<^sup>* a a' \<Longrightarrow> ports_inv a \<Longrightarrow> ports_inv a'"
  by (induction rule: rtranclp_induct) (auto intro: port_step_inv)

text \<open>A read of a port of the invariant never reads outside its memory.\<close>

lemma ports_read_defined:
  assumes "ports_inv a"
  shows "\<exists>r a'. READ_SAMPLING_MESSAGE_service now pid a = Returned (r, a') \<or> length (SAMPLING_PORT_VECTOR a) \<le> pid"
proof (cases "pid < length (SAMPLING_PORT_VECTOR a)")
  case True
  then have "sampling_inv (SAMPLING_PORT_VECTOR a ! pid)" using assms by (simp add: ports_inv_def)
  from sampling_read_defined [OF this, of now] show ?thesis
    using True sampling_port_id_small [OF assms True] by (auto simp: READ_SAMPLING_MESSAGE_service_def)
qed simp

end
