(* ===== verification/ModuleTheorems.thy ===== *)
theory ModuleTheorems
  imports ModuleRuns PortServices PrimitiveTheorems
begin

text \<open>
  The properties of the module: what a run of the module manager does to the partitions and when, and
  what its channels deliver.  The demonstration module of the witnesses has two partitions with one
  window each, a queuing channel and a sampling channel from the first to the second.
\<close>

section \<open>A demonstration module\<close>

definition demo_src_queue :: MESSAGE_QUEUE_TYPE where
  "demo_src_queue = demo_queue\<lparr>Q_NAME := ''OUT'', REAL_PLATFORM_NAME := ''/OUT'', Q_MQDES := 4\<rparr>"

definition demo_dst_queue :: MESSAGE_QUEUE_TYPE where
  "demo_dst_queue = demo_queue\<lparr>Q_NAME := ''IN'', REAL_PLATFORM_NAME := ''/IN'', Q_MQDES := 5\<rparr>"

definition demo_queue_channel :: QUEUE_CHANNEL where
  "demo_queue_channel = (QUEUE_CHANNEL_new ''Q'' INTRA_MODULE 0)
     \<lparr>QC_SOURCE_QUEUE := Some demo_src_queue, QC_DESTINATION_QUEUE_VECTOR := [demo_dst_queue],
      QC_MAX_SIZEOFMESSAGE := 4, QC_INTERNAL_BUFFER := Some [0, 0, 0, 0], QC_INITIALIZED := True\<rparr>"

definition demo_sampling_channel :: SAMPLING_CHANNEL where
  "demo_sampling_channel =
     (SAMPLING_CHANNEL_new ''S'' INTRA_MODULE 0 (replicate (nat (16 + SYSTEM_LIMIT_MAX_SAMPLING_MESSAGE_SIZE)) 0))
     \<lparr>SC_SOURCE_PORT := Some (demo_port PORT_SOURCE_DEST [1, 2, 3]), SC_MAX_SIZE_OF_MESSAGE := 4,
      SC_DESTINATION_PORT_VECTOR := [demo_port PORT_SOURCE_DEST []], SC_INITIALIZED := True\<rparr>"

definition demo_partition :: "nat \<Rightarrow> NAME_TYPE list \<Rightarrow> NAME_TYPE list \<Rightarrow> PARTITION" where
  "demo_partition pid qs ss =
     \<lparr>PID = pid, P_Name = ''P'', Executable = ''p'', isNetworkPartition = False, QUEUING_PORTS = [], SAMPLING_PORTS = [],
      SAMPLING_CHANNEL_SOURCE_VECTOR = ss, QUEUE_CHANNEL_SOURCE_VECTOR = qs,
      QUEUE_CHANNEL_INTER_MODULE_DST_VECTOR = [], SAMPLING_CHANNEL_INTER_MODULE_DST_VECTOR = [], CONFIGURATION_QUEUE = ''''\<rparr>"

definition demo_module :: MODULE_MANAGER where
  "demo_module =
     \<lparr>PARTITION_VECTOR = [demo_partition 101 [''Q''] [''S''], demo_partition 102 [] []],
      SCHEDULING_VECTOR = [\<lparr>OFFSET = 0, DURATION = 400, PARTITION_INDEX = 0\<rparr>, \<lparr>OFFSET = 500, DURATION = 300, PARTITION_INDEX = 1\<rparr>],
      MAJOR_FRAME_SIZE = 1000, isMAX_NUMBER_OF_FRAMES_SET = True, MAX_NUMBER_OF_FRAMES = 2,
      MAP_OF_QUEUEING_CHANNELS = [''Q'' \<mapsto> demo_queue_channel], MAP_OF_SAMPLING_CHANNELS = [''S'' \<mapsto> demo_sampling_channel],
      MAP_OF_CONFIGURATION_QUEUE = Map.empty, PROXY_PORTS = [], DUMMY_PROCESS_ID = 0\<rparr>"

definition demo_frame :: frame_env where
  "demo_frame =
     \<lparr>window_envs = (\<lambda>_. \<lparr>offset_sleep = [Interrupted, Slept], end_sleep = [Slept],
        before_clock = (\<lambda>_ _ _. timespec_at 0), after_clock = (\<lambda>_ _ _. timespec_at 0), token_clock = timespec_at 0\<rparr>),
      frame_sleep = [Slept]\<rparr>"

definition demo_world :: list_sys where
  "demo_world = \<lparr>net_sent = [], net_arrived = (\<lambda>_. []), sys_queues = (\<lambda>des. if des = 4 then [[7], [8, 9], [1]] else [])\<rparr>"

lemma demo_queue_fields [simp]:
  "Q_MQDES demo_src_queue = 4" "Q_MQDES demo_dst_queue = 5"
  "Q_MAX_MESSAGE_SIZE demo_src_queue = 4" "Q_MAX_MESSAGE_SIZE demo_dst_queue = 4"
  "Q_MAX_NB_MESSAGE demo_src_queue = 2" "Q_MAX_NB_MESSAGE demo_dst_queue = 2"
  "Q_READY_OR_NOT demo_src_queue" "Q_READY_OR_NOT demo_dst_queue"
  "Q_PORT_DIRECTION demo_src_queue = PORT_SOURCE_DEST" "Q_PORT_DIRECTION demo_dst_queue = PORT_SOURCE_DEST"
  by (simp_all add: demo_src_queue_def demo_dst_queue_def demo_queue_def)

lemma demo_queue_distinct [simp]: "demo_src_queue \<noteq> demo_dst_queue"
  by (metis demo_queue_fields(1,2) numeral_eq_iff semiring_norm(88,90) num.inject(2))

lemma demo_system:
  "queue_system (list_sys_mq (\<lambda>_. 2)) list_net_calls (\<lambda>des w. sys_queues w des) net_sent {demo_src_queue, demo_dst_queue}"
  by (rule list_sys_laws) auto

lemma demo_port_live:
  "length bytes \<le> 4 \<Longrightarrow> live_port (demo_port d bytes)" "port_message (demo_port d [1, 2, 3]) = [1, 2, 3]"
  "S_MAX_MESSAGE_SIZE (demo_port d bytes) = 4" "MESSAGE_SIZE (shared_memory (demo_port d bytes)) = int (length bytes)"
  "ABSOLUTE_TIME_WRITTEN (shared_memory (demo_port d bytes)) = 12345"
  by (auto simp: demo_port_def live_port_def sampling_inv_def port_message_def SYSTEM_LIMIT_MAX_SAMPLING_MESSAGE_SIZE_def)

lemma demo_channel_inv:
  "sc_inv (SAMPLING_CHANNEL_new n ty s (replicate (nat (16 + SYSTEM_LIMIT_MAX_SAMPLING_MESSAGE_SIZE)) 0))"
  by (rule sc_inv_new) simp

lemma demo_sampling_ok: "sampling_channel_ok demo_sampling_channel"
  by (simp add: sampling_channel_ok_def demo_sampling_channel_def sc_inv_def demo_port_live SAMPLING_CHANNEL_new_def)

lemma demo_queue_channel_ok: "queue_channel_ok {demo_src_queue, demo_dst_queue} demo_queue_channel"
  by (simp add: queue_channel_ok_def demo_queue_channel_def QUEUE_CHANNEL_new_def)

lemma demo_ready: "channels_ready {demo_src_queue, demo_dst_queue} demo_module"
  by (simp add: channels_ready_def demo_module_def demo_partition_def demo_queue_channel_ok demo_sampling_ok)

lemma demo_good: "good_schedule (MAJOR_FRAME_SIZE demo_module) (SCHEDULING_VECTOR demo_module)"
  by (simp add: good_schedule_def check_schedule_def demo_module_def)

lemma demo_runnable: "runnable demo_module"
  using demo_good by (simp add: runnable_def) (simp add: demo_module_def MAX_TIME_OUT_def NANO_def)

lemma demo_wakes: "frame_wakes demo_frame"
  by (simp add: frame_wakes_def demo_frame_def)

section \<open>The run of the module\<close>



text \<open>C15. The partitions are isolated in time: in every run that ends, whatever the configuration and
  whatever the sleeps and channels do, a partition is continued only while no other one runs, the
  next only after it was stopped (or waited for), and the channels are moved only while no partition
  runs.\<close>

theorem one_partition_at_a_time:
  assumes "RUN_WITHOUT_SYSTEM_MANAGER mq net es start m w = Returned (m', w', tr)"
  shows "one_at_a_time None tr"
  by (rule run_one_at_a_time [OF assms])

theorem one_partition_at_a_time_witness:
  "\<exists>tr. RUN_WITHOUT_SYSTEM_MANAGER (list_sys_mq (\<lambda>_. 2)) list_net_calls [] (timespec_at 70)
      (demo_module\<lparr>MAX_NUMBER_OF_FRAMES := 0\<rparr>) demo_world =
    Returned (demo_module\<lparr>MAX_NUMBER_OF_FRAMES := 0, PARTITION_VECTOR := []\<rparr>, demo_world, tr) \<and> Cont 102 \<in> set tr \<and>
    one_at_a_time None tr"
proof -
  have run: "RUN_WITHOUT_SYSTEM_MANAGER (list_sys_mq (\<lambda>_. 2)) list_net_calls [] (timespec_at 70)
      (demo_module\<lparr>MAX_NUMBER_OF_FRAMES := 0\<rparr>) demo_world =
    Returned (demo_module\<lparr>MAX_NUMBER_OF_FRAMES := 0, PARTITION_VECTOR := []\<rparr>, demo_world,
      [Stop 101, Stop 102, Cont 101, Sigint 101, Waited 101, Cont 102, Sigint 102, Waited 102])"
    by (simp add: RUN_WITHOUT_SYSTEM_MANAGER_def run_frames.simps more_frames_def DOSHUTDOWN_def demo_module_def demo_partition_def)
  show ?thesis using run one_partition_at_a_time [OF run] by simp
qed

text \<open>C16. Time does not run backwards in an accepted schedule: the points in time a run over a number of
  frames sleeps until are in order, from the first window of the first hyperperiod to the end of the last,
  so a window never overlaps the next.\<close>

theorem windows_in_time_order:
  assumes "RUN_WITHOUT_SYSTEM_MANAGER mq net es (timespec_at t) m w = Returned (m', w', tr)"
    "good_schedule (MAJOR_FRAME_SIZE m) (SCHEDULING_VECTOR m)" "isMAX_NUMBER_OF_FRAMES_SET m"
  shows "sorted (until_times tr) \<and> (\<forall>s\<in>set (until_times tr). t \<le> s)"
proof -
  have "tr = run_events m t (nat (MAX_NUMBER_OF_FRAMES m)) @ DOSHUTDOWN m"
    using run_events_of_run [OF assms(1)] assms(2,3) good_schedule_frame(1) [OF assms(2)] by (simp add: good_schedule_def)
  then show ?thesis using run_events_in_order [OF assms(2), of t "nat (MAX_NUMBER_OF_FRAMES m)"] by simp
qed

theorem windows_in_time_order_witness:
  "\<exists>m' w' tr. RUN_WITHOUT_SYSTEM_MANAGER (list_sys_mq (\<lambda>_. 2)) list_net_calls [demo_frame, demo_frame] (timespec_at 70)
      demo_module demo_world = Returned (m', w', tr) \<and>
    until_times tr = [70, 470, 570, 870, 1070, 1070, 1470, 1570, 1870, 2070] \<and> sorted (until_times tr)"
proof -
  have "sizes_ok (\<lambda>des w. sys_queues w des) {demo_src_queue, demo_dst_queue} demo_world"
    by (auto simp: sizes_ok_def demo_world_def)
  moreover have two: "MAX_NUMBER_OF_FRAMES demo_module = 2" "isMAX_NUMBER_OF_FRAMES_SET demo_module"
    by (simp_all add: demo_module_def)
  ultimately obtain m' w' where run: "RUN_WITHOUT_SYSTEM_MANAGER (list_sys_mq (\<lambda>_. 2)) list_net_calls [demo_frame, demo_frame]
      (timespec_at 70) demo_module demo_world = Returned (m', w', run_events demo_module 70 2 @ DOSHUTDOWN demo_module)"
    using run_returns [OF demo_system _ _ demo_ready demo_runnable, of demo_world "[demo_frame, demo_frame]" 70]
      demo_wakes by auto
  have "until_times (run_events demo_module 70 2) = [70, 470, 570, 870, 1070, 1070, 1470, 1570, 1870, 2070]"
    by (simp add: numeral_2_eq_2 run_events_Suc) (simp add: run_events_def demo_module_def)
  then show ?thesis using run windows_in_time_order [OF run demo_good two(2)] by auto
qed

section \<open>What the channels deliver\<close>







section \<open>The ports of a partition\<close>

text \<open>Whatever services a partition calls, in whatever order, its ports stay well formed: at most as many
  as the limits, no two with a name, each ready, the message of a sampling port within its memory; so a
  read of a sampling port never leaves its memory.\<close>

theorem ports_always_valid:
  assumes "(port_step mq)\<^sup>*\<^sup>* APEX_new a"
  shows "ports_inv a \<and> (pid < length (SAMPLING_PORT_VECTOR a) \<longrightarrow>
    (\<exists>r a'. READ_SAMPLING_MESSAGE_service now pid a = Returned (r, a')))"
  using ports_reachable [OF assms ports_inv_new] ports_read_defined [of a now pid] by auto

theorem ports_always_valid_witness:
  "\<exists>a. SAMPLING_PORT_VECTOR a \<noteq> [] \<and> ports_inv a \<and>
    (\<exists>r a'. READ_SAMPLING_MESSAGE_service 7 0 a = Returned (r, a'))"
proof -
  let ?mem = "\<lparr>ABSOLUTE_TIME_WRITTEN = 0, MESSAGE_SIZE = 0, data = [0, 0, 0, 0]\<rparr>"
  let ?shm = "\<lparr>shm_descriptor = 3, shm_eexist = False, shm_truncated = True, shm_mapped = Some ?mem\<rparr>"
  have "case CREATE_SAMPLING_PORT ''P'' 4 DESTINATION 1000 ?shm ?mem APEX_new of
      Returned (r, a) \<Rightarrow> length (SAMPLING_PORT_VECTOR a) = 1 | _ \<Rightarrow> False"
    by (simp add: CREATE_SAMPLING_PORT_def SAMPLING_PORT_new_def APEX_new_def Let_def SYSTEM_LIMIT_NUMBER_OF_SAMPLING_PORTS_def
        SYSTEM_LIMIT_MAX_SAMPLING_MESSAGE_SIZE_def MAX_TIME_OUT_def NANO_def)
  then obtain r a where c: "CREATE_SAMPLING_PORT ''P'' 4 DESTINATION 1000 ?shm ?mem APEX_new = Returned (r, a)"
    "length (SAMPLING_PORT_VECTOR a) = 1"
    by (cases "CREATE_SAMPLING_PORT ''P'' 4 DESTINATION 1000 ?shm ?mem APEX_new") auto
  have "(port_step (list_mq 2)) APEX_new a" by (rule create_sampling [OF c(1)]) auto
  then have "(port_step (list_mq 2))\<^sup>*\<^sup>* APEX_new a" by blast
  then show ?thesis using ports_always_valid [of "list_mq 2" a 0 7] c(2) by (intro exI [of _ a]) auto
qed

end
