(* ===== verification/ConfigFile.thy ===== *)
theory ConfigFile
  imports Prelude "HOL-Library.List_Lexorder" "HOL-Library.Char_ord"
begin

text \<open>
  Reading of a module's configuration file: the string helpers of include/ACM/USER/ACM\_UTILITIES.h and
  INIT\_PARTITION\_PROPERTY\_MAP of ModuleManager/ModuleInitialization.cc.  The file is the list of its
  lines, the std::multimap of properties the list of its entries in the order of insertion, which is
  the order equal\_range gives them in for one key.
\<close>

section \<open>Exceptions\<close>

text \<open>A step of the configuration throws a number, or goes on with a value.\<close>

type_synonym 'a config = "(int + 'a) outcome"

definition throw :: "int \<Rightarrow> 'a config" where
  "throw n = Returned (Inl n)"

definition proceed :: "'a \<Rightarrow> 'a config" where
  "proceed x = Returned (Inr x)"

definition bind_config :: "'a config \<Rightarrow> ('a \<Rightarrow> 'b config) \<Rightarrow> 'b config" where
  "bind_config m f = bind_outcome m (\<lambda>r. case r of Inl n \<Rightarrow> Returned (Inl n) | Inr x \<Rightarrow> f x)"

lemma bind_config_simps [simp]:
  "bind_config (throw n) f = throw n" "bind_config (proceed x) f = f x"
  "bind_config Undef f = Undef" "bind_config Aborted f = Aborted" "bind_config Blocked f = Blocked"
  by (simp_all add: bind_config_def throw_def proceed_def)

lemma proceed_eq [simp]: "proceed x = proceed y \<longleftrightarrow> x = y" "throw n \<noteq> proceed x" "throw n = throw k \<longleftrightarrow> n = k"
  "Undef \<noteq> proceed x" "Aborted \<noteq> proceed x" "Blocked \<noteq> proceed x"
  by (simp_all add: throw_def proceed_def)

lemma bind_config_proceed: "bind_config m f = proceed y \<longleftrightarrow> (\<exists>x. m = proceed x \<and> f x = proceed y)"
proof (cases m)
  case (Returned r)
  then show ?thesis by (cases r) (auto simp: bind_config_def proceed_def)
qed (simp_all add: bind_config_def proceed_def)

text \<open>A step for every element of a list; when one throws, the rest is not done.\<close>

fun config_loop :: "('a \<Rightarrow> 's \<Rightarrow> 's config) \<Rightarrow> 'a list \<Rightarrow> 's \<Rightarrow> 's config" where
  "config_loop f [] s = proceed s"
| "config_loop f (x # xs) s = bind_config (f x s) (config_loop f xs)"

lemma config_loop_inv:
  assumes "config_loop f xs s = proceed s'" "P s" "\<And>x s s'. x \<in> set xs \<Longrightarrow> f x s = proceed s' \<Longrightarrow> P s \<Longrightarrow> P s'"
  shows "P s'"
  using assms by (induction xs arbitrary: s) (auto simp: bind_config_proceed)

section \<open>Strings\<close>

definition stringTrim :: "string \<Rightarrow> string \<Rightarrow> string" where
  "stringTrim delims str =
     (if \<exists>c\<in>set str. c \<notin> set delims
      then dropWhile (\<lambda>c. c \<in> set delims) (rev (dropWhile (\<lambda>c. c \<in> set delims) (rev str)))
      else [])"

text \<open>The blanks the tokens and lines are trimmed of; the last character of the literal ends it.\<close>

definition blanks :: string where
  "blanks = [CHR '' '', CHR 0x09, CHR 0x0D, CHR 0x0A]"

function stringTokenize :: "string \<Rightarrow> string \<Rightarrow> string list" where
  "stringTokenize delims str =
     (case dropWhile (\<lambda>c. c \<in> set delims) str of
        [] \<Rightarrow> []
      | c # cs \<Rightarrow> stringTrim blanks (takeWhile (\<lambda>c. c \<notin> set delims) (c # cs)) #
          stringTokenize delims (dropWhile (\<lambda>c. c \<notin> set delims) (c # cs)))"
  by pat_completeness auto
termination
proof (relation "measure (\<lambda>(delims, str). length str)")
  fix delims str :: string and c cs
  assume d: "dropWhile (\<lambda>c. c \<in> set delims) str = c # cs"
  then have "c \<notin> set delims" by (metis dropWhile_eq_Cons_conv)
  then have "length (dropWhile (\<lambda>c. c \<notin> set delims) (c # cs)) \<le> length cs"
    using length_dropWhile_le by simp
  also have "\<dots> < length str" using d length_dropWhile_le [of "\<lambda>c. c \<in> set delims" str] by simp
  finally show "((delims, dropWhile (\<lambda>c. c \<notin> set delims) (c # cs)), delims, str) \<in> measure (\<lambda>(delims, str). length str)"
    by simp
qed simp

declare stringTokenize.simps [simp del]

section \<open>Numbers\<close>

text \<open>\<open>from_string\<close> reads a decimal number from the front of a string, as operator\<open>>>\<close> of a stream does:
  blanks are skipped, a sign may come first, one digit must follow, and what comes after the digits is
  ignored.  A number out of the range of the type is an error; the minus sign of an unsigned number negates
  it modulo the size of the type.\<close>

definition is_digit :: "char \<Rightarrow> bool" where
  "is_digit c \<longleftrightarrow> of_char c \<in> {48 .. 57 :: nat}"

definition is_space :: "char \<Rightarrow> bool" where
  "is_space c \<longleftrightarrow> c = CHR '' '' \<or> of_char c \<in> {9 .. 13 :: nat}"

definition digits_value :: "string \<Rightarrow> int" where
  "digits_value ds = foldl (\<lambda>n c. n * 10 + (of_char c - 48)) 0 ds"

definition read_number :: "string \<Rightarrow> (bool \<times> int) option" where
  "read_number s =
     (let s1 = dropWhile is_space s;
          (neg, s2) = (case s1 of [] \<Rightarrow> (False, []) | c # cs \<Rightarrow>
             if c = CHR ''-'' then (True, cs) else if c = CHR ''+'' then (False, cs) else (False, c # cs));
          ds = takeWhile is_digit s2
      in if ds = [] then None else Some (neg, digits_value ds))"

definition from_string_signed :: "nat \<Rightarrow> string \<Rightarrow> int option" where
  "from_string_signed bits s =
     (case read_number s of
        None \<Rightarrow> None
      | Some (neg, n) \<Rightarrow>
          let x = (if neg then - n else n) in
          if - (2 ^ (bits - 1)) \<le> x \<and> x < 2 ^ (bits - 1) then Some x else None)"

definition from_string_unsigned :: "nat \<Rightarrow> string \<Rightarrow> nat option" where
  "from_string_unsigned bits s =
     (case read_number s of
        None \<Rightarrow> None
      | Some (neg, n) \<Rightarrow>
          if n < 2 ^ bits then Some (nat (if neg then (- n) mod 2 ^ bits else n)) else None)"

section \<open>The property map\<close>

type_synonym properties = "(string \<times> string) list"

definition equal_range :: "string \<Rightarrow> properties \<Rightarrow> string list" where
  "equal_range key m = map snd (filter (\<lambda>p. fst p = key) m)"

text \<open>The first value of a key, or the exception of the code that misses it.\<close>

definition property :: "int \<Rightarrow> string \<Rightarrow> properties \<Rightarrow> string config" where
  "property err key m = (case equal_range key m of [] \<Rightarrow> throw err | v # vs \<Rightarrow> proceed v)"

text \<open>One line: an empty line and one that starts with a slash (\<open>find_first_of("//", 0)\<close> looks for one of the
  characters) are skipped.\<close>

definition read_line :: "string \<Rightarrow> properties \<Rightarrow> properties config" where
  "read_line line m =
     (let line = stringTrim blanks line in
      if line = [] then proceed m
      else if hd line = CHR ''/'' then proceed m
      else case stringTokenize ''='' line of
             [key, value] \<Rightarrow> proceed (m @ [(key, value)])
           | _ \<Rightarrow> throw (-1))"

text \<open>A file that cannot be opened is \<open>None\<close>.\<close>

definition INIT_PARTITION_PROPERTY_MAP :: "string list option \<Rightarrow> properties \<Rightarrow> properties config" where
  "INIT_PARTITION_PROPERTY_MAP file m =
     (case file of None \<Rightarrow> throw (-1) | Some lines \<Rightarrow> config_loop read_line lines m)"

section \<open>Printing and reading again\<close>

definition plain_word :: "string \<Rightarrow> bool" where
  "plain_word s \<longleftrightarrow> s \<noteq> [] \<and> hd s \<notin> set blanks \<and> last s \<notin> set blanks \<and> CHR ''='' \<notin> set s"

definition property_line :: "string \<times> string \<Rightarrow> string" where
  "property_line p = fst p @ ''='' @ snd p"

lemma dropWhile_hd: "s \<noteq> [] \<Longrightarrow> \<not> P (hd s) \<Longrightarrow> dropWhile P s = s"
  by (cases s) auto

lemma stringTrim_id:
  assumes "s \<noteq> []" "hd s \<notin> set d" "last s \<notin> set d"
  shows "stringTrim d s = s"
proof -
  have "rev s \<noteq> []" "hd (rev s) \<notin> set d" using assms by (simp_all add: hd_rev)
  then have "dropWhile (\<lambda>c. c \<in> set d) (rev s) = rev s" by (intro dropWhile_hd)
  moreover have "dropWhile (\<lambda>c. c \<in> set d) s = s" using assms by (intro dropWhile_hd)
  moreover have "\<exists>c\<in>set s. c \<notin> set d" using assms by (metis hd_in_set)
  ultimately show ?thesis by (simp add: stringTrim_def)
qed

lemma in_dropWhile: "c \<in> set xs \<Longrightarrow> \<not> P c \<Longrightarrow> c \<in> set (dropWhile P xs)"
  by (induction xs) auto

lemma stringTrim_idem: "stringTrim d (stringTrim d s) = stringTrim d s"
proof (cases "\<exists>c\<in>set s. c \<notin> set d")
  case True
  let ?P = "\<lambda>c. c \<in> set d"
  let ?r = "rev (dropWhile ?P (rev s))" and ?t = "stringTrim d s"
  have t: "?t = dropWhile ?P ?r" using True by (simp add: stringTrim_def)
  obtain c where c: "c \<in> set s" "\<not> ?P c" using True by blast
  then have cr: "c \<in> set ?r" by (simp add: in_dropWhile)
  then have ct: "c \<in> set ?t" unfolding t using c(2) by (rule in_dropWhile)
  then have "?t \<noteq> []" by auto
  moreover have "\<not> ?P (hd ?t)" unfolding t using ct t by (metis hd_dropWhile empty_iff list.set(1))
  moreover have "last ?t = last ?r" unfolding t using ct t
    by (metis empty_iff last_appendR list.set(1) takeWhile_dropWhile_id)
  moreover have "\<not> ?P (last ?r)" using cr by (metis hd_dropWhile empty_iff last_rev list.set(1) set_rev)
  ultimately show ?thesis by (intro stringTrim_id) auto
next
  case False
  then show ?thesis by (simp add: stringTrim_def)
qed

lemma tokenize_pair:
  assumes "plain_word k" "plain_word v"
  shows "stringTokenize ''='' (k @ ''='' @ v) = [k, v]"
proof -
  let ?D = "\<lambda>c. c \<in> set ''=''" and ?N = "\<lambda>c. c \<notin> set ''=''"
  have k: "k \<noteq> []" "\<forall>c\<in>set k. ?N c" "stringTrim blanks k = k" and v: "v \<noteq> []" "\<forall>c\<in>set v. ?N c" "stringTrim blanks v = v"
    using assms by (auto simp: plain_word_def stringTrim_id)
  have d1: "dropWhile ?D (k @ ''='' @ v) = k @ ''='' @ v" using k by (cases k) auto
  have tw: "takeWhile ?N (k @ ''='' @ v) = k" "dropWhile ?N (k @ ''='' @ v) = ''='' @ v"
    using k(2) by (simp_all add: takeWhile_append2 dropWhile_append2)
  have d2: "dropWhile ?D (''='' @ v) = v" using v by (cases v) auto
  have tv: "takeWhile ?N v = v" "dropWhile ?N v = []" using v(2) by (simp_all add: takeWhile_eq_all_conv dropWhile_eq_Nil_conv)
  obtain c cs where vc: "v = c # cs" using v(1) by (cases v) auto
  have nil: "stringTokenize ''='' [] = []" by (simp add: stringTokenize.simps)
  have "stringTokenize ''='' (''='' @ v) = stringTrim blanks (takeWhile ?N v) # stringTokenize ''='' (dropWhile ?N v)"
    by (subst stringTokenize.simps, subst d2) (simp only: vc list.case)
  then have "stringTokenize ''='' (''='' @ v) = [v]" unfolding tv v(3) nil .
  moreover have "stringTokenize ''='' (k @ ''='' @ v) = k # stringTokenize ''='' (''='' @ v)"
    by (subst stringTokenize.simps, subst d1) (use k tw in \<open>cases k; simp\<close>)
  ultimately show ?thesis by simp
qed

lemma read_property_line:
  assumes "plain_word k" "plain_word v" "hd k \<noteq> CHR ''/''"
  shows "read_line (property_line (k, v)) m = proceed (m @ [(k, v)])"
proof -
  have "stringTrim blanks (k @ ''='' @ v) = k @ ''='' @ v"
    using assms by (intro stringTrim_id) (auto simp: plain_word_def hd_append)
  moreover have "hd (k @ ''='' @ v) = hd k" "k \<noteq> []" using assms by (auto simp: plain_word_def hd_append)
  ultimately show ?thesis
    using tokenize_pair [OF assms(1,2)] assms(3) by (simp add: read_line_def property_line_def)
qed

lemma read_property_lines:
  assumes "\<forall>(k, v)\<in>set kvs. plain_word k \<and> plain_word v \<and> hd k \<noteq> CHR ''/''"
  shows "INIT_PARTITION_PROPERTY_MAP (Some (map property_line kvs)) m = proceed (m @ kvs)"
proof -
  have "config_loop read_line (map property_line kvs) m = proceed (m @ kvs)"
    using assms
  proof (induction kvs arbitrary: m)
    case (Cons p kvs)
    then show ?case using read_property_line [of "fst p" "snd p" m] by (cases p) simp
  qed simp
  then show ?thesis by (simp add: INIT_PARTITION_PROPERTY_MAP_def)
qed

end
