(* ===== verification/ConfigKeys.thy ===== *)
theory ConfigKeys
  imports ConfigFile
begin

text \<open>
  The keys of the configuration file: ModuleManager/ModuleConfigurationDefinitions.cc.
\<close>

definition PRIMARY_KEY_NETWORK_PARTITION_NAME :: string where "PRIMARY_KEY_NETWORK_PARTITION_NAME = ''NETWORK_PARTITION_NAME''"
definition ADDITVE_KEY_CHANNEL :: string where "ADDITVE_KEY_CHANNEL = ''_CHANNEL''"
definition PRIMARY_KEY_SYNCHRONIZED_EXECUTION :: string where "PRIMARY_KEY_SYNCHRONIZED_EXECUTION = ''SYNCHRONIZED_EXECUTION''"
definition PRIMARY_KEY_BROADCAST_ADDRESS :: string where "PRIMARY_KEY_BROADCAST_ADDRESS = ''BROADCAST_ADDRESS''"
definition PRIMARY_KEY_MULTICAST_ADDRESS :: string where "PRIMARY_KEY_MULTICAST_ADDRESS = ''MULTICAST_ADDRESS''"
definition PRIMARY_KEY_DISCOVERY_PROTOCOL :: string where "PRIMARY_KEY_DISCOVERY_PROTOCOL = ''DISCOVERY_PROTOCOL''"
definition PRIMARY_KEY_DISCOVERY_PROTOCOL_IOR :: string where "PRIMARY_KEY_DISCOVERY_PROTOCOL_IOR = ''IOR''"
definition PRIMARY_KEY_DISCOVERY_PROTOCOL_NS :: string where "PRIMARY_KEY_DISCOVERY_PROTOCOL_NS = ''NS''"
definition PRIMARY_KEY_DISCOVERY_PROTOCOL_NS_HOST :: string where "PRIMARY_KEY_DISCOVERY_PROTOCOL_NS_HOST = ''NS_HOST''"
definition PRIMARY_KEY_DISCOVERY_PROTOCOL_NS_PORT :: string where "PRIMARY_KEY_DISCOVERY_PROTOCOL_NS_PORT = ''NS_PORT''"
definition PRIMARY_KEY_HYPERPERIOD_KEY :: string where "PRIMARY_KEY_HYPERPERIOD_KEY = ''HYPERPERIOD''"
definition PRIMARY_KEY_MAXITERATIONS :: string where "PRIMARY_KEY_MAXITERATIONS = ''MAXITERATIONS''"
definition PRIMARY_KEY_PARTITION_NAME :: string where "PRIMARY_KEY_PARTITION_NAME = ''PARTITION_NAME''"
definition PRIMARY_KEY_CPU :: string where "PRIMARY_KEY_CPU = ''CPU''"
definition PRIMARY_KEY_PARTITION_INIT_TIMEOUT :: string where "PRIMARY_KEY_PARTITION_INIT_TIMEOUT = ''PARTITION_INIT_TIMEOUT''"
definition PRIMARY_KEY_CHANNEL_NAME :: string where "PRIMARY_KEY_CHANNEL_NAME = ''CHANNEL_NAME''"
definition PRIMARY_KEY_NUMBER_OF_INITIAL_STAGES :: string where "PRIMARY_KEY_NUMBER_OF_INITIAL_STAGES = ''NUMBER_OF_INIT_STAGES''"
definition PRIMARY_KEY_PROXY_PORT :: string where "PRIMARY_KEY_PROXY_PORT = ''PROXY_PORT''"
definition PRIMARY_KEY_CONFIGURATION_PORT :: string where "PRIMARY_KEY_CONFIGURATION_PORT = ''CONFIGURATION_PORT''"
definition PRIMARY_KEY_PARENT_PORT :: string where "PRIMARY_KEY_PARENT_PORT = ''PARENT_PORT''"
definition PRIMARY_KEY_MODULE_NAME :: string where "PRIMARY_KEY_MODULE_NAME = ''MODULE_NAME''"
definition PRIMARY_KEY_PARENT_MODULE_NAME :: string where "PRIMARY_KEY_PARENT_MODULE_NAME = ''PARENT_MODULE_NAME''"
definition PRIMARY_KEY_CHILD_MODULE_NAME :: string where "PRIMARY_KEY_CHILD_MODULE_NAME = ''CHILD_MODULE_NAME''"
definition ADDITVE_KEY_MM_HOSTNAME :: string where "ADDITVE_KEY_MM_HOSTNAME = ''_HOSTNAME''"
definition ADDITIVE_KEY_PORT_NUMBER :: string where "ADDITIVE_KEY_PORT_NUMBER = ''_PORT_NUMBER''"
definition ADDITIVE_KEY_MODULE_NAME :: string where "ADDITIVE_KEY_MODULE_NAME = ''_MODULE_NAME''"
definition ADDITIVE_KEY_TYPE :: string where "ADDITIVE_KEY_TYPE = ''_TYPE''"
definition PROXY_TYPE_SAMPLING :: string where "PROXY_TYPE_SAMPLING = ''SAMPLING''"
definition PROXY_TYPE_QUEUEING :: string where "PROXY_TYPE_QUEUEING = ''QUEUING''"
definition ADDITIVE_KEY_DIRECTION :: string where "ADDITIVE_KEY_DIRECTION = ''_DIRECTION''"
definition ADDITIVE_KEY_DESTINATION :: string where "ADDITIVE_KEY_DESTINATION = ''_DESTINATION''"
definition ADDITIVE_KEY_SOURCE :: string where "ADDITIVE_KEY_SOURCE = ''_SOURCE''"
definition ADDITIVE_KEY_SCHEDULE :: string where "ADDITIVE_KEY_SCHEDULE = ''_SCHEDULE''"
definition ADDITIVE_KEY_EXECUTABLE :: string where "ADDITIVE_KEY_EXECUTABLE = ''_EXECUTABLE''"
definition ADDITIVE_KEY_SAMPLINGPORT :: string where "ADDITIVE_KEY_SAMPLINGPORT = ''_SAMPLINGPORT''"
definition ADDITIVE_KEY_MAXMESSAGESIZE :: string where "ADDITIVE_KEY_MAXMESSAGESIZE = ''_MAXMESSAGESIZE''"
definition ADDITIVE_KEY_REFRESHPERIOD :: string where "ADDITIVE_KEY_REFRESHPERIOD = ''_REFRESHPERIOD''"
definition ADDITIVE_KEY_QUEUINGPORT :: string where "ADDITIVE_KEY_QUEUINGPORT = ''_QUEUINGPORT''"
definition ADDITIVE_KEY_MAXNUMBEROFMESSAGES :: string where "ADDITIVE_KEY_MAXNUMBEROFMESSAGES = ''_MAXNUMBEROFMESSAGES''"

lemmas config_keys = PRIMARY_KEY_NETWORK_PARTITION_NAME_def
  ADDITVE_KEY_CHANNEL_def
  PRIMARY_KEY_SYNCHRONIZED_EXECUTION_def
  PRIMARY_KEY_BROADCAST_ADDRESS_def
  PRIMARY_KEY_MULTICAST_ADDRESS_def
  PRIMARY_KEY_DISCOVERY_PROTOCOL_def
  PRIMARY_KEY_DISCOVERY_PROTOCOL_IOR_def
  PRIMARY_KEY_DISCOVERY_PROTOCOL_NS_def
  PRIMARY_KEY_DISCOVERY_PROTOCOL_NS_HOST_def
  PRIMARY_KEY_DISCOVERY_PROTOCOL_NS_PORT_def
  PRIMARY_KEY_HYPERPERIOD_KEY_def
  PRIMARY_KEY_MAXITERATIONS_def
  PRIMARY_KEY_PARTITION_NAME_def
  PRIMARY_KEY_CPU_def
  PRIMARY_KEY_PARTITION_INIT_TIMEOUT_def
  PRIMARY_KEY_CHANNEL_NAME_def
  PRIMARY_KEY_NUMBER_OF_INITIAL_STAGES_def
  PRIMARY_KEY_PROXY_PORT_def
  PRIMARY_KEY_CONFIGURATION_PORT_def
  PRIMARY_KEY_PARENT_PORT_def
  PRIMARY_KEY_MODULE_NAME_def
  PRIMARY_KEY_PARENT_MODULE_NAME_def
  PRIMARY_KEY_CHILD_MODULE_NAME_def
  ADDITVE_KEY_MM_HOSTNAME_def
  ADDITIVE_KEY_PORT_NUMBER_def
  ADDITIVE_KEY_MODULE_NAME_def
  ADDITIVE_KEY_TYPE_def
  PROXY_TYPE_SAMPLING_def
  PROXY_TYPE_QUEUEING_def
  ADDITIVE_KEY_DIRECTION_def
  ADDITIVE_KEY_DESTINATION_def
  ADDITIVE_KEY_SOURCE_def
  ADDITIVE_KEY_SCHEDULE_def
  ADDITIVE_KEY_EXECUTABLE_def
  ADDITIVE_KEY_SAMPLINGPORT_def
  ADDITIVE_KEY_MAXMESSAGESIZE_def
  ADDITIVE_KEY_REFRESHPERIOD_def
  ADDITIVE_KEY_QUEUINGPORT_def
  ADDITIVE_KEY_MAXNUMBEROFMESSAGES_def

end
