(* ===== verification/ModuleConfig.thy ===== *)
theory ModuleConfig
  imports ConfigKeys ModuleManager
begin

text \<open>
  The configuration of a module: ModuleManager/ModuleInitialization.cc, PREPARE\_PARENT\_CHILD\_INFORMATION of
  MultiModuleRelatedConfig.cc and the constructor of ModuleManager.cc.  The properties of the file become
  descriptors of proxy ports, channels and partitions, the schedule and the channels.  Inputs are
  the reading of a number of seconds (a floating-point number, converted to nanoseconds), the files that can
  be read, the environment variable ACM\_ROOT, the answers of the system calls of the ports, and the memory
  that allocations return.  Message queues are calls on a state \<open>'w\<close>, for queues opened with and without
  O\_EXCL, and their removal.
\<close>

section \<open>State\<close>

datatype DISCOVERY_PROTOCOL_ENUM = IOR | NAMINGSERVICE

record child_url =
  receivedanswer :: bool
  childname :: NAME_TYPE
  child_hostname :: NAME_TYPE
  child_portnum :: nat

text \<open>The maps with strings as keys are lists in the order of the keys, as std::map iterates.\<close>

record MODULE_CONFIG = MODULE_MANAGER +
  PropertyMap :: properties
  CHANNEL_MAP :: "(string \<times> CHANNEL_DESCRIPTOR) list"
  NumberOfInitStages :: nat
  MIN_WAIT_TIME :: int
  isMIN_WAIT_TIME_SET :: bool
  DISCOVERY_PROTOCOL :: DISCOVERY_PROTOCOL_ENUM
  NS_HOST_IP :: string
  NS_PORT_NUMBER :: int
  cpunumber :: int
  MODULE_NAME :: string
  PARENT_NAME :: string
  PARENT_HOST :: string
  PARENT_PORT :: nat
  CONFIGURATION_PORT_NUM :: nat
  isSystemModuleManager :: bool
  isrunningUnderSystemModuleManager :: bool
  isBroadcast :: bool
  isMulticast :: bool
  broadcastaddress :: string
  childrenModules :: "(string \<times> child_url) list"

record config_env =
  seconds :: "string \<Rightarrow> SYSTEM_TIME_TYPE option"
  fexists :: "string \<Rightarrow> bool"
  ACM_ROOT :: "string option"
  shm_excl :: "NAME_TYPE \<Rightarrow> int \<Rightarrow> shm_answers"
  shm_create :: "NAME_TYPE \<Rightarrow> int \<Rightarrow> shm_answers"
  unmapped_memory :: SAMPLING_DATA
  new_chars :: "int \<Rightarrow> byte list"
  channel_buffer :: "byte list"
  stack_pid :: nat

record 'w config_sys =
  mq_excl :: "'w mq_calls"
  mq_create :: "'w mq_calls"
  mq_remove :: "MESSAGE_QUEUE_TYPE \<Rightarrow> 'w \<Rightarrow> 'w"

fun map_put :: "string \<Rightarrow> 'v \<Rightarrow> (string \<times> 'v) list \<Rightarrow> (string \<times> 'v) list" where
  "map_put k v [] = [(k, v)]"
| "map_put k v (p # ps) =
     (if k = fst p then (k, v) # ps else if k < fst p then (k, v) # p # ps else p # map_put k v ps)"

section \<open>Single values\<close>

text \<open>The value of a key that may be missing.\<close>

definition optional :: "string \<Rightarrow> properties \<Rightarrow> string option" where
  "optional key m = (case equal_range key m of [] \<Rightarrow> None | v # vs \<Rightarrow> Some v)"

definition parsed :: "int \<Rightarrow> 'a option \<Rightarrow> 'a config" where
  "parsed err x = (case x of None \<Rightarrow> throw err | Some v \<Rightarrow> proceed v)"

definition SET_MAJOR_FRAME_SIZE :: "config_env \<Rightarrow> MODULE_CONFIG \<Rightarrow> MODULE_CONFIG config" where
  "SET_MAJOR_FRAME_SIZE env m =
     bind_config (property (-2) PRIMARY_KEY_HYPERPERIOD_KEY (PropertyMap m)) (\<lambda>framestring.
     bind_config (parsed (-2) (seconds env (stringTrim '' '' framestring))) (\<lambda>t.
       proceed (m\<lparr>MAJOR_FRAME_SIZE := t\<rparr>)))"

definition SET_MAX_NUMBER_OF_FRAMES :: "MODULE_CONFIG \<Rightarrow> MODULE_CONFIG config" where
  "SET_MAX_NUMBER_OF_FRAMES m =
     (case optional PRIMARY_KEY_MAXITERATIONS (PropertyMap m) of
        None \<Rightarrow> proceed m
      | Some s \<Rightarrow> bind_config (parsed (-2) (from_string_signed 32 (stringTrim '' '' s))) (\<lambda>n.
          proceed (m\<lparr>MAX_NUMBER_OF_FRAMES := n, isMAX_NUMBER_OF_FRAMES_SET := True\<rparr>)))"

definition READ_NUMBER_OF_INIT_STAGES :: "MODULE_CONFIG \<Rightarrow> MODULE_CONFIG config" where
  "READ_NUMBER_OF_INIT_STAGES m =
     (case optional PRIMARY_KEY_NUMBER_OF_INITIAL_STAGES (PropertyMap m) of
        None \<Rightarrow> proceed (m\<lparr>NumberOfInitStages := 1\<rparr>)
      | Some s \<Rightarrow> bind_config (parsed (-2) (from_string_unsigned 32 (stringTrim '' '' s))) (\<lambda>n.
          if n > 2 then throw (-2) else proceed (m\<lparr>NumberOfInitStages := n\<rparr>)))"

definition SET_MIN_WAIT_TIME :: "MODULE_CONFIG \<Rightarrow> MODULE_CONFIG config" where
  "SET_MIN_WAIT_TIME m =
     (case optional PRIMARY_KEY_PARTITION_INIT_TIMEOUT (PropertyMap m) of
        None \<Rightarrow> proceed m
      | Some s \<Rightarrow> bind_config (parsed (-2) (from_string_signed 32 (stringTrim '' '' s))) (\<lambda>n.
          proceed (m\<lparr>MIN_WAIT_TIME := n, isMIN_WAIT_TIME_SET := True\<rparr>)))"

definition SET_DISCOVERY_PROTOCOL :: "MODULE_CONFIG \<Rightarrow> MODULE_CONFIG config" where
  "SET_DISCOVERY_PROTOCOL m =
     (case optional PRIMARY_KEY_DISCOVERY_PROTOCOL (PropertyMap m) of
        None \<Rightarrow> proceed m
      | Some s \<Rightarrow>
          let p = stringTrim '' '' s in
          if p = PRIMARY_KEY_DISCOVERY_PROTOCOL_IOR then proceed (m\<lparr>DISCOVERY_PROTOCOL := IOR\<rparr>)
          else if p = PRIMARY_KEY_DISCOVERY_PROTOCOL_NS then
            bind_config (property (-3) PRIMARY_KEY_DISCOVERY_PROTOCOL_NS_HOST (PropertyMap m)) (\<lambda>host.
            bind_config (property (-3) PRIMARY_KEY_DISCOVERY_PROTOCOL_NS_PORT (PropertyMap m)) (\<lambda>port.
            bind_config (parsed (-2) (from_string_signed 32 (stringTrim '' '' port))) (\<lambda>n.
              if n \<le> 0 then throw (-2)
              else proceed (m\<lparr>DISCOVERY_PROTOCOL := NAMINGSERVICE, NS_HOST_IP := stringTrim '' '' host, NS_PORT_NUMBER := n\<rparr>))))
          else throw (-3))"

definition SET_CPU_NUMBER :: "MODULE_CONFIG \<Rightarrow> MODULE_CONFIG config" where
  "SET_CPU_NUMBER m =
     (case optional PRIMARY_KEY_CPU (PropertyMap m) of
        None \<Rightarrow> proceed m
      | Some s \<Rightarrow> bind_config (parsed (-4) (from_string_signed 32 (stringTrim '' '' s))) (\<lambda>n.
          proceed (m\<lparr>cpunumber := n\<rparr>)))"

section \<open>Parents and children\<close>

definition toupper :: "char \<Rightarrow> char" where
  "toupper c = (if of_char c \<in> {97 .. 122 :: nat} then char_of (of_char c - 32 :: nat) else c)"

definition port_property :: "string \<Rightarrow> properties \<Rightarrow> nat config" where
  "port_property key props =
     bind_config (property (-2) key props) (\<lambda>s.
     bind_config (parsed (-2) (from_string_unsigned 32 s)) (\<lambda>n. if n = 0 then throw (-2) else proceed n))"

definition add_child :: "string \<Rightarrow> MODULE_CONFIG \<Rightarrow> MODULE_CONFIG config" where
  "add_child name m =
     bind_config (property (-3) (name @ ADDITVE_KEY_MM_HOSTNAME) (PropertyMap m)) (\<lambda>host.
       proceed (m\<lparr>childrenModules := map_put name
         \<lparr>receivedanswer = False, childname = name, child_hostname = host, child_portnum = CONFIGURATION_PORT_NUM m\<rparr>
         (childrenModules m)\<rparr>))"

definition set_addresses :: "MODULE_CONFIG \<Rightarrow> MODULE_CONFIG config" where
  "set_addresses m =
     (let b = optional PRIMARY_KEY_BROADCAST_ADDRESS (PropertyMap m);
          g = optional PRIMARY_KEY_MULTICAST_ADDRESS (PropertyMap m)
      in case (b, g) of
           (Some _, Some _) \<Rightarrow> throw (-3)
         | (None, None) \<Rightarrow> throw (-3)
         | (Some x, None) \<Rightarrow> proceed (m\<lparr>broadcastaddress := x, isBroadcast := True, isMulticast := False\<rparr>)
         | (None, Some x) \<Rightarrow> proceed (m\<lparr>broadcastaddress := x, isBroadcast := False, isMulticast := True\<rparr>))"

definition set_relatives :: "MODULE_CONFIG \<Rightarrow> MODULE_CONFIG config" where
  "set_relatives m =
     (case optional PRIMARY_KEY_PARENT_MODULE_NAME (PropertyMap m) of
        None \<Rightarrow> config_loop add_child (equal_range PRIMARY_KEY_CHILD_MODULE_NAME (PropertyMap m)) (m\<lparr>isSystemModuleManager := True\<rparr>)
      | Some parent \<Rightarrow>
          bind_config (property (-3) (parent @ ADDITVE_KEY_MM_HOSTNAME) (PropertyMap m)) (\<lambda>host.
            if equal_range PRIMARY_KEY_CHILD_MODULE_NAME (PropertyMap m) \<noteq> [] then throw (-3)
            else proceed (m\<lparr>isSystemModuleManager := False, isrunningUnderSystemModuleManager := True,
                            PARENT_NAME := parent, PARENT_HOST := host\<rparr>)))"

definition PREPARE_PARENT_CHILD_INFORMATION :: "MODULE_CONFIG \<Rightarrow> MODULE_CONFIG config" where
  "PREPARE_PARENT_CHILD_INFORMATION m =
     (case optional PRIMARY_KEY_SYNCHRONIZED_EXECUTION (PropertyMap m) of
        None \<Rightarrow> proceed m
      | Some value \<Rightarrow>
          if map toupper value \<noteq> ''TRUE'' then proceed m
          else bind_config (set_addresses m) (\<lambda>m1.
            bind_config (port_property PRIMARY_KEY_CONFIGURATION_PORT (PropertyMap m)) (\<lambda>cport.
            bind_config (port_property PRIMARY_KEY_PARENT_PORT (PropertyMap m)) (\<lambda>pport.
            bind_config (property (-2) PRIMARY_KEY_MODULE_NAME (PropertyMap m)) (\<lambda>name.
              set_relatives (m1\<lparr>CONFIGURATION_PORT_NUM := cport, PARENT_PORT := pport, MODULE_NAME := name\<rparr>))))))"

section \<open>Ports and channels\<close>

definition direction_property :: "int \<Rightarrow> string \<Rightarrow> properties \<Rightarrow> PORT_DIRECTION_TYPE config" where
  "direction_property err port props =
     bind_config (property (-3) (port @ ADDITIVE_KEY_DIRECTION) props) (\<lambda>d.
       if d = ''SOURCE'' then proceed SOURCE else if d = ''DESTINATION'' then proceed DESTINATION else throw err)"

definition PROXY_PORT_of :: "properties \<Rightarrow> string \<Rightarrow> PROXY_PORT_DESCRIPTORS config" where
  "PROXY_PORT_of props name =
     bind_config (property (-3) (name @ ADDITIVE_KEY_MODULE_NAME) props) (\<lambda>host.
     bind_config (property (-3) (name @ ADDITIVE_KEY_TYPE) props) (\<lambda>ty.
     bind_config (if ty = PROXY_TYPE_SAMPLING then proceed SAMPLING
                  else if ty = PROXY_TYPE_QUEUEING then proceed QUEUEING else throw (-3)) (\<lambda>pty.
     bind_config (property (-3) (name @ ADDITIVE_KEY_PORT_NUMBER) props) (\<lambda>s.
     bind_config (parsed (-3) (from_string_unsigned 32 s)) (\<lambda>portnum.
     bind_config (property (-3) (name @ ADDITIVE_KEY_MAXMESSAGESIZE) props) (\<lambda>s.
     bind_config (parsed (-3) (from_string_signed 64 s)) (\<lambda>maxsize.
     bind_config (property (-3) (name @ ADDITIVE_KEY_MAXNUMBEROFMESSAGES) props) (\<lambda>s.
     bind_config (parsed (-3) (from_string_signed 64 s)) (\<lambda>maxnum.
     bind_config (direction_property (-3) name props) (\<lambda>dir.
       proceed \<lparr>PROXY_TYPE = pty, PX_Name = name, PX_hostName = host, PX_portNumber = portnum,
                PX_MAX_MESSAGE_SIZE = maxsize, PX_MAX_NB_MESSAGE = maxnum, PX_PORT_DIRECTION = dir\<rparr>))))))))))"

definition CREATE_PROXY_PORT_DESCRIPTORS :: "MODULE_CONFIG \<Rightarrow> MODULE_CONFIG config" where
  "CREATE_PROXY_PORT_DESCRIPTORS m =
     config_loop (\<lambda>name m. bind_config (PROXY_PORT_of (PropertyMap m) name) (\<lambda>p.
         proceed (m\<lparr>PROXY_PORTS := PROXY_PORTS m @ [p]\<rparr>)))
       (equal_range PRIMARY_KEY_PROXY_PORT (PropertyMap m)) m"

text \<open>The port a channel names must have the direction the channel needs.\<close>

definition check_direction :: "properties \<Rightarrow> string \<Rightarrow> string \<Rightarrow> unit config" where
  "check_direction props wanted port =
     bind_config (property (-3) (port @ ADDITIVE_KEY_DIRECTION) props) (\<lambda>d.
       if d \<noteq> wanted then throw (-3) else proceed ())"

definition CHANNEL_of :: "properties \<Rightarrow> string \<Rightarrow> CHANNEL_DESCRIPTOR config" where
  "CHANNEL_of props name =
     bind_config (property (-3) (name @ ADDITIVE_KEY_SOURCE) props) (\<lambda>src.
     bind_config (check_direction props ''SOURCE'' src) (\<lambda>_.
     bind_config (property (-3) (name @ ADDITIVE_KEY_DESTINATION) props) (\<lambda>_.
     bind_config (config_loop (\<lambda>d _. check_direction props ''DESTINATION'' d)
                   (equal_range (name @ ADDITIVE_KEY_DESTINATION) props) ()) (\<lambda>_.
       proceed \<lparr>CD_source = src, CD_destination = equal_range (name @ ADDITIVE_KEY_DESTINATION) props\<rparr>))))"

definition CREATE_CHANNEL_DSCRIPTOR :: "MODULE_CONFIG \<Rightarrow> MODULE_CONFIG config" where
  "CREATE_CHANNEL_DSCRIPTOR m =
     config_loop (\<lambda>name m. bind_config (CHANNEL_of (PropertyMap m) name) (\<lambda>d.
         proceed (m\<lparr>CHANNEL_MAP := map_put name d (CHANNEL_MAP m)\<rparr>)))
       (equal_range PRIMARY_KEY_CHANNEL_NAME (PropertyMap m)) m"

section \<open>Schedule\<close>

text \<open>One window: offset and duration in seconds, separated by a comma.\<close>

definition add_window :: "config_env \<Rightarrow> nat \<Rightarrow> string \<Rightarrow> MODULE_CONFIG \<Rightarrow> MODULE_CONFIG config" where
  "add_window env i s m =
     (case stringTokenize '','' s of
        [off, dur] \<Rightarrow>
          bind_config (parsed (-4) (seconds env off)) (\<lambda>o_ns.
          bind_config (parsed (-4) (seconds env dur)) (\<lambda>d_ns.
            proceed (m\<lparr>SCHEDULING_VECTOR := SCHEDULING_VECTOR m @
              [\<lparr>OFFSET = o_ns, DURATION = d_ns, PARTITION_INDEX = i\<rparr>]\<rparr>)))
      | _ \<Rightarrow> throw (-3))"

definition add_schedule :: "config_env \<Rightarrow> nat \<Rightarrow> string \<Rightarrow> MODULE_CONFIG \<Rightarrow> MODULE_CONFIG config" where
  "add_schedule env i name m =
     bind_config (property (-3) (name @ ADDITIVE_KEY_SCHEDULE) (PropertyMap m)) (\<lambda>_.
       config_loop (add_window env i) (equal_range (name @ ADDITIVE_KEY_SCHEDULE) (PropertyMap m)) m)"

section \<open>Network partitions\<close>

definition PARTITION_new :: "nat \<Rightarrow> NAME_TYPE \<Rightarrow> PARTITION" where
  "PARTITION_new pid name =
     \<lparr>PID = pid, P_Name = name, Executable = '''', isNetworkPartition = False, QUEUING_PORTS = [], SAMPLING_PORTS = [],
      SAMPLING_CHANNEL_SOURCE_VECTOR = [], QUEUE_CHANNEL_SOURCE_VECTOR = [],
      QUEUE_CHANNEL_INTER_MODULE_DST_VECTOR = [], SAMPLING_CHANNEL_INTER_MODULE_DST_VECTOR = [],
      CONFIGURATION_QUEUE = ''''\<rparr>"

definition upd_partition :: "nat \<Rightarrow> (PARTITION \<Rightarrow> PARTITION) \<Rightarrow> 'a MODULE_MANAGER_scheme \<Rightarrow> 'a MODULE_MANAGER_scheme" where
  "upd_partition i f m = m\<lparr>PARTITION_VECTOR := (PARTITION_VECTOR m)[i := f (PARTITION_VECTOR m ! i)]\<rparr>"

text \<open>Looking up a channel with \<open>[]\<close> adds an empty descriptor when there is none.\<close>

definition channel_source :: "string \<Rightarrow> MODULE_CONFIG \<Rightarrow> string \<times> MODULE_CONFIG" where
  "channel_source name m =
     (case map_of (CHANNEL_MAP m) name of
        Some d \<Rightarrow> (CD_source d, m)
      | None \<Rightarrow> ('''', m\<lparr>CHANNEL_MAP := map_put name \<lparr>CD_source = '''', CD_destination = []\<rparr> (CHANNEL_MAP m)\<rparr>))"

definition add_network_channel :: "nat \<Rightarrow> string \<Rightarrow> MODULE_CONFIG \<Rightarrow> MODULE_CONFIG config" where
  "add_network_channel i name m =
     (let (src, m1) = channel_source name m;
          queue = upd_partition i (\<lambda>p. p\<lparr>QUEUE_CHANNEL_SOURCE_VECTOR := QUEUE_CHANNEL_SOURCE_VECTOR p @ [name]\<rparr>) m1;
          sampling = upd_partition i (\<lambda>p. p\<lparr>SAMPLING_CHANNEL_SOURCE_VECTOR := SAMPLING_CHANNEL_SOURCE_VECTOR p @ [name]\<rparr>) m1
      in case optional (src @ ADDITIVE_KEY_TYPE) (PropertyMap m1) of
           None \<Rightarrow> proceed (if equal_range (src @ ADDITIVE_KEY_REFRESHPERIOD) (PropertyMap m1) = [] then queue else sampling)
         | Some ty \<Rightarrow> if ty = PROXY_TYPE_SAMPLING then proceed sampling
                      else if ty = PROXY_TYPE_QUEUEING then proceed queue else throw (-3))"

text \<open>\<open>snprintf\<close> into a name of 100 characters.\<close>

definition config_queue_name :: "string \<Rightarrow> NAME_TYPE" where
  "config_queue_name name = take 99 (name @ ''_config'')"

definition CREATE_NETWORK_PARTITION ::
  "config_env \<Rightarrow> 'w config_sys \<Rightarrow> string \<Rightarrow> MODULE_CONFIG \<times> 'w \<Rightarrow> (MODULE_CONFIG \<times> 'w) config" where
  "CREATE_NETWORK_PARTITION env sys name = (\<lambda>(m, w).
     let i = length (PARTITION_VECTOR m);
         qname = config_queue_name name;
         (rc, q, w1) = QUEUE_PORT_new (mq_excl sys) qname 4 10 PORT_SOURCE_DEST w;
         m1 = m\<lparr>PARTITION_VECTOR := PARTITION_VECTOR m @
                  [(PARTITION_new (stack_pid env) name)\<lparr>isNetworkPartition := True, CONFIGURATION_QUEUE := qname\<rparr>],
                MAP_OF_CONFIGURATION_QUEUE := (MAP_OF_CONFIGURATION_QUEUE m)(qname \<mapsto> Some q)\<rparr>
     in if rc \<noteq> NO_ERROR then throw (-3)
        else bind_config (config_loop (add_network_channel i) (equal_range (name @ ADDITVE_KEY_CHANNEL) (PropertyMap m)) m1) (\<lambda>m2.
             bind_config (add_schedule env i name m2) (\<lambda>m3.
             case ACM_ROOT env of
               None \<Rightarrow> Undef
             | Some root \<Rightarrow> proceed (upd_partition i (\<lambda>p. p\<lparr>Executable := root @ ''//bin//NetworkPartition''\<rparr>) m3, w1))))"

definition CREATE_NETWORK_PARTITION_VECTOR ::
  "config_env \<Rightarrow> 'w config_sys \<Rightarrow> MODULE_CONFIG \<times> 'w \<Rightarrow> (MODULE_CONFIG \<times> 'w) config" where
  "CREATE_NETWORK_PARTITION_VECTOR env sys s =
     config_loop (CREATE_NETWORK_PARTITION env sys) (equal_range PRIMARY_KEY_NETWORK_PARTITION_NAME (PropertyMap (fst s))) s"

section \<open>Partitions\<close>

definition add_sampling_port :: "config_env \<Rightarrow> nat \<Rightarrow> string \<Rightarrow> MODULE_CONFIG \<Rightarrow> MODULE_CONFIG config" where
  "add_sampling_port env i name m =
     bind_config (property (-3) (name @ ADDITIVE_KEY_MAXMESSAGESIZE) (PropertyMap m)) (\<lambda>s.
     bind_config (parsed (-4) (from_string_signed 64 s)) (\<lambda>maxsize.
     bind_config (property (-3) (name @ ADDITIVE_KEY_REFRESHPERIOD) (PropertyMap m)) (\<lambda>s.
     bind_config (parsed (-4) (seconds env s)) (\<lambda>refresh.
     bind_config (direction_property (-4) name (PropertyMap m)) (\<lambda>dir.
       if fst (SAMPLING_PORT_new name maxsize PORT_SOURCE_DEST refresh (shm_excl env name maxsize) (unmapped_memory env)) \<noteq> NO_ERROR
       then throw (-4)
       else proceed (upd_partition i (\<lambda>p. p\<lparr>SAMPLING_PORTS := SAMPLING_PORTS p @
              [\<lparr>SD_Name = name, SD_MAX_MESSAGE_SIZE = maxsize, SD_REFRESH_PERIOD = refresh, SD_PORT_DIRECTION = dir\<rparr>]\<rparr>) m))))))"

text \<open>The queue is created to see whether it can be, and removed again by the destructor of the port.\<close>

definition add_queuing_port ::
  "'w config_sys \<Rightarrow> nat \<Rightarrow> string \<Rightarrow> MODULE_CONFIG \<times> 'w \<Rightarrow> (MODULE_CONFIG \<times> 'w) config" where
  "add_queuing_port sys i name = (\<lambda>(m, w).
     bind_config (property (-3) (name @ ADDITIVE_KEY_MAXMESSAGESIZE) (PropertyMap m)) (\<lambda>s.
     bind_config (parsed (-4) (from_string_signed 64 s)) (\<lambda>maxsize.
     bind_config (property (-3) (name @ ADDITIVE_KEY_MAXNUMBEROFMESSAGES) (PropertyMap m)) (\<lambda>s.
     bind_config (parsed (-4) (from_string_signed 64 s)) (\<lambda>maxnum.
     bind_config (direction_property (-4) name (PropertyMap m)) (\<lambda>dir.
       let (rc, q, w1) = QUEUE_PORT_new (mq_excl sys) name maxsize maxnum PORT_SOURCE_DEST w in
       if rc \<noteq> NO_ERROR then throw (-3)
       else proceed (upd_partition i (\<lambda>p. p\<lparr>QUEUING_PORTS := QUEUING_PORTS p @
              [\<lparr>QD_Name = name, QD_MAX_MESSAGE_SIZE = maxsize, QD_MAX_NB_MESSAGE = maxnum, QD_PORT_DIRECTION = dir\<rparr>]\<rparr>) m,
            mq_remove sys q w1)))))))"

definition CREATE_PARTITION ::
  "config_env \<Rightarrow> 'w config_sys \<Rightarrow> string \<Rightarrow> MODULE_CONFIG \<times> 'w \<Rightarrow> (MODULE_CONFIG \<times> 'w) config" where
  "CREATE_PARTITION env sys name = (\<lambda>(m, w).
     let i = length (PARTITION_VECTOR m); props = PropertyMap m in
     bind_config (property (-3) (name @ ADDITIVE_KEY_EXECUTABLE) props) (\<lambda>exe.
       if \<not> fexists env exe then throw (-3)
       else bind_config (add_schedule env i name
              (m\<lparr>PARTITION_VECTOR := PARTITION_VECTOR m @ [(PARTITION_new 0 name)\<lparr>Executable := exe\<rparr>]\<rparr>)) (\<lambda>m1.
            bind_config (config_loop (add_sampling_port env i) (equal_range (name @ ADDITIVE_KEY_SAMPLINGPORT) props) m1) (\<lambda>m2.
              config_loop (add_queuing_port sys i) (equal_range (name @ ADDITIVE_KEY_QUEUINGPORT) props) (m2, w)))))"

end
