(* ===== verification/ModuleChannels.thy ===== *)
theory ModuleChannels
  imports ModuleConfig
begin

text \<open>
  CREATE\_QUEUEING\_CHANNELS and CREATE\_SAMPLING\_CHANNELS of ModuleManager/ModuleInitialization.cc: a
  channel for every source port of a partition and every proxy port that is a source, with the
  destinations found in the partitions or among the proxy ports; then the whole configuration, as the
  constructor of ModuleManager.cc does it.  This is the build of the module manager itself
  (not ISNETWORK\_PARTITION).  ENSURE\_CONDITION throws -1; its macro negates only the first comparison, so
  that it throws on every return code but NO\_ERROR.
\<close>

section \<open>Lookup\<close>

fun find_queuing :: "NAME_TYPE \<Rightarrow> nat \<Rightarrow> PARTITION list \<Rightarrow> (nat \<times> QUEUING_PORT_DESCRIPTOR) option" where
  "find_queuing name i [] = None"
| "find_queuing name i (p # ps) =
     (case find (\<lambda>d. QD_Name d = name) (QUEUING_PORTS p) of
        Some d \<Rightarrow> Some (i, d)
      | None \<Rightarrow> find_queuing name (i + 1) ps)"

definition FIND_PARTITION_FROM_QUEUING_PORT ::
  "NAME_TYPE \<Rightarrow> MODULE_CONFIG \<Rightarrow> (nat \<times> QUEUING_PORT_DESCRIPTOR) option" where
  "FIND_PARTITION_FROM_QUEUING_PORT name m = find_queuing name 0 (PARTITION_VECTOR m)"

fun find_sampling :: "NAME_TYPE \<Rightarrow> nat \<Rightarrow> PARTITION list \<Rightarrow> (nat \<times> SAMPLING_PORT_DESCRIPTOR) option" where
  "find_sampling name i [] = None"
| "find_sampling name i (p # ps) =
     (case find (\<lambda>d. SD_Name d = name) (SAMPLING_PORTS p) of
        Some d \<Rightarrow> Some (i, d)
      | None \<Rightarrow> find_sampling name (i + 1) ps)"

definition FIND_PARTITION_FROM_SAMPLING_PORT ::
  "NAME_TYPE \<Rightarrow> MODULE_CONFIG \<Rightarrow> (nat \<times> SAMPLING_PORT_DESCRIPTOR) option" where
  "FIND_PARTITION_FROM_SAMPLING_PORT name m = find_sampling name 0 (PARTITION_VECTOR m)"

text \<open>A channel that a network partition fires is not created here.\<close>

definition CanAddChannel :: "NAME_TYPE \<Rightarrow> MODULE_CONFIG \<Rightarrow> bool" where
  "CanAddChannel name m \<longleftrightarrow>
     \<not> (\<exists>p\<in>set (PARTITION_VECTOR m). isNetworkPartition p \<and> CheckIfChannelExists name p)"

text \<open>The first channel with a source, which the loops end with.\<close>

definition channel_of_source :: "NAME_TYPE \<Rightarrow> MODULE_CONFIG \<Rightarrow> (string \<times> CHANNEL_DESCRIPTOR) option" where
  "channel_of_source src m = find (\<lambda>(name, d). CD_source d = src) (CHANNEL_MAP m)"

definition ENSURE_CONDITION :: "RETURN_CODE_TYPE \<Rightarrow> unit config" where
  "ENSURE_CONDITION rc = (if rc \<noteq> NO_ERROR then throw (-1) else proceed ())"

text \<open>The conversion to \<open>unsigned int\<close>.\<close>

definition to_unsigned :: "int \<Rightarrow> nat" where
  "to_unsigned n = nat (n mod 2 ^ 32)"

definition proxy_url :: "PROXY_PORT_DESCRIPTORS \<Rightarrow> DESTINATION_URL" where
  "proxy_url p = \<lparr>node_name = PX_hostName p, url_port = PX_portNumber p mod 65536\<rparr>"

section \<open>Queuing channels\<close>

definition add_queue_destination ::
  "'w config_sys \<Rightarrow> MODULE_CONFIG \<Rightarrow> NAME_TYPE \<Rightarrow> QUEUE_CHANNEL \<times> 'w \<Rightarrow> (QUEUE_CHANNEL \<times> 'w) config" where
  "add_queue_destination sys m dest = (\<lambda>(c, w).
     case FIND_PARTITION_FROM_QUEUING_PORT dest m of
       None \<Rightarrow>
         (case find (\<lambda>p. PX_Name p = dest) (PROXY_PORTS m) of
            None \<Rightarrow> throw (-1)
          | Some p \<Rightarrow>
              if PX_PORT_DIRECTION p \<noteq> DESTINATION then throw (-1)
              else let (rc, c1) = (if QC_COMMUNICATION_TYPE c \<noteq> INTER_MODULE_SRC
                                   then QC_SET_COMMUNICATION_TYPE_ENUM INTER_MODULE_SRC 0 c else (NO_ERROR, c))
                in bind_config (ENSURE_CONDITION rc) (\<lambda>_. proceed (snd (QC_ADD_DESTINATION_URL (proxy_url p) c1), w)))
     | Some (j, d) \<Rightarrow>
         if QD_PORT_DIRECTION d \<noteq> DESTINATION then throw (-1)
         else let (rc, c1, w1) = QC_ADD_DESTINATION_QUEUE (mq_create sys) (QD_Name d) (QD_MAX_MESSAGE_SIZE d) (QD_MAX_NB_MESSAGE d) c w
           in bind_config (ENSURE_CONDITION rc) (\<lambda>_. proceed (c1, w1)))"

definition create_queue_channel ::
  "config_env \<Rightarrow> 'w config_sys \<Rightarrow> nat \<Rightarrow> QUEUING_PORT_DESCRIPTOR \<Rightarrow> string \<times> CHANNEL_DESCRIPTOR \<Rightarrow>
   MODULE_CONFIG \<times> 'w \<Rightarrow> (MODULE_CONFIG \<times> 'w) config" where
  "create_queue_channel env sys i port = (\<lambda>(name, d) (m, w).
     bind_outcome (QC_ADD_SOURCE_QUEUE (mq_create sys) (QD_Name port) (QD_MAX_MESSAGE_SIZE port) (QD_MAX_NB_MESSAGE port)
         (new_chars env (QD_MAX_MESSAGE_SIZE port)) (QUEUE_CHANNEL_new name INTRA_MODULE 0) w) (\<lambda>(rc, c, w1).
     bind_config (ENSURE_CONDITION rc) (\<lambda>_.
     bind_config (config_loop (add_queue_destination sys m) (CD_destination d) (c, w1)) (\<lambda>(c1, w2).
       proceed ((upd_partition i (\<lambda>p. p\<lparr>QUEUE_CHANNEL_SOURCE_VECTOR := QUEUE_CHANNEL_SOURCE_VECTOR p @ [name]\<rparr>) m)
                  \<lparr>MAP_OF_QUEUEING_CHANNELS := (MAP_OF_QUEUEING_CHANNELS m)(name \<mapsto> QC_SET_INITIALIZED c1)\<rparr>, w2)))))"

definition source_queue_channel ::
  "config_env \<Rightarrow> 'w config_sys \<Rightarrow> nat \<Rightarrow> QUEUING_PORT_DESCRIPTOR \<Rightarrow> MODULE_CONFIG \<times> 'w \<Rightarrow> (MODULE_CONFIG \<times> 'w) config" where
  "source_queue_channel env sys i port s =
     (if QD_PORT_DIRECTION port = DESTINATION then proceed s
      else case channel_of_source (QD_Name port) (fst s) of
             None \<Rightarrow> proceed s
           | Some nd \<Rightarrow> if CanAddChannel (fst nd) (fst s) then create_queue_channel env sys i port nd s else proceed s)"

definition add_inter_queue_destination ::
  "'w config_sys \<Rightarrow> NAME_TYPE \<Rightarrow> NAME_TYPE \<Rightarrow> QUEUE_CHANNEL \<times> MODULE_CONFIG \<times> 'w \<Rightarrow> (QUEUE_CHANNEL \<times> MODULE_CONFIG \<times> 'w) config" where
  "add_inter_queue_destination sys name dest = (\<lambda>(c, m, w).
     case FIND_PARTITION_FROM_QUEUING_PORT dest m of
       None \<Rightarrow> throw (-1)
     | Some (j, d) \<Rightarrow>
         if QD_PORT_DIRECTION d \<noteq> DESTINATION then throw (-1)
         else let (rc, c1, w1) = QC_ADD_DESTINATION_QUEUE (mq_create sys) (QD_Name d) (QD_MAX_MESSAGE_SIZE d) (QD_MAX_NB_MESSAGE d) c w
           in bind_config (ENSURE_CONDITION rc) (\<lambda>_.
                proceed (c1, upd_partition j (\<lambda>p. if name \<in> set (QUEUE_CHANNEL_INTER_MODULE_DST_VECTOR p) then p
                   else p\<lparr>QUEUE_CHANNEL_INTER_MODULE_DST_VECTOR := QUEUE_CHANNEL_INTER_MODULE_DST_VECTOR p @ [name]\<rparr>) m, w1)))"

definition inter_queue_channel ::
  "config_env \<Rightarrow> 'w config_sys \<Rightarrow> PROXY_PORT_DESCRIPTORS \<Rightarrow> MODULE_CONFIG \<times> 'w \<Rightarrow> (MODULE_CONFIG \<times> 'w) config" where
  "inter_queue_channel env sys proxy = (\<lambda>(m, w).
     if PX_PORT_DIRECTION proxy = DESTINATION \<or> PROXY_TYPE proxy = SAMPLING then proceed (m, w)
     else case channel_of_source (PX_Name proxy) m of
       None \<Rightarrow> proceed (m, w)
     | Some (name, d) \<Rightarrow>
         if \<not> CanAddChannel name m then proceed (m, w)
         else let c = QUEUE_CHANNEL_new name INTER_MODULE_DST (PX_portNumber proxy);
                  (_, c1) = QC_SET_MAX_SIZE_OF_MESSAGE (PX_MAX_MESSAGE_SIZE proxy) (new_chars env (PX_MAX_MESSAGE_SIZE proxy)) c;
                  (rc, c2) = QC_SET_MAX_SOCKET_MESSAGE (to_unsigned (PX_MAX_NB_MESSAGE proxy)) c1
           in bind_config (ENSURE_CONDITION rc) (\<lambda>_.
              bind_config (config_loop (add_inter_queue_destination sys name) (CD_destination d) (c2, m, w)) (\<lambda>(c3, m1, w1).
                proceed (m1\<lparr>MAP_OF_QUEUEING_CHANNELS := (MAP_OF_QUEUEING_CHANNELS m1)(name \<mapsto> QC_SET_INITIALIZED c3)\<rparr>, w1))))"

definition CREATE_QUEUEING_CHANNELS ::
  "config_env \<Rightarrow> 'w config_sys \<Rightarrow> MODULE_CONFIG \<times> 'w \<Rightarrow> (MODULE_CONFIG \<times> 'w) config" where
  "CREATE_QUEUEING_CHANNELS env sys s =
     bind_config (config_loop (\<lambda>i s. config_loop (source_queue_channel env sys i) (QUEUING_PORTS (PARTITION_VECTOR (fst s) ! i)) s)
                    [0..<length (PARTITION_VECTOR (fst s))] s)
       (\<lambda>s1. config_loop (inter_queue_channel env sys) (PROXY_PORTS (fst s1)) s1)"

section \<open>Sampling channels\<close>

text \<open>The search among the proxy ports goes on where the one for an earlier destination ended, and a port
  found for an earlier destination counts for the later ones too.\<close>

fun scan_proxies :: "NAME_TYPE \<Rightarrow> nat \<Rightarrow> PROXY_PORT_DESCRIPTORS list \<Rightarrow> nat \<times> bool" where
  "scan_proxies dest k [] = (k, False)"
| "scan_proxies dest k (p # ps) = (if PX_Name p = dest then (k, True) else scan_proxies dest (k + 1) ps)"

definition add_proxy_url :: "PROXY_PORT_DESCRIPTORS \<Rightarrow> SAMPLING_CHANNEL \<Rightarrow> SAMPLING_CHANNEL config" where
  "add_proxy_url p c =
     (let (rc, c1) = (if SC_COMMUNICATION_TYPE c \<noteq> INTER_MODULE_SRC
                      then SC_SET_COMMUNICATION_TYPE_ENUM INTER_MODULE_SRC 0 c else (NO_ERROR, c))
      in bind_config (ENSURE_CONDITION rc) (\<lambda>_. proceed (snd (SC_ADD_DESTINATION_URL (proxy_url p) c1))))"

definition add_sampling_destination ::
  "config_env \<Rightarrow> MODULE_CONFIG \<Rightarrow> NAME_TYPE \<Rightarrow> SAMPLING_CHANNEL \<times> nat \<times> bool \<Rightarrow> (SAMPLING_CHANNEL \<times> nat \<times> bool) config" where
  "add_sampling_destination env m dest = (\<lambda>(c, k, found).
     case FIND_PARTITION_FROM_SAMPLING_PORT dest m of
       None \<Rightarrow>
         (let (k1, now_found) = scan_proxies dest k (drop k (PROXY_PORTS m)); found1 = (found \<or> now_found) in
          if \<not> found1 then throw (-1)
          else if length (PROXY_PORTS m) \<le> k1 then Undef
          else if PX_PORT_DIRECTION (PROXY_PORTS m ! k1) \<noteq> DESTINATION then throw (-1)
          else bind_config (add_proxy_url (PROXY_PORTS m ! k1) c) (\<lambda>c1. proceed (c1, k1, found1)))
     | Some (j, d) \<Rightarrow>
         if found then bind_config (add_proxy_url (PROXY_PORTS m ! k) c) (\<lambda>c1. proceed (c1, k, found))
         else if SD_PORT_DIRECTION d \<noteq> DESTINATION then throw (-1)
         else let (rc, c1) = SC_ADD_DESTINATION (SD_Name d) (SD_MAX_MESSAGE_SIZE d) (SD_REFRESH_PERIOD d)
                               (shm_create env (SD_Name d) (SD_MAX_MESSAGE_SIZE d)) (unmapped_memory env) c
           in bind_config (ENSURE_CONDITION rc) (\<lambda>_. proceed (c1, k, found)))"

definition create_sampling_channel ::
  "config_env \<Rightarrow> nat \<Rightarrow> SAMPLING_PORT_DESCRIPTOR \<Rightarrow> string \<times> CHANNEL_DESCRIPTOR \<Rightarrow> MODULE_CONFIG \<Rightarrow> MODULE_CONFIG config" where
  "create_sampling_channel env i port = (\<lambda>(name, d) m.
     let (rc, c) = SC_ADD_SOURCE (SD_Name port) (SD_MAX_MESSAGE_SIZE port) (SD_REFRESH_PERIOD port)
           (shm_create env (SD_Name port) (SD_MAX_MESSAGE_SIZE port)) (unmapped_memory env) (SAMPLING_CHANNEL_new name INTRA_MODULE 0 (channel_buffer env))
     in bind_config (ENSURE_CONDITION rc) (\<lambda>_.
        bind_config (config_loop (add_sampling_destination env m) (CD_destination d) (c, 0, False)) (\<lambda>(c1, k, found).
          proceed ((upd_partition i (\<lambda>p. p\<lparr>SAMPLING_CHANNEL_SOURCE_VECTOR := SAMPLING_CHANNEL_SOURCE_VECTOR p @ [name]\<rparr>) m)
                     \<lparr>MAP_OF_SAMPLING_CHANNELS := (MAP_OF_SAMPLING_CHANNELS m)(name \<mapsto> SC_SET_INITIALIZED c1)\<rparr>))))"

definition source_sampling_channel ::
  "config_env \<Rightarrow> nat \<Rightarrow> SAMPLING_PORT_DESCRIPTOR \<Rightarrow> MODULE_CONFIG \<Rightarrow> MODULE_CONFIG config" where
  "source_sampling_channel env i port m =
     (if SD_PORT_DIRECTION port = DESTINATION then proceed m
      else case channel_of_source (SD_Name port) m of
             None \<Rightarrow> proceed m
           | Some nd \<Rightarrow> if CanAddChannel (fst nd) m then create_sampling_channel env i port nd m else proceed m)"

definition add_inter_sampling_destination ::
  "config_env \<Rightarrow> NAME_TYPE \<Rightarrow> NAME_TYPE \<Rightarrow> SAMPLING_CHANNEL \<times> MODULE_CONFIG \<Rightarrow> (SAMPLING_CHANNEL \<times> MODULE_CONFIG) config" where
  "add_inter_sampling_destination env name dest = (\<lambda>(c, m).
     case FIND_PARTITION_FROM_SAMPLING_PORT dest m of
       None \<Rightarrow> throw (-1)
     | Some (j, d) \<Rightarrow>
         if SD_PORT_DIRECTION d \<noteq> DESTINATION then throw (-1)
         else let (rc, c1) = SC_ADD_DESTINATION (SD_Name d) (SD_MAX_MESSAGE_SIZE d) (SD_REFRESH_PERIOD d)
                               (shm_create env (SD_Name d) (SD_MAX_MESSAGE_SIZE d)) (unmapped_memory env) c
           in bind_config (ENSURE_CONDITION rc) (\<lambda>_.
                proceed (c1, upd_partition j (\<lambda>p. if name \<in> set (SAMPLING_CHANNEL_INTER_MODULE_DST_VECTOR p) then p
                   else p\<lparr>SAMPLING_CHANNEL_INTER_MODULE_DST_VECTOR := SAMPLING_CHANNEL_INTER_MODULE_DST_VECTOR p @ [name]\<rparr>) m)))"

definition inter_sampling_channel ::
  "config_env \<Rightarrow> PROXY_PORT_DESCRIPTORS \<Rightarrow> MODULE_CONFIG \<Rightarrow> MODULE_CONFIG config" where
  "inter_sampling_channel env proxy m =
     (if PX_PORT_DIRECTION proxy = DESTINATION \<or> PROXY_TYPE proxy = QUEUEING then proceed m
      else case channel_of_source (PX_Name proxy) m of
        None \<Rightarrow> proceed m
      | Some (name, d) \<Rightarrow>
          if \<not> CanAddChannel name m then proceed m
          else let c = SAMPLING_CHANNEL_new name INTER_MODULE_DST (PX_portNumber proxy) (channel_buffer env);
                   (_, c1) = SC_SET_MAX_SIZE_OF_MESSAGE (PX_MAX_MESSAGE_SIZE proxy) c;
                   (rc, c2) = SC_SET_MAX_SOCKET_MESSAGE (to_unsigned (PX_MAX_NB_MESSAGE proxy)) c1
            in bind_config (ENSURE_CONDITION rc) (\<lambda>_.
               bind_config (config_loop (add_inter_sampling_destination env name) (CD_destination d) (c2, m)) (\<lambda>(c3, m1).
                 proceed (m1\<lparr>MAP_OF_SAMPLING_CHANNELS := (MAP_OF_SAMPLING_CHANNELS m1)(name \<mapsto> SC_SET_INITIALIZED c3)\<rparr>))))"

definition CREATE_SAMPLING_CHANNELS :: "config_env \<Rightarrow> MODULE_CONFIG \<Rightarrow> MODULE_CONFIG config" where
  "CREATE_SAMPLING_CHANNELS env m =
     bind_config (config_loop (\<lambda>i m. config_loop (source_sampling_channel env i) (SAMPLING_PORTS (PARTITION_VECTOR m ! i)) m)
                    [0..<length (PARTITION_VECTOR m)] m)
       (\<lambda>m1. config_loop (inter_sampling_channel env) (PROXY_PORTS m1) m1)"

section \<open>The whole configuration\<close>

definition CREATE_PARTITION_VECTOR ::
  "config_env \<Rightarrow> 'w config_sys \<Rightarrow> MODULE_CONFIG \<times> 'w \<Rightarrow> (MODULE_CONFIG \<times> 'w) config" where
  "CREATE_PARTITION_VECTOR env sys = (\<lambda>(m, w).
     bind_config (CREATE_PROXY_PORT_DESCRIPTORS m) (\<lambda>m1.
     bind_config (CREATE_CHANNEL_DSCRIPTOR m1) (\<lambda>m2.
     bind_config (CREATE_NETWORK_PARTITION_VECTOR env sys (m2, w)) (\<lambda>s3.
     bind_config (config_loop (CREATE_PARTITION env sys) (equal_range PRIMARY_KEY_PARTITION_NAME (PropertyMap (fst s3))) s3) (\<lambda>s4.
     bind_config (CREATE_QUEUEING_CHANNELS env sys s4) (\<lambda>(m5, w5).
     bind_config (CREATE_SAMPLING_CHANNELS env m5) (\<lambda>m6. proceed (m6, w5))))))))"

definition MAX_PARTITION_NUM :: nat where "MAX_PARTITION_NUM = 10"

text \<open>The values the constructor starts from; \<open>MAJOR_FRAME_SIZE\<close> is not initialised before it is read.\<close>

definition MODULE_MANAGER_init :: "nat \<Rightarrow> SYSTEM_TIME_TYPE \<Rightarrow> MODULE_CONFIG" where
  "MODULE_MANAGER_init config_port frame =
     \<lparr>PARTITION_VECTOR = [], SCHEDULING_VECTOR = [], MAJOR_FRAME_SIZE = frame, isMAX_NUMBER_OF_FRAMES_SET = False,
      MAX_NUMBER_OF_FRAMES = -1, MAP_OF_QUEUEING_CHANNELS = Map.empty, MAP_OF_SAMPLING_CHANNELS = Map.empty,
      MAP_OF_CONFIGURATION_QUEUE = Map.empty, PROXY_PORTS = [], DUMMY_PROCESS_ID = 0,
      PropertyMap = [], CHANNEL_MAP = [], NumberOfInitStages = 1, MIN_WAIT_TIME = 500, isMIN_WAIT_TIME_SET = False,
      DISCOVERY_PROTOCOL = IOR, NS_HOST_IP = '''', NS_PORT_NUMBER = 0, cpunumber = 0, MODULE_NAME = '''', PARENT_NAME = '''',
      PARENT_HOST = '''', PARENT_PORT = 0, CONFIGURATION_PORT_NUM = config_port, isSystemModuleManager = False,
      isrunningUnderSystemModuleManager = False, isBroadcast = False, isMulticast = False, broadcastaddress = '''',
      childrenModules = []\<rparr>"

text \<open>The constructor; \<open>srt\<close> is std::sort with SCHEDULE\_COMP.\<close>

definition MODULE_MANAGER_new ::
  "(SCHEDULING_TUPLE list \<Rightarrow> SCHEDULING_TUPLE list) \<Rightarrow> config_env \<Rightarrow> 'w config_sys \<Rightarrow> string list option \<Rightarrow>
   MODULE_CONFIG \<times> 'w \<Rightarrow> (MODULE_CONFIG \<times> 'w) config" where
  "MODULE_MANAGER_new srt env sys file = (\<lambda>(m, w).
     bind_config (INIT_PARTITION_PROPERTY_MAP file (PropertyMap m)) (\<lambda>props.
     bind_config (SET_MAJOR_FRAME_SIZE env (m\<lparr>PropertyMap := props\<rparr>)) (\<lambda>m1.
     bind_config (SET_MAX_NUMBER_OF_FRAMES m1) (\<lambda>m2.
     bind_config (READ_NUMBER_OF_INIT_STAGES m2) (\<lambda>m3.
     bind_config (SET_MIN_WAIT_TIME m3) (\<lambda>m4.
     bind_config (PREPARE_PARENT_CHILD_INFORMATION m4) (\<lambda>m5.
     bind_config (SET_DISCOVERY_PROTOCOL m5) (\<lambda>m6.
     bind_config (SET_CPU_NUMBER m6) (\<lambda>m7.
     bind_config (CREATE_PARTITION_VECTOR env sys (m7, w)) (\<lambda>(m8, w8).
       if length (PARTITION_VECTOR m8) > MAX_PARTITION_NUM then throw (-6)
       else bind_config (check_schedule (MAJOR_FRAME_SIZE m8) (srt (SCHEDULING_VECTOR m8))) (\<lambda>_.
              proceed (m8\<lparr>SCHEDULING_VECTOR := srt (SCHEDULING_VECTOR m8)\<rparr>, w8))))))))))))"

end
