(* ===== verification/ConfigProperties.thy ===== *)
theory ConfigProperties
  imports ModuleChannels ModuleRuns
begin

text \<open>
  What an accepted configuration guarantees: the windows belong to partitions of the module, every channel a
  partition moves exists, every sampling channel is well formed, and the schedule was checked; so the
  loop of the module manager can run it.
\<close>

section \<open>Consistent tables\<close>

definition queue_names :: "PARTITION \<Rightarrow> NAME_TYPE set" where
  "queue_names p = set (QUEUE_CHANNEL_INTER_MODULE_DST_VECTOR p @ QUEUE_CHANNEL_SOURCE_VECTOR p)"

definition sampling_names :: "PARTITION \<Rightarrow> NAME_TYPE set" where
  "sampling_names p = set (SAMPLING_CHANNEL_INTER_MODULE_DST_VECTOR p @ SAMPLING_CHANNEL_SOURCE_VECTOR p)"

definition names_ok :: "NAME_TYPE set \<Rightarrow> NAME_TYPE set \<Rightarrow> 'a MODULE_MANAGER_scheme \<Rightarrow> bool" where
  "names_ok Q S m \<longleftrightarrow>
     (\<forall>p\<in>set (PARTITION_VECTOR m). \<not> isNetworkPartition p \<longrightarrow> queue_names p \<subseteq> Q \<and> sampling_names p \<subseteq> S)"

definition sched_ok :: "'a MODULE_MANAGER_scheme \<Rightarrow> bool" where
  "sched_ok m \<longleftrightarrow> (\<forall>x\<in>set (SCHEDULING_VECTOR m). PARTITION_INDEX x < length (PARTITION_VECTOR m))"

definition config_ok :: "'a MODULE_MANAGER_scheme \<Rightarrow> bool" where
  "config_ok m \<longleftrightarrow> sched_ok m \<and>
     names_ok (dom (MAP_OF_QUEUEING_CHANNELS m)) (dom (MAP_OF_SAMPLING_CHANNELS m)) m \<and>
     (\<forall>c\<in>ran (MAP_OF_SAMPLING_CHANNELS m). sc_inv c)"

text \<open>What the system and the allocations give: the buffer of a channel has its size, memory mapped for a port
  has the size asked for.\<close>

definition env_ok :: "config_env \<Rightarrow> bool" where
  "env_ok env \<longleftrightarrow> length (channel_buffer env) = nat (16 + SYSTEM_LIMIT_MAX_SAMPLING_MESSAGE_SIZE) \<and>
     (\<forall>name n mem. shm_mapped (shm_create env name n) = Some mem \<longrightarrow> int (length (data mem)) = n)"

named_theorems config_simps

lemma upd_partition_fields [config_simps]:
  "length (PARTITION_VECTOR (upd_partition i f m)) = length (PARTITION_VECTOR m)"
  "SCHEDULING_VECTOR (upd_partition i f m) = SCHEDULING_VECTOR m"
  "MAP_OF_QUEUEING_CHANNELS (upd_partition i f m) = MAP_OF_QUEUEING_CHANNELS m"
  "MAP_OF_SAMPLING_CHANNELS (upd_partition i f m) = MAP_OF_SAMPLING_CHANNELS m"
  "MAJOR_FRAME_SIZE (upd_partition i f m) = MAJOR_FRAME_SIZE m"
  by (simp_all add: upd_partition_def)

lemma sched_ok_upd [config_simps]: "sched_ok (upd_partition i f m) = sched_ok m"
  by (simp add: sched_ok_def config_simps)

lemma names_ok_upd:
  assumes "names_ok Q S m"
    "i < length (PARTITION_VECTOR m) \<Longrightarrow> \<not> isNetworkPartition (f (PARTITION_VECTOR m ! i)) \<Longrightarrow>
       \<not> isNetworkPartition (PARTITION_VECTOR m ! i) \<and>
       queue_names (f (PARTITION_VECTOR m ! i)) \<subseteq> queue_names (PARTITION_VECTOR m ! i) \<union> Q \<and>
       sampling_names (f (PARTITION_VECTOR m ! i)) \<subseteq> sampling_names (PARTITION_VECTOR m ! i) \<union> S"
  shows "names_ok Q S (upd_partition i f m)"
proof (cases "i < length (PARTITION_VECTOR m)")
  case True
  let ?p = "PARTITION_VECTOR m ! i"
  have "?p \<in> set (PARTITION_VECTOR m)" using True by simp
  then have old: "\<not> isNetworkPartition ?p \<longrightarrow> queue_names ?p \<subseteq> Q \<and> sampling_names ?p \<subseteq> S"
    using assms(1) unfolding names_ok_def by blast
  then have new: "\<not> isNetworkPartition (f ?p) \<longrightarrow> queue_names (f ?p) \<subseteq> Q \<and> sampling_names (f ?p) \<subseteq> S"
    using assms(2) [OF True] by blast
  have "set (PARTITION_VECTOR (upd_partition i f m)) \<subseteq> insert (f ?p) (set (PARTITION_VECTOR m))"
    by (simp add: upd_partition_def set_update_subset_insert)
  then show ?thesis using new assms(1) unfolding names_ok_def by blast
next
  case False
  then show ?thesis using assms(1) by (simp add: names_ok_def upd_partition_def list_update_beyond)
qed

lemma names_ok_mono: "names_ok Q S m \<Longrightarrow> Q \<subseteq> Q' \<Longrightarrow> S \<subseteq> S' \<Longrightarrow> names_ok Q' S' m"
  unfolding names_ok_def by blast

lemma names_ok_cong: "PARTITION_VECTOR m = PARTITION_VECTOR m' \<Longrightarrow> names_ok Q S m = names_ok Q S m'"
  by (simp add: names_ok_def)

lemma config_ok_cong:
  assumes "PARTITION_VECTOR m' = PARTITION_VECTOR m" "SCHEDULING_VECTOR m' = SCHEDULING_VECTOR m"
    "MAP_OF_QUEUEING_CHANNELS m' = MAP_OF_QUEUEING_CHANNELS m" "MAP_OF_SAMPLING_CHANNELS m' = MAP_OF_SAMPLING_CHANNELS m"
  shows "config_ok m' = config_ok m"
  using assms by (simp add: config_ok_def sched_ok_def names_ok_def)

text \<open>Updates of a partition that leave its names of channels alone.\<close>

lemma config_ok_upd:
  assumes "config_ok m"
    "\<And>p. isNetworkPartition (f p) = isNetworkPartition p \<and> queue_names (f p) = queue_names p \<and> sampling_names (f p) = sampling_names p"
  shows "config_ok (upd_partition i f m)"
proof -
  have "names_ok (dom (MAP_OF_QUEUEING_CHANNELS m)) (dom (MAP_OF_SAMPLING_CHANNELS m)) (upd_partition i f m)"
    using assms by (intro names_ok_upd) (auto simp: config_ok_def)
  then show ?thesis using assms(1) by (simp add: config_ok_def config_simps)
qed

lemma config_ok_new_partition:
  assumes "config_ok m" "isNetworkPartition p \<or> queue_names p = {} \<and> sampling_names p = {}"
  shows "config_ok (m\<lparr>PARTITION_VECTOR := PARTITION_VECTOR m @ [p]\<rparr>)"
  using assms by (auto simp: config_ok_def sched_ok_def names_ok_def less_SucI)

section \<open>Steps that do not touch the tables\<close>

definition tables_same :: "MODULE_CONFIG \<Rightarrow> MODULE_CONFIG \<Rightarrow> bool" where
  "tables_same m m' \<longleftrightarrow> PARTITION_VECTOR m' = PARTITION_VECTOR m \<and> SCHEDULING_VECTOR m' = SCHEDULING_VECTOR m \<and>
     MAP_OF_QUEUEING_CHANNELS m' = MAP_OF_QUEUEING_CHANNELS m \<and> MAP_OF_SAMPLING_CHANNELS m' = MAP_OF_SAMPLING_CHANNELS m"

lemma tables_same_config: "tables_same m m' \<Longrightarrow> config_ok m' = config_ok m"
  unfolding tables_same_def by (intro config_ok_cong) auto

lemma parsed_proceed [simp]: "parsed err x = proceed v \<longleftrightarrow> x = Some v"
  by (auto simp: parsed_def split: option.splits)

lemma tables_same_values:
  "SET_MAJOR_FRAME_SIZE env m = proceed m' \<Longrightarrow> tables_same m m'"
  "SET_MAX_NUMBER_OF_FRAMES m = proceed m' \<Longrightarrow> tables_same m m'"
  "READ_NUMBER_OF_INIT_STAGES m = proceed m' \<Longrightarrow> tables_same m m'"
  "SET_MIN_WAIT_TIME m = proceed m' \<Longrightarrow> tables_same m m'"
  "SET_DISCOVERY_PROTOCOL m = proceed m' \<Longrightarrow> tables_same m m'"
  "SET_CPU_NUMBER m = proceed m' \<Longrightarrow> tables_same m m'"
  by (auto simp: SET_MAJOR_FRAME_SIZE_def SET_MAX_NUMBER_OF_FRAMES_def READ_NUMBER_OF_INIT_STAGES_def
      SET_MIN_WAIT_TIME_def SET_DISCOVERY_PROTOCOL_def SET_CPU_NUMBER_def tables_same_def bind_config_proceed Let_def
      split: option.splits if_splits)

lemma tables_same_loop:
  assumes "config_loop f xs m = proceed m'" "\<And>x m m'. f x m = proceed m' \<Longrightarrow> tables_same m m'"
  shows "tables_same m m'"
  by (rule config_loop_inv [OF assms(1), where P = "tables_same m"]) (use assms(2) in \<open>auto simp: tables_same_def\<close>)

lemma tables_same_descriptors:
  "CREATE_PROXY_PORT_DESCRIPTORS m = proceed m' \<Longrightarrow> tables_same m m'"
  "CREATE_CHANNEL_DSCRIPTOR m = proceed m' \<Longrightarrow> tables_same m m'"
  unfolding CREATE_PROXY_PORT_DESCRIPTORS_def CREATE_CHANNEL_DSCRIPTOR_def
  by (erule tables_same_loop; auto simp: bind_config_proceed tables_same_def)+

lemma tables_same_parents: "PREPARE_PARENT_CHILD_INFORMATION m = proceed m' \<Longrightarrow> tables_same m m'"
proof -
  have child: "add_child x m = proceed m' \<Longrightarrow> tables_same m m'" for x m m'
    by (auto simp: add_child_def bind_config_proceed tables_same_def)
  have relatives: "tables_same m m'" if rel: "set_relatives m = proceed m'" for m m'
  proof (cases "optional PRIMARY_KEY_PARENT_MODULE_NAME (PropertyMap m)")
    case None
    then have "config_loop add_child (equal_range PRIMARY_KEY_CHILD_MODULE_NAME (PropertyMap m)) (m\<lparr>isSystemModuleManager := True\<rparr>) = proceed m'"
      using rel by (simp add: set_relatives_def)
    from tables_same_loop [OF this child] show ?thesis by (simp add: tables_same_def)
  qed (use rel in \<open>auto simp: set_relatives_def bind_config_proceed tables_same_def split: if_splits\<close>)
  have addresses: "set_addresses m = proceed m' \<Longrightarrow> tables_same m m'" for m m'
    by (auto simp: set_addresses_def Let_def tables_same_def split: option.splits)
  show "PREPARE_PARENT_CHILD_INFORMATION m = proceed m' \<Longrightarrow> tables_same m m'"
    unfolding PREPARE_PARENT_CHILD_INFORMATION_def
    by (auto simp: bind_config_proceed tables_same_def split: option.splits if_splits dest!: relatives addresses)
qed

section \<open>Partitions and windows\<close>

lemma bind_outcome_config: "bind_outcome x f = proceed y \<longleftrightarrow> (\<exists>r. x = Returned r \<and> f r = proceed y)"
  by (simp add: proceed_def bind_outcome_Returned)

text \<open>The tables are consistent and the partition \<open>i\<close> is there.\<close>

definition partition_ready :: "nat \<Rightarrow> bool \<Rightarrow> MODULE_CONFIG \<Rightarrow> bool" where
  "partition_ready i net m \<longleftrightarrow>
     config_ok m \<and> i < length (PARTITION_VECTOR m) \<and> isNetworkPartition (PARTITION_VECTOR m ! i) = net"

lemma partition_ready_config: "partition_ready i net m \<Longrightarrow> config_ok m"
  by (simp add: partition_ready_def)

lemma partition_ready_window:
  assumes "partition_ready i net m" "PARTITION_INDEX x = i"
  shows "partition_ready i net (m\<lparr>SCHEDULING_VECTOR := SCHEDULING_VECTOR m @ [x]\<rparr>)"
  using assms by (auto simp: partition_ready_def config_ok_def sched_ok_def names_ok_def)

lemma partition_ready_upd:
  assumes "partition_ready i net m" "\<And>p. isNetworkPartition (f p) = isNetworkPartition p"
    "net \<or> (\<forall>p. queue_names (f p) = queue_names p \<and> sampling_names (f p) = sampling_names p)"
  shows "partition_ready i net (upd_partition i f m)"
proof -
  have "names_ok (dom (MAP_OF_QUEUEING_CHANNELS m)) (dom (MAP_OF_SAMPLING_CHANNELS m)) (upd_partition i f m)"
    using assms by (intro names_ok_upd) (auto simp: partition_ready_def config_ok_def)
  then have "config_ok (upd_partition i f m)"
    using assms(1) by (simp add: partition_ready_def config_ok_def config_simps)
  then show ?thesis using assms(1,2) by (simp add: partition_ready_def upd_partition_def)
qed

lemma window_added: "add_window env i x m = proceed m' \<Longrightarrow> partition_ready i net m \<Longrightarrow> partition_ready i net m'"
  by (auto simp: add_window_def bind_config_proceed intro!: partition_ready_window split: list.splits)

lemma schedule_added:
  assumes "add_schedule env i name m = proceed m'" "partition_ready i net m"
  shows "partition_ready i net m'"
proof -
  have "config_loop (add_window env i) (equal_range (name @ ADDITIVE_KEY_SCHEDULE) (PropertyMap m)) m = proceed m'"
    using assms(1) by (auto simp: add_schedule_def bind_config_proceed)
  from config_loop_inv [OF this, of "partition_ready i net"] assms(2) window_added show ?thesis by blast
qed

lemma network_channel_added:
  assumes "add_network_channel i name m = proceed m'" "partition_ready i True m"
  shows "partition_ready i True m'"
proof -
  obtain src m1 where c: "channel_source name m = (src, m1)" by fastforce
  then have "tables_same m m1" by (auto simp: channel_source_def tables_same_def split: option.splits)
  then have m1: "partition_ready i True m1"
    using assms(2) by (auto simp: partition_ready_def tables_same_config) (auto simp: tables_same_def)
  have "partition_ready i True (upd_partition i (\<lambda>p. p\<lparr>QUEUE_CHANNEL_SOURCE_VECTOR := QUEUE_CHANNEL_SOURCE_VECTOR p @ [name]\<rparr>) m1)"
    "partition_ready i True (upd_partition i (\<lambda>p. p\<lparr>SAMPLING_CHANNEL_SOURCE_VECTOR := SAMPLING_CHANNEL_SOURCE_VECTOR p @ [name]\<rparr>) m1)"
    by (auto intro!: partition_ready_upd m1)
  then show ?thesis using assms(1) c
    by (auto simp: add_network_channel_def Let_def split: option.splits if_splits)
qed

lemma network_partition_created:
  assumes "CREATE_NETWORK_PARTITION env sys name (m, w) = proceed (m', w')" "config_ok m"
  shows "config_ok m'"
proof -
  let ?i = "length (PARTITION_VECTOR m)" and ?q = "config_queue_name name"
  obtain rc q w1 where new: "QUEUE_PORT_new (mq_excl sys) ?q 4 10 PORT_SOURCE_DEST w = (rc, q, w1)"
    by (metis prod_cases3)
  let ?p = "(PARTITION_new (stack_pid env) name)\<lparr>isNetworkPartition := True, CONFIGURATION_QUEUE := ?q\<rparr>"
  let ?m1 = "m\<lparr>PARTITION_VECTOR := PARTITION_VECTOR m @ [?p], MAP_OF_CONFIGURATION_QUEUE := (MAP_OF_CONFIGURATION_QUEUE m)(?q \<mapsto> Some q)\<rparr>"
  obtain m2 m3 root where steps:
    "config_loop (add_network_channel ?i) (equal_range (name @ ADDITVE_KEY_CHANNEL) (PropertyMap m)) ?m1 = proceed m2"
    "add_schedule env ?i name m2 = proceed m3"
    "m' = upd_partition ?i (\<lambda>p. p\<lparr>Executable := root @ ''//bin//NetworkPartition''\<rparr>) m3"
    using assms(1) new by (auto simp: CREATE_NETWORK_PARTITION_def Let_def bind_config_proceed split: if_splits option.splits)
  have "partition_ready ?i True ?m1"
    using config_ok_new_partition [OF assms(2), of ?p]
    by (simp add: partition_ready_def config_ok_def sched_ok_def names_ok_def)
  then have "partition_ready ?i True m2"
    using config_loop_inv [OF steps(1), of "partition_ready ?i True"] network_channel_added by blast
  then have "partition_ready ?i True m3" by (rule schedule_added [OF steps(2)])
  then show ?thesis unfolding steps(3) by (intro partition_ready_config [OF partition_ready_upd]) auto
qed

lemma sampling_port_added:
  assumes "add_sampling_port env i name m = proceed m'" "partition_ready i net m"
  shows "partition_ready i net m'"
  using assms(1)
  by (auto simp: add_sampling_port_def bind_config_proceed queue_names_def sampling_names_def
      intro!: partition_ready_upd [OF assms(2)] split: if_splits)

lemma queuing_port_added:
  assumes "add_queuing_port sys i name (m, w) = proceed (m', w')" "partition_ready i net m"
  shows "partition_ready i net m'"
  using assms(1)
  by (auto simp: add_queuing_port_def bind_config_proceed case_prod_beta Let_def queue_names_def sampling_names_def
      intro!: partition_ready_upd [OF assms(2)] split: if_splits)

lemma partition_created:
  assumes "CREATE_PARTITION env sys name (m, w) = proceed (m', w')" "config_ok m"
  shows "config_ok m'"
proof -
  let ?i = "length (PARTITION_VECTOR m)"
  obtain exe m1 m2 where steps:
    "add_schedule env ?i name (m\<lparr>PARTITION_VECTOR := PARTITION_VECTOR m @ [(PARTITION_new 0 name)\<lparr>Executable := exe\<rparr>]\<rparr>) = proceed m1"
    "config_loop (add_sampling_port env ?i) (equal_range (name @ ADDITIVE_KEY_SAMPLINGPORT) (PropertyMap m)) m1 = proceed m2"
    "config_loop (add_queuing_port sys ?i) (equal_range (name @ ADDITIVE_KEY_QUEUINGPORT) (PropertyMap m)) (m2, w) = proceed (m', w')"
    using assms(1) by (auto simp: CREATE_PARTITION_def Let_def bind_config_proceed split: if_splits)
  let ?p = "(PARTITION_new 0 name)\<lparr>Executable := exe\<rparr>"
  have "config_ok (m\<lparr>PARTITION_VECTOR := PARTITION_VECTOR m @ [?p]\<rparr>)"
    by (rule config_ok_new_partition [OF assms(2)]) (simp add: PARTITION_new_def queue_names_def sampling_names_def)
  then have "partition_ready ?i False (m\<lparr>PARTITION_VECTOR := PARTITION_VECTOR m @ [?p]\<rparr>)"
    by (simp add: partition_ready_def PARTITION_new_def)
  from schedule_added [OF steps(1) this]
  have "partition_ready ?i False m2"
    using config_loop_inv [OF steps(2), of "partition_ready ?i False"] sampling_port_added by blast
  then have "partition_ready ?i False (fst (m', w'))"
    using config_loop_inv [OF steps(3), of "\<lambda>s. partition_ready ?i False (fst s)"] queuing_port_added by fastforce
  then show ?thesis by (simp add: partition_ready_def)
qed

section \<open>Channels\<close>

text \<open>While a channel is built, the partitions may name it already.\<close>

definition config_but :: "NAME_TYPE set \<Rightarrow> NAME_TYPE set \<Rightarrow> MODULE_CONFIG \<Rightarrow> bool" where
  "config_but q s m \<longleftrightarrow> sched_ok m \<and>
     names_ok (q \<union> dom (MAP_OF_QUEUEING_CHANNELS m)) (s \<union> dom (MAP_OF_SAMPLING_CHANNELS m)) m \<and>
     (\<forall>c\<in>ran (MAP_OF_SAMPLING_CHANNELS m). sc_inv c)"

lemma config_but_empty: "config_but {} {} m = config_ok m"
  by (simp add: config_but_def config_ok_def)

lemma config_but_more: "config_ok m \<Longrightarrow> config_but q s m"
  unfolding config_but_def config_ok_def by (blast intro: names_ok_mono)

lemma config_but_upd:
  assumes "config_but q s m"
    "\<And>p. isNetworkPartition (f p) = isNetworkPartition p \<and> queue_names (f p) \<subseteq> queue_names p \<union> q \<and>
       sampling_names (f p) \<subseteq> sampling_names p \<union> s"
  shows "config_but q s (upd_partition i f m)"
proof -
  have "names_ok (q \<union> dom (MAP_OF_QUEUEING_CHANNELS m)) (s \<union> dom (MAP_OF_SAMPLING_CHANNELS m)) (upd_partition i f m)"
    using assms(1) by (intro names_ok_upd) (use assms(2) in \<open>auto simp: config_but_def\<close>)
  then show ?thesis using assms(1) by (simp add: config_but_def config_simps)
qed

lemma config_but_queue_channel:
  "config_but {name} {} m \<Longrightarrow> config_ok (m\<lparr>MAP_OF_QUEUEING_CHANNELS := (MAP_OF_QUEUEING_CHANNELS m)(name \<mapsto> c)\<rparr>)"
  by (simp add: config_but_def config_ok_def sched_ok_def names_ok_def)

lemma config_but_sampling_channel:
  assumes "config_but {} {name} m" "sc_inv c"
  shows "config_ok (m\<lparr>MAP_OF_SAMPLING_CHANNELS := (MAP_OF_SAMPLING_CHANNELS m)(name \<mapsto> c)\<rparr>)"
proof -
  have "ran ((MAP_OF_SAMPLING_CHANNELS m)(name \<mapsto> c)) \<subseteq> insert c (ran (MAP_OF_SAMPLING_CHANNELS m))"
    by (auto simp: ran_def)
  then have "\<forall>x\<in>ran ((MAP_OF_SAMPLING_CHANNELS m)(name \<mapsto> c)). sc_inv x"
    using assms unfolding config_but_def by blast
  then show ?thesis using assms(1) by (simp add: config_but_def config_ok_def sched_ok_def names_ok_def)
qed

lemma ENSURE_CONDITION_proceed [simp]: "ENSURE_CONDITION rc = proceed u \<longleftrightarrow> rc = NO_ERROR"
  by (simp add: ENSURE_CONDITION_def)

text \<open>A channel with the partition that fires it.\<close>

lemma config_ok_channel:
  fixes m :: MODULE_CONFIG
  assumes "config_ok m"
  shows "config_ok ((upd_partition i (\<lambda>p. p\<lparr>QUEUE_CHANNEL_SOURCE_VECTOR := QUEUE_CHANNEL_SOURCE_VECTOR p @ [name]\<rparr>) m)
      \<lparr>MAP_OF_QUEUEING_CHANNELS := (MAP_OF_QUEUEING_CHANNELS m)(name \<mapsto> c)\<rparr>)" (is "config_ok (?m\<lparr>MAP_OF_QUEUEING_CHANNELS := _\<rparr>)")
    "sc_inv c' \<Longrightarrow> config_ok ((upd_partition i (\<lambda>p. p\<lparr>SAMPLING_CHANNEL_SOURCE_VECTOR := SAMPLING_CHANNEL_SOURCE_VECTOR p @ [name]\<rparr>) m)
      \<lparr>MAP_OF_SAMPLING_CHANNELS := (MAP_OF_SAMPLING_CHANNELS m)(name \<mapsto> c')\<rparr>)" (is "_ \<Longrightarrow> config_ok (?m'\<lparr>MAP_OF_SAMPLING_CHANNELS := _\<rparr>)")
proof -
  have "config_but {name} {} ?m" "config_but {} {name} ?m'"
    by (intro config_but_upd config_but_more assms; auto simp: queue_names_def sampling_names_def)+
  then show "config_ok (?m\<lparr>MAP_OF_QUEUEING_CHANNELS := (MAP_OF_QUEUEING_CHANNELS m)(name \<mapsto> c)\<rparr>)"
    "sc_inv c' \<Longrightarrow> config_ok (?m'\<lparr>MAP_OF_SAMPLING_CHANNELS := (MAP_OF_SAMPLING_CHANNELS m)(name \<mapsto> c')\<rparr>)"
    using config_but_queue_channel [of name ?m c] config_but_sampling_channel [of name ?m' c'] by (simp_all add: config_simps)
qed

lemma queue_channel_created:
  assumes "source_queue_channel env sys i port s = proceed s'" "config_ok (fst s)"
  shows "config_ok (fst s')"
proof -
  have "create_queue_channel env sys i port nd s = proceed s' \<Longrightarrow> ?thesis" for nd
    using config_ok_channel(1) [OF assms(2)]
    by (cases nd; cases s) (auto simp: create_queue_channel_def bind_outcome_config bind_config_proceed)
  then show ?thesis using assms by (auto simp: source_queue_channel_def split: option.splits if_splits)
qed

lemma inter_queue_destination_added:
  assumes "add_inter_queue_destination sys name dest (c, m, w) = proceed (c', m', w')" "config_but {name} {} m"
  shows "config_but {name} {} m'"
  using assms(1)
  by (auto simp: add_inter_queue_destination_def bind_config_proceed case_prod_beta Let_def queue_names_def sampling_names_def
      intro!: config_but_upd [OF assms(2)] split: option.splits if_splits)

lemma inter_queue_channel_created:
  assumes "inter_queue_channel env sys proxy s = proceed s'" "config_ok (fst s)"
  shows "config_ok (fst s')"
proof -
  obtain m w where s: "s = (m, w)" by (cases s)
  have inner: "config_but {name} {} m1"
    if "config_loop (add_inter_queue_destination sys name) ds (c, m, w) = proceed (c3, m1, w1)" for name ds c c3 m1 w1
    using config_loop_inv [OF that, of "\<lambda>s. config_but {name} {} (fst (snd s))"] assms(2) s
      inter_queue_destination_added by (fastforce simp: config_but_more)
  show ?thesis
    using assms s
    by (auto simp: inter_queue_channel_def bind_config_proceed case_prod_beta Let_def
        intro!: config_but_queue_channel dest!: inner split: option.splits if_splits)
qed


lemma queue_channels_created:
  assumes "CREATE_QUEUEING_CHANNELS env sys s = proceed s'" "config_ok (fst s)"
  shows "config_ok (fst s')"
proof -
  have ports: "config_ok (fst s2)"
    if "config_loop (source_queue_channel env sys i) ps s1 = proceed s2" "config_ok (fst s1)" for i ps s1 s2
    using config_loop_inv [OF that(1), of "\<lambda>s. config_ok (fst s)"] that(2) queue_channel_created by blast
  obtain s1 where one: "config_loop (\<lambda>i s. config_loop (source_queue_channel env sys i) (QUEUING_PORTS (PARTITION_VECTOR (fst s) ! i)) s)
      [0..<length (PARTITION_VECTOR (fst s))] s = proceed s1" "config_loop (inter_queue_channel env sys) (PROXY_PORTS (fst s1)) s1 = proceed s'"
    using assms(1) by (auto simp: CREATE_QUEUEING_CHANNELS_def bind_config_proceed)
  have "config_ok (fst s1)" using config_loop_inv [OF one(1), of "\<lambda>s. config_ok (fst s)"] assms(2) ports by blast
  then show ?thesis using config_loop_inv [OF one(2), of "\<lambda>s. config_ok (fst s)"] inter_queue_channel_created by blast
qed

text \<open>The same for the sampling channels, which are well formed themselves.\<close>

lemma env_port: "env_ok env \<Longrightarrow> shm_mapped (shm_create env name n) = Some mem \<Longrightarrow> int (length (data mem)) = n"
  by (simp add: env_ok_def)

lemma proxy_url_added: "add_proxy_url p c = proceed c' \<Longrightarrow> sc_inv c \<Longrightarrow> sc_inv c'"
  using sc_inv_configuration(2) [of INTER_MODULE_SRC 0 c] sc_inv_configuration(3) [of "proxy_url p"]
  by (auto simp: add_proxy_url_def bind_config_proceed case_prod_beta Let_def prod_eq_iff)

lemma destination_added:
  assumes "env_ok env" "sc_inv c"
  shows "sc_inv (snd (SC_ADD_DESTINATION name n t (shm_create env name n) mem c))"
proof -
  obtain rc c' where add: "SC_ADD_DESTINATION name n t (shm_create env name n) mem c = (rc, c')" by fastforce
  then show ?thesis using sc_inv_add(2) [OF assms(2) env_port [OF assms(1)] add] by simp
qed

lemma sampling_destination_added:
  assumes "env_ok env" "add_sampling_destination env m dest (c, k, found) = proceed (c', k', found')" "sc_inv c"
  shows "sc_inv c'"
  using assms(2) destination_added [OF assms(1,3)] proxy_url_added [OF _ assms(3)]
  by (auto simp: add_sampling_destination_def bind_config_proceed case_prod_beta Let_def split: option.splits if_splits)

lemma sampling_channel_created:
  assumes env: "env_ok env" and "source_sampling_channel env i port m = proceed m'" "config_ok m"
  shows "config_ok m'"
proof -
  have "?thesis" if create: "create_sampling_channel env i port (name, d) m = proceed m'" for name d
  proof -
    let ?c = "SAMPLING_CHANNEL_new name INTRA_MODULE 0 (channel_buffer env)"
    obtain rc c where add: "SC_ADD_SOURCE (SD_Name port) (SD_MAX_MESSAGE_SIZE port) (SD_REFRESH_PERIOD port)
          (shm_create env (SD_Name port) (SD_MAX_MESSAGE_SIZE port)) (unmapped_memory env) ?c = (rc, c)"
      by fastforce
    obtain c1 k found where c: "rc = NO_ERROR"
      "config_loop (add_sampling_destination env m) (CD_destination d) (c, 0, False) = proceed (c1, k, found)"
      "m' = (upd_partition i (\<lambda>p. p\<lparr>SAMPLING_CHANNEL_SOURCE_VECTOR := SAMPLING_CHANNEL_SOURCE_VECTOR p @ [name]\<rparr>) m)
         \<lparr>MAP_OF_SAMPLING_CHANNELS := (MAP_OF_SAMPLING_CHANNELS m)(name \<mapsto> SC_SET_INITIALIZED c1)\<rparr>"
      using create add by (auto simp: create_sampling_channel_def bind_config_proceed)
    have "sc_inv ?c" using env by (intro sc_inv_new) (simp add: env_ok_def)
    then have "sc_inv c" by (rule sc_inv_add(1) [OF _ _ add [unfolded c(1)]]) (rule env_port [OF env])
    then have "sc_inv c1"
      using config_loop_inv [OF c(2), of "\<lambda>s. sc_inv (fst s)"] sampling_destination_added [OF env] by fastforce
    then show ?thesis unfolding c(3) by (intro config_ok_channel(2) assms(3) sc_inv_configuration(5))
  qed
  then show ?thesis using assms(2,3) by (auto simp: source_sampling_channel_def split: option.splits if_splits)
qed

lemma inter_sampling_destination_added:
  assumes "env_ok env" "add_inter_sampling_destination env name dest (c, m) = proceed (c', m')" "sc_inv c \<and> config_but {} {name} m"
  shows "sc_inv c' \<and> config_but {} {name} m'"
proof -
  have "config_but {} {name} (upd_partition j (\<lambda>p. if name \<in> set (SAMPLING_CHANNEL_INTER_MODULE_DST_VECTOR p) then p
      else p\<lparr>SAMPLING_CHANNEL_INTER_MODULE_DST_VECTOR := SAMPLING_CHANNEL_INTER_MODULE_DST_VECTOR p @ [name]\<rparr>) m)" for j
    using assms(3) by (intro config_but_upd) (auto simp: queue_names_def sampling_names_def)
  then show ?thesis
    using assms(2,3) destination_added [OF assms(1)]
    by (auto simp: add_inter_sampling_destination_def bind_config_proceed case_prod_beta Let_def split: option.splits if_splits)
qed

lemma inter_sampling_channel_created:
  assumes env: "env_ok env" and "inter_sampling_channel env proxy m = proceed m'" "config_ok m"
  shows "config_ok m'"
proof (cases "inter_sampling_channel env proxy m = proceed m")
  case False
  obtain name d c3 m1 where nd: "channel_of_source (PX_Name proxy) m = Some (name, d)" and
    m': "m' = m1\<lparr>MAP_OF_SAMPLING_CHANNELS := (MAP_OF_SAMPLING_CHANNELS m1)(name \<mapsto> SC_SET_INITIALIZED c3)\<rparr>" and
    loop: "config_loop (add_inter_sampling_destination env name) (CD_destination d)
      (snd (SC_SET_MAX_SOCKET_MESSAGE (to_unsigned (PX_MAX_NB_MESSAGE proxy)) (snd (SC_SET_MAX_SIZE_OF_MESSAGE (PX_MAX_MESSAGE_SIZE proxy)
        (SAMPLING_CHANNEL_new name INTER_MODULE_DST (PX_portNumber proxy) (channel_buffer env))))), m) = proceed (c3, m1)"
    using False assms(2)
    by (auto simp: inter_sampling_channel_def bind_config_proceed case_prod_beta Let_def split: option.splits if_splits)
  have "sc_inv (SAMPLING_CHANNEL_new name INTER_MODULE_DST (PX_portNumber proxy) (channel_buffer env))"
    using env by (intro sc_inv_new) (simp add: env_ok_def)
  then have "sc_inv (snd (SC_SET_MAX_SOCKET_MESSAGE (to_unsigned (PX_MAX_NB_MESSAGE proxy)) (snd (SC_SET_MAX_SIZE_OF_MESSAGE (PX_MAX_MESSAGE_SIZE proxy)
        (SAMPLING_CHANNEL_new name INTER_MODULE_DST (PX_portNumber proxy) (channel_buffer env))))))"
    by (metis prod.collapse sc_inv_configuration(1,4))
  then have "sc_inv c3 \<and> config_but {} {name} m1"
    using config_loop_inv [OF loop, of "\<lambda>s. sc_inv (fst s) \<and> config_but {} {name} (snd s)"] config_but_more [OF assms(3)]
      inter_sampling_destination_added [OF env] by fastforce
  then show ?thesis unfolding m' by (intro config_but_sampling_channel sc_inv_configuration(5)) auto
qed (use assms in simp)

lemma sampling_channels_created:
  assumes env: "env_ok env" and "CREATE_SAMPLING_CHANNELS env m = proceed m'" "config_ok m"
  shows "config_ok m'"
proof -
  have ports: "config_ok m2" if "config_loop (source_sampling_channel env i) ps m1 = proceed m2" "config_ok m1" for i ps m1 m2
    using config_loop_inv [OF that(1), of config_ok] that(2) sampling_channel_created [OF env] by blast
  obtain m1 where one: "config_loop (\<lambda>i m. config_loop (source_sampling_channel env i) (SAMPLING_PORTS (PARTITION_VECTOR m ! i)) m)
      [0..<length (PARTITION_VECTOR m)] m = proceed m1" "config_loop (inter_sampling_channel env) (PROXY_PORTS m1) m1 = proceed m'"
    using assms(2) by (auto simp: CREATE_SAMPLING_CHANNELS_def bind_config_proceed)
  have "config_ok m1" using config_loop_inv [OF one(1), of config_ok] assms(3) ports by blast
  then show ?thesis using config_loop_inv [OF one(2), of config_ok] inter_sampling_channel_created [OF env] by blast
qed

section \<open>The whole configuration\<close>

lemma partitions_created:
  assumes env: "env_ok env" and "CREATE_PARTITION_VECTOR env sys s = proceed (m', w')" "config_ok (fst s)"
  shows "config_ok m'"
proof -
  obtain m w where s: "s = (m, w)" by (cases s)
  obtain m1 m2 s3 s4 m5 where steps:
    "CREATE_PROXY_PORT_DESCRIPTORS m = proceed m1" "CREATE_CHANNEL_DSCRIPTOR m1 = proceed m2"
    "CREATE_NETWORK_PARTITION_VECTOR env sys (m2, w) = proceed s3"
    "config_loop (CREATE_PARTITION env sys) (equal_range PRIMARY_KEY_PARTITION_NAME (PropertyMap (fst s3))) s3 = proceed s4"
    "CREATE_QUEUEING_CHANNELS env sys s4 = proceed (m5, w')" "CREATE_SAMPLING_CHANNELS env m5 = proceed m'"
    using assms(2) s by (auto simp: CREATE_PARTITION_VECTOR_def bind_config_proceed)
  have "config_ok m2"
    using assms(3) s tables_same_config [OF tables_same_descriptors(1) [OF steps(1)]]
      tables_same_config [OF tables_same_descriptors(2) [OF steps(2)]] by simp
  then have "config_ok (fst s3)"
    using config_loop_inv [OF steps(3) [unfolded CREATE_NETWORK_PARTITION_VECTOR_def], of "\<lambda>s. config_ok (fst s)"]
      network_partition_created by fastforce
  then have "config_ok (fst s4)"
    using config_loop_inv [OF steps(4), of "\<lambda>s. config_ok (fst s)"] partition_created by fastforce
  from queue_channels_created [OF steps(5) this] have "config_ok m5" by simp
  then show ?thesis by (rule sampling_channels_created [OF env steps(6)])
qed

lemma tables_same_trans: "tables_same m m1 \<Longrightarrow> tables_same m1 m2 \<Longrightarrow> tables_same m m2"
  by (simp add: tables_same_def)

lemma configuration_accepted:
  assumes env: "env_ok env" and srt: "\<And>xs. set (srt xs) = set xs"
    and "MODULE_MANAGER_new srt env sys file (m, w) = proceed (m', w')" "config_ok m"
  shows "config_ok m'" "length (PARTITION_VECTOR m') \<le> MAX_PARTITION_NUM"
    "check_schedule (MAJOR_FRAME_SIZE m') (SCHEDULING_VECTOR m') = Returned (Inr ())"
proof -
  obtain props m1 m2 m3 m4 m5 m6 m7 m8 where steps:
    "SET_MAJOR_FRAME_SIZE env (m\<lparr>PropertyMap := props\<rparr>) = proceed m1" "SET_MAX_NUMBER_OF_FRAMES m1 = proceed m2"
    "READ_NUMBER_OF_INIT_STAGES m2 = proceed m3" "SET_MIN_WAIT_TIME m3 = proceed m4"
    "PREPARE_PARENT_CHILD_INFORMATION m4 = proceed m5" "SET_DISCOVERY_PROTOCOL m5 = proceed m6"
    "SET_CPU_NUMBER m6 = proceed m7" "CREATE_PARTITION_VECTOR env sys (m7, w) = proceed (m8, w')"
    "length (PARTITION_VECTOR m8) \<le> MAX_PARTITION_NUM"
    "check_schedule (MAJOR_FRAME_SIZE m8) (srt (SCHEDULING_VECTOR m8)) = proceed ()"
    "m' = m8\<lparr>SCHEDULING_VECTOR := srt (SCHEDULING_VECTOR m8)\<rparr>"
    using assms(3) by (auto simp: MODULE_MANAGER_new_def bind_config_proceed split: if_splits)
  have "tables_same m (m\<lparr>PropertyMap := props\<rparr>)" by (simp add: tables_same_def)
  also note [trans] = tables_same_trans
  note tables_same_values(1) [OF steps(1)] also note tables_same_values(2) [OF steps(2)]
  also note tables_same_values(3) [OF steps(3)] also note tables_same_values(4) [OF steps(4)]
  also note tables_same_parents [OF steps(5)] also note tables_same_values(5) [OF steps(6)]
  also note tables_same_values(6) [OF steps(7)]
  finally have "config_ok m7" using tables_same_config assms(4) by blast
  then have "config_ok m8" using partitions_created [OF env steps(8)] by simp
  then show "config_ok m'" using srt by (simp add: steps(11) config_ok_def sched_ok_def names_ok_def)
  show "length (PARTITION_VECTOR m') \<le> MAX_PARTITION_NUM"
    "check_schedule (MAJOR_FRAME_SIZE m') (SCHEDULING_VECTOR m') = Returned (Inr ())"
    using steps(9,10) by (simp_all add: steps(11) proceed_def)
qed

lemma config_ok_init: "config_ok (MODULE_MANAGER_init config_port frame)"
  by (simp add: config_ok_def sched_ok_def names_ok_def MODULE_MANAGER_init_def)

text \<open>The checks of the constructor leave out the signs: with a schedule of windows that do not start
  before the hyperperiod and a number of frames, the module manager can run.\<close>

lemma configuration_runnable:
  assumes "config_ok m" "check_schedule (MAJOR_FRAME_SIZE m) (SCHEDULING_VECTOR m) = Returned (Inr ())"
    "\<forall>x\<in>set (SCHEDULING_VECTOR m). 0 \<le> OFFSET x \<and> 0 \<le> DURATION x" "MAJOR_FRAME_SIZE m \<le> MAX_TIME_OUT"
    "isMAX_NUMBER_OF_FRAMES_SET m"
  shows "runnable (MODULE_MANAGER.truncate m)"
  using assms by (simp add: runnable_def good_schedule_def config_ok_def sched_ok_def MODULE_MANAGER.truncate_def)

lemma configuration_channels_ready:
  assumes "config_ok m" "\<forall>c\<in>ran (MAP_OF_QUEUEING_CHANNELS m). queue_channel_ok Q c"
    "\<forall>c\<in>ran (MAP_OF_SAMPLING_CHANNELS m). SC_recv_mySocket c = None"
    "\<forall>name q. MAP_OF_CONFIGURATION_QUEUE m name = Some (Some q) \<longrightarrow> q \<in> Q"
  shows "channels_ready Q (MODULE_MANAGER.truncate m)"
  using assms unfolding channels_ready_def config_ok_def names_ok_def queue_names_def sampling_names_def sampling_channel_ok_def
  by (simp add: MODULE_MANAGER.truncate_def)

section \<open>The check of the schedule\<close>

text \<open>Two windows do not overlap.\<close>

definition apart :: "SCHEDULING_TUPLE \<Rightarrow> SCHEDULING_TUPLE \<Rightarrow> bool" where
  "apart x y \<longleftrightarrow> OFFSET x + DURATION x \<le> OFFSET y \<or> OFFSET y + DURATION y \<le> OFFSET x"

lemma windows_apart_sorted:
  assumes "\<forall>x\<in>set xs. 0 \<le> DURATION x"
  shows "windows_apart xs \<longleftrightarrow> sorted_wrt (\<lambda>x y. OFFSET x + DURATION x \<le> OFFSET y) xs"
  using assms by (induction xs rule: windows_apart.induct) fastforce+

text \<open>A symmetric relation between all elements does not depend on their order.\<close>

lemma sorted_wrt_pairs:
  assumes "symp R"
  shows "sorted_wrt R xs \<longleftrightarrow> (\<forall>x y. {#x, y#} \<subseteq># mset xs \<longrightarrow> R x y)"
proof (induction xs)
  case (Cons a xs)
  have "{#x, y#} \<subseteq># mset (a # xs) \<longleftrightarrow> {#x, y#} \<subseteq># mset xs \<or> x = a \<and> y \<in> set xs \<or> y = a \<and> x \<in> set xs" for x y
    by (cases "x = a"; cases "y = a") (auto simp: insert_subset_eq_iff add_mset_commute dest: in_diffD)
  then show ?case using Cons sympD [OF assms] by auto
qed auto

lemma sorted_wrt_perm: "symp R \<Longrightarrow> mset xs = mset ys \<Longrightarrow> sorted_wrt R xs = sorted_wrt R ys"
  by (simp add: sorted_wrt_pairs)

lemma check_schedule_exact:
  assumes "xs \<noteq> []" "\<forall>x\<in>set xs. 0 < DURATION x" "mset ys = mset xs" "sorted_wrt (\<lambda>x y. \<not> SCHEDULE_COMP y x) ys"
  shows "check_schedule frame ys = Returned (Inr ()) \<longleftrightarrow>
    sorted_wrt apart xs \<and> (\<forall>x\<in>set xs. OFFSET x + DURATION x \<le> frame)"
proof -
  have ys: "ys \<noteq> []" "\<forall>x\<in>set ys. 0 < DURATION x" "set ys = set xs" using assms(1,2) mset_eq_setD [OF assms(3)] by auto
  let ?after = "\<lambda>x y. OFFSET x + DURATION x \<le> OFFSET y"
  have "sorted_wrt apart xs = sorted_wrt apart ys"
    using sorted_wrt_perm [of apart xs ys] assms(3) by (auto simp: symp_def apart_def)
  also have "\<dots> = sorted_wrt ?after ys"
    using assms(4) ys(2)
  proof (induction ys)
    case (Cons x ys)
    have "apart x y = ?after x y" if "y \<in> set ys" for y
    proof -
      have "OFFSET x \<le> OFFSET y" "0 < DURATION y" using Cons.prems that by (auto simp: SCHEDULE_COMP_def)
      then show ?thesis by (auto simp: apart_def)
    qed
    then show ?case using Cons by simp
  qed simp
  also have "\<dots> = windows_apart ys" using windows_apart_sorted [of ys] ys(2) by force
  finally have eq: "sorted_wrt apart xs = windows_apart ys" .
  have "OFFSET x + DURATION x \<le> OFFSET (last ys) + DURATION (last ys)" if "windows_apart ys" "x \<in> set ys" for x
  proof -
    have "sorted_wrt ?after ys" using that(1) windows_apart_sorted [of ys] ys(2) by force
    then have "sorted_wrt ?after (butlast ys @ [last ys])" using ys(1) by simp
    moreover have "x \<in> set (butlast ys @ [last ys])" using that(2) ys(1) by simp
    ultimately have "x = last ys \<or> ?after x (last ys)" by (auto simp: sorted_wrt_append simp del: append_butlast_last_id)
    moreover have "0 < DURATION (last ys)" using ys(1,2) last_in_set by blast
    ultimately show ?thesis by auto
  qed
  then show ?thesis using eq ys last_in_set [OF ys(1)] by (force simp: check_schedule_def)
qed

end
