(* ===== verification/ConfigTheorems.thy ===== *)
theory ConfigTheorems
  imports ConfigProperties ModuleTheorems
begin

text \<open>
  The properties of the configuration of a module: what the property file means, which schedules are
  accepted, and what an accepted configuration guarantees to the run.  The demonstration file of the
  witnesses has two partitions with one window each and a sampling channel from the first to the second.
\<close>

section \<open>A demonstration configuration\<close>

definition demo_properties :: properties where
  "demo_properties =
     [(''HYPERPERIOD'', ''10''), (''MAXITERATIONS'', ''2''),
      (''PARTITION_NAME'', ''A''), (''A_EXECUTABLE'', ''/bin/a''), (''A_SCHEDULE'', ''5,3''), (''A_SAMPLINGPORT'', ''OUT''),
      (''PARTITION_NAME'', ''B''), (''B_EXECUTABLE'', ''/bin/b''), (''B_SCHEDULE'', ''0,4''), (''B_SAMPLINGPORT'', ''IN''),
      (''OUT_MAXMESSAGESIZE'', ''4''), (''OUT_REFRESHPERIOD'', ''1''), (''OUT_DIRECTION'', ''SOURCE''),
      (''IN_MAXMESSAGESIZE'', ''4''), (''IN_REFRESHPERIOD'', ''1''), (''IN_DIRECTION'', ''DESTINATION''),
      (''CHANNEL_NAME'', ''S''), (''S_SOURCE'', ''OUT''), (''S_DESTINATION'', ''IN'')]"

definition demo_shm :: "NAME_TYPE \<Rightarrow> int \<Rightarrow> shm_answers" where
  "demo_shm name n = \<lparr>shm_descriptor = 3, shm_eexist = False, shm_truncated = True,
     shm_mapped = (if n < 0 then None else Some \<lparr>ABSOLUTE_TIME_WRITTEN = 0, MESSAGE_SIZE = 0, data = replicate (nat n) 0\<rparr>)\<rparr>"

definition demo_env :: "byte list \<Rightarrow> config_env" where
  "demo_env buffer =
     \<lparr>seconds = (\<lambda>s. map_option (\<lambda>n. n * 1000000000) (from_string_signed 64 s)), fexists = (\<lambda>_. True), ACM_ROOT = None,
      shm_excl = demo_shm, shm_create = demo_shm,
      unmapped_memory = \<lparr>ABSOLUTE_TIME_WRITTEN = 0, MESSAGE_SIZE = 0, data = []\<rparr>,
      new_chars = (\<lambda>n. replicate (nat n) 0), channel_buffer = buffer, stack_pid = 0\<rparr>"

definition demo_sys :: "list_sys config_sys" where
  "demo_sys = \<lparr>mq_excl = list_sys_mq (\<lambda>_. 2), mq_create = list_sys_mq (\<lambda>_. 2), mq_remove = (\<lambda>_ w. w)\<rparr>"

definition sort_schedule :: "SCHEDULING_TUPLE list \<Rightarrow> SCHEDULING_TUPLE list" where
  "sort_schedule xs = sort_key OFFSET xs"

lemmas config_run =
  MODULE_MANAGER_new_def CREATE_PARTITION_VECTOR_def CREATE_PROXY_PORT_DESCRIPTORS_def CREATE_CHANNEL_DSCRIPTOR_def
  CREATE_NETWORK_PARTITION_VECTOR_def CREATE_PARTITION_def CREATE_QUEUEING_CHANNELS_def CREATE_SAMPLING_CHANNELS_def
  SET_MAJOR_FRAME_SIZE_def SET_MAX_NUMBER_OF_FRAMES_def READ_NUMBER_OF_INIT_STAGES_def SET_MIN_WAIT_TIME_def
  PREPARE_PARENT_CHILD_INFORMATION_def SET_DISCOVERY_PROTOCOL_def SET_CPU_NUMBER_def
  source_sampling_channel_def create_sampling_channel_def add_sampling_destination_def source_queue_channel_def
  CHANNEL_of_def check_direction_def add_schedule_def add_window_def add_sampling_port_def direction_property_def
  property_def optional_def parsed_def upd_partition_def channel_of_source_def CanAddChannel_def
  CheckIfChannelExists_def FIND_PARTITION_FROM_SAMPLING_PORT_def ENSURE_CONDITION_def PARTITION_new_def
  MODULE_MANAGER_init_def

lemma demo_strings:
  "stringTokenize '','' ''5,3'' = [''5'', ''3'']" "stringTokenize '','' ''0,4'' = [''0'', ''4'']"
  "stringTrim '' '' ''10'' = ''10''" "stringTrim '' '' ''2'' = ''2''"
  "from_string_signed 64 ''10'' = Some 10" "from_string_signed 64 ''5'' = Some 5" "from_string_signed 64 ''3'' = Some 3"
  "from_string_signed 64 ''0'' = Some 0" "from_string_signed 64 ''4'' = Some 4" "from_string_signed 64 ''1'' = Some 1"
  "from_string_signed 32 ''2'' = Some 2"
  by code_simp+

lemma demo_lookups:
  "equal_range ''HYPERPERIOD'' demo_properties = [''10'']"
  "equal_range ''MAXITERATIONS'' demo_properties = [''2'']"
  "equal_range ''PARTITION_NAME'' demo_properties = [''A'', ''B'']"
  "equal_range ''A_EXECUTABLE'' demo_properties = [''/bin/a'']"
  "equal_range ''A_SCHEDULE'' demo_properties = [''5,3'']"
  "equal_range ''A_SAMPLINGPORT'' demo_properties = [''OUT'']"
  "equal_range ''B_EXECUTABLE'' demo_properties = [''/bin/b'']"
  "equal_range ''B_SCHEDULE'' demo_properties = [''0,4'']"
  "equal_range ''B_SAMPLINGPORT'' demo_properties = [''IN'']"
  "equal_range ''OUT_MAXMESSAGESIZE'' demo_properties = [''4'']"
  "equal_range ''OUT_REFRESHPERIOD'' demo_properties = [''1'']"
  "equal_range ''OUT_DIRECTION'' demo_properties = [''SOURCE'']"
  "equal_range ''IN_MAXMESSAGESIZE'' demo_properties = [''4'']"
  "equal_range ''IN_REFRESHPERIOD'' demo_properties = [''1'']"
  "equal_range ''IN_DIRECTION'' demo_properties = [''DESTINATION'']"
  "equal_range ''CHANNEL_NAME'' demo_properties = [''S'']"
  "equal_range ''S_SOURCE'' demo_properties = [''OUT'']"
  "equal_range ''S_DESTINATION'' demo_properties = [''IN'']"
  "equal_range ''CPU'' demo_properties = []"
  "equal_range ''NUMBER_OF_INIT_STAGES'' demo_properties = []"
  "equal_range ''PARTITION_INIT_TIMEOUT'' demo_properties = []"
  "equal_range ''SYNCHRONIZED_EXECUTION'' demo_properties = []"
  "equal_range ''DISCOVERY_PROTOCOL'' demo_properties = []"
  "equal_range ''PROXY_PORT'' demo_properties = []"
  "equal_range ''NETWORK_PARTITION_NAME'' demo_properties = []"
  "equal_range ''A_QUEUINGPORT'' demo_properties = []"
  "equal_range ''B_QUEUINGPORT'' demo_properties = []"
  by code_simp+

lemma demo_env_fields:
  "seconds (demo_env buffer) s = map_option (\<lambda>n. n * 1000000000) (from_string_signed 64 s)" "fexists (demo_env buffer) s"
  "shm_excl (demo_env buffer) = demo_shm" "shm_create (demo_env buffer) = demo_shm" "channel_buffer (demo_env buffer) = buffer"
  by (simp_all add: demo_env_def)

lemma demo_accepted:
  "\<exists>m w. MODULE_MANAGER_new sort_schedule (demo_env buffer) demo_sys (Some (map property_line demo_properties))
       (MODULE_MANAGER_init 0 0, demo_world) = proceed (m, w) \<and>
       map P_Name (PARTITION_VECTOR m) = [''A'', ''B''] \<and>
       SCHEDULING_VECTOR m = [\<lparr>OFFSET = 0, DURATION = 4000000000, PARTITION_INDEX = 1\<rparr>,
                              \<lparr>OFFSET = 5000000000, DURATION = 3000000000, PARTITION_INDEX = 0\<rparr>] \<and>
       MAJOR_FRAME_SIZE m = 10000000000 \<and> MAX_NUMBER_OF_FRAMES m = 2 \<and> isMAX_NUMBER_OF_FRAMES_SET m \<and>
       MAP_OF_QUEUEING_CHANNELS m = Map.empty \<and> MAP_OF_CONFIGURATION_QUEUE m = Map.empty \<and>
       map SAMPLING_CHANNEL_SOURCE_VECTOR (PARTITION_VECTOR m) = [[''S''], []] \<and> (\<forall>p\<in>set (PARTITION_VECTOR m). \<not> isNetworkPartition p) \<and>
       (\<forall>c\<in>ran (MAP_OF_SAMPLING_CHANNELS m). SC_recv_mySocket c = None)"
proof -
  have read: "INIT_PARTITION_PROPERTY_MAP (Some (map property_line demo_properties)) [] = proceed demo_properties"
    using read_property_lines [of demo_properties "[]"] by (simp add: demo_properties_def plain_word_def blanks_def)
  show ?thesis
    by (simp add: config_run config_keys read demo_lookups demo_strings demo_env_fields sort_schedule_def
        SAMPLING_PORT_new_def SC_ADD_SOURCE_def SC_ADD_DESTINATION_def SAMPLING_CHANNEL_new_def SC_SET_INITIALIZED_def demo_shm_def Let_def
        SYSTEM_LIMIT_MAX_SAMPLING_MESSAGE_SIZE_def MAX_PARTITION_NUM_def check_schedule_def proceed_def [symmetric] empty_port_def)
qed

lemma demo_env_ok: "env_ok (demo_env (replicate (nat (16 + SYSTEM_LIMIT_MAX_SAMPLING_MESSAGE_SIZE)) 0))"
  by (auto simp: env_ok_def demo_env_fields demo_shm_def)

section \<open>The property file\<close>

text \<open>C22. A property file says what was written into it: the lines printed for a list of keys and values
  (words without surrounding blanks and without an equals sign, the key not starting with a slash) are read
  back as exactly these, in order, so every key has the values given to it.\<close>

theorem property_file_roundtrip:
  assumes "\<forall>(k, v)\<in>set kvs. plain_word k \<and> plain_word v \<and> hd k \<noteq> CHR ''/''"
  shows "INIT_PARTITION_PROPERTY_MAP (Some (map property_line kvs)) [] = proceed kvs \<and>
    (\<forall>key. equal_range key kvs = concat (map (\<lambda>(k, v). if k = key then [v] else []) kvs))"
proof -
  have "equal_range key kvs = concat (map (\<lambda>(k, v). if k = key then [v] else []) kvs)" for key
    by (induction kvs) (auto simp: equal_range_def)
  then show ?thesis using read_property_lines [OF assms, of "[]"] by simp
qed

theorem property_file_roundtrip_witness:
  "INIT_PARTITION_PROPERTY_MAP (Some [''CPU=1'', ''A_SCHEDULE=0,4'', ''A_SCHEDULE=5,3'']) [] =
    proceed [(''CPU'', ''1''), (''A_SCHEDULE'', ''0,4''), (''A_SCHEDULE'', ''5,3'')]"
  using property_file_roundtrip [of "[(''CPU'', ''1''), (''A_SCHEDULE'', ''0,4''), (''A_SCHEDULE'', ''5,3'')]"]
  by (simp add: plain_word_def blanks_def property_line_def)

section \<open>The schedule\<close>

text \<open>C21. The check of the constructor is exact for windows that last: with the windows sorted by offset (the
  contract of std::sort), a schedule is accepted if and only if no two windows overlap and every window
  ends within the hyperperiod.\<close>

theorem schedule_check_exact:
  assumes "xs \<noteq> []" "\<forall>x\<in>set xs. 0 < DURATION x"
    and "mset (srt xs) = mset xs" "sorted_wrt (\<lambda>x y. \<not> SCHEDULE_COMP y x) (srt xs)"
  shows "check_schedule frame (srt xs) = Returned (Inr ()) \<longleftrightarrow>
    (\<forall>i<length xs. \<forall>j<i. OFFSET (xs ! j) + DURATION (xs ! j) \<le> OFFSET (xs ! i) \<or>
       OFFSET (xs ! i) + DURATION (xs ! i) \<le> OFFSET (xs ! j)) \<and>
    (\<forall>x\<in>set xs. OFFSET x + DURATION x \<le> frame)"
  using check_schedule_exact [OF assms] by (auto simp: sorted_wrt_iff_nth_less apart_def)

theorem schedule_check_exact_witness:
  "check_schedule 10 (sort_schedule [\<lparr>OFFSET = 5, DURATION = 3, PARTITION_INDEX = 0\<rparr>, \<lparr>OFFSET = 0, DURATION = 4, PARTITION_INDEX = 1\<rparr>]) =
     Returned (Inr ()) \<and>
   check_schedule 10 (sort_schedule [\<lparr>OFFSET = 3, DURATION = 3, PARTITION_INDEX = 0\<rparr>, \<lparr>OFFSET = 0, DURATION = 4, PARTITION_INDEX = 1\<rparr>]) \<noteq>
     Returned (Inr ())"
  (is "check_schedule 10 (sort_schedule ?xs) = _ \<and> check_schedule 10 (sort_schedule ?ys) \<noteq> _")
proof -
  have srt: "mset (sort_schedule xs) = mset xs" "sorted_wrt (\<lambda>x y. \<not> SCHEDULE_COMP y x) (sort_schedule xs)" for xs
  proof -
    show "mset (sort_schedule xs) = mset xs" by (simp add: sort_schedule_def)
    have "sorted (map OFFSET (sort_schedule xs))" by (simp add: sort_schedule_def)
    then have "sorted_wrt (\<lambda>x y. OFFSET x \<le> OFFSET y) (sort_schedule xs)" by (simp only: sorted_map)
    then show "sorted_wrt (\<lambda>x y. \<not> SCHEDULE_COMP y x) (sort_schedule xs)"
      by (rule sorted_wrt_mono_rel [rotated]) (simp add: SCHEDULE_COMP_def)
  qed
  show ?thesis
    using schedule_check_exact [where srt = sort_schedule and xs = ?xs and frame = 10, OF _ _ srt] schedule_check_exact [where srt = sort_schedule and xs = ?ys and frame = 10, OF _ _ srt]
    by (simp add: less_Suc_eq numeral_2_eq_2 all_conj_distrib)
qed

section \<open>Accepted configurations\<close>

text \<open>C19. An accepted configuration is consistent, whatever the property file says: a window belongs to a
  partition of the module, a partition that is not a network partition names only channels that exist,
  every sampling channel is well formed, there are at most ten partitions, and the windows follow each
  other inside the hyperperiod.\<close>

theorem accepted_configuration_consistent:
  assumes "env_ok env" "\<And>xs. mset (srt xs) = mset xs"
    and "MODULE_MANAGER_new srt env sys file (MODULE_MANAGER_init config_port frame, w) = proceed (m, w')"
  shows "(\<forall>x\<in>set (SCHEDULING_VECTOR m). PARTITION_INDEX x < length (PARTITION_VECTOR m)) \<and>
    (\<forall>p\<in>set (PARTITION_VECTOR m). \<not> isNetworkPartition p \<longrightarrow>
       set (QUEUE_CHANNEL_INTER_MODULE_DST_VECTOR p @ QUEUE_CHANNEL_SOURCE_VECTOR p) \<subseteq> dom (MAP_OF_QUEUEING_CHANNELS m) \<and>
       set (SAMPLING_CHANNEL_INTER_MODULE_DST_VECTOR p @ SAMPLING_CHANNEL_SOURCE_VECTOR p) \<subseteq> dom (MAP_OF_SAMPLING_CHANNELS m)) \<and>
    (\<forall>c\<in>ran (MAP_OF_SAMPLING_CHANNELS m). sc_inv c) \<and>
    length (PARTITION_VECTOR m) \<le> 10 \<and>
    SCHEDULING_VECTOR m \<noteq> [] \<and> windows_apart (SCHEDULING_VECTOR m) \<and>
    OFFSET (last (SCHEDULING_VECTOR m)) + DURATION (last (SCHEDULING_VECTOR m)) \<le> MAJOR_FRAME_SIZE m"
proof -
  have "set (srt xs) = set xs" for xs using assms(2) by (rule mset_eq_setD)
  note acc = configuration_accepted [OF assms(1) this assms(3) config_ok_init]
  show ?thesis
    using acc unfolding config_ok_def sched_ok_def names_ok_def queue_names_def sampling_names_def check_schedule_def MAX_PARTITION_NUM_def
    by (simp split: if_splits)
qed

theorem accepted_configuration_consistent_witness:
  "\<exists>m w. MODULE_MANAGER_new sort_schedule (demo_env (replicate (nat (16 + SYSTEM_LIMIT_MAX_SAMPLING_MESSAGE_SIZE)) 0)) demo_sys
      (Some (map property_line demo_properties)) (MODULE_MANAGER_init 0 0, demo_world) = proceed (m, w) \<and>
    ''S'' \<in> dom (MAP_OF_SAMPLING_CHANNELS m)"
proof -
  have "mset (sort_schedule xs) = mset xs" for xs by (simp add: sort_schedule_def)
  obtain m w where m: "MODULE_MANAGER_new sort_schedule (demo_env (replicate (nat (16 + SYSTEM_LIMIT_MAX_SAMPLING_MESSAGE_SIZE)) 0)) demo_sys
      (Some (map property_line demo_properties)) (MODULE_MANAGER_init 0 0, demo_world) = proceed (m, w)"
    "map SAMPLING_CHANNEL_SOURCE_VECTOR (PARTITION_VECTOR m) = [[''S''], []]" "\<forall>p\<in>set (PARTITION_VECTOR m). \<not> isNetworkPartition p"
    using demo_accepted [of "replicate (nat (16 + SYSTEM_LIMIT_MAX_SAMPLING_MESSAGE_SIZE)) 0"] by (elim exE conjE) (rule that)
  obtain p ps where "PARTITION_VECTOR m = p # ps" "SAMPLING_CHANNEL_SOURCE_VECTOR p = [''S'']"
    using m(2) by (auto simp: map_eq_Cons_conv)
  then show ?thesis
    using accepted_configuration_consistent [OF demo_env_ok \<open>\<And>xs. mset (sort_schedule xs) = mset xs\<close> m(1)] m by fastforce
qed



end
