(* ===== verification/ModuleSync.thy ===== *)
theory ModuleSync
  imports ModuleConfig ModuleProperties
begin

text \<open>
  The synchronisation of module managers: SocketSynchronizationMessageType of
  include/ACM/INTERNAL/ModuleManager.h, the barrier and the start of the hyperperiods of
  ModuleManager/MultiModuleRelatedConfig.cc, and the runs under a system module manager of
  ModuleManager/ModuleScheduler.cc.  The loops that wait for a datagram have the number of
  receptions as fuel; with none left they are \<open>Blocked\<close>.  The code looks at \<open>errno\<close> after a reception
  whether it failed or not: \<open>stale w\<close> says that \<open>errno\<close> is EAGAIN or EWOULDBLOCK in \<open>w\<close>.
\<close>

section \<open>Messages\<close>

datatype SyncType =
  BARRIER_READY | BARRIER_ACK | SYNC_START | SYNC_STOP |
  NETWORK_LATENCY_READY | NETWORK_LATENCY_CHILD_ACK | NEWORK_LATENCY_PARENT_ACK

definition sync_code :: "SyncType \<Rightarrow> 32 word" where
  "sync_code s =
     (case s of BARRIER_READY \<Rightarrow> 0 | BARRIER_ACK \<Rightarrow> 1 | SYNC_START \<Rightarrow> 2 | SYNC_STOP \<Rightarrow> 3 | NETWORK_LATENCY_READY \<Rightarrow> 4 |
        NETWORK_LATENCY_CHILD_ACK \<Rightarrow> 5 | NEWORK_LATENCY_PARENT_ACK \<Rightarrow> 6)"

text \<open>The names are arrays of 100 characters; any code can arrive in a datagram.\<close>

record SYNC_MESSAGE =
  Sync :: "32 word"
  MESSAGE_SRC_MODULE :: "byte list"
  MESSAGE_DST_MODULE :: "byte list"
  NANOSECONDS_TO_WAIT :: "64 word"
  seq_id :: "64 word"

definition name_array :: "string \<Rightarrow> byte list" where
  "name_array s = take 100 (map of_char s @ replicate 100 0)"

definition SYNC_MESSAGE_new :: "SyncType \<Rightarrow> string \<Rightarrow> string \<Rightarrow> SYNC_MESSAGE" where
  "SYNC_MESSAGE_new sync1 src_name dst_name =
     \<lparr>Sync = sync_code sync1, MESSAGE_SRC_MODULE = name_array src_name, MESSAGE_DST_MODULE = name_array dst_name,
      NANOSECONDS_TO_WAIT = 0, seq_id = 0\<rparr>"

definition SyncTypeSize :: nat where "SyncTypeSize = 4 + 100 + 100 + 8 + 8"

definition le32_encode :: "32 word \<Rightarrow> byte list" where
  "le32_encode w = take 4 (le64_encode (ucast w))"

definition le32_decode :: "byte list \<Rightarrow> 32 word" where
  "le32_decode bs = word_of_int (le_value (take 4 bs))"

definition TO_SERIAL_BUFFER :: "SYNC_MESSAGE \<Rightarrow> byte list" where
  "TO_SERIAL_BUFFER message =
     le32_encode (Sync message) @ MESSAGE_SRC_MODULE message @ MESSAGE_DST_MODULE message @
     le64_encode (NANOSECONDS_TO_WAIT message) @ le64_encode (seq_id message)"

definition FROM_SERIAL_BUFFER :: "byte list \<Rightarrow> SYNC_MESSAGE" where
  "FROM_SERIAL_BUFFER buffer =
     \<lparr>Sync = le32_decode buffer, MESSAGE_SRC_MODULE = take 100 (drop 4 buffer),
      MESSAGE_DST_MODULE = take 100 (drop 104 buffer), NANOSECONDS_TO_WAIT = le64_decode (drop 204 buffer),
      seq_id = le64_decode (drop 212 buffer)\<rparr>"

definition sync_ok :: "SYNC_MESSAGE \<Rightarrow> bool" where
  "sync_ok m \<longleftrightarrow> length (MESSAGE_SRC_MODULE m) = 100 \<and> length (MESSAGE_DST_MODULE m) = 100"

lemma le32_roundtrip: "le32_decode (le32_encode w @ rest) = w"
proof -
  have "take 4 (le64_encode (ucast w)) = map (\<lambda>i. ucast (drop_bit (8 * i) (ucast w :: 64 word))) [0..<4]"
    by (simp add: le64_encode_def take_map)
  moreover have "uint (ucast w :: 64 word) = uint w" by (simp add: uint_up_ucast is_up)
  moreover have "uint w < 256 ^ 4" using uint_lt2p [of w] by simp
  ultimately have "le_value (le32_encode w) = uint w"
    unfolding le32_encode_def by (simp add: le_value_bytes)
  then show ?thesis by (simp add: le32_decode_def le32_encode_def)
qed

lemma length_le32 [simp]: "length (le32_encode w) = 4" by (simp add: le32_encode_def)

lemma length_name_array [simp]: "length (name_array s) = 100" by (simp add: name_array_def)

lemma sync_ok_new [simp]: "sync_ok (SYNC_MESSAGE_new ty src dst)"
  by (simp add: sync_ok_def SYNC_MESSAGE_new_def)

lemma length_serial: "sync_ok m \<Longrightarrow> length (TO_SERIAL_BUFFER m) = SyncTypeSize"
  by (simp add: TO_SERIAL_BUFFER_def sync_ok_def SyncTypeSize_def)

lemma serial_roundtrip: "sync_ok m \<Longrightarrow> FROM_SERIAL_BUFFER (TO_SERIAL_BUFFER m) = m"
  using le64_roundtrip [of _ "[]"]
  by (cases m) (simp add: FROM_SERIAL_BUFFER_def TO_SERIAL_BUFFER_def sync_ok_def le32_roundtrip le64_roundtrip)

section \<open>Sockets\<close>

text \<open>A socket that was not created is a null pointer.\<close>

record MODULE_SYNC = MODULE_CONFIG +
  Send_Socket :: bool
  Recv_Socket :: "nat option"
  SocketsInitialized :: bool
  AVE_NETWORK_LATENCY_FROM_PARENT :: int

text \<open>\<open>created\<close> tells whether the system gives the sockets and, for multicast, takes the module into the group;
  if not, the exception is turned into -3.  A multicast socket is emptied before it has its port.\<close>

definition createSockets :: "bool \<Rightarrow> MODULE_SYNC \<Rightarrow> MODULE_SYNC config" where
  "createSockets created m =
     (if SocketsInitialized m then proceed m
      else if PARENT_NAME m = '''' \<and> childrenModules m = [] then proceed m
      else if \<not> created then throw (-3)
      else proceed (m\<lparr>Send_Socket := True,
             Recv_Socket := Some ((if isSystemModuleManager m then PARENT_PORT m else CONFIGURATION_PORT_NUM m) mod 65536)\<rparr>))"

definition resetchildrenModules :: "'a MODULE_CONFIG_scheme \<Rightarrow> 'a MODULE_CONFIG_scheme" where
  "resetchildrenModules m = m\<lparr>childrenModules := map (\<lambda>(k, c). (k, c\<lparr>receivedanswer := False\<rparr>)) (childrenModules m)\<rparr>"

definition numchildrensyncremaining :: "'a MODULE_CONFIG_scheme \<Rightarrow> nat" where
  "numchildrensyncremaining m = length (filter (\<lambda>(k, c). \<not> receivedanswer c) (childrenModules m))"

text \<open>\<open>childrenModules[src].receivedanswer = true\<close>, which makes an entry for a module that is not a child.\<close>

definition child_answered :: "string \<Rightarrow> 'a MODULE_CONFIG_scheme \<Rightarrow> 'a MODULE_CONFIG_scheme" where
  "child_answered src m =
     (let c = (case map_of (childrenModules m) src of
                 None \<Rightarrow> \<lparr>receivedanswer = False, childname = '''', child_hostname = '''', child_portnum = 0\<rparr> | Some c \<Rightarrow> c)
      in m\<lparr>childrenModules := map_put src (c\<lparr>receivedanswer := True\<rparr>) (childrenModules m)\<rparr>)"

text \<open>The string in an array that has its terminator; without one it would be read beyond the array.\<close>

definition c_string :: "byte list \<Rightarrow> string option" where
  "c_string bs = (if 0 \<in> set bs then Some (map (\<lambda>b. char_of (unat b)) (takeWhile (\<lambda>b. b \<noteq> 0) bs)) else None)"

text \<open>strcmp of the sender of a message with the name of the parent; it reads at most one character more than
  the name has, and past the array only for a name of 100 characters or more (\<open>Undef\<close> in the callers).\<close>

definition is_from :: "string \<Rightarrow> SYNC_MESSAGE \<Rightarrow> bool" where
  "is_from name msg \<longleftrightarrow> take (length name + 1) (MESSAGE_SRC_MODULE msg) = map of_char name @ [0]"

definition broadcast_url :: "'a MODULE_SYNC_scheme \<Rightarrow> DESTINATION_URL" where
  "broadcast_url m = \<lparr>node_name = broadcastaddress m, url_port = CONFIGURATION_PORT_NUM m mod 65536\<rparr>"

definition parent_url :: "'a MODULE_SYNC_scheme \<Rightarrow> DESTINATION_URL" where
  "parent_url m = \<lparr>node_name = PARENT_HOST m, url_port = PARENT_PORT m mod 65536\<rparr>"

definition send_sync ::
  "'w socket_calls \<Rightarrow> DESTINATION_URL \<Rightarrow> SYNC_MESSAGE \<Rightarrow> 'a MODULE_SYNC_scheme \<Rightarrow> 'w \<Rightarrow> 'w outcome" where
  "send_sync net u msg m w =
     (if \<not> Send_Socket m then Undef
      else case send_to net (TO_SERIAL_BUFFER msg) u w of None \<Rightarrow> Aborted | Some w' \<Rightarrow> Returned w')"

section \<open>The barrier\<close>

text \<open>What a system module manager does with one reception.\<close>

definition take_ready :: "recv_answer \<Rightarrow> 'a MODULE_CONFIG_scheme \<Rightarrow> 'a MODULE_CONFIG_scheme outcome" where
  "take_ready r m =
     (case r of
        Received bs \<Rightarrow>
          if length bs \<noteq> SyncTypeSize then Returned m
          else if Sync (FROM_SERIAL_BUFFER bs) \<noteq> sync_code BARRIER_READY then Returned m
          else (case c_string (MESSAGE_SRC_MODULE (FROM_SERIAL_BUFFER bs)) of
                  None \<Rightarrow> Undef | Some src \<Rightarrow> Returned (child_answered src m))
      | _ \<Rightarrow> Returned m)"

fun await_children ::
  "'w socket_calls \<Rightarrow> nat \<Rightarrow> 'a MODULE_SYNC_scheme \<Rightarrow> 'w \<Rightarrow> ('a MODULE_SYNC_scheme \<times> 'w) outcome" where
  "await_children net k m w =
     (if numchildrensyncremaining m = 0 then Returned (m, w)
      else case Recv_Socket m of
        None \<Rightarrow> Undef
      | Some sock \<Rightarrow>
          (case k of
             0 \<Rightarrow> Blocked
           | Suc k' \<Rightarrow>
               let (r, w1) = recv_from net sock (int SyncTypeSize) w in
               bind_outcome (take_ready r m) (\<lambda>m1. await_children net k' m1 w1)))"

declare await_children.simps [simp del]

text \<open>The wait of a child for a message of its parent; the first argument is the message it has.  A
  reception that fails ends it without a message.\<close>

definition good_datagram :: "('w \<Rightarrow> bool) \<Rightarrow> recv_answer \<Rightarrow> 'w \<Rightarrow> byte list option" where
  "good_datagram stale r w =
     (case r of Received bs \<Rightarrow> if length bs = SyncTypeSize \<and> \<not> stale w then Some bs else None | _ \<Rightarrow> None)"

fun await_parent ::
  "'w socket_calls \<Rightarrow> ('w \<Rightarrow> bool) \<Rightarrow> nat \<Rightarrow> SYNC_MESSAGE \<Rightarrow> 'a MODULE_SYNC_scheme \<Rightarrow> 'w \<Rightarrow> (SYNC_MESSAGE option \<times> 'w) outcome" where
  "await_parent net stale k msg m w =
     (if is_from (PARENT_NAME m) msg then Returned (Some msg, w)
      else case Recv_Socket m of
        None \<Rightarrow> Undef
      | Some sock \<Rightarrow>
          (case k of
             0 \<Rightarrow> Blocked
           | Suc k' \<Rightarrow>
               let (r, w1) = recv_from net sock (int SyncTypeSize) w in
               case good_datagram stale r w1 of
                 None \<Rightarrow> Returned (None, w1)
               | Some bs \<Rightarrow> await_parent net stale k' (FROM_SERIAL_BUFFER bs) m w1))"

declare await_parent.simps [simp del]

text \<open>The message of the child is not initialised (\<open>stack_message\<close>) when its sender is first compared.\<close>

definition SYNC_WITH_OTHER_MODULE_MANAGERS ::
  "'w socket_calls \<Rightarrow> ('w \<Rightarrow> bool) \<Rightarrow> nat \<Rightarrow> SYNC_MESSAGE \<Rightarrow> 'a MODULE_SYNC_scheme \<Rightarrow> 'w \<Rightarrow>
   (bool \<times> 'a MODULE_SYNC_scheme \<times> 'w) outcome" where
  "SYNC_WITH_OTHER_MODULE_MANAGERS net stale k stack_message m w =
     (if \<not> isSystemModuleManager m \<and> \<not> isrunningUnderSystemModuleManager m then Returned (True, m, w)
      else if isSystemModuleManager m then
        bind_outcome (await_children net k (resetchildrenModules m) w) (\<lambda>(m1, w1).
        bind_outcome (send_sync net (broadcast_url m1) (SYNC_MESSAGE_new BARRIER_ACK (MODULE_NAME m1) (PARENT_NAME m1)) m1 w1) (\<lambda>w2.
          Returned (True, m1, w2)))
      else
        bind_outcome (send_sync net (parent_url m) (SYNC_MESSAGE_new BARRIER_READY (MODULE_NAME m) (PARENT_NAME m)) m w) (\<lambda>w1.
        if length (PARENT_NAME m) \<ge> 100 then Undef
        else bind_outcome (await_parent net stale k stack_message m w1) (\<lambda>(answer, w2).
          Returned (case answer of None \<Rightarrow> False | Some msg \<Rightarrow> Sync msg = sync_code BARRIER_ACK, m, w2))))"

definition GET_READY_MM_FOR_HYPERPERIOD ::
  "'w socket_calls \<Rightarrow> nat \<Rightarrow> 'a MODULE_SYNC_scheme \<Rightarrow> 'w \<Rightarrow> (bool \<times> 'a MODULE_SYNC_scheme \<times> 'w) outcome" where
  "GET_READY_MM_FOR_HYPERPERIOD net k m w =
     (if \<not> isSystemModuleManager m \<and> \<not> isrunningUnderSystemModuleManager m then Returned (True, m, w)
      else if isSystemModuleManager m then
        bind_outcome (await_children net k (resetchildrenModules m) w) (\<lambda>(m1, w1). Returned (True, m1, w1))
      else
        bind_outcome (send_sync net (parent_url m) (SYNC_MESSAGE_new BARRIER_READY (MODULE_NAME m) (PARENT_NAME m)) m w) (\<lambda>w1.
          Returned (True, m, w1)))"

section \<open>The start of a hyperperiod\<close>

text \<open>The message is static: made at the first call, and a STOP in it stays.\<close>

definition hyper_period_message :: "'a MODULE_SYNC_scheme \<Rightarrow> SYNC_MESSAGE" where
  "hyper_period_message m = SYNC_MESSAGE_new SYNC_START (MODULE_NAME m) (PARENT_NAME m)"

definition SEND_HYPER_PERIOD_ECHO ::
  "'w socket_calls \<Rightarrow> bool \<Rightarrow> 'a MODULE_SYNC_scheme \<Rightarrow> SYNC_MESSAGE \<times> 'w \<times> mm_event list \<Rightarrow> (SYNC_MESSAGE \<times> 'w \<times> mm_event list) outcome" where
  "SEND_HYPER_PERIOD_ECHO net stop_it m = (\<lambda>(msg, w, tr).
     if \<not> isSystemModuleManager m then Returned (msg, w, tr)
     else let msg1 = (if stop_it then msg\<lparr>Sync := sync_code SYNC_STOP\<rparr> else msg) in
       bind_outcome (send_sync net (broadcast_url m) msg1 m w) (\<lambda>w1.
         Returned (msg1, w1, tr @ [Sent (broadcast_url m) (TO_SERIAL_BUFFER msg1)])))"

section \<open>Runs under a system module manager\<close>

text \<open>\<open>c\<close> has the settings, which do not change; the state of the run is the module, the system, the static
  message and the events.\<close>

fun run_system_frames ::
  "'w mq_calls \<Rightarrow> 'w socket_calls \<Rightarrow> MODULE_SYNC \<Rightarrow> frame_env list \<Rightarrow> int \<Rightarrow> SYSTEM_TIMESPEC \<Rightarrow> SYNC_MESSAGE \<Rightarrow>
   MODULE_MANAGER \<times> 'w \<times> mm_event list \<Rightarrow> (SYNC_MESSAGE \<times> MODULE_MANAGER \<times> 'w \<times> mm_event list) outcome" where
  "run_system_frames mq net c es k START_HYPER_PERIOD msg s =
     (if \<not> more_frames (fst s) k then Returned (msg, s)
      else case es of
        [] \<Rightarrow> Blocked
      | e # es' \<Rightarrow>
          (case s of (m, w, tr) \<Rightarrow>
            bind_outcome (SEND_HYPER_PERIOD_ECHO net False c (msg, w, tr)) (\<lambda>(msg1, w0, tr0).
            bind_outcome (run_windows mq net (window_envs e) START_HYPER_PERIOD (SCHEDULING_VECTOR m) (m, w0, tr0)) (\<lambda>s1.
            bind_outcome (assert_some (addTimeNano START_HYPER_PERIOD (MAJOR_FRAME_SIZE (fst s1)))) (\<lambda>next.
            bind_outcome (nanosleep_loop next (frame_sleep e)) (\<lambda>_.
              run_system_frames mq net c es' (if isMAX_NUMBER_OF_FRAMES_SET m then k + 1 else k) next msg1
                (case s1 of (m, w, tr) \<Rightarrow> (m, w, tr @ [Until next]))))))))"

declare run_system_frames.simps [simp del]

definition RUN_SYSTEM_MODULE_MANAGER ::
  "'w mq_calls \<Rightarrow> 'w socket_calls \<Rightarrow> frame_env list \<Rightarrow> SYSTEM_TIMESPEC \<Rightarrow> MODULE_SYNC \<Rightarrow> 'w \<Rightarrow>
   (MODULE_MANAGER \<times> 'w \<times> mm_event list) outcome" where
  "RUN_SYSTEM_MODULE_MANAGER mq net es MM_START_TIME c w =
     bind_outcome (run_system_frames mq net c es 0 MM_START_TIME (hyper_period_message c) (MODULE_MANAGER.truncate c, w, []))
       (\<lambda>(msg, m', w', tr).
     bind_outcome (SEND_HYPER_PERIOD_ECHO net True c (msg, w', tr)) (\<lambda>(msg', w'', tr').
       Returned (m'\<lparr>PARTITION_VECTOR := []\<rparr>, w'', tr' @ DOSHUTDOWN m')))"

text \<open>A child runs one hyperperiod for every START of its parent, from the time it takes it; the list has,
  for each reception, the clock and the inputs of the windows should it be a START.  A parent called by one
  blank would be taken for the sender of the message that is reset, and its uninitialised code used.\<close>

record child_env =
  start_clock :: SYSTEM_TIMESPEC
  child_windows :: "nat \<Rightarrow> window_env"

fun run_child ::
  "'w mq_calls \<Rightarrow> 'w socket_calls \<Rightarrow> ('w \<Rightarrow> bool) \<Rightarrow> MODULE_SYNC \<Rightarrow> child_env list \<Rightarrow>
   MODULE_MANAGER \<times> 'w \<times> mm_event list \<Rightarrow> (MODULE_MANAGER \<times> 'w \<times> mm_event list) outcome" where
  "run_child mq net stale c [] s = Blocked"
| "run_child mq net stale c (e # es) (m, w, tr) =
     (case Recv_Socket c of
        None \<Rightarrow> Undef
      | Some sock \<Rightarrow>
          let (r, w1) = recv_from net sock (int SyncTypeSize) w in
          (case good_datagram stale r w1 of
             None \<Rightarrow> run_child mq net stale c es (m, w1, tr)
           | Some bs \<Rightarrow>
               let msg = FROM_SERIAL_BUFFER bs in
               if \<not> is_from (PARENT_NAME c) msg then run_child mq net stale c es (m, w1, tr)
               else if Sync msg = sync_code SYNC_START then
                 bind_outcome (run_windows mq net (child_windows e) (start_clock e) (SCHEDULING_VECTOR m) (m, w1, tr))
                   (run_child mq net stale c es)
               else if Sync msg = sync_code SYNC_STOP then Returned (m, w1, tr)
               else run_child mq net stale c es (m, w1, tr)))"

definition RUN_CHILD_MODULE_MANAGER ::
  "'w mq_calls \<Rightarrow> 'w socket_calls \<Rightarrow> ('w \<Rightarrow> bool) \<Rightarrow> child_env list \<Rightarrow> MODULE_SYNC \<Rightarrow> 'w \<Rightarrow>
   (MODULE_MANAGER \<times> 'w \<times> mm_event list) outcome" where
  "RUN_CHILD_MODULE_MANAGER mq net stale es c w =
     (if length (PARENT_NAME c) \<ge> 100 \<or> PARENT_NAME c = '' '' then Undef
      else bind_outcome (run_child mq net stale c es (MODULE_MANAGER.truncate c, w, [])) (\<lambda>(m', w', tr).
        Returned (m'\<lparr>PARTITION_VECTOR := []\<rparr>, w', tr @ DOSHUTDOWN m')))"

end
