(* ===== verification/SyncProperties.thy ===== *)
theory SyncProperties
  imports ModuleSync ModuleRuns
begin

text \<open>
  The barrier between module managers: a system module manager passes it exactly when every child has
  reported, and, as a system of a parent and its children over a network that may delay, repeat and lose
  datagrams, no child is released before all have reached it.
\<close>

section \<open>Children as a map\<close>

definition sorted_keys :: "(string \<times> 'v) list \<Rightarrow> bool" where
  "sorted_keys ps \<longleftrightarrow> sorted_wrt (<) (map fst ps)"

lemma map_of_map_put: "map_of (map_put k v ps) = (map_of ps)(k \<mapsto> v)"
  by (induction ps) auto

lemma set_map_put: "fst ` set (map_put k v ps) = insert k (fst ` set ps)"
  by (induction ps) auto

lemma sorted_map_put: "sorted_keys ps \<Longrightarrow> sorted_keys (map_put k v ps)"
proof (induction ps)
  case (Cons p ps)
  have tail: "sorted_keys ps" "\<forall>x\<in>fst ` set ps. fst p < x" using Cons.prems by (auto simp: sorted_keys_def)
  have "\<forall>x\<in>fst ` set (map_put k v ps). fst p < x" if "fst p < k" using tail(2) that by (simp add: set_map_put)
  then show ?case using Cons tail by (auto simp: sorted_keys_def set_map_put not_less order.strict_iff_order)
qed (simp add: sorted_keys_def)

lemma sorted_keys_distinct: "sorted_keys ps \<Longrightarrow> distinct (map fst ps)"
  by (simp add: sorted_keys_def strict_sorted_iff)

definition answered :: "'a MODULE_CONFIG_scheme \<Rightarrow> string set" where
  "answered m = {k. \<exists>c. map_of (childrenModules m) k = Some c \<and> receivedanswer c}"

definition child_names :: "'a MODULE_CONFIG_scheme \<Rightarrow> string set" where
  "child_names m = fst ` set (childrenModules m)"

lemma remaining_zero:
  assumes "sorted_keys (childrenModules m)"
  shows "numchildrensyncremaining m = 0 \<longleftrightarrow> child_names m \<subseteq> answered m"
proof -
  have "map_of (childrenModules m) k = Some c \<longleftrightarrow> (k, c) \<in> set (childrenModules m)" for k c
    using sorted_keys_distinct [OF assms] by (simp add: map_of_eq_Some_iff)
  then have *: "k \<in> answered m \<longleftrightarrow> (\<exists>c. (k, c) \<in> set (childrenModules m) \<and> receivedanswer c)" for k
    by (simp add: answered_def)
  have unique: "(k, c) \<in> set (childrenModules m) \<Longrightarrow> (k, c') \<in> set (childrenModules m) \<Longrightarrow> c = c'" for k c c'
    using sorted_keys_distinct [OF assms] by (metis map_of_eq_Some_iff option.inject)
  have "child_names m \<subseteq> answered m \<longleftrightarrow> (\<forall>(k, c)\<in>set (childrenModules m). receivedanswer c)"
    (is "?sub \<longleftrightarrow> ?all")
  proof
    assume sub: ?sub
    have "receivedanswer c" if kc: "(k, c) \<in> set (childrenModules m)" for k c
    proof -
      have "k \<in> child_names m" using kc unfolding child_names_def by force
      then obtain c' where "(k, c') \<in> set (childrenModules m)" "receivedanswer c'" using sub * by blast
      then show ?thesis using unique [OF kc] by simp
    qed
    then show ?all by auto
  next
    assume ?all
    then show ?sub unfolding child_names_def using * by fastforce
  qed
  then show ?thesis by (auto simp: numchildrensyncremaining_def filter_empty_conv)
qed

lemma child_answered_fields [simp]:
  "answered (child_answered src m) = insert src (answered m)"
  "child_names (child_answered src m) = insert src (child_names m)"
  "sorted_keys (childrenModules m) \<Longrightarrow> sorted_keys (childrenModules (child_answered src m))"
  by (auto simp: answered_def child_names_def child_answered_def Let_def map_of_map_put set_map_put sorted_map_put split: option.splits)

lemma child_answered_same: "\<exists>cs. child_answered src m = m\<lparr>childrenModules := cs\<rparr>" "\<exists>cs. m = m\<lparr>childrenModules := cs\<rparr>"
  by (auto simp: child_answered_def Let_def intro: exI [of _ "childrenModules m"])

lemma reset_fields [simp]:
  "answered (resetchildrenModules m) = {}" "child_names (resetchildrenModules m) = child_names m"
  "sorted_keys (childrenModules (resetchildrenModules m)) = sorted_keys (childrenModules m)"
proof -
  have "map fst (map (\<lambda>(k, c). (k, c\<lparr>receivedanswer := False\<rparr>)) ps) = map fst ps" for ps :: "(string \<times> child_url) list"
    by (induction ps) auto
  then show "sorted_keys (childrenModules (resetchildrenModules m)) = sorted_keys (childrenModules m)"
    by (simp add: resetchildrenModules_def sorted_keys_def del: map_map)
  have "map_of (map (\<lambda>(k, c). (k, c\<lparr>receivedanswer := False\<rparr>)) ps) = map_option (\<lambda>c. c\<lparr>receivedanswer := False\<rparr>) \<circ> map_of ps" for ps :: "(string \<times> child_url) list"
    by (induction ps) auto
  then show "answered (resetchildrenModules m) = {}" by (auto simp: answered_def resetchildrenModules_def)
  show "child_names (resetchildrenModules m) = child_names m" by (force simp: child_names_def resetchildrenModules_def)
qed

section \<open>Receptions\<close>

fun receptions :: "'w socket_calls \<Rightarrow> nat \<Rightarrow> nat \<Rightarrow> 'w \<Rightarrow> recv_answer list" where
  "receptions net sock 0 w = []"
| "receptions net sock (Suc k) w =
     (let (r, w1) = recv_from net sock (int SyncTypeSize) w in r # receptions net sock k w1)"

text \<open>The child that a reception reports, and a reception whose sender has no terminator.\<close>

definition ready_from :: "recv_answer \<Rightarrow> string \<Rightarrow> bool" where
  "ready_from r name \<longleftrightarrow> (\<exists>bs. r = Received bs \<and> length bs = SyncTypeSize \<and>
     Sync (FROM_SERIAL_BUFFER bs) = sync_code BARRIER_READY \<and> c_string (MESSAGE_SRC_MODULE (FROM_SERIAL_BUFFER bs)) = Some name)"

definition unterminated :: "recv_answer \<Rightarrow> bool" where
  "unterminated r \<longleftrightarrow> (\<exists>bs. r = Received bs \<and> length bs = SyncTypeSize \<and>
     Sync (FROM_SERIAL_BUFFER bs) = sync_code BARRIER_READY \<and> c_string (MESSAGE_SRC_MODULE (FROM_SERIAL_BUFFER bs)) = None)"

lemma take_ready_cases:
  "take_ready r m = (if unterminated r then Undef
     else Returned (if \<exists>n. ready_from r n then child_answered (THE n. ready_from r n) m else m))"
  by (auto simp: take_ready_def unterminated_def ready_from_def split: recv_answer.splits option.splits)

lemma ready_from_unique: "ready_from r n \<Longrightarrow> ready_from r n' \<Longrightarrow> n = n'"
  by (auto simp: ready_from_def)

lemma take_ready_Returned:
  assumes "take_ready r m = Returned m'"
  shows "answered m' = answered m \<union> {n. ready_from r n}" "child_names m' = child_names m \<union> {n. ready_from r n}"
    "sorted_keys (childrenModules m) \<Longrightarrow> sorted_keys (childrenModules m')"
    "\<exists>cs. m' = m\<lparr>childrenModules := cs\<rparr>"
proof -
  have n: "(THE n. ready_from r n) = n" if "ready_from r n" for n
    using that ready_from_unique by (metis the_equality)
  consider (report) n where "{x. ready_from r x} = {n}" "m' = child_answered n m" | (other) "{x. ready_from r x} = {}" "m' = m"
  proof (cases "\<exists>n. ready_from r n")
    case True
    then obtain n1 where n1: "ready_from r n1" by blast
    then have "{x. ready_from r x} = {n1}" using ready_from_unique by blast
    moreover have "m' = child_answered n1 m" using assms n [OF n1] True by (simp add: take_ready_cases split: if_splits)
    ultimately show ?thesis by (rule report)
  next
    case False
    then have "m' = m" using assms by (simp add: take_ready_cases split: if_splits)
    then show ?thesis using False other by simp
  qed
  note cases = this
  show "answered m' = answered m \<union> {n. ready_from r n}" by (rule cases) simp_all
  show "child_names m' = child_names m \<union> {n. ready_from r n}" by (rule cases) simp_all
  show "sorted_keys (childrenModules m) \<Longrightarrow> sorted_keys (childrenModules m')" by (rule cases) simp_all
  show "\<exists>cs. m' = m\<lparr>childrenModules := cs\<rparr>"
    by (rule cases) (simp_all only: child_answered_same(1), rule child_answered_same(2))
qed

lemma await_children_rules:
  "numchildrensyncremaining m = 0 \<Longrightarrow> await_children net k m w = Returned (m, w)"
  "numchildrensyncremaining m \<noteq> 0 \<Longrightarrow> Recv_Socket m = Some sock \<Longrightarrow> await_children net 0 m w = Blocked"
  "numchildrensyncremaining m \<noteq> 0 \<Longrightarrow> Recv_Socket m = Some sock \<Longrightarrow> await_children net (Suc k) m w =
     (let (r, w1) = recv_from net sock (int SyncTypeSize) w in
      bind_outcome (take_ready r m) (\<lambda>m1. await_children net k m1 w1))"
  by (subst await_children.simps, simp only: if_True if_False refl option.case nat.case)+

lemma await_children_cases:
  assumes "await_children net k m w = Returned (m', w')" "Recv_Socket m = Some sock" "sorted_keys (childrenModules m)"
  shows "\<exists>j\<le>k. (\<forall>n\<in>child_names m. n \<in> answered m \<or> (\<exists>r\<in>set (receptions net sock j w). ready_from r n)) \<and>
    child_names m \<subseteq> child_names m' \<and> (\<exists>cs. m' = m\<lparr>childrenModules := cs\<rparr>)"
  using assms
proof (induction k arbitrary: m w)
  case 0
  then have "numchildrensyncremaining m = 0" "m' = m"
    by (cases "numchildrensyncremaining m = 0"; simp add: await_children_rules)+
  then show ?case using remaining_zero [OF 0(3)] child_answered_same(2) [of m] by auto
next
  case (Suc k)
  show ?case
  proof (cases "numchildrensyncremaining m = 0")
    case True
    then have "m' = m" using Suc.prems(1) by (simp add: await_children_rules)
    then show ?thesis using True remaining_zero [OF Suc.prems(3)] child_answered_same(2) [of m] by auto
  next
    case False
    obtain r w1 where r: "recv_from net sock (int SyncTypeSize) w = (r, w1)" by fastforce
    obtain m1 where m1: "take_ready r m = Returned m1" "await_children net k m1 w1 = Returned (m', w')"
      using Suc.prems(1,2) False r by (auto simp: await_children_rules bind_outcome_Returned)
    note t = take_ready_Returned [OF m1(1)]
    have sock: "Recv_Socket m1 = Some sock" using t(4) Suc.prems(2) by auto
    obtain j where j: "j \<le> k" "\<forall>n\<in>child_names m1. n \<in> answered m1 \<or> (\<exists>r\<in>set (receptions net sock j w1). ready_from r n)"
      "child_names m1 \<subseteq> child_names m'" "\<exists>cs. m' = m1\<lparr>childrenModules := cs\<rparr>"
      using Suc.IH [OF m1(2) sock t(3) [OF Suc.prems(3)]] by blast
    have "n \<in> answered m \<or> (\<exists>r\<in>set (receptions net sock (Suc j) w). ready_from r n)" if "n \<in> child_names m" for n
      using j(2) that t(1,2) r by auto
    moreover have "child_names m \<subseteq> child_names m'" using j(3) t(2) by blast
    moreover have "\<exists>cs. m' = m\<lparr>childrenModules := cs\<rparr>" using j(4) t(4) by auto
    ultimately show ?thesis using j(1) by (intro exI [of _ "Suc j"]) auto
  qed
qed

lemma await_children_returns:
  assumes "Recv_Socket m = Some sock" "sorted_keys (childrenModules m)"
    "\<forall>r\<in>set (receptions net sock k w). \<not> unterminated r"
    "\<forall>n\<in>child_names m. n \<in> answered m \<or> (\<exists>r\<in>set (receptions net sock k w). ready_from r n)"
  shows "\<exists>m' w'. await_children net k m w = Returned (m', w')"
  using assms
proof (induction k arbitrary: m w)
  case 0
  then have "numchildrensyncremaining m = 0" using remaining_zero [OF 0(2)] by auto
  then show ?case by (simp add: await_children_rules)
next
  case (Suc k)
  obtain r w1 where r: "recv_from net sock (int SyncTypeSize) w = (r, w1)" by fastforce
  obtain m1 where m1: "take_ready r m = Returned m1" using Suc.prems(3) r by (simp add: take_ready_cases)
  note t = take_ready_Returned [OF m1]
  have sock: "Recv_Socket m1 = Some sock" using t(4) Suc.prems(1) by auto
  have "\<exists>m' w'. await_children net k m1 w1 = Returned (m', w')"
    by (rule Suc.IH [OF sock t(3) [OF Suc.prems(2)]]) (use Suc.prems(3,4) t(1,2) r in auto)
  then show ?case using r m1 Suc.prems(1)
    by (cases "numchildrensyncremaining m = 0") (simp_all add: await_children_rules)
qed

lemma receptions_prefix: "j \<le> k \<Longrightarrow> set (receptions net sock j w) \<subseteq> set (receptions net sock k w)"
proof (induction k arbitrary: j w)
  case (Suc k)
  show ?case
  proof (cases j)
    case (Suc i)
    then show ?thesis using Suc.prems Suc.IH [of i "snd (recv_from net sock (int SyncTypeSize) w)"]
      by (auto simp: case_prod_beta Let_def)
  qed simp
qed simp

section \<open>The barrier as a system\<close>

text \<open>A system module manager and its children \<open>cs\<close> at one barrier.  The network has every datagram
  that was sent and gives them in any order, any number of times or not at all; other datagrams, of a wrong
  length or with another code, may be there too.\<close>

text \<open>A name of less than 100 characters that has no terminator inside.\<close>

definition proper_name :: "string \<Rightarrow> bool" where
  "proper_name n \<longleftrightarrow> length n < 100 \<and> CHR 0x00 \<notin> set n"

lemma unat_of_char: "unat (of_char c :: byte) = of_char c"
proof -
  have "unat (of_nat (of_char c) :: byte) = of_char c" by (simp add: unat_of_nat)
  then show ?thesis by (simp only: of_nat_of_char)
qed

lemma c_string_name_array: "proper_name n \<Longrightarrow> c_string (name_array n) = Some n"
proof -
  assume n: "proper_name n"
  have nz: "(of_char c :: byte) \<noteq> 0" if "c \<in> set n" for c
  proof
    assume "(of_char c :: byte) = 0"
    then have "unat (of_char c :: byte) = 0" by simp
    then have "of_char c = (0 :: nat)" by (simp add: unat_of_char)
    then have "c = CHR 0x00" by (cases c) (auto split: if_splits)
    then show False using n that by (simp add: proper_name_def)
  qed
  have "takeWhile (\<lambda>b. b \<noteq> 0) (name_array n) = (map of_char n :: byte list)"
  proof -
    have "takeWhile (\<lambda>b. b \<noteq> 0) ((map of_char n :: byte list) @ replicate (100 - length n) 0) =
        map of_char n @ takeWhile (\<lambda>b. b \<noteq> 0) (replicate (100 - length n) 0)"
      using nz by (intro takeWhile_append2) auto
    moreover have "takeWhile (\<lambda>b. b \<noteq> 0) (replicate k (0 :: byte)) = []" for k by (cases k) simp_all
    ultimately show ?thesis using n by (simp add: name_array_def proper_name_def)
  qed
  moreover have "0 \<in> set (name_array n)" using n by (auto simp: name_array_def proper_name_def)
  moreover have "map (\<lambda>b. char_of (unat b)) (map of_char n :: byte list) = n"
    by (induction n) (simp_all add: unat_of_char)
  ultimately show ?thesis by (simp add: c_string_def)
qed

record barrier =
  b_parent :: MODULE_SYNC
  b_passed :: bool
  b_entered :: "string set"
  b_released :: "string set"
  b_up :: "byte list set"
  b_down :: "byte list set"

definition ready_message :: "MODULE_SYNC \<Rightarrow> SYNC_MESSAGE" where
  "ready_message m = SYNC_MESSAGE_new BARRIER_READY (MODULE_NAME m) (PARENT_NAME m)"

definition ack_message :: "MODULE_SYNC \<Rightarrow> SYNC_MESSAGE" where
  "ack_message m = SYNC_MESSAGE_new BARRIER_ACK (MODULE_NAME m) (PARENT_NAME m)"

inductive barrier_step :: "(string \<Rightarrow> MODULE_SYNC) \<Rightarrow> barrier \<Rightarrow> barrier \<Rightarrow> bool" for cs where
  child_reports:
    "proper_name n \<Longrightarrow> barrier_step cs s (s\<lparr>b_entered := insert n (b_entered s), b_up := insert (TO_SERIAL_BUFFER (ready_message (cs n))) (b_up s)\<rparr>)"
| parent_takes:
    "\<not> b_passed s \<Longrightarrow> numchildrensyncremaining (b_parent s) \<noteq> 0 \<Longrightarrow> d \<in> b_up s \<Longrightarrow>
     take_ready (Received d) (b_parent s) = Returned p \<Longrightarrow> barrier_step cs s (s\<lparr>b_parent := p\<rparr>)"
| parent_passes:
    "\<not> b_passed s \<Longrightarrow> numchildrensyncremaining (b_parent s) = 0 \<Longrightarrow>
     barrier_step cs s (s\<lparr>b_passed := True, b_down := insert (TO_SERIAL_BUFFER (ack_message (b_parent s))) (b_down s)\<rparr>)"
| child_released:
    "n \<in> b_entered s \<Longrightarrow> d \<in> b_down s \<Longrightarrow> length d = SyncTypeSize \<Longrightarrow>
     is_from (PARENT_NAME (cs n)) (FROM_SERIAL_BUFFER d) \<Longrightarrow>
     Sync (FROM_SERIAL_BUFFER d) = sync_code BARRIER_ACK \<Longrightarrow>
     barrier_step cs s (s\<lparr>b_released := insert n (b_released s)\<rparr>)"
| other_traffic:
    "length d \<noteq> SyncTypeSize \<or> Sync (FROM_SERIAL_BUFFER d) \<notin> {sync_code BARRIER_READY, sync_code BARRIER_ACK} \<Longrightarrow>
     barrier_step cs s (s\<lparr>b_up := insert d (b_up s), b_down := insert d (b_down s)\<rparr>)"

definition barrier_start :: "MODULE_SYNC \<Rightarrow> barrier" where
  "barrier_start p =
     \<lparr>b_parent = resetchildrenModules p, b_passed = False, b_entered = {}, b_released = {}, b_up = {}, b_down = {}\<rparr>"

text \<open>Every child reports under the name it has with the parent.\<close>

definition names_agree :: "(string \<Rightarrow> MODULE_SYNC) \<Rightarrow> bool" where
  "names_agree cs \<longleftrightarrow> (\<forall>n. MODULE_NAME (cs n) = n)"

definition barrier_inv :: "string set \<Rightarrow> barrier \<Rightarrow> bool" where
  "barrier_inv C s \<longleftrightarrow> sorted_keys (childrenModules (b_parent s)) \<and> C \<subseteq> child_names (b_parent s) \<and>
     (\<forall>d\<in>b_up s. \<forall>n. ready_from (Received d) n \<longrightarrow> (n \<in> b_entered s)) \<and>
     (\<forall>n\<in>answered (b_parent s). n \<in> b_entered s) \<and>
     (b_passed s \<longrightarrow> C \<subseteq> answered (b_parent s)) \<and>
     (\<forall>d\<in>b_down s. length d = SyncTypeSize \<and> Sync (FROM_SERIAL_BUFFER d) = sync_code BARRIER_ACK \<longrightarrow> b_passed s) \<and>
     (b_released s \<noteq> {} \<longrightarrow> b_passed s)"

lemma sync_codes [simp]: "sync_code BARRIER_READY \<noteq> sync_code BARRIER_ACK" "sync_code BARRIER_ACK \<noteq> sync_code BARRIER_READY"
  by (simp_all add: sync_code_def)

lemma barrier_start_inv: "sorted_keys (childrenModules p) \<Longrightarrow> barrier_inv (child_names p) (barrier_start p)"
  by (simp add: barrier_inv_def barrier_start_def)

lemma ready_message_report:
  assumes "names_agree cs" "proper_name k" "ready_from (Received (TO_SERIAL_BUFFER (ready_message (cs k)))) n"
  shows "n = k"
proof -
  have "c_string (MESSAGE_SRC_MODULE (ready_message (cs k))) = Some n"
    using assms(3) by (auto simp: ready_from_def ready_message_def serial_roundtrip)
  moreover have "MESSAGE_SRC_MODULE (ready_message (cs k)) = name_array k"
    using assms(1) by (simp add: ready_message_def SYNC_MESSAGE_new_def names_agree_def)
  ultimately show ?thesis using c_string_name_array [OF assms(2)] by simp
qed

lemma barrier_step_inv:
  assumes "barrier_step cs s s'" "barrier_inv C s" "names_agree cs"
  shows "barrier_inv C s'"
  using assms(1,2)
proof cases
  case (child_reports n)
  then show ?thesis using assms(2) ready_message_report [OF assms(3), of n] by (auto simp: barrier_inv_def)
next
  case (parent_takes d p)
  then show ?thesis using assms(2) take_ready_Returned [OF parent_takes(5)] by (simp add: barrier_inv_def) blast
next
  case parent_passes
  then show ?thesis using assms(2) remaining_zero [of "b_parent s"] by (auto simp: barrier_inv_def)
next
  case (child_released n d)
  then show ?thesis using assms(2) by (auto simp: barrier_inv_def)
next
  case (other_traffic d)
  then show ?thesis using assms(2) by (auto simp: barrier_inv_def ready_from_def)
qed

lemma barrier_reachable_inv:
  assumes "(barrier_step cs)\<^sup>*\<^sup>* (barrier_start p) s" "names_agree cs" "sorted_keys (childrenModules p)"
  shows "barrier_inv (child_names p) s"
  using assms(1) by (induction rule: rtranclp_induct) (use assms(2,3) barrier_start_inv barrier_step_inv in auto)

lemma barrier_safe:
  assumes "(barrier_step cs)\<^sup>*\<^sup>* (barrier_start p) s" "names_agree cs" "sorted_keys (childrenModules p)"
    "b_passed s \<or> b_released s \<noteq> {}"
  shows "child_names p \<subseteq> b_entered s"
  using barrier_reachable_inv [OF assms(1-3)] assms(4) by (auto simp: barrier_inv_def)

end
