(* ===== verification/SyncRuns.thy ===== *)
theory SyncRuns
  imports SyncProperties "HOL-Library.Sublist"
begin

text \<open>
  The runs of a system module manager and of its children: the first does what a module alone does, with a
  START before every hyperperiod and a STOP at the end; a child runs whole hyperperiods, each started by a
  message of its parent.
\<close>

section \<open>The system module manager\<close>

definition start_sent :: "MODULE_SYNC \<Rightarrow> mm_event" where
  "start_sent c = Sent (broadcast_url c) (TO_SERIAL_BUFFER (hyper_period_message c))"

definition stop_sent :: "MODULE_SYNC \<Rightarrow> mm_event" where
  "stop_sent c = Sent (broadcast_url c) (TO_SERIAL_BUFFER ((hyper_period_message c)\<lparr>Sync := sync_code SYNC_STOP\<rparr>))"

definition system_events :: "MODULE_SYNC \<Rightarrow> MODULE_MANAGER \<Rightarrow> int \<Rightarrow> nat \<Rightarrow> mm_event list" where
  "system_events c m start n = concat (map (\<lambda>k. start_sent c # frame_events m (start + int k * MAJOR_FRAME_SIZE m)) [0..<n])"

lemma system_events_Suc:
  "system_events c m t (Suc n) = start_sent c # frame_events m t @ system_events c m (t + MAJOR_FRAME_SIZE m) n"
proof -
  have "[0..<Suc n] = 0 # map Suc [0..<n]" by (simp add: map_Suc_upt upt_conv_Cons del: upt_Suc)
  then show ?thesis by (simp add: system_events_def comp_def algebra_simps del: upt_Suc)
qed

text \<open>Without the messages to the children these are the events of a module alone.\<close>

lemma system_events_alone:
  "filter (\<lambda>e. \<forall>u b. e \<noteq> Sent u b) (system_events c m t n) = run_events m t n"
proof -
  have "filter (\<lambda>e. \<forall>u b. e \<noteq> Sent u b) (window_events m s x) = window_events m s x" for s x
    by (auto simp: window_events_def Let_def filter_id_conv)
  then have frame: "filter (\<lambda>e. \<forall>u b. e \<noteq> Sent u b) (frame_events m s) = frame_events m s" for s
    by (simp add: frame_events_def filter_concat comp_def)
  show ?thesis by (simp add: system_events_def run_events_def filter_concat comp_def frame start_sent_def)
qed

lemma echo_sent:
  assumes "isSystemModuleManager c" "Send_Socket c" "queue_system mq net contents sent Q" "sizes_ok contents Q w"
  shows "\<exists>w'. SEND_HYPER_PERIOD_ECHO net stop_it c (msg, w, tr) =
      Returned (if stop_it then msg\<lparr>Sync := sync_code SYNC_STOP\<rparr> else msg, w',
        tr @ [Sent (broadcast_url c) (TO_SERIAL_BUFFER (if stop_it then msg\<lparr>Sync := sync_code SYNC_STOP\<rparr> else msg))]) \<and>
    sizes_ok contents Q w'"
proof -
  let ?m = "if stop_it then msg\<lparr>Sync := sync_code SYNC_STOP\<rparr> else msg"
  obtain w' where w': "send_to net (TO_SERIAL_BUFFER ?m) (broadcast_url c) w = Some w'"
    using queue_systemD(8) [OF assms(3)] unfolding net_laws_def by blast
  then have "sizes_ok contents Q w'"
    using queue_systemD(9) [OF assms(3) w'] assms(4) by (simp add: sizes_ok_def)
  then show ?thesis using w' assms(1,2) by (simp add: SEND_HYPER_PERIOD_ECHO_def send_sync_def Let_def)
qed

lemma system_frames_return:
  assumes sys: "queue_system mq net contents sent Q" and inj: "inj_on Q_MQDES Q"
    and c: "isSystemModuleManager c" "Send_Socket c"
    and "sizes_ok contents Q w" "channels_ready Q m" "runnable m"
    and "nat (MAX_NUMBER_OF_FRAMES m - k) \<le> length es" "\<forall>e\<in>set es. frame_wakes e"
  shows "\<exists>m' w'. run_system_frames mq net c es k (timespec_at t) (hyper_period_message c) (m, w, tr) =
      Returned (hyper_period_message c, m', w', tr @ system_events c m t (nat (MAX_NUMBER_OF_FRAMES m - k))) \<and>
    same_config m m' \<and> sizes_ok contents Q w'"
  using assms(5-)
proof (induction es arbitrary: m w k t tr)
  case Nil
  then have "\<not> more_frames m k" "nat (MAX_NUMBER_OF_FRAMES m - k) = 0" by (simp_all add: more_frames_def runnable_def)
  then show ?case using Nil(1) by (simp add: run_system_frames.simps system_events_def)
next
  case (Cons e es)
  have set_frames: "isMAX_NUMBER_OF_FRAMES_SET m" using Cons.prems(3) by (simp add: runnable_def)
  show ?case
  proof (cases "more_frames m k")
    case True
    have e: "Slept \<in> set (frame_sleep e)"
      "\<forall>k. Slept \<in> set (offset_sleep (window_envs e k)) \<and> Slept \<in> set (end_sleep (window_envs e k))"
      using Cons.prems(5) by (simp_all add: frame_wakes_def)
    obtain w0 where w0: "SEND_HYPER_PERIOD_ECHO net False c (hyper_period_message c, w, tr) =
        Returned (hyper_period_message c, w0, tr @ [start_sent c])" "sizes_ok contents Q w0"
      using echo_sent [OF c sys Cons.prems(1), of False] by (auto simp: start_sent_def)
    obtain m1 w1 tr1 where win: "run_windows mq net (window_envs e) (timespec_at t) (SCHEDULING_VECTOR m) (m, w0, tr @ [start_sent c]) =
        Returned (m1, w1, tr1)" "sizes_ok contents Q w1" "channels_ready Q m1"
      using windows_return [OF sys inj w0(2) Cons.prems(2) _ e(2)] runnable_windows [OF Cons.prems(3)] by blast
    have good: "good_schedule (MAJOR_FRAME_SIZE m) (SCHEDULING_VECTOR m)" "MAJOR_FRAME_SIZE m \<le> MAX_TIME_OUT"
      using Cons.prems(3) by (simp_all add: runnable_def)
    have tr1: "same_config m m1" "tr1 = tr @ [start_sent c] @ concat (map (window_events m t) (SCHEDULING_VECTOR m))"
      using run_windows_events [OF win(1)] good(1) by (simp_all add: good_schedule_def)
    note f = same_config_fields [OF tr1(1)]
    let ?t = "timespec_at (t + MAJOR_FRAME_SIZE m)"
    have add: "addTimeNano (timespec_at t) (MAJOR_FRAME_SIZE m1) = Some ?t"
      using good good_schedule_frame(1) [OF good(1)] f(3) by (simp add: addTimeNano_at)
    have n: "nat (MAX_NUMBER_OF_FRAMES m - k) = Suc (nat (MAX_NUMBER_OF_FRAMES m1 - (k + 1)))"
      using True set_frames f(5) by (simp add: more_frames_def)
    have "\<exists>m' w'. run_system_frames mq net c es (k + 1) ?t (hyper_period_message c) (m1, w1, tr1 @ [Until ?t]) =
        Returned (hyper_period_message c, m', w', (tr1 @ [Until ?t]) @
          system_events c m1 (t + MAJOR_FRAME_SIZE m) (nat (MAX_NUMBER_OF_FRAMES m1 - (k + 1)))) \<and>
        same_config m1 m' \<and> sizes_ok contents Q w'"
      by (rule Cons.IH [OF win(2,3)]) (use Cons.prems(3,5) runnable_same [OF tr1(1)] n Cons.prems(4) in auto)
    then obtain m' w' where rest: "run_system_frames mq net c es (k + 1) ?t (hyper_period_message c) (m1, w1, tr1 @ [Until ?t]) =
        Returned (hyper_period_message c, m', w', (tr1 @ [Until ?t]) @
          system_events c m1 (t + MAJOR_FRAME_SIZE m) (nat (MAX_NUMBER_OF_FRAMES m1 - (k + 1))))"
        "same_config m1 m'" "sizes_ok contents Q w'" by blast
    have "system_events c m1 = system_events c m" using f by (simp add: system_events_def fun_eq_iff)
    then have "(tr1 @ [Until ?t]) @ system_events c m1 (t + MAJOR_FRAME_SIZE m) (nat (MAX_NUMBER_OF_FRAMES m1 - (k + 1))) =
        tr @ system_events c m t (nat (MAX_NUMBER_OF_FRAMES m - k))"
      unfolding n system_events_Suc by (simp add: tr1(2) frame_events_def)
    then have "run_system_frames mq net c (e # es) k (timespec_at t) (hyper_period_message c) (m, w, tr) =
        Returned (hyper_period_message c, m', w', tr @ system_events c m t (nat (MAX_NUMBER_OF_FRAMES m - k)))"
      using True w0(1) win(1) add e(1) set_frames rest(1)
      by (subst run_system_frames.simps) (simp add: nanosleep_loop_cases)
    then show ?thesis using same_config_trans [OF tr1(1) rest(2)] rest(3) by blast
  next
    case False
    then have "nat (MAX_NUMBER_OF_FRAMES m - k) = 0" using set_frames by (simp add: more_frames_def)
    then show ?thesis using False Cons.prems(1) by (subst run_system_frames.simps) (simp add: system_events_def)
  qed
qed

lemma system_run_returns:
  assumes "queue_system mq net contents sent Q" "inj_on Q_MQDES Q" "isSystemModuleManager c" "Send_Socket c"
    "sizes_ok contents Q w" "channels_ready Q (MODULE_MANAGER.truncate c)" "runnable (MODULE_MANAGER.truncate c)"
    "nat (MAX_NUMBER_OF_FRAMES c) \<le> length es" "\<forall>e\<in>set es. frame_wakes e"
  shows "\<exists>m' w'. RUN_SYSTEM_MODULE_MANAGER mq net es (timespec_at t) c w = Returned (m', w',
      system_events c (MODULE_MANAGER.truncate c) t (nat (MAX_NUMBER_OF_FRAMES c)) @ [stop_sent c] @
      DOSHUTDOWN (MODULE_MANAGER.truncate c))"
proof -
  let ?m = "MODULE_MANAGER.truncate c"
  have n: "MAX_NUMBER_OF_FRAMES ?m = MAX_NUMBER_OF_FRAMES c" by (simp add: MODULE_MANAGER.truncate_def)
  obtain m1 w1 where run: "run_system_frames mq net c es 0 (timespec_at t) (hyper_period_message c) (?m, w, []) =
      Returned (hyper_period_message c, m1, w1, system_events c ?m t (nat (MAX_NUMBER_OF_FRAMES c)))"
    "same_config ?m m1" "sizes_ok contents Q w1"
    using system_frames_return [OF assms(1-7), of 0 es t "[]"] assms(8,9) n by auto
  obtain w2 where "SEND_HYPER_PERIOD_ECHO net True c (hyper_period_message c, w1, system_events c ?m t (nat (MAX_NUMBER_OF_FRAMES c))) =
      Returned ((hyper_period_message c)\<lparr>Sync := sync_code SYNC_STOP\<rparr>, w2,
        system_events c ?m t (nat (MAX_NUMBER_OF_FRAMES c)) @ [stop_sent c])"
    using echo_sent [OF assms(3,4,1) run(3), of True] by (auto simp: stop_sent_def)
  then show ?thesis using run(1) same_config_fields(9) [OF run(2)] by (simp add: RUN_SYSTEM_MODULE_MANAGER_def)
qed

section \<open>A child\<close>

definition child_events :: "MODULE_MANAGER \<Rightarrow> int list \<Rightarrow> mm_event list" where
  "child_events m ts = concat (map (\<lambda>t. concat (map (window_events m t) (SCHEDULING_VECTOR m))) ts)"

lemma run_child_events:
  assumes "run_child mq net stale c (map (\<lambda>(t, win). \<lparr>start_clock = timespec_at t, child_windows = win\<rparr>) es) (m, w, tr) = Returned (m', w', tr')"
    "\<forall>x\<in>set (SCHEDULING_VECTOR m). 0 \<le> OFFSET x \<and> 0 \<le> DURATION x"
  shows "same_config m m' \<and> (\<exists>ts. subseq ts (map fst es) \<and> tr' = tr @ child_events m ts)"
  using assms
proof (induction es arbitrary: m w tr)
  case (Cons e es)
  obtain t win where e: "e = (t, win)" by fastforce
  let ?e = "\<lparr>start_clock = timespec_at t, child_windows = win\<rparr>"
  let ?es = "map (\<lambda>(t, win). \<lparr>start_clock = timespec_at t, child_windows = win\<rparr>) es"
  note run = Cons.prems(1) [unfolded e list.map prod.case]
  obtain w1 where next1: "run_child mq net stale c ?es (m, w1, tr) = Returned (m', w', tr') \<or>
      (\<exists>s. run_windows mq net win (timespec_at t) (SCHEDULING_VECTOR m) (m, w1, tr) = Returned s \<and>
         run_child mq net stale c ?es s = Returned (m', w', tr')) \<or>
      (m', w', tr') = (m, w1, tr)"
    using run by (auto simp: Let_def case_prod_beta bind_outcome_Returned split: option.splits if_splits)
  have skip: ?case if "run_child mq net stale c ?es (m, w1, tr) = Returned (m', w', tr')"
    using Cons.IH [OF that Cons.prems(2)] by (auto simp: e)
  have frame: ?case if s: "run_windows mq net win (timespec_at t) (SCHEDULING_VECTOR m) (m, w1, tr) = Returned s"
    "run_child mq net stale c ?es s = Returned (m', w', tr')" for s
  proof -
    obtain m1 w2 tr1 where s1: "s = (m1, w2, tr1)" by (cases s)
    have one: "same_config m m1" "tr1 = tr @ concat (map (window_events m t) (SCHEDULING_VECTOR m))"
      using run_windows_events [OF s(1) [unfolded s1] Cons.prems(2)] by simp_all
    note f = same_config_fields [OF one(1)]
    obtain ts where ts: "same_config m1 m'" "subseq ts (map fst es)" "tr' = tr1 @ child_events m1 ts"
      using Cons.IH [OF s(2) [unfolded s1]] Cons.prems(2) f(2) by auto
    have "child_events m1 ts = child_events m ts" using f by (simp add: child_events_def)
    then have "tr' = tr @ child_events m (t # ts)" using ts(3) one(2) by (simp add: child_events_def)
    moreover have "subseq (t # ts) (map fst (e # es))" using ts(2) by (simp add: e)
    ultimately show ?thesis using same_config_trans [OF one(1) ts(1)] by blast
  qed
  show ?case
  proof (cases "(m', w', tr') = (m, w1, tr)")
    case True
    then show ?thesis by (intro conjI exI [of _ "[]"]) (simp_all add: child_events_def)
  qed (use next1 skip frame in blast)
qed simp

end
