(* ===== verification/NetworkLatency.thy ===== *)
theory NetworkLatency
  imports ModuleSync
begin

text \<open>
  DETERMINE\_AVERAGE\_NETWORK\_LATENCY of ModuleManager/MultiModuleRelatedConfig.cc: the parent asks each child
  in turn, the child answers and measures the time until the parent's acknowledgement.  Each loop over
  receptions has their number as fuel, and is \<open>Blocked\<close> with none left; \<open>clock\<close> gives the time read
  after a reception, by the receptions still to come.
\<close>

section \<open>The parent\<close>

text \<open>Until a message NETWORK\_LATENCY\_CHILD\_ACK comes, from whichever child.\<close>

fun await_child_ack :: "'w socket_calls \<Rightarrow> nat \<Rightarrow> nat \<Rightarrow> 'w \<Rightarrow> 'w outcome" where
  "await_child_ack net sock 0 w = Blocked"
| "await_child_ack net sock (Suc k) w =
     (case recv_from net sock (int SyncTypeSize) w of
        (Received bs, w1) \<Rightarrow>
          if length bs = SyncTypeSize \<and> Sync (FROM_SERIAL_BUFFER bs) = sync_code NETWORK_LATENCY_CHILD_ACK then Returned w1
          else await_child_ack net sock k w1
      | (_, w1) \<Rightarrow> await_child_ack net sock k w1)"

definition url_of_child :: "child_url \<Rightarrow> DESTINATION_URL" where
  "url_of_child c = \<lparr>node_name = child_hostname c, url_port = child_portnum c mod 65536\<rparr>"

definition latency_message :: "SyncType \<Rightarrow> 'a MODULE_SYNC_scheme \<Rightarrow> SYNC_MESSAGE" where
  "latency_message order m =
     (SYNC_MESSAGE_new NETWORK_LATENCY_READY (MODULE_NAME m) (PARENT_NAME m))\<lparr>Sync := sync_code order\<rparr>"

fun ask_children :: "'w socket_calls \<Rightarrow> nat \<Rightarrow> 'a MODULE_SYNC_scheme \<Rightarrow> (string \<times> child_url) list \<Rightarrow> 'w \<Rightarrow> 'w outcome" where
  "ask_children net k m [] w = Returned w"
| "ask_children net k m ((name, c) # cs) w =
     bind_outcome (send_sync net (url_of_child c) (latency_message NETWORK_LATENCY_READY m) m w) (\<lambda>w1.
     case Recv_Socket m of
       None \<Rightarrow> Undef
     | Some sock \<Rightarrow>
         bind_outcome (await_child_ack net sock k w1) (\<lambda>w2.
         bind_outcome (send_sync net (url_of_child c) (latency_message NEWORK_LATENCY_PARENT_ACK m) m w2) (\<lambda>w3.
           ask_children net k m cs w3)))"

section \<open>The child\<close>

text \<open>The child reads the buffer also after a reception that failed; a short datagram overwrites its front.\<close>

definition overwrite :: "byte list \<Rightarrow> byte list \<Rightarrow> byte list" where
  "overwrite bs buffer = bs @ drop (length bs) buffer"

fun await_from_parent ::
  "'w socket_calls \<Rightarrow> (nat \<Rightarrow> int) \<Rightarrow> nat \<Rightarrow> 'a MODULE_SYNC_scheme \<Rightarrow> SYNC_MESSAGE \<times> byte list \<times> int \<times> 'w \<Rightarrow>
   (SYNC_MESSAGE \<times> byte list \<times> int \<times> 'w) outcome" where
  "await_from_parent net clock k m (msg, buffer, reciept, w) =
     (if is_from (PARENT_NAME m) msg then Returned (msg, buffer, reciept, w)
      else case Recv_Socket m of
        None \<Rightarrow> Undef
      | Some sock \<Rightarrow>
          (case k of
             0 \<Rightarrow> Blocked
           | Suc k' \<Rightarrow>
               let (r, w1) = recv_from net sock (int SyncTypeSize) w;
                   buffer1 = (case r of Received bs \<Rightarrow> overwrite bs buffer | _ \<Rightarrow> buffer)
               in await_from_parent net clock k' m (FROM_SERIAL_BUFFER buffer1, buffer1, clock k', w1)))"

declare await_from_parent.simps [simp del]

text \<open>\<open>strcpy(MESSAGE_SRC_MODULE, " ")\<close>.\<close>

definition forget_sender :: "SYNC_MESSAGE \<Rightarrow> SYNC_MESSAGE" where
  "forget_sender msg = msg\<lparr>MESSAGE_SRC_MODULE := 32 # 0 # drop 2 (MESSAGE_SRC_MODULE msg)\<rparr>"

text \<open>A parent called by one blank would be the sender of the message just reset, for ever.\<close>

fun await_start :: "'w socket_calls \<Rightarrow> ('w \<Rightarrow> bool) \<Rightarrow> nat \<Rightarrow> 'a MODULE_SYNC_scheme \<Rightarrow> 'w \<Rightarrow> 'w outcome" where
  "await_start net stale 0 m w = Blocked"
| "await_start net stale (Suc k) m w =
     (if PARENT_NAME m = '' '' then Blocked
      else case Recv_Socket m of
        None \<Rightarrow> Undef
      | Some sock \<Rightarrow>
          (let (r, w1) = recv_from net sock (int SyncTypeSize) w in
           case good_datagram stale r w1 of
             None \<Rightarrow> await_start net stale k m w1
           | Some bs \<Rightarrow>
               if is_from (PARENT_NAME m) (FROM_SERIAL_BUFFER bs) \<and> Sync (FROM_SERIAL_BUFFER bs) = sync_code SYNC_START
               then Returned w1 else await_start net stale k m w1))"

definition child_latency ::
  "'w socket_calls \<Rightarrow> ('w \<Rightarrow> bool) \<Rightarrow> (nat \<Rightarrow> int) \<Rightarrow> nat \<Rightarrow> SYNC_MESSAGE \<Rightarrow> byte list \<Rightarrow> int \<Rightarrow> 'a MODULE_SYNC_scheme \<Rightarrow> 'w \<Rightarrow>
   ('a MODULE_SYNC_scheme \<times> 'w) outcome" where
  "child_latency net stale clock k stack_message stack_buffer current m w =
     bind_outcome (await_from_parent net clock k m (stack_message, stack_buffer, current, w)) (\<lambda>(msg, buffer, _, w1).
     if Sync msg \<noteq> sync_code NETWORK_LATENCY_READY then Returned (m, w1)
     else bind_outcome (send_sync net (parent_url m) (SYNC_MESSAGE_new NETWORK_LATENCY_CHILD_ACK (MODULE_NAME m) (PARENT_NAME m)) m w1) (\<lambda>w2.
     bind_outcome (await_from_parent net clock k m
         (forget_sender msg, TO_SERIAL_BUFFER (SYNC_MESSAGE_new NETWORK_LATENCY_CHILD_ACK (MODULE_NAME m) (PARENT_NAME m)), current, w2))
       (\<lambda>(msg', _, reciept, w3).
     if Sync msg' \<noteq> sync_code NEWORK_LATENCY_PARENT_ACK then Returned (m, w3)
     else bind_outcome (await_start net stale k m w3) (\<lambda>w4.
       Returned (m\<lparr>AVE_NETWORK_LATENCY_FROM_PARENT := reciept - current\<rparr>, w4)))))"

text \<open>The message and the buffer of the child are not initialised; \<open>current\<close> is the time before it answers.\<close>

definition DETERMINE_AVERAGE_NETWORK_LATENCY ::
  "'w socket_calls \<Rightarrow> ('w \<Rightarrow> bool) \<Rightarrow> (nat \<Rightarrow> int) \<Rightarrow> nat \<Rightarrow> SYNC_MESSAGE \<Rightarrow> byte list \<Rightarrow> int \<Rightarrow> 'a MODULE_SYNC_scheme \<Rightarrow> 'w \<Rightarrow>
   ('a MODULE_SYNC_scheme \<times> 'w) outcome" where
  "DETERMINE_AVERAGE_NETWORK_LATENCY net stale clock k stack_message stack_buffer current m w =
     (if \<not> isSystemModuleManager m \<and> \<not> isrunningUnderSystemModuleManager m then Returned (m, w)
      else if isSystemModuleManager m then
        bind_outcome (ask_children net k m (childrenModules m) w) (\<lambda>w1.
        bind_outcome (send_sync net (broadcast_url m) (latency_message SYNC_START m) m w1) (\<lambda>w2.
          Returned (m, w2)))
      else if length (PARENT_NAME m) \<ge> 100 then Undef
      else child_latency net stale clock k stack_message stack_buffer current m w)"

section \<open>What is sent\<close>

text \<open>A reception sends nothing.\<close>

definition receives_only :: "'w socket_calls \<Rightarrow> ('w \<Rightarrow> (DESTINATION_URL \<times> byte list) list) \<Rightarrow> bool" where
  "receives_only net logged \<longleftrightarrow> (\<forall>sock n w. logged (snd (recv_from net sock n w)) = logged w)"

lemma send_sync_logged:
  assumes "send_sync net u msg m w = Returned w'" "net_laws net logged"
  shows "logged w' = logged w @ [(u, TO_SERIAL_BUFFER msg)]"
proof -
  obtain w1 where "send_to net (TO_SERIAL_BUFFER msg) u w = Some w1" "logged w1 = logged w @ [(u, TO_SERIAL_BUFFER msg)]"
    using assms(2) unfolding net_laws_def by blast
  then show ?thesis using assms(1) by (auto simp: send_sync_def split: if_splits)
qed

lemma receives_only_step: "receives_only net logged \<Longrightarrow> recv_from net sock n w = (r, w1) \<Longrightarrow> logged w1 = logged w"
  unfolding receives_only_def by (metis snd_conv)

lemma await_child_ack_logged:
  "await_child_ack net sock k w = Returned w' \<Longrightarrow> receives_only net logged \<Longrightarrow> logged w' = logged w"
proof (induction k arbitrary: w)
  case (Suc k)
  obtain r w1 where r: "recv_from net sock (int SyncTypeSize) w = (r, w1)" by fastforce
  have "w' = w1 \<or> await_child_ack net sock k w1 = Returned w'"
    using Suc.prems(1) r by (simp split: recv_answer.splits if_splits)
  then show ?case using Suc.IH [of w1] Suc.prems(2) receives_only_step [OF Suc.prems(2) r] by auto
qed simp

lemma await_from_parent_logged:
  "await_from_parent net clock k m (msg, buffer, t, w) = Returned (msg', buffer', t', w') \<Longrightarrow> receives_only net logged \<Longrightarrow>
   logged w' = logged w \<and> (t' = t \<or> (\<exists>j<k. t' = clock j))"
proof (induction k arbitrary: msg buffer t w)
  case 0
  then show ?case by (simp add: await_from_parent.simps split: if_splits option.splits)
next
  case (Suc k)
  show ?case
  proof (cases "is_from (PARENT_NAME m) msg")
    case True
    then show ?thesis using Suc.prems(1) by (simp add: await_from_parent.simps)
  next
    case False
    then obtain sock where sock: "Recv_Socket m = Some sock"
      using Suc.prems(1) by (cases "Recv_Socket m") (simp_all add: await_from_parent.simps)
    obtain r w1 where r: "recv_from net sock (int SyncTypeSize) w = (r, w1)" by fastforce
    define b where "b = (case r of Received bs \<Rightarrow> overwrite bs buffer | _ \<Rightarrow> buffer)"
    have "await_from_parent net clock k m (FROM_SERIAL_BUFFER b, b, clock k, w1) = Returned (msg', buffer', t', w')"
      using Suc.prems(1) False sock r by (subst (asm) await_from_parent.simps) (simp add: b_def [symmetric])
    from Suc.IH [OF this Suc.prems(2)] show ?thesis
      using receives_only_step [OF Suc.prems(2) r] less_Suc_eq by auto
  qed
qed

lemma await_start_logged:
  "await_start net stale k m w = Returned w' \<Longrightarrow> receives_only net logged \<Longrightarrow> logged w' = logged w"
proof (induction k arbitrary: w)
  case (Suc k)
  obtain sock where sock: "Recv_Socket m = Some sock" using Suc.prems(1) by (cases "Recv_Socket m") (simp_all split: if_splits)
  obtain r w1 where r: "recv_from net sock (int SyncTypeSize) w = (r, w1)" by fastforce
  have "w' = w1 \<or> await_start net stale k m w1 = Returned w'"
    using Suc.prems(1) r sock by (simp split: option.splits if_splits)
  then show ?case using Suc.IH [of w1] Suc.prems(2) receives_only_step [OF Suc.prems(2) r] by auto
qed simp

definition asked :: "'a MODULE_SYNC_scheme \<Rightarrow> (string \<times> child_url) list \<Rightarrow> (DESTINATION_URL \<times> byte list) list" where
  "asked m cs = concat (map (\<lambda>(name, c). map (\<lambda>order. (url_of_child c, TO_SERIAL_BUFFER (latency_message order m)))
     [NETWORK_LATENCY_READY, NEWORK_LATENCY_PARENT_ACK]) cs)"

lemma ask_children_logged:
  "ask_children net k m cs w = Returned w' \<Longrightarrow> net_laws net logged \<Longrightarrow> receives_only net logged \<Longrightarrow>
   logged w' = logged w @ asked m cs"
proof (induction cs arbitrary: w)
  case (Cons c cs)
  obtain name u where c: "c = (name, u)" by fastforce
  obtain w1 sock w2 w3 where step:
    "send_sync net (url_of_child u) (latency_message NETWORK_LATENCY_READY m) m w = Returned w1"
    "await_child_ack net sock k w1 = Returned w2"
    "send_sync net (url_of_child u) (latency_message NEWORK_LATENCY_PARENT_ACK m) m w2 = Returned w3"
    "ask_children net k m cs w3 = Returned w'"
    using Cons.prems(1) by (auto simp: c bind_outcome_Returned split: option.splits)
  have "logged w3 = logged w1 @ [(url_of_child u, TO_SERIAL_BUFFER (latency_message NEWORK_LATENCY_PARENT_ACK m))]"
    using send_sync_logged [OF step(3) Cons.prems(2)] await_child_ack_logged [OF step(2) Cons.prems(3)] by simp
  then show ?case
    using Cons.IH [OF step(4) Cons.prems(2,3)] send_sync_logged [OF step(1) Cons.prems(2)] by (simp add: asked_def c)
qed (simp add: asked_def)

text \<open>The parent sends each child its two messages, in the order of the names, and then the broadcast.\<close>

lemma parent_latency_logged:
  assumes "DETERMINE_AVERAGE_NETWORK_LATENCY net stale clock k msg buffer current m w = Returned (m', w')"
    "isSystemModuleManager m" "net_laws net logged" "receives_only net logged"
  shows "m' = m \<and> logged w' = logged w @ asked m (childrenModules m) @
    [(broadcast_url m, TO_SERIAL_BUFFER (latency_message SYNC_START m))]"
proof -
  obtain w1 where w1: "ask_children net k m (childrenModules m) w = Returned w1"
    "send_sync net (broadcast_url m) (latency_message SYNC_START m) m w1 = Returned w'" "m' = m"
    using assms(1,2) by (auto simp: DETERMINE_AVERAGE_NETWORK_LATENCY_def bind_outcome_Returned)
  then show ?thesis
    using ask_children_logged [OF w1(1) assms(3,4)] send_sync_logged [OF w1(2) assms(3)] by simp
qed

text \<open>The child answers at most once, and only then measures.\<close>

lemma child_latency_measured:
  assumes "DETERMINE_AVERAGE_NETWORK_LATENCY net stale clock k msg buffer current m w = Returned (m', w')"
    "\<not> isSystemModuleManager m" "net_laws net logged" "receives_only net logged"
  shows "m' = m \<and> logged w' = logged w \<or>
    logged w' = logged w @ [(parent_url m, TO_SERIAL_BUFFER (SYNC_MESSAGE_new NETWORK_LATENCY_CHILD_ACK (MODULE_NAME m) (PARENT_NAME m)))] \<and>
      (m' = m \<or> (\<exists>t. (t = current \<or> (\<exists>j<k. t = clock j)) \<and> m' = m\<lparr>AVE_NETWORK_LATENCY_FROM_PARENT := t - current\<rparr>))"
proof (cases "isrunningUnderSystemModuleManager m")
  case True
  let ?ack = "SYNC_MESSAGE_new NETWORK_LATENCY_CHILD_ACK (MODULE_NAME m) (PARENT_NAME m)"
  have run: "child_latency net stale clock k msg buffer current m w = Returned (m', w')"
    using assms(1,2) True by (simp add: DETERMINE_AVERAGE_NETWORK_LATENCY_def split: if_splits)
  then obtain msg1 buffer1 t1 w1 where one: "await_from_parent net clock k m (msg, buffer, current, w) = Returned (msg1, buffer1, t1, w1)"
    by (auto simp: child_latency_def bind_outcome_Returned)
  note log1 = await_from_parent_logged [OF one assms(4), THEN conjunct1]
  show ?thesis
  proof (cases "Sync msg1 = sync_code NETWORK_LATENCY_READY")
    case ready: True
    obtain w2 where ack: "send_sync net (parent_url m) ?ack m w1 = Returned w2"
      using run one ready by (auto simp: child_latency_def bind_outcome_Returned)
    obtain msg2 buffer2 t2 w3 where
      two: "await_from_parent net clock k m (forget_sender msg1, TO_SERIAL_BUFFER ?ack, current, w2) = Returned (msg2, buffer2, t2, w3)"
      using run one ready ack by (auto simp: child_latency_def bind_outcome_Returned)
    have rest: "(if Sync msg2 \<noteq> sync_code NEWORK_LATENCY_PARENT_ACK then Returned (m, w3)
        else bind_outcome (await_start net stale k m w3) (\<lambda>w4.
          Returned (m\<lparr>AVE_NETWORK_LATENCY_FROM_PARENT := t2 - current\<rparr>, w4))) = Returned (m', w')"
      using run one ready ack two unfolding child_latency_def by simp
    have fin: "m' = m \<and> w' = w3 \<or> (await_start net stale k m w3 = Returned w' \<and> m' = m\<lparr>AVE_NETWORK_LATENCY_FROM_PARENT := t2 - current\<rparr>)"
    proof (cases "Sync msg2 = sync_code NEWORK_LATENCY_PARENT_ACK")
      case True
      then obtain w4 where w4: "await_start net stale k m w3 = Returned w4"
        using rest by (cases "await_start net stale k m w3") simp_all
      then show ?thesis using rest True by simp
    qed (use rest in simp)
    have "logged w3 = logged w @ [(parent_url m, TO_SERIAL_BUFFER ?ack)]" "t2 = current \<or> (\<exists>j<k. t2 = clock j)"
      using await_from_parent_logged [OF two assms(4)] send_sync_logged [OF ack assms(3)] log1 by auto
    moreover from fin have "logged w' = logged w3"
    proof
      assume "await_start net stale k m w3 = Returned w' \<and> m' = m\<lparr>AVE_NETWORK_LATENCY_FROM_PARENT := t2 - current\<rparr>"
      then show ?thesis using await_start_logged [OF _ assms(4)] by blast
    qed simp
    moreover have "m' = m \<or> (\<exists>t. (t = current \<or> (\<exists>j<k. t = clock j)) \<and> m' = m\<lparr>AVE_NETWORK_LATENCY_FROM_PARENT := t - current\<rparr>)"
      using fin calculation(2) by (elim disjE conjE) (rule disjI1, assumption, rule disjI2, rule exI [of _ t2], blast)+
    ultimately show ?thesis by - (rule disjI2, rule conjI, simp, assumption)
  next
    case False
    then show ?thesis using run one log1 by (simp add: child_latency_def)
  qed
next
  case False
  then show ?thesis using assms(1,2) by (simp add: DETERMINE_AVERAGE_NETWORK_LATENCY_def)
qed

end
