(* ===== verification/SyncTheorems.thy ===== *)
theory SyncTheorems
  imports SyncRuns NetworkLatency ModuleTheorems
begin

text \<open>
  The properties of the synchronisation of module managers: its messages, the barrier and the hyperperiods
  that the modules run together.  The demonstration has a system module manager \<open>P\<close> with the
  children \<open>A\<close> and \<open>B\<close>.
\<close>

section \<open>A demonstration\<close>

definition demo_sync :: "string \<Rightarrow> string \<Rightarrow> bool \<Rightarrow> (string \<times> child_url) list \<Rightarrow> MODULE_SYNC" where
  "demo_sync name parent system children =
     MODULE_CONFIG.extend
       (MODULE_MANAGER.extend demo_module
         \<lparr>PropertyMap = [], CHANNEL_MAP = [], NumberOfInitStages = 1, MIN_WAIT_TIME = 500, isMIN_WAIT_TIME_SET = False,
          DISCOVERY_PROTOCOL = IOR, NS_HOST_IP = '''', NS_PORT_NUMBER = 0, cpunumber = 0, MODULE_NAME = name, PARENT_NAME = parent,
          PARENT_HOST = ''h'', PARENT_PORT = 7000, CONFIGURATION_PORT_NUM = 7001, isSystemModuleManager = system,
          isrunningUnderSystemModuleManager = \<not> system, isBroadcast = True, isMulticast = False, broadcastaddress = ''b'',
          childrenModules = children\<rparr>)
       \<lparr>Send_Socket = True, Recv_Socket = Some (if system then 7000 else 7001), SocketsInitialized = False,
        AVE_NETWORK_LATENCY_FROM_PARENT = 0\<rparr>"

definition demo_child :: "string \<Rightarrow> child_url" where
  "demo_child name = \<lparr>receivedanswer = False, childname = name, child_hostname = ''h'', child_portnum = 7001\<rparr>"

definition demo_parent :: MODULE_SYNC where
  "demo_parent = demo_sync ''P'' '''' True [(''A'', demo_child ''A''), (''B'', demo_child ''B'')]"

lemma demo_sync_fields [simp]:
  "MODULE_NAME (demo_sync name parent system children) = name" "PARENT_NAME (demo_sync name parent system children) = parent"
  "isSystemModuleManager (demo_sync name parent system children) = system"
  "isrunningUnderSystemModuleManager (demo_sync name parent system children) = (\<not> system)"
  "childrenModules (demo_sync name parent system children) = children"
  "Send_Socket (demo_sync name parent system children)"
  "Recv_Socket (demo_sync name parent system children) = Some (if system then 7000 else 7001)"
  "MODULE_MANAGER.truncate (demo_sync name parent system children) = demo_module"
  by (simp_all add: demo_sync_def MODULE_CONFIG.extend_def MODULE_MANAGER.extend_def MODULE_MANAGER.truncate_def)


section \<open>Messages\<close>

text \<open>A synchronisation message survives the wire: its datagram has the fixed length of 220 bytes and is
  read back as the same message, every field included.\<close>

theorem sync_message_roundtrip:
  assumes "length (MESSAGE_SRC_MODULE m) = 100" "length (MESSAGE_DST_MODULE m) = 100"
  shows "FROM_SERIAL_BUFFER (TO_SERIAL_BUFFER m) = m \<and> length (TO_SERIAL_BUFFER m) = 220"
  using serial_roundtrip [of m] length_serial [of m] assms by (simp add: sync_ok_def SyncTypeSize_def)

theorem sync_message_roundtrip_witness:
  "FROM_SERIAL_BUFFER (TO_SERIAL_BUFFER (SYNC_MESSAGE_new BARRIER_ACK ''P'' '''')) = SYNC_MESSAGE_new BARRIER_ACK ''P'' ''''"
  using sync_message_roundtrip [of "SYNC_MESSAGE_new BARRIER_ACK ''P'' ''''"] by (simp add: SYNC_MESSAGE_new_def)

section \<open>The barrier\<close>






definition demo_children :: "string \<Rightarrow> MODULE_SYNC" where
  "demo_children n = demo_sync n ''P'' False []"



section \<open>Hyperperiods together\<close>



text \<open>A child runs only whole schedules, each on the order of its parent: in a run that ends, the
  events are those of all windows of the schedule, started at some of the points in time at which a message
  was taken, in their order, and then the shutdown; the partitions stay isolated.\<close>

theorem child_runs_whole_schedules:
  assumes "RUN_CHILD_MODULE_MANAGER mq net stale (map (\<lambda>(t, win). \<lparr>start_clock = timespec_at t, child_windows = win\<rparr>) es) c w =
      Returned (m', w', tr)"
    "\<forall>x\<in>set (SCHEDULING_VECTOR c). 0 \<le> OFFSET x \<and> 0 \<le> DURATION x"
  shows "(\<exists>ts. subseq ts (map fst es) \<and>
      tr = child_events (MODULE_MANAGER.truncate c) ts @ DOSHUTDOWN (MODULE_MANAGER.truncate c)) \<and>
    one_at_a_time None tr"
proof -
  let ?m = "MODULE_MANAGER.truncate c"
  obtain m1 tr1 where run: "run_child mq net stale c (map (\<lambda>(t, win). \<lparr>start_clock = timespec_at t, child_windows = win\<rparr>) es)
      (?m, w, []) = Returned (m1, w', tr1)" "tr = tr1 @ DOSHUTDOWN m1"
    using assms(1) by (auto simp: RUN_CHILD_MODULE_MANAGER_def bind_outcome_Returned split: if_splits)
  have "\<forall>x\<in>set (SCHEDULING_VECTOR ?m). 0 \<le> OFFSET x \<and> 0 \<le> DURATION x"
    using assms(2) by (simp add: MODULE_MANAGER.truncate_def)
  from run_child_events [OF run(1) this] obtain ts where ts: "same_config ?m m1" "subseq ts (map fst es)" "tr1 = child_events ?m ts"
    by auto
  have window: "handed_back (window_events m t x)" for m t x
    unfolding window_events_def Let_def
    by (intro handed_back_intros handed_back_moves handed_back_window)
  have "handed_back (child_events ?m ts)"
    unfolding child_events_def by (rule handed_back_intros(4)) (auto intro!: handed_back_intros(4) window)
  then have "one_at_a_time None (child_events ?m ts @ DOSHUTDOWN ?m)"
    using handed_back_shutdown by (blast intro: handed_back_one_at_a_time handed_back_intros)
  then show ?thesis using ts(2,3) run(2) same_config_fields(9) [OF ts(1)] by auto
qed

definition demo_order :: "SyncType \<Rightarrow> byte list" where
  "demo_order order = TO_SERIAL_BUFFER (SYNC_MESSAGE_new order ''P'' '''')"

lemma demo_order [simp]:
  "length (demo_order order) = SyncTypeSize" "FROM_SERIAL_BUFFER (demo_order order) = SYNC_MESSAGE_new order ''P'' ''''"
  by (simp_all add: demo_order_def length_serial serial_roundtrip)

theorem child_runs_whole_schedules_witness:
  "\<exists>ts tr m' w'. RUN_CHILD_MODULE_MANAGER (list_sys_mq (\<lambda>_. 2)) list_net_calls (\<lambda>_. False)
      [\<lparr>start_clock = timespec_at 70, child_windows = window_envs demo_frame\<rparr>, \<lparr>start_clock = timespec_at 90, child_windows = window_envs demo_frame\<rparr>]
      ((demo_children ''A'')\<lparr>SCHEDULING_VECTOR := [\<lparr>OFFSET = 500, DURATION = 300, PARTITION_INDEX = 1\<rparr>]\<rparr>)
      \<lparr>net_sent = [], net_arrived = (\<lambda>_. [demo_order SYNC_START, demo_order SYNC_STOP]), sys_queues = (\<lambda>_. [])\<rparr> = Returned (m', w', tr) \<and>
    Cont 102 \<in> set tr \<and> subseq ts [70, 90] \<and> one_at_a_time None tr"
proof -
  let ?c = "(demo_children ''A'')\<lparr>SCHEDULING_VECTOR := [\<lparr>OFFSET = 500, DURATION = 300, PARTITION_INDEX = 1\<rparr>]\<rparr>"
  have c: "PARENT_NAME ?c = ''P''" "Recv_Socket ?c = Some 7001"
    "MODULE_MANAGER.truncate ?c = demo_module\<lparr>SCHEDULING_VECTOR := [\<lparr>OFFSET = 500, DURATION = 300, PARTITION_INDEX = 1\<rparr>]\<rparr>"
    by (simp_all add: demo_children_def demo_sync_def MODULE_CONFIG.extend_def MODULE_MANAGER.extend_def MODULE_MANAGER.truncate_def)
  have from_P: "is_from ''P'' (SYNC_MESSAGE_new order ''P'' '''')" for order
    by (simp add: is_from_def SYNC_MESSAGE_new_def name_array_def)
  have sync: "Sync (SYNC_MESSAGE_new order ''P'' '''') = sync_code order" for order by (simp add: SYNC_MESSAGE_new_def)
  have codes: "sync_code SYNC_STOP \<noteq> sync_code SYNC_START" by (simp add: sync_code_def)
  have run: "\<exists>m' w' tr. RUN_CHILD_MODULE_MANAGER (list_sys_mq (\<lambda>_. 2)) list_net_calls (\<lambda>_. False)
      (map (\<lambda>(t, win). \<lparr>start_clock = timespec_at t, child_windows = win\<rparr>) [(70, window_envs demo_frame), (90, window_envs demo_frame)]) ?c
      \<lparr>net_sent = [], net_arrived = (\<lambda>_. [demo_order SYNC_START, demo_order SYNC_STOP]), sys_queues = (\<lambda>_. [])\<rparr> = Returned (m', w', tr) \<and> Cont 102 \<in> set tr"
    by (simp add: RUN_CHILD_MODULE_MANAGER_def c [unfolded One_nat_def] from_P sync codes list_net_calls_def good_datagram_def demo_module_def demo_partition_def
        RUN_PARTITION_def addTimeNano_at MAX_TIME_OUT_def NANO_def demo_frame_def nanosleep_loop_cases Let_def)
  then obtain m' w' tr where tr: "RUN_CHILD_MODULE_MANAGER (list_sys_mq (\<lambda>_. 2)) list_net_calls (\<lambda>_. False)
      (map (\<lambda>(t, win). \<lparr>start_clock = timespec_at t, child_windows = win\<rparr>) [(70, window_envs demo_frame), (90, window_envs demo_frame)]) ?c
      \<lparr>net_sent = [], net_arrived = (\<lambda>_. [demo_order SYNC_START, demo_order SYNC_STOP]), sys_queues = (\<lambda>_. [])\<rparr> = Returned (m', w', tr)"
    "Cont 102 \<in> set tr" by blast
  then show ?thesis using child_runs_whole_schedules [OF tr(1)] by auto
qed

section \<open>The latency of the network\<close>

text \<open>When a system module manager has determined the latency, it has sent every child of the configuration
  exactly a question and, after an answer, an acknowledgement, child after child, then one START broadcast;
  a child sends at most one answer, and the latency it notes is a time read after it.\<close>

theorem latency_exchange:
  assumes "DETERMINE_AVERAGE_NETWORK_LATENCY net stale clock k msg buffer current m w = Returned (m', w')"
    "net_laws net logged" "receives_only net logged"
  shows "if isSystemModuleManager m then
      m' = m \<and> logged w' = logged w @ asked m (childrenModules m) @ [(broadcast_url m, TO_SERIAL_BUFFER (latency_message SYNC_START m))]
    else m' = m \<and> logged w' = logged w \<or>
      logged w' = logged w @ [(parent_url m, TO_SERIAL_BUFFER (SYNC_MESSAGE_new NETWORK_LATENCY_CHILD_ACK (MODULE_NAME m) (PARENT_NAME m)))] \<and>
      (m' = m \<or> (\<exists>t. (t = current \<or> (\<exists>j<k. t = clock j)) \<and> m' = m\<lparr>AVE_NETWORK_LATENCY_FROM_PARENT := t - current\<rparr>))"
proof (cases "isSystemModuleManager m")
  case True
  from parent_latency_logged [OF assms(1) True assms(2,3)] show ?thesis using True by simp
next
  case False
  show ?thesis using child_latency_measured [OF assms(1) False assms(2,3)] False by (simp only: if_False)
qed

lemma list_net_receives_only: "receives_only list_net_calls net_sent"
  by (simp add: receives_only_def list_net_calls_def split: list.split)

theorem latency_exchange_witness:
  "\<exists>w'. DETERMINE_AVERAGE_NETWORK_LATENCY list_net_calls (\<lambda>_. False) (\<lambda>_. 0) 3 (SYNC_MESSAGE_new BARRIER_ACK '''' '''') [] 0 demo_parent
      \<lparr>net_sent = [], net_arrived = (\<lambda>_. [demo_order NETWORK_LATENCY_CHILD_ACK, demo_order SYNC_STOP, demo_order NETWORK_LATENCY_CHILD_ACK])\<rparr> =
      Returned (demo_parent, w') \<and> length (net_sent w') = 5"
proof -
  have p: "isSystemModuleManager demo_parent" "Recv_Socket demo_parent = Some 7000" "Send_Socket demo_parent"
    "childrenModules demo_parent = [(''A'', demo_child ''A''), (''B'', demo_child ''B'')]" by (simp_all add: demo_parent_def)
  have sync: "Sync (SYNC_MESSAGE_new order ''P'' '''') = sync_code order" for order by (simp add: SYNC_MESSAGE_new_def)
  have codes: "sync_code SYNC_STOP \<noteq> sync_code NETWORK_LATENCY_CHILD_ACK" by (simp add: sync_code_def)
  let ?w = "\<lparr>net_sent = [], net_arrived = (\<lambda>_. [demo_order NETWORK_LATENCY_CHILD_ACK, demo_order SYNC_STOP, demo_order NETWORK_LATENCY_CHILD_ACK])\<rparr>"
  have "\<exists>w'. DETERMINE_AVERAGE_NETWORK_LATENCY list_net_calls (\<lambda>_. False) (\<lambda>_. 0) 3 (SYNC_MESSAGE_new BARRIER_ACK '''' '''') [] 0 demo_parent ?w =
      Returned (demo_parent, w')"
    by (simp add: DETERMINE_AVERAGE_NETWORK_LATENCY_def p send_sync_def list_net_calls_def sync codes numeral_3_eq_3)
  then obtain w' where w': "DETERMINE_AVERAGE_NETWORK_LATENCY list_net_calls (\<lambda>_. False) (\<lambda>_. 0) 3 (SYNC_MESSAGE_new BARRIER_ACK '''' '''') [] 0
      demo_parent ?w = Returned (demo_parent, w')" by blast
  have "net_sent w' = asked demo_parent (childrenModules demo_parent) @
      [(broadcast_url demo_parent, TO_SERIAL_BUFFER (latency_message SYNC_START demo_parent))]"
    using latency_exchange [OF w' list_net_laws list_net_receives_only] p(1) by simp
  then show ?thesis using w' by (auto simp: asked_def p(4))
qed

end
