(* ===== verification/StateMachine.thy ===== *)
theory StateMachine
  imports Prelude
begin

text \<open>
  The hierarchical state machines of StateMachine/src/StateMachine/StateMachine.cpp and
  include/StateMachine/StateMachine.h.  States, regions and transitions are objects that point to each other:
  the machine is the store of the objects, and a pointer is the index of an object.  The abstract class DataSource,
  which has the actions, guards and events of a machine, is a parameter on its state \<open>'d\<close>.  The virtual methods are those
  of the base classes.  Recursions over the hierarchy have the depth as fuel, and are \<open>Blocked\<close> with none
  left.
\<close>

section \<open>Objects\<close>

type_synonym sref = nat
type_synonym rref = nat
type_synonym tref = nat

datatype StateType = OR | AND

record STATE =
  m_pRegion :: "rref option"
  m_pState :: "sref option"
  m_type :: StateType
  s_name :: string
  s_id :: nat
  s_ds :: bool
  m_DefaultActionSet :: bool
  m_setOrderedOutTransitions :: "tref list"
  m_setTimeOutTransitions :: "tref list"
  m_setOrderedRegions :: "rref list"
  m_RegionPathToRoot :: "rref list"
  m_StatePathToRoot :: "sref list"

record REGION =
  r_pState :: "sref option"
  r_name :: string
  r_priority :: int
  m_initState :: "sref option"
  m_currentState :: "sref option"
  m_historyEnabled :: bool
  m_isDeepHistory :: bool
  m_childStates :: "sref list"

record TRANSITION =
  m_SourceState :: sref
  m_TargetState :: sref
  t_priority :: int
  t_id :: nat
  t_ds :: bool
  m_TransitionBetweenParallelMachines :: bool
  m_setHistory :: bool
  m_evalTimeOut :: bool
  m_StateToExit :: "sref option"
  m_StatesToEnter :: "sref list"

record MACHINE =
  states :: "STATE list"
  regions :: "REGION list"
  transitions :: "TRANSITION list"

abbreviation state_of :: "MACHINE \<Rightarrow> sref \<Rightarrow> STATE" where "state_of m s \<equiv> states m ! s"
abbreviation region_of :: "MACHINE \<Rightarrow> rref \<Rightarrow> REGION" where "region_of m r \<equiv> regions m ! r"
abbreviation transition_of :: "MACHINE \<Rightarrow> tref \<Rightarrow> TRANSITION" where "transition_of m t \<equiv> transitions m ! t"

definition update_state :: "sref \<Rightarrow> (STATE \<Rightarrow> STATE) \<Rightarrow> MACHINE \<Rightarrow> MACHINE" where
  "update_state s f m = m\<lparr>states := (states m)[s := f (state_of m s)]\<rparr>"

definition update_region :: "rref \<Rightarrow> (REGION \<Rightarrow> REGION) \<Rightarrow> MACHINE \<Rightarrow> MACHINE" where
  "update_region r f m = m\<lparr>regions := (regions m)[r := f (region_of m r)]\<rparr>"

definition update_transition :: "tref \<Rightarrow> (TRANSITION \<Rightarrow> TRANSITION) \<Rightarrow> MACHINE \<Rightarrow> MACHINE" where
  "update_transition t f m = m\<lparr>transitions := (transitions m)[t := f (transition_of m t)]\<rparr>"

text \<open>Events are ordered by their numbers.\<close>

datatype SM_Event = SM_Event (e_name: string) (e_id: int)

instantiation SM_Event :: preorder
begin

definition less_eq_SM_Event :: "SM_Event \<Rightarrow> SM_Event \<Rightarrow> bool" where "less_eq_SM_Event e1 e2 \<longleftrightarrow> e_id e1 \<le> e_id e2"
definition less_SM_Event :: "SM_Event \<Rightarrow> SM_Event \<Rightarrow> bool" where "less_SM_Event e1 e2 \<longleftrightarrow> e_id e1 < e_id e2"

instance
  by standard (auto simp: less_eq_SM_Event_def less_SM_Event_def)

end

definition SM_Event_new :: SM_Event where "SM_Event_new = SM_Event '''' (-1)"

section \<open>Building a machine\<close>

text \<open>The comparators of the ordered sets, on pointers that may be null.\<close>

fun TransitionComp :: "MACHINE \<Rightarrow> tref option \<Rightarrow> tref option \<Rightarrow> bool" where
  "TransitionComp m (Some t1) (Some t2) \<longleftrightarrow> t_priority (transition_of m t1) < t_priority (transition_of m t2)"
| "TransitionComp m (Some t1) None \<longleftrightarrow> True"
| "TransitionComp m None _ \<longleftrightarrow> False"

fun RegionComp :: "MACHINE \<Rightarrow> rref option \<Rightarrow> rref option \<Rightarrow> bool" where
  "RegionComp m (Some r1) (Some r2) \<longleftrightarrow> r_priority (region_of m r1) < r_priority (region_of m r2)"
| "RegionComp m (Some r1) None \<longleftrightarrow> True"
| "RegionComp m None _ \<longleftrightarrow> False"

text \<open>\<open>std::set::insert\<close>: an element equivalent to one that is there is not inserted.\<close>

fun set_insert :: "('a option \<Rightarrow> 'a option \<Rightarrow> bool) \<Rightarrow> 'a \<Rightarrow> 'a list \<Rightarrow> 'a list" where
  "set_insert before x [] = [x]"
| "set_insert before x (y # ys) =
     (if before (Some x) (Some y) then x # y # ys
      else if before (Some y) (Some x) then y # set_insert before x ys
      else y # ys)"

definition State_new :: "rref option \<Rightarrow> sref option \<Rightarrow> string \<Rightarrow> StateType \<Rightarrow> nat \<Rightarrow> MACHINE \<Rightarrow> MACHINE" where
  "State_new pRegion pState name t sid m = m\<lparr>states := states m @
     [\<lparr>m_pRegion = pRegion, m_pState = pState, m_type = t, s_name = name, s_id = sid, s_ds = False, m_DefaultActionSet = False,
       m_setOrderedOutTransitions = [], m_setTimeOutTransitions = [], m_setOrderedRegions = [],
       m_RegionPathToRoot = [], m_StatePathToRoot = []\<rparr>]\<rparr>"

definition Region_new :: "string \<Rightarrow> int \<Rightarrow> sref option \<Rightarrow> MACHINE \<Rightarrow> MACHINE" where
  "Region_new name priorityID pState m = m\<lparr>regions := regions m @
     [\<lparr>r_pState = pState, r_name = name, r_priority = priorityID, m_initState = None, m_currentState = None,
       m_historyEnabled = False, m_isDeepHistory = False, m_childStates = []\<rparr>]\<rparr>"

definition Transition_new :: "sref \<Rightarrow> sref \<Rightarrow> int \<Rightarrow> nat \<Rightarrow> bool \<Rightarrow> MACHINE \<Rightarrow> MACHINE" where
  "Transition_new source target priorityID tid setHistory m = m\<lparr>transitions := transitions m @
     [\<lparr>m_SourceState = source, m_TargetState = target, t_priority = priorityID, t_id = tid, t_ds = False,
       m_TransitionBetweenParallelMachines = False, m_setHistory = setHistory, m_evalTimeOut = False,
       m_StateToExit = None, m_StatesToEnter = []\<rparr>]\<rparr>"

text \<open>The root: a state without parents.\<close>

definition StateMachine_new :: "string \<Rightarrow> MACHINE" where
  "StateMachine_new name = State_new None None name OR 0 \<lparr>states = [], regions = [], transitions = []\<rparr>"

definition addOutgoingTransition :: "sref \<Rightarrow> tref \<Rightarrow> MACHINE \<Rightarrow> MACHINE" where
  "addOutgoingTransition s t m =
     update_state s (\<lambda>x. x\<lparr>m_setOrderedOutTransitions := set_insert (TransitionComp m) t (m_setOrderedOutTransitions x)\<rparr>) m"

definition addTimeOutTransition :: "sref \<Rightarrow> tref \<Rightarrow> MACHINE \<Rightarrow> MACHINE" where
  "addTimeOutTransition s t m =
     update_state s (\<lambda>x. x\<lparr>m_setTimeOutTransitions := set_insert (TransitionComp m) t (m_setTimeOutTransitions x)\<rparr>) m"

definition addChildRegion :: "sref \<Rightarrow> rref \<Rightarrow> MACHINE \<Rightarrow> MACHINE" where
  "addChildRegion s r m =
     update_state s (\<lambda>x. x\<lparr>m_setOrderedRegions := set_insert (RegionComp m) r (m_setOrderedRegions x)\<rparr>) m"

definition SetDataSource :: "sref \<Rightarrow> bool \<Rightarrow> MACHINE \<Rightarrow> MACHINE" where
  "SetDataSource s ds = update_state s (\<lambda>x. x\<lparr>s_ds := ds\<rparr>)"

definition SetDefaultAction :: "sref \<Rightarrow> MACHINE \<Rightarrow> MACHINE" where
  "SetDefaultAction s = update_state s (\<lambda>x. x\<lparr>m_DefaultActionSet := True\<rparr>)"

definition Transition_SetDataSource :: "tref \<Rightarrow> bool \<Rightarrow> MACHINE \<Rightarrow> MACHINE" where
  "Transition_SetDataSource t ds = update_transition t (\<lambda>x. x\<lparr>t_ds := ds\<rparr>)"

definition SetEvalTimeOut :: "tref \<Rightarrow> bool \<Rightarrow> MACHINE \<Rightarrow> MACHINE" where
  "SetEvalTimeOut t b m =
     (let m1 = update_transition t (\<lambda>x. x\<lparr>m_evalTimeOut := b\<rparr>) m
      in if b then addTimeOutTransition (m_SourceState (transition_of m1 t)) t m1 else m1)"

definition EnableShallowHistory :: "rref \<Rightarrow> MACHINE \<Rightarrow> MACHINE" where
  "EnableShallowHistory r = update_region r (\<lambda>x. x\<lparr>m_historyEnabled := True, m_isDeepHistory := False\<rparr>)"

definition EnableDeepHistory :: "rref \<Rightarrow> MACHINE \<Rightarrow> MACHINE" where
  "EnableDeepHistory r = update_region r (\<lambda>x. x\<lparr>m_historyEnabled := True, m_isDeepHistory := True\<rparr>)"

definition setCurrentState :: "rref \<Rightarrow> sref option \<Rightarrow> MACHINE \<Rightarrow> MACHINE" where
  "setCurrentState r s m =
     (if m_childStates (region_of m r) = [] then m
      else case s of
        None \<Rightarrow> m
      | Some x \<Rightarrow> if x \<notin> set (m_childStates (region_of m r)) then m
                  else update_region r (\<lambda>y. y\<lparr>m_currentState := Some x\<rparr>) m)"

definition addState :: "rref \<Rightarrow> sref \<Rightarrow> bool \<Rightarrow> MACHINE \<Rightarrow> MACHINE" where
  "addState r s isInitial m =
     (let m1 = update_region r (\<lambda>x. x\<lparr>m_childStates := List.insert s (m_childStates x)\<rparr>) m
      in if isInitial \<and> m_initState (region_of m1 r) = None
         then setCurrentState r (Some s) (update_region r (\<lambda>x. x\<lparr>m_initState := Some s\<rparr>) m1)
         else m1)"

section \<open>Paths and transitions\<close>

text \<open>The way up from a region; a region without a state is a null pointer that is followed.\<close>

fun path_to_root :: "MACHINE \<Rightarrow> nat \<Rightarrow> rref option \<Rightarrow> rref list \<times> sref list \<Rightarrow> (rref list \<times> sref list) outcome" where
  "path_to_root m k None p = Returned p"
| "path_to_root m 0 (Some r) p = Blocked"
| "path_to_root m (Suc k) (Some r) (rs, ss) =
     (case r_pState (region_of m r) of
        None \<Rightarrow> Undef
      | Some s \<Rightarrow> path_to_root m k (m_pRegion (state_of m s)) (r # rs, s # ss))"

definition computePathToRoot :: "nat \<Rightarrow> sref \<Rightarrow> MACHINE \<Rightarrow> MACHINE outcome" where
  "computePathToRoot k s m =
     bind_outcome (path_to_root m k (m_pRegion (state_of m s)) ([], [])) (\<lambda>(rs, ss).
       Returned (update_state s (\<lambda>x. x\<lparr>m_RegionPathToRoot := rs, m_StatePathToRoot := ss\<rparr>) m))"

text \<open>The first place at which two paths differ.\<close>

fun first_difference :: "sref list \<Rightarrow> sref list \<Rightarrow> nat" where
  "first_difference (x # xs) (y # ys) = (if x = y then Suc (first_difference xs ys) else 0)"
| "first_difference _ _ = 0"

text \<open>Paths that differ at the root are of two machines: the code then reads before the vector.\<close>

definition computeEntryAndExitPoints :: "tref \<Rightarrow> MACHINE \<Rightarrow> MACHINE outcome" where
  "computeEntryAndExitPoints t m =
     (let x = transition_of m t;
          src = m_StatePathToRoot (state_of m (m_SourceState x));
          tgt = m_StatePathToRoot (state_of m (m_TargetState x));
          size = min (length src) (length tgt);
          i = first_difference src tgt;
          differs = i < size;
          parallel = differs \<and> m_pRegion (state_of m (src ! i)) \<noteq> m_pRegion (state_of m (tgt ! i))
      in if parallel \<and> i = 0 then Undef
         else let stateToExit = (if parallel then src ! (i - 1) else if differs then src ! i else m_SourceState x);
                  between = m_TransitionBetweenParallelMachines x \<or> parallel
           in Returned (update_transition t (\<lambda>y. y\<lparr>m_StateToExit := Some stateToExit, m_TransitionBetweenParallelMachines := between,
                m_StatesToEnter := m_StatesToEnter y @ (if between then [stateToExit] else []) @ drop i tgt @ [m_TargetState x]\<rparr>) m))"

section \<open>The data source\<close>

text \<open>The virtual methods of DataSource, and the store of its member \<open>m_EvaluatingTimeOuts\<close>.  Triggers, guards and the query for
  events may change its state.\<close>

record 'd DataSource =
  ResetOutputEvents :: "'d \<Rightarrow> 'd"
  ApplyAndResetInputEvents :: "'d \<Rightarrow> 'd"
  ApplyAndResetInternalEvents :: "'d \<Rightarrow> 'd"
  ResetInputEvents :: "'d \<Rightarrow> 'd"
  ResetInternalEvents :: "'d \<Rightarrow> 'd"
  IsCurrentEventSet :: "'d \<Rightarrow> bool \<times> 'd"
  performStateEntryAction :: "nat \<Rightarrow> 'd \<Rightarrow> 'd"
  performStateExitAction :: "nat \<Rightarrow> 'd \<Rightarrow> 'd"
  performStateDuringAction :: "nat \<Rightarrow> 'd \<Rightarrow> 'd"
  performDefaultStateAction :: "nat \<Rightarrow> 'd \<Rightarrow> 'd"
  performTransitionAction :: "nat \<Rightarrow> 'd \<Rightarrow> 'd"
  evalTransitionGuard :: "nat \<Rightarrow> 'd \<Rightarrow> bool \<times> 'd"
  evalTransitionEventTrigger :: "nat \<Rightarrow> 'd \<Rightarrow> bool \<times> 'd"
  setCurrentTime :: "'d \<Rightarrow> 'd"
  clearTimeOutCalls :: "nat set \<Rightarrow> 'd \<Rightarrow> 'd"
  EvaluateTimeOuts :: "'d \<Rightarrow> 'd"
  GetTimeOutTransitionsToEvaluate :: "'d \<Rightarrow> nat set \<times> 'd"
  set_EvaluatingTimeOuts :: "bool \<Rightarrow> 'd \<Rightarrow> 'd"

definition checkEvent :: "'d DataSource \<Rightarrow> MACHINE \<Rightarrow> tref \<Rightarrow> 'd \<Rightarrow> bool \<times> 'd" where
  "checkEvent ds m t d = (if \<not> t_ds (transition_of m t) then (True, d) else evalTransitionEventTrigger ds (t_id (transition_of m t)) d)"

definition checkGuard :: "'d DataSource \<Rightarrow> MACHINE \<Rightarrow> tref \<Rightarrow> 'd \<Rightarrow> bool \<times> 'd" where
  "checkGuard ds m t d = (if \<not> t_ds (transition_of m t) then (True, d) else evalTransitionGuard ds (t_id (transition_of m t)) d)"

definition performAction :: "'d DataSource \<Rightarrow> MACHINE \<Rightarrow> tref \<Rightarrow> 'd \<Rightarrow> 'd" where
  "performAction ds m t d = (if \<not> t_ds (transition_of m t) then d else performTransitionAction ds (t_id (transition_of m t)) d)"

definition performExit :: "'d DataSource \<Rightarrow> MACHINE \<Rightarrow> sref \<Rightarrow> 'd \<Rightarrow> 'd" where
  "performExit ds m s d = (if \<not> s_ds (state_of m s) then d else performStateExitAction ds (s_id (state_of m s)) d)"

definition performDuring :: "'d DataSource \<Rightarrow> MACHINE \<Rightarrow> sref \<Rightarrow> 'd \<Rightarrow> 'd" where
  "performDuring ds m s d = (if \<not> s_ds (state_of m s) then d else performStateDuringAction ds (s_id (state_of m s)) d)"

definition EvalTransitionsForTimeOut :: "'d DataSource \<Rightarrow> MACHINE \<Rightarrow> bool \<Rightarrow> sref \<Rightarrow> 'd \<Rightarrow> 'd" where
  "EvalTransitionsForTimeOut ds m evalduring s d =
     (if m_setTimeOutTransitions (state_of m s) = [] then d
      else fold (\<lambda>t d. snd (checkGuard ds m t d)) (m_setTimeOutTransitions (state_of m s))
             (if evalduring then performDuring ds m s d else d))"

definition performEntry :: "'d DataSource \<Rightarrow> MACHINE \<Rightarrow> sref \<Rightarrow> 'd \<Rightarrow> 'd" where
  "performEntry ds m s d =
     (if \<not> s_ds (state_of m s) then d
      else performStateEntryAction ds (s_id (state_of m s)) (EvalTransitionsForTimeOut ds m False s d))"

section \<open>Evaluation of a configuration\<close>

text \<open>The first outgoing transition, by priority, whose trigger and guard hold.\<close>

fun first_active :: "'d DataSource \<Rightarrow> MACHINE \<Rightarrow> tref list \<Rightarrow> 'd \<Rightarrow> tref option \<times> 'd" where
  "first_active ds m [] d = (None, d)"
| "first_active ds m (t # ts) d =
     (let (event, d1) = checkEvent ds m t d in
      if \<not> event then first_active ds m ts d1
      else let (guard, d2) = checkGuard ds m t d1 in
        if guard then (Some t, d2) else first_active ds m ts d2)"

text \<open>\<open>defaultStateActionID = m_id\<close>: an unsigned long in an int.\<close>

definition int_of_id :: "nat \<Rightarrow> int" where
  "int_of_id n = sint (word_of_nat n :: 32 word)"

text \<open>The active transitions collected so far, the identifier of the default action and the data are passed along; the
  data come back with the transition that the state returns.\<close>

fun EvalTransitions ::
  "'d DataSource \<Rightarrow> MACHINE \<Rightarrow> nat \<Rightarrow> sref \<Rightarrow> bool \<Rightarrow> tref list \<times> int \<times> 'd \<Rightarrow> (tref option \<times> tref list \<times> int \<times> 'd) outcome"
and eval_regions ::
  "'d DataSource \<Rightarrow> MACHINE \<Rightarrow> nat \<Rightarrow> rref list \<Rightarrow> bool \<Rightarrow> tref list \<times> int \<times> 'd \<Rightarrow> (tref list \<times> int \<times> 'd) outcome" where
  "EvalTransitions ds m 0 s lookForDefaultStateAction p = Blocked"
| "EvalTransitions ds m (Suc k) s lookForDefaultStateAction (activeTransitions, defaultStateActionID, d) =
     (case first_active ds m (m_setOrderedOutTransitions (state_of m s)) (performDuring ds m s d) of
        (Some t, d1) \<Rightarrow> Returned (Some t, activeTransitions @ [t], defaultStateActionID, d1)
      | (None, d1) \<Rightarrow>
          let own = (if lookForDefaultStateAction \<and> m_DefaultActionSet (state_of m s) then int_of_id (s_id (state_of m s))
                     else defaultStateActionID)
          in bind_outcome (eval_regions ds m k (m_setOrderedRegions (state_of m s)) lookForDefaultStateAction
               (activeTransitions, -1, d1)) (\<lambda>(active, defActionID, d2).
             Returned (None, active, if active = [] then defActionID else own, d2)))"
| "eval_regions ds m k [] lookForDef p = Returned p"
| "eval_regions ds m k (r # rs) lookForDef p =
     (case m_currentState (region_of m r) of
        None \<Rightarrow> eval_regions ds m k rs lookForDef p
      | Some s \<Rightarrow>
          bind_outcome (EvalTransitions ds m k s lookForDef p) (\<lambda>(_, active, defActionID, d).
            eval_regions ds m k rs (lookForDef \<and> defActionID = -1) (active, defActionID, d)))"

text \<open>Exit: the current states of the regions first, then the state itself.  The second component are the time-out
  transitions of the states left.\<close>

fun EvalExit :: "'d DataSource \<Rightarrow> MACHINE \<Rightarrow> nat \<Rightarrow> sref \<Rightarrow> bool \<Rightarrow> nat set \<times> 'd \<Rightarrow> (nat set \<times> 'd) outcome"
and exit_regions :: "'d DataSource \<Rightarrow> MACHINE \<Rightarrow> nat \<Rightarrow> rref list \<Rightarrow> nat set \<times> 'd \<Rightarrow> (nat set \<times> 'd) outcome" where
  "EvalExit ds m 0 s doExit p = Blocked"
| "EvalExit ds m (Suc k) s doExit p =
     bind_outcome (exit_regions ds m k (m_setOrderedRegions (state_of m s)) p) (\<lambda>(ids, d).
       Returned (if doExit
                 then (ids \<union> set (map (\<lambda>t. t_id (transition_of m t)) (m_setTimeOutTransitions (state_of m s))), performExit ds m s d)
                 else (ids, d)))"
| "exit_regions ds m k [] p = Returned p"
| "exit_regions ds m k (r # rs) p =
     (case m_currentState (region_of m r) of
        None \<Rightarrow> exit_regions ds m k rs p
      | Some s \<Rightarrow> bind_outcome (EvalExit ds m k s True p) (exit_regions ds m k rs))"

text \<open>The state a region enters, and whether history goes on below it.\<close>

definition state_to_enter :: "MACHINE \<Rightarrow> rref \<Rightarrow> sref list \<Rightarrow> bool \<Rightarrow> bool \<Rightarrow> sref option \<times> bool" where
  "state_to_enter m r statesToEnter applyHistory checkHistory =
     (case statesToEnter of
        [] \<Rightarrow> (if applyHistory then m_currentState (region_of m r) else m_initState (region_of m r),
               applyHistory \<and> \<not> (checkHistory \<and> \<not> m_isDeepHistory (region_of m r)))
      | x # _ \<Rightarrow> (if x \<in> set (m_childStates (region_of m r)) then Some x else m_initState (region_of m r), applyHistory))"

text \<open>A state takes itself off the front of the path; history is looked at in the target only.\<close>

definition take_off :: "sref \<Rightarrow> sref list \<Rightarrow> bool \<Rightarrow> sref list \<times> bool" where
  "take_off s statesToEnter applyHistory =
     (case statesToEnter of
        [] \<Rightarrow> ([], False)
      | x # xs \<Rightarrow> if x = s then (xs, xs = [] \<and> applyHistory) else (statesToEnter, False))"

fun EvalTimeOut :: "'d DataSource \<Rightarrow> MACHINE \<Rightarrow> nat \<Rightarrow> sref \<Rightarrow> bool \<Rightarrow> bool \<Rightarrow> sref list \<times> 'd \<Rightarrow> (sref list \<times> 'd) outcome"
and timeout_regions :: "'d DataSource \<Rightarrow> MACHINE \<Rightarrow> nat \<Rightarrow> rref list \<Rightarrow> bool \<Rightarrow> bool \<Rightarrow> bool \<Rightarrow> sref list \<times> 'd \<Rightarrow> (sref list \<times> 'd) outcome" where
  "EvalTimeOut ds m 0 s applyHistory doEntry p = Blocked"
| "EvalTimeOut ds m (Suc k) s applyHistory doEntry (statesToEnter, d) =
     (let d1 = (if doEntry then EvalTransitionsForTimeOut ds m False s d else d);
          (todo, checkHistory) = take_off s statesToEnter applyHistory
      in timeout_regions ds m k (m_setOrderedRegions (state_of m s)) applyHistory checkHistory doEntry (todo, d1))"
| "timeout_regions ds m k [] applyHistory checkHistory doEntry p = Returned p"
| "timeout_regions ds m k (r # rs) applyHistory checkHistory doEntry (todo, d) =
     (case state_to_enter m r todo applyHistory checkHistory of
        (None, _) \<Rightarrow> timeout_regions ds m k rs applyHistory checkHistory doEntry (todo, d)
      | (Some x, history) \<Rightarrow>
          bind_outcome (EvalTimeOut ds m k x history doEntry (todo, d))
            (timeout_regions ds m k rs applyHistory checkHistory doEntry))"

fun EvalEntry :: "'d DataSource \<Rightarrow> nat \<Rightarrow> sref \<Rightarrow> bool \<Rightarrow> bool \<Rightarrow> sref list \<times> MACHINE \<times> 'd \<Rightarrow> (sref list \<times> MACHINE \<times> 'd) outcome"
and entry_regions :: "'d DataSource \<Rightarrow> nat \<Rightarrow> rref list \<Rightarrow> bool \<Rightarrow> bool \<Rightarrow> sref list \<times> MACHINE \<times> 'd \<Rightarrow> (sref list \<times> MACHINE \<times> 'd) outcome" where
  "EvalEntry ds 0 s applyHistory doEntry p = Blocked"
| "EvalEntry ds (Suc k) s applyHistory doEntry (statesToEnter, m, d) =
     (let d1 = (if doEntry then performEntry ds m s d else d);
          (todo, checkHistory) = take_off s statesToEnter applyHistory;
          m1 = (case m_pRegion (state_of m s) of None \<Rightarrow> m | Some r \<Rightarrow> setCurrentState r (Some s) m)
      in entry_regions ds k (m_setOrderedRegions (state_of m s)) applyHistory checkHistory (todo, m1, d1))"
| "entry_regions ds k [] applyHistory checkHistory p = Returned p"
| "entry_regions ds k (r # rs) applyHistory checkHistory (todo, m, d) =
     (case state_to_enter m r todo applyHistory checkHistory of
        (None, _) \<Rightarrow> entry_regions ds k rs applyHistory checkHistory (todo, m, d)
      | (Some x, history) \<Rightarrow>
          bind_outcome (EvalEntry ds k x history True (todo, setCurrentState r (Some x) m, d))
            (entry_regions ds k rs applyHistory checkHistory))"

section \<open>A step\<close>

text \<open>One transition of the queue; without states to enter the inner loop is left (the second case).\<close>

definition fire ::
  "'d DataSource \<Rightarrow> nat \<Rightarrow> tref \<Rightarrow> nat set \<times> MACHINE \<times> 'd \<Rightarrow> (bool \<times> nat set \<times> MACHINE \<times> 'd) outcome" where
  "fire ds k t = (\<lambda>(ids, m, d).
     let x = transition_of m t; normal = \<not> m_TransitionBetweenParallelMachines x in
     case m_StateToExit x of
       None \<Rightarrow> Undef
     | Some exitState \<Rightarrow>
         bind_outcome (EvalExit ds m k exitState normal (ids, d)) (\<lambda>(ids1, d1).
         case m_StatesToEnter x of
           [] \<Rightarrow> Returned (False, ids1, m, d1)
         | first # _ \<Rightarrow>
             bind_outcome (EvalTimeOut ds m k first (m_setHistory x) normal (m_StatesToEnter x, performAction ds m t d1)) (\<lambda>(_, d2).
             bind_outcome (EvalEntry ds k first (m_setHistory x) normal (m_StatesToEnter x, m, d2)) (\<lambda>(_, m3, d3).
               Returned (True, ids1, m3, d3)))))"

fun fire_all ::
  "'d DataSource \<Rightarrow> nat \<Rightarrow> tref list \<Rightarrow> nat set \<times> MACHINE \<times> 'd \<Rightarrow> (tref list \<times> nat set \<times> MACHINE \<times> 'd) outcome" where
  "fire_all ds k [] p = Returned ([], p)"
| "fire_all ds k (t # ts) p =
     bind_outcome (fire ds k t p) (\<lambda>(more, p1). if more then fire_all ds k ts p1 else Returned (ts, p1))"

text \<open>The loop of \<open>step\<close>, with the number of its rounds as fuel.  A default action is performed when there is no transition.\<close>

fun step_loop :: "'d DataSource \<Rightarrow> nat \<Rightarrow> nat \<Rightarrow> sref \<Rightarrow> tref list \<Rightarrow> MACHINE \<times> 'd \<Rightarrow> (MACHINE \<times> 'd) outcome" where
  "step_loop ds k 0 root deqTransitions p = Blocked"
| "step_loop ds k (Suc n) root deqTransitions (m, d) =
     bind_outcome (EvalTransitions ds m k root True (deqTransitions, -1, set_EvaluatingTimeOuts ds True d))
       (\<lambda>(_, active, defaultActionID, d1).
     let d2 = set_EvaluatingTimeOuts ds False d1 in
     if active = [] then
       Returned (m, if defaultActionID = -1 then d2
                    else performDefaultStateAction ds (unat (word_of_int defaultActionID :: 64 word)) d2)
     else
       bind_outcome (fire_all ds k active ({}, m, d2)) (\<lambda>(rest, ids, m3, d3).
       let d4 = ApplyAndResetInternalEvents ds (ResetInputEvents ds (EvaluateTimeOuts ds (clearTimeOutCalls ds ids d3)));
           (again, d5) = IsCurrentEventSet ds d4
       in if again then step_loop ds k n root rest (m3, d5) else Returned (m3, d5)))"

definition init_machine :: "'d DataSource \<Rightarrow> nat \<Rightarrow> sref \<Rightarrow> MACHINE \<times> 'd \<Rightarrow> (MACHINE \<times> 'd) outcome" where
  "init_machine ds k root = (\<lambda>(m, d).
     bind_outcome (EvalTimeOut ds m k root False True ([], d)) (\<lambda>(todo, d1).
     bind_outcome (EvalEntry ds k root False True (todo, m, EvaluateTimeOuts ds d1)) (\<lambda>(_, m2, d2).
       Returned (m2, ApplyAndResetInternalEvents ds d2))))"

definition SM_step :: "'d DataSource \<Rightarrow> nat \<Rightarrow> nat \<Rightarrow> sref \<Rightarrow> bool \<Rightarrow> MACHINE \<times> 'd \<Rightarrow> (MACHINE \<times> 'd) outcome" where
  "SM_step ds k n root init = (\<lambda>(m, d).
     let d0 = setCurrentTime ds (ApplyAndResetInputEvents ds (ResetOutputEvents ds d)) in
     bind_outcome
       (if init then bind_outcome (init_machine ds k root (m, d0)) (\<lambda>(m1, d1).
          let (more, d2) = IsCurrentEventSet ds d1 in Returned (more, m1, d2))
        else Returned (True, m, d0)) (\<lambda>(more, m1, d1).
     if \<not> more then Returned (m1, d1)
     else bind_outcome (step_loop ds k n root [] (m1, snd (GetTimeOutTransitionsToEvaluate ds d1))) (\<lambda>(m2, d2).
       Returned (m2, ResetInternalEvents ds (ResetInputEvents ds d2)))))"

definition SM_start :: "'d DataSource \<Rightarrow> nat \<Rightarrow> nat \<Rightarrow> sref \<Rightarrow> MACHINE \<times> 'd \<Rightarrow> (MACHINE \<times> 'd) outcome" where
  "SM_start ds k n root = SM_step ds k n root True"


end
