(* ===== verification/StateMachineProperties.thy ===== *)
theory StateMachineProperties
  imports StateMachine "HOL-Library.Multiset"
begin

text \<open>
  The hierarchy of a machine as a forest, which building keeps; what entry, exit and transitions change; the
  configuration of the active states.
\<close>

declare EvalEntry.simps [simp del] entry_regions.simps [simp del] EvalTimeOut.simps [simp del] timeout_regions.simps [simp del]
  EvalExit.simps [simp del] exit_regions.simps [simp del] EvalTransitions.simps [simp del] eval_regions.simps [simp del]

section \<open>The hierarchy\<close>

text \<open>Pointers lead to objects; a region of a state has it as parent, a child of a region has it as its region, and children
  come after the state above them, so that there is no cycle.\<close>

definition hierarchy :: "MACHINE \<Rightarrow> bool" where
  "hierarchy m \<longleftrightarrow>
     (\<forall>s<length (states m). distinct (m_setOrderedRegions (state_of m s)) \<and>
        (\<forall>r\<in>set (m_setOrderedRegions (state_of m s)). r < length (regions m) \<and> r_pState (region_of m r) = Some s)) \<and>
     (\<forall>r<length (regions m). \<forall>c\<in>set (m_childStates (region_of m r)). c < length (states m) \<and> m_pRegion (state_of m c) = Some r) \<and>
     (\<forall>c<length (states m). \<forall>r. m_pRegion (state_of m c) = Some r \<longrightarrow>
        r < length (regions m) \<and> (\<exists>p. r_pState (region_of m r) = Some p \<and> p < c))"

text \<open>The states a region points to are its children.\<close>

definition currents_ok :: "MACHINE \<Rightarrow> bool" where
  "currents_ok m \<longleftrightarrow> (\<forall>r<length (regions m).
     (\<forall>x. m_initState (region_of m r) = Some x \<longrightarrow> x \<in> set (m_childStates (region_of m r))) \<and>
     (\<forall>x. m_currentState (region_of m r) = Some x \<longrightarrow> x \<in> set (m_childStates (region_of m r))))"

text \<open>Every region has an initial state, and with it a current one.\<close>

definition populated :: "MACHINE \<Rightarrow> bool" where
  "populated m \<longleftrightarrow> (\<forall>r<length (regions m). m_initState (region_of m r) \<noteq> None \<and> m_currentState (region_of m r) \<noteq> None)"

lemma hierarchyD:
  assumes "hierarchy m"
  shows "s < length (states m) \<Longrightarrow> distinct (m_setOrderedRegions (state_of m s))"
    and "s < length (states m) \<Longrightarrow> r \<in> set (m_setOrderedRegions (state_of m s)) \<Longrightarrow> r < length (regions m) \<and> r_pState (region_of m r) = Some s"
    and "r < length (regions m) \<Longrightarrow> c \<in> set (m_childStates (region_of m r)) \<Longrightarrow> c < length (states m) \<and> m_pRegion (state_of m c) = Some r"
    and "c < length (states m) \<Longrightarrow> m_pRegion (state_of m c) = Some r \<Longrightarrow> r < length (regions m) \<and> (\<exists>p. r_pState (region_of m r) = Some p \<and> p < c)"
proof -
  note h = assms [unfolded hierarchy_def]
  show "s < length (states m) \<Longrightarrow> distinct (m_setOrderedRegions (state_of m s))" using h by blast
  show "s < length (states m) \<Longrightarrow> r \<in> set (m_setOrderedRegions (state_of m s)) \<Longrightarrow> r < length (regions m) \<and> r_pState (region_of m r) = Some s"
    using h [THEN conjunct1] by blast
  show "r < length (regions m) \<Longrightarrow> c \<in> set (m_childStates (region_of m r)) \<Longrightarrow> c < length (states m) \<and> m_pRegion (state_of m c) = Some r"
    using h [THEN conjunct2, THEN conjunct1] by blast
  show "c < length (states m) \<Longrightarrow> m_pRegion (state_of m c) = Some r \<Longrightarrow> r < length (regions m) \<and> (\<exists>p. r_pState (region_of m r) = Some p \<and> p < c)"
    using h [THEN conjunct2, THEN conjunct2] by blast
qed

lemma hierarchy_rank:
  "hierarchy m \<Longrightarrow> c < length (states m) \<Longrightarrow> m_pRegion (state_of m c) = Some r \<Longrightarrow> r_pState (region_of m r) = Some p \<Longrightarrow> p < c"
  using hierarchyD(4) [of m c r] by simp

lemma child_after_parent:
  assumes "hierarchy m" "s < length (states m)" "r \<in> set (m_setOrderedRegions (state_of m s))" "c \<in> set (m_childStates (region_of m r))"
  shows "s < c" "c < length (states m)" "m_pRegion (state_of m c) = Some r"
  using hierarchyD(2,3) [OF assms(1)] hierarchy_rank [OF assms(1)] assms(2-4) by blast+

section \<open>What entry may change\<close>

text \<open>Only the current states of regions change.\<close>

definition same_structure :: "MACHINE \<Rightarrow> MACHINE \<Rightarrow> bool" where
  "same_structure m m' \<longleftrightarrow> states m' = states m \<and> transitions m' = transitions m \<and>
     map (\<lambda>r. r\<lparr>m_currentState := None\<rparr>) (regions m') = map (\<lambda>r. r\<lparr>m_currentState := None\<rparr>) (regions m)"

lemma same_structure_refl [simp, intro]: "same_structure m m"
  by (simp add: same_structure_def)

lemma same_structure_trans [trans]: "same_structure m m' \<Longrightarrow> same_structure m' m'' \<Longrightarrow> same_structure m m''"
  by (simp add: same_structure_def)

lemma same_structure_sym: "same_structure m m' \<Longrightarrow> same_structure m' m"
  by (simp add: same_structure_def)

lemma same_structure_fields:
  assumes "same_structure m m'"
  shows "states m' = states m" "transitions m' = transitions m" "length (regions m') = length (regions m)"
    "r < length (regions m) \<Longrightarrow> (region_of m' r)\<lparr>m_currentState := None\<rparr> = (region_of m r)\<lparr>m_currentState := None\<rparr>"
proof -
  have eq: "map (\<lambda>r. r\<lparr>m_currentState := None\<rparr>) (regions m') = map (\<lambda>r. r\<lparr>m_currentState := None\<rparr>) (regions m)"
    using assms by (simp add: same_structure_def)
  show len: "length (regions m') = length (regions m)" using arg_cong [OF eq, of length] by simp
  show "r < length (regions m) \<Longrightarrow> (region_of m' r)\<lparr>m_currentState := None\<rparr> = (region_of m r)\<lparr>m_currentState := None\<rparr>"
    using arg_cong [OF eq, of "\<lambda>xs. xs ! r"] len by simp
qed (use assms in \<open>simp_all add: same_structure_def\<close>)

lemma same_structure_region:
  assumes "same_structure m m'" "r < length (regions m)"
  shows "r_pState (region_of m' r) = r_pState (region_of m r)" "m_childStates (region_of m' r) = m_childStates (region_of m r)"
    "m_initState (region_of m' r) = m_initState (region_of m r)" "m_isDeepHistory (region_of m' r) = m_isDeepHistory (region_of m r)"
  using same_structure_fields(4) [OF assms] by (cases "region_of m r"; cases "region_of m' r"; simp)+

lemma same_structure_hierarchy:
  assumes "same_structure m m'" "hierarchy m"
  shows "hierarchy m'"
proof -
  note f = same_structure_fields(1,3) [OF assms(1)] and g = same_structure_region [OF assms(1)]
  show ?thesis unfolding hierarchy_def f
  proof (intro conjI allI impI ballI)
    fix s r assume "s < length (states m)" "r \<in> set (m_setOrderedRegions (state_of m s))"
    then show "r < length (regions m)" "r_pState (region_of m' r) = Some s" using hierarchyD(2) [OF assms(2)] g(1) by metis+
  next
    fix c r assume "r < length (regions m)" "c \<in> set (m_childStates (region_of m' r))"
    then show "c < length (states m)" "m_pRegion (state_of m c) = Some r" using hierarchyD(3) [OF assms(2)] g(2) by metis+
  next
    fix c r assume "c < length (states m)" "m_pRegion (state_of m c) = Some r"
    then show "r < length (regions m)" "\<exists>p. r_pState (region_of m' r) = Some p \<and> p < c" using hierarchyD(4) [OF assms(2)] g(1) by metis+
  qed (rule hierarchyD(1) [OF assms(2)])
qed

lemma setCurrentState_region:
  assumes "r < length (regions m)"
  shows "same_structure m (setCurrentState r s m)"
    and "r' < length (regions m) \<Longrightarrow> m_currentState (region_of (setCurrentState r (Some x) m) r') =
      (if r' = r \<and> x \<in> set (m_childStates (region_of m r)) then Some x else m_currentState (region_of m r'))"
  using assms
  by (auto simp: setCurrentState_def update_region_def same_structure_def map_update nth_list_update list_update_same_conv split: option.split)

lemma setCurrentState_ok:
  assumes "currents_ok m" "r < length (regions m)"
  shows "currents_ok (setCurrentState r (Some x) m)"
  using assms setCurrentState_region [OF assms(2)] same_structure_region [OF setCurrentState_region(1) [OF assms(2)]]
    same_structure_fields(3) [OF setCurrentState_region(1) [OF assms(2)]]
  unfolding currents_ok_def by (metis option.inject)

lemma setCurrentState_populated:
  assumes "populated m" "r < length (regions m)"
  shows "populated (setCurrentState r (Some x) m)"
  using assms setCurrentState_region [OF assms(2)] same_structure_region [OF setCurrentState_region(1) [OF assms(2)]]
    same_structure_fields(3) [OF setCurrentState_region(1) [OF assms(2)]]
  unfolding populated_def by (metis option.distinct(1))

text \<open>The regions below a state.\<close>

inductive below :: "MACHINE \<Rightarrow> sref \<Rightarrow> rref \<Rightarrow> bool" for m where
  direct: "r_pState (region_of m r) = Some s \<Longrightarrow> r < length (regions m) \<Longrightarrow> below m s r"
| deeper: "below m s r \<Longrightarrow> r' < length (regions m) \<Longrightarrow> r_pState (region_of m r') = Some c \<Longrightarrow> c < length (states m) \<Longrightarrow>
    m_pRegion (state_of m c) = Some r \<Longrightarrow> below m s r'"

lemma below_rank:
  assumes "below m s r" "hierarchy m" "r_pState (region_of m r) = Some p"
  shows "s \<le> p"
  using assms
proof (induction arbitrary: p)
  case (deeper s r r' c)
  obtain q where "r_pState (region_of m r) = Some q" "q < c"
    using hierarchyD(4) [OF deeper.prems(1), of c r] deeper.hyps by auto
  then show ?case using deeper.IH [of q] deeper.prems deeper.hyps by simp
qed simp

lemma below_up:
  assumes "below m c r'" "hierarchy m" "c < length (states m)" "m_pRegion (state_of m c) = Some r" "r_pState (region_of m r) = Some s"
  shows "below m s r'"
  using assms(1,3-5)
proof (induction)
  case (direct r1 s1)
  have "below m s r" using direct hierarchyD(4) [OF assms(2)] by (blast intro: below.direct)
  then show ?case using direct by (blast intro: below.deeper)
next
  case (deeper s1 r1 r2 c1)
  then show ?case by (blast intro: below.deeper)
qed

text \<open>Two states above a region lie on one path.\<close>

lemma below_chain:
  assumes "below m c1 r" "below m c2 r" "hierarchy m"
  shows "c1 = c2 \<or> (\<exists>r1. m_pRegion (state_of m c1) = Some r1 \<and> below m c2 r1) \<or> (\<exists>r2. m_pRegion (state_of m c2) = Some r2 \<and> below m c1 r2)"
  using assms
proof (induction)
  case (direct r s)
  from direct.prems(1) show ?case
    by (cases rule: below.cases) (use direct.hyps in auto)
next
  case (deeper s r r' c)
  from deeper.prems(1) show ?case
    by (cases rule: below.cases) (use deeper in auto)
qed

lemma siblings_disjoint:
  assumes "hierarchy m" "below m c1 r" "below m c2 r" "c1 < length (states m)" "c2 < length (states m)"
    "m_pRegion (state_of m c1) = Some r1" "m_pRegion (state_of m c2) = Some r2"
    "r_pState (region_of m r1) = Some s" "r_pState (region_of m r2) = Some s"
  shows "r1 = r2"
proof -
  have le: "s < c1" "s < c2" using hierarchy_rank [OF assms(1)] assms(4-9) by blast+
  consider "c1 = c2" | "below m c2 r1" | "below m c1 r2"
    using below_chain [OF assms(2,3,1)] assms(6,7) by auto
  then show ?thesis
  proof cases
    case 2
    from below_rank [OF this assms(1,8)] le show ?thesis by simp
  next
    case 3
    from below_rank [OF this assms(1,9)] le show ?thesis by simp
  qed (use assms(6,7) in simp)
qed

section \<open>Preservation\<close>

lemma same_structure_below:
  assumes "same_structure m m'"
  shows "below m' s r \<longleftrightarrow> below m s r"
proof -
  have "below m1 s r \<Longrightarrow> below m2 s r" if ss: "same_structure m1 m2" for m1 m2
  proof (induction rule: below.induct)
    case (direct r s)
    then show ?case using same_structure_fields(3) [OF ss] same_structure_region(1) [OF ss] by (auto intro: below.direct)
  next
    case (deeper s r r' c)
    then show ?case using same_structure_fields(1,3) [OF ss] same_structure_region(1) [OF ss] by (auto intro: below.deeper)
  qed
  then show ?thesis using assms same_structure_sym by blast
qed

text \<open>A machine changes only the current states of the regions in a set, to children of theirs.\<close>

definition changes :: "rref set \<Rightarrow> MACHINE \<Rightarrow> MACHINE \<Rightarrow> bool" where
  "changes R m m' \<longleftrightarrow> same_structure m m' \<and> (currents_ok m \<longrightarrow> currents_ok m') \<and> (populated m \<longrightarrow> populated m') \<and>
     (\<forall>r<length (regions m). r \<notin> R \<longrightarrow> m_currentState (region_of m' r) = m_currentState (region_of m r))"

lemma changes_refl [simp]: "changes R m m" by (simp add: changes_def)

lemma changes_trans:
  assumes "changes R m m'" "changes R' m' m''" "R \<subseteq> S" "R' \<subseteq> S"
  shows "changes S m m''"
proof -
  have ss: "same_structure m m'" "same_structure m' m''" using assms(1,2) by (simp_all add: changes_def)
  have "m_currentState (region_of m'' r) = m_currentState (region_of m r)" if "r < length (regions m)" "r \<notin> S" for r
  proof -
    have "r \<notin> R" "r \<notin> R'" using assms(3,4) that(2) by auto
    then show ?thesis using assms(1,2) that(1) same_structure_fields(3) [OF ss(1)] by (simp add: changes_def)
  qed
  then show ?thesis using assms(1,2) same_structure_trans [OF ss] by (simp add: changes_def)
qed

lemma changes_mono: "changes R m m' \<Longrightarrow> R \<subseteq> S \<Longrightarrow> changes S m m'"
  unfolding changes_def by blast

lemma changes_setCurrentState: "r < length (regions m) \<Longrightarrow> changes {r} m (setCurrentState r (Some x) m)"
  using setCurrentState_region [of r m] setCurrentState_ok [of m r x] setCurrentState_populated [of m r x]
  by (auto simp: changes_def)

lemma state_to_enter_child:
  assumes "currents_ok m" "r < length (regions m)" "state_to_enter m r todo h c = (Some x, h')"
  shows "x \<in> set (m_childStates (region_of m r))"
  using assms by (auto simp: state_to_enter_def currents_ok_def split: list.splits if_splits)

definition own_region :: "MACHINE \<Rightarrow> sref \<Rightarrow> rref set" where
  "own_region m s = {r. m_pRegion (state_of m s) = Some r}"

definition regions_below :: "MACHINE \<Rightarrow> sref \<Rightarrow> rref set" where
  "regions_below m s = {r. below m s r}"

lemma regions_below_same: "same_structure m m' \<Longrightarrow> regions_below m' s = regions_below m s"
  by (simp add: regions_below_def same_structure_below)

text \<open>A region with all that is below its children.\<close>

definition regions_under :: "MACHINE \<Rightarrow> rref \<Rightarrow> rref set" where
  "regions_under m r = insert r (\<Union>c\<in>{c. c < length (states m) \<and> m_pRegion (state_of m c) = Some r}. regions_below m c)"

lemma regions_under_same: "same_structure m m' \<Longrightarrow> regions_under m' r = regions_under m r"
  using same_structure_fields(1) [of m m'] by (simp add: regions_under_def regions_below_same)

lemma regions_under_below:
  assumes "hierarchy m" "s < length (states m)" "r \<in> set (m_setOrderedRegions (state_of m s))"
  shows "regions_under m r \<subseteq> regions_below m s"
proof -
  note r = hierarchyD(2) [OF assms]
  have "regions_below m c \<subseteq> regions_below m s" if "c < length (states m)" "m_pRegion (state_of m c) = Some r" for c
    using below_up [OF _ assms(1) that] r by (auto simp: regions_below_def)
  moreover have "r \<in> regions_below m s" using r by (auto simp: regions_below_def intro: below.direct)
  ultimately show ?thesis by (auto simp: regions_under_def)
qed

lemma regions_under_disjoint:
  assumes "hierarchy m" "s < length (states m)" "r1 \<in> set (m_setOrderedRegions (state_of m s))" "r2 \<in> set (m_setOrderedRegions (state_of m s))" "r1 \<noteq> r2"
  shows "regions_under m r1 \<inter> regions_under m r2 = {}"
proof -
  note r = hierarchyD(2) [OF assms(1-3)] hierarchyD(2) [OF assms(1,2,4)]
  have no: "\<not> below m c r'" if "c < length (states m)" "m_pRegion (state_of m c) = Some r''" "r_pState (region_of m r'') = Some s"
    "r_pState (region_of m r') = Some s" for c r' r''
    using below_rank [OF _ assms(1) that(4)] hierarchy_rank [OF assms(1) that(1-3)] by fastforce
  have "r2 \<noteq> r'" if "below m c r'" "c < length (states m)" "m_pRegion (state_of m c) = Some r1" for c r'
    using no [of c r1 r'] r that by blast
  moreover have "r1 \<noteq> r'" if "below m c r'" "c < length (states m)" "m_pRegion (state_of m c) = Some r2" for c r'
    using no [of c r2 r'] r that by blast
  moreover have "False" if "below m c1 r'" "below m c2 r'" "c1 < length (states m)" "c2 < length (states m)"
    "m_pRegion (state_of m c1) = Some r1" "m_pRegion (state_of m c2) = Some r2" for c1 c2 r'
    using siblings_disjoint [OF assms(1) that(1-6)] r assms(5) by blast
  ultimately show ?thesis using assms(5) unfolding regions_under_def regions_below_def by blast
qed

lemma regions_below_child:
  assumes "hierarchy m" "s < length (states m)" "r \<in> set (m_setOrderedRegions (state_of m s))" "x \<in> set (m_childStates (region_of m r))"
  shows "regions_below m x \<subseteq> regions_under m r" "own_region m x \<subseteq> regions_under m r" "r \<in> regions_under m r"
  using child_after_parent [OF assms] by (auto simp: regions_under_def own_region_def)

lemma EvalEntry_changes:
  "EvalEntry ds k s h e p = Returned p' \<Longrightarrow> hierarchy (fst (snd p)) \<Longrightarrow> currents_ok (fst (snd p)) \<Longrightarrow> s < length (states (fst (snd p))) \<Longrightarrow>
     changes (regions_below (fst (snd p)) s \<union> own_region (fst (snd p)) s) (fst (snd p)) (fst (snd p'))"
  "entry_regions ds k rs h c p = Returned p' \<Longrightarrow> hierarchy (fst (snd p)) \<Longrightarrow> currents_ok (fst (snd p)) \<Longrightarrow> s < length (states (fst (snd p))) \<Longrightarrow>
     set rs \<subseteq> set (m_setOrderedRegions (state_of (fst (snd p)) s)) \<Longrightarrow>
     changes (\<Union>r\<in>set rs. regions_under (fst (snd p)) r) (fst (snd p)) (fst (snd p'))"
proof (induction ds k s h e p and ds k rs h c p arbitrary: p' and p' s rule: EvalEntry_entry_regions.induct)
  case (2 ds k s h e todo m d)
  obtain todo1 c where t: "take_off s todo h = (todo1, c)" by fastforce
  define m1 where "m1 = (case m_pRegion (state_of m s) of None \<Rightarrow> m | Some r \<Rightarrow> setCurrentState r (Some s) m)"
  have run: "entry_regions ds k (m_setOrderedRegions (state_of m s)) h c (todo1, m1, if e then performEntry ds m s d else d) = Returned p'"
    using "2.prems"(1) t by (simp add: EvalEntry.simps m1_def Let_def)
  have m1: "changes (own_region m s) m m1"
    using changes_setCurrentState hierarchyD(4) [of m s] "2.prems"(2,4) by (auto simp: m1_def own_region_def split: option.split)
  then have ss: "same_structure m m1" and ok: "currents_ok m1" using "2.prems"(3) by (simp_all add: changes_def)
  have "changes (\<Union>r\<in>set (m_setOrderedRegions (state_of m s)). regions_under m1 r) m1 (fst (snd p'))"
    using "2.IH" [OF refl t [symmetric] refl _ run, of s] same_structure_hierarchy [OF ss] ok "2.prems"(2,4) same_structure_fields(1) [OF ss]
    by (simp add: m1_def)
  then have "changes (regions_below m s) m1 (fst (snd p'))"
    by (rule changes_mono) (use regions_under_below "2.prems"(2,4) in \<open>auto simp: regions_under_same [OF ss]\<close>)
  from changes_trans [OF m1 this] show ?case by simp
next
  case (4 ds k r rs h c todo m d)
  have r: "r < length (regions m)" "r \<in> set (m_setOrderedRegions (state_of m s))"
    using hierarchyD(2) [of m s r] "4.prems" by auto
  show ?case
  proof (cases "state_to_enter m r todo h c")
    case (Pair x h1)
    show ?thesis
    proof (cases x)
      case None
      then show ?thesis using "4.IH"(1) [OF Pair [symmetric] None, of p' s] "4.prems" Pair None by (auto simp: entry_regions.simps intro: changes_mono)
    next
      case (Some y)
      have y: "y \<in> set (m_childStates (region_of m r))" using state_to_enter_child [of m r] "4.prems"(3) r(1) Pair Some by simp
      let ?m = "setCurrentState r (Some y) m"
      note set_r = changes_setCurrentState [OF r(1), of y]
      then have ss: "same_structure m ?m" and ok: "currents_ok ?m" using "4.prems"(3) by (simp_all add: changes_def)
      obtain q where q: "EvalEntry ds k y h1 True (todo, ?m, d) = Returned q" "entry_regions ds k rs h c q = Returned p'"
        using "4.prems"(1) Pair Some by (auto simp: entry_regions.simps bind_outcome_Returned)
      note sub = regions_below_child [OF "4.prems"(2)[simplified] "4.prems"(4)[simplified] r(2) y]
      have y_state: "y < length (states m)" using child_after_parent [OF "4.prems"(2)[simplified] "4.prems"(4)[simplified] r(2) y] by simp
      have enter: "changes (regions_under m r) ?m (fst (snd q))"
        using "4.IH"(2) [OF Pair [symmetric] Some q(1)] same_structure_hierarchy [OF ss] ok "4.prems"(2) y_state sub(1,2)
          same_structure_fields(1) [OF ss] regions_below_same [OF ss]
        by (auto simp: own_region_def intro: changes_mono)
      have first: "changes (regions_under m r) m (fst (snd q))" by (rule changes_trans [OF set_r enter]) (use sub(3) in auto)
      then have ss2: "same_structure m (fst (snd q))" and ok2: "currents_ok (fst (snd q))" using "4.prems"(3) by (simp_all add: changes_def)
      have rest: "changes (\<Union>r\<in>set rs. regions_under m r) (fst (snd q)) (fst (snd p'))"
        using "4.IH"(3) [OF Pair [symmetric] Some q(2)] same_structure_hierarchy [OF ss2] ok2 "4.prems"(2,4,5) same_structure_fields(1) [OF ss2] regions_under_same [OF ss2] by simp
      have "changes (\<Union>r\<in>set (r # rs). regions_under m r) m (fst (snd p'))" by (rule changes_trans [OF first rest]) auto
      then show ?thesis by simp
    qed
  qed
qed (simp_all add: EvalEntry.simps entry_regions.simps)

section \<open>Termination\<close>

lemma fst_snd3 [simp]: "fst (snd (a, b, c)) = b" by simp

lemma EvalEntry_returns:
  "hierarchy (fst (snd p)) \<Longrightarrow> currents_ok (fst (snd p)) \<Longrightarrow> s < length (states (fst (snd p))) \<Longrightarrow> length (states (fst (snd p))) \<le> k + s \<Longrightarrow>
     \<exists>p'. EvalEntry ds k s h e p = Returned p'"
  "hierarchy (fst (snd p)) \<Longrightarrow> currents_ok (fst (snd p)) \<Longrightarrow> s < length (states (fst (snd p))) \<Longrightarrow> length (states (fst (snd p))) \<le> k + Suc s \<Longrightarrow>
     set rs \<subseteq> set (m_setOrderedRegions (state_of (fst (snd p)) s)) \<Longrightarrow> \<exists>p'. entry_regions ds k rs h c p = Returned p'"
proof (induction ds k s h e p and ds k rs h c p arbitrary: and s rule: EvalEntry_entry_regions.induct)
  case (2 ds k s h e todo m d)
  obtain todo1 c where t: "take_off s todo h = (todo1, c)" by fastforce
  define m1 where "m1 = (case m_pRegion (state_of m s) of None \<Rightarrow> m | Some r \<Rightarrow> setCurrentState r (Some s) m)"
  have m1: "changes (own_region m s) m m1"
    using changes_setCurrentState hierarchyD(4) [of m s] "2.prems"(1,3) by (auto simp: m1_def own_region_def split: option.split)
  then have ss: "same_structure m m1" and ok: "currents_ok m1" using "2.prems"(2) by (simp_all add: changes_def)
  have "\<exists>p'. entry_regions ds k (m_setOrderedRegions (state_of m s)) h c (todo1, m1, if e then performEntry ds m s d else d) = Returned p'"
    unfolding m1_def
    by (rule "2.IH" [OF refl t [symmetric] refl refl, of s])
      (use same_structure_hierarchy [OF ss] ok "2.prems" same_structure_fields(1) [OF ss] in \<open>simp_all add: m1_def\<close>)
  then show ?case using t by (simp add: EvalEntry.simps m1_def Let_def)
next
  case (4 ds k r rs h c todo m d)
  note prems = "4.prems" [unfolded fst_snd3]
  have r: "r < length (regions m)" "r \<in> set (m_setOrderedRegions (state_of m s))" "set rs \<subseteq> set (m_setOrderedRegions (state_of m s))"
    using hierarchyD(2) [of m s r] prems by auto
  obtain x h1 where Pair: "state_to_enter m r todo h c = (x, h1)" by fastforce
  show ?case
  proof (cases x)
    case None
    then show ?thesis using "4.IH"(1) [OF Pair [symmetric] None, of s] prems Pair r(3) by (simp add: entry_regions.simps)
  next
    case (Some y)
    have y: "y \<in> set (m_childStates (region_of m r))" using state_to_enter_child [of m r] prems(2) r(1) Pair Some by simp
    let ?m = "setCurrentState r (Some y) m"
    note set_r = changes_setCurrentState [OF r(1), of y]
    then have ss: "same_structure m ?m" and ok: "currents_ok ?m" using prems(2) by (simp_all add: changes_def)
    note child = child_after_parent [OF prems(1,3) r(2) y]
    obtain q where q: "EvalEntry ds k y h1 True (todo, ?m, d) = Returned q"
      using "4.IH"(2) [OF Pair [symmetric] Some] same_structure_hierarchy [OF ss prems(1)] ok prems(4) child same_structure_fields(1) [OF ss] by auto
    have "changes (regions_below ?m y \<union> own_region ?m y) ?m (fst (snd q))"
      using EvalEntry_changes(1) [OF q] same_structure_hierarchy [OF ss prems(1)] ok child same_structure_fields(1) [OF ss] by simp
    then have ss2: "same_structure ?m (fst (snd q))" and ok2: "currents_ok (fst (snd q))" using ok by (simp_all add: changes_def)
    have ss3: "same_structure m (fst (snd q))" by (rule same_structure_trans [OF ss ss2])
    have "\<exists>p'. entry_regions ds k rs h c q = Returned p'"
      by (rule "4.IH"(3) [OF Pair [symmetric] Some, of q s])
        (use same_structure_hierarchy [OF ss3 prems(1)] ok2 prems r(3) same_structure_fields(1) [OF ss3] in auto)
    then show ?thesis using Pair Some q by (simp add: entry_regions.simps)
  qed
qed (simp_all add: EvalEntry.simps entry_regions.simps del: split_paired_Ex)

lemma current_child:
  assumes "currents_ok m" "r < length (regions m)" "m_currentState (region_of m r) = Some c"
  shows "c \<in> set (m_childStates (region_of m r))"
  using assms by (simp add: currents_ok_def)

lemma EvalTimeOut_returns:
  "hierarchy m \<Longrightarrow> currents_ok m \<Longrightarrow> s < length (states m) \<Longrightarrow> length (states m) \<le> k + s \<Longrightarrow> \<exists>p'. EvalTimeOut ds m k s h e p = Returned p'"
  "hierarchy m \<Longrightarrow> currents_ok m \<Longrightarrow> s < length (states m) \<Longrightarrow> length (states m) \<le> k + Suc s \<Longrightarrow>
     set rs \<subseteq> set (m_setOrderedRegions (state_of m s)) \<Longrightarrow> \<exists>p'. timeout_regions ds m k rs h c e p = Returned p'"
proof (induction ds m k s h e p and ds m k rs h c e p arbitrary: and s rule: EvalTimeOut_timeout_regions.induct)
  case (2 ds m k s h e todo d)
  obtain todo1 c where t: "take_off s todo h = (todo1, c)" by fastforce
  then show ?case using "2.IH" [OF refl t [symmetric] refl, of s] "2.prems" by (simp add: EvalTimeOut.simps)
next
  case (4 ds m k r rs h c e todo d)
  have r: "r < length (regions m)" "r \<in> set (m_setOrderedRegions (state_of m s))" "set rs \<subseteq> set (m_setOrderedRegions (state_of m s))"
    using hierarchyD(2) [of m s r] "4.prems" by auto
  obtain x h1 where Pair: "state_to_enter m r todo h c = (x, h1)" by fastforce
  show ?case
  proof (cases x)
    case None
    then show ?thesis using "4.IH"(1) [OF Pair [symmetric] None, of s] "4.prems" Pair r(3) by (simp add: timeout_regions.simps)
  next
    case (Some y)
    have y: "y \<in> set (m_childStates (region_of m r))" using state_to_enter_child [of m r] "4.prems"(2) r(1) Pair Some by simp
    note child = child_after_parent [OF "4.prems"(1,3) r(2) y]
    obtain q where q: "EvalTimeOut ds m k y h1 e (todo, d) = Returned q"
      using "4.IH"(2) [OF Pair [symmetric] Some] "4.prems" child by auto
    moreover have "\<exists>p'. timeout_regions ds m k rs h c e q = Returned p'"
      by (rule "4.IH"(3) [OF Pair [symmetric] Some, of s q]) (use "4.prems" r(3) in auto)
    ultimately show ?thesis using Pair Some by (simp add: timeout_regions.simps)
  qed
qed (simp_all add: EvalTimeOut.simps timeout_regions.simps)

lemma EvalExit_returns:
  "hierarchy m \<Longrightarrow> currents_ok m \<Longrightarrow> s < length (states m) \<Longrightarrow> length (states m) \<le> k + s \<Longrightarrow> \<exists>p'. EvalExit ds m k s e p = Returned p'"
  "hierarchy m \<Longrightarrow> currents_ok m \<Longrightarrow> s < length (states m) \<Longrightarrow> length (states m) \<le> k + Suc s \<Longrightarrow>
     set rs \<subseteq> set (m_setOrderedRegions (state_of m s)) \<Longrightarrow> \<exists>p'. exit_regions ds m k rs p = Returned p'"
proof (induction ds m k s e p and ds m k rs p arbitrary: and s rule: EvalExit_exit_regions.induct)
  case (2 ds m k s e p)
  then obtain q where "exit_regions ds m k (m_setOrderedRegions (state_of m s)) p = Returned q" by fastforce
  then show ?case by (cases q) (simp add: EvalExit.simps)
next
  case (4 ds m k r rs p)
  have r: "r < length (regions m)" "r \<in> set (m_setOrderedRegions (state_of m s))" "set rs \<subseteq> set (m_setOrderedRegions (state_of m s))"
    using hierarchyD(2) [of m s r] "4.prems" by auto
  show ?case
  proof (cases "m_currentState (region_of m r)")
    case None
    then show ?thesis using "4.IH"(1) [OF None, of s] "4.prems" r(3) by (simp add: exit_regions.simps)
  next
    case (Some y)
    note child = child_after_parent [OF "4.prems"(1,3) r(2) current_child [OF "4.prems"(2) r(1) Some]]
    obtain q where q: "EvalExit ds m k y True p = Returned q" using "4.IH"(2) [OF Some] "4.prems" child by auto
    moreover have "\<exists>p'. exit_regions ds m k rs q = Returned p'"
      by (rule "4.IH"(3) [OF Some, of s q]) (use "4.prems" r(3) in auto)
    ultimately show ?thesis using Some by (simp add: exit_regions.simps)
  qed
qed (simp_all add: EvalExit.simps exit_regions.simps)

lemma EvalTransitions_returns:
  "hierarchy m \<Longrightarrow> currents_ok m \<Longrightarrow> s < length (states m) \<Longrightarrow> length (states m) \<le> k + s \<Longrightarrow> \<exists>p'. EvalTransitions ds m k s look p = Returned p'"
  "hierarchy m \<Longrightarrow> currents_ok m \<Longrightarrow> s < length (states m) \<Longrightarrow> length (states m) \<le> k + Suc s \<Longrightarrow>
     set rs \<subseteq> set (m_setOrderedRegions (state_of m s)) \<Longrightarrow> \<exists>p'. eval_regions ds m k rs look p = Returned p'"
proof (induction ds m k s look p and ds m k rs look p arbitrary: and s rule: EvalTransitions_eval_regions.induct)
  case (2 ds m k s look acts dflt d)
  obtain t d1 where f: "first_active ds m (m_setOrderedOutTransitions (state_of m s)) (performDuring ds m s d) = (t, d1)" by fastforce
  show ?case
  proof (cases t)
    case None
    then obtain q where "eval_regions ds m k (m_setOrderedRegions (state_of m s)) look (acts, -1, d1) = Returned q"
      using "2.IH" [OF f [symmetric] None refl, of s] "2.prems" by auto
    then show ?thesis using f None by (cases q) (simp add: EvalTransitions.simps)
  qed (simp add: EvalTransitions.simps f)
next
  case (4 ds m k r rs look p)
  have r: "r < length (regions m)" "r \<in> set (m_setOrderedRegions (state_of m s))" "set rs \<subseteq> set (m_setOrderedRegions (state_of m s))"
    using hierarchyD(2) [of m s r] "4.prems" by auto
  show ?case
  proof (cases "m_currentState (region_of m r)")
    case None
    then show ?thesis using "4.IH"(1) [OF None, of s] "4.prems" r(3) by (simp add: eval_regions.simps)
  next
    case (Some y)
    note child = child_after_parent [OF "4.prems"(1,3) r(2) current_child [OF "4.prems"(2) r(1) Some]]
    have "\<exists>q. EvalTransitions ds m k y look p = Returned q" using "4.IH"(2) [OF Some] "4.prems" child by simp
    then obtain t acts def d where q: "EvalTransitions ds m k y look p = Returned (t, acts, def, d)" by (simp only: split_paired_Ex) (elim exE, blast)
    moreover have "\<exists>p'. eval_regions ds m k rs (look \<and> def = -1) (acts, def, d) = Returned p'"
      by (rule "4.IH"(3) [OF Some]) (use "4.prems" r(3) in auto)
    ultimately show ?thesis using Some by (simp add: eval_regions.simps)
  qed
qed (simp_all add: EvalTransitions.simps eval_regions.simps del: split_paired_Ex)

end
