(* ===== verification/StateMachineRuns.thy ===== *)
theory StateMachineRuns
  imports StateMachineProperties
begin

text \<open>
  The configuration of a machine, the active states from the outside in, and what entry and exit do on it: entry runs the
  entry actions of exactly the states that are active afterwards, exit the exit actions of those that are active; the
  time-outs evaluated before an entry are those of the states entered.
\<close>

section \<open>The configuration\<close>

text \<open>The active states from a state on, an outer state before those in its regions; \<open>k\<close> bounds the depth.\<close>

fun config :: "MACHINE \<Rightarrow> nat \<Rightarrow> sref \<Rightarrow> sref list"
and config_regions :: "MACHINE \<Rightarrow> nat \<Rightarrow> rref list \<Rightarrow> sref list" where
  "config m 0 s = []"
| "config m (Suc k) s = s # config_regions m k (m_setOrderedRegions (state_of m s))"
| "config_regions m k [] = []"
| "config_regions m k (r # rs) =
     (case m_currentState (region_of m r) of None \<Rightarrow> [] | Some c \<Rightarrow> config m k c) @ config_regions m k rs"

text \<open>The same states in the order in which they are left.\<close>

fun exit_order :: "MACHINE \<Rightarrow> nat \<Rightarrow> sref \<Rightarrow> sref list"
and exit_order_regions :: "MACHINE \<Rightarrow> nat \<Rightarrow> rref list \<Rightarrow> sref list" where
  "exit_order m 0 s = []"
| "exit_order m (Suc k) s = exit_order_regions m k (m_setOrderedRegions (state_of m s)) @ [s]"
| "exit_order_regions m k [] = []"
| "exit_order_regions m k (r # rs) =
     (case m_currentState (region_of m r) of None \<Rightarrow> [] | Some c \<Rightarrow> exit_order m k c) @ exit_order_regions m k rs"

lemma exit_order_mset:
  "mset (exit_order m k s) = mset (config m k s)"
  "mset (exit_order_regions m k rs) = mset (config_regions m k rs)"
  by (induction m k s and m k rs rule: config_config_regions.induct) (auto split: option.split)

text \<open>The configuration depends on the regions below only.\<close>

lemma config_cong:
  "same_structure m m' \<Longrightarrow> hierarchy m \<Longrightarrow> currents_ok m \<Longrightarrow> s < length (states m) \<Longrightarrow>
     (\<And>r. r \<in> regions_below m s \<Longrightarrow> m_currentState (region_of m' r) = m_currentState (region_of m r)) \<Longrightarrow> config m' k s = config m k s"
  "same_structure m m' \<Longrightarrow> hierarchy m \<Longrightarrow> currents_ok m \<Longrightarrow> s < length (states m) \<Longrightarrow> set rs \<subseteq> set (m_setOrderedRegions (state_of m s)) \<Longrightarrow>
     (\<And>r r'. r' \<in> set rs \<Longrightarrow> r \<in> regions_under m r' \<Longrightarrow> m_currentState (region_of m' r) = m_currentState (region_of m r)) \<Longrightarrow>
     config_regions m' k rs = config_regions m k rs"
proof (induction m k s and m k rs arbitrary: and s rule: config_config_regions.induct)
  case (2 m k s)
  have "m_currentState (region_of m' r) = m_currentState (region_of m r)"
    if "r' \<in> set (m_setOrderedRegions (state_of m s))" "r \<in> regions_under m r'" for r r'
    using "2.prems"(5) regions_under_below [OF "2.prems"(2,4) that(1)] that(2) by blast
  then show ?case using "2.IH" [OF "2.prems"(1-4)] "2.prems" same_structure_fields(1) [OF "2.prems"(1)] by simp
next
  case (4 m k r rs)
  have r: "r < length (regions m)" "r \<in> set (m_setOrderedRegions (state_of m s))" using hierarchyD(2) [OF "4.prems"(2,4), of r] "4.prems"(5) by simp_all
  have cur: "m_currentState (region_of m' r) = m_currentState (region_of m r)" using "4.prems"(6) [of r r] by (simp add: regions_under_def)
  have rest: "config_regions m' k rs = config_regions m k rs"
    using "4.IH"(2) [OF "4.prems"(1-4)] "4.prems"(5,6) by (meson list.set_intros(2) set_subset_Cons subset_trans)
  show ?case
  proof (cases "m_currentState (region_of m r)")
    case (Some c)
    have c: "c \<in> set (m_childStates (region_of m r))" by (rule current_child [OF "4.prems"(3) r(1) Some])
    note child = child_after_parent [OF "4.prems"(2,4) r(2) c]
    have "config m' k c = config m k c"
      using "4.IH"(1) [OF Some "4.prems"(1-3) child(2)] "4.prems"(6) [of r] regions_below_child(1) [OF "4.prems"(2,4) r(2) c] by auto
    then show ?thesis using cur rest Some by simp
  qed (use cur rest in simp)
qed simp_all

section \<open>Exit\<close>

lemma EvalExit_order:
  "EvalExit ds m k s e (ids, d) = Returned (ids', d') \<Longrightarrow>
     d' = fold (performExit ds m) (if e then exit_order m k s else butlast (exit_order m k s)) d"
  "exit_regions ds m k rs (ids, d) = Returned (ids', d') \<Longrightarrow> d' = fold (performExit ds m) (exit_order_regions m k rs) d"
proof (induction m k s and m k rs arbitrary: e ids d ids' d' and ids d ids' d' rule: exit_order_exit_order_regions.induct)
  case (2 m k s)
  then show ?case by (auto simp: EvalExit.simps bind_outcome_Returned split: if_splits)
next
  case (4 m k r rs)
  show ?case
  proof (cases "m_currentState (region_of m r)")
    case None
    then show ?thesis using "4.IH"(2) "4.prems" by (simp add: exit_regions.simps)
  next
    case (Some c)
    then obtain ids1 d1 where "EvalExit ds m k c True (ids, d) = Returned (ids1, d1)" "exit_regions ds m k rs (ids1, d1) = Returned (ids', d')"
      using "4.prems" by (auto simp: exit_regions.simps bind_outcome_Returned)
    then show ?thesis using "4.IH"(1) [OF Some, of True ids d ids1 d1] "4.IH"(2) [of ids1 d1 ids' d'] Some by simp
  qed
qed (simp_all add: EvalExit.simps exit_regions.simps)

section \<open>Entry\<close>

lemma performEntry_same: "same_structure m m' \<Longrightarrow> performEntry ds m' = performEntry ds m"
  by (frule same_structure_fields(1), drule same_structure_fields(2)) (simp add: performEntry_def EvalTransitionsForTimeOut_def performDuring_def checkGuard_def fun_eq_iff cong: if_cong)

lemma populated_enters:
  assumes "populated m" "r < length (regions m)"
  obtains y h' where "state_to_enter m r todo h c = (Some y, h')"
  using assms by (cases "state_to_enter m r todo h c") (auto simp: state_to_enter_def populated_def split: list.splits if_splits)

lemma EvalEntry_step:
  assumes "EvalEntry ds k s h e (todo, m, d) = Returned p'" "hierarchy m" "s < length (states m)"
  obtains k' todo1 c m1 where "k = Suc k'" "take_off s todo h = (todo1, c)"
    "m1 = (case m_pRegion (state_of m s) of None \<Rightarrow> m | Some r \<Rightarrow> setCurrentState r (Some s) m)" "changes (own_region m s) m m1"
    "entry_regions ds k' (m_setOrderedRegions (state_of m s)) h c (todo1, m1, if e then performEntry ds m s d else d) = Returned p'"
proof -
  obtain k' where k: "k = Suc k'" using assms(1) by (cases k) (simp_all add: EvalEntry.simps)
  obtain todo1 c where t: "take_off s todo h = (todo1, c)" by fastforce
  define m1 where "m1 = (case m_pRegion (state_of m s) of None \<Rightarrow> m | Some r \<Rightarrow> setCurrentState r (Some s) m)"
  have "changes (own_region m s) m m1"
    using changes_setCurrentState hierarchyD(4) [of m s] assms(2,3) by (auto simp: m1_def own_region_def split: option.split)
  then show ?thesis using that [OF k t m1_def] assms(1) t by (simp add: EvalEntry.simps k m1_def Let_def)
qed

lemma own_region_not_below:
  assumes "hierarchy m" "s < length (states m)"
  shows "own_region m s \<inter> regions_below m s = {}"
proof -
  have False if own: "m_pRegion (state_of m s) = Some r" "below m s r" for r
  proof -
    obtain p where "r_pState (region_of m r) = Some p" "p < s" using hierarchyD(4) [OF assms own(1)] by blast
    then show False using below_rank [OF own(2) assms(1)] by fastforce
  qed
  then show ?thesis by (auto simp: own_region_def regions_below_def)
qed

lemma EvalEntry_current:
  assumes "EvalEntry ds k s h e (todo, m, d) = Returned (todo', m', d')" "hierarchy m" "currents_ok m" "s < length (states m)"
    "m_pRegion (state_of m s) = Some r" "s \<in> set (m_childStates (region_of m r))"
  shows "m_currentState (region_of m' r) = Some s"
proof -
  obtain k' todo1 c m1 where step: "m1 = setCurrentState r (Some s) m" "changes (own_region m s) m m1"
    "entry_regions ds k' (m_setOrderedRegions (state_of m s)) h c (todo1, m1, if e then performEntry ds m s d else d) = Returned (todo', m', d')"
    by (rule EvalEntry_step [OF assms(1,2,4)]) (use assms(5) in simp)
  have r: "r < length (regions m)" using hierarchyD(4) [OF assms(2,4,5)] by simp
  have cur: "m_currentState (region_of m1 r) = Some s" using setCurrentState_region(2) [OF r r] assms(6) by (simp add: step(1))
  have ss: "same_structure m m1" and ok: "currents_ok m1" using step(2) assms(3) by (simp_all add: changes_def)
  have "changes (\<Union>r\<in>set (m_setOrderedRegions (state_of m s)). regions_under m r) m1 m'"
    using EvalEntry_changes(2) [OF step(3), of s] same_structure_hierarchy [OF ss assms(2)] ok assms(4) same_structure_fields(1) [OF ss]
      regions_under_same [OF ss] by simp
  moreover have "r \<notin> (\<Union>r\<in>set (m_setOrderedRegions (state_of m s)). regions_under m r)"
    using own_region_not_below [OF assms(2,4)] regions_under_below [OF assms(2,4)] assms(5) by (auto simp: own_region_def)
  ultimately show ?thesis using cur r same_structure_fields(3) [OF ss] by (simp add: changes_def)
qed

text \<open>After the entry of a region its current state is the one entered, with the configuration its entry left.\<close>

lemma entry_regions_step:
  assumes "entry_regions ds k (r # rs) h c (todo, m, d) = Returned p'" "hierarchy m" "currents_ok m" "populated m" "s < length (states m)"
    "set (r # rs) \<subseteq> set (m_setOrderedRegions (state_of m s))" "distinct (r # rs)"
  obtains y h1 todo2 m2 d2 where "state_to_enter m r todo h c = (Some y, h1)"
    "EvalEntry ds k y h1 True (todo, setCurrentState r (Some y) m, d) = Returned (todo2, m2, d2)"
    "entry_regions ds k rs h c (todo2, m2, d2) = Returned p'"
    "y \<in> set (m_childStates (region_of m r))" "changes {r} m (setCurrentState r (Some y) m)" "changes (regions_under m r) m m2"
    "config_regions (fst (snd p')) k [r] = config m2 k y" "m_currentState (region_of (fst (snd p')) r) = Some y"
proof -
  have r: "r < length (regions m)" "r \<in> set (m_setOrderedRegions (state_of m s))" "set rs \<subseteq> set (m_setOrderedRegions (state_of m s))"
    using hierarchyD(2) [OF assms(2,5), of r] assms(6) by simp_all
  obtain y h1 where y: "state_to_enter m r todo h c = (Some y, h1)" using populated_enters [OF assms(4) r(1)] by blast
  note yc = state_to_enter_child [OF assms(3) r(1) y]
  note child = child_after_parent [OF assms(2,5) r(2) yc]
  let ?m = "setCurrentState r (Some y) m"
  note set_r = changes_setCurrentState [OF r(1), of y]
  then have ss: "same_structure m ?m" and ok: "currents_ok ?m" using assms(3) by (simp_all add: changes_def)
  obtain todo2 m2 d2 where run: "EvalEntry ds k y h1 True (todo, ?m, d) = Returned (todo2, m2, d2)"
    "entry_regions ds k rs h c (todo2, m2, d2) = Returned p'"
    using assms(1) y by (auto simp: entry_regions.simps bind_outcome_Returned)
  note in_m = same_structure_hierarchy [OF ss assms(2)] ok
  have "changes (regions_below ?m y \<union> own_region ?m y) ?m m2"
    using EvalEntry_changes(1) [OF run(1)] in_m child same_structure_fields(1) [OF ss] by simp
  moreover have "regions_below ?m y \<union> own_region ?m y \<subseteq> regions_under m r"
    using regions_below_child [OF assms(2,5) r(2) yc] same_structure_fields(1) [OF ss] regions_below_same [OF ss]
    by (auto simp: own_region_def)
  ultimately have enter: "changes (regions_under m r) m m2"
    by (intro changes_trans [OF set_r]) (auto simp: regions_under_def)
  then have ss2: "same_structure m m2" and ok2: "currents_ok m2" using assms(3) by (simp_all add: changes_def)
  note in_m2 = same_structure_hierarchy [OF ss2 assms(2)] ok2
  have rest: "changes (\<Union>r'\<in>set rs. regions_under m r') m2 (fst (snd p'))"
    using EvalEntry_changes(2) [OF run(2), of s] in_m2 assms(5) r(3) same_structure_fields(1) [OF ss2] regions_under_same [OF ss2] by simp
  then have ss3: "same_structure m2 (fst (snd p'))" by (simp add: changes_def)
  have keep: "m_currentState (region_of (fst (snd p')) r') = m_currentState (region_of m2 r')" if "r' \<in> regions_under m r" "r' < length (regions m)" for r'
  proof -
    have "r' \<notin> (\<Union>r'\<in>set rs. regions_under m r')"
      using regions_under_disjoint [OF assms(2,5) r(2)] assms(7) r(3) that(1) by auto
    then show ?thesis using rest that(2) same_structure_fields(3) [OF ss2] by (simp add: changes_def)
  qed
  have below_len: "r' < length (regions m)" if "r' \<in> regions_below m y" for r'
    using that unfolding regions_below_def by (auto elim: below.cases)
  have cur: "m_currentState (region_of m2 r) = Some y"
    using EvalEntry_current [OF run(1) in_m _ _ yc [folded same_structure_region(2) [OF ss r(1)]]] child same_structure_fields(1) [OF ss] by simp
  have "config (fst (snd p')) k y = config m2 k y"
    by (rule config_cong(1) [OF ss3 in_m2])
      (use child same_structure_fields(1) [OF ss2] keep below_len regions_below_child(1) [OF assms(2,5) r(2) yc] regions_below_same [OF ss2] in auto)
  moreover have "r \<in> regions_under m r" by (simp add: regions_under_def)
  ultimately show ?thesis using that [OF y run yc set_r enter] keep [of r] r(1) cur by simp
qed
lemma config_regions_Cons: "config_regions m k (r # rs) = config_regions m k [r] @ config_regions m k rs"
  by (simp split: option.split)

text \<open>The entry actions run are those of the states that are active afterwards, the outer ones first.\<close>

lemma entry_regions_config:
  assumes IH: "\<And>s h todo m d p'. EvalEntry ds k s h True (todo, m, d) = Returned p' \<Longrightarrow> hierarchy m \<Longrightarrow> currents_ok m \<Longrightarrow> populated m \<Longrightarrow>
      s < length (states m) \<Longrightarrow> snd (snd p') = fold (performEntry ds m) (config (fst (snd p')) k s) d"
  shows "entry_regions ds k rs h c (todo, m, d) = Returned p' \<Longrightarrow> hierarchy m \<Longrightarrow> currents_ok m \<Longrightarrow> populated m \<Longrightarrow> s < length (states m) \<Longrightarrow>
     set rs \<subseteq> set (m_setOrderedRegions (state_of m s)) \<Longrightarrow> distinct rs \<Longrightarrow>
     snd (snd p') = fold (performEntry ds m) (config_regions (fst (snd p')) k rs) d"
proof (induction rs arbitrary: todo m d)
  case (Cons r rs)
  obtain y h1 todo2 m2 d2 where step: "EvalEntry ds k y h1 True (todo, setCurrentState r (Some y) m, d) = Returned (todo2, m2, d2)"
    "entry_regions ds k rs h c (todo2, m2, d2) = Returned p'" "y \<in> set (m_childStates (region_of m r))"
    "changes {r} m (setCurrentState r (Some y) m)" "changes (regions_under m r) m m2"
    "config_regions (fst (snd p')) k [r] = config m2 k y"
    by (rule entry_regions_step [OF Cons.prems]) simp
  have r: "r \<in> set (m_setOrderedRegions (state_of m s))" "set rs \<subseteq> set (m_setOrderedRegions (state_of m s))" "distinct rs"
    using Cons.prems(6,7) by simp_all
  note child = child_after_parent [OF Cons.prems(2,5) r(1) step(3)]
  have one: "same_structure m (setCurrentState r (Some y) m)" "currents_ok (setCurrentState r (Some y) m)" "populated (setCurrentState r (Some y) m)"
    and two: "same_structure m m2" "currents_ok m2" "populated m2"
    using step(4,5) Cons.prems(3,4) by (simp_all add: changes_def)
  have "d2 = fold (performEntry ds m) (config m2 k y) d"
    using IH [OF step(1) same_structure_hierarchy [OF one(1) Cons.prems(2)] one(2,3)] child same_structure_fields(1) [OF one(1)]
    by (simp add: performEntry_same [OF one(1)])
  moreover have "snd (snd p') = fold (performEntry ds m) (config_regions (fst (snd p')) k rs) d2"
    using Cons.IH [OF step(2) same_structure_hierarchy [OF two(1) Cons.prems(2)] two(2,3)] r(2,3) Cons.prems(5)
      same_structure_fields(1) [OF two(1)] by (simp add: performEntry_same [OF two(1)])
  ultimately show ?case unfolding config_regions_Cons [of _ _ r rs] step(6) by simp
qed (auto simp: entry_regions.simps)

lemma EvalEntry_config:
  "EvalEntry ds k s h e (todo, m, d) = Returned p' \<Longrightarrow> hierarchy m \<Longrightarrow> currents_ok m \<Longrightarrow> populated m \<Longrightarrow> s < length (states m) \<Longrightarrow>
     snd (snd p') = fold (performEntry ds m) (if e then config (fst (snd p')) k s else tl (config (fst (snd p')) k s)) d"
proof (induction k arbitrary: s h e todo m d p')
  case (Suc k)
  obtain todo1 c m1 where step: "changes (own_region m s) m m1"
    "entry_regions ds k (m_setOrderedRegions (state_of m s)) h c (todo1, m1, if e then performEntry ds m s d else d) = Returned p'"
    by (rule EvalEntry_step [OF Suc.prems(1,2,5)]) simp
  have ss: "same_structure m m1" and ok: "currents_ok m1" "populated m1" using step(1) Suc.prems(3,4) by (simp_all add: changes_def)
  note same = same_structure_fields(1) [OF ss]
  have "changes (\<Union>r\<in>set (m_setOrderedRegions (state_of m s)). regions_under m1 r) m1 (fst (snd p'))"
    using EvalEntry_changes(2) [OF step(2), of s] same_structure_hierarchy [OF ss Suc.prems(2)] ok Suc.prems(5) same by simp
  then have "states (fst (snd p')) = states m" using same_structure_fields(1) same by (auto simp: changes_def)
  moreover have "snd (snd p') = fold (performEntry ds m1) (config_regions (fst (snd p')) k (m_setOrderedRegions (state_of m s)))
      (if e then performEntry ds m s d else d)"
    by (rule entry_regions_config [OF _ step(2) same_structure_hierarchy [OF ss Suc.prems(2)] ok, of s])
      (use Suc.IH Suc.prems(5) same hierarchyD(1) [OF Suc.prems(2,5)] in auto)
  ultimately show ?case by (simp add: performEntry_same [OF ss])
qed (simp add: EvalEntry.simps)

section \<open>The way to the target\<close>

text \<open>A way down: each state is a child of a region of the one before.\<close>

fun chain :: "MACHINE \<Rightarrow> sref \<Rightarrow> sref list \<Rightarrow> bool" where
  "chain m x [] \<longleftrightarrow> True"
| "chain m x (y # ys) \<longleftrightarrow> (\<exists>r\<in>set (m_setOrderedRegions (state_of m x)). y \<in> set (m_childStates (region_of m r))) \<and> chain m y ys"

lemma chain_same:
  assumes "same_structure m m'" "hierarchy m" "x < length (states m)"
  shows "chain m' x ys \<longleftrightarrow> chain m x ys"
  using assms(3)
proof (induction ys arbitrary: x)
  case (Cons y ys)
  have "y \<in> set (m_childStates (region_of m' r)) \<longleftrightarrow> y \<in> set (m_childStates (region_of m r))"
    if "r \<in> set (m_setOrderedRegions (state_of m x))" for r
    using same_structure_region(2) [OF assms(1)] hierarchyD(2) [OF assms(2) Cons.prems that] by simp
  moreover have "y < length (states m)" if "r \<in> set (m_setOrderedRegions (state_of m x))" "y \<in> set (m_childStates (region_of m r))" for r
    by (rule child_after_parent(2) [OF assms(2) Cons.prems that])
  ultimately show ?case using Cons.IH same_structure_fields(1) [OF assms(1)] by auto
qed simp

text \<open>A path that leads elsewhere is passed on as it is.\<close>

definition elsewhere :: "MACHINE \<Rightarrow> rref set \<Rightarrow> sref list \<Rightarrow> bool" where
  "elsewhere m R todo \<longleftrightarrow> todo = [] \<or> (\<forall>r. m_pRegion (state_of m (hd todo)) = Some r \<longrightarrow> r \<notin> R)"

lemma entry_regions_skip:
  assumes IH: "\<And>s h todo m d p'. EvalEntry ds k s h True (todo, m, d) = Returned p' \<Longrightarrow> hierarchy m \<Longrightarrow> currents_ok m \<Longrightarrow> populated m \<Longrightarrow>
      s < length (states m) \<Longrightarrow> elsewhere m (regions_below m s) todo \<Longrightarrow> todo = [] \<or> hd todo \<noteq> s \<Longrightarrow> fst p' = todo"
  shows "entry_regions ds k rs h c (todo, m, d) = Returned p' \<Longrightarrow> hierarchy m \<Longrightarrow> currents_ok m \<Longrightarrow> populated m \<Longrightarrow> s < length (states m) \<Longrightarrow>
     set rs \<subseteq> set (m_setOrderedRegions (state_of m s)) \<Longrightarrow> distinct rs \<Longrightarrow> elsewhere m (\<Union>r\<in>set rs. regions_under m r) todo \<Longrightarrow> fst p' = todo"
proof (induction rs arbitrary: m d)
  case (Cons r rs)
  obtain y h1 todo2 m2 d2 where step: "EvalEntry ds k y h1 True (todo, setCurrentState r (Some y) m, d) = Returned (todo2, m2, d2)"
    "entry_regions ds k rs h c (todo2, m2, d2) = Returned p'" "y \<in> set (m_childStates (region_of m r))"
    "changes {r} m (setCurrentState r (Some y) m)" "changes (regions_under m r) m m2"
    by (rule entry_regions_step [OF Cons.prems(1-7)]) simp
  have r: "r \<in> set (m_setOrderedRegions (state_of m s))" "set rs \<subseteq> set (m_setOrderedRegions (state_of m s))" "distinct rs"
    using Cons.prems(6,7) by simp_all
  note child = child_after_parent [OF Cons.prems(2,5) r(1) step(3)]
  have one: "same_structure m (setCurrentState r (Some y) m)" "currents_ok (setCurrentState r (Some y) m)" "populated (setCurrentState r (Some y) m)"
    and two: "same_structure m m2" "currents_ok m2" "populated m2"
    using step(4,5) Cons.prems(3,4) by (simp_all add: changes_def)
  have away: "elsewhere m (regions_below m y) todo" "todo = [] \<or> hd todo \<noteq> y" "elsewhere m (\<Union>r\<in>set rs. regions_under m r) todo"
    using Cons.prems(8) regions_below_child [OF Cons.prems(2,5) r(1) step(3)] child(3) by (auto simp: elsewhere_def)
  have "todo2 = todo"
    using IH [OF step(1) same_structure_hierarchy [OF one(1) Cons.prems(2)] one(2,3)] child away
      same_structure_fields(1) [OF one(1)] regions_below_same [OF one(1)] by (simp add: elsewhere_def)
  moreover have "fst p' = todo2"
    using Cons.IH [OF _ same_structure_hierarchy [OF two(1) Cons.prems(2)] two(2,3)] step(2) r(2,3) Cons.prems(5) away(3)
      same_structure_fields(1) [OF two(1)] regions_under_same [OF two(1)] calculation by (simp add: elsewhere_def)
  ultimately show ?case by simp
qed (auto simp: entry_regions.simps)

lemma EvalEntry_skip:
  "EvalEntry ds k s h e (todo, m, d) = Returned p' \<Longrightarrow> hierarchy m \<Longrightarrow> currents_ok m \<Longrightarrow> populated m \<Longrightarrow> s < length (states m) \<Longrightarrow>
     elsewhere m (regions_below m s) todo \<Longrightarrow> todo = [] \<or> hd todo \<noteq> s \<Longrightarrow> fst p' = todo"
proof (induction k arbitrary: s h e todo m d p')
  case (Suc k)
  obtain todo1 c m1 where step: "take_off s todo h = (todo1, c)" "changes (own_region m s) m m1"
    "entry_regions ds k (m_setOrderedRegions (state_of m s)) h c (todo1, m1, if e then performEntry ds m s d else d) = Returned p'"
    by (rule EvalEntry_step [OF Suc.prems(1,2,5)]) simp
  have todo1: "todo1 = todo" using step(1) Suc.prems(7) by (auto simp: take_off_def split: list.splits)
  have ss: "same_structure m m1" and ok: "currents_ok m1" "populated m1" using step(2) Suc.prems(3,4) by (simp_all add: changes_def)
  have "elsewhere m (\<Union>r\<in>set (m_setOrderedRegions (state_of m s)). regions_under m r) todo"
    using Suc.prems(6) regions_under_below [OF Suc.prems(2,5)] by (auto simp: elsewhere_def)
  then have "fst p' = todo1"
    by (intro entry_regions_skip [OF _ step(3) same_structure_hierarchy [OF ss Suc.prems(2)] ok, of s])
      (use Suc.IH Suc.prems(5) same_structure_fields(1) [OF ss] hierarchyD(1) [OF Suc.prems(2,5)] regions_under_same [OF ss] todo1
        in \<open>auto simp: elsewhere_def\<close>)
  then show ?case by (simp add: todo1)
qed (simp add: EvalEntry.simps)

lemma entry_regions_skips:
  assumes "entry_regions ds k rs h c (todo, m, d) = Returned p'" "hierarchy m" "currents_ok m" "populated m" "s < length (states m)"
    "set rs \<subseteq> set (m_setOrderedRegions (state_of m s))" "distinct rs" "elsewhere m (\<Union>r\<in>set rs. regions_under m r) todo"
  shows "fst p' = todo"
  by (rule entry_regions_skip [OF _ assms]) (rule EvalEntry_skip)

text \<open>A path that leads down from the state is used up, and all its states are active then.\<close>

lemma entry_regions_target:
  assumes IH: "\<And>s h ys m d p'. EvalEntry ds k s h True (s # ys, m, d) = Returned p' \<Longrightarrow> hierarchy m \<Longrightarrow> currents_ok m \<Longrightarrow> populated m \<Longrightarrow>
      s < length (states m) \<Longrightarrow> chain m s ys \<Longrightarrow> fst p' = [] \<and> set (s # ys) \<subseteq> set (config (fst (snd p')) k s)"
  shows "entry_regions ds k rs h c (y # ys, m, d) = Returned p' \<Longrightarrow> hierarchy m \<Longrightarrow> currents_ok m \<Longrightarrow> populated m \<Longrightarrow> s < length (states m) \<Longrightarrow>
     set rs \<subseteq> set (m_setOrderedRegions (state_of m s)) \<Longrightarrow> distinct rs \<Longrightarrow> r0 \<in> set rs \<Longrightarrow> y \<in> set (m_childStates (region_of m r0)) \<Longrightarrow>
     chain m y ys \<Longrightarrow> fst p' = [] \<and> set (y # ys) \<subseteq> set (config_regions (fst (snd p')) k rs)"
proof (induction rs arbitrary: m d)
  case (Cons r rs)
  obtain x h1 todo2 m2 d2 where step: "state_to_enter m r (y # ys) h c = (Some x, h1)"
    "EvalEntry ds k x h1 True (y # ys, setCurrentState r (Some x) m, d) = Returned (todo2, m2, d2)"
    "entry_regions ds k rs h c (todo2, m2, d2) = Returned p'" "x \<in> set (m_childStates (region_of m r))"
    "changes {r} m (setCurrentState r (Some x) m)" "changes (regions_under m r) m m2"
    "config_regions (fst (snd p')) k [r] = config m2 k x"
    by (rule entry_regions_step [OF Cons.prems(1-7)]) simp
  have r: "r \<in> set (m_setOrderedRegions (state_of m s))" "set rs \<subseteq> set (m_setOrderedRegions (state_of m s))" "distinct rs" "r \<notin> set rs"
    using Cons.prems(6,7) by simp_all
  have r0: "r0 \<in> set (m_setOrderedRegions (state_of m s))" using Cons.prems(6,8) by auto
  note child = child_after_parent [OF Cons.prems(2,5) r(1) step(4)] and y = child_after_parent [OF Cons.prems(2,5) r0 Cons.prems(9)]
  have one: "same_structure m (setCurrentState r (Some x) m)" "currents_ok (setCurrentState r (Some x) m)" "populated (setCurrentState r (Some x) m)"
    and two: "same_structure m m2" "currents_ok m2" "populated m2"
    using step(5,6) Cons.prems(3,4) by (simp_all add: changes_def)
  note in1 = same_structure_hierarchy [OF one(1) Cons.prems(2)] one(2,3) and in2 = same_structure_hierarchy [OF two(1) Cons.prems(2)] two(2,3)
  note same1 = same_structure_fields(1) [OF one(1)] and same2 = same_structure_fields(1) [OF two(1)]
  show ?case
  proof (cases "r = r0")
    case True
    then have x: "x = y" using step(1) Cons.prems(9) by (simp add: state_to_enter_def)
    have "chain (setCurrentState r (Some x) m) y ys" using chain_same [OF one(1) Cons.prems(2) y(2)] Cons.prems(10) by simp
    then have sub: "todo2 = []" "set (y # ys) \<subseteq> set (config m2 k y)" using IH [OF step(2) [unfolded x] in1 [unfolded x]] y(2) same1 x by simp_all
    have "fst p' = []"
      by (rule entry_regions_skips [OF step(3) [unfolded sub(1)] in2, of s])
        (use Cons.prems(5) r(2,3) same2 in \<open>auto simp: elsewhere_def\<close>)
    then show ?thesis using sub(2) step(7) x unfolding config_regions_Cons [of _ _ r rs] by auto
  next
    case False
    then have r0': "r0 \<in> set rs" using Cons.prems(8) by simp
    have "regions_under m r \<inter> regions_under m r0 = {}" by (rule regions_under_disjoint [OF Cons.prems(2,5) r(1) r0 False])
    then have "r0 \<notin> regions_under m r" by (auto simp: regions_under_def)
    then have "elsewhere m (regions_below m x) (y # ys)" "y \<noteq> x"
      using y(3) child(3) False regions_below_child(1) [OF Cons.prems(2,5) r(1) step(4)] by (auto simp: elsewhere_def)
    then have "todo2 = y # ys"
      using EvalEntry_skip [OF step(2) in1] child same1 regions_below_same [OF one(1)] by (simp add: elsewhere_def)
    then have "fst p' = [] \<and> set (y # ys) \<subseteq> set (config_regions (fst (snd p')) k rs)"
      using Cons.IH [OF _ in2] step(3) same2 Cons.prems(5) r(2,3) r0' Cons.prems(9,10) chain_same [OF two(1) Cons.prems(2) y(2)]
        same_structure_region(2) [OF two(1), of r0] hierarchyD(2) [OF Cons.prems(2,5) r0] by simp
    then show ?thesis unfolding config_regions_Cons [of _ _ r rs] by auto
  qed
qed simp

lemma EvalEntry_target:
  "EvalEntry ds k s h e (s # ys, m, d) = Returned p' \<Longrightarrow> hierarchy m \<Longrightarrow> currents_ok m \<Longrightarrow> populated m \<Longrightarrow> s < length (states m) \<Longrightarrow>
     chain m s ys \<Longrightarrow> fst p' = [] \<and> set (s # ys) \<subseteq> set (config (fst (snd p')) k s)"
proof (induction k arbitrary: s h e ys m d p')
  case (Suc k)
  obtain todo1 c m1 where step: "take_off s (s # ys) h = (todo1, c)" "changes (own_region m s) m m1"
    "entry_regions ds k (m_setOrderedRegions (state_of m s)) h c (todo1, m1, if e then performEntry ds m s d else d) = Returned p'"
    by (rule EvalEntry_step [OF Suc.prems(1,2,5)]) simp
  have todo1: "todo1 = ys" using step(1) by (simp add: take_off_def)
  have ss: "same_structure m m1" and ok: "currents_ok m1" "populated m1" using step(2) Suc.prems(3,4) by (simp_all add: changes_def)
  note in1 = same_structure_hierarchy [OF ss Suc.prems(2)] ok and same = same_structure_fields(1) [OF ss]
  have "changes (\<Union>r\<in>set (m_setOrderedRegions (state_of m s)). regions_under m1 r) m1 (fst (snd p'))"
    using EvalEntry_changes(2) [OF step(3), of s] in1 Suc.prems(5) same by simp
  then have st: "states (fst (snd p')) = states m" using same_structure_fields(1) same by (auto simp: changes_def)
  show ?case
  proof (cases ys)
    case Nil
    have "fst p' = todo1"
      by (rule entry_regions_skips [OF step(3) in1, of s])
        (use Suc.prems(5) same hierarchyD(1) [OF Suc.prems(2,5)] todo1 Nil in \<open>auto simp: elsewhere_def\<close>)
    then show ?thesis using Nil todo1 by simp
  next
    case (Cons y zs)
    then obtain r where r: "r \<in> set (m_setOrderedRegions (state_of m s))" "y \<in> set (m_childStates (region_of m r))" "chain m y zs"
      using Suc.prems(6) by auto
    note y = child_after_parent [OF Suc.prems(2,5) r(1,2)]
    have y1: "y \<in> set (m_childStates (region_of m1 r))"
      using r(2) same_structure_region(2) [OF ss] hierarchyD(2) [OF Suc.prems(2,5) r(1)] by simp
    have c1: "chain m1 y zs" using chain_same [OF ss Suc.prems(2) y(2)] r(3) by simp
    have "fst p' = [] \<and> set (y # zs) \<subseteq> set (config_regions (fst (snd p')) k (m_setOrderedRegions (state_of m s)))"
      by (rule entry_regions_target [OF _ step(3) [unfolded todo1 Cons] in1 _ _ _ r(1) y1 c1, of s], rule Suc.IH, assumption+)
        (use Suc.prems(5) same hierarchyD(1) [OF Suc.prems(2,5)] in simp_all)
    then show ?thesis using Cons st by auto
  qed
qed (simp add: EvalEntry.simps)

section \<open>Time-outs\<close>

text \<open>The states that EvalTimeOut visits are those that EvalEntry enters, in the same order.\<close>

definition agree :: "rref set \<Rightarrow> MACHINE \<Rightarrow> MACHINE \<Rightarrow> bool" where
  "agree R m m' \<longleftrightarrow> same_structure m m' \<and> (\<forall>r\<in>R. m_currentState (region_of m' r) = m_currentState (region_of m r))"

lemma state_to_enter_agree:
  assumes "agree R m m'" "r \<in> R" "r < length (regions m)"
  shows "state_to_enter m' r todo h c = state_to_enter m r todo h c"
  using assms same_structure_region [of m m' r] by (simp add: agree_def state_to_enter_def split: list.split)

lemma agree_changes:
  assumes "agree R m m1" "changes S m1 m2" "R' \<subseteq> R" "R' \<inter> S = {}" "\<forall>r\<in>R'. r < length (regions m)"
  shows "agree R' m m2"
proof -
  have ss: "same_structure m m1" "same_structure m1 m2" using assms(1,2) by (simp_all add: agree_def changes_def)
  have "m_currentState (region_of m2 r) = m_currentState (region_of m r)" if "r \<in> R'" for r
  proof -
    have "r \<in> R" "r \<notin> S" using that assms(3,4) by auto
    then show ?thesis using assms(1,2,5) that same_structure_fields(3) [OF ss(1)] by (simp add: agree_def changes_def)
  qed
  then show ?thesis using same_structure_trans [OF ss] by (simp add: agree_def)
qed

lemma regions_below_bound: "r \<in> regions_below m s \<Longrightarrow> r < length (regions m)"
  unfolding regions_below_def by (auto elim: below.cases)

lemma regions_under_bound:
  assumes "hierarchy m" "s < length (states m)" "r \<in> set (m_setOrderedRegions (state_of m s))" "x \<in> regions_under m r"
  shows "x < length (regions m)"
  using regions_under_below [OF assms(1-3)] assms(4) regions_below_bound by blast

lemma timeout_regions_states:
  assumes IH: "\<And>s h todo m1 d0 p' d q. EvalEntry ds k s h True (todo, m1, d0) = Returned p' \<Longrightarrow> agree (regions_below m s) m m1 \<Longrightarrow> currents_ok m1 \<Longrightarrow>
      populated m1 \<Longrightarrow> s < length (states m) \<Longrightarrow> EvalTimeOut ds' m k s h e (todo, d) = Returned q \<Longrightarrow>
      fst q = fst p' \<and> snd q = fold (EvalTransitionsForTimeOut ds' m False) (if e then config (fst (snd p')) k s else []) d"
    and m: "hierarchy m" "s < length (states m)"
  shows "entry_regions ds k rs h c (todo, m1, d0) = Returned p' \<Longrightarrow> agree (\<Union>r\<in>set rs. regions_under m r) m m1 \<Longrightarrow> currents_ok m1 \<Longrightarrow> populated m1 \<Longrightarrow>
     set rs \<subseteq> set (m_setOrderedRegions (state_of m s)) \<Longrightarrow> distinct rs \<Longrightarrow> timeout_regions ds' m k rs h c e (todo, d) = Returned q \<Longrightarrow>
     fst q = fst p' \<and> snd q = fold (EvalTransitionsForTimeOut ds' m False) (if e then config_regions (fst (snd p')) k rs else []) d"
proof (induction rs arbitrary: todo m1 d0 d)
  case (Cons r rs)
  have ss: "same_structure m m1" using Cons.prems(2) by (simp add: agree_def)
  note m1 = same_structure_hierarchy [OF ss m(1)] and same = same_structure_fields(1) [OF ss] and under = regions_under_same [OF ss]
  have s1: "s < length (states m1)" "set (r # rs) \<subseteq> set (m_setOrderedRegions (state_of m1 s))" using m(2) Cons.prems(5) same by simp_all
  have r: "r \<in> set (m_setOrderedRegions (state_of m s))" "set rs \<subseteq> set (m_setOrderedRegions (state_of m s))" "distinct rs" "r \<notin> set rs"
    using Cons.prems(5,6) by simp_all
  have r_len: "r < length (regions m)" using hierarchyD(2) [OF m r(1)] by simp
  obtain y h1 todo2 m2 d2 where step: "state_to_enter m1 r todo h c = (Some y, h1)"
    "EvalEntry ds k y h1 True (todo, setCurrentState r (Some y) m1, d0) = Returned (todo2, m2, d2)"
    "entry_regions ds k rs h c (todo2, m2, d2) = Returned p'" "y \<in> set (m_childStates (region_of m1 r))"
    "changes {r} m1 (setCurrentState r (Some y) m1)" "changes (regions_under m1 r) m1 m2"
    "config_regions (fst (snd p')) k [r] = config m2 k y"
    by (rule entry_regions_step [OF Cons.prems(1) m1 Cons.prems(3,4) s1(1,2) Cons.prems(6)]) simp
  have y: "y \<in> set (m_childStates (region_of m r))" using step(4) same_structure_region(2) [OF ss r_len] by simp
  note child = child_after_parent [OF m r(1) y]
  have enter: "state_to_enter m r todo h c = (Some y, h1)"
    using step(1) state_to_enter_agree [OF Cons.prems(2), of r] r_len by (simp add: regions_under_def)
  obtain q1 where q1: "EvalTimeOut ds' m k y h1 e (todo, d) = Returned q1" "timeout_regions ds' m k rs h c e q1 = Returned q"
    using Cons.prems(7) enter by (auto simp: timeout_regions.simps bind_outcome_Returned)
  have "own_region m y \<inter> regions_below m y = {}" by (rule own_region_not_below [OF m(1) child(2)])
  then have "agree (regions_below m y) m (setCurrentState r (Some y) m1)"
    using regions_below_child(1) [OF m r(1) y] child(3) regions_below_bound
    by (intro agree_changes [OF Cons.prems(2) step(5)]) (auto simp: own_region_def)
  then have one: "fst q1 = todo2 \<and> snd q1 = fold (EvalTransitionsForTimeOut ds' m False) (if e then config m2 k y else []) d"
    using IH [OF step(2) _ _ _ child(2) q1(1)] step(5) Cons.prems(3,4) by (simp add: changes_def)
  have "(\<Union>r'\<in>set rs. regions_under m r') \<inter> regions_under m r = {}"
    using regions_under_disjoint [OF m _ r(1)] r(2,4) by auto
  moreover have "regions_under m r' \<subseteq> {..<length (regions m)}" if "r' \<in> set rs" for r'
    using regions_under_bound [OF m, of r'] r(2) that by auto
  ultimately have "agree (\<Union>r\<in>set rs. regions_under m r) m m2"
    by (intro agree_changes [OF Cons.prems(2) step(6)]) (auto simp: under)
  then have "fst q = fst p' \<and> snd q = fold (EvalTransitionsForTimeOut ds' m False) (if e then config_regions (fst (snd p')) k rs else []) (snd q1)"
    using Cons.IH [OF step(3) _ _ _ r(2,3), of "snd q1"] q1(2) one step(6) Cons.prems(3,4) by (cases q1) (simp add: changes_def)
  then show ?case using one unfolding config_regions_Cons [of _ _ r rs] step(7) by simp
qed (auto simp: entry_regions.simps timeout_regions.simps)

lemma EvalTimeOut_states:
  "EvalEntry ds k s h e0 (todo, m1, d0) = Returned p' \<Longrightarrow> hierarchy m \<Longrightarrow> agree (regions_below m s) m m1 \<Longrightarrow> currents_ok m1 \<Longrightarrow>
     populated m1 \<Longrightarrow> s < length (states m) \<Longrightarrow> EvalTimeOut ds' m k s h e (todo, d) = Returned q \<Longrightarrow>
     fst q = fst p' \<and> snd q = fold (EvalTransitionsForTimeOut ds' m False) (if e then config (fst (snd p')) k s else []) d"
proof (induction k arbitrary: s h e0 todo m1 d0 p' d q)
  case (Suc k)
  have ss: "same_structure m m1" using Suc.prems(3) by (simp add: agree_def)
  note m1 = same_structure_hierarchy [OF ss Suc.prems(2)] and same = same_structure_fields(1) [OF ss]
  obtain todo1 c m2 where step: "take_off s todo h = (todo1, c)" "changes (own_region m1 s) m1 m2"
    "entry_regions ds k (m_setOrderedRegions (state_of m1 s)) h c (todo1, m2, if e0 then performEntry ds m1 s d0 else d0) = Returned p'"
    by (rule EvalEntry_step [OF Suc.prems(1) m1]) (use Suc.prems(6) same in auto)
  have ss2: "same_structure m1 m2" and ok: "currents_ok m2" "populated m2" using step(2) Suc.prems(4,5) by (simp_all add: changes_def)
  have "changes (\<Union>r\<in>set (m_setOrderedRegions (state_of m1 s)). regions_under m2 r) m2 (fst (snd p'))"
    using EvalEntry_changes(2) [OF step(3), of s] same_structure_hierarchy [OF ss2 m1] ok Suc.prems(6) same same_structure_fields(1) [OF ss2] by simp
  then have st: "states (fst (snd p')) = states m" using same_structure_fields(1) same same_structure_fields(1) [OF ss2] by (auto simp: changes_def)
  have ag: "agree (\<Union>r\<in>set (m_setOrderedRegions (state_of m s)). regions_under m r) m m2"
    using regions_under_below [OF Suc.prems(2,6)] own_region_not_below [OF Suc.prems(2,6)] regions_under_bound [OF Suc.prems(2,6)] same
    by (intro agree_changes [OF Suc.prems(3) step(2)]) (fastforce simp: own_region_def)+
  have time: "timeout_regions ds' m k (m_setOrderedRegions (state_of m s)) h c e (todo1, if e then EvalTransitionsForTimeOut ds' m False s d else d) = Returned q"
    using Suc.prems(7) step(1) by (simp add: EvalTimeOut.simps)
  have "fst q = fst p' \<and> snd q = fold (EvalTransitionsForTimeOut ds' m False) (if e then config_regions (fst (snd p')) k (m_setOrderedRegions (state_of m s)) else [])
      (if e then EvalTransitionsForTimeOut ds' m False s d else d)"
    by (rule timeout_regions_states [OF _ Suc.prems(2,6) step(3) [unfolded same] ag ok subset_refl hierarchyD(1) [OF Suc.prems(2,6)] time],
        rule Suc.IH, assumption, rule Suc.prems(2), assumption+)
  then show ?case using st by (cases e) simp_all
qed (simp add: EvalEntry.simps)

end
