(* ===== verification/StateMachineBuild.thy ===== *)
theory StateMachineBuild
  imports StateMachineProperties
begin

text \<open>
  Building a machine: each call keeps the objects well-formed.
\<close>

section \<open>Building\<close>

text \<open>Well-formed objects: pointers lead to objects, the ordered sets are strictly ordered, the ends
  agree, and only the first state, the machine itself, is without a region.\<close>

definition state_ok :: "MACHINE \<Rightarrow> sref \<Rightarrow> STATE \<Rightarrow> bool" where
  "state_ok m s x \<longleftrightarrow>
     sorted_wrt (\<lambda>r r'. r_priority (region_of m r) < r_priority (region_of m r')) (m_setOrderedRegions x) \<and>
     sorted_wrt (\<lambda>t t'. t_priority (transition_of m t) < t_priority (transition_of m t')) (m_setOrderedOutTransitions x) \<and>
     sorted_wrt (\<lambda>t t'. t_priority (transition_of m t) < t_priority (transition_of m t')) (m_setTimeOutTransitions x) \<and>
     (\<forall>r\<in>set (m_setOrderedRegions x). r < length (regions m) \<and> r_pState (region_of m r) = Some s) \<and>
     (\<forall>t\<in>set (m_setOrderedOutTransitions x) \<union> set (m_setTimeOutTransitions x). t < length (transitions m)) \<and>
     (\<forall>y\<in>set (m_StatePathToRoot x). y < length (states m)) \<and> (m_pRegion x = None \<longrightarrow> s = 0)"

definition region_ok :: "MACHINE \<Rightarrow> rref \<Rightarrow> REGION \<Rightarrow> bool" where
  "region_ok m r x \<longleftrightarrow>
     (\<forall>c\<in>set (m_childStates x). c < length (states m) \<and> m_pRegion (state_of m c) = Some r) \<and>
     (\<forall>y. m_initState x = Some y \<or> m_currentState x = Some y \<longrightarrow> y \<in> set (m_childStates x))"

definition transition_ok :: "MACHINE \<Rightarrow> TRANSITION \<Rightarrow> bool" where
  "transition_ok m x \<longleftrightarrow> m_SourceState x < length (states m) \<and> m_TargetState x < length (states m) \<and>
     (\<forall>y. m_StateToExit x = Some y \<or> y \<in> set (m_StatesToEnter x) \<longrightarrow> y < length (states m))"

definition typed :: "MACHINE \<Rightarrow> bool" where
  "typed m \<longleftrightarrow> 0 < length (states m) \<and> (\<forall>s<length (states m). state_ok m s (state_of m s)) \<and>
     (\<forall>r<length (regions m). region_ok m r (region_of m r)) \<and>
     (\<forall>t<length (transitions m). transition_ok m (transition_of m t)) \<and>
     (\<forall>c<length (states m). \<forall>r. m_pRegion (state_of m c) = Some r \<longrightarrow>
        r < length (regions m) \<and> (\<exists>p. r_pState (region_of m r) = Some p \<and> p < c))"

lemma typedD:
  assumes "typed m"
  shows "0 < length (states m)" "s < length (states m) \<Longrightarrow> state_ok m s (state_of m s)"
    "r < length (regions m) \<Longrightarrow> region_ok m r (region_of m r)" "t < length (transitions m) \<Longrightarrow> transition_ok m (transition_of m t)"
    "c < length (states m) \<Longrightarrow> m_pRegion (state_of m c) = Some r \<Longrightarrow> r < length (regions m) \<and> (\<exists>p. r_pState (region_of m r) = Some p \<and> p < c)"
  using assms unfolding typed_def by blast+

lemma sorted_priority_distinct: "sorted_wrt (\<lambda>x y. f x < (f y :: int)) xs \<Longrightarrow> distinct xs"
  by (induction xs) auto

lemma typedI:
  assumes "0 < length (states m)" "\<And>s. s < length (states m) \<Longrightarrow> state_ok m s (state_of m s)"
    "\<And>r. r < length (regions m) \<Longrightarrow> region_ok m r (region_of m r)" "\<And>t. t < length (transitions m) \<Longrightarrow> transition_ok m (transition_of m t)"
    "\<And>c r. c < length (states m) \<Longrightarrow> m_pRegion (state_of m c) = Some r \<Longrightarrow>
       r < length (regions m) \<and> (\<exists>p. r_pState (region_of m r) = Some p \<and> p < c)"
  shows "typed m"
  using assms unfolding typed_def by blast

lemma typed_hierarchy:
  assumes "typed m"
  shows "hierarchy m" "currents_ok m"
proof -
  show "hierarchy m" unfolding hierarchy_def
  proof (intro conjI allI impI ballI)
    fix s assume s: "s < length (states m)"
    note ok = typedD(2) [OF assms s, unfolded state_ok_def]
    show "distinct (m_setOrderedRegions (state_of m s))" using ok [THEN conjunct1] by (rule sorted_priority_distinct)
    fix r assume "r \<in> set (m_setOrderedRegions (state_of m s))"
    then show "r < length (regions m)" "r_pState (region_of m r) = Some s" using ok by blast+
  next
    fix r c assume "r < length (regions m)" "c \<in> set (m_childStates (region_of m r))"
    then show "c < length (states m)" "m_pRegion (state_of m c) = Some r" using typedD(3) [OF assms, of r] unfolding region_ok_def by blast+
  next
    fix c r assume "c < length (states m)" "m_pRegion (state_of m c) = Some r"
    from typedD(5) [OF assms this] show "r < length (regions m)" "\<exists>p. r_pState (region_of m r) = Some p \<and> p < c" by blast+
  qed
  show "currents_ok m" unfolding currents_ok_def
    using typedD(3) [OF assms] unfolding region_ok_def by blast
qed

text \<open>Calls that build a machine.  A state is made for a region that has a state, and put into it; a region is made for a state, and
  put into it.\<close>

inductive builds :: "MACHINE \<Rightarrow> MACHINE \<Rightarrow> bool" where
  new_region: "p < length (states m) \<Longrightarrow> builds m (Region_new name priorityID (Some p) m)"
| new_state: "r < length (regions m) \<Longrightarrow> r_pState (region_of m r) = Some p \<Longrightarrow> p < length (states m) \<Longrightarrow>
    builds m (State_new (Some r) (Some p) name t sid m)"
| new_transition: "source < length (states m) \<Longrightarrow> target < length (states m) \<Longrightarrow>
    builds m (Transition_new source target priorityID tid setHistory m)"
| child_region: "s < length (states m) \<Longrightarrow> r < length (regions m) \<Longrightarrow> r_pState (region_of m r) = Some s \<Longrightarrow> builds m (addChildRegion s r m)"
| add_state: "s < length (states m) \<Longrightarrow> m_pRegion (state_of m s) = Some r \<Longrightarrow> builds m (addState r s isInitial m)"
| outgoing: "s < length (states m) \<Longrightarrow> t < length (transitions m) \<Longrightarrow> builds m (addOutgoingTransition s t m)"
| time_out: "t < length (transitions m) \<Longrightarrow> builds m (SetEvalTimeOut t b m)"
| data_source: "s < length (states m) \<Longrightarrow> builds m (SetDataSource s b m)"
| default_action: "s < length (states m) \<Longrightarrow> builds m (SetDefaultAction s m)"
| data_source_transition: "t < length (transitions m) \<Longrightarrow> builds m (Transition_SetDataSource t b m)"
| shallow: "r < length (regions m) \<Longrightarrow> builds m (EnableShallowHistory r m)"
| deep: "r < length (regions m) \<Longrightarrow> builds m (EnableDeepHistory r m)"
| path: "s < length (states m) \<Longrightarrow> computePathToRoot k s m = Returned m' \<Longrightarrow> builds m m'"
| points: "t < length (transitions m) \<Longrightarrow> computeEntryAndExitPoints t m = Returned m' \<Longrightarrow> builds m m'"

lemma set_set_insert: "y \<in> set (set_insert before x xs) \<Longrightarrow> y = x \<or> y \<in> set xs"
  by (induction xs) (auto split: if_splits)

lemma sorted_set_insert:
  assumes "\<And>x y. before (Some x) (Some y) \<longleftrightarrow> f x < (f y :: int)"
  shows "sorted_wrt (\<lambda>x y. f x < f y) xs \<Longrightarrow> sorted_wrt (\<lambda>x y. f x < f y) (set_insert before x xs)"
proof (induction xs)
  case (Cons y ys)
  have "f y < f z" if "z \<in> set (set_insert before x ys)" "f y < f x" for z
    using set_set_insert [OF that(1)] that(2) Cons.prems by auto
  then show ?case using Cons assms by (auto intro: less_trans)
qed simp

lemma typed_update_state:
  assumes "typed m" "s < length (states m)" "state_ok m s (f (state_of m s))" "m_pRegion (f (state_of m s)) = m_pRegion (state_of m s)"
  shows "typed (update_state s f m)"
proof -
  let ?m = "update_state s f m"
  have p: "m_pRegion (state_of ?m c) = m_pRegion (state_of m c)" for c
    using assms(2,4) by (cases "c = s") (simp_all add: update_state_def)
  have same: "length (states ?m) = length (states m)" "regions ?m = regions m" "transitions ?m = transitions m" by (simp_all add: update_state_def)
  have ok: "state_ok ?m = state_ok m" "region_ok ?m = region_ok m" "transition_ok ?m = transition_ok m"
    by (simp_all add: fun_eq_iff state_ok_def region_ok_def transition_ok_def p same)
  have "state_ok m c (state_of ?m c)" if "c < length (states m)" for c
    using assms(2,3) typedD(2) [OF assms(1) that] by (cases "c = s") (simp_all add: update_state_def)
  then show ?thesis using typedD(1,3,4,5) [OF assms(1)] by (intro typedI) (simp_all only: ok same p)
qed

lemma typed_update_region:
  assumes "typed m" "r < length (regions m)" "region_ok m r (f (region_of m r))" "r_pState (f (region_of m r)) = r_pState (region_of m r)"
    "r_priority (f (region_of m r)) = r_priority (region_of m r)"
  shows "typed (update_region r f m)"
proof -
  let ?m = "update_region r f m"
  have p: "r_pState (region_of ?m c) = r_pState (region_of m c)" "r_priority (region_of ?m c) = r_priority (region_of m c)" for c
    using assms(2,4,5) by (cases "c = r"; simp add: update_region_def)+
  have same: "length (regions ?m) = length (regions m)" "states ?m = states m" "transitions ?m = transitions m" by (simp_all add: update_region_def)
  have ok: "state_ok ?m = state_ok m" "region_ok ?m = region_ok m" "transition_ok ?m = transition_ok m"
    by (simp_all add: fun_eq_iff state_ok_def region_ok_def transition_ok_def p same)
  have "region_ok m c (region_of ?m c)" if "c < length (regions m)" for c
    using assms(2,3) typedD(3) [OF assms(1) that] by (cases "c = r") (simp_all add: update_region_def)
  then show ?thesis using typedD(1,2,4,5) [OF assms(1)] by (intro typedI) (simp_all only: ok same p)
qed

lemma typed_update_transition:
  assumes "typed m" "t < length (transitions m)" "transition_ok m (f (transition_of m t))" "t_priority (f (transition_of m t)) = t_priority (transition_of m t)"
  shows "typed (update_transition t f m)"
proof -
  let ?m = "update_transition t f m"
  have p: "t_priority (transition_of ?m c) = t_priority (transition_of m c)" for c
    using assms(2,4) by (cases "c = t") (simp_all add: update_transition_def)
  have same: "length (transitions ?m) = length (transitions m)" "states ?m = states m" "regions ?m = regions m" by (simp_all add: update_transition_def)
  have ok: "state_ok ?m = state_ok m" "region_ok ?m = region_ok m" "transition_ok ?m = transition_ok m"
    by (simp_all add: fun_eq_iff state_ok_def region_ok_def transition_ok_def p same)
  have "transition_ok m (transition_of ?m c)" if "c < length (transitions m)" for c
    using assms(2,3) typedD(4) [OF assms(1) that] by (cases "c = t") (simp_all add: update_transition_def)
  then show ?thesis using typedD(1,2,3,5) [OF assms(1)] by (intro typedI) (simp_all only: ok same p)
qed

text \<open>New objects are put at the end.\<close>

definition extends :: "MACHINE \<Rightarrow> MACHINE \<Rightarrow> bool" where
  "extends m m' \<longleftrightarrow> (\<exists>xs ys zs. states m' = states m @ xs \<and> regions m' = regions m @ ys \<and> transitions m' = transitions m @ zs)"

lemma extends_ok:
  assumes "extends m m'"
  shows "state_ok m s x \<Longrightarrow> state_ok m' s x" "region_ok m r y \<Longrightarrow> region_ok m' r y" "transition_ok m z \<Longrightarrow> transition_ok m' z"
proof -
  obtain xs ys zs where e: "states m' = states m @ xs" "regions m' = regions m @ ys" "transitions m' = transitions m @ zs"
    using assms unfolding extends_def by blast
  show "state_ok m s x \<Longrightarrow> state_ok m' s x"
    unfolding state_ok_def e by (auto simp: nth_append trans_less_add1 intro: sorted_wrt_mono_rel [rotated])
  show "region_ok m r y \<Longrightarrow> region_ok m' r y" unfolding region_ok_def e by (auto simp: nth_append)
  show "transition_ok m z \<Longrightarrow> transition_ok m' z" unfolding transition_ok_def e by fastforce
qed

lemma typed_new:
  assumes "typed m" "extends m m'"
    "\<And>s. length (states m) \<le> s \<Longrightarrow> s < length (states m') \<Longrightarrow> state_ok m' s (state_of m' s) \<and>
       (\<forall>r. m_pRegion (state_of m' s) = Some r \<longrightarrow> r < length (regions m) \<and> (\<exists>p. r_pState (region_of m r) = Some p \<and> p < s))"
    "\<And>r. length (regions m) \<le> r \<Longrightarrow> r < length (regions m') \<Longrightarrow> region_ok m' r (region_of m' r)"
    "\<And>t. length (transitions m) \<le> t \<Longrightarrow> t < length (transitions m') \<Longrightarrow> transition_ok m' (transition_of m' t)"
  shows "typed m'"
proof -
  obtain xs ys zs where e: "states m' = states m @ xs" "regions m' = regions m @ ys" "transitions m' = transitions m @ zs"
    using assms(2) unfolding extends_def by blast
  show ?thesis
  proof (intro typedI)
    show "0 < length (states m')" using typedD(1) [OF assms(1)] by (simp add: e)
    show "state_ok m' s (state_of m' s)" if "s < length (states m')" for s
    proof (cases "s < length (states m)")
      case True
      then show ?thesis using extends_ok(1) [OF assms(2) typedD(2) [OF assms(1) True]] by (simp add: e nth_append)
    qed (use assms(3) that in simp)
    show "region_ok m' r (region_of m' r)" if "r < length (regions m')" for r
    proof (cases "r < length (regions m)")
      case True
      then show ?thesis using extends_ok(2) [OF assms(2) typedD(3) [OF assms(1) True]] by (simp add: e nth_append)
    qed (use assms(4) that in simp)
    show "transition_ok m' (transition_of m' t)" if "t < length (transitions m')" for t
    proof (cases "t < length (transitions m)")
      case True
      then show ?thesis using extends_ok(3) [OF assms(2) typedD(4) [OF assms(1) True]] by (simp add: e nth_append)
    qed (use assms(5) that in simp)
    show "r < length (regions m') \<and> (\<exists>p. r_pState (region_of m' r) = Some p \<and> p < c)"
      if c: "c < length (states m')" "m_pRegion (state_of m' c) = Some r" for c r
    proof -
      have "r < length (regions m) \<and> (\<exists>p. r_pState (region_of m r) = Some p \<and> p < c)"
      proof (cases "c < length (states m)")
        case True
        then show ?thesis using typedD(5) [OF assms(1) True] c(2) by (simp add: e nth_append)
      qed (use assms(3) [of c] c in auto)
      then show ?thesis by (auto simp: e nth_append)
    qed
  qed
qed

lemma path_to_root_bound:
  "path_to_root m k (m_pRegion (state_of m c)) (rs, ss) = Returned (rs', ss') \<Longrightarrow> typed m \<Longrightarrow> c < length (states m) \<Longrightarrow>
     \<forall>y\<in>set ss. y < length (states m) \<Longrightarrow> \<forall>y\<in>set ss'. y < length (states m)"
proof (induction k arbitrary: c rs ss)
  case 0
  then show ?case by (cases "m_pRegion (state_of m c)") simp_all
next
  case (Suc k)
  show ?case
  proof (cases "m_pRegion (state_of m c)")
    case (Some r)
    obtain p where p: "r_pState (region_of m r) = Some p" "p < c" using typedD(5) [OF Suc.prems(2,3) Some] by blast
    then have "path_to_root m k (m_pRegion (state_of m p)) (r # rs, p # ss) = Returned (rs', ss')" using Suc.prems(1) Some by simp
    from Suc.IH [OF this Suc.prems(2)] show ?thesis using p(2) Suc.prems(3,4) by simp
  qed (use Suc.prems in simp)
qed

lemma setCurrentState_typed: "typed m \<Longrightarrow> r < length (regions m) \<Longrightarrow> typed (setCurrentState r s m)"
  using typedD(3) [of m r]
  by (auto simp: setCurrentState_def region_ok_def split: option.split intro!: typed_update_region)

lemma first_difference_take: "take (first_difference xs ys) xs = take (first_difference xs ys) ys"
  by (induction xs ys rule: first_difference.induct) auto

lemma first_difference_le: "first_difference xs ys \<le> min (length xs) (length ys)"
  by (induction xs ys rule: first_difference.induct) auto

lemma computeEntryAndExitPoints_typed:
  assumes "typed m" "t < length (transitions m)" "computeEntryAndExitPoints t m = Returned m'"
  shows "typed m'"
proof -
  let ?x = "transition_of m t"
  note x = typedD(4) [OF assms(1,2), unfolded transition_ok_def]
  define src where "src = m_StatePathToRoot (state_of m (m_SourceState ?x))"
  define tgt where "tgt = m_StatePathToRoot (state_of m (m_TargetState ?x))"
  define i where "i = first_difference src tgt"
  have bound: "\<forall>y\<in>set src. y < length (states m)" "\<forall>y\<in>set tgt. y < length (states m)"
    using typedD(2) [OF assms(1)] x unfolding state_ok_def src_def tgt_def by blast+
  obtain ex ent par where m': "m' = update_transition t (\<lambda>y. y\<lparr>m_StateToExit := Some ex, m_TransitionBetweenParallelMachines := par,
      m_StatesToEnter := m_StatesToEnter y @ ent @ drop i tgt @ [m_TargetState ?x]\<rparr>) m"
    "ex = m_SourceState ?x \<or> (\<exists>j<length src. ex = src ! j)" "set ent \<subseteq> {ex}"
  proof -
    let ?differs = "i < min (length src) (length tgt)"
    let ?parallel = "?differs \<and> m_pRegion (state_of m (src ! i)) \<noteq> m_pRegion (state_of m (tgt ! i))"
    let ?ex = "if ?parallel then src ! (i - 1) else if ?differs then src ! i else m_SourceState ?x"
    let ?par = "m_TransitionBetweenParallelMachines ?x \<or> ?parallel"
    have "m' = update_transition t (\<lambda>y. y\<lparr>m_StateToExit := Some ?ex, m_TransitionBetweenParallelMachines := ?par,
      m_StatesToEnter := m_StatesToEnter y @ (if ?par then [?ex] else []) @ drop i tgt @ [m_TargetState ?x]\<rparr>) m"
    proof (cases "?parallel \<and> i = 0")
      case False
      show ?thesis
        using assms(3) unfolding computeEntryAndExitPoints_def Let_def src_def [symmetric] tgt_def [symmetric] i_def [symmetric]
          if_not_P [OF False] outcome.inject by (rule sym)
    next
      case True
      have "Undef = Returned m'"
        using assms(3) unfolding computeEntryAndExitPoints_def Let_def src_def [symmetric] tgt_def [symmetric] i_def [symmetric]
          if_P [OF True] .
      then have False by simp
      then show ?thesis ..
    qed
    moreover have "?ex = m_SourceState ?x \<or> (\<exists>j<length src. ?ex = src ! j)" by (auto intro: less_imp_diff_less)
    moreover have "set (if P then [a] else []) \<subseteq> {a}" for P and a :: sref by (cases P) simp_all
    then have "set (if ?par then [?ex] else []) \<subseteq> {?ex}" .
    ultimately show thesis by (rule that)
  qed
  have "ex < length (states m)" using m'(2) x bound(1) by auto
  then show ?thesis unfolding m'(1)
    using x bound(2) m'(3) by (intro typed_update_transition [OF assms(1,2)]) (auto simp: transition_ok_def dest: in_set_dropD)
qed

lemma builds_typed:
  assumes "builds m m'" "typed m"
  shows "typed m'"
  using assms
proof cases
  case (new_region p name priorityID)
  show ?thesis unfolding new_region(1)
    by (rule typed_new [OF assms(2)]) (auto simp: Region_new_def extends_def region_ok_def nth_append)
next
  case (new_state r p name t sid)
  show ?thesis unfolding new_state(1)
    by (rule typed_new [OF assms(2)])
      (use new_state(2-4) in \<open>auto simp: State_new_def extends_def state_ok_def nth_append\<close>)
next
  case (new_transition source target priorityID tid setHistory)
  show ?thesis unfolding new_transition(1)
    by (rule typed_new [OF assms(2)])
      (use new_transition(2,3) in \<open>auto simp: Transition_new_def extends_def transition_ok_def nth_append\<close>)
next
  case (child_region s r)
  show ?thesis unfolding child_region(1) addChildRegion_def
    using typedD(2) [OF assms(2) child_region(2)] child_region(2-4)
    by (intro typed_update_state [OF assms(2)]) (auto simp: state_ok_def ball_Un intro!: sorted_set_insert dest!: set_set_insert)
next
  case (add_state s r isInitial)
  have r: "r < length (regions m)" using typedD(5) [OF assms(2) add_state(2,3)] by simp
  have one: "typed (update_region r (\<lambda>x. x\<lparr>m_childStates := List.insert s (m_childStates x)\<rparr>) m)" (is "typed ?m1")
    using typedD(3) [OF assms(2) r] r add_state(2,3) by (intro typed_update_region [OF assms(2)]) (auto simp: region_ok_def)
  have "typed (update_region r (\<lambda>x. x\<lparr>m_initState := Some s\<rparr>) ?m1)"
    using typedD(3) [OF one, of r] r by (intro typed_update_region [OF one]) (auto simp: region_ok_def update_region_def)
  then show ?thesis unfolding add_state(1) addState_def Let_def
    using one r setCurrentState_typed by (auto simp: update_region_def)
next
  case (outgoing s t)
  show ?thesis unfolding outgoing(1) addOutgoingTransition_def
    using typedD(2) [OF assms(2) outgoing(2)] outgoing(2,3) 
    by (intro typed_update_state [OF assms(2)]) (auto simp: state_ok_def ball_Un intro!: sorted_set_insert dest!: set_set_insert)
next
  case (time_out t b)
  let ?m = "update_transition t (\<lambda>x. x\<lparr>m_evalTimeOut := b\<rparr>) m"
  have one: "typed ?m"
    using typedD(4) [OF assms(2) time_out(2)] time_out(2) by (intro typed_update_transition [OF assms(2)]) (auto simp: transition_ok_def)
  have t: "t < length (transitions ?m)" using time_out(2) by (simp add: update_transition_def)
  define s where "s = m_SourceState (transition_of ?m t)"
  have s: "s < length (states ?m)" using typedD(4) [OF one t] by (simp add: transition_ok_def s_def)
  have "typed (addTimeOutTransition s t ?m)" unfolding addTimeOutTransition_def
    using typedD(2) [OF one s] s t 
    by (intro typed_update_state [OF one s]) (auto simp: state_ok_def ball_Un intro!: sorted_set_insert dest!: set_set_insert)
  then show ?thesis using one unfolding time_out(1) SetEvalTimeOut_def Let_def s_def by (cases b) simp_all
next
  case (data_source s b)
  then show ?thesis unfolding data_source(1) SetDataSource_def
    using typedD(2) [OF assms(2) data_source(2)] by (intro typed_update_state [OF assms(2)]) (auto simp: state_ok_def)
next
  case (default_action s)
  then show ?thesis unfolding default_action(1) SetDefaultAction_def
    using typedD(2) [OF assms(2) default_action(2)] by (intro typed_update_state [OF assms(2)]) (auto simp: state_ok_def)
next
  case (data_source_transition t b)
  then show ?thesis unfolding data_source_transition(1) Transition_SetDataSource_def
    using typedD(4) [OF assms(2) data_source_transition(2)] by (intro typed_update_transition [OF assms(2)]) (auto simp: transition_ok_def)
next
  case (shallow r)
  then show ?thesis unfolding shallow(1) EnableShallowHistory_def
    using typedD(3) [OF assms(2) shallow(2)] by (intro typed_update_region [OF assms(2)]) (auto simp: region_ok_def)
next
  case (deep r)
  then show ?thesis unfolding deep(1) EnableDeepHistory_def
    using typedD(3) [OF assms(2) deep(2)] by (intro typed_update_region [OF assms(2)]) (auto simp: region_ok_def)
next
  case (path s k)
  obtain rs ss where p: "path_to_root m k (m_pRegion (state_of m s)) ([], []) = Returned (rs, ss)"
    "m' = update_state s (\<lambda>x. x\<lparr>m_RegionPathToRoot := rs, m_StatePathToRoot := ss\<rparr>) m"
    using path(2) by (auto simp: computePathToRoot_def bind_outcome_Returned)
  show ?thesis unfolding p(2)
    using typedD(2) [OF assms(2) path(1)] path_to_root_bound [OF p(1) assms(2) path(1)] path(1)
    by (intro typed_update_state [OF assms(2)]) (auto simp: state_ok_def)
next
  case (points t)
  then show ?thesis by (rule computeEntryAndExitPoints_typed [OF assms(2)])
qed

text \<open>So every machine that is built is well-formed.\<close>

lemma StateMachine_new_typed: "typed (StateMachine_new name)"
  by (simp add: typed_def StateMachine_new_def State_new_def state_ok_def)

lemma built_typed: "builds\<^sup>*\<^sup>* (StateMachine_new name) m \<Longrightarrow> typed m"
  by (induction rule: rtranclp_induct) (auto simp: StateMachine_new_typed intro: builds_typed)

lemma typed_same:
  assumes "typed m" "same_structure m m'" "currents_ok m'"
  shows "typed m'"
proof -
  note f = same_structure_fields [OF assms(2)] and g = same_structure_region [OF assms(2)]
  have prio: "r_priority (region_of m' r) = r_priority (region_of m r)" if "r < length (regions m)" for r
    using f(4) [OF that] by (cases "region_of m r"; cases "region_of m' r"; simp)
  have "state_ok m' s (state_of m s)" if "s < length (states m)" for s
  proof -
    note ok = typedD(2) [OF assms(1) that, unfolded state_ok_def]
    have "sorted_wrt (\<lambda>r r'. r_priority (region_of m' r) < r_priority (region_of m' r')) (m_setOrderedRegions (state_of m s))"
      by (rule sorted_wrt_mono_rel [OF _ ok [THEN conjunct1]]) (use ok prio in simp)
    then show ?thesis using ok f(1-3) g(1) by (simp add: state_ok_def)
  qed
  moreover have "region_ok m' r (region_of m' r)" if "r < length (regions m)" for r
  proof -
    note ok = typedD(3) [OF assms(1) that, unfolded region_ok_def]
    show ?thesis unfolding region_ok_def f(1)
      using ok g(2,3) [OF that] assms(3) that f(3) unfolding currents_ok_def by auto
  qed
  moreover have "transition_ok m' (transition_of m' t)" if "t < length (transitions m)" for t
    using typedD(4) [OF assms(1) that] f(1,2) by (simp add: transition_ok_def)
  moreover have "r < length (regions m) \<and> (\<exists>p. r_pState (region_of m' r) = Some p \<and> p < c)"
    if "c < length (states m)" "m_pRegion (state_of m c) = Some r" for c r
    using typedD(5) [OF assms(1) that] g(1) [of r] by simp
  ultimately show ?thesis
    using typedD(1) [OF assms(1)] unfolding typed_def f(1-3) by blast
qed

lemma changes_typed: "changes R m m' \<Longrightarrow> typed m \<Longrightarrow> typed m'"
  using typed_same typed_hierarchy by (auto simp: changes_def)

end
