(* ===== verification/StateMachineSteps.thy ===== *)
theory StateMachineSteps
  imports StateMachineRuns StateMachineBuild
begin

text \<open>
  Steps of a machine: they change the current states only, and end; which transitions fire; what a transition does to the
  active states; history.
\<close>

section \<open>The transitions that fire\<close>

text \<open>Only transitions of active states are collected, behind those that are there.\<close>

lemma first_active_Some: "first_active ds m ts d = (Some t, d') \<Longrightarrow> t \<in> set ts"
  by (induction ts arbitrary: d) (auto simp: Let_def split: prod.splits if_splits)

lemma EvalTransitions_active:
  "EvalTransitions ds m k s look p = Returned (t, acts, def, d) \<Longrightarrow>
     \<exists>new. acts = fst p @ new \<and> (\<forall>t\<in>set new. \<exists>x\<in>set (config m k s). t \<in> set (m_setOrderedOutTransitions (state_of m x)))"
  "eval_regions ds m k rs look p = Returned q \<Longrightarrow>
     \<exists>new. fst q = fst p @ new \<and> (\<forall>t\<in>set new. \<exists>x\<in>set (config_regions m k rs). t \<in> set (m_setOrderedOutTransitions (state_of m x)))"
proof (induction ds m k s look p and ds m k rs look p arbitrary: t acts def d and q rule: EvalTransitions_eval_regions.induct)
  case (2 ds m k s look acts0 dflt d0)
  obtain a d1 where f: "first_active ds m (m_setOrderedOutTransitions (state_of m s)) (performDuring ds m s d0) = (a, d1)" by fastforce
  show ?case
  proof (cases a)
    case None
    then obtain q where q: "eval_regions ds m k (m_setOrderedRegions (state_of m s)) look (acts0, -1, d1) = Returned q" "acts = fst q"
      using "2.prems" f by (auto simp: EvalTransitions.simps bind_outcome_Returned)
    from "2.IH" [OF f [symmetric] None refl q(1)] show ?thesis using q(2) by auto
  next
    case (Some b)
    then show ?thesis using "2.prems" f first_active_Some [of ds m _ _ b] by (auto simp: EvalTransitions.simps)
  qed
next
  case (4 ds m k r rs look p)
  show ?case
  proof (cases "m_currentState (region_of m r)")
    case None
    then show ?thesis using "4.IH"(1) [OF None] "4.prems" by (simp add: eval_regions.simps)
  next
    case (Some c)
    obtain t1 acts1 def1 d1 where one: "EvalTransitions ds m k c look p = Returned (t1, acts1, def1, d1)"
      "eval_regions ds m k rs (look \<and> def1 = -1) (acts1, def1, d1) = Returned q"
      using "4.prems" Some by (auto simp: eval_regions.simps bind_outcome_Returned)
    obtain new1 where "acts1 = fst p @ new1" "\<forall>t\<in>set new1. \<exists>x\<in>set (config m k c). t \<in> set (m_setOrderedOutTransitions (state_of m x))"
      using "4.IH"(2) [OF Some one(1)] by blast
    moreover obtain new2 where "fst q = acts1 @ new2" "\<forall>t\<in>set new2. \<exists>x\<in>set (config_regions m k rs). t \<in> set (m_setOrderedOutTransitions (state_of m x))"
      using "4.IH"(3) [OF Some one(2)] by auto
    ultimately show ?thesis using Some by (intro exI [of _ "new1 @ new2"]) auto
  qed
qed (auto simp: EvalTransitions.simps eval_regions.simps)

text \<open>Without an active transition there is no default action: the identifier of the state is overwritten.\<close>

lemma EvalTransitions_no_default:
  "EvalTransitions ds m k s look p = Returned (t, [], def, d) \<Longrightarrow> def = -1"
  "eval_regions ds m k rs look p = Returned ([], def, d) \<Longrightarrow> def = fst (snd p) \<or> def = -1"
proof (induction ds m k s look p and ds m k rs look p arbitrary: t def d and def d rule: EvalTransitions_eval_regions.induct)
  case (2 ds m k s look acts0 dflt d0)
  obtain a d1 where f: "first_active ds m (m_setOrderedOutTransitions (state_of m s)) (performDuring ds m s d0) = (a, d1)" by fastforce
  show ?case
  proof (cases a)
    case None
    then have "eval_regions ds m k (m_setOrderedRegions (state_of m s)) look (acts0, -1, d1) = Returned ([], def, d)"
      using "2.prems" f by (auto simp: EvalTransitions.simps bind_outcome_Returned split: if_splits)
    from "2.IH" [OF f [symmetric] None refl this] show ?thesis by simp
  next
    case (Some b)
    then show ?thesis using "2.prems" f by (simp add: EvalTransitions.simps)
  qed
next
  case (4 ds m k r rs look p)
  show ?case
  proof (cases "m_currentState (region_of m r)")
    case None
    then show ?thesis using "4.IH"(1) [OF None] "4.prems" by (simp add: eval_regions.simps)
  next
    case (Some c)
    obtain t1 acts1 def1 d1 where one: "EvalTransitions ds m k c look p = Returned (t1, acts1, def1, d1)"
      "eval_regions ds m k rs (look \<and> def1 = -1) (acts1, def1, d1) = Returned ([], def, d)"
      using "4.prems" Some by (auto simp: eval_regions.simps bind_outcome_Returned)
    have "acts1 = []" using EvalTransitions_active(2) [OF one(2)] by auto
    then have "def1 = -1" using "4.IH"(2) [OF Some, of t1 def1 d1] one(1) by simp
    then show ?thesis using "4.IH"(3) [OF Some one(2)] by simp
  qed
qed (auto simp: EvalTransitions.simps eval_regions.simps)

section \<open>Steps\<close>

text \<open>A step changes current states only; the machine stays well-formed.\<close>

lemma changes_UNIV: "changes R m m' \<Longrightarrow> changes UNIV m m'"
  by (rule changes_mono) simp_all

lemma changes_UNIV_trans: "changes UNIV m m' \<Longrightarrow> changes UNIV m' m'' \<Longrightarrow> changes UNIV m m''"
  by (rule changes_trans) simp_all

lemma EvalEntry_typed:
  assumes "EvalEntry ds k s h e (todo, m, d) = Returned (todo', m', d')" "typed m" "s < length (states m)"
  shows "changes UNIV m m'"
  using EvalEntry_changes(1) [OF assms(1)] typed_hierarchy [OF assms(2)] assms(3) changes_UNIV by fastforce

lemma fire_changes:
  assumes "fire ds k t (ids, m, d) = Returned (b, ids', m', d')" "typed m" "t < length (transitions m)"
  shows "changes UNIV m m'"
proof (cases "m_StatesToEnter (transition_of m t)")
  case Nil
  then have "m' = m" using assms(1) by (auto simp: fire_def Let_def bind_outcome_Returned split: option.splits)
  then show ?thesis by simp
next
  case (Cons x xs)
  have "x < length (states m)" using typedD(4) [OF assms(2,3)] Cons by (simp add: transition_ok_def)
  moreover obtain h e todo d1 todo' where enter: "EvalEntry ds k x h e (todo, m, d1) = Returned (todo', m', d')"
    using assms(1) Cons by (auto simp: fire_def Let_def bind_outcome_Returned split: option.splits)
  ultimately show ?thesis by (intro EvalEntry_typed [OF enter assms(2)])
qed

lemma fire_all_changes:
  "fire_all ds k ts (ids, m, d) = Returned (rest, ids', m', d') \<Longrightarrow> typed m \<Longrightarrow> set ts \<subseteq> {..<length (transitions m)} \<Longrightarrow>
     changes UNIV m m' \<and> set rest \<subseteq> set ts"
proof (induction ts arbitrary: ids m d)
  case (Cons t ts)
  obtain b ids1 m1 d1 where one: "fire ds k t (ids, m, d) = Returned (b, ids1, m1, d1)"
    "(if b then fire_all ds k ts (ids1, m1, d1) else Returned (ts, ids1, m1, d1)) = Returned (rest, ids', m', d')"
    using Cons.prems(1) by (auto simp: bind_outcome_Returned)
  have c: "changes UNIV m m1" using fire_changes [OF one(1)] Cons.prems(2,3) by simp
  have "set ts \<subseteq> {..<length (transitions m1)}" using Cons.prems(3) c same_structure_fields(2) by (auto simp: changes_def)
  then show ?case
    using Cons.IH [of ids1 m1 d1] one(2) changes_typed [OF c Cons.prems(2)] changes_UNIV_trans [OF c] c by (auto split: if_splits)
qed simp

lemma config_bound:
  "hierarchy m \<Longrightarrow> currents_ok m \<Longrightarrow> s < length (states m) \<Longrightarrow> x \<in> set (config m k s) \<Longrightarrow> x < length (states m)"
  "hierarchy m \<Longrightarrow> currents_ok m \<Longrightarrow> s < length (states m) \<Longrightarrow> set rs \<subseteq> set (m_setOrderedRegions (state_of m s)) \<Longrightarrow>
     x \<in> set (config_regions m k rs) \<Longrightarrow> x < length (states m)"
proof (induction m k s and m k rs arbitrary: and s rule: config_config_regions.induct)
  case (2 m k s)
  then show ?case by auto
next
  case (4 m k r rs)
  have r: "r < length (regions m)" "r \<in> set (m_setOrderedRegions (state_of m s))" using hierarchyD(2) [OF "4.prems"(1,3), of r] "4.prems"(4) by simp_all
  consider "x \<in> set (config_regions m k rs)" | c where "m_currentState (region_of m r) = Some c" "x \<in> set (config m k c)"
    using "4.prems"(5) by (cases "m_currentState (region_of m r)") auto
  then show ?case
  proof cases
    case (2 c)
    have "c < length (states m)"
      using child_after_parent(2) [OF "4.prems"(1,3) r(2) current_child [OF "4.prems"(2) r(1) 2(1)]] .
    then show ?thesis using "4.IH"(1) [OF 2(1) "4.prems"(1,2)] 2(2) by simp
  qed (use "4.IH"(2) "4.prems" in auto)
qed simp_all

lemma EvalTransitions_bound:
  assumes "EvalTransitions ds m k s look (acts0, def0, d0) = Returned (t, acts, def, d)" "typed m" "s < length (states m)"
    "set acts0 \<subseteq> {..<length (transitions m)}"
  shows "set acts \<subseteq> {..<length (transitions m)}"
proof -
  obtain new where new: "acts = acts0 @ new" "\<forall>t\<in>set new. \<exists>x\<in>set (config m k s). t \<in> set (m_setOrderedOutTransitions (state_of m x))"
    using EvalTransitions_active(1) [OF assms(1)] by auto
  have "t < length (transitions m)" if "t \<in> set new" for t
  proof -
    obtain x where "x \<in> set (config m k s)" "t \<in> set (m_setOrderedOutTransitions (state_of m x))" using new(2) \<open>t \<in> set new\<close> by blast
    then show ?thesis
      using config_bound(1) [OF typed_hierarchy [OF assms(2)] assms(3)] typedD(2) [OF assms(2)] unfolding state_ok_def by blast
  qed
  then show ?thesis using new(1) assms(4) by auto
qed

lemma step_loop_changes:
  "step_loop ds k n root deq (m, d) = Returned (m', d') \<Longrightarrow> typed m \<Longrightarrow> root < length (states m) \<Longrightarrow> set deq \<subseteq> {..<length (transitions m)} \<Longrightarrow>
     changes UNIV m m'"
proof (induction n arbitrary: deq m d)
  case (Suc n)
  obtain t acts def d1 where e: "EvalTransitions ds m k root True (deq, -1, set_EvaluatingTimeOuts ds True d) = Returned (t, acts, def, d1)"
    using Suc.prems(1) by (auto simp: bind_outcome_Returned)
  show ?case
  proof (cases "acts = []")
    case True
    then show ?thesis using Suc.prems(1) e by (simp add: Let_def)
  next
    case False
    have acts: "set acts \<subseteq> {..<length (transitions m)}" using EvalTransitions_bound [OF e Suc.prems(2,3)] Suc.prems(4) by simp
    obtain rest ids m1 d2 where f: "fire_all ds k acts ({}, m, set_EvaluatingTimeOuts ds False d1) = Returned (rest, ids, m1, d2)"
      using Suc.prems(1) e False by (auto simp: bind_outcome_Returned Let_def)
    have c: "changes UNIV m m1" "set rest \<subseteq> set acts" using fire_all_changes [OF f Suc.prems(2) acts] by simp_all
    define r where "r = IsCurrentEventSet ds (ApplyAndResetInternalEvents ds (ResetInputEvents ds (EvaluateTimeOuts ds (clearTimeOutCalls ds ids d2))))"
    have run: "(if fst r then step_loop ds k n root rest (m1, snd r) else Returned (m1, snd r)) = Returned (m', d')"
      using Suc.prems(1) by (simp add: e False f Let_def case_prod_beta r_def cong: if_cong)
    have same: "states m1 = states m" "transitions m1 = transitions m" using c(1) same_structure_fields(1,2) by (auto simp: changes_def)
    show ?thesis
    proof (cases "fst r")
      case True
      have "changes UNIV m1 m'"
        by (rule Suc.IH [of rest m1 "snd r"]) (use True run changes_typed [OF c(1) Suc.prems(2)] Suc.prems(3) same c(2) acts in auto)
      then show ?thesis by (rule changes_UNIV_trans [OF c(1)])
    qed (use run c(1) in simp)
  qed
qed simp

lemma SM_step_changes:
  assumes "SM_step ds k n root init (m, d) = Returned (m', d')" "typed m" "root < length (states m)"
  shows "changes UNIV m m'"
proof -
  let ?d = "setCurrentTime ds (ApplyAndResetInputEvents ds (ResetOutputEvents ds d))"
  obtain more m1 d1 where one: "(if init then bind_outcome (init_machine ds k root (m, ?d)) (\<lambda>(m1, d1).
        let (more, d2) = IsCurrentEventSet ds d1 in Returned (more, m1, d2)) else Returned (True, m, ?d)) = Returned (more, m1, d1)"
    "(if \<not> more then Returned (m1, d1)
     else bind_outcome (step_loop ds k n root [] (m1, snd (GetTimeOutTransitionsToEvaluate ds d1))) (\<lambda>(m2, d2).
       Returned (m2, ResetInternalEvents ds (ResetInputEvents ds d2)))) = Returned (m', d')"
    using assms(1) unfolding SM_step_def Let_def by (auto simp: bind_outcome_Returned simp del: if_not_P split del: if_split)
  have c1: "changes UNIV m m1"
  proof (cases init)
    case True
    then obtain todo todo' d2 d3 where enter: "EvalEntry ds k root False True (todo, m, d2) = Returned (todo', m1, d3)"
      using one(1) by (auto simp: init_machine_def bind_outcome_Returned Let_def case_prod_beta)
    show ?thesis by (rule EvalEntry_typed [OF enter assms(2,3)])
  qed (use one(1) in simp)
  have root: "root < length (states m1)" using c1 assms(3) same_structure_fields(1) by (auto simp: changes_def)
  show ?thesis
  proof (cases more)
    case True
    then obtain d2 d3 where "step_loop ds k n root [] (m1, d2) = Returned (m', d3)"
      using one(2) by (auto simp: bind_outcome_Returned)
    from step_loop_changes [OF this changes_typed [OF c1 assms(2)] root] show ?thesis using changes_UNIV_trans [OF c1] by simp
  qed (use one(2) c1 in simp)
qed

section \<open>A step ends\<close>

text \<open>The exit and entry points of all transitions have been computed.\<close>

definition ready :: "MACHINE \<Rightarrow> bool" where
  "ready m \<longleftrightarrow> (\<forall>t<length (transitions m). m_StateToExit (transition_of m t) \<noteq> None)"

lemma changes_ready: "changes R m m' \<Longrightarrow> ready m \<Longrightarrow> ready m'"
  using same_structure_fields(2) by (auto simp: changes_def ready_def)

lemma fire_returns:
  assumes "typed m" "t < length (transitions m)" "ready m" "length (states m) \<le> k"
  shows "\<exists>p. fire ds k t (ids, m, d) = Returned p"
proof -
  note h = typed_hierarchy [OF assms(1)]
  let ?x = "transition_of m t"
  obtain ex where ex: "m_StateToExit ?x = Some ex" using assms(2,3) unfolding ready_def by blast
  have bound: "ex < length (states m)" "\<forall>y\<in>set (m_StatesToEnter ?x). y < length (states m)"
    using typedD(4) [OF assms(1,2)] ex unfolding transition_ok_def by blast+
  obtain ids1 d1 where one: "EvalExit ds m k ex (\<not> m_TransitionBetweenParallelMachines ?x) (ids, d) = Returned (ids1, d1)"
    using EvalExit_returns(1) [OF h bound(1), of k ds "\<not> m_TransitionBetweenParallelMachines ?x" "(ids, d)"] assms(4) by auto
  show ?thesis
  proof (cases "m_StatesToEnter ?x")
    case Nil
    then show ?thesis using ex one by (auto simp: fire_def Let_def)
  next
    case (Cons y ys)
    then have y: "y < length (states m)" using bound(2) by simp
    obtain todo d2 where two: "EvalTimeOut ds m k y (m_setHistory ?x) (\<not> m_TransitionBetweenParallelMachines ?x)
        (m_StatesToEnter ?x, performAction ds m t d1) = Returned (todo, d2)"
      using EvalTimeOut_returns(1) [OF h y, of k ds "m_setHistory ?x" "\<not> m_TransitionBetweenParallelMachines ?x"
        "(m_StatesToEnter ?x, performAction ds m t d1)"] assms(4) by auto
    obtain p where "EvalEntry ds k y (m_setHistory ?x) (\<not> m_TransitionBetweenParallelMachines ?x) (m_StatesToEnter ?x, m, d2) = Returned p"
      using EvalEntry_returns(1) [of "(m_StatesToEnter ?x, m, d2)" y k ds "m_setHistory ?x" "\<not> m_TransitionBetweenParallelMachines ?x"]
        h y assms(4) by auto
    then show ?thesis using ex one two Cons by (auto simp: fire_def Let_def case_prod_beta)
  qed
qed

lemma fire_all_returns:
  "typed m \<Longrightarrow> ready m \<Longrightarrow> length (states m) \<le> k \<Longrightarrow> set ts \<subseteq> {..<length (transitions m)} \<Longrightarrow> \<exists>p. fire_all ds k ts (ids, m, d) = Returned p"
proof (induction ts arbitrary: ids m d)
  case (Cons t ts)
  obtain b ids1 m1 d1 where one: "fire ds k t (ids, m, d) = Returned (b, ids1, m1, d1)"
    using fire_returns [of m t k ds ids d] Cons.prems by auto
  have c: "changes UNIV m m1" using fire_changes [OF one] Cons.prems(1,4) by simp
  have same: "states m1 = states m" "transitions m1 = transitions m" using c same_structure_fields(1,2) by (auto simp: changes_def)
  have "\<exists>p. fire_all ds k ts (ids1, m1, d1) = Returned p"
    by (rule Cons.IH) (use Cons.prems changes_typed [OF c] changes_ready [OF c] same in auto)
  then show ?case using one by (cases b) simp_all
qed simp

text \<open>With no internal events raised one round is enough.\<close>

lemma step_loop_returns:
  assumes "typed m" "ready m" "length (states m) \<le> k" "\<And>d. \<not> fst (IsCurrentEventSet ds d)"
  shows "\<exists>p. step_loop ds k (Suc n) 0 [] (m, d) = Returned p"
proof -
  obtain t acts def d1 where e: "EvalTransitions ds m k 0 True ([], -1, set_EvaluatingTimeOuts ds True d) = Returned (t, acts, def, d1)"
    using EvalTransitions_returns(1) [OF typed_hierarchy [OF assms(1)] typedD(1) [OF assms(1)], of k ds True "([], -1, set_EvaluatingTimeOuts ds True d)"]
      assms(3) by auto
  have acts: "set acts \<subseteq> {..<length (transitions m)}" using EvalTransitions_bound [OF e assms(1) typedD(1) [OF assms(1)]] by simp
  obtain rest ids m1 d2 where f: "fire_all ds k acts ({}, m, set_EvaluatingTimeOuts ds False d1) = Returned (rest, ids, m1, d2)"
    using fire_all_returns [OF assms(1-3) acts, of ds "{}" "set_EvaluatingTimeOuts ds False d1"] by auto
  show ?thesis
  proof (cases "acts = []")
    case True
    then show ?thesis using e by (simp add: Let_def)
  next
    case False
    then show ?thesis using e f assms(4) by (simp add: Let_def case_prod_beta)
  qed
qed

lemma SM_step_returns:
  assumes "typed m" "ready m" "length (states m) \<le> k" "\<And>d. \<not> fst (IsCurrentEventSet ds d)"
  shows "\<exists>p. SM_step ds k (Suc n) 0 init (m, d) = Returned p"
proof (cases init)
  case True
  let ?d = "setCurrentTime ds (ApplyAndResetInputEvents ds (ResetOutputEvents ds d))"
  note h = typed_hierarchy [OF assms(1)] typedD(1) [OF assms(1)]
  obtain todo d1 where one: "EvalTimeOut ds m k 0 False True ([], ?d) = Returned (todo, d1)"
    using EvalTimeOut_returns(1) [OF h, of k ds False True "([], ?d)"] assms(3) by auto
  obtain todo2 m2 d2 where two: "EvalEntry ds k 0 False True (todo, m, EvaluateTimeOuts ds d1) = Returned (todo2, m2, d2)"
    using EvalEntry_returns(1) [of "(todo, m, EvaluateTimeOuts ds d1)" 0 k ds False True] h assms(3) by auto
  show ?thesis using True one two assms(4) by (simp add: SM_step_def init_machine_def Let_def case_prod_beta)
next
  case False
  then show ?thesis
    using step_loop_returns [OF assms, of n] by (simp add: SM_step_def Let_def) (metis (no_types, lifting) bind_outcome.simps(1) case_prod_conv surj_pair)
qed

section \<open>Transitions reach their target\<close>

text \<open>The states above a state, from the outermost one.\<close>

inductive root_path :: "MACHINE \<Rightarrow> sref \<Rightarrow> sref list \<Rightarrow> bool" for m where
  outermost: "m_pRegion (state_of m s) = None \<Longrightarrow> root_path m s []"
| inner: "m_pRegion (state_of m s) = Some r \<Longrightarrow> r_pState (region_of m r) = Some p \<Longrightarrow> root_path m p ss \<Longrightarrow> root_path m s (ss @ [p])"

inductive_cases root_path_Nil: "root_path m s []"
inductive_cases root_path_snoc: "root_path m s (ss @ [p])"

lemma root_path_unique: "root_path m s ss \<Longrightarrow> root_path m s ss' \<Longrightarrow> ss' = ss"
proof (induction arbitrary: ss' rule: root_path.induct)
  case (inner s r p ss)
  from inner.prems obtain ss1 where "ss' = ss1 @ [p]" "root_path m p ss1" by cases (use inner.hyps in auto)
  then show ?case using inner.IH by simp
qed (auto elim: root_path.cases)

lemma path_to_root_path:
  "path_to_root m k (m_pRegion (state_of m s)) (rs, ss) = Returned (rs', ss') \<Longrightarrow> \<exists>ss1. root_path m s ss1 \<and> ss' = ss1 @ ss"
proof (induction k arbitrary: s rs ss)
  case 0
  then show ?case by (cases "m_pRegion (state_of m s)") (auto intro: root_path.outermost)
next
  case (Suc k)
  show ?case
  proof (cases "m_pRegion (state_of m s)")
    case None
    then show ?thesis using Suc.prems by (auto intro: root_path.outermost)
  next
    case (Some r)
    then obtain p where p: "r_pState (region_of m r) = Some p" using Suc.prems by (cases "r_pState (region_of m r)") simp_all
    then have "path_to_root m k (m_pRegion (state_of m p)) (r # rs, p # ss) = Returned (rs', ss')" using Suc.prems Some by simp
    from Suc.IH [OF this] obtain ss1 where "root_path m p ss1" "ss' = ss1 @ p # ss" by auto
    then show ?thesis using root_path.inner [OF Some p] by (intro exI [of _ "ss1 @ [p]"]) simp
  qed
qed

lemma path_to_root_returns:
  "typed m \<Longrightarrow> s < length (states m) \<Longrightarrow> s \<le> k \<Longrightarrow> \<exists>p. path_to_root m k (m_pRegion (state_of m s)) q = Returned p"
proof (induction k arbitrary: s q)
  case 0
  then have "m_pRegion (state_of m s) = None" using typedD(5) [OF 0(1,2)] by (cases "m_pRegion (state_of m s)") auto
  then show ?case by simp
next
  case (Suc k)
  show ?case
  proof (cases "m_pRegion (state_of m s)")
    case (Some r)
    obtain p where "r_pState (region_of m r) = Some p" "p < s" using typedD(5) [OF Suc.prems(1,2) Some] by blast
    then show ?thesis using Suc.IH [of p "(r # fst q, p # snd q)"] Suc.prems Some by (cases q) auto
  qed simp
qed

text \<open>Objects that belong together know each other from both ends.\<close>

definition linked :: "MACHINE \<Rightarrow> bool" where
  "linked m \<longleftrightarrow> (\<forall>c<length (states m). \<forall>r. m_pRegion (state_of m c) = Some r \<longrightarrow>
     c \<in> set (m_childStates (region_of m r)) \<and> (\<exists>p. r_pState (region_of m r) = Some p \<and> r \<in> set (m_setOrderedRegions (state_of m p))))"

lemma linkedD:
  assumes "linked m" "c < length (states m)" "m_pRegion (state_of m c) = Some r" "r_pState (region_of m r) = Some p"
  shows "c \<in> set (m_childStates (region_of m r))" "r \<in> set (m_setOrderedRegions (state_of m p))"
proof -
  have "c \<in> set (m_childStates (region_of m r)) \<and> (\<exists>p. r_pState (region_of m r) = Some p \<and> r \<in> set (m_setOrderedRegions (state_of m p)))"
    using assms(1-3) unfolding linked_def by blast
  then show "c \<in> set (m_childStates (region_of m r))" "r \<in> set (m_setOrderedRegions (state_of m p))" using assms(4) by auto
qed

lemma chain_snoc: "chain m x (ys @ [p]) \<Longrightarrow> chain m p [s] \<Longrightarrow> chain m x ((ys @ [p]) @ [s])"
  by (induction ys arbitrary: x) auto

lemma root_path_split:
  "root_path m s (pre @ q # post) \<Longrightarrow> linked m \<Longrightarrow> typed m \<Longrightarrow> s < length (states m) \<Longrightarrow>
     root_path m q pre \<and> q < length (states m) \<and> chain m q (post @ [s])"
proof (induction post arbitrary: s rule: rev_induct)
  case Nil
  then obtain r where r: "m_pRegion (state_of m s) = Some r" "r_pState (region_of m r) = Some q" "root_path m q pre"
    by (auto elim: root_path_snoc)
  then show ?case using linkedD [OF Nil(2,4) r(1,2)] typedD(5) [OF Nil(3,4) r(1)] Nil(4) by auto
next
  case (snoc p post)
  then obtain r where r: "m_pRegion (state_of m s) = Some r" "r_pState (region_of m r) = Some p" "root_path m p (pre @ q # post)"
    using root_path_snoc [of m s "pre @ q # post" p] by auto
  have p: "p < length (states m)" using typedD(5) [OF snoc.prems(3,4) r(1)] r(2) snoc.prems(4) by auto
  have "chain m p [s]" using linkedD [OF snoc.prems(2,4) r(1,2)] by auto
  then show ?case using snoc.IH [OF r(3) snoc.prems(2,3) p] chain_snoc by blast
qed

text \<open>The states to enter lead from a state whose ancestors are ancestors of the source, or are none, down to the target.\<close>

definition leads_to :: "MACHINE \<Rightarrow> sref set \<Rightarrow> sref list \<Rightarrow> sref \<Rightarrow> bool" where
  "leads_to m anc todo target \<longleftrightarrow> (\<exists>first ys pre. todo = first # ys \<and> last todo = target \<and> first < length (states m) \<and>
     root_path m first pre \<and> set pre \<subseteq> anc \<and> chain m first ys)"

lemma drop_leads_to:
  assumes "linked m" "typed m" "t < length (states m)" "root_path m t tgt" "set (take i tgt) \<subseteq> anc"
  shows "leads_to m anc (drop i tgt @ [t]) t"
proof (cases "drop i tgt")
  case Nil
  then show ?thesis using assms unfolding leads_to_def by (intro exI [of _ t] exI [of _ "[]"] exI [of _ tgt]) simp
next
  case (Cons f post)
  then have "root_path m t (take i tgt @ f # post)" using assms(4) by (metis append_take_drop_id)
  from root_path_split [OF this assms(1-3)] show ?thesis
    unfolding leads_to_def Cons using assms(5) by (intro exI [of _ f] exI [of _ "post @ [t]"] exI [of _ "take i tgt"]) simp
qed

lemma computeEntryAndExitPoints_leads:
  assumes "computeEntryAndExitPoints t m = Returned m'" "typed m" "linked m" "t < length (transitions m)"
    "m_StatesToEnter (transition_of m t) = []" "\<not> m_TransitionBetweenParallelMachines (transition_of m t)"
    "root_path m (m_SourceState (transition_of m t)) (m_StatePathToRoot (state_of m (m_SourceState (transition_of m t))))"
    "root_path m (m_TargetState (transition_of m t)) (m_StatePathToRoot (state_of m (m_TargetState (transition_of m t))))"
  shows "leads_to m (set (m_StatePathToRoot (state_of m (m_SourceState (transition_of m t))))) (m_StatesToEnter (transition_of m' t))
      (m_TargetState (transition_of m t))"
    "\<exists>ex par ent. m' = update_transition t (\<lambda>y. y\<lparr>m_StateToExit := Some ex, m_TransitionBetweenParallelMachines := par, m_StatesToEnter := ent\<rparr>) m"
proof -
  let ?x = "transition_of m t"
  define src where "src = m_StatePathToRoot (state_of m (m_SourceState ?x))"
  define tgt where "tgt = m_StatePathToRoot (state_of m (m_TargetState ?x))"
  define i where "i = first_difference src tgt"
  let ?differs = "i < min (length src) (length tgt)"
  let ?parallel = "?differs \<and> m_pRegion (state_of m (src ! i)) \<noteq> m_pRegion (state_of m (tgt ! i))"
  let ?ex = "if ?parallel then src ! (i - 1) else if ?differs then src ! i else m_SourceState ?x"
  note folds = src_def [symmetric] tgt_def [symmetric] i_def [symmetric]
  have ok: "\<not> (?parallel \<and> i = 0)"
  proof
    assume P: "?parallel \<and> i = 0"
    have "Undef = Returned m'" using assms(1) unfolding computeEntryAndExitPoints_def Let_def folds if_P [OF P] .
    then show False by simp
  qed
  have m': "m' = update_transition t (\<lambda>y. y\<lparr>m_StateToExit := Some ?ex, m_TransitionBetweenParallelMachines := m_TransitionBetweenParallelMachines ?x \<or> ?parallel,
      m_StatesToEnter := m_StatesToEnter y @ (if m_TransitionBetweenParallelMachines ?x \<or> ?parallel then [?ex] else []) @ drop i tgt @ [m_TargetState ?x]\<rparr>) m"
    using assms(1) unfolding computeEntryAndExitPoints_def Let_def folds if_not_P [OF ok] outcome.inject by (rule sym)
  have enter: "m_StatesToEnter (transition_of m' t) = (if ?parallel then [src ! (i - 1)] else []) @ drop i tgt @ [m_TargetState ?x]"
    unfolding m' using assms(4-6) by (simp add: update_transition_def)
  have target: "m_TargetState ?x < length (states m)" using typedD(4) [OF assms(2,4)] by (simp add: transition_ok_def)
  have common: "take i tgt = take i src" unfolding i_def by (rule first_difference_take [symmetric])
  have le: "i \<le> length src" "i \<le> length tgt" using first_difference_le [of src tgt] by (simp_all add: i_def)
  have rest: "leads_to m (set src) (drop i tgt @ [m_TargetState ?x]) (m_TargetState ?x)"
    by (rule drop_leads_to [OF assms(3,2) target assms(8) [folded tgt_def]]) (use common set_take_subset in metis)
  have "leads_to m (set src) (m_StatesToEnter (transition_of m' t)) (m_TargetState ?x)"
  proof (cases "?parallel")
    case True
    then have i: "0 < i" using ok by auto
    have f: "src ! (i - 1) = tgt ! (i - 1)"
      using arg_cong [OF common, of "\<lambda>xs. xs ! (i - 1)"] i le by simp
    have "drop (i - 1) tgt = tgt ! (i - 1) # drop i tgt" using i le by (metis Cons_nth_drop_Suc One_nat_def Suc_pred diff_less less_le_trans zero_less_one)
    moreover have "set (take (i - 1) tgt) \<subseteq> set src"
    proof -
      have "take (i - 1) tgt = take (i - 1) src" using arg_cong [OF common, of "take (i - 1)"] by (simp add: min_def split: if_splits)
      then show ?thesis by (simp add: set_take_subset)
    qed
    ultimately show ?thesis
      using drop_leads_to [OF assms(3,2) target assms(8) [folded tgt_def], of "i - 1"] enter True f by simp
  next
    case False
    then have "m_StatesToEnter (transition_of m' t) = drop i tgt @ [m_TargetState ?x]" unfolding enter if_not_P [OF False] by simp
    then show ?thesis using rest by simp
  qed
  then show "leads_to m (set (m_StatePathToRoot (state_of m (m_SourceState ?x)))) (m_StatesToEnter (transition_of m' t)) (m_TargetState ?x)"
    unfolding src_def .
  define ent where "ent = m_StatesToEnter ?x @ (if m_TransitionBetweenParallelMachines ?x \<or> ?parallel then [?ex] else []) @ drop i tgt @ [m_TargetState ?x]"
  have "m' = update_transition t (\<lambda>y. y\<lparr>m_StateToExit := Some ?ex, m_TransitionBetweenParallelMachines := m_TransitionBetweenParallelMachines ?x \<or> ?parallel,
      m_StatesToEnter := ent\<rparr>) m"
    unfolding m' ent_def update_transition_def ..
  then show "\<exists>ex par ent. m' = update_transition t (\<lambda>y. y\<lparr>m_StateToExit := Some ex, m_TransitionBetweenParallelMachines := par, m_StatesToEnter := ent\<rparr>) m"
    by blast
qed

section \<open>Active states\<close>

inductive active :: "MACHINE \<Rightarrow> sref \<Rightarrow> sref \<Rightarrow> bool" for m s where
  here: "active m s s"
| inside: "active m s x \<Longrightarrow> r \<in> set (m_setOrderedRegions (state_of m x)) \<Longrightarrow> m_currentState (region_of m r) = Some c \<Longrightarrow> active m s c"

lemma active_trans: "active m x y \<Longrightarrow> active m s x \<Longrightarrow> active m s y"
  by (induction rule: active.induct) (auto intro: active.inside)

lemma config_active:
  "x \<in> set (config m k s) \<Longrightarrow> active m s x"
  "x \<in> set (config_regions m k rs) \<Longrightarrow> set rs \<subseteq> set (m_setOrderedRegions (state_of m s)) \<Longrightarrow> active m s x"
proof (induction m k s and m k rs arbitrary: and s rule: config_config_regions.induct)
  case (4 m k r rs)
  consider "x \<in> set (config_regions m k rs)" | c where "m_currentState (region_of m r) = Some c" "x \<in> set (config m k c)"
    using "4.prems"(1) by (cases "m_currentState (region_of m r)") auto
  then show ?case
  proof cases
    case (2 c)
    have "active m s c" using active.inside [OF active.here _ 2(1)] "4.prems"(2) by simp
    then show ?thesis using active_trans [OF "4.IH"(1) [OF 2]] by simp
  qed (use "4.IH"(2) "4.prems"(2) in simp)
qed (auto intro: active.here)

lemma active_bound:
  assumes "active m s x" "hierarchy m" "currents_ok m" "s < length (states m)"
  shows "x < length (states m)"
  using assms(1)
proof induction
  case (inside x r c)
  then show ?case
    using child_after_parent(2) [OF assms(2) inside.IH inside.hyps(2)] current_child [OF assms(3)] hierarchyD(2) [OF assms(2) inside.IH inside.hyps(2)] by blast
qed (rule assms(4))

text \<open>The ancestors of an active state are active.\<close>

lemma active_ancestors:
  assumes "active m 0 x" "typed m" "root_path m x ss"
  shows "\<forall>y\<in>set ss. active m 0 y"
  using assms(1,3)
proof (induction arbitrary: ss)
  case here
  have "m_pRegion (state_of m 0) = None" using typedD(5) [OF assms(2) typedD(1) [OF assms(2)]] by (cases "m_pRegion (state_of m 0)") auto
  then show ?case using here by (auto elim: root_path.cases)
next
  case (inside x r c)
  have x: "x < length (states m)" by (rule active_bound [OF inside.hyps(1) typed_hierarchy [OF assms(2)] typedD(1) [OF assms(2)]])
  note r = hierarchyD(2) [OF typed_hierarchy(1) [OF assms(2)] x inside.hyps(2)]
  have "m_pRegion (state_of m c) = Some r"
    using child_after_parent(3) [OF typed_hierarchy(1) [OF assms(2)] x inside.hyps(2)] current_child [OF typed_hierarchy(2) [OF assms(2)]] r inside.hyps(3) by blast
  then obtain ss1 where "ss = ss1 @ [x]" "root_path m x ss1"
    using inside.prems r by (auto elim: root_path.cases)
  then show ?case using inside.IH [of ss1] inside.hyps(1) by auto
qed

text \<open>What is active above a state stays so when the state is entered.\<close>

lemma active_above:
  assumes "active m 0 c" "typed m" "changes (regions_below m first \<union> own_region m first) m m'" "first < length (states m)"
    "m_pRegion (state_of m first) = Some r0" "r_pState (region_of m r0) = Some q" "c \<le> q"
  shows "active m' 0 c"
  using assms(1,7)
proof (induction)
  case here
  show ?case by (rule active.here)
next
  case (inside x r c)
  note h = typed_hierarchy [OF assms(2)]
  have x: "x < length (states m)" by (rule active_bound [OF inside.hyps(1) h typedD(1) [OF assms(2)]])
  note r = hierarchyD(2) [OF h(1) x inside.hyps(2)]
  have "x < c" using child_after_parent(1) [OF h(1) x inside.hyps(2)] current_child [OF h(2)] r inside.hyps(3) by blast
  have first: "q < first" by (rule hierarchy_rank [OF h(1) assms(4-6)])
  have "r \<notin> regions_below m first"
  proof
    assume "r \<in> regions_below m first"
    then have "first \<le> x" using below_rank [OF _ h(1)] r by (simp add: regions_below_def)
    then show False using first \<open>x < c\<close> inside.prems by simp
  qed
  moreover have "r \<notin> own_region m first" using assms(5,6) r \<open>x < c\<close> inside.prems by (auto simp: own_region_def)
  ultimately have "m_currentState (region_of m' r) = Some c" using assms(3) r inside.hyps(3) by (simp add: changes_def)
  moreover have "states m' = states m" using assms(3) same_structure_fields(1) by (auto simp: changes_def)
  ultimately show ?case using active.inside [OF inside.IH] inside.hyps(2) inside.prems \<open>x < c\<close> by simp
qed

lemma fire_reaches:
  assumes "fire ds k t (ids, m, d) = Returned (b, ids', m', d')" "typed m" "populated m" "linked m" "t < length (transitions m)"
    "leads_to m (set ss) (m_StatesToEnter (transition_of m t)) target" "root_path m src ss" "active m 0 src"
  shows "b \<and> active m' 0 target"
proof -
  note h = typed_hierarchy [OF assms(2)]
  obtain first ys pre where f: "m_StatesToEnter (transition_of m t) = first # ys" "last (first # ys) = target" "first < length (states m)"
    "root_path m first pre" "set pre \<subseteq> set ss" "chain m first ys"
    using assms(6) unfolding leads_to_def by auto
  obtain hist e d1 todo' where enter: "EvalEntry ds k first hist e (first # ys, m, d1) = Returned (todo', m', d')" and b: b
    using assms(1) f(1) by (auto simp: fire_def Let_def bind_outcome_Returned split: option.splits)
  have "set (first # ys) \<subseteq> set (config m' k first)" using EvalEntry_target [OF enter h assms(3) f(3,6)] by simp
  moreover have "target \<in> set (first # ys)" using f(2) last_in_set [of "first # ys"] by simp
  ultimately have down: "active m' first target" using config_active(1) by blast
  have ch: "changes (regions_below m first \<union> own_region m first) m m'" using EvalEntry_changes(1) [OF enter] h f(3) by simp
  then have st: "states m' = states m" using same_structure_fields(1) by (auto simp: changes_def)
  have "active m' 0 first"
  proof (cases pre rule: rev_cases)
    case Nil
    then have "m_pRegion (state_of m first) = None" using f(4) by (auto elim: root_path.cases)
    then have "first = 0" using typedD(2) [OF assms(2) f(3)] by (simp add: state_ok_def)
    then show ?thesis by (simp add: active.here)
  next
    case (snoc pre1 q)
    then obtain r where r: "m_pRegion (state_of m first) = Some r" "r_pState (region_of m r) = Some q"
      using f(4) root_path_snoc [of m first pre1 q] by auto
    have "active m 0 q" using active_ancestors [OF assms(8,2,7)] f(5) snoc by auto
    then have "active m' 0 q" using active_above [OF _ assms(2) ch f(3) r] by simp
    moreover have "m_currentState (region_of m' r) = Some first"
      by (rule EvalEntry_current [OF enter h f(3) r(1) linkedD(1) [OF assms(4) f(3) r]])
    ultimately show ?thesis using active.inside [of m' 0 q r first] linkedD(2) [OF assms(4) f(3) r] st by simp
  qed
  then show ?thesis using active_trans [OF down] b by simp
qed

text \<open>The computed points stay right: steps change neither the transitions nor the hierarchy.\<close>

lemma chain_cong: "states m' = states m \<Longrightarrow> regions m' = regions m \<Longrightarrow> chain m' x ys = chain m x ys"
  by (induction ys arbitrary: x) auto

lemma root_path_mono:
  assumes "root_path m s ss" "states m' = states m" "\<And>r. r < length (regions m) \<Longrightarrow> r_pState (region_of m' r) = r_pState (region_of m r)" "typed m"
  shows "s < length (states m) \<Longrightarrow> root_path m' s ss"
  using assms(1)
proof (induction)
  case (inner s r p ss)
  have "r < length (regions m)" "p < length (states m)" using typedD(5) [OF assms(4) inner.prems inner.hyps(1)] inner.hyps(2) inner.prems by auto
  then show ?case using root_path.inner [of m' s r p ss] inner assms(2,3) by simp
qed (use assms(2) in \<open>auto intro: root_path.outermost\<close>)

lemma leads_to_same:
  assumes "leads_to m anc todo target" "same_structure m m'" "typed m"
  shows "leads_to m' anc todo target"
proof -
  obtain first ys pre where f: "todo = first # ys" "last todo = target" "first < length (states m)" "root_path m first pre" "set pre \<subseteq> anc" "chain m first ys"
    using assms(1) unfolding leads_to_def by blast
  note s = same_structure_fields(1) [OF assms(2)] and r = same_structure_region(1) [OF assms(2)]
  have "root_path m' first pre" by (rule root_path_mono [OF f(4) s r assms(3) f(3)])
  moreover have "chain m' first ys" using chain_same [OF assms(2) typed_hierarchy(1) [OF assms(3)] f(3)] f(6) by simp
  ultimately show ?thesis using f s unfolding leads_to_def by auto
qed

lemma same_structure_linked: "same_structure m m' \<Longrightarrow> typed m \<Longrightarrow> linked m \<Longrightarrow> linked m'"
  using same_structure_fields(1) [of m m'] same_structure_region(1,2) [of m m'] typedD(5) [of m]
  unfolding linked_def by metis

section \<open>History\<close>

text \<open>With history the current states stay as they are, below a deep one all the way down.\<close>

lemma setCurrentState_id:
  assumes "currents_ok m" "r < length (regions m)" "m_currentState (region_of m r) = Some x"
  shows "setCurrentState r (Some x) m = m"
proof -
  have "(region_of m r)\<lparr>m_currentState := Some x\<rparr> = region_of m r" using assms(3) by (cases "region_of m r") simp
  then show ?thesis
    using current_child [OF assms] by (auto simp: setCurrentState_def update_region_def)
qed

lemma entry_regions_history:
  assumes IH: "\<And>s m d p' r. EvalEntry ds k s True True ([], m, d) = Returned p' \<Longrightarrow> hierarchy m \<Longrightarrow> currents_ok m \<Longrightarrow> populated m \<Longrightarrow>
      s < length (states m) \<Longrightarrow> m_pRegion (state_of m s) = Some r \<Longrightarrow> m_currentState (region_of m r) = Some s \<Longrightarrow> fst p' = [] \<and> fst (snd p') = m"
  shows "entry_regions ds k rs True c ([], m, d) = Returned p' \<Longrightarrow> hierarchy m \<Longrightarrow> currents_ok m \<Longrightarrow> populated m \<Longrightarrow> s < length (states m) \<Longrightarrow>
     set rs \<subseteq> set (m_setOrderedRegions (state_of m s)) \<Longrightarrow> c \<longrightarrow> (\<forall>r\<in>set rs. m_isDeepHistory (region_of m r)) \<Longrightarrow> fst p' = [] \<and> fst (snd p') = m"
proof (induction rs arbitrary: d)
  case (Cons r rs)
  have r: "r < length (regions m)" "r \<in> set (m_setOrderedRegions (state_of m s))" using hierarchyD(2) [of m s r] Cons.prems by auto
  obtain y where y: "m_currentState (region_of m r) = Some y" using Cons.prems(4) r(1) unfolding populated_def by blast
  note yc = current_child [OF Cons.prems(3) r(1) y]
  note child = child_after_parent [OF Cons.prems(2,5) r(2) yc]
  have "state_to_enter m r [] True c = (Some y, True)" using y Cons.prems(7) by (simp add: state_to_enter_def)
  then obtain q where q: "EvalEntry ds k y True True ([], m, d) = Returned q" "entry_regions ds k rs True c q = Returned p'"
    using Cons.prems(1) setCurrentState_id [OF Cons.prems(3) r(1) y] by (auto simp: entry_regions.simps bind_outcome_Returned)
  have "fst q = [] \<and> fst (snd q) = m" by (rule IH [OF q(1) Cons.prems(2-4) child(2,3) y])
  then obtain d2 where "q = ([], m, d2)" by (cases q) simp
  then show ?case using Cons.IH [of d2] q(2) Cons.prems by simp
qed (auto simp: entry_regions.simps)

lemma EvalEntry_history:
  "EvalEntry ds k s True e ([], m, d) = Returned p' \<Longrightarrow> hierarchy m \<Longrightarrow> currents_ok m \<Longrightarrow> populated m \<Longrightarrow> s < length (states m) \<Longrightarrow>
     m_pRegion (state_of m s) = Some r \<Longrightarrow> m_currentState (region_of m r) = Some s \<Longrightarrow> fst p' = [] \<and> fst (snd p') = m"
proof (induction k arbitrary: s e m d p' r)
  case (Suc k)
  have r: "r < length (regions m)" using hierarchyD(4) [OF Suc.prems(2,5,6)] by simp
  have "entry_regions ds k (m_setOrderedRegions (state_of m s)) True False ([], m, if e then performEntry ds m s d else d) = Returned p'"
    using Suc.prems(1,6) setCurrentState_id [OF Suc.prems(3) r Suc.prems(7)] by (simp add: EvalEntry.simps take_off_def)
  from entry_regions_history [OF _ this Suc.prems(2-5) subset_refl] show ?case using Suc.IH by simp
qed (simp add: EvalEntry.simps)

lemma EvalEntry_deep_history:
  assumes "EvalEntry ds k s True e ([s], m, d) = Returned p'" "hierarchy m" "currents_ok m" "populated m" "s < length (states m)"
    "\<forall>r\<in>set (m_setOrderedRegions (state_of m s)). m_isDeepHistory (region_of m r)"
  shows "fst p' = [] \<and> fst (snd p') = (case m_pRegion (state_of m s) of None \<Rightarrow> m | Some r \<Rightarrow> setCurrentState r (Some s) m)"
proof -
  obtain k' m1 where step: "m1 = (case m_pRegion (state_of m s) of None \<Rightarrow> m | Some r \<Rightarrow> setCurrentState r (Some s) m)" "changes (own_region m s) m m1"
    "entry_regions ds k' (m_setOrderedRegions (state_of m s)) True True ([], m1, if e then performEntry ds m s d else d) = Returned p'"
    by (rule EvalEntry_step [OF assms(1,2,5)]) (auto simp: take_off_def)
  have ss: "same_structure m m1" and ok: "currents_ok m1" "populated m1" using step(2) assms(3,4) by (simp_all add: changes_def)
  note same = same_structure_fields(1) [OF ss]
  have deep: "m_isDeepHistory (region_of m1 r)" if "r \<in> set (m_setOrderedRegions (state_of m s))" for r
    using same_structure_region(4) [OF ss] hierarchyD(2) [OF assms(2,5) that] assms(6) that by simp
  have "fst p' = [] \<and> fst (snd p') = m1"
    by (rule entry_regions_history [OF _ step(3) same_structure_hierarchy [OF ss assms(2)] ok, of s], rule EvalEntry_history, assumption+)
      (use assms(5) same deep in simp_all)
  then show ?thesis by (simp add: step(1))
qed

end
