(* ===== verification/StateMachineTheorems.thy ===== *)
theory StateMachineTheorems
  imports StateMachineSteps
begin

text \<open>
  The properties of the state machines.  The demonstration machine has the states 1 and 2 in one region; state 1 has a region with
  the states 3 and 4.  Its data source logs what it is asked to do.
\<close>

section \<open>A demonstration\<close>

definition demo_objects :: MACHINE where
  "demo_objects =
     addState 1 4 False (addState 1 3 True (State_new (Some 1) (Some 1) ''Fast'' OR 4 (State_new (Some 1) (Some 1) ''Slow'' OR 3
       (addChildRegion 1 1 (Region_new ''Speed'' 0 (Some 1)
         (addState 0 2 False (addState 0 1 True (State_new (Some 0) (Some 0) ''Off'' OR 2 (State_new (Some 0) (Some 0) ''On'' OR 1
           (addChildRegion 0 0 (Region_new ''Power'' 0 (Some 0) (StateMachine_new ''M''))))))))))))"

definition demo_transitions :: "MACHINE \<Rightarrow> MACHINE" where
  "demo_transitions m =
     SetDataSource 4 True (SetDataSource 3 True (SetDataSource 2 True (SetDataSource 1 True
       (addOutgoingTransition 2 1 (addOutgoingTransition 1 0 (Transition_new 2 4 0 21 False (Transition_new 1 2 0 12 False m)))))))"

definition demo_machine :: MACHINE where
  "demo_machine =
    (let st = (\<lambda>r p n i rs out path rpath. \<lparr>m_pRegion = r, m_pState = p, m_type = OR, s_name = n, s_id = i, s_ds = i \<noteq> 0, m_DefaultActionSet = False,
       m_setOrderedOutTransitions = out, m_setTimeOutTransitions = [], m_setOrderedRegions = rs, m_RegionPathToRoot = rpath, m_StatePathToRoot = path\<rparr>);
      re = (\<lambda>p n c cs. \<lparr>r_pState = Some p, r_name = n, r_priority = 0, m_initState = Some c, m_currentState = Some c,
        m_historyEnabled = False, m_isDeepHistory = False, m_childStates = cs\<rparr>);
      tr = (\<lambda>s t i ex en. \<lparr>m_SourceState = s, m_TargetState = t, t_priority = 0, t_id = i, t_ds = False, m_TransitionBetweenParallelMachines = False,
        m_setHistory = False, m_evalTimeOut = False, m_StateToExit = Some ex, m_StatesToEnter = en\<rparr>)
    in \<lparr>states = [st None None ''M'' 0 [0] [] [] [], st (Some 0) (Some 0) ''On'' 1 [1] [0] [0] [0], st (Some 0) (Some 0) ''Off'' 2 [] [1] [0] [0],
          st (Some 1) (Some 1) ''Slow'' 3 [] [] [] [], st (Some 1) (Some 1) ''Fast'' 4 [] [] [0, 1] [0, 1]],
        regions = [re 0 ''Power'' 1 [2, 1], re 1 ''Speed'' 3 [4, 3]],
        transitions = [tr 1 2 12 1 [2], tr 2 4 21 2 [1, 4]]\<rparr>)"

definition demo_ds :: "nat list DataSource" where
  "demo_ds =
     \<lparr>ResetOutputEvents = id, ApplyAndResetInputEvents = id, ApplyAndResetInternalEvents = id, ResetInputEvents = id, ResetInternalEvents = id,
      IsCurrentEventSet = (\<lambda>d. (False, d)), performStateEntryAction = (\<lambda>i d. d @ [i]), performStateExitAction = (\<lambda>i d. d @ [100 + i]),
      performStateDuringAction = (\<lambda>i d. d), performDefaultStateAction = (\<lambda>i d. d @ [900 + i]), performTransitionAction = (\<lambda>i d. d),
      evalTransitionGuard = (\<lambda>i d. (True, d)), evalTransitionEventTrigger = (\<lambda>i d. (True, d)), setCurrentTime = id,
      clearTimeOutCalls = (\<lambda>ids d. d), EvaluateTimeOuts = id, GetTimeOutTransitionsToEvaluate = (\<lambda>d. ({}, d)),
      set_EvaluatingTimeOuts = (\<lambda>b d. d)\<rparr>"

lemmas machine_ops = State_new_def Region_new_def Transition_new_def StateMachine_new_def addState_def addChildRegion_def addOutgoingTransition_def
  SetDataSource_def setCurrentState_def update_state_def update_region_def update_transition_def computePathToRoot_def computeEntryAndExitPoints_def

lemma demo_built: "builds\<^sup>*\<^sup>* (StateMachine_new ''M'') demo_machine"
proof -
  note step = rtranclp.rtrancl_into_rtrancl [where r = builds]
  have objects: "builds\<^sup>*\<^sup>* (StateMachine_new ''M'') demo_objects"
    unfolding demo_objects_def
    by (intro step [OF _ builds.add_state] step [OF _ builds.new_state] step [OF _ builds.child_region] step [OF _ builds.new_region] rtranclp.rtrancl_refl)
      (simp_all add: machine_ops)
  have objs: "length (states demo_objects) = 5" "length (transitions demo_objects) = 0" by (simp_all add: demo_objects_def machine_ops)
  have trans: "builds\<^sup>*\<^sup>* (StateMachine_new ''M'') (demo_transitions demo_objects)"
    unfolding demo_transitions_def
    by (intro step [OF _ builds.data_source] step [OF _ builds.outgoing] step [OF _ builds.new_transition] objects)
      (simp_all add: machine_ops objs)
  define m1 where "m1 = update_state 1 (\<lambda>x. x\<lparr>m_RegionPathToRoot := [0], m_StatePathToRoot := [0]\<rparr>) (demo_transitions demo_objects)"
  define m2 where "m2 = update_state 2 (\<lambda>x. x\<lparr>m_RegionPathToRoot := [0], m_StatePathToRoot := [0]\<rparr>) m1"
  define m3 where "m3 = update_state 4 (\<lambda>x. x\<lparr>m_RegionPathToRoot := [0, 1], m_StatePathToRoot := [0, 1]\<rparr>) m2"
  define m4 where "m4 = update_transition 0 (\<lambda>x. x\<lparr>m_StateToExit := Some 1, m_StatesToEnter := [2]\<rparr>) m3"
  note ms = m1_def m2_def m3_def m4_def demo_transitions_def demo_objects_def machine_ops
  have len: "length (states (demo_transitions demo_objects)) = 5" "length (states m1) = 5" "length (states m2) = 5"
    "length (transitions m3) = 2" "length (transitions m4) = 2" by (simp_all add: ms)
  have "computePathToRoot (Suc (Suc 0)) 1 (demo_transitions demo_objects) = Returned m1" by (simp add: ms)
  then have "builds (demo_transitions demo_objects) m1" by (rule builds.path [rotated]) (simp add: len)
  note b1 = step [OF trans this]
  have "computePathToRoot (Suc (Suc 0)) 2 m1 = Returned m2" by (simp add: ms)
  then have "builds m1 m2" by (rule builds.path [rotated]) (simp add: len)
  note b2 = step [OF b1 this]
  have "computePathToRoot (Suc (Suc 0)) 4 m2 = Returned m3" by (simp add: ms)
  then have "builds m2 m3" by (rule builds.path [rotated]) (simp add: len)
  note b3 = step [OF b2 this]
  have "computeEntryAndExitPoints 0 m3 = Returned m4" by (simp add: ms Let_def)
  then have "builds m3 m4" by (rule builds.points [rotated]) (simp add: len)
  note b4 = step [OF b3 this]
  have "computeEntryAndExitPoints 1 m4 = Returned demo_machine" by (simp add: ms demo_machine_def Let_def)
  then have "builds m4 demo_machine" by (rule builds.points [rotated]) (simp add: len)
  then show ?thesis by (rule step [OF b4])
qed

lemma demo_machine_ok:
  "typed demo_machine" "populated demo_machine" "linked demo_machine" "ready demo_machine"
  "length (states demo_machine) = 5" "length (transitions demo_machine) = 2"
proof -
  show "typed demo_machine" by (rule built_typed [OF demo_built])
  show "length (states demo_machine) = 5" "length (transitions demo_machine) = 2" by (simp_all add: demo_machine_def Let_def)
  show "populated demo_machine"
    by (auto simp: populated_def demo_machine_def Let_def less_Suc_eq)
  show "ready demo_machine"
    by (auto simp: ready_def demo_machine_def Let_def less_Suc_eq)
  show "linked demo_machine"
    by (auto simp: linked_def demo_machine_def Let_def less_Suc_eq numeral_eq_Suc)
qed


lemma demo_fire: "fire demo_ds 5 1 ({}, setCurrentState 0 (Some 2) demo_machine, []) =
    Returned (True, {}, setCurrentState 1 (Some 4) demo_machine, [102, 1, 4])"
  by code_simp

section \<open>The machine as a whole\<close>


lemma demo_step: "SM_step demo_ds 5 1 0 False (setCurrentState 0 (Some 2) demo_machine, []) = Returned (setCurrentState 1 (Some 4) demo_machine, [102, 1, 4])"
  by code_simp



text \<open>C26. A step ends: once the entry and exit points of the transitions are computed, a depth bound of the number
  of states is enough for every evaluation, and when no internal events are raised one round is enough, for any guards and
  actions.\<close>

theorem machine_step_ends:
  assumes "builds\<^sup>*\<^sup>* (StateMachine_new name) m" "ready m" "length (states m) \<le> k" "\<And>d. \<not> fst (IsCurrentEventSet ds d)"
  shows "\<exists>m' d'. SM_step ds k (Suc n) 0 init (m, d) = Returned (m', d')"
  using SM_step_returns [OF built_typed [OF assms(1)] assms(2,3), of ds n init d] assms(4) by auto

theorem machine_step_ends_witness:
  "\<exists>m' d'. SM_step demo_ds 5 (Suc 2) 0 True (demo_machine, [7]) = Returned (m', d')"
  using machine_step_ends [OF demo_built demo_machine_ok(4), of 5 demo_ds 2 True "[7]"] demo_machine_ok(5) by (simp add: demo_ds_def)

section \<open>Entry and exit\<close>



lemma active_below: "active m s x \<Longrightarrow> typed m \<Longrightarrow> s < length (states m) \<Longrightarrow> x = s \<or> (\<exists>r. m_pRegion (state_of m x) = Some r \<and> below m s r)"
proof (induction rule: active.induct)
  case (inside x r c)
  note h = typed_hierarchy [OF inside.prems(1)]
  have x: "x < length (states m)" by (rule active_bound [OF inside.hyps(1) h inside.prems(2)])
  note r = hierarchyD(2) [OF h(1) x inside.hyps(2)]
  have c: "m_pRegion (state_of m c) = Some r"
    using child_after_parent(3) [OF h(1) x inside.hyps(2)] current_child [OF h(2)] r inside.hyps(3) by blast
  have "below m s r"
    using inside.IH [OF inside.prems]
  proof
    assume "x = s"
    then show ?thesis using r by (auto intro: below.direct)
  next
    assume "\<exists>r. m_pRegion (state_of m x) = Some r \<and> below m s r"
    then show ?thesis using r x by (auto intro: below.deeper)
  qed
  then show ?case using c by blast
qed simp

lemma active_rank: "active m s x \<Longrightarrow> typed m \<Longrightarrow> s < length (states m) \<Longrightarrow> s \<le> x"
proof (induction rule: active.induct)
  case (inside x r c)
  note h = typed_hierarchy [OF inside.prems(1)]
  have x: "x < length (states m)" by (rule active_bound [OF inside.hyps(1) h inside.prems(2)])
  note r = hierarchyD(2) [OF h(1) x inside.hyps(2)]
  have "x < c" using child_after_parent(1) [OF h(1) x inside.hyps(2)] current_child [OF h(2)] r inside.hyps(3) by blast
  then show ?case using inside.IH inside.prems by simp
qed simp

text \<open>The current states of two regions of a state have nothing active in common.\<close>

lemma active_siblings:
  assumes "typed m" "s < length (states m)" "r1 \<in> set (m_setOrderedRegions (state_of m s))" "r2 \<in> set (m_setOrderedRegions (state_of m s))"
    "r1 \<noteq> r2" "m_currentState (region_of m r1) = Some c1" "m_currentState (region_of m r2) = Some c2" "active m c1 x" "active m c2 x"
  shows False
proof -
  note h = typed_hierarchy [OF assms(1)]
  note r = hierarchyD(2) [OF h(1) assms(2,3)] hierarchyD(2) [OF h(1) assms(2,4)]
  note c1 = child_after_parent [OF h(1) assms(2,3) current_child [OF h(2) _ assms(6)]]
  note c2 = child_after_parent [OF h(1) assms(2,4) current_child [OF h(2) _ assms(7)]]
  have c: "s < c1" "c1 < length (states m)" "m_pRegion (state_of m c1) = Some r1" "s < c2" "c2 < length (states m)" "m_pRegion (state_of m c2) = Some r2"
    using c1 c2 r by auto
  have no: "\<not> below m c' r'" if "s < c'" "r_pState (region_of m r') = Some s" for c' r'
    using below_rank [OF _ h(1) that(2)] that(1) by fastforce
  have p: "r_pState (region_of m r1) = Some s" "r_pState (region_of m r2) = Some s" using r by simp_all
  consider "x = c1" "x = c2" | "x = c1" "below m c2 r1" | "x = c2" "below m c1 r2" |
    r' where "below m c1 r'" "below m c2 r'"
    using active_below [OF assms(8,1) c(2)] active_below [OF assms(9,1) c(5)] c(3,6) by auto
  then show False
  proof cases
    case 1
    then show False using c(3,6) assms(5) by simp
  next
    case 2
    then show False using no [OF c(4) p(1)] by simp
  next
    case 3
    then show False using no [OF c(1) p(2)] by simp
  next
    case (4 r')
    then show False using siblings_disjoint [OF h(1) 4 c(2,5) c(3,6) p] assms(5) by simp
  qed
qed

lemma exit_order_active: "x \<in> set (exit_order m k s) \<Longrightarrow> active m s x"
proof -
  have "set (exit_order m k s) = set (config m k s)" by (rule mset_eq_setD [OF exit_order_mset(1)])
  then show "x \<in> set (exit_order m k s) \<Longrightarrow> active m s x" using config_active(1) by blast
qed

text \<open>An inner state is left before the states around it.\<close>

lemma exit_order_inner_first:
  "typed m \<Longrightarrow> s < length (states m) \<Longrightarrow> sorted_wrt (\<lambda>a b. \<not> active m a b) (exit_order m k s)"
  "typed m \<Longrightarrow> s < length (states m) \<Longrightarrow> set rs \<subseteq> set (m_setOrderedRegions (state_of m s)) \<Longrightarrow> distinct rs \<Longrightarrow>
     sorted_wrt (\<lambda>a b. \<not> active m a b) (exit_order_regions m k rs) \<and>
     (\<forall>x\<in>set (exit_order_regions m k rs). \<exists>r\<in>set rs. \<exists>c. m_currentState (region_of m r) = Some c \<and> active m c x)"
proof (induction m k s and m k rs arbitrary: and s rule: exit_order_exit_order_regions.induct)
  case (2 m k s)
  note h = typed_hierarchy [OF "2.prems"(1)]
  have regs: "sorted_wrt (\<lambda>a b. \<not> active m a b) (exit_order_regions m k (m_setOrderedRegions (state_of m s)))"
    "\<forall>x\<in>set (exit_order_regions m k (m_setOrderedRegions (state_of m s))).
       \<exists>r\<in>set (m_setOrderedRegions (state_of m s)). \<exists>c. m_currentState (region_of m r) = Some c \<and> active m c x"
    using "2.IH" [OF "2.prems" subset_refl hierarchyD(1) [OF h(1) "2.prems"(2)]] by simp_all
  have "\<not> active m x s" if x: "x \<in> set (exit_order_regions m k (m_setOrderedRegions (state_of m s)))" for x
  proof
    assume a: "active m x s"
    obtain r c where rc: "r \<in> set (m_setOrderedRegions (state_of m s))" "m_currentState (region_of m r) = Some c" "active m c x"
      using regs(2) x by blast
    note r_len = hierarchyD(2) [OF h(1) "2.prems"(2) rc(1), THEN conjunct1]
    note c = child_after_parent(1,2) [OF h(1) "2.prems"(2) rc(1) current_child [OF h(2) r_len rc(2)]]
    have "c \<le> x" by (rule active_rank [OF rc(3) "2.prems"(1) c(2)])
    moreover have "x \<le> s" by (rule active_rank [OF a "2.prems"(1) active_bound [OF rc(3) h c(2)]])
    ultimately show False using c(1) by simp
  qed
  then show ?case using regs(1) by (simp add: sorted_wrt_append)
next
  case (4 m k r rs)
  note h = typed_hierarchy [OF "4.prems"(1)]
  have rs: "set rs \<subseteq> set (m_setOrderedRegions (state_of m s))" "distinct rs" "r \<in> set (m_setOrderedRegions (state_of m s))" "r \<notin> set rs"
    using "4.prems"(3,4) by simp_all
  note rest = "4.IH"(2) [OF "4.prems"(1,2) rs(1,2)]
  show ?case
  proof (cases "m_currentState (region_of m r)")
    case None
    then show ?thesis using rest by auto
  next
    case (Some c)
    note r_len = hierarchyD(2) [OF h(1) "4.prems"(2) rs(3), THEN conjunct1]
    note c = child_after_parent(2) [OF h(1) "4.prems"(2) rs(3) current_child [OF h(2) r_len Some]]
    have "\<not> active m a b" if in_order: "a \<in> set (exit_order m k c)" "b \<in> set (exit_order_regions m k rs)" for a b
    proof
      assume ab: "active m a b"
      obtain r' c' where r': "r' \<in> set rs" "m_currentState (region_of m r') = Some c'" "active m c' b" using rest in_order(2) by blast
      show False
        by (rule active_siblings [OF "4.prems"(1,2) rs(3) _ _ Some r'(2) active_trans [OF ab exit_order_active [OF in_order(1)]] r'(3)])
          (use rs(1,4) r'(1) in auto)
    qed
    then show ?thesis using rest "4.IH"(1) [OF Some "4.prems"(1) c] Some exit_order_active by (auto simp: sorted_wrt_append)
  qed
qed simp_all

text \<open>Leaving a state runs the exit actions of exactly the states that are active from it on, each once, and an inner state's
  before those of the states around it.\<close>

theorem exit_runs_active:
  assumes "EvalExit ds m k s True (ids, d) = Returned (ids', d')" "typed m" "s < length (states m)"
  shows "d' = fold (performExit ds m) (exit_order m k s) d \<and> mset (exit_order m k s) = mset (config m k s) \<and>
    sorted_wrt (\<lambda>a b. \<not> active m a b) (exit_order m k s)"
  using EvalExit_order(1) [OF assms(1)] exit_order_mset(1) exit_order_inner_first(1) [OF assms(2,3)] by simp

theorem exit_runs_active_witness:
  "\<exists>ids' d'. EvalExit demo_ds demo_machine 5 1 True ({}, []) = Returned (ids', d') \<and> d' = [103, 101] \<and> exit_order demo_machine 5 1 = [3, 1] \<and>
     d' = fold (performExit demo_ds demo_machine) (exit_order demo_machine 5 1) []"
proof -
  have x: "EvalExit demo_ds demo_machine 5 1 True ({}, []) = Returned ({}, [103, 101])" by code_simp
  have o: "exit_order demo_machine 5 1 = [3, 1]" by code_simp
  have "1 < length (states demo_machine)" using demo_machine_ok(5) by simp
  from exit_runs_active [OF x demo_machine_ok(1) this] x o show ?thesis by blast
qed

section \<open>Transitions\<close>

text \<open>C27. A transition reaches its target: with the paths to the root and the entry and exit points as the code computes them,
  and whatever steps happened since, firing a transition whose source is active makes its target active from
  the root down, across any number of levels and regions.\<close>

theorem transition_reaches_target:
  assumes "builds\<^sup>*\<^sup>* (StateMachine_new name) m" "linked m" "t < length (transitions m)"
    "m_StatesToEnter (transition_of m t) = []" "\<not> m_TransitionBetweenParallelMachines (transition_of m t)"
    "root_path m (m_SourceState (transition_of m t)) (m_StatePathToRoot (state_of m (m_SourceState (transition_of m t))))"
    "root_path m (m_TargetState (transition_of m t)) (m_StatePathToRoot (state_of m (m_TargetState (transition_of m t))))"
    "computeEntryAndExitPoints t m = Returned m1" "changes UNIV m1 m2" "populated m2"
    "active m2 0 (m_SourceState (transition_of m t))" "fire ds k t (ids, m2, d) = Returned (b, ids', m3, d')"
  shows "b \<and> active m3 0 (m_TargetState (transition_of m t))"
proof -
  note typed = built_typed [OF assms(1)]
  let ?src = "m_SourceState (transition_of m t)" and ?tgt = "m_TargetState (transition_of m t)"
  let ?path = "m_StatePathToRoot (state_of m ?src)"
  note points = computeEntryAndExitPoints_leads [OF assms(8) typed assms(2-7)]
  obtain ex par ent where m1: "m1 = update_transition t (\<lambda>y. y\<lparr>m_StateToExit := Some ex, m_TransitionBetweenParallelMachines := par, m_StatesToEnter := ent\<rparr>) m"
    using points(2) by blast
  have same1: "states m1 = states m" "regions m1 = regions m" "length (transitions m1) = length (transitions m)"
    by (simp_all add: m1 update_transition_def)
  have typed1: "typed m1" by (rule computeEntryAndExitPoints_typed [OF typed assms(3,8)])
  have ss: "same_structure m1 m2" using assms(9) by (simp add: changes_def)
  note typed2 = changes_typed [OF assms(9) typed1]
  have src: "?src < length (states m)" using typedD(4) [OF typed assms(3)] by (simp add: transition_ok_def)
  obtain first ys pre where f: "m_StatesToEnter (transition_of m1 t) = first # ys" "last (first # ys) = ?tgt" "first < length (states m)"
    "root_path m first pre" "set pre \<subseteq> set ?path" "chain m first ys"
    using points(1) unfolding leads_to_def by auto
  have "root_path m1 first pre" by (rule root_path_mono [OF f(4) same1(1) _ typed f(3)]) (simp add: same1)
  moreover have "chain m1 first ys" using f(6) chain_cong [OF same1(1,2)] by simp
  ultimately have "leads_to m1 (set ?path) (m_StatesToEnter (transition_of m1 t)) ?tgt"
    using f same1(1) unfolding leads_to_def by auto
  then have leads: "leads_to m2 (set ?path) (m_StatesToEnter (transition_of m2 t)) ?tgt"
    using leads_to_same [OF _ ss typed1] same_structure_fields(2) [OF ss] by simp
  have "root_path m1 ?src ?path" by (rule root_path_mono [OF assms(6) same1(1) _ typed src]) (simp add: same1)
  then have path: "root_path m2 ?src ?path"
    by (rule root_path_mono [OF _ same_structure_fields(1) [OF ss] same_structure_region(1) [OF ss] typed1]) (use src same1(1) in simp_all)
  have "linked m1" using assms(2) by (simp add: linked_def same1)
  then have "linked m2" by (rule same_structure_linked [OF ss typed1])
  moreover have "t < length (transitions m2)" using assms(3) same1(3) same_structure_fields(2) [OF ss] by simp
  ultimately show ?thesis by (rule fire_reaches [OF assms(12) typed2 assms(10) _ _ leads path assms(11)])
qed

definition demo_new :: MACHINE where "demo_new = Transition_new 2 4 0 99 False demo_machine"

definition demo_points :: MACHINE where
  "demo_points = update_transition 2 (\<lambda>x. x\<lparr>m_StateToExit := Some 2, m_StatesToEnter := [1, 4]\<rparr>) demo_new"

definition demo_off :: MACHINE where "demo_off = setCurrentState 0 (Some 2) demo_points"

lemma demo_new_facts:
  "builds\<^sup>*\<^sup>* (StateMachine_new ''M'') demo_new" "linked demo_new" "length (transitions demo_new) = 3"
  "computeEntryAndExitPoints 2 demo_new = Returned demo_points" "populated demo_off"
  "changes UNIV demo_points demo_off" "active demo_off 0 2" "root_path demo_new 2 [0]" "root_path demo_new 4 [0, 1]"
proof -
  have "builds demo_machine demo_new" unfolding demo_new_def by (rule builds.new_transition) (simp_all add: demo_machine_ok)
  then show "builds\<^sup>*\<^sup>* (StateMachine_new ''M'') demo_new" by (rule rtranclp.rtrancl_into_rtrancl [OF demo_built])
  have same: "states demo_new = states demo_machine" "regions demo_new = regions demo_machine" by (simp_all add: demo_new_def Transition_new_def)
  show "linked demo_new" using demo_machine_ok(3) by (simp add: linked_def same)
  show "length (transitions demo_new) = 3" using demo_machine_ok(6) by (simp add: demo_new_def Transition_new_def)
  show "computeEntryAndExitPoints 2 demo_new = Returned demo_points" by code_simp
  have points: "states demo_points = states demo_machine" "regions demo_points = regions demo_machine"
    by (simp_all add: demo_points_def update_transition_def same)
  have len: "length (regions demo_points) = 2" by (simp add: points) code_simp
  have "populated demo_points" using demo_machine_ok(2) by (simp add: populated_def points)
  then show "populated demo_off" unfolding demo_off_def by (rule setCurrentState_populated) (simp add: len)
  show "changes UNIV demo_points demo_off" unfolding demo_off_def by (rule changes_UNIV [OF changes_setCurrentState]) (simp add: len)
  have "0 \<in> set (m_setOrderedRegions (state_of demo_off 0))" "m_currentState (region_of demo_off 0) = Some 2" by code_simp+
  then show "active demo_off 0 2" using active.inside [OF active.here] by blast
  have r: "m_pRegion (state_of demo_new 2) = Some 0" "m_pRegion (state_of demo_new 1) = Some 0" "m_pRegion (state_of demo_new 4) = Some 1"
    "m_pRegion (state_of demo_new 0) = None" "r_pState (region_of demo_new 0) = Some 0" "r_pState (region_of demo_new 1) = Some 1" by code_simp+
  have zero: "root_path demo_new 0 []" by (rule root_path.outermost) (rule r)
  show "root_path demo_new 2 [0]" using root_path.inner [OF r(1,5) zero] by simp
  have "root_path demo_new 1 [0]" using root_path.inner [OF r(2,5) zero] by simp
  from root_path.inner [OF r(3,6) this] show "root_path demo_new 4 [0, 1]" unfolding append_Cons append_Nil .
qed

theorem transition_reaches_target_witness:
  "\<exists>b ids' m3 d'. fire demo_ds 5 2 ({}, demo_off, []) = Returned (b, ids', m3, d') \<and> d' = [102, 1, 4] \<and> b \<and> active m3 0 4"
proof -
  obtain ids' m3 where run: "fire demo_ds 5 2 ({}, demo_off, []) = Returned (True, ids', m3, [102, 1, 4])"
  proof
    show "fire demo_ds 5 2 ({}, demo_off, []) = Returned (True, {}, setCurrentState 1 (Some 4) (setCurrentState 0 (Some 1) demo_off), [102, 1, 4])"
      by code_simp
  qed
  have t: "m_SourceState (transition_of demo_new 2) = 2" "m_TargetState (transition_of demo_new 2) = 4" "m_StatesToEnter (transition_of demo_new 2) = []"
    "m_TransitionBetweenParallelMachines (transition_of demo_new 2) = False"
    "m_StatePathToRoot (state_of demo_new 2) = [0]" "m_StatePathToRoot (state_of demo_new 4) = [0, 1]"
    "2 < length (transitions demo_new)" by code_simp+
  have "True \<and> active m3 0 (m_TargetState (transition_of demo_new 2))"
    by (rule transition_reaches_target [OF demo_new_facts(1,2) _ _ _ _ _ demo_new_facts(4,6,5) _ run])
      (simp_all only: t demo_new_facts not_False_eq_True)
  then show ?thesis using run t(2) by auto
qed

text \<open>The default action of a state is never performed: the evaluation overwrites the identifier it has found, so when no
  transition is active the identifier is -1, whatever default actions the active states have, and the step ends there.\<close>

theorem no_default_action:
  assumes "EvalTransitions ds m k root True (deqTransitions, -1, set_EvaluatingTimeOuts ds True d) = Returned (t, [], defaultActionID, d')"
  shows "defaultActionID = -1 \<and>
    step_loop ds k (Suc n) root deqTransitions (m, d) = Returned (m, set_EvaluatingTimeOuts ds False d')"
  using EvalTransitions_no_default(1) [OF assms] assms by (simp add: Let_def)

theorem no_default_action_witness:
  "m_DefaultActionSet (state_of (SetDefaultAction 3 (SetDefaultAction 0 demo_machine)) 3) \<and>
     step_loop demo_ds 5 (Suc 0) 3 [] (SetDefaultAction 3 (SetDefaultAction 0 demo_machine), []) =
       Returned (SetDefaultAction 3 (SetDefaultAction 0 demo_machine), [])"
proof -
  let ?m = "SetDefaultAction 3 (SetDefaultAction 0 demo_machine)"
  have m: "m_DefaultActionSet (state_of ?m 3)" by code_simp
  have x: "EvalTransitions demo_ds ?m 5 3 True ([], -1, set_EvaluatingTimeOuts demo_ds True []) = Returned (None, [], -1, [])" by code_simp
  have d: "set_EvaluatingTimeOuts demo_ds False [] = []" by (simp add: demo_ds_def)
  show ?thesis using m no_default_action [OF x, of 0] d by simp
qed




end
