(* ===== verification/EventPort.thy ===== *)
theory EventPort
  imports PortServices BlackboardServices Sockets
begin

text \<open>
  Event ports: class ACM\_EVENT\_PORT of include/ACM/USER/EVENT\_PORT.h and src/EVENT\_PORT.cc.  A port stands for one of
  four mechanisms of the partition (blackboard, buffer, sampling port, queuing port), and may send to and receive
  from other modules through sockets.  A message travels with the time it was written, eight bytes before it.
  The services are called on the instance \<open>a\<close> of the partition that exists; message queues and sockets are calls on
  the state \<open>'w\<close> of the system.  A \<open>SocketException\<close>, which the class does not handle, is \<open>Aborted\<close>.
\<close>

datatype EVENT_PORT_COMM_TYPE = READ | WRITE

datatype COMM_IMPL_TYPE = UNDEFINED | BLACKBOARD | BUFFER | SAMPLINGPORT | QUEUEINGPORT

text \<open>A sending socket is there or not; a receiving one is bound to a port number.\<close>

record ACM_EVENT_PORT =
  EVENT_PORT_TYPE :: EVENT_PORT_COMM_TYPE
  EVENT_PORT_ID :: nat
  EVENT_PORT_NAME :: NAME_TYPE
  EVENT_PORT_VALIDITY_PERIOD :: SYSTEM_TIME_TYPE
  EVENT_PORT_PAYLOAD :: "byte list"
  EVENT_PORT_TOTAL_SIZE :: int
  EVENT_PORT_IMPL_TYPE :: COMM_IMPL_TYPE
  EVENT_PORT_DESTRUCTIVE_READ :: bool
  DESTINATIONS_URLS :: "DESTINATION_URL list"
  sender_mySocket :: bool
  recv_mySocket :: "nat option"
  INTER_MODULE_DATA_BUFFER :: "byte list option"
  ONLY_INTER_MODULE :: bool

text \<open>\<open>sizeof(SYSTEM_TIME_TYPE)\<close>, and with \<open>sizeof(MESSAGE_SIZE_TYPE)\<close> the header of a datagram.\<close>

definition TIME_SIZE :: int where "TIME_SIZE = 8"

definition datagram_size :: "ACM_EVENT_PORT \<Rightarrow> int" where
  "datagram_size p = 16 + EVENT_PORT_TOTAL_SIZE p"

definition intra_partition :: "ACM_EVENT_PORT \<Rightarrow> bool" where
  "intra_partition p \<longleftrightarrow> EVENT_PORT_IMPL_TYPE p = BUFFER \<or> EVENT_PORT_IMPL_TYPE p = BLACKBOARD"

section \<open>Construction\<close>

text \<open>The mechanism by the size of the port, whether its ends are in one partition, and whether a read takes the message away.\<close>

definition impl_type :: "int \<Rightarrow> bool \<Rightarrow> bool \<Rightarrow> COMM_IMPL_TYPE" where
  "impl_type MAX_NB isCOLOCATED isDESTRUCTIVEREAD =
     (if MAX_NB = 1 then
        (if isCOLOCATED then (if isDESTRUCTIVEREAD then BUFFER else BLACKBOARD)
         else (if isDESTRUCTIVEREAD then QUEUEINGPORT else SAMPLINGPORT))
      else if MAX_NB > 1 then
        (if isCOLOCATED then (if isDESTRUCTIVEREAD then BUFFER else UNDEFINED)
         else (if isDESTRUCTIVEREAD then QUEUEINGPORT else UNDEFINED))
      else UNDEFINED)"

text \<open>What the constructor finds: the memory of malloc, the value of EVENT\_PORT\_ID, which it does not initialise, and what
  the creation of the mechanism finds.\<close>

record create_env =
  payload_heap :: "byte list"
  uninitialised_id :: nat
  new_shm :: shm_answers
  new_unmapped :: SAMPLING_DATA
  board_heap :: "byte list"
  buffer_heap :: "PAYLOAD_TYPE list"

text \<open>Creation; when it answers NO\_ACTION, the object of that name is looked up.\<close>

definition create_or_find ::
  "nat \<Rightarrow> (nat reply \<times> APEX) outcome \<Rightarrow> (APEX \<Rightarrow> (nat reply \<times> APEX) outcome) \<Rightarrow> (RETURN_CODE_TYPE \<times> nat \<times> APEX) outcome" where
  "create_or_find old created find_id =
     bind_outcome created (\<lambda>((rc, out), a1).
       let i = (case out of None \<Rightarrow> old | Some i \<Rightarrow> i) in
       if rc = NO_ACTION then
         bind_outcome (find_id a1) (\<lambda>((rc2, out2), a2). Returned (rc2, case out2 of None \<Rightarrow> i | Some i2 \<Rightarrow> i2, a2))
       else Returned (rc, i, a1))"

definition create_implementation ::
  "'w mq_calls \<Rightarrow> create_env \<Rightarrow> COMM_IMPL_TYPE \<Rightarrow> EVENT_PORT_COMM_TYPE \<Rightarrow> NAME_TYPE \<Rightarrow> int \<Rightarrow> SYSTEM_TIME_TYPE \<Rightarrow> int \<Rightarrow>
   APEX \<Rightarrow> 'w \<Rightarrow> (RETURN_CODE_TYPE \<times> nat \<times> APEX) outcome \<times> 'w" where
  "create_implementation mq e impl COMM_TYPE name total_size VALIDITY_PERIOD MAX_NB a w =
     (let direction = (if COMM_TYPE = WRITE then SOURCE else DESTINATION); old = uninitialised_id e in
      case impl of
        SAMPLINGPORT \<Rightarrow>
          (create_or_find old (CREATE_SAMPLING_PORT name total_size direction VALIDITY_PERIOD (new_shm e) (new_unmapped e) a)
             (GET_SAMPLING_PORT_ID name), w)
      | QUEUEINGPORT \<Rightarrow>
          let (created, w1) = CREATE_QUEUING_PORT mq name total_size MAX_NB direction FIFO a w
          in (create_or_find old created (GET_QUEUING_PORT_ID name), w1)
      | BLACKBOARD \<Rightarrow> (create_or_find old (CREATE_BLACKBOARD name total_size (board_heap e) a) (GET_BLACKBOARD_ID name), w)
      | BUFFER \<Rightarrow> (create_or_find old (CREATE_BUFFER name total_size MAX_NB FIFO (buffer_heap e) a) (GET_BUFFER_ID name), w)
      | UNDEFINED \<Rightarrow> (Returned (INVALID_CONFIG, old, a), w))"

definition ACM_EVENT_PORT_new ::
  "'w mq_calls \<Rightarrow> create_env \<Rightarrow> EVENT_PORT_COMM_TYPE \<Rightarrow> NAME_TYPE \<Rightarrow> int \<Rightarrow> SYSTEM_TIME_TYPE \<Rightarrow> int \<Rightarrow> bool \<Rightarrow> bool \<Rightarrow>
   APEX \<Rightarrow> 'w \<Rightarrow> (RETURN_CODE_TYPE \<times> ACM_EVENT_PORT \<times> APEX) outcome \<times> 'w" where
  "ACM_EVENT_PORT_new mq e COMM_TYPE name SIZE VALIDITY_PERIOD MAX_NB isCOLOCATED isDESTRUCTIVEREAD a w =
     (let total_size = SIZE + TIME_SIZE;
          impl = impl_type MAX_NB isCOLOCATED isDESTRUCTIVEREAD;
          (made, w1) = create_implementation mq e impl COMM_TYPE name total_size VALIDITY_PERIOD MAX_NB a w
      in (bind_outcome made (\<lambda>(rc, i, a1). Returned (rc,
            \<lparr>EVENT_PORT_TYPE = COMM_TYPE, EVENT_PORT_ID = i, EVENT_PORT_NAME = name,
             EVENT_PORT_VALIDITY_PERIOD = VALIDITY_PERIOD, EVENT_PORT_PAYLOAD = payload_heap e,
             EVENT_PORT_TOTAL_SIZE = total_size, EVENT_PORT_IMPL_TYPE = impl,
             EVENT_PORT_DESTRUCTIVE_READ = isDESTRUCTIVEREAD, DESTINATIONS_URLS = [], sender_mySocket = False,
             recv_mySocket = None, INTER_MODULE_DATA_BUFFER = None, ONLY_INTER_MODULE = False\<rparr>, a1)), w1))"

section \<open>Sockets of a port\<close>

text \<open>\<open>rc\<close> is what RETURN\_CODE points to before the call, which a successful call does not store to.\<close>

definition SET_ONLY_INTER_MODULE :: "RETURN_CODE_TYPE \<Rightarrow> ACM_EVENT_PORT \<Rightarrow> RETURN_CODE_TYPE \<times> ACM_EVENT_PORT" where
  "SET_ONLY_INTER_MODULE rc p =
     (if \<not> sender_mySocket p then (NOT_AVAILABLE, p) else (rc, p\<lparr>ONLY_INTER_MODULE := True\<rparr>))"

text \<open>\<open>socket_made\<close> tells whether the system gives the socket, \<open>heap\<close> is the memory of new.\<close>

definition ADD_INTER_MODULE_DESTINATION_URL ::
  "bool \<Rightarrow> byte list \<Rightarrow> NAME_TYPE \<Rightarrow> nat \<Rightarrow> ACM_EVENT_PORT \<Rightarrow> (RETURN_CODE_TYPE \<times> ACM_EVENT_PORT) outcome" where
  "ADD_INTER_MODULE_DESTINATION_URL socket_made heap nodename port_number p =
     (if EVENT_PORT_TYPE p = READ then Returned (INVALID_MODE, p)
      else if intra_partition p then Returned (INVALID_MODE, p)
      else if \<not> sender_mySocket p \<and> \<not> socket_made then Aborted
      else Returned (NO_ERROR,
        p\<lparr>sender_mySocket := True,
          INTER_MODULE_DATA_BUFFER := (case INTER_MODULE_DATA_BUFFER p of None \<Rightarrow> Some heap | Some b \<Rightarrow> Some b),
          DESTINATIONS_URLS := DESTINATIONS_URLS p @ [\<lparr>node_name = nodename, url_port = port_number\<rparr>]\<rparr>))"

definition ADD_INTER_MODULE_SOURCE_SOCKET ::
  "bool \<Rightarrow> byte list \<Rightarrow> nat \<Rightarrow> ACM_EVENT_PORT \<Rightarrow> (RETURN_CODE_TYPE \<times> ACM_EVENT_PORT) outcome" where
  "ADD_INTER_MODULE_SOURCE_SOCKET socket_made heap port_number p =
     (if EVENT_PORT_TYPE p = WRITE then Returned (INVALID_MODE, p)
      else if intra_partition p then Returned (INVALID_MODE, p)
      else if recv_mySocket p \<noteq> None then Returned (NO_ACTION, p)
      else if \<not> socket_made then Aborted
      else Returned (NO_ERROR,
        p\<lparr>recv_mySocket := Some (port_number mod 65536),
          INTER_MODULE_DATA_BUFFER := (case INTER_MODULE_DATA_BUFFER p of None \<Rightarrow> Some heap | Some b \<Rightarrow> Some b)\<rparr>))"

section \<open>Writing\<close>

text \<open>What a call meets: readings of the clock (in nanoseconds in the port and in the service, and as a time in the
  service) and what the other threads do while it waits.\<close>

record port_env =
  port_nanos :: int
  service_nanos :: int
  service_time :: SYSTEM_TIMESPEC
  buffer_wakeups :: "APEX_BUFFER_TYPE wakeup list"
  board_wakeups :: "APEX wakeup list"

definition ASSEMBLE_DATA :: "int \<Rightarrow> byte list \<Rightarrow> int \<Rightarrow> ACM_EVENT_PORT \<Rightarrow> (bool \<times> int \<times> ACM_EVENT_PORT) outcome" where
  "ASSEMBLE_DATA WRITE_TIME MESSAGE_ADDR len p =
     (let NEW_LENGTH = len + TIME_SIZE in
      if NEW_LENGTH \<le> EVENT_PORT_TOTAL_SIZE p then
        bind_outcome (c_memcpy (EVENT_PORT_PAYLOAD p) (le64_encode (word_of_int WRITE_TIME)) TIME_SIZE) (\<lambda>load.
        bind_outcome (c_memcpy (drop (nat TIME_SIZE) load) MESSAGE_ADDR len) (\<lambda>rest.
          Returned (True, NEW_LENGTH, p\<lparr>EVENT_PORT_PAYLOAD := take (nat TIME_SIZE) load @ rest\<rparr>)))
      else Returned (False, NEW_LENGTH, p))"

text \<open>The destinations: a port number is passed on as an unsigned short.\<close>

definition send_to_destinations :: "'w socket_calls \<Rightarrow> byte list \<Rightarrow> ACM_EVENT_PORT \<Rightarrow> 'w \<Rightarrow> 'w outcome" where
  "send_to_destinations net bytes p =
     send_all net bytes (map (\<lambda>u. u\<lparr>url_port := url_port u mod 65536\<rparr>) (DESTINATIONS_URLS p))"

text \<open>The branch of a sampling port; the return code of the write is overwritten when there is a socket.\<close>

definition write_sampling ::
  "'w socket_calls \<Rightarrow> port_env \<Rightarrow> int \<Rightarrow> ACM_EVENT_PORT \<Rightarrow> APEX \<Rightarrow> 'w \<Rightarrow> (RETURN_CODE_TYPE \<times> ACM_EVENT_PORT \<times> APEX \<times> 'w) outcome" where
  "write_sampling net e NEW_LENGTH p a w =
     bind_outcome (WRITE_SAMPLING_MESSAGE_service (service_nanos e) (EVENT_PORT_ID p) (EVENT_PORT_PAYLOAD p) NEW_LENGTH a
                   :: (unit reply \<times> APEX) outcome) (\<lambda>((rc, _), a1).
       if \<not> sender_mySocket p then Returned (rc, p, a1, w)
       else case INTER_MODULE_DATA_BUFFER p of
         None \<Rightarrow> Aborted
       | Some block \<Rightarrow>
           bind_outcome (READ_CONTENTS_service (EVENT_PORT_ID p) (datagram_size p) a1) (\<lambda>((rc2, out), a2).
             if rc2 \<noteq> NO_ERROR then Aborted
             else let bytes = (case out of None \<Rightarrow> [] | Some b \<Rightarrow> b) in
               bind_outcome (c_memcpy block bytes (int (length bytes))) (\<lambda>block1.
               bind_outcome (send_to_destinations net bytes p w) (\<lambda>w1.
                 Returned (rc2, p\<lparr>INTER_MODULE_DATA_BUFFER := Some block1\<rparr>, a2, w1)))))"

text \<open>The branch of a queuing port; with ONLY\_INTER\_MODULE nothing is stored to RETURN\_CODE.\<close>

definition write_queuing ::
  "'w mq_calls \<Rightarrow> 'w socket_calls \<Rightarrow> port_env \<Rightarrow> RETURN_CODE_TYPE \<Rightarrow> int \<Rightarrow> SYSTEM_TIME_TYPE \<Rightarrow> ACM_EVENT_PORT \<Rightarrow> APEX \<Rightarrow> 'w \<Rightarrow>
   (RETURN_CODE_TYPE \<times> ACM_EVENT_PORT \<times> APEX \<times> 'w) outcome" where
  "write_queuing mq net e rc NEW_LENGTH TIME_OUT p a w =
     bind_outcome
       (if ONLY_INTER_MODULE p then Returned (rc, w)
        else SEND_QUEUING_MESSAGE mq (service_time e) (EVENT_PORT_ID p) (EVENT_PORT_PAYLOAD p) NEW_LENGTH TIME_OUT a w) (\<lambda>(rc1, w1).
       if \<not> sender_mySocket p then Returned (rc1, p, a, w1)
       else if INTER_MODULE_DATA_BUFFER p = None then Aborted
       else
         bind_outcome (c_read (EVENT_PORT_PAYLOAD p) NEW_LENGTH) (\<lambda>bytes.
         bind_outcome (send_to_destinations net bytes p w1) (\<lambda>w2. Returned (rc1, p, a, w2))))"

definition WRITE_TO_EVENT_PORT ::
  "'w mq_calls \<Rightarrow> 'w socket_calls \<Rightarrow> port_env \<Rightarrow> RETURN_CODE_TYPE \<Rightarrow> byte list \<Rightarrow> int \<Rightarrow> SYSTEM_TIME_TYPE \<Rightarrow>
   ACM_EVENT_PORT \<Rightarrow> APEX \<Rightarrow> 'w \<Rightarrow> (RETURN_CODE_TYPE \<times> ACM_EVENT_PORT \<times> APEX \<times> 'w) outcome" where
  "WRITE_TO_EVENT_PORT mq net e rc MESSAGE_ADDR len TIME_OUT p a w =
     bind_outcome (ASSEMBLE_DATA (port_nanos e) MESSAGE_ADDR len p) (\<lambda>(fits, NEW_LENGTH, p1).
       if \<not> fits then Returned (INVALID_CONFIG, p1, a, w)
       else case EVENT_PORT_IMPL_TYPE p1 of
         BLACKBOARD \<Rightarrow>
           bind_outcome (DISPLAY_BLACKBOARD (EVENT_PORT_ID p1) (EVENT_PORT_PAYLOAD p1) NEW_LENGTH a
                         :: (unit reply \<times> APEX) outcome)
             (\<lambda>((rc1, _), a1). Returned (rc1, p1, a1, w))
       | BUFFER \<Rightarrow>
           bind_outcome (SEND_BUFFER (service_time e) (EVENT_PORT_ID p1) (EVENT_PORT_PAYLOAD p1) NEW_LENGTH TIME_OUT
                           (buffer_wakeups e) a :: (unit reply \<times> APEX) outcome)
             (\<lambda>((rc1, _), a1). Returned (rc1, p1, a1, w))
       | SAMPLINGPORT \<Rightarrow> write_sampling net e NEW_LENGTH p1 a w
       | QUEUEINGPORT \<Rightarrow> write_queuing mq net e rc NEW_LENGTH TIME_OUT p1 a w
       | UNDEFINED \<Rightarrow> Returned (NO_ACTION, p1, a, w))"

section \<open>Reading\<close>

text \<open>The result: the return code, \<open>*IS_VALID\<close>, \<open>*LENGTH\<close> and the bytes copied to the caller.\<close>

type_synonym port_reading = "RETURN_CODE_TYPE \<times> bool \<times> int \<times> byte list option"

definition PARSE_AND_VALIDATE_DATA :: "int \<Rightarrow> VALIDITY_TYPE \<Rightarrow> RETURN_CODE_TYPE \<Rightarrow> int \<Rightarrow> ACM_EVENT_PORT \<Rightarrow> port_reading outcome" where
  "PARSE_AND_VALIDATE_DATA now VALIDITY rc len p =
     (if rc \<noteq> NO_ERROR then Returned (rc, False, len, None)
      else if len < TIME_SIZE then Returned (NOT_AVAILABLE, False, len, None)
      else let len1 = len - TIME_SIZE in
        bind_outcome (c_read (drop (nat TIME_SIZE) (EVENT_PORT_PAYLOAD p)) len1) (\<lambda>m.
          let AGE = now - sint (le64_decode (EVENT_PORT_PAYLOAD p))
          in Returned (rc, VALIDITY = VALID \<and> AGE \<le> EVENT_PORT_VALIDITY_PERIOD p, len1, Some m)))"

text \<open>A service that answers stores the message into the payload and its length to \<open>*LENGTH\<close>.\<close>

definition store_payload :: "byte list option \<Rightarrow> int \<Rightarrow> ACM_EVENT_PORT \<Rightarrow> (int \<times> ACM_EVENT_PORT) outcome" where
  "store_payload out len p =
     (case out of
        None \<Rightarrow> Returned (len, p)
      | Some m \<Rightarrow> bind_outcome (c_memcpy (EVENT_PORT_PAYLOAD p) m (int (length m))) (\<lambda>load.
          Returned (int (length m), p\<lparr>EVENT_PORT_PAYLOAD := load\<rparr>)))"

text \<open>The switch over the mechanism.  A sampling port that has no message stores a length and a validity only.\<close>

definition read_implementation ::
  "'w mq_calls \<Rightarrow> port_env \<Rightarrow> int \<Rightarrow> SYSTEM_TIME_TYPE \<Rightarrow> ACM_EVENT_PORT \<Rightarrow> APEX \<Rightarrow> 'w \<Rightarrow>
   (RETURN_CODE_TYPE \<times> VALIDITY_TYPE \<times> int \<times> ACM_EVENT_PORT \<times> APEX \<times> 'w) outcome" where
  "read_implementation mq e len TIME_OUT p a w =
     (case EVENT_PORT_IMPL_TYPE p of
        BLACKBOARD \<Rightarrow>
          bind_outcome (READ_BLACKBOARD (service_time e) (EVENT_PORT_ID p) TIME_OUT (board_wakeups e) a) (\<lambda>((rc, out), a1).
          bind_outcome (store_payload out len p) (\<lambda>(len1, p1). Returned (rc, VALID, len1, p1, a1, w)))
      | BUFFER \<Rightarrow>
          bind_outcome (RECEIVE_BUFFER (service_time e) (EVENT_PORT_ID p) TIME_OUT (buffer_wakeups e) a) (\<lambda>((rc, out), a1).
          bind_outcome (store_payload out len p) (\<lambda>(len1, p1). Returned (rc, VALID, len1, p1, a1, w)))
      | SAMPLINGPORT \<Rightarrow>
          bind_outcome (READ_SAMPLING_MESSAGE_service (service_nanos e) (EVENT_PORT_ID p) a) (\<lambda>((rc, out), a1).
            case out of
              None \<Rightarrow> Returned (rc, VALID, len, p, a1, w)
            | Some r \<Rightarrow>
                bind_outcome (store_payload (reply_message r) (case reply_length r of None \<Rightarrow> len | Some n \<Rightarrow> n) p) (\<lambda>(len1, p1).
                  Returned (rc, case reply_validity r of None \<Rightarrow> VALID | Some v \<Rightarrow> v, len1, p1, a1, w)))
      | QUEUEINGPORT \<Rightarrow>
          bind_outcome (RECEIVE_QUEUING_MESSAGE mq (service_time e) (EVENT_PORT_ID p) TIME_OUT a w) (\<lambda>(rc, out, w1).
          bind_outcome (store_payload out len p) (\<lambda>(len1, p1). Returned (rc, VALID, len1, p1, a, w1)))
      | UNDEFINED \<Rightarrow> Returned (NO_ACTION, VALID, len, p, a, w))"

definition READ_FROM_EVENT_PORT ::
  "'w mq_calls \<Rightarrow> port_env \<Rightarrow> int \<Rightarrow> SYSTEM_TIME_TYPE \<Rightarrow> ACM_EVENT_PORT \<Rightarrow> APEX \<Rightarrow> 'w \<Rightarrow>
   (port_reading \<times> ACM_EVENT_PORT \<times> APEX \<times> 'w) outcome" where
  "READ_FROM_EVENT_PORT mq e len TIME_OUT p a w =
     bind_outcome (read_implementation mq e len TIME_OUT p a w) (\<lambda>(rc, VALIDITY, len1, p1, a1, w1).
     bind_outcome (PARSE_AND_VALIDATE_DATA (port_nanos e) VALIDITY rc len1 p1) (\<lambda>r. Returned (r, p1, a1, w1)))"

section \<open>From the socket to the port\<close>

text \<open>The number of bytes received is an unsigned int, so -1 is 4294967295; the errors of the reception are not looked
  at, and a sampling port takes what the data buffer holds.\<close>

definition BLOCK_AND_TRANSFER_FROM_SOCKET_READ_PORT ::
  "'w mq_calls \<Rightarrow> 'w socket_calls \<Rightarrow> SYSTEM_TIMESPEC \<Rightarrow> SYSTEM_TIME_TYPE \<Rightarrow> ACM_EVENT_PORT \<Rightarrow> APEX \<Rightarrow> 'w \<Rightarrow>
   (RETURN_CODE_TYPE \<times> ACM_EVENT_PORT \<times> APEX \<times> 'w) outcome" where
  "BLOCK_AND_TRANSFER_FROM_SOCKET_READ_PORT mq net now PORT_TIME_OUT p a w =
     (if EVENT_PORT_TYPE p = WRITE then Returned (INVALID_MODE, p, a, w)
      else if intra_partition p then Returned (INVALID_MODE, p, a, w)
      else case recv_mySocket p of
        None \<Rightarrow> Returned (INVALID_MODE, p, a, w)
      | Some sock \<Rightarrow>
          case INTER_MODULE_DATA_BUFFER p of
            None \<Rightarrow> Aborted
          | Some block \<Rightarrow>
              let (r, w1) = recv_from net sock (datagram_size p) w;
                  recvMsgSize = (case r of Received bs \<Rightarrow> int (length bs) | _ \<Rightarrow> 4294967295)
              in bind_outcome (case r of Received bs \<Rightarrow> c_memcpy block bs (int (length bs)) | _ \<Rightarrow> Returned block) (\<lambda>block1.
                 let p1 = p\<lparr>INTER_MODULE_DATA_BUFFER := Some block1\<rparr> in
                 case EVENT_PORT_IMPL_TYPE p of
                   SAMPLINGPORT \<Rightarrow>
                     bind_outcome (WRITE_CONTENTS_service (EVENT_PORT_ID p) block1 (datagram_size p) a :: (unit reply \<times> APEX) outcome)
                       (\<lambda>((rc, _), a1). Returned (rc, p1, a1, w1))
                 | QUEUEINGPORT \<Rightarrow>
                     bind_outcome (MESSAGE_QUEUE_SEND_MESSAGE_FROM_BUFFER mq now (EVENT_PORT_ID p) block1 recvMsgSize PORT_TIME_OUT a w1)
                       (\<lambda>(rc, w2). Returned (rc, p1, a, w2))
                 | _ \<Rightarrow> Returned (NO_ACTION, p1, a, w1)))"

end
