(* ===== verification/EventPortProperties.thy ===== *)
theory EventPortProperties
  imports EventPort
begin

text \<open>
  Facts about event ports: what the bytes of a message are, that a write puts them into the mechanism of the port and
  that a read takes them apart again, for each of the four mechanisms and for the way over a socket.
\<close>

section \<open>Messages with the time of writing\<close>

definition stamped :: "int \<Rightarrow> byte list \<Rightarrow> byte list" where
  "stamped t m = le64_encode (word_of_int t) @ m"

lemma length_stamped [simp]: "length (stamped t m) = 8 + length m"
  by (simp add: stamped_def)

definition payload_ok :: "ACM_EVENT_PORT \<Rightarrow> bool" where
  "payload_ok p \<longleftrightarrow> int (length (EVENT_PORT_PAYLOAD p)) = EVENT_PORT_TOTAL_SIZE p"

text \<open>The port after the message has been put together.\<close>

definition assembled :: "int \<Rightarrow> byte list \<Rightarrow> ACM_EVENT_PORT \<Rightarrow> ACM_EVENT_PORT" where
  "assembled t m p = p\<lparr>EVENT_PORT_PAYLOAD := stamped t m @ drop (8 + length m) (EVENT_PORT_PAYLOAD p)\<rparr>"

lemma assembled_simps [simp]:
  "EVENT_PORT_IMPL_TYPE (assembled t m p) = EVENT_PORT_IMPL_TYPE p"
  "EVENT_PORT_ID (assembled t m p) = EVENT_PORT_ID p"
  "EVENT_PORT_TOTAL_SIZE (assembled t m p) = EVENT_PORT_TOTAL_SIZE p"
  "sender_mySocket (assembled t m p) = sender_mySocket p"
  "INTER_MODULE_DATA_BUFFER (assembled t m p) = INTER_MODULE_DATA_BUFFER p"
  "ONLY_INTER_MODULE (assembled t m p) = ONLY_INTER_MODULE p"
  "DESTINATIONS_URLS (assembled t m p) = DESTINATIONS_URLS p"
  "take (8 + length m) (EVENT_PORT_PAYLOAD (assembled t m p)) = stamped t m"
  by (simp_all add: assembled_def stamped_def)

lemma ASSEMBLE_DATA_fits:
  assumes "payload_ok p" "len = int (length m)" "len + 8 \<le> EVENT_PORT_TOTAL_SIZE p"
  shows "ASSEMBLE_DATA t m len p = Returned (True, len + 8, assembled t m p)"
  using assms by (auto simp: ASSEMBLE_DATA_def TIME_SIZE_def Let_def c_memcpy_def payload_ok_def assembled_def stamped_def
      add.commute [of "length m" 8])

lemma ASSEMBLE_DATA_too_long:
  "EVENT_PORT_TOTAL_SIZE p < len + 8 \<Longrightarrow> ASSEMBLE_DATA t m len p = Returned (False, len + 8, p)"
  by (simp add: ASSEMBLE_DATA_def TIME_SIZE_def)

lemma assembled_payload_ok:
  "payload_ok p \<Longrightarrow> int (length m) + 8 \<le> EVENT_PORT_TOTAL_SIZE p \<Longrightarrow> payload_ok (assembled t m p)"
  by (simp add: payload_ok_def assembled_def)

lemma store_payload_stamped:
  assumes "payload_ok q" "int (length m) + 8 \<le> EVENT_PORT_TOTAL_SIZE q"
  shows "store_payload (Some (stamped t m)) len q = Returned (int (length m) + 8, assembled t m q)"
  using assms by (simp add: store_payload_def c_memcpy_def payload_ok_def assembled_def nat_add_distrib)

text \<open>What the reader of a message gets.\<close>

definition reading :: "int \<Rightarrow> bool \<Rightarrow> int \<Rightarrow> byte list \<Rightarrow> ACM_EVENT_PORT \<Rightarrow> port_reading" where
  "reading now valid t m q = (NO_ERROR, valid \<and> now - t \<le> EVENT_PORT_VALIDITY_PERIOD q, int (length m), Some m)"

lemma PARSE_AND_VALIDATE_DATA_stamped:
  assumes "int64 t"
  shows "PARSE_AND_VALIDATE_DATA now v NO_ERROR (int (length m) + 8) (assembled t m q) = Returned (reading now (v = VALID) t m q)"
proof -
  have "c_read (drop 8 (stamped t m @ drop (8 + length m) (EVENT_PORT_PAYLOAD q))) (int (length m)) = Returned m"
    by (simp add: c_read_def stamped_def)
  moreover have "sint (le64_decode (stamped t m @ drop (8 + length m) (EVENT_PORT_PAYLOAD q))) = t"
    using sint_word_of_int64 [OF assms] by (simp add: stamped_def le64_roundtrip)
  ultimately show ?thesis
    by (simp add: PARSE_AND_VALIDATE_DATA_def TIME_SIZE_def Let_def assembled_def reading_def)
qed

lemma READ_FROM_EVENT_PORT_stamped:
  assumes "read_implementation mq e len TIME_OUT q a w = Returned (NO_ERROR, v, int (length m) + 8, assembled t m q, a1, w1)" "int64 t"
  shows "READ_FROM_EVENT_PORT mq e len TIME_OUT q a w = Returned (reading (port_nanos e) (v = VALID) t m q, assembled t m q, a1, w1)"
  using assms(1) PARSE_AND_VALIDATE_DATA_stamped [OF assms(2), of "port_nanos e" v m q]
  by (simp add: READ_FROM_EVENT_PORT_def)

section \<open>Buffers and blackboards\<close>

text \<open>A port on a buffer or a blackboard of the partition that takes messages of its size.\<close>

definition on_buffer :: "ACM_EVENT_PORT \<Rightarrow> APEX \<Rightarrow> bool" where
  "on_buffer p a \<longleftrightarrow>
     EVENT_PORT_IMPL_TYPE p = BUFFER \<and> payload_ok p \<and> buffers_inv a \<and> EVENT_PORT_ID p < length (BUFFER_VECTOR a) \<and>
     BUFFER_MAX_MESSAGE_SIZE (BUFFER_VECTOR a ! EVENT_PORT_ID p) = EVENT_PORT_TOTAL_SIZE p"

definition on_blackboard :: "ACM_EVENT_PORT \<Rightarrow> APEX \<Rightarrow> bool" where
  "on_blackboard p a \<longleftrightarrow>
     EVENT_PORT_IMPL_TYPE p = BLACKBOARD \<and> payload_ok p \<and> boards_inv a \<and> EVENT_PORT_ID p < length (BLACKBOARD_VECTOR a) \<and>
     BB_MAX_MESSAGE_SIZE (board (EVENT_PORT_ID p) a) = EVENT_PORT_TOTAL_SIZE p"

lemma write_on_buffer:
  assumes p: "on_buffer p a" and m: "len = int (length m)" "len + 8 \<le> EVENT_PORT_TOTAL_SIZE p" "TIME_OUT \<le> MAX_TIME_OUT"
    and room: "CURRENT_MESSAGE_SIZE (BUFFER_VECTOR a ! EVENT_PORT_ID p) < BUFFER_MAX_NB_MESSAGE (BUFFER_VECTOR a ! EVENT_PORT_ID p)"
  obtains a' where
    "WRITE_TO_EVENT_PORT mq net e rc m len TIME_OUT p a w = Returned (NO_ERROR, assembled (port_nanos e) m p, a', w)"
    "buffers_inv a'" "length (BUFFER_VECTOR a') = length (BUFFER_VECTOR a)"
    "buffer_contents (BUFFER_VECTOR a' ! EVENT_PORT_ID p) = buffer_contents (BUFFER_VECTOR a ! EVENT_PORT_ID p) @ [stamped (port_nanos e) m]"
    "BUFFER_MAX_MESSAGE_SIZE (BUFFER_VECTOR a' ! EVENT_PORT_ID p) = EVENT_PORT_TOTAL_SIZE p"
proof -
  let ?i = "EVENT_PORT_ID p" and ?load = "EVENT_PORT_PAYLOAD (assembled (port_nanos e) m p)"
  have i: "?i < length (BUFFER_VECTOR a)" and inv: "buffers_inv a" and small: "unsigned_int ?i = ?i"
    and load: "payload_ok p" and impl: "EVENT_PORT_IMPL_TYPE p = BUFFER"
    and size: "BUFFER_MAX_MESSAGE_SIZE (BUFFER_VECTOR a ! ?i) = EVENT_PORT_TOTAL_SIZE p"
    using p unsigned_int_id by (auto simp: on_buffer_def)
  note b = buffers_inv_nth [OF inv i]
  have n: "0 \<le> len + 8" "len + 8 \<le> BUFFER_MAX_MESSAGE_SIZE (BUFFER_VECTOR a ! ?i)" "len + 8 \<le> int (length ?load)"
    "take (nat (len + 8)) ?load = stamped (port_nanos e) m"
    using m size assembled_payload_ok [OF load, of m] by (simp_all add: payload_ok_def nat_add_distrib add.commute [of "length m" 8])
  obtain b' where b': "SEND_MESSAGE (service_time e) ?load (len + 8) TIME_OUT (buffer_wakeups e) (BUFFER_VECTOR a ! ?i) = Returned (NO_ERROR, b')"
    "ring_inv b'" "buffer_sems 0 0 b'" "buffer_contents b' = buffer_contents (BUFFER_VECTOR a ! ?i) @ [take (nat (len + 8)) ?load]"
    "BUFFER_MAX_MESSAGE_SIZE b' = BUFFER_MAX_MESSAGE_SIZE (BUFFER_VECTOR a ! ?i)"
    using SEND_MESSAGE_room [of "BUFFER_VECTOR a ! ?i" "len + 8" ?load TIME_OUT "service_time e" "buffer_wakeups e"] b room n(1-3) m(3) by blast
  let ?a = "a\<lparr>BUFFER_VECTOR := (BUFFER_VECTOR a)[?i := b']\<rparr>"
  have "WRITE_TO_EVENT_PORT mq net e rc m len TIME_OUT p a w = Returned (NO_ERROR, assembled (port_nanos e) m p, ?a, w)"
    using ASSEMBLE_DATA_fits [OF load m(1,2)] impl i small m(3) b'(1) by (simp add: WRITE_TO_EVENT_PORT_def SEND_BUFFER_def)
  then show thesis
    by (rule that) (use buffers_inv_update [OF inv b'(2,3)] i b'(4,5) n(4) size in simp_all)
qed

lemma read_on_buffer:
  assumes q: "on_buffer q a" "int64 t" "int (length m) + 8 \<le> EVENT_PORT_TOTAL_SIZE q" "TIME_OUT \<le> MAX_TIME_OUT"
    and some: "buffer_contents (BUFFER_VECTOR a ! EVENT_PORT_ID q) = stamped t m # ms"
  obtains a' where
    "READ_FROM_EVENT_PORT mq e len TIME_OUT q a w = Returned (reading (port_nanos e) True t m q, assembled t m q, a', w)"
    "buffers_inv a'" "buffer_contents (BUFFER_VECTOR a' ! EVENT_PORT_ID q) = ms"
proof -
  let ?i = "EVENT_PORT_ID q"
  have i: "?i < length (BUFFER_VECTOR a)" and inv: "buffers_inv a" and small: "unsigned_int ?i = ?i"
    and load: "payload_ok q" and impl: "EVENT_PORT_IMPL_TYPE q = BUFFER"
    using q(1) unsigned_int_id by (auto simp: on_buffer_def)
  note b = buffers_inv_nth [OF inv i]
  obtain b' where b': "RECEIVE_MESSAGE (service_time e) TIME_OUT (buffer_wakeups e) (BUFFER_VECTOR a ! ?i) = Returned (NO_ERROR, Some (stamped t m), b')"
    "ring_inv b'" "buffer_sems 0 0 b'" "buffer_contents b' = ms"
    using RECEIVE_MESSAGE_some [of "BUFFER_VECTOR a ! ?i" "stamped t m" ms TIME_OUT "service_time e" "buffer_wakeups e"] b some q(4) by blast
  let ?a = "a\<lparr>BUFFER_VECTOR := (BUFFER_VECTOR a)[?i := b']\<rparr>"
  have "read_implementation mq e len TIME_OUT q a w = Returned (NO_ERROR, VALID, int (length m) + 8, assembled t m q, ?a, w)"
    using impl i small q(4) b'(1) store_payload_stamped [OF load q(3)]
    by (simp add: read_implementation_def RECEIVE_BUFFER_def)
  from READ_FROM_EVENT_PORT_stamped [OF this q(2)] show thesis
    by (intro that [of ?a]) (use buffers_inv_update [OF inv b'(2,3)] i b'(4) in simp_all)
qed

lemma write_on_blackboard:
  assumes p: "on_blackboard p a" and m: "len = int (length m)" "len + 8 \<le> EVENT_PORT_TOTAL_SIZE p"
  shows "WRITE_TO_EVENT_PORT mq net e rc m len TIME_OUT p a w =
    Returned (NO_ERROR, assembled (port_nanos e) m p, displayed (EVENT_PORT_ID p) (stamped (port_nanos e) m) a, w)"
proof -
  let ?i = "EVENT_PORT_ID p" and ?load = "EVENT_PORT_PAYLOAD (assembled (port_nanos e) m p)"
  have i: "?i < length (BLACKBOARD_VECTOR a)" and inv: "boards_inv a" and load: "payload_ok p"
    and impl: "EVENT_PORT_IMPL_TYPE p = BLACKBOARD" and size: "BB_MAX_MESSAGE_SIZE (board ?i a) = EVENT_PORT_TOTAL_SIZE p"
    using p by (auto simp: on_blackboard_def)
  have n: "0 \<le> len + 8" "len + 8 \<le> int (length ?load)" "len + 8 \<le> BB_MAX_MESSAGE_SIZE (board ?i a)"
    "take (nat (len + 8)) ?load = stamped (port_nanos e) m"
    using m size assembled_payload_ok [OF load, of m] by (simp_all add: payload_ok_def nat_add_distrib add.commute [of "length m" 8])
  show ?thesis
    using ASSEMBLE_DATA_fits [OF load m] impl n(4)
    by (simp add: WRITE_TO_EVENT_PORT_def DISPLAY_BLACKBOARD_ok [OF inv i n(1-3)])
qed

lemma read_on_blackboard:
  assumes q: "on_blackboard q a" "int64 t" "int (length m) + 8 \<le> EVENT_PORT_TOTAL_SIZE q" "TIME_OUT \<le> MAX_TIME_OUT"
  shows "READ_FROM_EVENT_PORT mq e len TIME_OUT q (displayed (EVENT_PORT_ID q) (stamped t m) a) w =
    Returned (reading (port_nanos e) True t m q, assembled t m q, displayed (EVENT_PORT_ID q) (stamped t m) a, w)"
proof -
  let ?i = "EVENT_PORT_ID q" and ?d = "displayed (EVENT_PORT_ID q) (stamped t m) a"
  have i: "?i < length (BLACKBOARD_VECTOR a)" and inv: "boards_inv a" and load: "payload_ok q"
    and impl: "EVENT_PORT_IMPL_TYPE q = BLACKBOARD" and size: "BB_MAX_MESSAGE_SIZE (board ?i a) = EVENT_PORT_TOTAL_SIZE q"
    using q(1) by (auto simp: on_blackboard_def)
  have inv': "boards_inv ?d" using boards_inv_displayed [OF inv i] q(3) size by simp
  have "READ_BLACKBOARD (service_time e) ?i TIME_OUT (board_wakeups e) ?d = ret_out NO_ERROR (stamped t m) ?d"
    using READ_BLACKBOARD_occupied [OF inv', of ?i TIME_OUT] i q(4) by (simp add: nat_add_distrib)
  then have "read_implementation mq e len TIME_OUT q ?d w = Returned (NO_ERROR, VALID, int (length m) + 8, assembled t m q, ?d, w)"
    using impl store_payload_stamped [OF load q(3)] by (simp add: read_implementation_def)
  from READ_FROM_EVENT_PORT_stamped [OF this q(2)] show ?thesis by simp
qed

section \<open>Two ends in one partition\<close>

text \<open>The memory that a constructor gets has the sizes it asks for.\<close>

definition heaps_ok :: "create_env \<Rightarrow> int \<Rightarrow> int \<Rightarrow> bool" where
  "heaps_ok e SIZE MAX_NB \<longleftrightarrow>
     int (length (payload_heap e)) = SIZE + 8 \<and> int (length (board_heap e)) = SIZE + 8 \<and>
     length (buffer_heap e) = nat MAX_NB \<and> (\<forall>b\<in>set (buffer_heap e). int (length (ACTUAL_LOAD b)) = SIZE + 8)"

text \<open>A partition that is being initialised and has no object of this name, with room for one more and the check for a second one.\<close>

definition ready_for :: "NAME_TYPE \<Rightarrow> APEX \<Rightarrow> bool" where
  "ready_for name a \<longleftrightarrow>
     CURRENT_OPERATING_MODE a \<noteq> NORMAL \<and> CURRENT_OPERATING_MODE a \<noteq> IDLE \<and> buffers_inv a \<and> boards_inv a \<and>
     Suc (length (BUFFER_VECTOR a)) < SYSTEM_LIMIT_NUMBER_OF_BUFFERS \<and>
     name \<notin> BUFFER_NAME ` set (BUFFER_VECTOR a) \<and> name \<notin> BLACKBOARD_NAME ` set (BLACKBOARD_VECTOR a) \<and>
     name \<notin> EVENT_NAME ` set (EVENT_VECTOR a)"

text \<open>The object that the constructor makes.\<close>

definition new_port ::
  "create_env \<Rightarrow> EVENT_PORT_COMM_TYPE \<Rightarrow> nat \<Rightarrow> NAME_TYPE \<Rightarrow> int \<Rightarrow> SYSTEM_TIME_TYPE \<Rightarrow> int \<Rightarrow> bool \<Rightarrow> bool \<Rightarrow> ACM_EVENT_PORT" where
  "new_port e comm i name SIZE validity MAX_NB isCOLOCATED isDESTRUCTIVEREAD =
     \<lparr>EVENT_PORT_TYPE = comm, EVENT_PORT_ID = i, EVENT_PORT_NAME = name, EVENT_PORT_VALIDITY_PERIOD = validity,
      EVENT_PORT_PAYLOAD = payload_heap e, EVENT_PORT_TOTAL_SIZE = SIZE + 8,
      EVENT_PORT_IMPL_TYPE = impl_type MAX_NB isCOLOCATED isDESTRUCTIVEREAD, EVENT_PORT_DESTRUCTIVE_READ = isDESTRUCTIVEREAD,
      DESTINATIONS_URLS = [], sender_mySocket = False, recv_mySocket = None, INTER_MODULE_DATA_BUFFER = None, ONLY_INTER_MODULE = False\<rparr>"

lemma new_port_payload_ok: "heaps_ok e SIZE MAX_NB \<Longrightarrow> payload_ok (new_port e comm i name SIZE v MAX_NB c d)"
  by (simp add: heaps_ok_def payload_ok_def new_port_def)

lemma new_port_simps [simp]:
  "EVENT_PORT_ID (new_port e comm i name SIZE v n c d) = i"
  "EVENT_PORT_TOTAL_SIZE (new_port e comm i name SIZE v n c d) = SIZE + 8"
  "EVENT_PORT_IMPL_TYPE (new_port e comm i name SIZE v n c d) = impl_type n c d"
  "EVENT_PORT_VALIDITY_PERIOD (new_port e comm i name SIZE v n c d) = v"
  by (simp_all add: new_port_def)

lemma two_ends_on_buffer:
  assumes e: "heaps_ok e1 SIZE MAX_NB" "heaps_ok e2 SIZE MAX_NB" and a: "ready_for name a"
    and sizes: "0 \<le> SIZE" "1 \<le> MAX_NB" "MAX_NB \<le> int SYSTEM_LIMIT_NUMBER_OF_MESSAGES"
  obtains a1 where
    "ACM_EVENT_PORT_new mq e1 c1 name SIZE v MAX_NB True True a w = (Returned (NO_ERROR, new_port e1 c1 (length (BUFFER_VECTOR a)) name SIZE v MAX_NB True True, a1), w)"
    "ACM_EVENT_PORT_new mq e2 c2 name SIZE v MAX_NB True True a1 w = (Returned (NO_ERROR, new_port e2 c2 (length (BUFFER_VECTOR a)) name SIZE v MAX_NB True True, a1), w)"
    "on_buffer (new_port e1 c1 (length (BUFFER_VECTOR a)) name SIZE v MAX_NB True True) a1"
    "on_buffer (new_port e2 c2 (length (BUFFER_VECTOR a)) name SIZE v MAX_NB True True) a1"
    "buffer_contents (BUFFER_VECTOR a1 ! length (BUFFER_VECTOR a)) = []"
    "CURRENT_MESSAGE_SIZE (BUFFER_VECTOR a1 ! length (BUFFER_VECTOR a)) < BUFFER_MAX_NB_MESSAGE (BUFFER_VECTOR a1 ! length (BUFFER_VECTOR a))"
proof -
  let ?b = "BUFFER_new name (length (BUFFER_VECTOR a)) (SIZE + 8) MAX_NB (buffer_heap e1)"
  let ?a = "a\<lparr>BUFFER_VECTOR := BUFFER_VECTOR a @ [?b]\<rparr>"
  have impl: "impl_type MAX_NB True True = BUFFER" using sizes(2) by (simp add: impl_type_def)
  have created: "CREATE_BUFFER name (SIZE + 8) MAX_NB FIFO (buffer_heap e1) a = ret_out NO_ERROR (length (BUFFER_VECTOR a)) ?a"
    using a sizes by (auto simp: CREATE_BUFFER_def ready_for_def)
  have inv: "buffers_inv ?a"
    by (rule buffers_inv_create [OF created]) (use a e(1) in \<open>auto simp: ready_for_def heaps_ok_def\<close>)
  have again: "CREATE_BUFFER name (SIZE + 8) MAX_NB FIFO (buffer_heap e2) ?a = ret NO_ACTION ?a"
    using a sizes by (auto simp: CREATE_BUFFER_def ready_for_def BUFFER_new_def)
  have "find_index (\<lambda>b. BUFFER_NAME b = name) (BUFFER_VECTOR ?a) = Some (length (BUFFER_VECTOR a))"
    using a by (auto simp: ready_for_def BUFFER_new_def intro!: find_index_snoc_new)
  then have found: "GET_BUFFER_ID name ?a = ret_out NO_ERROR (length (BUFFER_VECTOR a)) ?a" by (simp add: GET_BUFFER_ID_def)
  have new: "ring_inv ?b \<and> buffer_contents ?b = []"
    by (rule ring_inv_new) (use e(1) sizes in \<open>auto simp: heaps_ok_def\<close>)
  show thesis
  proof (rule that [of ?a])
    show "ACM_EVENT_PORT_new mq e1 c1 name SIZE v MAX_NB True True a w =
        (Returned (NO_ERROR, new_port e1 c1 (length (BUFFER_VECTOR a)) name SIZE v MAX_NB True True, ?a), w)"
      using created by (simp add: ACM_EVENT_PORT_new_def create_implementation_def create_or_find_def TIME_SIZE_def impl Let_def new_port_def)
    show "ACM_EVENT_PORT_new mq e2 c2 name SIZE v MAX_NB True True ?a w =
        (Returned (NO_ERROR, new_port e2 c2 (length (BUFFER_VECTOR a)) name SIZE v MAX_NB True True, ?a), w)"
      using again found by (simp add: ACM_EVENT_PORT_new_def create_implementation_def create_or_find_def TIME_SIZE_def impl Let_def new_port_def)
    show "on_buffer (new_port e1 c1 (length (BUFFER_VECTOR a)) name SIZE v MAX_NB True True) ?a"
      "on_buffer (new_port e2 c2 (length (BUFFER_VECTOR a)) name SIZE v MAX_NB True True) ?a"
      using inv new_port_payload_ok [OF e(1)] new_port_payload_ok [OF e(2)] by (simp_all add: on_buffer_def impl) (simp_all add: BUFFER_new_def)
    show "buffer_contents (BUFFER_VECTOR ?a ! length (BUFFER_VECTOR a)) = []" using new by simp
    show "CURRENT_MESSAGE_SIZE (BUFFER_VECTOR ?a ! length (BUFFER_VECTOR a)) < BUFFER_MAX_NB_MESSAGE (BUFFER_VECTOR ?a ! length (BUFFER_VECTOR a))"
      using sizes(2) by (simp add: BUFFER_new_def)
  qed
qed

lemma two_ends_on_blackboard:
  assumes e: "heaps_ok e1 SIZE 1" "heaps_ok e2 SIZE 1" and a: "ready_for name a" and size: "0 \<le> SIZE"
  obtains a1 where
    "ACM_EVENT_PORT_new mq e1 c1 name SIZE v 1 True False a w = (Returned (NO_ERROR, new_port e1 c1 (length (BLACKBOARD_VECTOR a)) name SIZE v 1 True False, a1), w)"
    "ACM_EVENT_PORT_new mq e2 c2 name SIZE v 1 True False a1 w = (Returned (NO_ERROR, new_port e2 c2 (length (BLACKBOARD_VECTOR a)) name SIZE v 1 True False, a1), w)"
    "on_blackboard (new_port e1 c1 (length (BLACKBOARD_VECTOR a)) name SIZE v 1 True False) a1"
    "on_blackboard (new_port e2 c2 (length (BLACKBOARD_VECTOR a)) name SIZE v 1 True False) a1"
proof -
  let ?i = "length (BLACKBOARD_VECTOR a)"
  let ?b = "\<lparr>BLACKBOARD_EVENT_ID = length (EVENT_VECTOR a), BLACKBOARD_NAME = name, BLACKBOARD_ID = ?i,
    BB_MAX_MESSAGE_SIZE = SIZE + 8, BB_CURRENT_MESSAGE_SIZE = 0, BB_PAYLOAD = board_heap e1\<rparr>"
  let ?a = "a\<lparr>EVENT_VECTOR := EVENT_VECTOR a @ [EVENT_new name], BLACKBOARD_VECTOR := BLACKBOARD_VECTOR a @ [?b]\<rparr>"
  have impl: "impl_type 1 True False = BLACKBOARD" by (simp add: impl_type_def)
  have created: "CREATE_BLACKBOARD name (SIZE + 8) (board_heap e1) a = ret_out NO_ERROR ?i ?a"
    using a size by (auto simp: CREATE_BLACKBOARD_def CREATE_EVENT_def ready_for_def)
  have inv: "boards_inv ?a"
    by (rule boards_inv_create [OF created]) (use a e(1) in \<open>auto simp: ready_for_def heaps_ok_def\<close>)
  have again: "CREATE_BLACKBOARD name (SIZE + 8) (board_heap e2) ?a = ret NO_ACTION ?a"
    using a size by (auto simp: CREATE_BLACKBOARD_def ready_for_def)
  have "find_index (\<lambda>b. BLACKBOARD_NAME b = name) (BLACKBOARD_VECTOR ?a) = Some ?i"
    using a by (auto simp: ready_for_def intro!: find_index_snoc_new)
  then have found: "GET_BLACKBOARD_ID name ?a = ret_out NO_ERROR ?i ?a" by (simp add: GET_BLACKBOARD_ID_def)
  show thesis
  proof (rule that [of ?a])
    show "ACM_EVENT_PORT_new mq e1 c1 name SIZE v 1 True False a w = (Returned (NO_ERROR, new_port e1 c1 ?i name SIZE v 1 True False, ?a), w)"
      using created by (simp add: ACM_EVENT_PORT_new_def create_implementation_def create_or_find_def TIME_SIZE_def impl Let_def new_port_def)
    show "ACM_EVENT_PORT_new mq e2 c2 name SIZE v 1 True False ?a w = (Returned (NO_ERROR, new_port e2 c2 ?i name SIZE v 1 True False, ?a), w)"
      using again found by (simp add: ACM_EVENT_PORT_new_def create_implementation_def create_or_find_def TIME_SIZE_def impl Let_def new_port_def)
    show "on_blackboard (new_port e1 c1 ?i name SIZE v 1 True False) ?a" "on_blackboard (new_port e2 c2 ?i name SIZE v 1 True False) ?a"
      using inv new_port_payload_ok [OF e(1)] new_port_payload_ok [OF e(2)] by (simp_all add: on_blackboard_def impl)
  qed
qed

section \<open>Sampling ports and sockets\<close>

text \<open>A port on a sampling port of its size, with a data buffer for the socket.\<close>

definition on_sampling_port :: "ACM_EVENT_PORT \<Rightarrow> APEX \<Rightarrow> bool" where
  "on_sampling_port p a \<longleftrightarrow>
     EVENT_PORT_IMPL_TYPE p = SAMPLINGPORT \<and> payload_ok p \<and> ports_inv a \<and> EVENT_PORT_ID p < length (SAMPLING_PORT_VECTOR a) \<and>
     S_MAX_MESSAGE_SIZE (SAMPLING_PORT_VECTOR a ! EVENT_PORT_ID p) = EVENT_PORT_TOTAL_SIZE p"

definition data_buffer_ok :: "ACM_EVENT_PORT \<Rightarrow> bool" where
  "data_buffer_ok p \<longleftrightarrow> (\<exists>block. INTER_MODULE_DATA_BUFFER p = Some block \<and> int (length block) = datagram_size p)"

text \<open>The datagram of a sampling port: the time and the size, and then the message.\<close>

definition sampling_datagram :: "int \<Rightarrow> byte list \<Rightarrow> byte list" where
  "sampling_datagram s x = le64_encode (word_of_int s) @ le64_encode (word_of_int (int (length x))) @ x"

lemma length_datagram: "length (sampling_datagram s x) = 16 + length x"
  by (simp add: sampling_datagram_def)

definition destinations :: "ACM_EVENT_PORT \<Rightarrow> DESTINATION_URL list" where
  "destinations p = map (\<lambda>u. u\<lparr>url_port := url_port u mod 65536\<rparr>) (DESTINATIONS_URLS p)"

lemma send_to_destinations_sent:
  assumes "net_laws net outbox"
  shows "\<exists>w'. send_to_destinations net bytes p w = Returned w' \<and> outbox w' = outbox w @ map (\<lambda>u. (u, bytes)) (destinations p)"
  using send_all_sent [OF assms, of bytes "destinations p" w] by (simp add: send_to_destinations_def destinations_def)

lemma on_sampling_portD:
  assumes "on_sampling_port p a"
  shows "unsigned_int (EVENT_PORT_ID p) = EVENT_PORT_ID p" "sampling_inv (SAMPLING_PORT_VECTOR a ! EVENT_PORT_ID p)"
    "S_READY_OR_NOT (SAMPLING_PORT_VECTOR a ! EVENT_PORT_ID p)" "EVENT_PORT_ID p < length (SAMPLING_PORT_VECTOR a)"
  using assms sampling_port_id_small by (auto simp: on_sampling_port_def ports_inv_def)

lemma write_on_sampling_port:
  assumes p: "on_sampling_port p a" "S_PORT_DIRECTION (SAMPLING_PORT_VECTOR a ! EVENT_PORT_ID p) \<noteq> PORT_DEST"
    and m: "len = int (length m)" "len + 8 \<le> EVENT_PORT_TOTAL_SIZE p"
    and net: "net_laws net outbox" "sender_mySocket p" "data_buffer_ok p"
  shows "\<exists>p' a' w'. WRITE_TO_EVENT_PORT mq net e rc m len TIME_OUT p a w = Returned (NO_ERROR, p', a', w') \<and>
    outbox w' = outbox w @ map (\<lambda>u. (u, sampling_datagram (service_nanos e) (stamped (port_nanos e) m))) (destinations p)"
proof -
  let ?i = "EVENT_PORT_ID p" and ?p = "assembled (port_nanos e) m p" and ?m = "stamped (port_nanos e) m"
  have load: "payload_ok p" and impl: "EVENT_PORT_IMPL_TYPE p = SAMPLINGPORT"
    and size: "S_MAX_MESSAGE_SIZE (SAMPLING_PORT_VECTOR a ! ?i) = EVENT_PORT_TOTAL_SIZE p" using p(1) by (simp_all add: on_sampling_port_def)
  note s = on_sampling_portD [OF p(1)]
  have n: "0 \<le> len + 8" "len + 8 \<le> int (length (EVENT_PORT_PAYLOAD ?p))" "take (nat (len + 8)) (EVENT_PORT_PAYLOAD ?p) = ?m"
    using m assembled_payload_ok [OF load, of m] by (simp_all add: payload_ok_def nat_add_distrib add.commute [of "length m" 8])
  obtain sp where sp: "WRITE_SAMPLING_MESSAGE (service_nanos e) (EVENT_PORT_PAYLOAD ?p) (len + 8) (SAMPLING_PORT_VECTOR a ! ?i) = Returned (NO_ERROR, sp)"
    "sampling_inv sp" "port_message sp = ?m" "ABSOLUTE_TIME_WRITTEN (shared_memory sp) = service_nanos e" "MESSAGE_SIZE (shared_memory sp) = len + 8"
    "sp\<lparr>shared_memory := shared_memory (SAMPLING_PORT_VECTOR a ! ?i)\<rparr> = SAMPLING_PORT_VECTOR a ! ?i"
    using sampling_write_ok [OF s(2,3) p(2) n(1) _ n(2), of "service_nanos e"] m(2) size n(3) by metis
  obtain block where block: "INTER_MODULE_DATA_BUFFER p = Some block" "int (length block) = datagram_size p"
    using net(3) by (auto simp: data_buffer_ok_def)
  let ?a = "a\<lparr>SAMPLING_PORT_VECTOR := (SAMPLING_PORT_VECTOR a)[?i := sp]\<rparr>"
  let ?bytes = "sampling_datagram (service_nanos e) ?m"
  have same: "S_READY_OR_NOT sp" "S_PORT_DIRECTION sp \<noteq> PORT_DEST" "S_REAL_MAX_MESSAGE_SIZE sp = datagram_size p"
  proof -
    have "S_READY_OR_NOT sp = S_READY_OR_NOT (SAMPLING_PORT_VECTOR a ! ?i)" "S_PORT_DIRECTION sp = S_PORT_DIRECTION (SAMPLING_PORT_VECTOR a ! ?i)"
      "S_REAL_MAX_MESSAGE_SIZE sp = S_REAL_MAX_MESSAGE_SIZE (SAMPLING_PORT_VECTOR a ! ?i)"
      using arg_cong [OF sp(6), of S_READY_OR_NOT] arg_cong [OF sp(6), of S_PORT_DIRECTION] arg_cong [OF sp(6), of S_REAL_MAX_MESSAGE_SIZE] by simp_all
    then show "S_READY_OR_NOT sp" "S_PORT_DIRECTION sp \<noteq> PORT_DEST" "S_REAL_MAX_MESSAGE_SIZE sp = datagram_size p"
      using s(2,3) p(2) size by (simp_all add: sampling_inv_def datagram_size_def)
  qed
  have "c_read (data (shared_memory sp)) (len + 8) = Returned ?m"
    using sp(2,3,5) same(1) n(1) by (simp add: c_read_def sampling_inv_def port_message_def)
  then have read: "READ_CONTENTS_TO_DATA_BUFFER (datagram_size p) sp = Returned (NO_ERROR, ?bytes)"
    using same sp(4,5) m(1) by (simp add: READ_CONTENTS_TO_DATA_BUFFER_def Let_def sampling_datagram_def add.commute)
  have copy: "c_memcpy block ?bytes (int (length ?bytes)) = Returned (?bytes @ drop (length ?bytes) block)"
    using block(2) m by (simp add: c_memcpy_def datagram_size_def length_datagram nat_add_distrib)
  have data: "datagram_size ?p = datagram_size p" "send_to_destinations net ?bytes ?p w = send_to_destinations net ?bytes p w"
    by (simp_all add: datagram_size_def send_to_destinations_def)
  obtain w' where w': "send_to_destinations net ?bytes p w = Returned w'" "outbox w' = outbox w @ map (\<lambda>u. (u, ?bytes)) (destinations p)"
    using send_to_destinations_sent [OF net(1)] by blast
  have "write_sampling net e (len + 8) ?p a w =
      Returned (NO_ERROR, ?p\<lparr>INTER_MODULE_DATA_BUFFER := Some (?bytes @ drop (length ?bytes) block)\<rparr>, ?a, w')"
    using s(1,4) sp(1) net(2) block(1) read copy data w'(1)
    by (simp add: write_sampling_def WRITE_SAMPLING_MESSAGE_service_def READ_CONTENTS_service_def Let_def)
  then show ?thesis using ASSEMBLE_DATA_fits [OF load m] impl w'(2) by (simp add: WRITE_TO_EVENT_PORT_def)
qed

text \<open>A datagram at the start of the data buffer, written into the port.\<close>

lemma write_contents_datagram:
  assumes q: "on_sampling_port q b" "S_PORT_DIRECTION (SAMPLING_PORT_VECTOR b ! EVENT_PORT_ID q) \<noteq> PORT_SOURCE"
    and x: "int (length x) \<le> EVENT_PORT_TOTAL_SIZE q" "int64 s"
  obtains sp where
    "\<And>rest. WRITE_CONTENTS_service (EVENT_PORT_ID q) (sampling_datagram s x @ rest) (datagram_size q) b =
      ret NO_ERROR (b\<lparr>SAMPLING_PORT_VECTOR := (SAMPLING_PORT_VECTOR b)[EVENT_PORT_ID q := sp]\<rparr>)"
    "sampling_inv sp" "S_READY_OR_NOT sp" "S_PORT_DIRECTION sp \<noteq> PORT_SOURCE" "S_REFRESH_PERIOD sp = S_REFRESH_PERIOD (SAMPLING_PORT_VECTOR b ! EVENT_PORT_ID q)"
    "MESSAGE_SIZE (shared_memory sp) = int (length x)" "ABSOLUTE_TIME_WRITTEN (shared_memory sp) = s" "port_message sp = x"
proof -
  let ?sp = "SAMPLING_PORT_VECTOR b ! EVENT_PORT_ID q"
  have size: "S_MAX_MESSAGE_SIZE ?sp = EVENT_PORT_TOTAL_SIZE q" using q(1) by (simp add: on_sampling_port_def)
  note i = on_sampling_portD [OF q(1)]
  have n64: "int64 (int (length x))" "int (length x) \<le> int (length (data (shared_memory ?sp)))"
    using i(2,3) x(1) size by (simp_all add: sampling_inv_def int64_def SYSTEM_LIMIT_MAX_SAMPLING_MESSAGE_SIZE_def)
  let ?new = "?sp\<lparr>shared_memory := \<lparr>ABSOLUTE_TIME_WRITTEN = s, MESSAGE_SIZE = int (length x), data = x @ drop (length x) (data (shared_memory ?sp))\<rparr>\<rparr>"
  have written: "WRITE_CONTENTS_FROM_DATA_BUFFER (sampling_datagram s x @ rest) (datagram_size q) ?sp = Returned (NO_ERROR, ?new)" for rest
  proof -
    let ?block = "sampling_datagram s x @ rest"
    have decode: "sint (le64_decode ?block) = s" "sint (le64_decode (drop 8 ?block)) = int (length x)" "drop 16 ?block = x @ rest"
      using sint_word_of_int64 [OF x(2)] sint_word_of_int64 [OF n64(1)] by (simp_all add: sampling_datagram_def le64_roundtrip)
    have memcpy: "c_memcpy (data (shared_memory ?sp)) (x @ rest) (int (length x)) = Returned (x @ drop (length x) (data (shared_memory ?sp)))"
      using n64(2) by (simp add: c_memcpy_def)
    have big: "16 \<le> datagram_size q" "16 \<le> length ?block" using x(1) by (simp_all add: datagram_size_def length_datagram)
    show ?thesis
      unfolding WRITE_CONTENTS_FROM_DATA_BUFFER_def Let_def decode using i(3) q(2) big memcpy by simp
  qed
  show thesis
  proof (rule that [of ?new])
    show "WRITE_CONTENTS_service (EVENT_PORT_ID q) (sampling_datagram s x @ rest) (datagram_size q) b =
        ret NO_ERROR (b\<lparr>SAMPLING_PORT_VECTOR := (SAMPLING_PORT_VECTOR b)[EVENT_PORT_ID q := ?new]\<rparr>)" for rest
      using written i(1,4) by (simp add: WRITE_CONTENTS_service_def)
    show "sampling_inv ?new" using i(2,3) n64(2) x(1) size by (simp add: sampling_inv_def)
    show "S_READY_OR_NOT ?new" "S_PORT_DIRECTION ?new \<noteq> PORT_SOURCE" "S_REFRESH_PERIOD ?new = S_REFRESH_PERIOD ?sp"
      "MESSAGE_SIZE (shared_memory ?new) = int (length x)" "ABSOLUTE_TIME_WRITTEN (shared_memory ?new) = s" "port_message ?new = x"
      using i(3) q(2) by (simp_all add: port_message_def)
  qed
qed

text \<open>The datagram taken from the socket into the port, and read.\<close>

lemma transfer_to_sampling_port:
  assumes q: "EVENT_PORT_IMPL_TYPE q = SAMPLINGPORT" "EVENT_PORT_TYPE q = READ"
    and sock: "recv_mySocket q = Some sock" "data_buffer_ok q" "recv_from net sock (datagram_size q) w = (Received d, w1)"
    and d: "int (length d) \<le> datagram_size q"
    and written: "\<And>rest. WRITE_CONTENTS_service (EVENT_PORT_ID q) (d @ rest) (datagram_size q) b = (ret NO_ERROR b' :: (unit reply \<times> APEX) outcome)"
  shows "\<exists>block. BLOCK_AND_TRANSFER_FROM_SOCKET_READ_PORT mq net now t q b w = Returned (NO_ERROR, q\<lparr>INTER_MODULE_DATA_BUFFER := Some block\<rparr>, b', w1)"
proof -
  obtain block where block: "INTER_MODULE_DATA_BUFFER q = Some block" "int (length block) = datagram_size q"
    using sock(2) by (auto simp: data_buffer_ok_def)
  have copy: "c_memcpy block d (int (length d)) = Returned (d @ drop (length d) block)" using block(2) d by (simp add: c_memcpy_def)
  have "BLOCK_AND_TRANSFER_FROM_SOCKET_READ_PORT mq net now t q b w =
      Returned (NO_ERROR, q\<lparr>INTER_MODULE_DATA_BUFFER := Some (d @ drop (length d) block)\<rparr>, b', w1)"
    using q sock(1,3) block(1) copy written
    by (simp add: BLOCK_AND_TRANSFER_FROM_SOCKET_READ_PORT_def intra_partition_def Let_def)
  then show ?thesis by blast
qed

lemma read_on_sampling_port:
  assumes q: "EVENT_PORT_IMPL_TYPE q = SAMPLINGPORT" "payload_ok q" "EVENT_PORT_ID q < length (SAMPLING_PORT_VECTOR b)"
    "unsigned_int (EVENT_PORT_ID q) = EVENT_PORT_ID q"
    and sp: "SAMPLING_PORT_VECTOR b ! EVENT_PORT_ID q = sp" "sampling_inv sp" "S_READY_OR_NOT sp" "S_PORT_DIRECTION sp \<noteq> PORT_SOURCE"
      "MESSAGE_SIZE (shared_memory sp) = int (length (stamped t m))" "port_message sp = stamped t m"
    and m: "int (length m) + 8 \<le> EVENT_PORT_TOTAL_SIZE q" "int64 t"
  shows "\<exists>q' b'. READ_FROM_EVENT_PORT mq e len TIME_OUT q b w =
    Returned (reading (port_nanos e) (service_nanos e - ABSOLUTE_TIME_WRITTEN (shared_memory sp) \<le> S_REFRESH_PERIOD sp) t m q, q', b', w)"
proof -
  let ?v = "if service_nanos e - ABSOLUTE_TIME_WRITTEN (shared_memory sp) > S_REFRESH_PERIOD sp then INVALID else VALID"
  let ?b = "b\<lparr>SAMPLING_PORT_VECTOR := (SAMPLING_PORT_VECTOR b)[EVENT_PORT_ID q := sp\<lparr>LAST_VALIDITY := ?v\<rparr>]\<rparr>"
  have "c_read (data (shared_memory sp)) (int (length (stamped t m))) = Returned (stamped t m)"
    using sp(2,3,5,6) by (simp add: c_read_def sampling_inv_def port_message_def)
  moreover have "(int (length (stamped t m)) = 0) = False" by simp
  ultimately have "READ_SAMPLING_MESSAGE (service_nanos e) sp =
      Returned (NO_ERROR, \<lparr>reply_length = Some (int (length (stamped t m))), reply_message = Some (stamped t m), reply_validity = Some ?v\<rparr>,
        sp\<lparr>LAST_VALIDITY := ?v\<rparr>)"
    unfolding READ_SAMPLING_MESSAGE_def Let_def sp(5) using sp(3,4) by simp
  then have "read_implementation mq e len TIME_OUT q b w = Returned (NO_ERROR, ?v, int (length m) + 8, assembled t m q, ?b, w)"
    using q(1,3,4) sp(1) store_payload_stamped [OF q(2) m(1)]
    by (simp add: read_implementation_def READ_SAMPLING_MESSAGE_service_def)
  from READ_FROM_EVENT_PORT_stamped [OF this m(2)] show ?thesis by (auto simp: reading_def)
qed

section \<open>Queuing ports and sockets\<close>

definition on_queuing_port :: "ACM_EVENT_PORT \<Rightarrow> APEX \<Rightarrow> bool" where
  "on_queuing_port p a \<longleftrightarrow>
     EVENT_PORT_IMPL_TYPE p = QUEUEINGPORT \<and> payload_ok p \<and> ports_inv a \<and> EVENT_PORT_ID p < length (QUEUING_PORT_VECTOR a) \<and>
     Q_MAX_MESSAGE_SIZE (QUEUING_PORT_VECTOR a ! EVENT_PORT_ID p) = EVENT_PORT_TOTAL_SIZE p"

text \<open>The POSIX queue of the port keeps its laws.\<close>

definition queue_laws :: "'w mq_calls \<Rightarrow> ('w \<Rightarrow> byte list list) \<Rightarrow> ACM_EVENT_PORT \<Rightarrow> APEX \<Rightarrow> bool" where
  "queue_laws mq contents q b \<longleftrightarrow>
     (let port = QUEUING_PORT_VECTOR b ! EVENT_PORT_ID q in mq_laws mq contents (Q_MQDES port) (Q_MAX_NB_MESSAGE port) (Q_MAX_MESSAGE_SIZE port))"

lemma on_queuing_portD:
  assumes "on_queuing_port p a"
  shows "unsigned_int (EVENT_PORT_ID p) = EVENT_PORT_ID p" "Q_READY_OR_NOT (QUEUING_PORT_VECTOR a ! EVENT_PORT_ID p)"
    "EVENT_PORT_ID p < length (QUEUING_PORT_VECTOR a)"
  using assms queuing_port_id_small by (auto simp: on_queuing_port_def ports_inv_def)

text \<open>A port that sends to other modules only leaves the return code as it was.\<close>

lemma write_only_inter_module:
  assumes p: "EVENT_PORT_IMPL_TYPE p = QUEUEINGPORT" "payload_ok p" "ONLY_INTER_MODULE p"
    and m: "len = int (length m)" "len + 8 \<le> EVENT_PORT_TOTAL_SIZE p"
    and net: "net_laws net outbox" "sender_mySocket p" "INTER_MODULE_DATA_BUFFER p \<noteq> None"
  shows "\<exists>w'. WRITE_TO_EVENT_PORT mq net e rc m len TIME_OUT p a w = Returned (rc, assembled (port_nanos e) m p, a, w') \<and>
    outbox w' = outbox w @ map (\<lambda>u. (u, stamped (port_nanos e) m)) (destinations p)"
proof -
  let ?p = "assembled (port_nanos e) m p" and ?m = "stamped (port_nanos e) m"
  have "c_read (EVENT_PORT_PAYLOAD ?p) (len + 8) = Returned ?m"
    using m assembled_payload_ok [OF p(2), of m] by (simp add: c_read_def payload_ok_def nat_add_distrib add.commute [of "length m" 8])
  moreover obtain w' where "send_to_destinations net ?m ?p w = Returned w'" "outbox w' = outbox w @ map (\<lambda>u. (u, ?m)) (destinations p)"
    using send_to_destinations_sent [OF net(1), of ?m ?p] by (auto simp: destinations_def)
  ultimately show ?thesis using ASSEMBLE_DATA_fits [OF p(2) m] p net(2,3)
    by (auto simp: WRITE_TO_EVENT_PORT_def write_queuing_def)
qed

lemma transfer_to_queuing_port:
  assumes q: "on_queuing_port q b" "Q_PORT_DIRECTION (QUEUING_PORT_VECTOR b ! EVENT_PORT_ID q) \<noteq> PORT_SOURCE" "EVENT_PORT_TYPE q = READ"
    and laws: "queue_laws mq contents q b"
    and sock: "recv_mySocket q = Some sock" "data_buffer_ok q" "recv_from net sock (datagram_size q) w = (Received x, w1)"
    and x: "int (length x) \<le> EVENT_PORT_TOTAL_SIZE q" "TIME_OUT \<le> MAX_TIME_OUT"
    and room: "int (length (contents w1)) < Q_MAX_NB_MESSAGE (QUEUING_PORT_VECTOR b ! EVENT_PORT_ID q)"
  shows "\<exists>block w2. BLOCK_AND_TRANSFER_FROM_SOCKET_READ_PORT mq net now TIME_OUT q b w =
      Returned (NO_ERROR, q\<lparr>INTER_MODULE_DATA_BUFFER := Some block\<rparr>, b, w2) \<and> contents w2 = contents w1 @ [x]"
proof -
  let ?port = "QUEUING_PORT_VECTOR b ! EVENT_PORT_ID q"
  obtain block where block: "INTER_MODULE_DATA_BUFFER q = Some block" "int (length block) = datagram_size q"
    using sock(2) by (auto simp: data_buffer_ok_def)
  let ?block = "x @ drop (length x) block"
  have copy: "c_memcpy block x (int (length x)) = Returned ?block" using block(2) x(1) by (simp add: c_memcpy_def datagram_size_def)
  have impl: "EVENT_PORT_IMPL_TYPE q = QUEUEINGPORT" and size: "Q_MAX_MESSAGE_SIZE ?port = EVENT_PORT_TOTAL_SIZE q"
    using q(1) by (simp_all add: on_queuing_port_def)
  note i = on_queuing_portD [OF q(1)]
  obtain w2 where w2: "send_to_queue mq PORT_SOURCE now ?block (int (length x)) TIME_OUT ?port w1 = Returned (NO_ERROR, w2)"
    "contents w2 = contents w1 @ [take (nat (int (length x))) ?block]"
    using queue_send_room [of mq contents ?port PORT_SOURCE TIME_OUT w1 "int (length x)" ?block now] i(2) q(2) x(2) room laws x(1) size
    by (auto simp: queue_laws_def Let_def)
  show ?thesis using q(3) impl sock(1,3) block(1) copy w2 i(1,3)
    by (auto simp: BLOCK_AND_TRANSFER_FROM_SOCKET_READ_PORT_def intra_partition_def Let_def MESSAGE_QUEUE_SEND_MESSAGE_FROM_BUFFER_def SEND_MESSAGE_FROM_SOCKET_def)
qed

lemma read_on_queuing_port:
  assumes q: "on_queuing_port q b" "Q_PORT_DIRECTION (QUEUING_PORT_VECTOR b ! EVENT_PORT_ID q) \<noteq> PORT_SOURCE"
    and laws: "queue_laws mq contents q b" and some: "contents w = stamped t m # ms"
    and m: "int (length m) + 8 \<le> EVENT_PORT_TOTAL_SIZE q" "int64 t" "TIME_OUT \<le> MAX_TIME_OUT"
  shows "\<exists>w'. READ_FROM_EVENT_PORT mq e len TIME_OUT q b w = Returned (reading (port_nanos e) True t m q, assembled t m q, b, w') \<and> contents w' = ms"
proof -
  let ?port = "QUEUING_PORT_VECTOR b ! EVENT_PORT_ID q"
  note i = on_queuing_portD [OF q(1)]
  obtain w' where w': "QUEUE_RECEIVE_MESSAGE mq (service_time e) TIME_OUT ?port w = Returned (NO_ERROR, Some (stamped t m), w')" "contents w' = ms"
    using queue_receive_some [of mq contents ?port TIME_OUT w "stamped t m" ms "service_time e"] i(2) q(2) m(3) some laws
    by (auto simp: queue_laws_def Let_def)
  have "read_implementation mq e len TIME_OUT q b w = Returned (NO_ERROR, VALID, int (length m) + 8, assembled t m q, b, w')"
    using q(1) i(1,3) w'(1) store_payload_stamped [OF _ m(1)] by (simp add: read_implementation_def RECEIVE_QUEUING_MESSAGE_def on_queuing_port_def)
  from READ_FROM_EVENT_PORT_stamped [OF this m(2)] w'(2) show ?thesis by simp
qed

end
