(* ===== verification/EventPortTheorems.thy ===== *)
theory EventPortTheorems
  imports EventPortProperties QueueChannel
begin

text \<open>
  The properties of event ports: a message written at one end is read at the other, inside a partition and between
  modules, and what a failed reception does.
\<close>

text \<open>C10. Two ends of an event port in one partition meet: the first constructor creates the buffer or the blackboard, the second
  finds it by its name, and a message of at most SIZE bytes written at one end is read at the other with its length,
  valid exactly if it is not older than the validity period.\<close>

theorem event_port_ends_meet:
  assumes "heaps_ok e1 SIZE MAX_NB" "heaps_ok e2 SIZE MAX_NB" "ready_for name a" "0 \<le> SIZE"
    "1 \<le> MAX_NB" "MAX_NB \<le> int SYSTEM_LIMIT_NUMBER_OF_MESSAGES" "isDESTRUCTIVEREAD \<or> MAX_NB = 1"
    "int (length m) \<le> SIZE" "int64 (port_nanos ew)" "TIME_OUT \<le> MAX_TIME_OUT" "TIME_OUT2 \<le> MAX_TIME_OUT"
  shows "\<exists>p q a1. ACM_EVENT_PORT_new mq e1 WRITE name SIZE v MAX_NB True isDESTRUCTIVEREAD a w = (Returned (NO_ERROR, p, a1), w) \<and>
    ACM_EVENT_PORT_new mq e2 READ name SIZE v MAX_NB True isDESTRUCTIVEREAD a1 w = (Returned (NO_ERROR, q, a1), w) \<and>
    (\<exists>p' a2 q' a3. WRITE_TO_EVENT_PORT mq net ew rc m (int (length m)) TIME_OUT p a1 w = Returned (NO_ERROR, p', a2, w) \<and>
      READ_FROM_EVENT_PORT mq er len TIME_OUT2 q a2 w =
        Returned ((NO_ERROR, port_nanos er - port_nanos ew \<le> v, int (length m), Some m), q', a3, w))"
proof (cases isDESTRUCTIVEREAD)
  case True
  let ?i = "length (BUFFER_VECTOR a)"
  let ?p = "new_port e1 WRITE ?i name SIZE v MAX_NB True True" and ?q = "new_port e2 READ ?i name SIZE v MAX_NB True True"
  obtain a1 where a1: "ACM_EVENT_PORT_new mq e1 WRITE name SIZE v MAX_NB True True a w = (Returned (NO_ERROR, ?p, a1), w)"
    "ACM_EVENT_PORT_new mq e2 READ name SIZE v MAX_NB True True a1 w = (Returned (NO_ERROR, ?q, a1), w)"
    "on_buffer ?p a1" "on_buffer ?q a1" "buffer_contents (BUFFER_VECTOR a1 ! ?i) = []"
    "CURRENT_MESSAGE_SIZE (BUFFER_VECTOR a1 ! ?i) < BUFFER_MAX_NB_MESSAGE (BUFFER_VECTOR a1 ! ?i)"
    by (rule two_ends_on_buffer [OF assms(1-6)]) (rule that; assumption)
  obtain a2 where a2: "WRITE_TO_EVENT_PORT mq net ew rc m (int (length m)) TIME_OUT ?p a1 w = Returned (NO_ERROR, assembled (port_nanos ew) m ?p, a2, w)"
    "buffers_inv a2" "length (BUFFER_VECTOR a2) = length (BUFFER_VECTOR a1)"
    "buffer_contents (BUFFER_VECTOR a2 ! ?i) = [stamped (port_nanos ew) m]" "BUFFER_MAX_MESSAGE_SIZE (BUFFER_VECTOR a2 ! ?i) = SIZE + 8"
  proof (rule write_on_buffer [OF a1(3) refl _ assms(10), of m mq net ew rc w])
    show "int (length m) + 8 \<le> EVENT_PORT_TOTAL_SIZE ?p" using assms(8) by simp
    show "CURRENT_MESSAGE_SIZE (BUFFER_VECTOR a1 ! EVENT_PORT_ID ?p) < BUFFER_MAX_NB_MESSAGE (BUFFER_VECTOR a1 ! EVENT_PORT_ID ?p)"
      using a1(6) by simp
  qed (rule that, use a1(5) in simp_all)
  have "on_buffer ?q a2" using a1(4) a2(2,3,5) by (simp add: on_buffer_def)
  moreover have "int (length m) + 8 \<le> EVENT_PORT_TOTAL_SIZE ?q" "buffer_contents (BUFFER_VECTOR a2 ! EVENT_PORT_ID ?q) = stamped (port_nanos ew) m # []"
    using a2(4) assms(8) by simp_all
  ultimately obtain a3 where "READ_FROM_EVENT_PORT mq er len TIME_OUT2 ?q a2 w =
      Returned (reading (port_nanos er) True (port_nanos ew) m ?q, assembled (port_nanos ew) m ?q, a3, w)"
    by (rule read_on_buffer [OF _ assms(9) _ assms(11)]) (rule that; assumption)
  then show ?thesis using True a1(1,2) a2(1) by (auto simp: reading_def)
next
  case False
  then have one: "MAX_NB = 1" using assms(7) by simp
  let ?i = "length (BLACKBOARD_VECTOR a)"
  let ?p = "new_port e1 WRITE ?i name SIZE v 1 True False" and ?q = "new_port e2 READ ?i name SIZE v 1 True False"
  obtain a1 where a1: "ACM_EVENT_PORT_new mq e1 WRITE name SIZE v 1 True False a w = (Returned (NO_ERROR, ?p, a1), w)"
    "ACM_EVENT_PORT_new mq e2 READ name SIZE v 1 True False a1 w = (Returned (NO_ERROR, ?q, a1), w)"
    "on_blackboard ?p a1" "on_blackboard ?q a1"
    by (rule two_ends_on_blackboard [OF assms(1) [unfolded one] assms(2) [unfolded one] assms(3,4)]) (rule that; assumption)
  have m: "int (length m) + 8 \<le> EVENT_PORT_TOTAL_SIZE ?p" "int (length m) + 8 \<le> EVENT_PORT_TOTAL_SIZE ?q" using assms(8) by simp_all
  show ?thesis
    using False one a1(1,2) write_on_blackboard [OF a1(3) refl m(1), of mq net ew rc TIME_OUT w]
      read_on_blackboard [OF a1(4) assms(9) m(2) assms(11), of mq er len w] by (simp add: reading_def)
qed

text \<open>The partition and the environments of the witnesses.\<close>

definition demo_create_env :: create_env where
  "demo_create_env =
     \<lparr>payload_heap = replicate 12 0, uninitialised_id = 77, new_shm = \<lparr>shm_descriptor = 3, shm_eexist = False, shm_truncated = True, shm_mapped = None\<rparr>,
      new_unmapped = \<lparr>ABSOLUTE_TIME_WRITTEN = 0, MESSAGE_SIZE = 0, data = []\<rparr>, board_heap = replicate 12 0,
      buffer_heap = [\<lparr>ACTUAL_LOAD = replicate 12 0, MSG_LENGTH = 0\<rparr>, \<lparr>ACTUAL_LOAD = replicate 12 0, MSG_LENGTH = 0\<rparr>]\<rparr>"

definition demo_port_env :: "int \<Rightarrow> port_env" where
  "demo_port_env t = \<lparr>port_nanos = t, service_nanos = t, service_time = \<lparr>tv_sec = 0, tv_nsec = 0\<rparr>, buffer_wakeups = [], board_wakeups = []\<rparr>"

definition demo_list_sys :: list_sys where
  "demo_list_sys = \<lparr>net_sent = [], net_arrived = (\<lambda>_. []), sys_queues = (\<lambda>_. [])\<rparr>"

theorem event_port_ends_meet_witness:
  "\<exists>p q a1 p' a2 q' a3.
    ACM_EVENT_PORT_new (list_sys_mq (\<lambda>_. 1)) demo_create_env WRITE ''E'' 4 100 2 True True APEX_new demo_list_sys = (Returned (NO_ERROR, p, a1), demo_list_sys) \<and>
    WRITE_TO_EVENT_PORT (list_sys_mq (\<lambda>_. 1)) list_net_calls (demo_port_env 1000) NO_ACTION [1, 2, 3] 3 0 p a1 demo_list_sys = Returned (NO_ERROR, p', a2, demo_list_sys) \<and>
    READ_FROM_EVENT_PORT (list_sys_mq (\<lambda>_. 1)) (demo_port_env 1200) 0 0 q a2 demo_list_sys =
      Returned ((NO_ERROR, False, 3, Some [1, 2, 3]), q', a3, demo_list_sys)"
proof -
  have e: "heaps_ok demo_create_env 4 2" by (simp add: heaps_ok_def demo_create_env_def)
  have a: "ready_for ''E'' APEX_new"
    by (simp add: ready_for_def APEX_new_def buffers_inv_def boards_inv_def SYSTEM_LIMIT_NUMBER_OF_BUFFERS_def)
  have t: "int64 (port_nanos (demo_port_env 1000))" "(0::int) \<le> MAX_TIME_OUT" "(2::int) \<le> int SYSTEM_LIMIT_NUMBER_OF_MESSAGES"
    using MAX_TIME_OUT_pos by (simp_all add: int64_def demo_port_env_def SYSTEM_LIMIT_NUMBER_OF_MESSAGES_def)
  have "int (length [1, 2, 3 :: byte]) = 3" "\<not> port_nanos (demo_port_env 1200) - port_nanos (demo_port_env 1000) \<le> 100"
    by (simp_all add: demo_port_env_def)
  then show ?thesis
    using event_port_ends_meet [OF e e a _ _ t(3) _ _ t(1,2,2), of True "[1, 2, 3]" "list_sys_mq (\<lambda>_. 1)" 100 demo_list_sys list_net_calls NO_ACTION "demo_port_env 1200" 0]
    by fastforce
qed

text \<open>Two modules with one sampling and one queuing port each, and their event ports.\<close>

definition demo_side :: "DIRECTION_TYPE \<Rightarrow> APEX" where
  "demo_side d = APEX_new\<lparr>
     SAMPLING_PORT_VECTOR := [\<lparr>S_NAME = ''E'', S_MAX_MESSAGE_SIZE = 12, S_PORT_DIRECTION = d, S_REFRESH_PERIOD = 1000, SAMPLING_DESCRIPTOR = 3,
       S_REAL_MAX_MESSAGE_SIZE = 28, S_EXTRA_MEMORY_REQUIRED = 16, S_READY_OR_NOT = True, LAST_VALIDITY = INVALID,
       shared_memory = \<lparr>ABSOLUTE_TIME_WRITTEN = 0, MESSAGE_SIZE = 0, data = replicate 12 0\<rparr>\<rparr>],
     QUEUING_PORT_VECTOR := [\<lparr>ref = 1, Q_NAME = ''E'', Q_MAX_MESSAGE_SIZE = 12, Q_MAX_NB_MESSAGE = 2, Q_PORT_DIRECTION = d, Q_READY_OR_NOT = True,
       REAL_PLATFORM_NAME = ''/E'', Q_MQDES = 4\<rparr>]\<rparr>"

definition demo_end :: "EVENT_PORT_COMM_TYPE \<Rightarrow> bool \<Rightarrow> ACM_EVENT_PORT" where
  "demo_end c destructive = (new_port demo_create_env c 0 ''E'' 4 100 1 False destructive)
     \<lparr>DESTINATIONS_URLS := [\<lparr>node_name = ''N'', url_port = 5000\<rparr>], sender_mySocket := (c = WRITE), recv_mySocket := Some 5000,
      INTER_MODULE_DATA_BUFFER := Some (replicate 28 0), ONLY_INTER_MODULE := destructive\<rparr>"

definition demo_arrived :: "byte list \<Rightarrow> list_sys" where
  "demo_arrived d = demo_list_sys\<lparr>net_arrived := (\<lambda>_. [])(5000 := [d])\<rparr>"

lemma demo_ends:
  "on_sampling_port (demo_end c False) (demo_side d)" "on_queuing_port (demo_end c True) (demo_side d)"
  "data_buffer_ok (demo_end c x)" "EVENT_PORT_TYPE (demo_end c x) = c" "recv_mySocket (demo_end c x) = Some 5000" "EVENT_PORT_TOTAL_SIZE (demo_end c x) = 12"
  "datagram_size (demo_end c x) = 28" "EVENT_PORT_VALIDITY_PERIOD (demo_end c x) = 100" "EVENT_PORT_ID (demo_end c x) = 0"
  "queue_laws (list_sys_mq (\<lambda>_. 2)) (\<lambda>w. sys_queues w 4) (demo_end c True) (demo_side d)"
proof -
  have payload: "payload_ok (demo_end c x)" for x by (simp add: demo_end_def new_port_def payload_ok_def demo_create_env_def)
  have ports: "ports_inv (demo_side d)"
    by (simp add: demo_side_def ports_inv_def sampling_inv_def SYSTEM_LIMIT_NUMBER_OF_SAMPLING_PORTS_def SYSTEM_LIMIT_NUMBER_OF_QUEUING_PORTS_def
        SYSTEM_LIMIT_MAX_SAMPLING_MESSAGE_SIZE_def)
  have impl: "impl_type 1 False False = SAMPLINGPORT" "impl_type 1 False True = QUEUEINGPORT" by (simp_all add: impl_type_def)
  show "on_sampling_port (demo_end c False) (demo_side d)" "on_queuing_port (demo_end c True) (demo_side d)"
    using payload ports by (simp_all add: on_sampling_port_def on_queuing_port_def impl demo_end_def) (simp_all add: demo_side_def)
  show "data_buffer_ok (demo_end c x)" "EVENT_PORT_TYPE (demo_end c x) = c" "recv_mySocket (demo_end c x) = Some 5000" "EVENT_PORT_TOTAL_SIZE (demo_end c x) = 12"
    "datagram_size (demo_end c x) = 28" "EVENT_PORT_VALIDITY_PERIOD (demo_end c x) = 100" "EVENT_PORT_ID (demo_end c x) = 0"
    by (simp_all add: demo_end_def new_port_def data_buffer_ok_def datagram_size_def)
  show "queue_laws (list_sys_mq (\<lambda>_. 2)) (\<lambda>w. sys_queues w 4) (demo_end c True) (demo_side d)"
    by (auto simp: queue_laws_def Let_def demo_end_def new_port_def demo_side_def mq_laws_def list_sys_mq_def split: if_splits list.splits)
qed



text \<open>A message crosses modules through queuing ports: a port that sends to other modules only sends the message with its time
  to every destination and leaves the return code as it was; the port of another module that receives it puts it into
  its queue, and when it is the first there, a read gives it, valid exactly if it is not older than the
  validity period.\<close>

theorem event_port_crosses_by_queuing:
  assumes p: "EVENT_PORT_IMPL_TYPE p = QUEUEINGPORT" "payload_ok p" "ONLY_INTER_MODULE p" "sender_mySocket p" "INTER_MODULE_DATA_BUFFER p \<noteq> None"
    and q: "on_queuing_port q b" "Q_PORT_DIRECTION (QUEUING_PORT_VECTOR b ! EVENT_PORT_ID q) \<noteq> PORT_SOURCE" "EVENT_PORT_TYPE q = READ"
      "queue_laws mq contents q b" "recv_mySocket q = Some sock" "data_buffer_ok q"
    and sizes: "int (length m) + 8 \<le> EVENT_PORT_TOTAL_SIZE p" "EVENT_PORT_TOTAL_SIZE p \<le> EVENT_PORT_TOTAL_SIZE q"
    and times: "int64 (port_nanos ew)" "TIME_OUT2 \<le> MAX_TIME_OUT" "TIME_OUT3 \<le> MAX_TIME_OUT" and net: "net_laws net outbox"
  shows "\<exists>p' w'. WRITE_TO_EVENT_PORT mq net ew rc m (int (length m)) TIME_OUT p a w = Returned (rc, p', a, w') \<and>
    outbox w' = outbox w @ map (\<lambda>u. (u, stamped (port_nanos ew) m)) (destinations p) \<and>
    (\<forall>v v1. recv_from net sock (datagram_size q) v = (Received (stamped (port_nanos ew) m), v1) \<and>
        int (length (contents v1)) < Q_MAX_NB_MESSAGE (QUEUING_PORT_VECTOR b ! EVENT_PORT_ID q) \<longrightarrow>
      (\<exists>q1 v2. BLOCK_AND_TRANSFER_FROM_SOCKET_READ_PORT mq net now TIME_OUT2 q b v = Returned (NO_ERROR, q1, b, v2) \<and>
        contents v2 = contents v1 @ [stamped (port_nanos ew) m] \<and>
        (contents v1 = [] \<longrightarrow> (\<exists>q2 v3. READ_FROM_EVENT_PORT mq er len TIME_OUT3 q1 b v2 =
          Returned ((NO_ERROR, port_nanos er - port_nanos ew \<le> EVENT_PORT_VALIDITY_PERIOD q, int (length m), Some m), q2, b, v3)))))"
proof -
  let ?d = "stamped (port_nanos ew) m"
  obtain w' where w': "WRITE_TO_EVENT_PORT mq net ew rc m (int (length m)) TIME_OUT p a w = Returned (rc, assembled (port_nanos ew) m p, a, w')"
    "outbox w' = outbox w @ map (\<lambda>u. (u, ?d)) (destinations p)"
    using write_only_inter_module [OF p(1-3) refl sizes(1) net p(4,5)] by blast
  have len: "int (length m) + 8 \<le> EVENT_PORT_TOTAL_SIZE q" using sizes by simp
  then have ld: "int (length ?d) \<le> EVENT_PORT_TOTAL_SIZE q" by simp
  have "\<exists>q1 v2. BLOCK_AND_TRANSFER_FROM_SOCKET_READ_PORT mq net now TIME_OUT2 q b v = Returned (NO_ERROR, q1, b, v2) \<and>
        contents v2 = contents v1 @ [?d] \<and>
        (contents v1 = [] \<longrightarrow> (\<exists>q2 v3. READ_FROM_EVENT_PORT mq er len TIME_OUT3 q1 b v2 =
          Returned ((NO_ERROR, port_nanos er - port_nanos ew \<le> EVENT_PORT_VALIDITY_PERIOD q, int (length m), Some m), q2, b, v3)))"
    if got: "recv_from net sock (datagram_size q) v = (Received ?d, v1)"
      "int (length (contents v1)) < Q_MAX_NB_MESSAGE (QUEUING_PORT_VECTOR b ! EVENT_PORT_ID q)" for v v1
  proof -
    obtain block v2 where v2: "BLOCK_AND_TRANSFER_FROM_SOCKET_READ_PORT mq net now TIME_OUT2 q b v =
        Returned (NO_ERROR, q\<lparr>INTER_MODULE_DATA_BUFFER := Some block\<rparr>, b, v2)" "contents v2 = contents v1 @ [?d]"
      using transfer_to_queuing_port [OF q(1-6) got(1) ld times(2) got(2)] by blast
    let ?q = "q\<lparr>INTER_MODULE_DATA_BUFFER := Some block\<rparr>"
    have "on_queuing_port ?q b" "queue_laws mq contents ?q b" using q(1,4) by (simp_all add: on_queuing_port_def payload_ok_def queue_laws_def)
    note r = read_on_queuing_port [OF this(1) _ this(2), of v2 "port_nanos ew" m "[]" TIME_OUT3 er len]
    have "\<exists>q2 v3. READ_FROM_EVENT_PORT mq er len TIME_OUT3 ?q b v2 =
          Returned ((NO_ERROR, port_nanos er - port_nanos ew \<le> EVENT_PORT_VALIDITY_PERIOD q, int (length m), Some m), q2, b, v3)" if "contents v1 = []"
      using r that v2(2) q(2) len times by (auto simp: reading_def)
    then show ?thesis using v2 by blast
  qed
  then show ?thesis using w' by blast
qed

text \<open>A reception that fails delivers the last datagram again: a port on a sampling port does not look at what the reception
  answers, so the message that its data buffer still holds is written into the sampling port once more, with NO\_ERROR.\<close>

theorem failed_reception_repeats:
  assumes "on_sampling_port q b" "S_PORT_DIRECTION (SAMPLING_PORT_VECTOR b ! EVENT_PORT_ID q) \<noteq> PORT_SOURCE" "EVENT_PORT_TYPE q = READ"
    "recv_mySocket q = Some sock" "INTER_MODULE_DATA_BUFFER q = Some (sampling_datagram s x @ rest)"
    "recv_from net sock (datagram_size q) w = (r, w1)" "\<forall>bs. r \<noteq> Received bs"
    "int (length x) \<le> EVENT_PORT_TOTAL_SIZE q" "int64 s"
  shows "\<exists>b'. BLOCK_AND_TRANSFER_FROM_SOCKET_READ_PORT mq net now TIME_OUT q b w = Returned (NO_ERROR, q, b', w1) \<and>
    port_message (SAMPLING_PORT_VECTOR b' ! EVENT_PORT_ID q) = x \<and>
    ABSOLUTE_TIME_WRITTEN (shared_memory (SAMPLING_PORT_VECTOR b' ! EVENT_PORT_ID q)) = s"
proof -
  let ?i = "EVENT_PORT_ID q"
  note i = on_sampling_portD [OF assms(1)]
  obtain sp where sp: "\<And>rest. WRITE_CONTENTS_service ?i (sampling_datagram s x @ rest) (datagram_size q) b = (ret NO_ERROR (b\<lparr>SAMPLING_PORT_VECTOR := (SAMPLING_PORT_VECTOR b)[?i := sp]\<rparr>) :: (unit reply \<times> APEX) outcome)"
    "port_message sp = x" "ABSOLUTE_TIME_WRITTEN (shared_memory sp) = s"
    by (rule write_contents_datagram [OF assms(1,2,8,9)]) (rule that; blast)
  have "EVENT_PORT_IMPL_TYPE q = SAMPLINGPORT" using assms(1) by (simp add: on_sampling_port_def)
  moreover have "q\<lparr>INTER_MODULE_DATA_BUFFER := Some (sampling_datagram s x @ rest)\<rparr> = q" using assms(5) [symmetric] by simp
  ultimately have "BLOCK_AND_TRANSFER_FROM_SOCKET_READ_PORT mq net now TIME_OUT q b w =
      Returned (NO_ERROR, q, b\<lparr>SAMPLING_PORT_VECTOR := (SAMPLING_PORT_VECTOR b)[?i := sp]\<rparr>, w1)"
    using assms(3-7) sp(1) by (cases r) (auto simp: BLOCK_AND_TRANSFER_FROM_SOCKET_READ_PORT_def intra_partition_def Let_def)
  then show ?thesis using sp(2,3) i(4) by simp
qed

theorem event_port_crosses_by_queuing_witness:
  "\<exists>p' w' d q1 v2 q2 v3.
    WRITE_TO_EVENT_PORT (list_sys_mq (\<lambda>_. 2)) list_net_calls (demo_port_env 1000) NO_ACTION [1, 2, 3] 3 0 (demo_end WRITE True) (demo_side PORT_SOURCE)
      demo_list_sys = Returned (NO_ACTION, p', demo_side PORT_SOURCE, w') \<and>
    net_sent w' = [(\<lparr>node_name = ''N'', url_port = 5000\<rparr>, d)] \<and>
    BLOCK_AND_TRANSFER_FROM_SOCKET_READ_PORT (list_sys_mq (\<lambda>_. 2)) list_net_calls (service_time (demo_port_env 0)) 0 (demo_end READ True) (demo_side PORT_DEST) (demo_arrived d) =
      Returned (NO_ERROR, q1, demo_side PORT_DEST, v2) \<and> sys_queues v2 4 = [d] \<and>
    READ_FROM_EVENT_PORT (list_sys_mq (\<lambda>_. 2)) (demo_port_env 1100) 0 0 q1 (demo_side PORT_DEST) v2 =
      Returned ((NO_ERROR, True, 3, Some [1, 2, 3]), q2, demo_side PORT_DEST, v3)"
proof -
  let ?d = "stamped (port_nanos (demo_port_env 1000)) [1, 2, 3]"
  have net: "net_laws list_net_calls net_sent" by (rule list_net_laws)
  have t: "int64 (port_nanos (demo_port_env 1000))" "(0::int) \<le> MAX_TIME_OUT" using MAX_TIME_OUT_pos by (simp_all add: int64_def demo_port_env_def)
  have sender: "EVENT_PORT_IMPL_TYPE (demo_end WRITE True) = QUEUEINGPORT" "payload_ok (demo_end WRITE True)" "ONLY_INTER_MODULE (demo_end WRITE True)"
    "sender_mySocket (demo_end WRITE True)" "INTER_MODULE_DATA_BUFFER (demo_end WRITE True) \<noteq> None"
    "destinations (demo_end WRITE True) = [\<lparr>node_name = ''N'', url_port = 5000\<rparr>]"
    by (simp_all add: demo_end_def destinations_def new_port_def impl_type_def payload_ok_def demo_create_env_def)
  have three: "int (length [1, 2, 3 :: byte]) = 3" by simp
  have d: "Q_PORT_DIRECTION (QUEUING_PORT_VECTOR (demo_side PORT_DEST) ! EVENT_PORT_ID (demo_end READ True)) \<noteq> PORT_SOURCE"
    "Q_MAX_NB_MESSAGE (QUEUING_PORT_VECTOR (demo_side PORT_DEST) ! EVENT_PORT_ID (demo_end READ True)) = 2"
    by (simp_all add: demo_ends) (simp_all add: demo_side_def)
  have sizes: "int (length [1, 2, 3 :: byte]) + 8 \<le> EVENT_PORT_TOTAL_SIZE (demo_end WRITE True)"
    "EVENT_PORT_TOTAL_SIZE (demo_end WRITE True) \<le> EVENT_PORT_TOTAL_SIZE (demo_end READ True)" by (simp_all add: demo_ends)
  have got: "recv_from list_net_calls 5000 (datagram_size (demo_end READ True)) (demo_arrived ?d) = (Received ?d, demo_list_sys)" "sys_queues demo_list_sys 4 = []"
    by (simp_all add: list_net_calls_def demo_arrived_def demo_ends demo_list_sys_def fun_upd_idem)
  have room: "int (length (sys_queues demo_list_sys 4)) < 2" by (simp add: got(2))
  note T = event_port_crosses_by_queuing [OF sender(1-5) demo_ends(2) d(1) demo_ends(4,10,5,3) sizes t(1,2,2) net,
      of NO_ACTION 0 "demo_side PORT_SOURCE" demo_list_sys "service_time (demo_port_env 0)" "demo_port_env 1100" 0, unfolded three sender d(2)]
  obtain p' w' where w': "WRITE_TO_EVENT_PORT (list_sys_mq (\<lambda>_. 2)) list_net_calls (demo_port_env 1000) NO_ACTION [1, 2, 3] 3 0 (demo_end WRITE True) (demo_side PORT_SOURCE)
      demo_list_sys = Returned (NO_ACTION, p', demo_side PORT_SOURCE, w')" "net_sent w' = net_sent demo_list_sys @ map (\<lambda>u. (u, ?d)) [\<lparr>node_name = ''N'', url_port = 5000\<rparr>]"
    using T by blast
  from T got(1) room obtain q1 v2 where r: "BLOCK_AND_TRANSFER_FROM_SOCKET_READ_PORT (list_sys_mq (\<lambda>_. 2)) list_net_calls (service_time (demo_port_env 0)) 0 (demo_end READ True) (demo_side PORT_DEST) (demo_arrived ?d) =
      Returned (NO_ERROR, q1, demo_side PORT_DEST, v2)" "sys_queues v2 4 = sys_queues demo_list_sys 4 @ [?d]"
    "sys_queues demo_list_sys 4 = [] \<longrightarrow> (\<exists>q2 v3. READ_FROM_EVENT_PORT (list_sys_mq (\<lambda>_. 2)) (demo_port_env 1100) 0 0 q1 (demo_side PORT_DEST) v2 =
      Returned ((NO_ERROR, port_nanos (demo_port_env 1100) - port_nanos (demo_port_env 1000) \<le> EVENT_PORT_VALIDITY_PERIOD (demo_end READ True), 3, Some [1, 2, 3]), q2, demo_side PORT_DEST, v3))"
    by blast
  have "port_nanos (demo_port_env 1100) - port_nanos (demo_port_env 1000) \<le> 100" by (simp add: demo_port_env_def)
  then obtain q2 v3 where "READ_FROM_EVENT_PORT (list_sys_mq (\<lambda>_. 2)) (demo_port_env 1100) 0 0 q1 (demo_side PORT_DEST) v2 =
      Returned ((NO_ERROR, True, 3, Some [1, 2, 3]), q2, demo_side PORT_DEST, v3)"
    using r(3) got(2) unfolding demo_ends(8) by auto
  moreover have "net_sent w' = [(\<lparr>node_name = ''N'', url_port = 5000\<rparr>, ?d)]" using w'(2) by (simp add: demo_list_sys_def)
  moreover have "sys_queues v2 4 = [?d]" using r(2) got(2) by simp
  ultimately show ?thesis using w'(1) r(1) by blast
qed

theorem failed_reception_repeats_witness:
  "\<exists>b'. BLOCK_AND_TRANSFER_FROM_SOCKET_READ_PORT (list_sys_mq (\<lambda>_. 2)) list_net_calls (service_time (demo_port_env 0)) 0
      ((demo_end READ False)\<lparr>INTER_MODULE_DATA_BUFFER := Some (sampling_datagram 1000 [1, 2, 3] @ replicate 9 0)\<rparr>) (demo_side PORT_DEST) demo_list_sys =
      Returned (NO_ERROR, (demo_end READ False)\<lparr>INTER_MODULE_DATA_BUFFER := Some (sampling_datagram 1000 [1, 2, 3] @ replicate 9 0)\<rparr>, b', demo_list_sys) \<and>
    port_message (SAMPLING_PORT_VECTOR b' ! 0) = [1, 2, 3]"
proof -
  let ?q = "(demo_end READ False)\<lparr>INTER_MODULE_DATA_BUFFER := Some (sampling_datagram 1000 [1, 2, 3] @ replicate 9 0)\<rparr>"
  have q: "on_sampling_port ?q (demo_side PORT_DEST)" using demo_ends(1) by (simp add: on_sampling_port_def payload_ok_def)
  have more: "EVENT_PORT_TYPE ?q = READ" "recv_mySocket ?q = Some 5000" "EVENT_PORT_ID ?q = 0" "EVENT_PORT_TOTAL_SIZE ?q = 12"
    "INTER_MODULE_DATA_BUFFER ?q = Some (sampling_datagram 1000 [1, 2, 3] @ replicate 9 0)" by (simp_all add: demo_ends)
  have d: "S_PORT_DIRECTION (SAMPLING_PORT_VECTOR (demo_side PORT_DEST) ! EVENT_PORT_ID ?q) \<noteq> PORT_SOURCE" by (simp add: demo_ends) (simp add: demo_side_def)
  have got: "recv_from list_net_calls 5000 (datagram_size ?q) demo_list_sys = (Would_block, demo_list_sys)" by (simp add: list_net_calls_def demo_list_sys_def)
  have x: "int (length [1, 2, 3 :: byte]) \<le> EVENT_PORT_TOTAL_SIZE ?q" "int64 1000" by (simp_all add: demo_ends int64_def)
  show ?thesis
    using failed_reception_repeats [OF q d more(1,2,5) got _ x, of "list_sys_mq (\<lambda>_. 2)" "service_time (demo_port_env 0)" 0] unfolding more(3) by auto
qed

end
