(* ===== verification/PartitionModes.thy ===== *)
theory PartitionModes
  imports Scheduler TimeServices
begin

text \<open>
  The life of a partition: SET\_PARTITION\_MODE, GET\_PARTITION\_STATUS, TERMINATE and CLEAR\_VECTORS of src/APEX.cc, and the start of
  the scheduler and the signal handlers of src/APEX\_SCHEDULING.cc.  The pointer \<open>_pinstance\<close> is null, points to the
  partition, or points to a partition that TERMINATE has deleted (the last contents are kept to state what was done);
  a use of a deleted partition is undefined.  Handlers of the user are a parameter; a function that ends the program with
  \<open>exit\<close> returns the code.  The priority of the parent and the environment variable ACM\_INIT\_TIME are inputs.
\<close>

datatype pinstance = No_instance | Instance APEX | Deleted APEX

datatype partition_event = Sent_SIGUSR1_to_parent | Raised_SIGSTOP

record APEX_statics =
  pinstance :: pinstance
  PARTITION_NAME :: string
  moduleManagerIsParent :: bool
  sigIntCount :: int
  USER_SIGINT_HANDLER :: nat
  USER_SIGTERM_HANDLER :: nat
  USER_PRE_START_HANDLER :: nat
  partition_events :: "partition_event list"

text \<open>The static members at the start of the program.\<close>

definition PARTITION_start :: APEX_statics where
  "PARTITION_start = \<lparr>pinstance = No_instance, PARTITION_NAME = '''', moduleManagerIsParent = False, sigIntCount = 0,
     USER_SIGINT_HANDLER = 0, USER_SIGTERM_HANDLER = 0, USER_PRE_START_HANDLER = 0, partition_events = []\<rparr>"

definition SET_PARTITION_NAME :: "string \<Rightarrow> APEX_statics \<Rightarrow> APEX_statics" where
  "SET_PARTITION_NAME name s = s\<lparr>PARTITION_NAME := name\<rparr>"

definition GET_PARTITION_NAME :: "APEX_statics \<Rightarrow> string" where
  "GET_PARTITION_NAME = PARTITION_NAME"

definition SET_USER_SIGINT_HANDLER :: "nat \<Rightarrow> APEX_statics \<Rightarrow> APEX_statics" where
  "SET_USER_SIGINT_HANDLER entry_point s = s\<lparr>USER_SIGINT_HANDLER := entry_point\<rparr>"

definition SET_USER_SIGTERM_HANDLER :: "nat \<Rightarrow> APEX_statics \<Rightarrow> APEX_statics" where
  "SET_USER_SIGTERM_HANDLER entry_point s = s\<lparr>USER_SIGTERM_HANDLER := entry_point\<rparr>"

definition SET_USER_PRE_START_HANDLER :: "nat \<Rightarrow> APEX_statics \<Rightarrow> APEX_statics" where
  "SET_USER_PRE_START_HANDLER entry_point s = s\<lparr>USER_PRE_START_HANDLER := entry_point\<rparr>"

section \<open>The instance\<close>

text \<open>\<open>PARTITION_MANAGER_PRIORITY\<close> is 99; \<open>parent\<close> is what sched\_getparam finds.\<close>

definition PARTITION_MANAGER_PRIORITY :: int where "PARTITION_MANAGER_PRIORITY = 99"

definition getParentInfo :: "int option \<Rightarrow> APEX_statics \<Rightarrow> APEX_statics" where
  "getParentInfo parent s = (if parent = Some PARTITION_MANAGER_PRIORITY then s\<lparr>moduleManagerIsParent := True\<rparr> else s)"

definition get_instance :: "int option \<Rightarrow> APEX_statics \<Rightarrow> APEX_statics" where
  "get_instance parent s =
     (case pinstance s of No_instance \<Rightarrow> (getParentInfo parent s)\<lparr>pinstance := Instance APEX_new\<rparr> | _ \<Rightarrow> s)"

definition checkTerminateStatus :: "APEX_statics \<Rightarrow> bool outcome" where
  "checkTerminateStatus s =
     (case pinstance s of No_instance \<Rightarrow> Returned False | Instance a \<Rightarrow> Returned (flagToTerminate a) | Deleted a \<Rightarrow> Undef)"

text \<open>The status; also the macro that creates the instance if there is none.\<close>

definition GET_PARTITION_STATUS :: "int option \<Rightarrow> APEX_statics \<Rightarrow> (OPERATING_MODE_TYPE reply \<times> APEX_statics) outcome" where
  "GET_PARTITION_STATUS parent s =
     (let s1 = get_instance parent s in
      case pinstance s1 of
        Instance a \<Rightarrow> Returned ((NO_ERROR, Some (CURRENT_OPERATING_MODE a)), s1)
      | _ \<Rightarrow> Undef)"

section \<open>Termination\<close>

definition cleared :: "APEX \<Rightarrow> APEX" where
  "cleared a = a\<lparr>RW_LOCK_SEM_VECTOR := [], SEMAPHORE_VECTOR := [], EVENT_VECTOR := [], BLACKBOARD_VECTOR := [],
     SAMPLING_PORT_VECTOR := [], QUEUING_PORT_VECTOR := [], BUFFER_VECTOR := []\<rparr>"

definition CLEAR_VECTORS :: "APEX_statics \<Rightarrow> APEX_statics outcome" where
  "CLEAR_VECTORS s =
     (case pinstance s of
        No_instance \<Rightarrow> Returned s
      | Instance a \<Rightarrow> Returned (s\<lparr>pinstance := Instance (cleared a)\<rparr>)
      | Deleted a \<Rightarrow> Undef)"

text \<open>The deletion of one process: its thread is cancelled and joined.  The cleanup handler gives back the locks through
  services that look for the caller in the map from processes to threads: the entries of the processes before it point
  into objects that are deleted already.\<close>

definition deleted_before :: "nat \<Rightarrow> APEX \<Rightarrow> bool" where
  "deleted_before pid a \<longleftrightarrow> (\<exists>i\<in>set (PROCESS_ID_TO_PTHREAD_ID_MAP a). i < pid)"

definition holds_locks :: "nat \<Rightarrow> APEX \<Rightarrow> bool" where
  "holds_locks pid a \<longleftrightarrow> READLOCKS (the_process pid a) \<noteq> [] \<or> WRITELOCKS (the_process pid a) \<noteq> []"

definition delete_process :: "nat \<Rightarrow> nat \<Rightarrow> APEX \<Rightarrow> APEX outcome" where
  "delete_process self pid a =
     (let a1 = set_priority pid WORKER_THREAD_RESTART_PRIORITY a in
      if self = thread_id (the_process pid a1) then Blocked
      else if holds_locks pid a1 \<and> deleted_before pid a1 then Undef
      else Thread_cleanup_Handler pid a1)"

fun delete_processes :: "nat \<Rightarrow> nat list \<Rightarrow> APEX \<Rightarrow> APEX outcome" where
  "delete_processes self [] a = Returned a"
| "delete_processes self (pid # pids) a = bind_outcome (delete_process self pid a) (delete_processes self pids)"

definition TERMINATE :: "nat \<Rightarrow> APEX_statics \<Rightarrow> APEX_statics outcome" where
  "TERMINATE self s =
     (case pinstance s of
        No_instance \<Rightarrow> Returned s
      | Deleted a \<Rightarrow> Undef
      | Instance a \<Rightarrow>
          bind_outcome (delete_processes self [0..<length (PROCESS_DESCRIPTOR_VECTOR a)] a) (\<lambda>a1.
          bind_outcome (CLEAR_VECTORS (s\<lparr>pinstance := Instance (a1\<lparr>PROCESS_DESCRIPTOR_VECTOR := [], PROCESS_SCHEDULING_SORTED_VECTOR := []\<rparr>)\<rparr>)) (\<lambda>s1.
          case pinstance s1 of Instance a2 \<Rightarrow> Returned (s1\<lparr>pinstance := Deleted a2\<rparr>) | _ \<Rightarrow> Undef)))"

section \<open>Signals\<close>

text \<open>A handler of the user, called when it is set; \<open>user\<close> is what the function at an address does.\<close>

definition call_user :: "(nat \<Rightarrow> APEX_statics \<Rightarrow> APEX_statics outcome) \<Rightarrow> nat \<Rightarrow> APEX_statics \<Rightarrow> APEX_statics outcome" where
  "call_user user handler s = (if handler \<noteq> 0 then user handler s else Returned s)"

definition sigIntHandler :: "(nat \<Rightarrow> APEX_statics \<Rightarrow> APEX_statics outcome) \<Rightarrow> nat \<Rightarrow> APEX_statics \<Rightarrow> (int option \<times> APEX_statics) outcome" where
  "sigIntHandler user self s =
     (let s1 = s\<lparr>sigIntCount := sigIntCount s + 1\<rparr> in
      if sigIntCount s1 > 1 then bind_outcome (CLEAR_VECTORS s1) (\<lambda>s2. Returned (Some (-1), s2))
      else bind_outcome (call_user user (USER_SIGINT_HANDLER s1) s1) (\<lambda>s2.
        case pinstance s2 of
          Deleted a \<Rightarrow> Undef
        | Instance a \<Rightarrow>
            if CURRENT_OPERATING_MODE a = NORMAL then Returned (None, s2\<lparr>pinstance := Instance (a\<lparr>flagToTerminate := True\<rparr>)\<rparr>)
            else bind_outcome (TERMINATE self s2) (\<lambda>s3. Returned (Some 0, s3))
        | No_instance \<Rightarrow> bind_outcome (TERMINATE self s2) (\<lambda>s3. Returned (Some 0, s3))))"

definition sigTermHandler :: "(nat \<Rightarrow> APEX_statics \<Rightarrow> APEX_statics outcome) \<Rightarrow> APEX_statics \<Rightarrow> (int option \<times> APEX_statics) outcome" where
  "sigTermHandler user s =
     bind_outcome (call_user user (USER_SIGTERM_HANDLER s) s) (\<lambda>s1.
     bind_outcome (CLEAR_VECTORS s1) (\<lambda>s2. Returned (Some 0, s2)))"

text \<open>The handler of SIGSEGV, which the code does not install.\<close>

definition sigsegvHandler :: "APEX_statics \<Rightarrow> (int option \<times> APEX_statics) outcome" where
  "sigsegvHandler s = bind_outcome (CLEAR_VECTORS s) (\<lambda>s1. Returned (Some 1, s1))"

section \<open>The start of the scheduler and the modes\<close>

definition sendInitializationReadySignalToPartitionController :: "APEX_statics \<Rightarrow> APEX_statics" where
  "sendInitializationReadySignalToPartitionController s =
     (if moduleManagerIsParent s then s\<lparr>partition_events := partition_events s @ [Sent_SIGUSR1_to_parent]\<rparr> else s)"

text \<open>What the start of the scheduler meets: the value of ACM\_INIT\_TIME, the clock, the answers of clock\_nanosleep, and what
  the scheduler meets.\<close>

record start_env =
  init_time :: "int option"
  start_clock :: SYSTEM_TIMESPEC
  start_sleeps :: "sleep list"
  start_layout :: layout
  start_sorter :: sorter
  start_readings :: "nat \<Rightarrow> SYSTEM_TIMESPEC"
  start_passes :: "pass_env list"

definition wait_init_time :: "start_env \<Rightarrow> unit outcome" where
  "wait_init_time e =
     (case init_time e of
        None \<Rightarrow> Returned ()
      | Some n \<Rightarrow>
          if n \<le> 0 then Returned ()
          else bind_outcome (assert_some (addTimeNano (start_clock e) (n * NANO))) (\<lambda>t. nanosleep_loop t (start_sleeps e)))"

text \<open>The code \<open>rc\<close> is what RETURN\_CODE points to.\<close>

definition InitPartitionScheduler ::
  "(nat \<Rightarrow> APEX_statics \<Rightarrow> APEX_statics outcome) \<Rightarrow> start_env \<Rightarrow> nat \<Rightarrow> RETURN_CODE_TYPE \<Rightarrow> APEX_statics \<Rightarrow> (int \<times> RETURN_CODE_TYPE \<times> APEX_statics) outcome" where
  "InitPartitionScheduler user e self rc s =
     (case pinstance s of
        No_instance \<Rightarrow> Returned (-1, INVALID_CONFIG, s)
      | Deleted a \<Rightarrow> Undef
      | Instance a \<Rightarrow>
          let s1 = s\<lparr>pinstance := Instance (a\<lparr>CURRENT_OPERATING_MODE := NORMAL\<rparr>)\<rparr>;
              s2 = (if moduleManagerIsParent s1
                    then let s' = sendInitializationReadySignalToPartitionController s1 in s'\<lparr>partition_events := partition_events s' @ [Raised_SIGSTOP]\<rparr>
                    else s1)
          in bind_outcome (call_user user (USER_PRE_START_HANDLER s2) s2) (\<lambda>s3.
             bind_outcome (wait_init_time e) (\<lambda>_.
             case pinstance s3 of
               No_instance \<Rightarrow> bind_outcome (TERMINATE self s3) (\<lambda>s4. Returned (0, rc, s4))
             | Deleted a3 \<Rightarrow> Undef
             | Instance a3 \<Rightarrow>
                 bind_outcome (RunPartitionScheduler (start_layout e) (start_sorter e) self (start_readings e) (start_passes e) a3) (\<lambda>a4.
                 bind_outcome (TERMINATE self (s3\<lparr>pinstance := Instance a4\<rparr>)) (\<lambda>s4. Returned (0, rc, s4))))))"

text \<open>The mode is written last, through the pointer fetched at the beginning.\<close>

definition store_mode :: "OPERATING_MODE_TYPE \<Rightarrow> APEX_statics \<Rightarrow> APEX_statics outcome" where
  "store_mode mode s =
     (case pinstance s of Instance a \<Rightarrow> Returned (s\<lparr>pinstance := Instance (a\<lparr>CURRENT_OPERATING_MODE := mode\<rparr>)\<rparr>) | _ \<Rightarrow> Undef)"

definition SET_PARTITION_MODE ::
  "(nat \<Rightarrow> APEX_statics \<Rightarrow> APEX_statics outcome) \<Rightarrow> start_env \<Rightarrow> int option \<Rightarrow> nat \<Rightarrow> OPERATING_MODE_TYPE \<Rightarrow> RETURN_CODE_TYPE \<Rightarrow> APEX_statics \<Rightarrow>
   (RETURN_CODE_TYPE \<times> APEX_statics) outcome" where
  "SET_PARTITION_MODE user e parent self mode rc s =
     (let s1 = get_instance parent s in
      case pinstance s1 of
        Instance a \<Rightarrow>
          if CURRENT_OPERATING_MODE a = COLD_START \<and> mode = WARM_START then Returned (INVALID_MODE, s1)
          else if CURRENT_OPERATING_MODE a = IDLE then Returned (rc, s1)
          else if CURRENT_OPERATING_MODE a = NORMAL \<and> mode = NORMAL then Returned (NO_ACTION, s1)
          else
            bind_outcome
              (if mode = NORMAL then
                 bind_outcome (InitPartitionScheduler user e self NO_ERROR s1) (\<lambda>(_, rc1, s2). Returned (rc1, s2))
               else if CURRENT_OPERATING_MODE a = NORMAL then bind_outcome (TERMINATE self s1) (\<lambda>s2. Returned (NO_ERROR, s2))
               else Returned (NO_ERROR, s1)) (\<lambda>(rc1, s2).
            bind_outcome (store_mode mode s2) (\<lambda>s3. Returned (rc1, s3)))
      | _ \<Rightarrow> Undef)"

end
