(* ===== verification/ApexHelpers.thy ===== *)
theory ApexHelpers
  imports HealthManager
begin

text \<open>
  The helpers of src/APEX\_INTERFACE\_IMPL.cc that name a process or an event instead of giving its identifier, the dummy
  process, and the helper that starts a process and waits for its response.  The lemmas follow the response of a process
  from its notification to the caller that waits.
\<close>

section \<open>The helpers\<close>

text \<open>A service on the process of a name: without one the answer of GET\_PROCESS\_ID is returned.\<close>

definition for_process_named :: "NAME_TYPE \<Rightarrow> (nat \<Rightarrow> APEX \<Rightarrow> ('o reply \<times> APEX) outcome) \<Rightarrow> APEX \<Rightarrow> ('o reply \<times> APEX) outcome" where
  "for_process_named PNAME service a =
     bind_outcome (GET_PROCESS_ID PNAME a) (\<lambda>((rc, out), a1). case (rc, out) of
         (NO_ERROR, Some pid) \<Rightarrow> service pid a1
       | _ \<Rightarrow> ret rc a1)"

definition APEX_HELPER_START_PROCESS :: "SYSTEM_TIMESPEC \<Rightarrow> NAME_TYPE \<Rightarrow> APEX \<Rightarrow> ('o reply \<times> APEX) outcome" where
  "APEX_HELPER_START_PROCESS now PNAME = for_process_named PNAME (START now)"

definition APEX_HELPER_DELAYED_START_PROCESS ::
  "SYSTEM_TIMESPEC \<Rightarrow> NAME_TYPE \<Rightarrow> SYSTEM_TIME_TYPE \<Rightarrow> APEX \<Rightarrow> ('o reply \<times> APEX) outcome" where
  "APEX_HELPER_DELAYED_START_PROCESS now PNAME DELAY = for_process_named PNAME (\<lambda>pid. DELAYED_START now pid DELAY)"

definition APEX_HELPER_STOP_PROCESS ::
  "nat \<Rightarrow> SYSTEM_TIMESPEC \<Rightarrow> new_thread option \<Rightarrow> NAME_TYPE \<Rightarrow> APEX \<Rightarrow> ('o reply \<times> APEX) outcome" where
  "APEX_HELPER_STOP_PROCESS self now thread PNAME = for_process_named PNAME (STOP self now thread)"

definition APEX_HELPER_SUSPEND_PROCESS :: "NAME_TYPE \<Rightarrow> APEX \<Rightarrow> (nat reply \<times> APEX) outcome" where
  "APEX_HELPER_SUSPEND_PROCESS PNAME = for_process_named PNAME SUSPEND"

definition APEX_HELPER_RESUME_PROCESS :: "NAME_TYPE \<Rightarrow> APEX \<Rightarrow> ('o reply \<times> APEX) outcome" where
  "APEX_HELPER_RESUME_PROCESS PNAME = for_process_named PNAME RESUME"

definition APEX_HELPER_WAIT_EVENT ::
  "SYSTEM_TIMESPEC \<Rightarrow> NAME_TYPE \<Rightarrow> SYSTEM_TIME_TYPE \<Rightarrow> APEX wakeup list \<Rightarrow> APEX \<Rightarrow> ('o reply \<times> APEX) outcome" where
  "APEX_HELPER_WAIT_EVENT now name TIME_OUT ws a =
     bind_outcome (GET_EVENT_ID name a) (\<lambda>((rc, out), a1). case (rc, out) of
         (NO_ERROR, Some eid) \<Rightarrow> WAIT_EVENT now eid TIME_OUT ws a1
       | _ \<Rightarrow> ret rc a1)"

text \<open>The response is the out-parameter; the empty one stands for the length 0 of the error paths.\<close>

definition APEX_HELPER_START_PROCESS_AND_WAIT_FOR_RESPONSE ::
  "layout \<Rightarrow> SYSTEM_TIMESPEC \<Rightarrow> NAME_TYPE \<Rightarrow> int \<Rightarrow> APEX wakeup list \<Rightarrow> APEX \<Rightarrow> (byte list reply \<times> APEX) outcome" where
  "APEX_HELPER_START_PROCESS_AND_WAIT_FOR_RESPONSE L now PNAME CAPACITY ws a =
     bind_outcome (GET_PROCESS_ID PNAME a) (\<lambda>((rc, out), a1). case (rc, out) of
         (NO_ERROR, Some pid) \<Rightarrow>
           bind_outcome (GET_PROCESS_STATUS pid a1) (\<lambda>((rc2, status), a2). case (rc2, status) of
               (NO_ERROR, Some st) \<Rightarrow>
                 let isAperiodic = (PERIOD (PS_ATTRIBUTES st) = INFINITE_TIME_VALUE) in
                 bind_outcome (START now pid a2 :: (unit reply \<times> APEX) outcome) (\<lambda>((rc3, _), a3).
                   if rc3 \<noteq> NO_ERROR then ret_out rc3 [] a3
                   else if \<not> isAperiodic then ret_out NOT_AVAILABLE [] a3
                   else GET_PROCESS_FINISHED_STATUS L now pid INFINITE_TIME_VALUE CAPACITY ws a3)
             | _ \<Rightarrow> ret_out rc2 [] a2)
       | _ \<Rightarrow> ret_out rc [] a1)"

text \<open>The dummy process, a loop that waits to be cancelled; \<open>entry\<close> is the address of its function.\<close>

definition DUMMY_PROCESS_PRIORITY :: int where "DUMMY_PROCESS_PRIORITY = PARTITION_PROCESS_LOWPRIORITY + 1"

definition APEX_HELPER_CREATE_AND_START_DUMMY_PROCESS ::
  "layout \<Rightarrow> SYSTEM_TIMESPEC \<Rightarrow> nat \<Rightarrow> PROCESS_DESCRIPTOR \<Rightarrow> byte list \<Rightarrow> new_thread option \<Rightarrow> APEX \<Rightarrow> ('o reply \<times> APEX) outcome" where
  "APEX_HELPER_CREATE_AND_START_DUMMY_PROCESS L now entry fresh heap thread a =
     bind_outcome
       (APEX_HELPER_CREATE_PROCESS L INFINITE_TIME_VALUE INFINITE_TIME_VALUE entry 0 DUMMY_PROCESS_PRIORITY SOFT
          ''DUMMY_PROCESS'' fresh heap thread a)
       (\<lambda>((rc, out), a1). case (rc, out) of
           (NO_ERROR, Some DUMMY_PROCESS_ID) \<Rightarrow> START now DUMMY_PROCESS_ID a1
         | _ \<Rightarrow> ret rc a1)"

section \<open>The way of a response\<close>

text \<open>A reader of an empty board that waits for ever is woken by the message displayed.\<close>

lemma READ_BLACKBOARD_woken_forever:
  assumes inv: "boards_inv a" and bid: "bid < length (BLACKBOARD_VECTOR a)"
    and empty: "BB_CURRENT_MESSAGE_SIZE (board bid a) = 0"
    and down: "EVENT_STATE (EVENT_VECTOR a ! BLACKBOARD_EVENT_ID (board bid a)) = DOWN"
    and m: "int (length m) \<le> BB_MAX_MESSAGE_SIZE (board bid a)"
  shows "\<exists>a'. READ_BLACKBOARD now bid INFINITE_TIME_VALUE [Woken (displayed bid m)] a = ret_out NO_ERROR m a'"
proof -
  let ?eid = "BLACKBOARD_EVENT_ID (board bid a)"
  let ?u = "at_update EVENT_VECTOR_update ?eid"
  let ?b = "?u inc_count a" let ?d = "displayed bid m ?b"
  have eid: "?eid < length (EVENT_VECTOR a)" using boards_inv_nth [OF inv bid] by (simp add: board_ok_def)
  have b: "boards_inv ?b" "bid < length (BLACKBOARD_VECTOR ?b)" "board bid ?b = board bid a"
    using inv bid by (simp_all add: boards_inv_def at_update_def)
  have "EVENT_STATE (at EVENT_VECTOR ?eid ?b) = DOWN" using down eid by (simp add: at_def at_update_def)
  moreover have "EVENT_STATE (at EVENT_VECTOR ?eid ?d) = UP"
    using displayed_event [OF b(1,2)] by (simp add: at_def b(3))
  ultimately have "EVENT_wait_forever (at EVENT_VECTOR ?eid) ?u [Woken (displayed bid m)] a = Returned (NO_ERROR, ?u dec_count ?d)"
    by (simp add: EVENT_wait_forever_def)
  then have "READ_BLACKBOARD now bid INFINITE_TIME_VALUE [Woken (displayed bid m)] a = READ_FROM_BLACKBOARD bid (?u dec_count ?d)"
    using bid empty eid MAX_TIME_OUT_pos by (simp add: READ_BLACKBOARD_def WAIT_EVENT_def INFINITE_TIME_VALUE_def)
  moreover have "board bid (?u dec_count ?d) = board bid ?d" by (simp add: at_update_def)
  ultimately show ?thesis using b m
    by (auto simp: READ_FROM_BLACKBOARD_def c_read_def intro!: exI [of _ "?u dec_count ?d"])
qed

lemma READ_BLACKBOARD_blocks_forever:
  assumes "boards_inv a" "bid < length (BLACKBOARD_VECTOR a)" "BB_CURRENT_MESSAGE_SIZE (board bid a) = 0"
    "EVENT_STATE (EVENT_VECTOR a ! BLACKBOARD_EVENT_ID (board bid a)) = DOWN"
  shows "READ_BLACKBOARD now bid INFINITE_TIME_VALUE [] a = Blocked"
proof -
  have "BLACKBOARD_EVENT_ID (board bid a) < length (EVENT_VECTOR a)" using boards_inv_nth [OF assms(1,2)] by (simp add: board_ok_def)
  then show ?thesis using assms(2-4) MAX_TIME_OUT_pos
    by (simp add: READ_BLACKBOARD_def WAIT_EVENT_def EVENT_wait_forever_def INFINITE_TIME_VALUE_def at_def at_update_def)
qed

text \<open>What starting a dormant process without a period leaves on its notification board and its event.\<close>

lemma START_aperiodic:
  assumes "boards_inv a" "procs_inv a" "process_exists pid a" "state (the_process pid a) = DORMANT"
    "PERIOD (attribute (the_process pid a)) = INFINITE_TIME_VALUE" "CURRENT_OPERATING_MODE a = NORMAL"
    "PROCESS_NOTIFICATION_RESPONSE_BOARD_ID (PROCESS_DESCRIPTOR_VECTOR a ! pid) = bid" "bid < length (BLACKBOARD_VECTOR a)"
  shows "\<exists>a'. START now pid a = (ret NO_ERROR a' :: (unit reply \<times> APEX) outcome) \<and> boards_inv a' \<and> process_exists pid a' \<and>
    PROCESS_NOTIFICATION_RESPONSE_BOARD_ID (PROCESS_DESCRIPTOR_VECTOR a' ! pid) = bid \<and>
    BLACKBOARD_VECTOR a' = BLACKBOARD_VECTOR (erased bid a) \<and> EVENT_VECTOR a' = EVENT_VECTOR (erased bid a)"
proof -
  let ?p = "the_process pid a" and ?base = "BASE_PRIORITY (attribute (the_process pid a))"
  let ?a1 = "upd_descriptor pid (\<lambda>d. d\<lparr>CURRENT_PRIORITY := ?base\<rparr>) (set_priority pid ?base a)"
  have ex: "\<not> length (PROCESS_DESCRIPTOR_VECTOR a) \<le> pid" using assms(3) by (simp add: process_exists_def)
  have "TIME_CAPACITY (attribute ?p) \<le> MAX_TIME_OUT"
    using procs_inv_nth [OF assms(2,3)] by (simp add: process_ok_def attributes_ok_times)
  moreover obtain next0 where n: "addTimeNano now 0 = Some next0" using addTimeNano_some [of 0] MAX_TIME_OUT_pos by (meson less_imp_le)
  ultimately obtain deadline where dl: "addTimeNano next0 (TIME_CAPACITY (attribute ?p)) = Some deadline"
    using addTimeNano_some by metis
  have b1: "boards_inv ?a1" using assms(1) by (simp add: set_priority_def)
  have bid: "PROCESS_NOTIFICATION_RESPONSE_BOARD_ID (PROCESS_DESCRIPTOR_VECTOR ?a1 ! pid) = bid" "bid < length (BLACKBOARD_VECTOR ?a1)"
    using assms(3,7,8) by (simp_all add: set_priority_def)
  have clear: "CLEAR_BLACKBOARD bid ?a1 = (ret NO_ERROR (erased bid ?a1) :: (unit reply \<times> APEX) outcome)"
    by (rule CLEAR_BLACKBOARD_ok [OF b1 bid(2)])
  let ?a2 = "set_state pid READY (erased bid ?a1)"
  let ?a' = "(upd_descriptor pid
                         (\<lambda>d. d\<lparr>ABSOLUTE_NEXT_SCHEDULED_TIME := next0, DEADLINE_TIME := deadline,
                               ABSOLUTE_CRITICAL_TIME := next0, NEXT_SCHEDULING_INSTANCE := RELEASE_PROCESS\<rparr>)
                         ?a2)
                      \<lparr>APEX_SCHEDULING_EVENT := snd (EVENT_set (APEX_SCHEDULING_EVENT ?a2))\<rparr>"
  have run: "START now pid a = (ret NO_ERROR ?a' :: (unit reply \<times> APEX) outcome)"
    using assms(4-6) n dl clear bid(1) ex by (simp add: START_def DELAYED_START_def Let_def isPeriodic_def)
  have "BLACKBOARD_VECTOR ?a' = BLACKBOARD_VECTOR (erased bid ?a1)" "EVENT_VECTOR ?a' = EVENT_VECTOR (erased bid ?a1)"
    by (simp_all add: set_state_def upd_process_def upd_descriptor_def)
  moreover have "BLACKBOARD_VECTOR (erased bid ?a1) = BLACKBOARD_VECTOR (erased bid a)" "EVENT_VECTOR (erased bid ?a1) = EVENT_VECTOR (erased bid a)"
    by (simp_all add: erased_def Let_def upd_board_def set_priority_def)
  moreover have "boards_inv ?a'"
    using boards_inv_erased [OF b1 bid(2)] by (simp add: set_state_def boards_inv_def upd_descriptor_def upd_process_def)
  moreover have "process_exists pid ?a'" "PROCESS_NOTIFICATION_RESPONSE_BOARD_ID (PROCESS_DESCRIPTOR_VECTOR ?a' ! pid) = bid"
    using assms(3,7) by (simp_all add: set_state_def set_priority_def process_exists_def upd_process_def upd_descriptor_def)
  ultimately show ?thesis using run by (intro exI [of _ ?a']) simp
qed

lemma erased_event:
  assumes "boards_inv a" "bid < length (BLACKBOARD_VECTOR a)"
  shows "EVENT_STATE (EVENT_VECTOR (erased bid a) ! BLACKBOARD_EVENT_ID (board bid a)) = DOWN"
  using boards_inv_nth [OF assms] by (simp add: erased_def Let_def board_ok_def)

lemma GET_PROCESS_ID_exists:
  assumes "GET_PROCESS_ID name a = ret_out NO_ERROR pid a"
  shows "process_exists pid a" "PROCESS_NAME (attribute (the_process pid a)) = name"
  using assms find_index_Some [of _ "PROCESS_DESCRIPTOR_VECTOR a" pid]
  by (auto simp: GET_PROCESS_ID_def process_exists_def the_process_def split: option.splits)

lemma notify_displays:
  assumes "boards_inv x" "process_exists pid x" "bid < length (BLACKBOARD_VECTOR x)"
    "PROCESS_NOTIFICATION_RESPONSE_BOARD_ID (PROCESS_DESCRIPTOR_VECTOR x ! pid) = bid"
    "BB_MAX_MESSAGE_SIZE (board bid x) = sizeof_PROCESS_RESPONSE L"
    "int (length (PROCESS_RESPONSE_bytes L (resp\<lparr>TIMEOFMESSAGE := t\<rparr>))) = sizeof_PROCESS_RESPONSE L"
  shows "NOTIFY_PROCESS_FINISHED_STATUS L t pid resp x =
    ret_out NO_ERROR (resp\<lparr>TIMEOFMESSAGE := t\<rparr>) (displayed bid (PROCESS_RESPONSE_bytes L (resp\<lparr>TIMEOFMESSAGE := t\<rparr>)) x)"
proof -
  let ?m = "PROCESS_RESPONSE_bytes L (resp\<lparr>TIMEOFMESSAGE := t\<rparr>)"
  have "take (nat (sizeof_PROCESS_RESPONSE L)) ?m = ?m" using assms(6) by simp
  then have "DISPLAY_BLACKBOARD bid ?m (sizeof_PROCESS_RESPONSE L) x = (ret NO_ERROR (displayed bid ?m x) :: (unit reply \<times> APEX) outcome)"
    using DISPLAY_BLACKBOARD_ok [OF assms(1,3), of "sizeof_PROCESS_RESPONSE L" ?m] assms(5,6) by simp
  then show ?thesis using assms(2,4) by (simp add: NOTIFY_PROCESS_FINISHED_STATUS_def process_exists_def Let_def)
qed

end
