(* ===== verification/HelperTheorems.thy ===== *)
theory HelperTheorems
  imports ApexHelpers Demo
begin

text \<open>
  What the helpers of the interface promise: whoever starts a process by its name and waits gets its response.
\<close>

text \<open>C32. A caller that starts a dormant process without a period by its name and waits for its response gets the response with which
  the process notifies its end, with the time of the notification in it: the start clears the notification board,
  so the caller blocks, and the notification, which succeeds in every well-formed state of the partition with this
  board, wakes it up.\<close>

theorem response_reaches_starter:
  assumes "boards_inv a" "procs_inv a" "GET_PROCESS_ID name a = ret_out NO_ERROR pid a" "state (the_process pid a) = DORMANT"
    "PERIOD (attribute (the_process pid a)) = INFINITE_TIME_VALUE" "CURRENT_OPERATING_MODE a = NORMAL"
    "PROCESS_NOTIFICATION_RESPONSE_BOARD_ID (PROCESS_DESCRIPTOR_VECTOR a ! pid) = bid" "bid < length (BLACKBOARD_VECTOR a)"
    "BB_MAX_MESSAGE_SIZE (board bid a) = sizeof_PROCESS_RESPONSE L" "CAPACITY \<le> sizeof_PROCESS_RESPONSE L"
    "int (length (PROCESS_RESPONSE_bytes L (resp\<lparr>TIMEOFMESSAGE := t\<rparr>))) = sizeof_PROCESS_RESPONSE L"
  shows "\<exists>notify. (\<forall>x. boards_inv x \<and> process_exists pid x \<and> bid < length (BLACKBOARD_VECTOR x) \<and>
        PROCESS_NOTIFICATION_RESPONSE_BOARD_ID (PROCESS_DESCRIPTOR_VECTOR x ! pid) = bid \<and>
        BB_MAX_MESSAGE_SIZE (board bid x) = sizeof_PROCESS_RESPONSE L \<longrightarrow>
      NOTIFY_PROCESS_FINISHED_STATUS L t pid resp x = ret_out NO_ERROR (resp\<lparr>TIMEOFMESSAGE := t\<rparr>) (notify x)) \<and>
    APEX_HELPER_START_PROCESS_AND_WAIT_FOR_RESPONSE L now name CAPACITY [] a = Blocked \<and>
    (\<exists>a'. APEX_HELPER_START_PROCESS_AND_WAIT_FOR_RESPONSE L now name CAPACITY [Woken notify] a =
      ret_out NO_ERROR (PROCESS_RESPONSE_bytes L (resp\<lparr>TIMEOFMESSAGE := t\<rparr>)) a')"
proof -
  let ?m = "PROCESS_RESPONSE_bytes L (resp\<lparr>TIMEOFMESSAGE := t\<rparr>)"
  have ex: "process_exists pid a" by (rule GET_PROCESS_ID_exists(1) [OF assms(3)])
  obtain a1 where a1: "START now pid a = (ret NO_ERROR a1 :: (unit reply \<times> APEX) outcome)" "boards_inv a1" "process_exists pid a1"
    "PROCESS_NOTIFICATION_RESPONSE_BOARD_ID (PROCESS_DESCRIPTOR_VECTOR a1 ! pid) = bid"
    "BLACKBOARD_VECTOR a1 = BLACKBOARD_VECTOR (erased bid a)" "EVENT_VECTOR a1 = EVENT_VECTOR (erased bid a)"
    using START_aperiodic [OF assms(1,2) ex assms(4-8)] by blast
  have helper: "APEX_HELPER_START_PROCESS_AND_WAIT_FOR_RESPONSE L now name CAPACITY ws a =
      GET_PROCESS_FINISHED_STATUS L now pid INFINITE_TIME_VALUE CAPACITY ws a1" for ws
    using assms(3,5) ex a1(1)
    by (simp add: APEX_HELPER_START_PROCESS_AND_WAIT_FOR_RESPONSE_def GET_PROCESS_STATUS_def process_exists_def Let_def)
  have bid: "bid < length (BLACKBOARD_VECTOR a1)" "board bid a1 = board bid (erased bid a)" using assms(8) a1(5) by simp_all
  have empty: "BB_CURRENT_MESSAGE_SIZE (board bid a1) = 0" "EVENT_STATE (EVENT_VECTOR a1 ! BLACKBOARD_EVENT_ID (board bid a1)) = DOWN"
    using erased_event [OF assms(1,8)] assms(8) bid(2) a1(6) by simp_all
  have size: "int (length ?m) \<le> BB_MAX_MESSAGE_SIZE (board bid a1)" using assms(8,9,11) bid(2) by simp
  have "READ_BLACKBOARD now bid INFINITE_TIME_VALUE [] a1 = Blocked"
    by (rule READ_BLACKBOARD_blocks_forever [OF a1(2) bid(1) empty])
  moreover obtain a' where "READ_BLACKBOARD now bid INFINITE_TIME_VALUE [Woken (displayed bid ?m)] a1 = ret_out NO_ERROR ?m a'"
    using READ_BLACKBOARD_woken_forever [OF a1(2) bid(1) empty size] by blast
  moreover have "GET_PROCESS_FINISHED_STATUS L now pid INFINITE_TIME_VALUE CAPACITY ws a1 =
      bind_outcome (READ_BLACKBOARD now bid INFINITE_TIME_VALUE ws a1) (\<lambda>((rc, m), a1). Returned ((rc, if rc = TIMED_OUT then Some [] else m), a1))" for ws
    using a1(3,4) assms(10) by (simp add: GET_PROCESS_FINISHED_STATUS_def process_exists_def)
  ultimately show ?thesis using notify_displays [OF _ _ _ _ _ assms(11)]
    by (intro exI [of _ "displayed bid ?m"]) (simp add: helper)
qed

text \<open>Process 0 of the demonstration partition, dormant and without a period.\<close>

definition demo_dormant :: APEX where
  "demo_dormant = upd_process 0 (\<lambda>p. p\<lparr>attribute := (attribute p)\<lparr>PERIOD := -1\<rparr>\<rparr>) (demo_with DORMANT DORMANT RELEASE_PROCESS)"

lemma demo_dormant_values:
  "boards_inv demo_dormant" "CURRENT_OPERATING_MODE demo_dormant = NORMAL" "state (the_process 0 demo_dormant) = DORMANT"
  "PERIOD (attribute (the_process 0 demo_dormant)) = INFINITE_TIME_VALUE"
  "PROCESS_NOTIFICATION_RESPONSE_BOARD_ID (PROCESS_DESCRIPTOR_VECTOR demo_dormant ! 0) = 0"
  "BLACKBOARD_VECTOR demo_dormant = BLACKBOARD_VECTOR (demo_with DORMANT DORMANT RELEASE_PROCESS)"
  "GET_PROCESS_ID ''P0'' demo_dormant = ret_out NO_ERROR 0 demo_dormant"
proof -
  show "boards_inv demo_dormant" using demo_boards_inv by (simp add: demo_dormant_def)
  show "GET_PROCESS_ID ''P0'' demo_dormant = ret_out NO_ERROR 0 demo_dormant"
    by (simp add: GET_PROCESS_ID_def demo_dormant_def upd_process_def upd_descriptor_def demo_defs)
qed (simp_all add: demo_dormant_def demo_process_of_def INFINITE_TIME_VALUE_def demo_process_def upd_process_def upd_descriptor_def
    demo_with_def demo_descriptor_def the_process_def)

lemma demo_dormant_procs_inv: "procs_inv demo_dormant"
proof -
  have "attributes_ok ((demo_attribute 50000000 HARD ''P0'')\<lparr>PERIOD := - 1\<rparr>)"
    using demo_attribute_ok(1) [of HARD "''P0''"] by (simp add: attributes_ok_def demo_attribute_def INFINITE_TIME_VALUE_def MAX_TIME_OUT_def)
  then have "process_ok demo_dormant 0"
    using demo_process_ok(1) [of DORMANT DORMANT RELEASE_PROCESS]
    by (simp add: demo_dormant_def process_ok_def demo_process_of_def) (simp add: demo_process_def)
  then show ?thesis unfolding demo_dormant_def upd_process_def by (intro procs_inv_descriptor demo_procs_inv) 
qed

theorem response_reaches_starter_witness:
  "\<exists>notify a'. APEX_HELPER_START_PROCESS_AND_WAIT_FOR_RESPONSE demo_layout \<lparr>tv_sec = 7, tv_nsec = 0\<rparr> ''P0'' 4 [Woken notify] demo_dormant =
    ret_out NO_ERROR [3, 3, 3, 3] a'"
proof -
  have l: "length (PROCESS_RESPONSE_bytes demo_layout x) = 4" "PROCESS_RESPONSE_bytes demo_layout x = [3, 3, 3, 3]" for x
    by (simp_all add: demo_layout_def numeral_eq_Suc)
  have b: "0 < length (BLACKBOARD_VECTOR demo_dormant)" "BB_MAX_MESSAGE_SIZE (board 0 demo_dormant) = 4"
    by (simp_all add: demo_dormant_values(6)) (simp_all add: demo_board_def)
  show ?thesis
    using response_reaches_starter [OF demo_dormant_values(1) demo_dormant_procs_inv demo_dormant_values(7,3,4,2,5) b(1), where L = demo_layout and CAPACITY = 4 and resp = demo_response and t = 0
        and now = "\<lparr>tv_sec = 7, tv_nsec = 0\<rparr>"] b(2) l(1) unfolding l(2) by auto
qed

end
