(* ===== verification/ModuleStart.thy ===== *)
theory ModuleStart
  imports SyncRuns
begin

text \<open>
  How a module comes up and goes down before its first window: ModuleManager/ModulePartitionCreation.cc, DOSHUTDOWN\_BEFORE\_INIT of
  ModuleManager.cc, the signal handlers of ModuleSignalHandlers.cc, and RUN\_MODULE\_MANAGER of ModuleScheduler.cc.  What the module manager does
  to processes is a list of events; a signal to the process 0 goes to the process group of the module manager, which SIGSTOP
  stops too.  The answers of fork, the handshakes (whether SIGUSR1 of the partition unlocks the mutex before the time is
  over) and the clock are inputs.  Left out: the file of clean-up commands and the waits for processes that never end.
\<close>

datatype signal_kind = SIGSTOP | SIGCONT | SIGTERM | SIGINT

datatype start_event =
  Forked nat nat | Killed nat signal_kind | Priority_of nat int | Waited_for nat | Slept_until SYSTEM_TIMESPEC

text \<open>How a part of the start ends: it goes on, the program exits with a code, or the module manager has stopped itself.\<close>

datatype start_end = Goes_on | Exits int | Stops_itself

definition CONTROLLER_PROCESS_PRIORITY :: int where "CONTROLLER_PROCESS_PRIORITY = 97"

section \<open>Shutdown before the partitions run\<close>

text \<open>The first loop does not look whether there is a process.\<close>

fun stop_every :: "nat list \<Rightarrow> start_event list \<times> start_end" where
  "stop_every [] = ([], Goes_on)"
| "stop_every (pid # pids) =
     (if pid = 0 then ([Killed 0 SIGSTOP], Stops_itself)
      else let (evs, r) = stop_every pids in (Killed pid SIGSTOP # evs, r))"

definition terminate_partition :: "nat \<Rightarrow> start_event list" where
  "terminate_partition pid =
     (if pid = 0 then []
      else [Priority_of pid (CONTROLLER_PROCESS_PRIORITY + 1), Killed pid SIGCONT, Killed pid SIGTERM, Waited_for pid])"

definition DOSHUTDOWN_BEFORE_INIT :: "'a MODULE_MANAGER_scheme \<Rightarrow> start_event list \<times> start_end" where
  "DOSHUTDOWN_BEFORE_INIT m =
     (let pids = map PID (PARTITION_VECTOR m);
          dummy = (if DUMMY_PROCESS_ID m \<noteq> 0 then [Killed (DUMMY_PROCESS_ID m) SIGTERM] else []);
          (evs, r) = stop_every pids
      in case r of Goes_on \<Rightarrow> (dummy @ evs @ concat (map terminate_partition pids), Exits 0)
         | _ \<Rightarrow> (dummy @ evs, r))"

section \<open>Signals to the module manager\<close>

text \<open>Both handlers tell the modules below to stop, stop the partitions and wait for their end.  The message that starts
  a hyperperiod is static, as in theory ModuleSync; its events there are the datagrams sent.\<close>

definition SIGTERM_HANDLER ::
  "'w socket_calls \<Rightarrow> 'a MODULE_SYNC_scheme \<Rightarrow> SYNC_MESSAGE \<Rightarrow> 'w \<Rightarrow> (start_event list \<times> start_end \<times> 'w) outcome" where
  "SIGTERM_HANDLER net m msg w =
     (let pids = filter (\<lambda>pid. pid \<noteq> 0) (map PID (PARTITION_VECTOR m)) in
      bind_outcome (if isSystemModuleManager m then SEND_HYPER_PERIOD_ECHO net True m (msg, w, []) else Returned (msg, w, [])) (\<lambda>(_, w1, _).
        Returned
          ((if DUMMY_PROCESS_ID m \<noteq> 0 then [Killed (DUMMY_PROCESS_ID m) SIGTERM] else []) @
           concat (map (\<lambda>pid. [Killed pid SIGSTOP, Killed pid SIGTERM]) pids) @
           concat (map (\<lambda>pid. [Killed pid SIGCONT, Waited_for pid]) pids), Exits 0, w1)))"

definition SIGINT_HANDLER ::
  "'w socket_calls \<Rightarrow> 'a MODULE_SYNC_scheme \<Rightarrow> SYNC_MESSAGE \<Rightarrow> 'w \<Rightarrow> (start_event list \<times> start_end \<times> 'w) outcome" where
  "SIGINT_HANDLER net m msg w =
     (let pids = filter (\<lambda>pid. pid \<noteq> 0) (map PID (PARTITION_VECTOR m)) in
      bind_outcome (if isSystemModuleManager m then SEND_HYPER_PERIOD_ECHO net True m (msg, w, []) else Returned (msg, w, [])) (\<lambda>(_, w1, _).
        Returned
          ((if DUMMY_PROCESS_ID m \<noteq> 0 then [Killed (DUMMY_PROCESS_ID m) SIGINT] else []) @
           map (\<lambda>pid. Killed pid SIGSTOP) pids @
           concat (map (\<lambda>pid. [Killed pid SIGCONT, Killed pid SIGINT, Waited_for pid]) pids), Exits 0, w1)))"

section \<open>Starting the partitions\<close>

text \<open>The arguments of the program of a partition; \<open>fileName\<close> is the configuration file.  The buffer for the naming service has
  500 characters.\<close>

definition exec_arguments :: "string \<Rightarrow> 'a MODULE_CONFIG_scheme \<Rightarrow> PARTITION \<Rightarrow> string list" where
  "exec_arguments fileName m p =
     (if isNetworkPartition p then [Executable p, fileName, P_Name p]
      else if DISCOVERY_PROTOCOL m = NAMINGSERVICE
      then [Executable p, ''-ORBInitRef'',
            take 499 (''NameService=corbaloc::'' @ NS_HOST_IP m @ '':'' @
              (if NS_PORT_NUMBER m < 0 then ''-'' @ decimal (nat (- NS_PORT_NUMBER m)) else decimal (nat (NS_PORT_NUMBER m))) @ ''/NameService'')]
      else [Executable p])"

record load_env =
  forked :: "nat option"
  load_clock :: SYSTEM_TIMESPEC
  handshake :: bool

definition with_pid :: "nat \<Rightarrow> nat \<Rightarrow> MODULE_SYNC \<Rightarrow> MODULE_SYNC" where
  "with_pid index pid m =
     m\<lparr>PARTITION_VECTOR := (PARTITION_VECTOR m)[index := (PARTITION_VECTOR m ! index)\<lparr>PID := pid\<rparr>]\<rparr>"

type_synonym start_state = "start_end \<times> MODULE_SYNC \<times> start_event list"

text \<open>What the mutex decides: the handshake came in time, or everything is shut down.\<close>

definition await_handshake :: "bool \<Rightarrow> MODULE_SYNC \<Rightarrow> start_event list \<Rightarrow> start_state" where
  "await_handshake came m tr =
     (if came then (Goes_on, m, tr)
      else case DOSHUTDOWN_BEFORE_INIT m of (evs, r) \<Rightarrow> (r, m\<lparr>PARTITION_VECTOR := []\<rparr>, tr @ evs))"

definition LOAD_AND_INITIALIZE_PARTITION_EXECUTABLE ::
  "load_env \<Rightarrow> nat \<Rightarrow> MODULE_SYNC \<Rightarrow> start_event list \<Rightarrow> start_state outcome" where
  "LOAD_AND_INITIALIZE_PARTITION_EXECUTABLE e index m tr =
     (if index > length (PARTITION_VECTOR m) then Returned (Goes_on, m, tr)
      else if index = length (PARTITION_VECTOR m) then Undef
      else case forked e of
        None \<Rightarrow> Returned (Goes_on, m, tr)
      | Some newPartitionPID \<Rightarrow>
          bind_outcome (assert_some (addTimeNano (load_clock e) (MIN_WAIT_TIME m * NANO))) (\<lambda>now_time.
            Returned (await_handshake (handshake e) (with_pid index newPartitionPID m) (tr @ [Forked index newPartitionPID]))))"

text \<open>The loop of RUN\_MODULE\_MANAGER over the partitions from \<open>index\<close> on.\<close>

fun load_partitions :: "(nat \<Rightarrow> load_env) \<Rightarrow> nat list \<Rightarrow> start_state \<Rightarrow> start_state outcome" where
  "load_partitions env [] s = Returned s"
| "load_partitions env (index # is) (r, m, tr) =
     (if r \<noteq> Goes_on then Returned (r, m, tr)
      else bind_outcome (LOAD_AND_INITIALIZE_PARTITION_EXECUTABLE (env index) index m tr) (load_partitions env is))"

text \<open>The second stage: every partition is continued and answers once more.\<close>

definition sync_partition :: "load_env \<Rightarrow> nat \<Rightarrow> MODULE_SYNC \<Rightarrow> start_event list \<Rightarrow> start_state outcome" where
  "sync_partition e index m tr =
     bind_outcome (assert_some (addTimeNano (load_clock e) (MIN_WAIT_TIME m * NANO))) (\<lambda>now_time.
       Returned (await_handshake (handshake e) m (tr @ [Killed (PID (PARTITION_VECTOR m ! index)) SIGCONT])))"

fun sync_partitions :: "(nat \<Rightarrow> load_env) \<Rightarrow> nat list \<Rightarrow> start_state \<Rightarrow> start_state outcome" where
  "sync_partitions env [] s = Returned s"
| "sync_partitions env (index # is) (r, m, tr) =
     (if r \<noteq> Goes_on then Returned (r, m, tr)
      else bind_outcome (sync_partition (env index) index m tr) (sync_partitions env is))"

definition HELPER_CLOCK_NANOSLEEP :: "SYSTEM_TIMESPEC \<Rightarrow> sleep list \<Rightarrow> SYSTEM_TIME_TYPE \<Rightarrow> SYSTEM_TIMESPEC outcome" where
  "HELPER_CLOCK_NANOSLEEP actualtime sleeps TIME_OUT =
     bind_outcome (assert_some (addTimeNano actualtime TIME_OUT)) (\<lambda>absolute_time.
     bind_outcome (nanosleep_loop absolute_time sleeps) (\<lambda>_. Returned absolute_time))"

definition Synchronize :: "SYSTEM_TIMESPEC \<Rightarrow> sleep list \<Rightarrow> (nat \<Rightarrow> load_env) \<Rightarrow> MODULE_SYNC \<Rightarrow> start_event list \<Rightarrow> start_state outcome" where
  "Synchronize clock sleeps env m tr =
     bind_outcome (HELPER_CLOCK_NANOSLEEP clock sleeps NANO) (\<lambda>t.
       sync_partitions env [0..<length (PARTITION_VECTOR m)] (Goes_on, m, tr @ [Slept_until t]))"

section \<open>The run of the module manager\<close>

text \<open>The inputs: whether the sockets are made, the bound on the receptions of each barrier and the message on the stack of a child there,
  the partitions in the two stages, clocks and sleeps, and the inputs of the run itself.\<close>

record module_env =
  sockets_made :: bool
  receptions_bound :: nat
  stack_message :: "nat \<Rightarrow> SYNC_MESSAGE"
  loads :: "nat \<Rightarrow> load_env"
  second_stage :: "nat \<Rightarrow> load_env"
  second_clock :: SYSTEM_TIMESPEC
  second_sleeps :: "sleep list"
  last_clock :: SYSTEM_TIMESPEC
  last_sleeps :: "sleep list"
  module_frames :: "frame_env list"
  module_start_time :: SYSTEM_TIMESPEC
  child_messages :: "child_env list"

datatype 'w module_end =
  Thrown int | Start_failed start_end "start_event list" | Ran "start_event list" MODULE_MANAGER 'w "mm_event list"

text \<open>The last part: the barrier before the first hyperperiod and the run of the kind of module; the answers of the barriers are not looked at.\<close>

definition run_started ::
  "'w mq_calls \<Rightarrow> 'w socket_calls \<Rightarrow> ('w \<Rightarrow> bool) \<Rightarrow> module_env \<Rightarrow> MODULE_SYNC \<Rightarrow> start_event list \<Rightarrow> 'w \<Rightarrow> 'w module_end outcome" where
  "run_started mq net stale e m tr w =
     bind_outcome (HELPER_CLOCK_NANOSLEEP (last_clock e) (last_sleeps e) NANO) (\<lambda>t.
     bind_outcome (GET_READY_MM_FOR_HYPERPERIOD net (receptions_bound e) m w) (\<lambda>(_, m1, w1).
     bind_outcome
       (if \<not> isSystemModuleManager m1 \<and> \<not> isrunningUnderSystemModuleManager m1
        then RUN_WITHOUT_SYSTEM_MANAGER mq net (module_frames e) (module_start_time e) (MODULE_MANAGER.truncate m1) w1
        else if isSystemModuleManager m1 then RUN_SYSTEM_MODULE_MANAGER mq net (module_frames e) (module_start_time e) m1 w1
        else RUN_CHILD_MODULE_MANAGER mq net stale (child_messages e) m1 w1) (\<lambda>(m2, w2, evs).
       Returned (Ran (tr @ [Slept_until t]) m2 w2 evs))))"

text \<open>The second stage, with its barrier before it.\<close>

definition second_start ::
  "'w socket_calls \<Rightarrow> ('w \<Rightarrow> bool) \<Rightarrow> module_env \<Rightarrow> MODULE_SYNC \<Rightarrow> start_event list \<Rightarrow> 'w \<Rightarrow> (start_state \<times> 'w) outcome" where
  "second_start net stale e m tr w =
     (if NumberOfInitStages m = 2 then
        bind_outcome (SYNC_WITH_OTHER_MODULE_MANAGERS net stale (receptions_bound e) (stack_message e 2) m w) (\<lambda>(_, m1, w1).
        bind_outcome (Synchronize (second_clock e) (second_sleeps e) (second_stage e) m1 tr) (\<lambda>s. Returned (s, w1)))
      else Returned ((Goes_on, m, tr), w))"

definition RUN_MODULE_MANAGER ::
  "'w mq_calls \<Rightarrow> 'w socket_calls \<Rightarrow> ('w \<Rightarrow> bool) \<Rightarrow> module_env \<Rightarrow> MODULE_SYNC \<Rightarrow> 'w \<Rightarrow> 'w module_end outcome" where
  "RUN_MODULE_MANAGER mq net stale e m0 w0 =
     bind_outcome (createSockets (sockets_made e) m0) (\<lambda>c. case c of
       Inl code \<Rightarrow> Returned (Thrown code)
     | Inr m \<Rightarrow>
         bind_outcome (SYNC_WITH_OTHER_MODULE_MANAGERS net stale (receptions_bound e) (stack_message e 0) m w0) (\<lambda>(_, m1, w1).
         bind_outcome (load_partitions (loads e) [0..<length (PARTITION_VECTOR m1)] (Goes_on, m1, [])) (\<lambda>(r, m2, tr).
           if r \<noteq> Goes_on then Returned (Start_failed r tr)
           else
             bind_outcome (SYNC_WITH_OTHER_MODULE_MANAGERS net stale (receptions_bound e) (stack_message e 1) m2 w1) (\<lambda>(_, m3, w2).
             bind_outcome (second_start net stale e m3 tr w2) (\<lambda>((r2, m4, tr2), w3).
               if r2 \<noteq> Goes_on then Returned (Start_failed r2 tr2)
               else run_started mq net stale e m4 tr2 w3)))))"

end
