(* ===== verification/StartTheorems.thy ===== *)
theory StartTheorems
  imports ModuleStart SyncTheorems
begin

text \<open>
  What the start of a module promises: with every handshake the module runs with the processes it has started; a handshake that
  is missing ends the start, and how depends on whether there are partitions that have no process yet.
\<close>

section \<open>Stopping\<close>

lemma stop_every_all: "0 \<notin> set pids \<Longrightarrow> stop_every pids = (map (\<lambda>pid. Killed pid SIGSTOP) pids, Goes_on)"
  by (induction pids) auto

lemma stop_every_itself:
  "0 \<in> set pids \<Longrightarrow> snd (stop_every pids) = Stops_itself \<and> set (fst (stop_every pids)) \<subseteq> range (\<lambda>pid. Killed pid SIGSTOP)"
  by (induction pids) (auto split: prod.split)

lemma shutdown_all:
  assumes "0 \<notin> set (map PID (PARTITION_VECTOR m))"
  shows "snd (DOSHUTDOWN_BEFORE_INIT m) = Exits 0" "pid \<in> set (map PID (PARTITION_VECTOR m)) \<Longrightarrow>
    Killed pid SIGTERM \<in> set (fst (DOSHUTDOWN_BEFORE_INIT m)) \<and> Waited_for pid \<in> set (fst (DOSHUTDOWN_BEFORE_INIT m))"
proof -
  have d: "DOSHUTDOWN_BEFORE_INIT m = ((if DUMMY_PROCESS_ID m \<noteq> 0 then [Killed (DUMMY_PROCESS_ID m) SIGTERM] else []) @
      map (\<lambda>pid. Killed pid SIGSTOP) (map PID (PARTITION_VECTOR m)) @ concat (map terminate_partition (map PID (PARTITION_VECTOR m))), Exits 0)"
    unfolding DOSHUTDOWN_BEFORE_INIT_def Let_def stop_every_all [OF assms] by simp
  then show "snd (DOSHUTDOWN_BEFORE_INIT m) = Exits 0" by simp
  assume pid: "pid \<in> set (map PID (PARTITION_VECTOR m))"
  then have "pid \<noteq> 0" using assms by metis
  then have "Killed pid SIGTERM \<in> set (terminate_partition pid)" "Waited_for pid \<in> set (terminate_partition pid)"
    by (simp_all add: terminate_partition_def)
  then have "Killed pid SIGTERM \<in> set (concat (map terminate_partition (map PID (PARTITION_VECTOR m))))"
    "Waited_for pid \<in> set (concat (map terminate_partition (map PID (PARTITION_VECTOR m))))"
    using pid by (simp_all only: set_concat set_map) blast+
  then show "Killed pid SIGTERM \<in> set (fst (DOSHUTDOWN_BEFORE_INIT m)) \<and> Waited_for pid \<in> set (fst (DOSHUTDOWN_BEFORE_INIT m))"
    unfolding d by simp
qed

lemma shutdown_itself:
  assumes "0 \<in> set (map PID (PARTITION_VECTOR m))" "DUMMY_PROCESS_ID m = 0"
  shows "snd (DOSHUTDOWN_BEFORE_INIT m) = Stops_itself" "Killed pid SIGTERM \<notin> set (fst (DOSHUTDOWN_BEFORE_INIT m))"
  using stop_every_itself [OF assms(1)] assms(2)
  by (auto simp: DOSHUTDOWN_BEFORE_INIT_def Let_def split: prod.splits)

section \<open>Starting\<close>

text \<open>The module after the first \<open>k\<close> partitions have their processes.\<close>

definition new_pid :: "(nat \<Rightarrow> load_env) \<Rightarrow> nat \<Rightarrow> nat" where
  "new_pid env i = the (forked (env i))"

definition with_processes :: "(nat \<Rightarrow> load_env) \<Rightarrow> nat \<Rightarrow> MODULE_SYNC \<Rightarrow> MODULE_SYNC" where
  "with_processes env k m = fold (\<lambda>i. with_pid i (new_pid env i)) [0..<k] m"

definition forks :: "(nat \<Rightarrow> load_env) \<Rightarrow> nat \<Rightarrow> bool" where
  "forks env n \<longleftrightarrow> (\<forall>i<n. forked (env i) = Some (new_pid env i) \<and> new_pid env i \<noteq> 0)"

lemma with_pid_frame [simp]:
  "length (PARTITION_VECTOR (with_pid i pid m)) = length (PARTITION_VECTOR m)"
  "MIN_WAIT_TIME (with_pid i pid m) = MIN_WAIT_TIME m" "DUMMY_PROCESS_ID (with_pid i pid m) = DUMMY_PROCESS_ID m"
  "NumberOfInitStages (with_pid i pid m) = NumberOfInitStages m"
  "isSystemModuleManager (with_pid i pid m) = isSystemModuleManager m"
  "isrunningUnderSystemModuleManager (with_pid i pid m) = isrunningUnderSystemModuleManager m"
  by (simp_all add: with_pid_def)

lemma with_processes_Suc [simp]: "with_processes env (Suc k) m = with_pid k (new_pid env k) (with_processes env k m)"
  by (simp add: with_processes_def)

lemma with_processes_0 [simp]: "with_processes env 0 m = m"
  by (simp add: with_processes_def)

lemma with_processes_frame [simp]:
  "length (PARTITION_VECTOR (with_processes env k m)) = length (PARTITION_VECTOR m)"
  "MIN_WAIT_TIME (with_processes env k m) = MIN_WAIT_TIME m" "DUMMY_PROCESS_ID (with_processes env k m) = DUMMY_PROCESS_ID m"
  "NumberOfInitStages (with_processes env k m) = NumberOfInitStages m"
  "isSystemModuleManager (with_processes env k m) = isSystemModuleManager m"
  "isrunningUnderSystemModuleManager (with_processes env k m) = isrunningUnderSystemModuleManager m"
  by (induction k) simp_all

lemma with_processes_pids:
  "k \<le> length (PARTITION_VECTOR m) \<Longrightarrow>
    map PID (PARTITION_VECTOR (with_processes env k m)) = map (new_pid env) [0..<k] @ drop k (map PID (PARTITION_VECTOR m))"
proof (induction k)
  case (Suc k)
  then have "map PID (PARTITION_VECTOR (with_processes env (Suc k) m)) =
      (map (new_pid env) [0..<k] @ drop k (map PID (PARTITION_VECTOR m)))[k := new_pid env k]"
    by (simp add: with_pid_def map_update)
  moreover have "drop k (map PID (PARTITION_VECTOR m)) = map PID (PARTITION_VECTOR m) ! k # drop (Suc k) (map PID (PARTITION_VECTOR m))"
    by (rule Cons_nth_drop_Suc [symmetric]) (use Suc.prems in simp)
  ultimately show ?case by (simp add: list_update_append)
qed simp

lemma load_partitions_append:
  "load_partitions env (is @ js) s = bind_outcome (load_partitions env is s) (load_partitions env js)"
proof (induction "is" arbitrary: s)
  case (Cons i "is")
  obtain r m tr where s: "s = (r, m, tr)" by (cases s)
  have "load_partitions env js (r, m, tr) = Returned (r, m, tr)" if "r \<noteq> Goes_on" using that by (cases js) simp_all
  then show ?case using Cons.IH by (cases "r = Goes_on"; cases "LOAD_AND_INITIALIZE_PARTITION_EXECUTABLE (env i) i m tr") (simp_all add: s)
qed simp

lemma load_one:
  assumes "forks env n" "i < n" "n = length (PARTITION_VECTOR m)" "MIN_WAIT_TIME m * NANO \<le> MAX_TIME_OUT"
  shows "LOAD_AND_INITIALIZE_PARTITION_EXECUTABLE (env i) i m tr =
    Returned (await_handshake (handshake (env i)) (with_pid i (new_pid env i) m) (tr @ [Forked i (new_pid env i)]))"
proof -
  obtain t where "addTimeNano (load_clock (env i)) (MIN_WAIT_TIME m * NANO) = Some t" by (rule addTimeNano_some [OF assms(4)])
  then show ?thesis using assms(1-3) by (simp add: LOAD_AND_INITIALIZE_PARTITION_EXECUTABLE_def forks_def)
qed

lemma load_all:
  assumes "forks env n" "n = length (PARTITION_VECTOR m)" "MIN_WAIT_TIME m * NANO \<le> MAX_TIME_OUT"
  shows "k \<le> n \<Longrightarrow> \<forall>i<k. handshake (env i) \<Longrightarrow> load_partitions env [0..<k] (Goes_on, m, tr) =
    Returned (Goes_on, with_processes env k m, tr @ map (\<lambda>i. Forked i (new_pid env i)) [0..<k])"
proof (induction k)
  case (Suc k)
  then show ?case
    using load_one [of env n k "with_processes env k m" "tr @ map (\<lambda>i. Forked i (new_pid env i)) [0..<k]"] assms
    by (simp add: load_partitions_append await_handshake_def)
qed simp

text \<open>C14. The first handshake that does not come ends the start of a module whose partitions have no processes at first.  Is it that of
  the last partition, then every process is stopped, terminated and waited for, and the program exits with 0.  Is it an
  earlier one, then the shutdown sends SIGSTOP to the process group of the module manager, because the partitions after it have no
  process: the module manager stops itself and no partition gets its SIGTERM.\<close>

theorem missed_handshake:
  assumes "forks env n" "n = length (PARTITION_VECTOR m)" "MIN_WAIT_TIME m * NANO \<le> MAX_TIME_OUT" "DUMMY_PROCESS_ID m = 0"
    "\<forall>p\<in>set (PARTITION_VECTOR m). PID p = 0" "k < n" "\<forall>i<k. handshake (env i)" "\<not> handshake (env k)"
  shows "\<exists>r m' tr. load_partitions env [0..<n] (Goes_on, m, []) = Returned (r, m', tr) \<and>
    (\<forall>i\<le>k. Forked i (new_pid env i) \<in> set tr) \<and>
    (if Suc k = n then r = Exits 0 \<and> (\<forall>i<n. Killed (new_pid env i) SIGTERM \<in> set tr \<and> Waited_for (new_pid env i) \<in> set tr)
     else r = Stops_itself \<and> (\<forall>pid. Killed pid SIGTERM \<notin> set tr))"
proof -
  let ?m = "with_processes env (Suc k) m" and ?tr = "map (\<lambda>i. Forked i (new_pid env i)) [0..<Suc k]"
  obtain evs r where sd: "DOSHUTDOWN_BEFORE_INIT ?m = (evs, r)" by (cases "DOSHUTDOWN_BEFORE_INIT ?m")
  have r: "r \<noteq> Goes_on" using sd by (auto simp: DOSHUTDOWN_BEFORE_INIT_def Let_def split: prod.splits start_end.splits)
  have "load_partitions env [0..<k] (Goes_on, m, []) = Returned (Goes_on, with_processes env k m, map (\<lambda>i. Forked i (new_pid env i)) [0..<k])"
    using load_all [OF assms(1-3), of k "[]"] assms(6,7) by simp
  moreover have "LOAD_AND_INITIALIZE_PARTITION_EXECUTABLE (env k) k (with_processes env k m) (map (\<lambda>i. Forked i (new_pid env i)) [0..<k]) =
      Returned (r, ?m\<lparr>PARTITION_VECTOR := []\<rparr>, ?tr @ evs)"
    using load_one [OF assms(1,6), of "with_processes env k m"] assms(2,3,8) sd by (simp add: await_handshake_def)
  moreover have "load_partitions env js (r, m', tr) = Returned (r, m', tr)" for js m' tr using r by (cases js) simp_all
  moreover have "[0..<n] = [0..<k] @ k # [Suc k..<n]" using assms(6) upt_conv_Cons [of k n] upt_add_eq_append [of 0 k "n - k"] by simp
  ultimately have run: "load_partitions env [0..<n] (Goes_on, m, []) = Returned (r, ?m\<lparr>PARTITION_VECTOR := []\<rparr>, ?tr @ evs)"
    by (simp add: load_partitions_append)
  have pids: "map PID (PARTITION_VECTOR ?m) = map (new_pid env) [0..<Suc k] @ drop (Suc k) (map PID (PARTITION_VECTOR m))"
    using with_processes_pids [of "Suc k" m env] assms(2,6) by simp
  have new: "0 \<notin> new_pid env ` {..<n}" using assms(1) by (auto simp: forks_def)
  have forked: "Forked i (new_pid env i) \<in> set ?tr" if "i \<le> k" for i using that by (auto simp: image_iff less_Suc_eq_le simp del: upt_Suc)
  show ?thesis
  proof (cases "Suc k = n")
    case True
    then have all: "map PID (PARTITION_VECTOR ?m) = map (new_pid env) [0..<n]" using pids assms(2) by simp
    then have "0 \<notin> set (map PID (PARTITION_VECTOR ?m))" using new by (auto simp: atLeast0LessThan)
    note all_killed = shutdown_all [OF this]
    have "new_pid env i \<in> set (map PID (PARTITION_VECTOR ?m))" if "i < n" for i unfolding all using that by simp
    then have "\<forall>i<n. Killed (new_pid env i) SIGTERM \<in> set evs \<and> Waited_for (new_pid env i) \<in> set evs"
      using all_killed(2) sd by (metis fst_conv)
    moreover have "r = Exits 0" using all_killed(1) sd by simp
    ultimately show ?thesis using True run forked by (intro exI [of _ r] exI [of _ "?m\<lparr>PARTITION_VECTOR := []\<rparr>"] exI [of _ "?tr @ evs"]) auto
  next
    case False
    then have "\<exists>p. p \<in> set (drop (Suc k) (map PID (PARTITION_VECTOR m)))" using assms(2,6) by (auto simp: ex_in_conv)
    then have "0 \<in> set (map PID (PARTITION_VECTOR ?m))" using pids assms(5) in_set_dropD by fastforce
    from shutdown_itself [OF this] show ?thesis using False run sd assms(4) forked
      by (intro exI [of _ r] exI [of _ "?m\<lparr>PARTITION_VECTOR := []\<rparr>"] exI [of _ "?tr @ evs"]) auto
  qed
qed

section \<open>A whole run\<close>






section \<open>A demonstration\<close>

text \<open>The demonstration module as its configuration leaves it, without processes; the processes 101 and 102 are made.\<close>

definition demo_alone :: MODULE_SYNC where
  "demo_alone = (demo_sync ''P'' '''' False [])\<lparr>isrunningUnderSystemModuleManager := False,
     PARTITION_VECTOR := [demo_partition 0 [''Q''] [''S''], demo_partition 0 [] []]\<rparr>"

definition demo_load :: "(nat \<Rightarrow> bool) \<Rightarrow> nat \<Rightarrow> load_env" where
  "demo_load came i = \<lparr>forked = Some (101 + i), load_clock = timespec_at 10, handshake = came i\<rparr>"


lemma demo_alone_fields [simp]:
  "PARTITION_VECTOR demo_alone = [demo_partition 0 [''Q''] [''S''], demo_partition 0 [] []]"
  "MIN_WAIT_TIME demo_alone = 500" "DUMMY_PROCESS_ID demo_alone = 0" "NumberOfInitStages demo_alone = 1"
  "isSystemModuleManager demo_alone = False" "isrunningUnderSystemModuleManager demo_alone = False"
  "PARENT_NAME demo_alone = ''''" "childrenModules demo_alone = []"
  by (simp_all add: demo_alone_def demo_sync_def demo_module_def MODULE_CONFIG.extend_def MODULE_MANAGER.extend_def)

lemma demo_partition_pid [simp]: "PID (demo_partition pid qs ss) = pid" "(demo_partition pid qs ss)\<lparr>PID := k\<rparr> = demo_partition k qs ss"
  by (simp_all add: demo_partition_def)

lemma demo_forks: "forks (demo_load came) n" "new_pid (demo_load came) i = 101 + i"
  by (simp_all add: forks_def new_pid_def demo_load_def)

lemma demo_wait_time: "500 * NANO \<le> MAX_TIME_OUT"
  by (simp add: NANO_def MAX_TIME_OUT_def)

theorem missed_handshake_witness:
  "(\<exists>m' tr. load_partitions (demo_load (\<lambda>i. i \<noteq> 0)) [0..<2] (Goes_on, demo_alone, []) = Returned (Stops_itself, m', tr) \<and>
      Forked 0 101 \<in> set tr \<and> Killed 101 SIGTERM \<notin> set tr) \<and>
   (\<exists>m' tr. load_partitions (demo_load (\<lambda>i. i \<noteq> 1)) [0..<2] (Goes_on, demo_alone, []) = Returned (Exits 0, m', tr) \<and>
      Killed 101 SIGTERM \<in> set tr \<and> Waited_for 102 \<in> set tr)"
proof -
  have "handshake (demo_load came i) = came i" for came i by (simp add: demo_load_def)
  then show ?thesis
    using missed_handshake [of "demo_load (\<lambda>i. i \<noteq> 0)" 2 demo_alone 0] missed_handshake [of "demo_load (\<lambda>i. i \<noteq> 1)" 2 demo_alone 1]
    by (auto simp: demo_forks demo_wait_time less_2_cases_iff dest: spec [of _ "0::nat"] spec [of _ "1::nat"])
qed



end
