(* ===== verification/Logger.thy ===== *)
theory Logger
  imports ConfigFile ProcessServices Sockets
begin

text \<open>
  The log of src/ACM\_LOGGER.cc and include/ACM/USER/ACM\_LOGGER.h, as it is built with logging enabled: LOGGER and LOGGER\_IDENT
  format a line, keep it in a ring of MAX\_LOG\_ENTRIES slots when LOG\_INIT has allocated one, and print it when its level
  is high enough; LOG2FILE writes the ring into a file; the reporter sends lines to a host.

  A C string is the list of its characters before the NUL.  The statics of the file are a record; a slot that
  malloc has given and nothing was written to is \<^const>\<open>None\<close>, and reading one is \<^const>\<open>Undef\<close>, as is a write
  past the end of a buffer.  What a call finds outside is an argument: the thread, the name of the partition and
  the time, printed with nine decimals (the conversion of long doubles is the library's), and the text that the
  format and its arguments stand for.  The allocations are taken to succeed.  The static variables
  \<open>pid_data\<close> and \<open>Partition_Name\<close> of the two functions keep what their first call put there.
\<close>

datatype LOG_LEVEL = INFO | WARNING | DEBUG | TRACE | HMEVENT | APP | ERROR | FATAL | USER

fun LOG_LEVEL_int :: "LOG_LEVEL \<Rightarrow> int" where
  "LOG_LEVEL_int INFO = 0"
| "LOG_LEVEL_int WARNING = 1"
| "LOG_LEVEL_int DEBUG = 2"
| "LOG_LEVEL_int TRACE = 3"
| "LOG_LEVEL_int HMEVENT = 4"
| "LOG_LEVEL_int APP = 5"
| "LOG_LEVEL_int ERROR = 6"
| "LOG_LEVEL_int FATAL = 7"
| "LOG_LEVEL_int USER = 8"

definition LOG_ENTRY_SIZE :: nat where
  "LOG_ENTRY_SIZE = 255"

record LOG_STATICS =
  MAX_LOG_ENTRIES :: nat
  log_buffer :: "string option list option"
  log_index :: "32 word"
  log_overflow :: bool
  FLUSH_OR_NOT :: int
  CURRENT_LOGLEVEL :: int
  LOGGER_statics :: "(nat \<times> string) option"
  IDENT_statics :: "(nat \<times> string) option"
  std_out :: "string list"
  flushed :: nat

definition LOG_STATICS_new :: "LOG_LEVEL \<Rightarrow> LOG_STATICS" where
  "LOG_STATICS_new built_with =
     \<lparr>MAX_LOG_ENTRIES = 0, log_buffer = None, log_index = 0, log_overflow = False, FLUSH_OR_NOT = 0,
      CURRENT_LOGLEVEL = LOG_LEVEL_int built_with, LOGGER_statics = None, IDENT_statics = None, std_out = [], flushed = 0\<rparr>"

definition CONFIGLOG :: "LOG_LEVEL \<Rightarrow> LOG_STATICS \<Rightarrow> LOG_STATICS" where
  "CONFIGLOG OUTPUT s = s\<lparr>CURRENT_LOGLEVEL := LOG_LEVEL_int OUTPUT\<rparr>"

definition FLUSHSTDOUT :: "bool \<Rightarrow> LOG_STATICS \<Rightarrow> LOG_STATICS" where
  "FLUSHSTDOUT input s = (if input then s\<lparr>FLUSH_OR_NOT := 1\<rparr> else s)"

section \<open>The ring\<close>

text \<open>\<open>atol\<close>, which answers 0 to what is not a number and the nearest long to one that is none.\<close>

definition atol :: "string \<Rightarrow> int" where
  "atol cs =
     (case read_number cs of None \<Rightarrow> 0
      | Some (neg, n) \<Rightarrow> max (- (2 ^ 63)) (min (2 ^ 63 - 1) (if neg then - n else n)))"

abbreviation printf_line :: "string \<Rightarrow> LOG_STATICS \<Rightarrow> LOG_STATICS" where
  "printf_line cs s \<equiv> s\<lparr>std_out := std_out s @ [cs @ [CHR 0x0A]]\<rparr>"

definition LOG_INIT :: "string option \<Rightarrow> LOG_STATICS \<Rightarrow> LOG_STATICS" where
  "LOG_INIT ACM_LOG_ENTRIES s =
     (if log_buffer s \<noteq> None
      then printf_line ''Logger entries already configured, ignoring the environment parameter'' s
      else case ACM_LOG_ENTRIES of
        Some entries \<Rightarrow>
          let i = atol entries in
          if i > 1
          then printf_line (''ACM_LOG_ENTRIES set  to '' @ decimal (nat i) @ '' '')
                 (s\<lparr>MAX_LOG_ENTRIES := nat i, log_buffer := Some (replicate (nat i) None)\<rparr>)
          else printf_line (''ACM_LOG_ENTRIES set incorrectly to '' @ entries @ '' '') s
      | None \<Rightarrow> printf_line ''ACM_LOG_ENTRIES not set '' s)"

definition store_line :: "string \<Rightarrow> LOG_STATICS \<Rightarrow> LOG_STATICS outcome" where
  "store_line buffer2 s =
     (case log_buffer s of
        None \<Rightarrow> Returned s
      | Some slots \<Rightarrow>
          if \<not> MAX_LOG_ENTRIES s > 1 then Returned s
          else if \<not> unat (log_index s) < length slots then Undef
          else
            let s1 = s\<lparr>log_buffer := Some (slots[unat (log_index s) := Some (take LOG_ENTRY_SIZE buffer2)]),
                       log_index := log_index s + 1\<rparr>
            in Returned (if unat (log_index s1) \<ge> MAX_LOG_ENTRIES s1 then s1\<lparr>log_overflow := True, log_index := 0\<rparr> else s1))"

text \<open>The loop of LOG2FILE over the slots.\<close>

fun write_slots :: "nat \<Rightarrow> string option list \<Rightarrow> string outcome" where
  "write_slots 0 slots = Returned []"
| "write_slots (Suc n) [] = Undef"
| "write_slots (Suc n) (None # slots) = Undef"
| "write_slots (Suc n) (Some entry # slots) = bind_outcome (write_slots n slots) (\<lambda>rest. Returned (entry @ rest))"

definition overflow_warning :: string where
  "overflow_warning = '' Warning : log_overflow occured'' @ [CHR 0x0A]"

text \<open>The files are what is written under each name; \<open>opens\<close> says whether the stream could be opened.\<close>

definition LOG2FILE :: "nat \<Rightarrow> string \<Rightarrow> bool \<Rightarrow> LOG_STATICS \<Rightarrow> (string \<Rightarrow> string option) \<Rightarrow> (string \<Rightarrow> string option) outcome" where
  "LOG2FILE pid_data partition_name opens s files =
     (if MAX_LOG_ENTRIES s < 1 then Returned files
      else case log_buffer s of
        None \<Rightarrow> Returned files
      | Some slots \<Rightarrow>
          if \<not> opens then Returned files
          else
            let filename = take 59 (partition_name @ ''-'' @ decimal pid_data @ ''.log'');
                num_iterations = (if log_overflow s then unat (of_nat (MAX_LOG_ENTRIES s) :: 32 word) else unat (log_index s))
            in bind_outcome (write_slots num_iterations slots) (\<lambda>content.
                 Returned (files(filename \<mapsto> (if log_overflow s then overflow_warning else []) @ content))))"

section \<open>The lines\<close>

record log_call =
  caller_pid :: nat
  caller_partition :: string
  caller_stamp :: string

fun level_tag :: "LOG_LEVEL \<Rightarrow> string" where
  "level_tag INFO = ''INF''"
| "level_tag ERROR = ''ERR''"
| "level_tag DEBUG = ''DEB''"
| "level_tag FATAL = ''FTL''"
| "level_tag TRACE = ''TRC''"
| "level_tag HMEVENT = ''HME''"
| "level_tag APP = ''APP''"
| "level_tag USER = ''USR''"
| "level_tag WARNING = ''WRN''"

text \<open>snprintf and vsnprintf leave room for the NUL.\<close>

definition printed :: "string \<Rightarrow> string" where
  "printed cs = take (LOG_ENTRY_SIZE - 1) cs"

definition line_head :: "nat \<times> string \<Rightarrow> string \<Rightarrow> LOG_LEVEL \<Rightarrow> string" where
  "line_head statics stamp LOGLEVEL =
     decimal (fst statics) @ '':'' @ snd statics @ ''|'' @ stamp @ ''|'' @ level_tag LOGLEVEL @ ''|''"

text \<open>The two calls of strcat: \<open>buffer2\<close> has LOG\_ENTRY\_SIZE bytes, one of them for the NUL.\<close>

definition append_text :: "string \<Rightarrow> string \<Rightarrow> string outcome" where
  "append_text buffer2 buffer1 =
     (let cs = buffer2 @ buffer1 @ [CHR 0x0A] in if length cs + 1 > LOG_ENTRY_SIZE then Undef else Returned cs)"

definition static_values :: "log_call \<Rightarrow> (nat \<times> string) option \<Rightarrow> nat \<times> string" where
  "static_values c st = (case st of None \<Rightarrow> (caller_pid c, caller_partition c) | Some st \<Rightarrow> st)"

definition LOGGER :: "log_call \<Rightarrow> LOG_LEVEL \<Rightarrow> string \<Rightarrow> LOG_STATICS \<Rightarrow> LOG_STATICS outcome" where
  "LOGGER c LOGLEVEL formatted s =
     (let statics = static_values c (LOGGER_statics s); s1 = s\<lparr>LOGGER_statics := Some statics\<rparr> in
      bind_outcome (append_text (printed (line_head statics (caller_stamp c) LOGLEVEL)) (printed formatted)) (\<lambda>buffer2.
      bind_outcome (store_line buffer2 s1) (\<lambda>s2.
        if LOG_LEVEL_int LOGLEVEL < CURRENT_LOGLEVEL s2 then Returned s2
        else
          let s3 = s2\<lparr>std_out := std_out s2 @ [buffer2]\<rparr> in
          Returned (if FLUSH_OR_NOT s3 \<ge> 1 then s3\<lparr>flushed := length (std_out s3)\<rparr> else s3))))"

definition LOGGER_IDENT :: "log_call \<Rightarrow> string \<Rightarrow> LOG_LEVEL \<Rightarrow> string \<Rightarrow> LOG_STATICS \<Rightarrow> LOG_STATICS outcome" where
  "LOGGER_IDENT c NAME LOGLEVEL formatted s =
     (let statics = static_values c (IDENT_statics s); s1 = s\<lparr>IDENT_statics := Some statics\<rparr> in
      bind_outcome (append_text (printed (line_head statics (caller_stamp c) LOGLEVEL @ ''[From '' @ NAME @ '']'')) (printed formatted)) (\<lambda>buffer2.
      bind_outcome (store_line buffer2 s1) (\<lambda>s2.
        if LOG_LEVEL_int LOGLEVEL < CURRENT_LOGLEVEL s2 then Returned s2
        else Returned (s2\<lparr>std_out := std_out s2 @ [buffer2]\<rparr>))))"

section \<open>The reporter\<close>

record REPORTER =
  hostname :: string
  portnum :: nat
  reporter_partition :: string

record 'w reporter_state =
  log_statics :: LOG_STATICS
  my_instance :: "REPORTER option"
  network :: 'w

definition log_in :: "log_call \<Rightarrow> LOG_LEVEL \<Rightarrow> string \<Rightarrow> 'w reporter_state \<Rightarrow> 'w reporter_state outcome" where
  "log_in c LOGLEVEL formatted s =
     bind_outcome (LOGGER c LOGLEVEL formatted (log_statics s)) (\<lambda>l. Returned (s\<lparr>log_statics := l\<rparr>))"

text \<open>\<open>socket\<close> says whether the system gave the constructor its socket; the exception of one that got none is not caught.\<close>

definition REPORTER_INIT ::
  "log_call \<Rightarrow> bool \<Rightarrow> string \<Rightarrow> nat \<Rightarrow> 'w reporter_state \<Rightarrow> (RETURN_CODE_TYPE \<times> 'w reporter_state) outcome" where
  "REPORTER_INIT c socket host portnumber s =
     (if my_instance s \<noteq> None then Returned (NO_ERROR, s)
      else if \<not> socket then Aborted
      else bind_outcome (log_in c APP ''Reporter Created'' s) (\<lambda>s1.
        Returned (NO_ERROR, s1\<lparr>my_instance := Some \<lparr>hostname = host, portnum = portnumber, reporter_partition = caller_partition c\<rparr>\<rparr>)))"

definition report_line :: "string \<Rightarrow> REPORTER \<Rightarrow> string \<Rightarrow> string" where
  "report_line stamp r message = printed (reporter_partition r @ ''|'' @ stamp @ ''|APP|'' @ message)"

definition string_bytes :: "string \<Rightarrow> byte list" where
  "string_bytes cs = map of_char cs @ [0]"

text \<open>\<open>rc\<close> is what the caller's variable holds before the call, \<open>what\<close> the text of the exception; the port of
  sendTo is an unsigned short.\<close>

definition REPORT ::
  "'w socket_calls \<Rightarrow> log_call \<Rightarrow> string \<Rightarrow> string \<Rightarrow> string \<Rightarrow> RETURN_CODE_TYPE \<Rightarrow> 'w reporter_state \<Rightarrow>
   (RETURN_CODE_TYPE \<times> 'w reporter_state) outcome" where
  "REPORT net c stamp what message rc s =
     (case my_instance s of
        None \<Rightarrow> bind_outcome (log_in c ERROR ''Call Reporter Init first'' s) (\<lambda>s1. Returned (NOT_AVAILABLE, s1))
      | Some r \<Rightarrow>
          (case send_to net (string_bytes (report_line stamp r message))
                  \<lparr>node_name = hostname r, url_port = portnum r mod 2 ^ 16\<rparr> (network s) of
             Some w \<Rightarrow> Returned (rc, s\<lparr>network := w\<rparr>)
           | None \<Rightarrow> bind_outcome (log_in c ERROR what s) (\<lambda>s1. Returned (NOT_AVAILABLE, s1))))"

definition REPORTER_TERMINATE :: "log_call \<Rightarrow> 'w reporter_state \<Rightarrow> (RETURN_CODE_TYPE \<times> 'w reporter_state) outcome" where
  "REPORTER_TERMINATE c s =
     (if my_instance s = None then Returned (NO_ERROR, s)
      else bind_outcome (log_in c APP ''Reported Terminated'' s) (\<lambda>s1. Returned (NO_ERROR, s1\<lparr>my_instance := None\<rparr>)))"

end
