(* ===== verification/LogTheorems.thy ===== *)
theory LogTheorems
  imports Logger
begin

text \<open>
  What the log keeps: the ring of slots refines the list of the last lines, which LOG2FILE writes in the order of the slots.
  The calls are one after the other; threads that log at the same time may print in another order than they store.
\<close>

section \<open>The ring\<close>

text \<open>A ring of \<open>m\<close> slots after the lines \<open>ls\<close>: \<open>new\<close> are the lines since the index was last 0, and the slots behind them hold
  what the round before left there.\<close>

definition log_ring_inv :: "nat \<Rightarrow> string list \<Rightarrow> LOG_STATICS \<Rightarrow> bool" where
  "log_ring_inv m ls s \<longleftrightarrow>
     MAX_LOG_ENTRIES s = m \<and>
     (\<exists>new old. log_buffer s = Some (map Some new @ drop (length new) old) \<and> length old = m \<and> length new < m \<and>
        unat (log_index s) = length new \<and>
        (\<not> log_overflow s \<and> old = replicate m None \<and> ls = new \<or>
         log_overflow s \<and> (\<exists>front round. old = map Some round \<and> ls = front @ round @ new \<and> m dvd length front)))"

lemma log_ring_inv_cong:
  assumes "log_ring_inv m ls s" "MAX_LOG_ENTRIES t = MAX_LOG_ENTRIES s" "log_buffer t = log_buffer s" "log_index t = log_index s"
    "log_overflow t = log_overflow s"
  shows "log_ring_inv m ls t"
  using assms by (simp add: log_ring_inv_def)

lemma log_ring_inv_new:
  assumes "log_buffer s = Some (replicate m None)" "MAX_LOG_ENTRIES s = m" "log_index s = 0" "\<not> log_overflow s" "1 < m"
  shows "log_ring_inv m [] s"
  using assms by (simp add: log_ring_inv_def)

lemma next_index:
  assumes "unat (i :: 32 word) < m" "m < 2 ^ 32"
  shows "unat (i + 1) = Suc (unat i)"
  using assms by (simp add: unat_word_ariths)

lemma slot_written:
  assumes "length old = m" "length new < m"
  shows "(map Some new @ drop (length new) old)[length new := Some l] = map Some (new @ [l]) @ drop (length (new @ [l])) old"
proof -
  have "drop (length new) old = old ! length new # drop (Suc (length new)) old"
    using assms by (simp add: Cons_nth_drop_Suc)
  then show ?thesis by (simp add: list_update_append)
qed

lemma store_line_ring:
  assumes inv: "log_ring_inv m ls s" and m: "1 < m" "m < 2 ^ 32" and l: "length l \<le> LOG_ENTRY_SIZE"
  shows "\<exists>s'. store_line l s = Returned s' \<and> log_ring_inv m (ls @ [l]) s' \<and>
    CURRENT_LOGLEVEL s' = CURRENT_LOGLEVEL s \<and> FLUSH_OR_NOT s' = FLUSH_OR_NOT s \<and> std_out s' = std_out s \<and>
    LOGGER_statics s' = LOGGER_statics s \<and> IDENT_statics s' = IDENT_statics s"
proof -
  obtain new old where r: "log_buffer s = Some (map Some new @ drop (length new) old)" "length old = m" "length new < m"
    "unat (log_index s) = length new" and M: "MAX_LOG_ENTRIES s = m"
    and o: "\<not> log_overflow s \<and> old = replicate m None \<and> ls = new \<or>
      log_overflow s \<and> (\<exists>front round. old = map Some round \<and> ls = front @ round @ new \<and> m dvd length front)"
    using inv unfolding log_ring_inv_def by blast
  have i: "unat (log_index s + 1) = Suc (length new)" using next_index [of "log_index s" m] r(3,4) m by simp
  have written: "(map Some new @ drop (length new) old)[length new := Some l] = map Some (new @ [l]) @ drop (length (new @ [l])) old"
    by (rule slot_written [OF r(2,3)])
  let ?s1 = "s\<lparr>log_buffer := Some (map Some (new @ [l]) @ drop (length (new @ [l])) old), log_index := log_index s + 1\<rparr>"
  have store: "store_line l s = Returned (if Suc (length new) \<ge> m then ?s1\<lparr>log_overflow := True, log_index := 0\<rparr> else ?s1)"
    using r M m l i written by (simp add: store_line_def Let_def)
  show ?thesis
  proof (cases "Suc (length new) = m")
    case True
    obtain front where "ls @ [l] = front @ (new @ [l]) @ []" "m dvd length front"
      using o
    proof
      assume "\<not> log_overflow s \<and> old = replicate m None \<and> ls = new"
      then show thesis by (intro that [of "[]"]) simp_all
    next
      assume "log_overflow s \<and> (\<exists>front round. old = map Some round \<and> ls = front @ round @ new \<and> m dvd length front)"
      then obtain front round where "old = map Some round" "ls = front @ round @ new" "m dvd length front" by blast
      then show thesis using r(2) by (intro that [of "front @ round"]) auto
    qed
    then have "\<exists>front round. map Some (new @ [l]) = map Some round \<and> ls @ [l] = front @ round @ [] \<and> m dvd length front"
      by blast
    moreover have "length (map Some (new @ [l])) = m" using True by simp
    moreover have "drop (length (new @ [l])) old = []" using True r(2) by simp
    ultimately have "log_ring_inv m (ls @ [l]) (?s1\<lparr>log_overflow := True, log_index := 0\<rparr>)"
      unfolding log_ring_inv_def using M m
      by (intro conjI exI [of _ "[]"] exI [of _ "map Some (new @ [l])"]) simp_all
    then show ?thesis using store True by simp
  next
    case False
    then have "log_ring_inv m (ls @ [l]) ?s1"
      unfolding log_ring_inv_def using M r i o
      by (intro conjI exI [of _ "new @ [l]"] exI [of _ old]) auto
    then show ?thesis using store False r(3) by simp
  qed
qed

lemma write_slots_Some: "write_slots (length ls) (map Some ls @ rest) = Returned (concat ls)"
  by (induction ls) simp_all

text \<open>The file: the lines in order until the ring is full, then the last \<open>m\<close> of them, those of the current round before
  those of the round before it.\<close>

definition log_file :: "nat \<Rightarrow> string list \<Rightarrow> string" where
  "log_file m ls =
     (if length ls < m then concat ls
      else let kept = drop (length ls - m) ls; older = m - length ls mod m
           in overflow_warning @ concat (drop older kept @ take older kept))"

lemma log_file_full:
  assumes "length round = m" "length new < m" "length (front @ round @ new) mod m = length new"
  shows "log_file m (front @ round @ new) = overflow_warning @ concat (new @ drop (length new) round)"
  using assms by (simp add: log_file_def Let_def)

lemma LOG2FILE_ring:
  assumes "log_ring_inv m ls s" "1 < m" "m < 2 ^ 32"
  shows "LOG2FILE pid name True s files = Returned (files(take 59 (name @ ''-'' @ decimal pid @ ''.log'') \<mapsto> log_file m ls))"
proof -
  obtain new old where r: "log_buffer s = Some (map Some new @ drop (length new) old)" "length old = m" "length new < m"
    "unat (log_index s) = length new" and M: "MAX_LOG_ENTRIES s = m"
    and o: "\<not> log_overflow s \<and> old = replicate m None \<and> ls = new \<or>
      log_overflow s \<and> (\<exists>front round. old = map Some round \<and> ls = front @ round @ new \<and> m dvd length front)"
    using assms(1) unfolding log_ring_inv_def by blast
  have m32: "unat (of_nat m :: 32 word) = m" using assms(3) by (simp add: unat_of_nat)
  from o show ?thesis
  proof
    assume "\<not> log_overflow s \<and> old = replicate m None \<and> ls = new"
    then show ?thesis using r M assms(2) by (simp add: LOG2FILE_def write_slots_Some log_file_def)
  next
    assume "log_overflow s \<and> (\<exists>front round. old = map Some round \<and> ls = front @ round @ new \<and> m dvd length front)"
    then obtain front round where over: "log_overflow s" "old = map Some round" "ls = front @ round @ new" "m dvd length front"
      by blast
    have slots: "log_buffer s = Some (map Some (new @ drop (length new) round) @ [])" using r(1) over(2) by (simp add: drop_map)
    have len: "length (new @ drop (length new) round) = m" using r(2,3) over(2) by simp
    have "write_slots m (map Some (new @ drop (length new) round) @ []) = Returned (concat (new @ drop (length new) round))"
      using write_slots_Some [of "new @ drop (length new) round" "[]"] unfolding len .
    moreover have "length ls mod m = length new"
      using over(2-4) r(2,3) by (auto elim!: dvdE simp: add.commute)
    then have "log_file m ls = overflow_warning @ concat (new @ drop (length new) round)"
      using log_file_full [of round m new front] over(2,3) r(2,3) by simp
    ultimately show ?thesis using slots over(1) M m32 assms(2) by (simp add: LOG2FILE_def)
  qed
qed

section \<open>Calls one after the other\<close>

datatype log_request = Log log_call LOG_LEVEL string | Log_ident log_call string LOG_LEVEL string

fun log_one :: "log_request \<Rightarrow> LOG_STATICS \<Rightarrow> LOG_STATICS outcome" where
  "log_one (Log c LOGLEVEL formatted) s = LOGGER c LOGLEVEL formatted s"
| "log_one (Log_ident c NAME LOGLEVEL formatted) s = LOGGER_IDENT c NAME LOGLEVEL formatted s"

fun log_all :: "log_request list \<Rightarrow> LOG_STATICS \<Rightarrow> LOG_STATICS outcome" where
  "log_all [] s = Returned s"
| "log_all (r # rs) s = bind_outcome (log_one r s) (log_all rs)"

text \<open>The lines of the calls with their levels: the thread and the partition are those of the first call of the function.\<close>

fun log_lines :: "(nat \<times> string) option \<Rightarrow> (nat \<times> string) option \<Rightarrow> log_request list \<Rightarrow> (LOG_LEVEL \<times> string) list" where
  "log_lines a b [] = []"
| "log_lines a b (Log c LOGLEVEL formatted # rs) =
     (let st = static_values c a in
      (LOGLEVEL, printed (line_head st (caller_stamp c) LOGLEVEL) @ printed formatted @ [CHR 0x0A]) # log_lines (Some st) b rs)"
| "log_lines a b (Log_ident c NAME LOGLEVEL formatted # rs) =
     (let st = static_values c b in
      (LOGLEVEL, printed (line_head st (caller_stamp c) LOGLEVEL @ ''[From '' @ NAME @ '']'') @ printed formatted @ [CHR 0x0A]) #
        log_lines a (Some st) rs)"

definition shown :: "int \<Rightarrow> (LOG_LEVEL \<times> string) list \<Rightarrow> string list" where
  "shown level ls = map snd (filter (\<lambda>(v, l). level \<le> LOG_LEVEL_int v) ls)"

definition fits :: "LOG_LEVEL \<times> string \<Rightarrow> bool" where
  "fits vl \<longleftrightarrow> length (snd vl) < LOG_ENTRY_SIZE"

lemma log_one_result:
  fixes s :: LOG_STATICS
  assumes inv: "log_ring_inv m ls s" and m: "1 < m" "m < 2 ^ 32"
    and l: "log_lines (LOGGER_statics s) (IDENT_statics s) (r # rs) = vl # rest" and ok: "fits vl"
  shows "\<exists>s'. log_one r s = Returned s' \<and> log_ring_inv m (ls @ [snd vl]) s' \<and> CURRENT_LOGLEVEL s' = CURRENT_LOGLEVEL s \<and>
    std_out s' = std_out s @ shown (CURRENT_LOGLEVEL s) [vl] \<and> log_lines (LOGGER_statics s') (IDENT_statics s') rs = rest"
proof (cases r)
  case (Log c v t)
  let ?s1 = "s\<lparr>LOGGER_statics := Some (static_values c (LOGGER_statics s))\<rparr>"
  have "log_ring_inv m ls ?s1" by (rule log_ring_inv_cong [OF inv]) simp_all
  then obtain s2 where s2: "store_line (snd vl) ?s1 = Returned s2" "log_ring_inv m (ls @ [snd vl]) s2"
    "CURRENT_LOGLEVEL s2 = CURRENT_LOGLEVEL s" "std_out s2 = std_out s" "FLUSH_OR_NOT s2 = FLUSH_OR_NOT s"
    "LOGGER_statics s2 = Some (static_values c (LOGGER_statics s))" "IDENT_statics s2 = IDENT_statics s"
    using store_line_ring [of m ls ?s1 "snd vl"] m ok by (auto simp: fits_def)
  have vl: "fst vl = v" "append_text (printed (line_head (static_values c (LOGGER_statics s)) (caller_stamp c) v)) (printed t) = Returned (snd vl)"
    "rest = log_lines (LOGGER_statics s2) (IDENT_statics s2) rs"
    using l Log ok s2(6,7) by (auto simp: append_text_def fits_def Let_def)
  have cong: "log_ring_inv m (ls @ [snd vl]) (s2\<lparr>std_out := x\<rparr>)" "log_ring_inv m (ls @ [snd vl]) (s2\<lparr>std_out := x, flushed := k\<rparr>)" for x k
    by (rule log_ring_inv_cong [OF s2(2)], simp_all)+
  show ?thesis using Log vl s2 cong
    by (cases vl) (auto simp: LOGGER_def Let_def shown_def)
next
  case (Log_ident c n v t)
  let ?s1 = "s\<lparr>IDENT_statics := Some (static_values c (IDENT_statics s))\<rparr>"
  have "log_ring_inv m ls ?s1" by (rule log_ring_inv_cong [OF inv]) simp_all
  then obtain s2 where s2: "store_line (snd vl) ?s1 = Returned s2" "log_ring_inv m (ls @ [snd vl]) s2"
    "CURRENT_LOGLEVEL s2 = CURRENT_LOGLEVEL s" "std_out s2 = std_out s"
    "IDENT_statics s2 = Some (static_values c (IDENT_statics s))" "LOGGER_statics s2 = LOGGER_statics s"
    using store_line_ring [of m ls ?s1 "snd vl"] m ok by (auto simp: fits_def)
  have vl: "fst vl = v" "append_text (printed (line_head (static_values c (IDENT_statics s)) (caller_stamp c) v @ ''[From '' @ n @ '']'')) (printed t) = Returned (snd vl)"
    "rest = log_lines (LOGGER_statics s2) (IDENT_statics s2) rs"
    using l Log_ident ok s2(5,6) by (auto simp: append_text_def fits_def Let_def)
  have cong: "log_ring_inv m (ls @ [snd vl]) (s2\<lparr>std_out := x\<rparr>)" for x
    by (rule log_ring_inv_cong [OF s2(2)]) simp_all
  show ?thesis using Log_ident vl s2 cong
    by (cases vl) (auto simp: LOGGER_IDENT_def Let_def shown_def)
qed

lemma log_all_result:
  assumes "log_ring_inv m ls s" "1 < m" "m < 2 ^ 32" "log_lines (LOGGER_statics s) (IDENT_statics s) rs = new" "\<forall>vl\<in>set new. fits vl"
  shows "\<exists>s'. log_all rs s = Returned s' \<and> log_ring_inv m (ls @ map snd new) s' \<and> std_out s' = std_out s @ shown (CURRENT_LOGLEVEL s) new"
  using assms
proof (induction rs arbitrary: s ls new)
  case Nil
  then show ?case by (simp add: shown_def)
next
  case (Cons r rs)
  obtain vl rest where new: "new = vl # rest" using Cons.prems(4) by (cases r) (auto simp: Let_def)
  obtain s1 where s1: "log_one r s = Returned s1" "log_ring_inv m (ls @ [snd vl]) s1" "CURRENT_LOGLEVEL s1 = CURRENT_LOGLEVEL s"
    "std_out s1 = std_out s @ shown (CURRENT_LOGLEVEL s) [vl]" "log_lines (LOGGER_statics s1) (IDENT_statics s1) rs = rest"
    using log_one_result [OF Cons.prems(1-3)] Cons.prems(4,5) unfolding new by (metis list.set_intros(1))
  show ?case
    using Cons.IH [OF s1(2) Cons.prems(2,3) s1(5)] Cons.prems(5) s1(1,3,4) unfolding new
    by (auto simp: shown_def)
qed

text \<open>A line that does not fit its buffer.\<close>

lemma log_one_long:
  assumes "log_lines (LOGGER_statics s) (IDENT_statics s) (r # rs) = vl # rest" "\<not> fits vl"
  shows "log_one r s = Undef"
  using assms by (cases r) (auto simp: LOGGER_def LOGGER_IDENT_def append_text_def fits_def Let_def)

lemma log_all_long:
  assumes "log_ring_inv m ls s" "1 < m" "m < 2 ^ 32" "\<exists>vl\<in>set (log_lines (LOGGER_statics s) (IDENT_statics s) rs). \<not> fits vl"
  shows "log_all rs s = Undef"
  using assms
proof (induction rs arbitrary: s ls)
  case Nil
  then show ?case by simp
next
  case (Cons r rs)
  obtain vl rest where new: "log_lines (LOGGER_statics s) (IDENT_statics s) (r # rs) = vl # rest"
    by (cases r) (auto simp: Let_def)
  show ?case
  proof (cases "fits vl")
    case True
    obtain s1 where s1: "log_one r s = Returned s1" "log_ring_inv m (ls @ [snd vl]) s1"
      "log_lines (LOGGER_statics s1) (IDENT_statics s1) rs = rest"
      using log_one_result [OF Cons.prems(1-3) new True] by blast
    then show ?thesis using Cons.IH [OF s1(2) Cons.prems(2,3)] Cons.prems(4) True unfolding new by auto
  next
    case False
    then show ?thesis using log_one_long [OF new] by simp
  qed
qed

lemma LOG_INIT_ring:
  assumes "atol entries = int m" "1 < m"
  shows "log_ring_inv m [] (LOG_INIT (Some entries) (LOG_STATICS_new level))"
    "LOGGER_statics (LOG_INIT (Some entries) (LOG_STATICS_new level)) = None"
    "IDENT_statics (LOG_INIT (Some entries) (LOG_STATICS_new level)) = None"
    "CURRENT_LOGLEVEL (LOG_INIT (Some entries) (LOG_STATICS_new level)) = LOG_LEVEL_int level"
  using assms by (auto simp: LOG_INIT_def LOG_STATICS_new_def Let_def intro!: log_ring_inv_new)

section \<open>The properties\<close>

text \<open>C34. The log keeps the last lines: after LOG\_INIT with a number of entries, any calls of LOGGER and LOGGER\_IDENT whose lines fit
  return; the lines at or above the level are on the output, in order and whatever their place in the ring; LOG2FILE
  writes all lines in order while there are fewer than entries, and from then on a warning and exactly the last lines
  that the ring has room for, in the order of the slots: those of the current round before those of the round before it.\<close>

theorem log_keeps_last_lines:
  assumes "atol entries = int m" "1 < m" "m < 2 ^ 32" "\<forall>vl\<in>set (log_lines None None rs). fits vl"
  shows "\<exists>s. log_all rs (LOG_INIT (Some entries) (LOG_STATICS_new level)) = Returned s \<and>
    std_out s = std_out (LOG_INIT (Some entries) (LOG_STATICS_new level)) @ shown (LOG_LEVEL_int level) (log_lines None None rs) \<and>
    (\<forall>pid name files. LOG2FILE pid name True s files =
       Returned (files(take 59 (name @ ''-'' @ decimal pid @ ''.log'') \<mapsto> log_file m (map snd (log_lines None None rs)))))"
proof -
  note init = LOG_INIT_ring [OF assms(1,2), of level]
  obtain s where "log_all rs (LOG_INIT (Some entries) (LOG_STATICS_new level)) = Returned s" "log_ring_inv m (map snd (log_lines None None rs)) s"
    "std_out s = std_out (LOG_INIT (Some entries) (LOG_STATICS_new level)) @ shown (LOG_LEVEL_int level) (log_lines None None rs)"
    using log_all_result [OF init(1) assms(2,3) refl] assms(4) init(2-4) by auto
  then show ?thesis using LOG2FILE_ring assms(2,3) by blast
qed

text \<open>A line overflows its buffer: the head of the line and the text are cut to 254 characters each, but they are put together in a
  buffer of 255 bytes; so a run of calls in which one line has more than 253 characters before its end writes past the
  buffer, whatever the level and whether or not the lines are kept.\<close>

theorem long_line_overflows:
  assumes "atol entries = int m" "1 < m" "m < 2 ^ 32" "\<exists>vl\<in>set (log_lines None None rs). \<not> fits vl"
  shows "log_all rs (LOG_INIT (Some entries) (LOG_STATICS_new level)) = Undef"
  using log_all_long [OF LOG_INIT_ring(1) [OF assms(1,2)] assms(2,3)] assms(4) LOG_INIT_ring(2,3) [OF assms(1,2)] by simp

text \<open>The reporter sends a line cut to 254 characters, with the NUL, to the host it was made for, and leaves the caller's variable as it
  was; without a reporter the answer is NOT\_AVAILABLE.\<close>

lemma report_sends:
  assumes "my_instance s = Some r" "send_to net (string_bytes (report_line stamp r message)) \<lparr>node_name = hostname r, url_port = portnum r mod 2 ^ 16\<rparr> (network s) = Some w"
  shows "REPORT net c stamp what message rc s = Returned (rc, s\<lparr>network := w\<rparr>)"
    "length (string_bytes (report_line stamp r message)) \<le> LOG_ENTRY_SIZE"
  using assms by (simp_all add: REPORT_def string_bytes_def report_line_def printed_def LOG_ENTRY_SIZE_def)

lemma report_after_terminate:
  assumes "REPORTER_TERMINATE c s = Returned (x, s1)" "REPORT net c' stamp what message rc s1 = Returned (rc', s2)"
  shows "rc' = NOT_AVAILABLE \<and> network s2 = network s"
  using assms
  by (auto simp: REPORTER_TERMINATE_def REPORT_def log_in_def bind_outcome_Returned split: if_splits)

section \<open>A concrete log\<close>

definition demo_call :: "nat \<Rightarrow> string \<Rightarrow> log_call" where
  "demo_call pid stamp = \<lparr>caller_pid = pid, caller_partition = ''P'', caller_stamp = stamp\<rparr>"

definition demo_requests :: "log_request list" where
  "demo_requests = [Log (demo_call 7 ''1.5'') INFO ''a'', Log (demo_call 8 ''2.5'') ERROR ''b'', Log_ident (demo_call 8 ''3.5'') ''N'' USER ''c'']"

lemma demo_lines:
  "log_lines None None demo_requests =
     [(INFO, ''7:P|1.5|INF|a'' @ [CHR 0x0A]), (ERROR, ''7:P|2.5|ERR|b'' @ [CHR 0x0A]), (USER, ''8:P|3.5|USR|[From N]c'' @ [CHR 0x0A])]"
  by code_simp

theorem log_keeps_last_lines_witness:
  "\<exists>s. log_all demo_requests (LOG_INIT (Some ''2'') (LOG_STATICS_new ERROR)) = Returned s \<and>
     std_out s = [''ACM_LOG_ENTRIES set  to 2 '' @ [CHR 0x0A], ''7:P|2.5|ERR|b'' @ [CHR 0x0A], ''8:P|3.5|USR|[From N]c'' @ [CHR 0x0A]] \<and>
     LOG2FILE 7 ''P'' True s (\<lambda>_. None) =
       Returned [''P-7.log'' \<mapsto> overflow_warning @ ''8:P|3.5|USR|[From N]c'' @ [CHR 0x0A] @ ''7:P|2.5|ERR|b'' @ [CHR 0x0A]]"
proof -
  have init: "atol ''2'' = int 2" "std_out (LOG_INIT (Some ''2'') (LOG_STATICS_new ERROR)) = [''ACM_LOG_ENTRIES set  to 2 '' @ [CHR 0x0A]]"
    by code_simp+
  have fit: "\<forall>vl\<in>set (log_lines None None demo_requests). fits vl" by (simp add: demo_lines fits_def LOG_ENTRY_SIZE_def)
  have content: "log_file 2 (map snd (log_lines None None demo_requests)) =
      overflow_warning @ ''8:P|3.5|USR|[From N]c'' @ [CHR 0x0A] @ ''7:P|2.5|ERR|b'' @ [CHR 0x0A]"
    by (simp add: demo_lines log_file_def)
  have name: "take 59 (''P'' @ ''-'' @ decimal 7 @ ''.log'') = ''P-7.log''" by code_simp
  have shown: "shown (LOG_LEVEL_int ERROR) (log_lines None None demo_requests) = [''7:P|2.5|ERR|b'' @ [CHR 0x0A], ''8:P|3.5|USR|[From N]c'' @ [CHR 0x0A]]"
    by (simp add: demo_lines shown_def)
  obtain s where s: "log_all demo_requests (LOG_INIT (Some ''2'') (LOG_STATICS_new ERROR)) = Returned s"
    "std_out s = std_out (LOG_INIT (Some ''2'') (LOG_STATICS_new ERROR)) @ shown (LOG_LEVEL_int ERROR) (log_lines None None demo_requests)"
    "\<And>pid name files. LOG2FILE pid name True s files =
       Returned (files(take 59 (name @ ''-'' @ decimal pid @ ''.log'') \<mapsto> log_file 2 (map snd (log_lines None None demo_requests))))"
    using log_keeps_last_lines [OF init(1) _ _ fit, of ERROR] by auto
  show ?thesis using s(1,2) s(3) [of 7 "''P''" "\<lambda>_. None"] unfolding content name shown init(2) by auto
qed

end
