(* ===== verification/Timer.thy ===== *)
theory Timer
  imports Event Semaphore "HOL-Library.Multiset"
begin

text \<open>
  The timer of src/ACM\_TIMER.cc and include/ACM/USER/ACM\_TIMER.h: a thread that waits for the times of a set, earliest first, and calls
  a function of the user at each, and the operations that its clients call from their own threads.  The state of the
  object is a record; a system is the object with the places where its thread and its clients are, and an action lets
  one of them go on to the next place where another thread can act: the checks of the state and the event without the
  mutex, the critical sections under \<open>internalMUTEX\<close>, and the waits.  SET\_EVENT raises the state and then broadcasts, without the
  mutex of the event, which it only tries to take; so the thread may have read the state and not yet be in the
  condition variable when the broadcast comes, which then wakes nobody.  An action that has to wait is not possible
  (\<^const>\<open>None\<close>).  The clock is part of the system, and the clients are any number of threads.

  The set of times is the sorted list of its elements.  The function of the user is taken not to call the timer: it
  would wait for the mutex that the thread holds.  The destructor, which cancels the thread, the priorities and the
  creation of the thread are left out.
\<close>

datatype TIMER_STATE = WORKING | STOPPED

record ACM_TIMER =
  timer_name :: NAME_TYPE
  internalevent :: APEX_EVENT_TYPE
  internalsem :: SEMAPHORE
  mutex_taken :: bool
  ENTRY_POINT_set :: bool
  my_state :: TIMER_STATE
  signalled :: bool
  TimeValues :: "SYSTEM_TIMESPEC list"

definition ACM_TIMER_new :: "NAME_TYPE \<Rightarrow> bool \<Rightarrow> ACM_TIMER" where
  "ACM_TIMER_new name callback =
     \<lparr>timer_name = name, internalevent = EVENT_new name, internalsem = SEMAPHORE_new 0 1, mutex_taken = False,
      ENTRY_POINT_set = callback, my_state = STOPPED, signalled = False, TimeValues = []\<rparr>"

text \<open>\<open>std::set::insert\<close> with the comparison SYSTEM\_TIMESPEC\_COMP.\<close>

fun insert_time :: "SYSTEM_TIMESPEC \<Rightarrow> SYSTEM_TIMESPEC list \<Rightarrow> SYSTEM_TIMESPEC list" where
  "insert_time d1 [] = [d1]"
| "insert_time d1 (d2 # ds) =
     (if compareTimeLess d1 d2 then d1 # d2 # ds
      else if compareTimeLess d2 d1 then d2 # insert_time d1 ds
      else d2 # ds)"

section \<open>The operations of the clients\<close>

datatype timer_call =
    Add_time SYSTEM_TIMESPEC
  | Remove_time SYSTEM_TIMESPEC
  | Remove_all
  | Stop_timer
  | Start_timer

text \<open>Where a client is: outside, with the answer of its last call; past the check of the state, before it resets the event; between
  the two parts of SET\_EVENT; or before it takes the mutex.\<close>

datatype client_pc = Idle RETURN_CODE_TYPE | Resetting SYSTEM_TIMESPEC | Broadcasting | Locking timer_call

text \<open>The first part of each operation.\<close>

fun client_enter :: "timer_call \<Rightarrow> ACM_TIMER \<Rightarrow> ACM_TIMER \<times> client_pc" where
  "client_enter (Add_time myspec) t =
     (if my_state t = WORKING then (t, Idle NOT_AVAILABLE) else (t, Resetting myspec))"
| "client_enter (Remove_time myspec) t =
     (if my_state t = WORKING then (t, Idle NOT_AVAILABLE) else (t, Locking (Remove_time myspec)))"
| "client_enter Remove_all t =
     (if my_state t = WORKING then (t, Idle NOT_AVAILABLE) else (t, Locking Remove_all))"
| "client_enter Stop_timer t =
     (t\<lparr>internalevent := snd (EVENT_set (internalevent t))\<rparr>,
      if EVENT_STATE (internalevent t) = DOWN then Broadcasting else Locking Stop_timer)"
| "client_enter Start_timer t =
     (if my_state t = WORKING then (t, Idle NOT_AVAILABLE) else (t, Locking Start_timer))"

definition client_reset :: "SYSTEM_TIMESPEC \<Rightarrow> ACM_TIMER \<Rightarrow> ACM_TIMER \<times> client_pc" where
  "client_reset myspec t =
     (let (return_code, e) = EVENT_reset (internalevent t); t1 = t\<lparr>internalevent := e\<rparr> in
      if return_code = NO_ERROR then (t1, Locking (Add_time myspec)) else (t1, Idle NOT_AVAILABLE))"

text \<open>The part under the mutex, which every operation gives back at its end.\<close>

fun client_locked :: "timer_call \<Rightarrow> ACM_TIMER \<Rightarrow> ACM_TIMER \<times> RETURN_CODE_TYPE" where
  "client_locked (Add_time myspec) t =
     (if EVENT_STATE (internalevent t) \<noteq> DOWN then (t, NOT_AVAILABLE)
      else (t\<lparr>TimeValues := insert_time myspec (TimeValues t)\<rparr>, NO_ERROR))"
| "client_locked (Remove_time myspec) t = (t, NO_ERROR)"
| "client_locked Remove_all t = (t\<lparr>TimeValues := []\<rparr>, NO_ERROR)"
| "client_locked Stop_timer t = (t, NO_ERROR)"
| "client_locked Start_timer t =
     (let t1 = t\<lparr>internalevent := snd (EVENT_reset (internalevent t))\<rparr>;
          (return_code, sem) = SEMAPHORE_post (internalsem t1)
      in (t1\<lparr>internalsem := sem\<rparr>, return_code))"

section \<open>The thread\<close>

text \<open>Where the thread is: before and in the wait for the semaphore, past it, before the mutex, at the head of the inner loop, blocked
  in the wait for the event (until a time, if there is one), past the inner loop, past the mutex; or ended by the
  assertion of a timed wait.  \<open>Waiting_for\<close> is the place in WAIT\_EVENT after the check of the event and before the condition
  variable.  \<open>signalled\<close> says that a broadcast found the thread in the condition variable.\<close>

datatype timer_pc =
    At_start | At_wait | At_awake | At_lock | At_loop | Waiting_for "SYSTEM_TIMESPEC option" | Blocked_in "SYSTEM_TIMESPEC option"
  | At_unlock | At_stopping | Ended

text \<open>The second part of SET\_EVENT.\<close>

definition client_broadcast :: "timer_pc \<Rightarrow> ACM_TIMER \<Rightarrow> ACM_TIMER" where
  "client_broadcast p t = (case p of Blocked_in until \<Rightarrow> t\<lparr>signalled := True\<rparr> | _ \<Rightarrow> t)"

definition end_wait :: "ACM_TIMER \<Rightarrow> ACM_TIMER" where
  "end_wait t = t\<lparr>internalevent := dec_count (internalevent t)\<rparr>"

text \<open>The head of the inner loop: the earliest time is taken out of the set before the wait for it begins.\<close>

definition loop_head :: "ACM_TIMER \<Rightarrow> ACM_TIMER \<times> timer_pc" where
  "loop_head t =
     (case TimeValues t of
        [] \<Rightarrow>
          let t1 = t\<lparr>internalevent := inc_count (internalevent t)\<rparr> in
          if EVENT_STATE (internalevent t1) = DOWN then (t1, Waiting_for None) else (end_wait t1, At_unlock)
      | current # rest \<Rightarrow>
          let t1 = t\<lparr>TimeValues := rest\<rparr> in
          if EVENT_STATE (internalevent t1) = DOWN
          then (t1, Waiting_for (Some current))
          else (end_wait t1, At_unlock))"

text \<open>A thread that leaves the condition variable checks the event again.\<close>

definition woken :: "SYSTEM_TIMESPEC option \<Rightarrow> ACM_TIMER \<Rightarrow> ACM_TIMER \<times> timer_pc" where
  "woken until t =
     (if EVENT_STATE (internalevent t) = DOWN then (t, Waiting_for until) else (end_wait t, At_unlock))"

fun thread_step :: "timer_pc \<Rightarrow> ACM_TIMER \<Rightarrow> (ACM_TIMER \<times> timer_pc) option" where
  "thread_step At_start t = Some (t\<lparr>internalsem := inc_waiting (internalsem t)\<rparr>, At_wait)"
| "thread_step At_wait t =
     (if counter (internalsem t) = 0 then None
      else Some (t\<lparr>internalsem := dec_waiting (take_unit (internalsem t))\<rparr>, At_awake))"
| "thread_step At_awake t = Some (t\<lparr>my_state := WORKING\<rparr>, At_lock)"
| "thread_step At_lock t = (if mutex_taken t then None else Some (t\<lparr>mutex_taken := True\<rparr>, At_loop))"
| "thread_step At_loop t = Some (loop_head t)"
| "thread_step (Waiting_for until) t =
     (if (case until of None \<Rightarrow> True | Some v \<Rightarrow> normalised v) then Some (t\<lparr>signalled := False\<rparr>, Blocked_in until) else Some (t, Ended))"
| "thread_step (Blocked_in until) t =
     (if signalled t then Some (woken until t) else None)"
| "thread_step At_unlock t = Some (t\<lparr>mutex_taken := False\<rparr>, At_stopping)"
| "thread_step At_stopping t = Some (t\<lparr>my_state := STOPPED\<rparr>, At_start)"
| "thread_step Ended t = None"

section \<open>The system\<close>

text \<open>\<open>calls\<close> are the times at which the function of the user was called.  The rest of the record is its history:
  the times that entered the set, those that passed, with the clock then, those that were taken out for a wait
  that the event ended, and those that were removed.\<close>

record timer_system =
  timer :: ACM_TIMER
  pc :: timer_pc
  clients :: "nat \<Rightarrow> client_pc"
  clock :: SYSTEM_TIMESPEC
  calls :: "SYSTEM_TIMESPEC list"
  added :: "SYSTEM_TIMESPEC list"
  expired :: "(SYSTEM_TIMESPEC \<times> SYSTEM_TIMESPEC) list"
  dropped :: "SYSTEM_TIMESPEC list"
  removed :: "SYSTEM_TIMESPEC list"

definition timer_system_new :: "NAME_TYPE \<Rightarrow> bool \<Rightarrow> SYSTEM_TIMESPEC \<Rightarrow> timer_system" where
  "timer_system_new name callback now =
     \<lparr>timer = ACM_TIMER_new name callback, pc = At_start, clients = (\<lambda>_. Idle NO_ERROR), clock = now, calls = [],
      added = [], expired = [], dropped = [], removed = []\<rparr>"

datatype timer_action = Thread | Spurious | Expire | Tick SYSTEM_TIMESPEC | Call nat timer_call | Client nat

definition thread_at :: "ACM_TIMER \<times> timer_pc \<Rightarrow> timer_system \<Rightarrow> timer_system" where
  "thread_at tp s =
     s\<lparr>timer := fst tp, pc := snd tp,
       dropped := dropped s @
         (if snd tp \<noteq> At_unlock then []
          else case pc s of Blocked_in (Some v) \<Rightarrow> [v] | At_loop \<Rightarrow> take 1 (TimeValues (timer s)) | _ \<Rightarrow> [])\<rparr>"

definition thread_action :: "timer_system \<Rightarrow> timer_system option" where
  "thread_action s = (case thread_step (pc s) (timer s) of None \<Rightarrow> None | Some tp \<Rightarrow> Some (thread_at tp s))"

text \<open>A wait on a condition variable may also end without a signal.\<close>

definition spurious_action :: "timer_system \<Rightarrow> timer_system option" where
  "spurious_action s = (case pc s of Blocked_in until \<Rightarrow> Some (thread_at (woken until (timer s)) s) | _ \<Rightarrow> None)"

text \<open>The timed wait ends with ETIMEDOUT; the function is called, and the loop goes on.\<close>

definition expire_action :: "timer_system \<Rightarrow> timer_system option" where
  "expire_action s =
     (case pc s of
        Blocked_in (Some v) \<Rightarrow>
          if compareTime v (clock s)
          then Some (s\<lparr>timer := end_wait (timer s), pc := At_loop, expired := expired s @ [(v, clock s)],
                      calls := calls s @ (if ENTRY_POINT_set (timer s) then [clock s] else [])\<rparr>)
          else None
      | _ \<Rightarrow> None)"

definition client_action :: "nat \<Rightarrow> timer_system \<Rightarrow> timer_system option" where
  "client_action c s =
     (case clients s c of
        Idle rc \<Rightarrow> None
      | Broadcasting \<Rightarrow> Some (s\<lparr>timer := client_broadcast (pc s) (timer s), clients := (clients s)(c := Locking Stop_timer)\<rparr>)
      | Resetting v \<Rightarrow> (let (t, p) = client_reset v (timer s) in Some (s\<lparr>timer := t, clients := (clients s)(c := p)\<rparr>))
      | Locking op \<Rightarrow>
          if mutex_taken (timer s) then None
          else
            let (t, rc) = client_locked op (timer s) in
            Some (s\<lparr>timer := t, clients := (clients s)(c := Idle rc),
              added := added s @ (case op of Add_time v \<Rightarrow> if length (TimeValues t) > length (TimeValues (timer s)) then [v] else [] | _ \<Rightarrow> []),
              removed := removed s @ (if op = Remove_all then TimeValues (timer s) else [])\<rparr>))"

definition call_action :: "nat \<Rightarrow> timer_call \<Rightarrow> timer_system \<Rightarrow> timer_system option" where
  "call_action c op s =
     (case clients s c of
        Idle rc \<Rightarrow> (let (t, p) = client_enter op (timer s) in Some (s\<lparr>timer := t, clients := (clients s)(c := p)\<rparr>))
      | _ \<Rightarrow> None)"

fun do_action :: "timer_action \<Rightarrow> timer_system \<Rightarrow> timer_system option" where
  "do_action Thread s = thread_action s"
| "do_action Spurious s = spurious_action s"
| "do_action Expire s = expire_action s"
| "do_action (Tick now) s = (if compareTime (clock s) now then Some (s\<lparr>clock := now\<rparr>) else None)"
| "do_action (Call c op) s = call_action c op s"
| "do_action (Client c) s = client_action c s"

fun run_timer :: "timer_action list \<Rightarrow> timer_system \<Rightarrow> timer_system option" where
  "run_timer [] s = Some s"
| "run_timer (a # as) s = (case do_action a s of None \<Rightarrow> None | Some s' \<Rightarrow> run_timer as s')"

inductive timer_reachable :: "timer_system \<Rightarrow> timer_system \<Rightarrow> bool" for s0 where
  start: "timer_reachable s0 s0"
| action: "timer_reachable s0 s \<Longrightarrow> do_action a s = Some s' \<Longrightarrow> timer_reachable s0 s'"

end
