(* ===== verification/TimerTheorems.thy ===== *)
theory TimerTheorems
  imports Timer
begin

text \<open>
  What the timer does, over all interleavings of its thread, its clients and the clock: no time is lost or passed
  twice, none is early; a timer with nobody else about calls its function at all times in their order; a stop gets through;
  and a client that is between the check of the state and the mutex when the timer starts can wait for ever.
\<close>

section \<open>The set of times\<close>

lemma compareTimeLess_iff:
  "compareTimeLess d1 d2 \<longleftrightarrow> tv_sec d1 < tv_sec d2 \<or> tv_sec d1 = tv_sec d2 \<and> tv_nsec d1 < tv_nsec d2"
  by (auto simp: compareTimeLess_def)

lemma compareTimeLess_total: "\<not> compareTimeLess a b \<Longrightarrow> \<not> compareTimeLess b a \<Longrightarrow> a = b"
  by (cases a; cases b) (auto simp: compareTimeLess_iff)

lemma insert_time_set [simp]: "set (insert_time d ds) = insert d (set ds)"
  by (induction ds) (auto dest: compareTimeLess_total)

lemma insert_time_sorted:
  "sorted_wrt compareTimeLess ds \<Longrightarrow> sorted_wrt compareTimeLess (insert_time d ds)"
  by (induction ds) (auto intro: compareTimeLess_trans)

text \<open>A time that is in the set already is not put in again.\<close>

lemma insert_time_cases:
  assumes "sorted_wrt compareTimeLess ds"
  shows "insert_time d ds = ds \<and> d \<in> set ds \<or>
    mset (insert_time d ds) = add_mset d (mset ds) \<and> length ds < length (insert_time d ds) \<and> d \<notin> set ds"
  using assms
  by (induction ds) (auto simp: compareTimeLess_irrefl dest: compareTimeLess_total compareTimeLess_trans)

section \<open>The invariant\<close>

fun held :: "timer_pc \<Rightarrow> SYSTEM_TIMESPEC list" where
  "held (Blocked_in (Some v)) = [v]"
| "held (Waiting_for (Some v)) = [v]"
| "held _ = []"

fun in_loop :: "timer_pc \<Rightarrow> bool" where
  "in_loop At_loop = True"
| "in_loop (Waiting_for v) = True"
| "in_loop (Blocked_in v) = True"
| "in_loop At_unlock = True"
| "in_loop Ended = True"
| "in_loop _ = False"

definition timer_inv :: "timer_system \<Rightarrow> bool" where
  "timer_inv s \<longleftrightarrow>
     sorted_wrt compareTimeLess (TimeValues (timer s)) \<and> (mutex_taken (timer s) \<longleftrightarrow> in_loop (pc s)) \<and>
     maximumvalue (internalsem (timer s)) = 1 \<and> counter (internalsem (timer s)) \<in> {0, 1} \<and>
     (my_state (timer s) = WORKING \<longleftrightarrow> in_loop (pc s) \<or> pc s = At_lock \<or> pc s = At_stopping) \<and>
     (\<forall>(v, now)\<in>set (expired s). compareTime v now) \<and>
     calls s = (if ENTRY_POINT_set (timer s) then map snd (expired s) else [])"

definition accounted :: "timer_system \<Rightarrow> bool" where
  "accounted s \<longleftrightarrow> pc s \<noteq> Ended \<longrightarrow>
     mset (added s) = mset (map fst (expired s)) + mset (dropped s) + mset (removed s) + mset (held (pc s)) + mset (TimeValues (timer s))"

lemma timer_inv_new: "timer_inv (timer_system_new name callback now)" "accounted (timer_system_new name callback now)"
  by (simp_all add: timer_inv_def accounted_def timer_system_new_def ACM_TIMER_new_def SEMAPHORE_new_def)

lemma thread_at_inv:
  assumes "thread_step (pc s) (timer s) = Some tp" "timer_inv s"
  shows "timer_inv (thread_at tp s)"
proof -
  obtain t p where tp: "tp = (t, p)" by (cases tp)
  show ?thesis using assms(2) assms(1) [unfolded tp] unfolding tp thread_at_def
    by (cases "pc s") (auto simp: timer_inv_def loop_head_def woken_def end_wait_def Let_def split: if_splits list.splits)
qed

lemma thread_at_accounted:
  assumes "thread_step (pc s) (timer s) = Some tp" "accounted s"
  shows "accounted (thread_at tp s)"
proof -
  obtain t p where tp: "tp = (t, p)" by (cases tp)
  show ?thesis using assms(2) assms(1) [unfolded tp] unfolding tp thread_at_def
    by (cases "pc s")
      (auto simp: accounted_def loop_head_def woken_def end_wait_def Let_def split: if_splits list.splits option.splits)
qed

text \<open>A wake-up without a signal is what a signal would have done.\<close>

lemma spurious_as_signalled:
  assumes "spurious_action s = Some s'"
  obtains until where "pc s = Blocked_in until" "s' = thread_at (woken until (timer s)) s"
  using assms by (auto simp: spurious_action_def split: timer_pc.splits)

lemma thread_action_inv:
  assumes "thread_action s = Some s'"
  shows "timer_inv s \<Longrightarrow> timer_inv s'" "accounted s \<Longrightarrow> accounted s'"
  using assms by (auto simp: thread_action_def split: option.splits intro: thread_at_inv thread_at_accounted)

lemma spurious_action_inv:
  assumes "spurious_action s = Some s'"
  shows "timer_inv s \<Longrightarrow> timer_inv s'" "accounted s \<Longrightarrow> accounted s'"
proof -
  obtain until where p: "pc s = Blocked_in until" "s' = thread_at (woken until (timer s)) s"
    using assms by (rule spurious_as_signalled)
  show "timer_inv s'" if "timer_inv s"
    using that p by (auto simp: timer_inv_def thread_at_def woken_def end_wait_def)
  show "accounted s'" if "accounted s"
    using that p by (cases until) (auto simp: accounted_def thread_at_def woken_def end_wait_def)
qed

lemma expire_action_inv:
  assumes "expire_action s = Some s'" "timer_inv s"
  shows "timer_inv s'"
  using assms by (auto simp: expire_action_def timer_inv_def end_wait_def split: timer_pc.splits option.splits if_splits)

lemma expire_action_accounted:
  assumes "expire_action s = Some s'" "accounted s"
  shows "accounted s'"
  using assms by (auto simp: expire_action_def accounted_def end_wait_def split: timer_pc.splits option.splits if_splits)

lemma client_broadcast_frame [simp]:
  "TimeValues (client_broadcast p t) = TimeValues t" "mutex_taken (client_broadcast p t) = mutex_taken t"
  "internalsem (client_broadcast p t) = internalsem t" "my_state (client_broadcast p t) = my_state t"
  "ENTRY_POINT_set (client_broadcast p t) = ENTRY_POINT_set t" "internalevent (client_broadcast p t) = internalevent t"
  by (cases p; simp add: client_broadcast_def)+

lemma client_enter_frame [simp]:
  "TimeValues (fst (client_enter op t)) = TimeValues t" "mutex_taken (fst (client_enter op t)) = mutex_taken t"
  "internalsem (fst (client_enter op t)) = internalsem t" "my_state (fst (client_enter op t)) = my_state t"
  "ENTRY_POINT_set (fst (client_enter op t)) = ENTRY_POINT_set t"
  by (cases op; simp)+

lemma client_reset_frame [simp]:
  "TimeValues (fst (client_reset v t)) = TimeValues t" "mutex_taken (fst (client_reset v t)) = mutex_taken t"
  "internalsem (fst (client_reset v t)) = internalsem t" "my_state (fst (client_reset v t)) = my_state t"
  "ENTRY_POINT_set (fst (client_reset v t)) = ENTRY_POINT_set t"
  by (simp_all add: client_reset_def Let_def split_beta)

lemma client_locked_frame [simp]:
  "mutex_taken (fst (client_locked op t)) = mutex_taken t" "my_state (fst (client_locked op t)) = my_state t"
  "ENTRY_POINT_set (fst (client_locked op t)) = ENTRY_POINT_set t"
  "maximumvalue (internalsem (fst (client_locked op t))) = maximumvalue (internalsem t)"
  by (cases op; simp add: Let_def split_beta SEMAPHORE_post_def)+

lemma client_locked_counter:
  "maximumvalue (internalsem t) = 1 \<Longrightarrow> counter (internalsem t) \<in> {0, 1} \<Longrightarrow> counter (internalsem (fst (client_locked op t))) \<in> {0, 1}"
  by (cases op) (auto simp: Let_def split_beta SEMAPHORE_post_def)

lemma client_locked_sorted:
  "sorted_wrt compareTimeLess (TimeValues t) \<Longrightarrow> sorted_wrt compareTimeLess (TimeValues (fst (client_locked op t)))"
  by (cases op) (auto simp: Let_def split_beta SEMAPHORE_post_def insert_time_sorted)

lemma client_locked_times:
  assumes "sorted_wrt compareTimeLess (TimeValues t)"
  shows "mset (TimeValues (fst (client_locked op t))) + mset (if op = Remove_all then TimeValues t else []) =
    mset (TimeValues t) + mset (case op of
      Add_time v \<Rightarrow> if length (TimeValues (fst (client_locked op t))) > length (TimeValues t) then [v] else [] | _ \<Rightarrow> [])"
proof (cases op)
  case (Add_time v)
  then show ?thesis using insert_time_cases [OF assms, of v] by auto
qed (simp_all add: Let_def split_beta SEMAPHORE_post_def)

lemma call_action_inv:
  assumes "call_action c op s = Some s'" "timer_inv s"
  shows "timer_inv s'" "accounted s \<Longrightarrow> accounted s'"
  using assms by (auto simp: call_action_def timer_inv_def accounted_def split_beta Let_def split: client_pc.splits)

lemma client_action_cases:
  assumes "client_action c s = Some s'"
  obtains v where "clients s c = Resetting v"
    "s' = s\<lparr>timer := fst (client_reset v (timer s)), clients := (clients s)(c := snd (client_reset v (timer s)))\<rparr>"
  | "clients s c = Broadcasting"
    "s' = s\<lparr>timer := client_broadcast (pc s) (timer s), clients := (clients s)(c := Locking Stop_timer)\<rparr>"
  | op where "clients s c = Locking op" "\<not> mutex_taken (timer s)"
    "s' = s\<lparr>timer := fst (client_locked op (timer s)), clients := (clients s)(c := Idle (snd (client_locked op (timer s)))),
      added := added s @ (case op of Add_time v \<Rightarrow>
        if length (TimeValues (fst (client_locked op (timer s)))) > length (TimeValues (timer s)) then [v] else [] | _ \<Rightarrow> []),
      removed := removed s @ (if op = Remove_all then TimeValues (timer s) else [])\<rparr>"
  using assms by (auto simp: client_action_def split_beta Let_def split: client_pc.splits if_splits)

lemma client_action_inv:
  assumes "client_action c s = Some s'" "timer_inv s"
  shows "timer_inv s'"
  using assms(1)
proof (cases rule: client_action_cases)
  case (1 v)
  then show ?thesis using assms(2) by (simp add: timer_inv_def)
next
  case 2
  then show ?thesis using assms(2) by (simp add: timer_inv_def)
next
  case (3 op)
  then show ?thesis using assms(2) client_locked_counter [of "timer s" op] client_locked_sorted [of "timer s" op]
    by (simp add: timer_inv_def)
qed

lemma client_action_accounted:
  assumes "client_action c s = Some s'" "timer_inv s" "accounted s"
  shows "accounted s'"
  using assms(1)
proof (cases rule: client_action_cases)
  case (1 v)
  then show ?thesis using assms(3) by (simp add: accounted_def)
next
  case 2
  then show ?thesis using assms(3) by (simp add: accounted_def)
next
  case (3 op)
  have "sorted_wrt compareTimeLess (TimeValues (timer s))" using assms(2) by (simp add: timer_inv_def)
  then show ?thesis using client_locked_times [of "timer s" op] assms(3) unfolding 3(3)
    by (simp add: accounted_def ac_simps)
qed

lemma do_action_inv:
  assumes "do_action a s = Some s'" "timer_inv s"
  shows "timer_inv s'" "accounted s \<Longrightarrow> accounted s'"
proof -
  have "timer_inv s' \<and> (accounted s \<longrightarrow> accounted s')"
  proof (cases a)
    case Thread
    then show ?thesis using thread_action_inv [of s s'] assms by simp
  next
    case Spurious
    then show ?thesis using spurious_action_inv [of s s'] assms by simp
  next
    case Expire
    then show ?thesis using expire_action_inv [of s s'] expire_action_accounted [of s s'] assms by simp
  next
    case (Tick now)
    then have "s' = s\<lparr>clock := now\<rparr>" using assms(1) by (simp split: if_splits)
    then show ?thesis using assms(2) by (simp add: timer_inv_def accounted_def)
  next
    case (Call c op)
    then show ?thesis using call_action_inv [of c op s s'] assms by simp
  next
    case (Client c)
    then show ?thesis using client_action_inv [of c s s'] client_action_accounted [of c s s'] assms by simp
  qed
  then show "timer_inv s'" "accounted s \<Longrightarrow> accounted s'" by simp_all
qed

lemma timer_reachable_inv:
  assumes "timer_reachable (timer_system_new name callback now) s"
  shows "timer_inv s \<and> accounted s"
  using assms
  by induction (auto intro: timer_inv_new do_action_inv)

section \<open>Runs without calls of the clients\<close>

definition own_action :: "timer_action \<Rightarrow> bool" where
  "own_action a \<longleftrightarrow> (case a of Call c op \<Rightarrow> False | Client c \<Rightarrow> False | _ \<Rightarrow> True)"

definition moves :: "timer_action \<Rightarrow> bool" where
  "moves a \<longleftrightarrow> (case a of Tick now \<Rightarrow> False | _ \<Rightarrow> True)"

lemma own_action_cases:
  assumes "own_action a" "do_action a s = Some s'"
  obtains tp where "a = Thread" "thread_step (pc s) (timer s) = Some tp" "s' = thread_at tp s"
  | until where "a = Spurious" "pc s = Blocked_in until" "s' = thread_at (woken until (timer s)) s"
  | "a = Expire" "expire_action s = Some s'"
  | now where "a = Tick now" "s' = s\<lparr>clock := now\<rparr>"
  using assms
  by (cases a) (auto simp: own_action_def thread_action_def split: if_splits option.splits elim: spurious_as_signalled)

lemma run_timer_append: "run_timer (as @ bs) s = (case run_timer as s of None \<Rightarrow> None | Some s' \<Rightarrow> run_timer bs s')"
  by (induction as arbitrary: s) (auto split: option.splits)

lemma run_timer_preserves:
  assumes "run_timer as s = Some s'" "I s" "\<forall>a\<in>set as. P a" "\<And>a x y. P a \<Longrightarrow> I x \<Longrightarrow> do_action a x = Some y \<Longrightarrow> I y"
  shows "I s'"
  using assms(1-3) by (induction as arbitrary: s) (auto split: option.splits dest: assms(4))

lemma run_timer_reachable: "run_timer as s = Some s' \<Longrightarrow> timer_reachable s0 s \<Longrightarrow> timer_reachable s0 s'"
  by (induction as arbitrary: s) (auto split: option.splits intro: timer_reachable.action)

subsection \<open>After a stop\<close>

fun before_unlock :: "timer_pc \<Rightarrow> nat" where
  "before_unlock (Blocked_in v) = 3"
| "before_unlock At_loop = 2"
| "before_unlock At_unlock = 1"
| "before_unlock _ = 0"

fun waiting :: "timer_pc \<Rightarrow> bool" where
  "waiting (Waiting_for v) = True"
| "waiting _ = False"

fun blocked :: "timer_pc \<Rightarrow> bool" where
  "blocked (Blocked_in v) = True"
| "blocked _ = False"

text \<open>The event is up, and the broadcast has reached the thread or is still to come.\<close>

definition stopping :: "nat \<Rightarrow> timer_system \<Rightarrow> bool" where
  "stopping c s \<longleftrightarrow> EVENT_STATE (internalevent (timer s)) = UP \<and> pc s \<noteq> Ended \<and> \<not> waiting (pc s) \<and>
     (mutex_taken (timer s) \<longleftrightarrow> in_loop (pc s)) \<and>
     (clients s c = Broadcasting \<or> clients s c = Locking Stop_timer \<and> (blocked (pc s) \<longrightarrow> signalled (timer s)))"

definition to_unlock :: "nat \<Rightarrow> timer_system \<Rightarrow> nat" where
  "to_unlock c s = before_unlock (pc s) + (if clients s c = Broadcasting then 1 else 0)"

lemma stopping_mutex: "stopping c s \<Longrightarrow> mutex_taken (timer s) \<longleftrightarrow> before_unlock (pc s) \<noteq> 0"
  by (cases "pc s") (simp_all add: stopping_def)

lemma stopping_thread:
  assumes "stopping c s" "thread_step (pc s) (timer s) = Some tp"
  shows "stopping c (thread_at tp s)" "mutex_taken (timer s) \<Longrightarrow> to_unlock c (thread_at tp s) < to_unlock c s"
  using assms
  by (cases "pc s"; force simp: stopping_def to_unlock_def thread_at_def loop_head_def woken_def end_wait_def Let_def
      split: if_splits list.splits option.splits)+

lemma stopping_spurious:
  assumes "stopping c s" "pc s = Blocked_in until"
  shows "stopping c (thread_at (woken until (timer s)) s)" "to_unlock c (thread_at (woken until (timer s)) s) < to_unlock c s"
  using assms by (auto simp: stopping_def to_unlock_def thread_at_def woken_def end_wait_def)

lemma stopping_expire:
  assumes "stopping c s" "expire_action s = Some s'"
  shows "stopping c s'" "to_unlock c s' < to_unlock c s"
  using assms
  by (cases "pc s"; force simp: stopping_def to_unlock_def expire_action_def end_wait_def split: if_splits option.splits)+

lemma stopping_client:
  assumes "stopping c s" "client_action c s = Some s'" "mutex_taken (timer s)"
  shows "stopping c s'" "to_unlock c s' < to_unlock c s"
  using assms
  by (cases "pc s"; force simp: stopping_def to_unlock_def client_action_def client_broadcast_def split: if_splits)+

lemma stopping_goes:
  assumes "stopping c s"
  shows "if mutex_taken (timer s) then thread_action s \<noteq> None \<or> client_action c s \<noteq> None
    else \<exists>s1. client_action c s = Some s1 \<and> clients s1 c \<in> {Locking Stop_timer, Idle NO_ERROR}"
  using assms by (cases "pc s") (auto simp: stopping_def thread_action_def client_action_def)

lemma stopping_action:
  assumes "own_action a \<or> a = Client c" "do_action a s = Some s'" "stopping c s" "mutex_taken (timer s)"
  shows "stopping c s' \<and> to_unlock c s' \<le> to_unlock c s - (if moves a then 1 else 0)"
  using assms(1)
proof
  assume "own_action a"
  then show ?thesis using assms(2)
  proof (cases rule: own_action_cases)
    case (1 tp)
    then show ?thesis using stopping_thread [OF assms(3) 1(2)] assms(4) by (auto simp: moves_def)
  next
    case (2 until)
    then show ?thesis using stopping_spurious [OF assms(3) 2(2)] by (auto simp: moves_def)
  next
    case 3
    then show ?thesis using stopping_expire [OF assms(3) 3(2)] by (auto simp: moves_def)
  next
    case (4 now)
    then show ?thesis using assms(3) by (simp add: stopping_def to_unlock_def moves_def)
  qed
next
  assume "a = Client c"
  then show ?thesis using stopping_client [OF assms(3) _ assms(4)] assms(2) by (auto simp: moves_def)
qed

text \<open>As long as the mutex has not been free, the client waits for it or has still to broadcast, and every move brings the end nearer.\<close>

lemma stopping_run:
  assumes "run_timer as s = Some s'" "stopping c s" "\<forall>a\<in>set as. own_action a \<or> a = Client c"
  shows "(\<exists>k s1. k \<le> length as \<and> run_timer (take k as) s = Some s1 \<and> stopping c s1 \<and> \<not> mutex_taken (timer s1)) \<or>
    stopping c s' \<and> mutex_taken (timer s') \<and> length (filter moves as) + to_unlock c s' \<le> to_unlock c s"
  using assms
proof (induction as arbitrary: s)
  case Nil
  then show ?case by auto
next
  case (Cons a as)
  show ?case
  proof (cases "mutex_taken (timer s)")
    case False
    then show ?thesis using Cons.prems(2) by (intro disjI1 exI [of _ 0]) simp
  next
    case True
    obtain s1 where s1: "do_action a s = Some s1" "run_timer as s1 = Some s'"
      using Cons.prems(1) by (auto split: option.splits)
    have act: "stopping c s1 \<and> to_unlock c s1 \<le> to_unlock c s - (if moves a then 1 else 0)"
      by (rule stopping_action [OF _ s1(1) Cons.prems(2) True]) (use Cons.prems(3) in simp)
    have pos: "0 < to_unlock c s" using stopping_mutex [OF Cons.prems(2)] True by (simp add: to_unlock_def)
    have all: "\<forall>a\<in>set as. own_action a \<or> a = Client c" using Cons.prems(3) by simp
    from Cons.IH [OF s1(2) conjunct1 [OF act] all] show ?thesis
    proof
      assume "\<exists>k s2. k \<le> length as \<and> run_timer (take k as) s1 = Some s2 \<and> stopping c s2 \<and> \<not> mutex_taken (timer s2)"
      then obtain k s2 where "k \<le> length as" "run_timer (take k as) s1 = Some s2" "stopping c s2" "\<not> mutex_taken (timer s2)" by blast
      then show ?thesis using s1(1) by (intro disjI1 exI [of _ "Suc k"] exI [of _ s2]) simp
    next
      assume "stopping c s' \<and> mutex_taken (timer s') \<and> length (filter moves as) + to_unlock c s' \<le> to_unlock c s1"
      then show ?thesis using act pos by auto
    qed
  qed
qed

subsection \<open>A started timer\<close>

text \<open>\<open>ds\<close> are the times of the set when the timer was started.\<close>

definition started :: "SYSTEM_TIMESPEC list \<Rightarrow> timer_system \<Rightarrow> bool" where
  "started ds s \<longleftrightarrow> EVENT_STATE (internalevent (timer s)) = DOWN \<and>
     map fst (expired s) @ held (pc s) @ TimeValues (timer s) = ds \<and>
     (pc s \<in> {At_start, At_wait} \<and> counter (internalsem (timer s)) = 1 \<and> \<not> mutex_taken (timer s) \<or>
      pc s \<in> {At_awake, At_lock} \<and> \<not> mutex_taken (timer s) \<or> pc s = At_loop \<or>
      (\<exists>v. pc s = Waiting_for (Some v) \<or> pc s = Blocked_in (Some v)) \<or>
      pc s \<in> {Waiting_for None, Blocked_in None} \<and> TimeValues (timer s) = [])"

lemma started_thread:
  assumes "started ds s" "thread_step (pc s) (timer s) = Some tp" "\<forall>d\<in>set ds. normalised d"
  shows "started ds (thread_at tp s)"
proof -
  obtain t p where tp: "tp = (t, p)" by (cases tp)
  show ?thesis using assms(1,3) assms(2) [unfolded tp] unfolding tp thread_at_def
    by (cases "pc s") (auto simp: started_def loop_head_def woken_def end_wait_def Let_def split: if_splits list.splits option.splits)
qed

lemma started_spurious:
  assumes "started ds s" "pc s = Blocked_in until"
  shows "started ds (thread_at (woken until (timer s)) s)"
  using assms by (cases until) (auto simp: started_def thread_at_def woken_def)

lemma started_expire:
  assumes "started ds s" "expire_action s = Some s'"
  shows "started ds s'"
  using assms by (auto simp: started_def expire_action_def end_wait_def split: timer_pc.splits if_splits option.splits)

lemma started_own:
  assumes "own_action a" "do_action a s = Some s'" "started ds s" "\<forall>d\<in>set ds. normalised d"
  shows "started ds s'"
  using assms(1,2)
proof (cases rule: own_action_cases)
  case (1 tp)
  then show ?thesis using started_thread [OF assms(3) 1(2) assms(4)] by simp
next
  case (2 until)
  then show ?thesis using started_spurious [OF assms(3) 2(2)] by simp
next
  case 3
  then show ?thesis using started_expire [OF assms(3)] by simp
next
  case (4 now)
  then show ?thesis using assms(3) by (simp add: started_def)
qed

text \<open>The timer never rests before it has passed all times, once the clock has.\<close>

lemma started_goes:
  assumes "started ds s" "\<forall>d\<in>set ds. compareTime d (clock s)" "map fst (expired s) \<noteq> ds"
  shows "thread_action s \<noteq> None \<or> expire_action s \<noteq> None"
proof (cases "\<exists>v. pc s = Blocked_in (Some v)")
  case True
  then obtain v where "pc s = Blocked_in (Some v)" by blast
  moreover from this have "v \<in> set ds" using assms(1) by (auto simp: started_def)
  ultimately show ?thesis using assms(2) by (simp add: expire_action_def)
next
  case False
  then show ?thesis using assms(1,3) by (auto simp: started_def thread_action_def split: option.splits if_splits)
qed

text \<open>The calls of one client before the start.\<close>

definition add_calls :: "SYSTEM_TIMESPEC \<Rightarrow> timer_action list" where
  "add_calls v = [Call 0 (Add_time v), Client 0, Client 0]"

definition start_calls :: "timer_action list" where
  "start_calls = [Call 0 Start_timer, Client 0]"

definition at_rest :: "timer_system \<Rightarrow> bool" where
  "at_rest s \<longleftrightarrow> my_state (timer s) = STOPPED \<and> \<not> mutex_taken (timer s) \<and> internalsem (timer s) = SEMAPHORE_new 0 1 \<and>
     pc s = At_start \<and> (\<exists>rc. clients s 0 = Idle rc) \<and> expired s = []"

lemma add_calls_run:
  assumes "at_rest s"
  shows "\<exists>s'. run_timer (add_calls v) s = Some s' \<and> at_rest s' \<and> clients s' 0 = Idle NO_ERROR \<and>
    TimeValues (timer s') = insert_time v (TimeValues (timer s))"
  using assms
  by (auto simp: at_rest_def add_calls_def call_action_def client_action_def client_reset_def Let_def split_beta)

lemma add_all_run:
  "at_rest s \<Longrightarrow> \<exists>s'. run_timer (concat (map add_calls vs)) s = Some s' \<and> at_rest s' \<and>
     TimeValues (timer s') = fold insert_time vs (TimeValues (timer s))"
proof (induction vs arbitrary: s)
  case (Cons v vs)
  obtain s1 where s1: "run_timer (add_calls v) s = Some s1" "at_rest s1" "TimeValues (timer s1) = insert_time v (TimeValues (timer s))"
    using add_calls_run [OF Cons.prems] by blast
  then show ?case using Cons.IH [OF s1(2)] by (auto simp: run_timer_append)
qed simp

lemma start_calls_run:
  assumes "at_rest s"
  shows "\<exists>s'. run_timer start_calls s = Some s' \<and> clients s' 0 = Idle NO_ERROR \<and> started (TimeValues (timer s)) s'"
  using assms
  by (auto simp: at_rest_def start_calls_def started_def call_action_def client_action_def Let_def split_beta SEMAPHORE_post_def SEMAPHORE_new_def)

lemma fold_insert_time:
  "sorted_wrt compareTimeLess ds \<Longrightarrow> sorted_wrt compareTimeLess (fold insert_time vs ds) \<and> set (fold insert_time vs ds) = set vs \<union> set ds"
  by (induction vs arbitrary: ds) (auto simp: insert_time_sorted)

section \<open>The properties\<close>

text \<open>C35. No time is lost or passed twice, and none is early: whatever the thread, any number of clients and the clock do, every time
  that entered the set of a timer has passed once, or is the one waited for, or is still in the set, or was removed,
  or was taken out for a wait that a stop ended; a time passes at or after it, and the function of the user was called
  at each of them.\<close>

theorem timer_accounts_for_times:
  assumes "timer_reachable (timer_system_new name callback now) s"
  shows "(pc s \<noteq> Ended \<longrightarrow> mset (added s) =
      mset (map fst (expired s)) + mset (held (pc s)) + mset (TimeValues (timer s)) + mset (removed s) + mset (dropped s)) \<and>
    (\<forall>(v, t)\<in>set (expired s). compareTime v t) \<and>
    calls s = (if ENTRY_POINT_set (timer s) then map snd (expired s) else []) \<and>
    sorted_wrt compareTimeLess (TimeValues (timer s))"
  using timer_reachable_inv [OF assms] by (simp add: timer_inv_def accounted_def ac_simps)

text \<open>C36. A started timer passes its times in order: a client adds times to a new timer, in any order, and starts it; then, as
  long as no client calls, whatever the thread and the clock do, the times that have passed are a prefix of the times
  added, in their order and each once; none of them was early; and until all have passed, the thread can go on as soon
  as the clock has reached them.\<close>

theorem timer_passes_in_order:
  assumes "\<forall>v\<in>set vs. normalised v"
  shows "\<exists>s ds. run_timer (concat (map add_calls vs) @ start_calls) (timer_system_new name callback now) = Some s \<and>
    clients s 0 = Idle NO_ERROR \<and> sorted_wrt compareTimeLess ds \<and> set ds = set vs \<and>
    (\<forall>as s'. (\<forall>a\<in>set as. own_action a) \<longrightarrow> run_timer as s = Some s' \<longrightarrow>
      (\<exists>k. map fst (expired s') = take k ds) \<and> (\<forall>(v, t)\<in>set (expired s'). compareTime v t) \<and>
      ((\<forall>d\<in>set ds. compareTime d (clock s')) \<longrightarrow> map fst (expired s') = ds \<or> thread_action s' \<noteq> None \<or> expire_action s' \<noteq> None))"
proof -
  let ?s0 = "timer_system_new name callback now"
  have "at_rest ?s0" by (simp add: at_rest_def timer_system_new_def ACM_TIMER_new_def)
  then obtain s1 where s1: "run_timer (concat (map add_calls vs)) ?s0 = Some s1" "at_rest s1" "TimeValues (timer s1) = fold insert_time vs []"
    using add_all_run [of ?s0 vs] by (auto simp: timer_system_new_def ACM_TIMER_new_def)
  obtain s where s: "run_timer start_calls s1 = Some s" "clients s 0 = Idle NO_ERROR" "started (fold insert_time vs []) s"
    using start_calls_run [OF s1(2)] s1(3) by auto
  let ?ds = "fold insert_time vs []"
  have ds: "sorted_wrt compareTimeLess ?ds" "set ?ds = set vs" using fold_insert_time [of "[]" vs] by simp_all
  have run: "run_timer (concat (map add_calls vs) @ start_calls) ?s0 = Some s" using s1(1) s(1) by (simp add: run_timer_append)
  have "(\<exists>k. map fst (expired s') = take k ?ds) \<and> (\<forall>(v, t)\<in>set (expired s'). compareTime v t) \<and>
      ((\<forall>d\<in>set ?ds. compareTime d (clock s')) \<longrightarrow> map fst (expired s') = ?ds \<or> thread_action s' \<noteq> None \<or> expire_action s' \<noteq> None)"
    if "\<forall>a\<in>set as. own_action a" "run_timer as s = Some s'" for as s'
  proof -
    have st: "started ?ds s'"
      by (rule run_timer_preserves [where I = "started ?ds" and P = own_action, OF that(2) s(3) that(1)]) (use started_own assms ds(2) in auto)
    then have "map fst (expired s') = take (length (expired s')) ?ds" by (metis append_eq_conv_conj length_map started_def)
    moreover have "timer_reachable ?s0 s'"
      by (rule run_timer_reachable [OF that(2) run_timer_reachable [OF run timer_reachable.start]])
    then have "timer_inv s'" using timer_reachable_inv by blast
    ultimately show ?thesis using started_goes [OF st] by (auto simp: timer_inv_def)
  qed
  then show ?thesis using run s(2) ds by blast
qed

text \<open>C37. A stop gets through: a client calls stopTimer in any state the timer can be in, but after an assertion, with the event
  down and the thread not just between the check of the event and the wait.  Then, whatever passes meanwhile but calls
  of other clients, the thread or the client can go on until the mutex has been free for the client, which is before
  their fourth move.\<close>

theorem stop_gets_through:
  assumes "timer_reachable (timer_system_new name callback now) s" "clients s c = Idle rc" "pc s \<noteq> Ended" "\<not> waiting (pc s)"
    "EVENT_STATE (internalevent (timer s)) = DOWN"
  shows "\<exists>s1. do_action (Call c Stop_timer) s = Some s1 \<and>
    (\<forall>as s2. (\<forall>a\<in>set as. own_action a \<or> a = Client c) \<longrightarrow> run_timer as s1 = Some s2 \<longrightarrow>
      (\<exists>k s3 s4. k \<le> length as \<and> run_timer (take k as) s1 = Some s3 \<and> \<not> mutex_taken (timer s3) \<and>
         client_action c s3 = Some s4 \<and> clients s4 c \<in> {Locking Stop_timer, Idle NO_ERROR}) \<or>
      (thread_action s2 \<noteq> None \<or> client_action c s2 \<noteq> None) \<and> length (filter moves as) < 4)"
proof -
  let ?s1 = "s\<lparr>timer := (timer s)\<lparr>internalevent := snd (EVENT_set (internalevent (timer s)))\<rparr>, clients := (clients s)(c := Broadcasting)\<rparr>"
  have call: "do_action (Call c Stop_timer) s = Some ?s1" using assms(2,5) by (simp add: call_action_def)
  have stop: "stopping c ?s1" using timer_reachable_inv [OF assms(1)] assms(3,4) by (simp add: stopping_def timer_inv_def)
  have four: "to_unlock c ?s1 \<le> 4" by (cases "pc ?s1") (simp_all add: to_unlock_def)
  have "(\<exists>k s3 s4. k \<le> length as \<and> run_timer (take k as) ?s1 = Some s3 \<and> \<not> mutex_taken (timer s3) \<and>
         client_action c s3 = Some s4 \<and> clients s4 c \<in> {Locking Stop_timer, Idle NO_ERROR}) \<or>
      (thread_action s2 \<noteq> None \<or> client_action c s2 \<noteq> None) \<and> length (filter moves as) < 4"
    if "\<forall>a\<in>set as. own_action a \<or> a = Client c" "run_timer as ?s1 = Some s2" for as s2
    using stopping_run [OF that(2) stop that(1)]
  proof
    assume "\<exists>k s3. k \<le> length as \<and> run_timer (take k as) ?s1 = Some s3 \<and> stopping c s3 \<and> \<not> mutex_taken (timer s3)"
    then obtain k s3 where k: "k \<le> length as" "run_timer (take k as) ?s1 = Some s3" "stopping c s3" "\<not> mutex_taken (timer s3)" by blast
    then show ?thesis using stopping_goes [OF k(3)] by auto
  next
    assume last: "stopping c s2 \<and> mutex_taken (timer s2) \<and> length (filter moves as) + to_unlock c s2 \<le> to_unlock c ?s1"
    moreover from last have "0 < to_unlock c s2" using stopping_mutex [of c s2] by (simp add: to_unlock_def)
    moreover have "thread_action s2 \<noteq> None \<or> client_action c s2 \<noteq> None" using stopping_goes [of c s2] last by auto
    ultimately show ?thesis using four by linarith
  qed
  then show ?thesis using call by blast
qed

lemmas timer_run_defs =
  timer_system_new_def ACM_TIMER_new_def call_action_def client_action_def client_reset_def client_broadcast_def thread_action_def thread_at_def
  expire_action_def loop_head_def woken_def end_wait_def Let_def split_beta SEMAPHORE_post_def SEMAPHORE_new_def EVENT_set_def

text \<open>A stop can be lost: the thread has found the event down and is not yet in the condition variable when the client raises
  the event and broadcasts; but for a wake-up without a signal the thread and the client wait for ever.\<close>

theorem stop_can_be_lost:
  "\<exists>s. run_timer (start_calls @ [Thread, Thread, Thread, Thread, Thread, Call 0 Stop_timer, Client 0, Thread])
       (timer_system_new name callback now) = Some s \<and>
     (\<forall>bs s'. (\<forall>b\<in>set bs. own_action b \<and> b \<noteq> Spurious \<or> b = Client 0) \<longrightarrow> run_timer bs s = Some s' \<longrightarrow>
        clients s' 0 = Locking Stop_timer)"
proof -
  let ?as = "start_calls @ [Thread, Thread, Thread, Thread, Thread, Call 0 Stop_timer, Client 0, Thread]"
  define stuck where "stuck = (\<lambda>s :: timer_system. clients s 0 = Locking Stop_timer \<and> pc s = Blocked_in None \<and> mutex_taken (timer s) \<and>
     \<not> signalled (timer s))"
  obtain s where s: "run_timer ?as (timer_system_new name callback now) = Some s" "stuck s"
    by (simp add: start_calls_def timer_run_defs stuck_def)
  have step: "stuck y" if "own_action a \<and> a \<noteq> Spurious \<or> a = Client 0" "stuck x" "do_action a x = Some y" for a x y
    using that
    by (cases a) (auto simp: stuck_def own_action_def thread_action_def expire_action_def client_action_def split: if_splits)
  have "clients s' 0 = Locking Stop_timer"
    if "\<forall>b\<in>set bs. own_action b \<and> b \<noteq> Spurious \<or> b = Client 0" "run_timer bs s = Some s'" for bs s'
    using run_timer_preserves [where I = stuck and P = "\<lambda>b. own_action b \<and> b \<noteq> Spurious \<or> b = Client 0", OF that(2) s(2) that(1) step]
    by (simp add: stuck_def)
  then show ?thesis using s(1) by blast
qed

text \<open>A client can wait for ever: it starts the timer and adds a time before the thread has noted that it works, which passes
  the check of the state; the thread then takes the mutex and waits for the event, with no time to wait for.  Whatever
  the thread, the clock and this client do from there, the call does not return.\<close>

theorem add_after_start_stuck:
  "\<exists>as s. run_timer as (timer_system_new name callback now) = Some s \<and>
     (\<forall>a\<in>set as. own_action a \<or> a \<in> {Call 0 Start_timer, Call 0 (Add_time v), Client 0}) \<and>
     (\<forall>bs s'. (\<forall>b\<in>set bs. own_action b \<or> b = Client 0 \<or> (\<exists>op. b = Call 0 op)) \<longrightarrow> run_timer bs s = Some s' \<longrightarrow>
        clients s' 0 = Locking (Add_time v))"
proof -
  let ?as = "[Call 0 Start_timer, Client 0, Call 0 (Add_time v), Client 0, Thread, Thread, Thread, Thread, Thread]"
  define stuck where "stuck = (\<lambda>s :: timer_system. clients s 0 = Locking (Add_time v) \<and> pc s \<in> {Waiting_for None, Blocked_in None} \<and>
     mutex_taken (timer s) \<and> EVENT_STATE (internalevent (timer s)) = DOWN)"
  obtain s where s: "run_timer ?as (timer_system_new name callback now) = Some s" "stuck s"
    by (simp add: timer_run_defs stuck_def)
  have own: "stuck y" if "own_action a" "stuck x" "do_action a x = Some y" for a x y
    using that(1,3)
  proof (cases rule: own_action_cases)
    case (1 tp)
    then show ?thesis using that(2) by (auto simp: stuck_def thread_at_def woken_def split: if_splits)
  next
    case (2 until)
    then show ?thesis using that(2) by (auto simp: stuck_def thread_at_def woken_def)
  next
    case 3
    then show ?thesis using that(2) by (auto simp: stuck_def expire_action_def)
  next
    case (4 now)
    then show ?thesis using that(2) by (simp add: stuck_def)
  qed
  have step: "stuck y" if "own_action a \<or> a = Client 0 \<or> (\<exists>op. a = Call 0 op)" "stuck x" "do_action a x = Some y" for a x y
    using that own by (auto simp: stuck_def client_action_def call_action_def)
  have "clients s' 0 = Locking (Add_time v)"
    if "\<forall>b\<in>set bs. own_action b \<or> b = Client 0 \<or> (\<exists>op. b = Call 0 op)" "run_timer bs s = Some s'" for bs s'
    using run_timer_preserves [where I = stuck and P = "\<lambda>b. own_action b \<or> b = Client 0 \<or> (\<exists>op. b = Call 0 op)", OF that(2) s(2) that(1) step]
    by (simp add: stuck_def)
  then show ?thesis using s(1) by (intro exI [of _ ?as] exI [of _ s]) (auto simp: own_action_def)
qed

text \<open>The times of a stop: the time that the thread waited for when the stop came is gone, and between the end of the stop and
  the last move of the thread the timer still counts as working, so a start is refused.\<close>

theorem start_after_stop_refused:
  assumes "normalised v"
  shows "\<exists>s. run_timer (add_calls v @ start_calls @ replicate 6 Thread @ [Call 0 Stop_timer, Client 0, Thread, Thread, Client 0])
      (timer_system_new name callback now) = Some s \<and>
    clients s 0 = Idle NO_ERROR \<and> dropped s = [v] \<and> expired s = [] \<and> TimeValues (timer s) = [] \<and>
    (\<exists>s'. do_action (Call 0 Start_timer) s = Some s' \<and> clients s' 0 = Idle NOT_AVAILABLE)"
  using assms
  by (simp add: add_calls_def start_calls_def timer_run_defs numeral_eq_Suc)

theorem timer_accounts_for_times_witness:
  "\<exists>s. timer_reachable (timer_system_new ''name'' True \<lparr>tv_sec = 0, tv_nsec = 0\<rparr>) s \<and> expired s = [(\<lparr>tv_sec = 2, tv_nsec = 0\<rparr>, \<lparr>tv_sec = 2, tv_nsec = 1\<rparr>)] \<and>
     calls s = [\<lparr>tv_sec = 2, tv_nsec = 1\<rparr>] \<and> mset (added s) = {#\<lparr>tv_sec = 2, tv_nsec = 0\<rparr>, \<lparr>tv_sec = 5, tv_nsec = 0\<rparr>#}"
proof -
  let ?s0 = "timer_system_new ''name'' True \<lparr>tv_sec = 0, tv_nsec = 0\<rparr>"
  let ?as = "add_calls \<lparr>tv_sec = 5, tv_nsec = 0\<rparr> @ add_calls \<lparr>tv_sec = 2, tv_nsec = 0\<rparr> @ start_calls @
    [Thread, Thread, Thread, Thread, Thread, Thread, Tick \<lparr>tv_sec = 2, tv_nsec = 1\<rparr>, Expire, Thread, Thread]"
  obtain s where s: "run_timer ?as ?s0 = Some s" "expired s = [(\<lparr>tv_sec = 2, tv_nsec = 0\<rparr>, \<lparr>tv_sec = 2, tv_nsec = 1\<rparr>)]"
    "pc s = Blocked_in (Some \<lparr>tv_sec = 5, tv_nsec = 0\<rparr>)" "TimeValues (timer s) = []" "removed s = []" "dropped s = []" "ENTRY_POINT_set (timer s)"
    by (simp add: add_calls_def start_calls_def timer_run_defs compareTimeLess_def compareTime_def normalised_def NANO_def)
  have r: "timer_reachable ?s0 s" by (rule run_timer_reachable [OF s(1) timer_reachable.start])
  show ?thesis using timer_accounts_for_times [OF r] r s(2-) by auto
qed

theorem timer_passes_in_order_witness:
  "\<exists>s ds. run_timer (concat (map add_calls [\<lparr>tv_sec = 5, tv_nsec = 0\<rparr>, \<lparr>tv_sec = 2, tv_nsec = 0\<rparr>]) @ start_calls)
      (timer_system_new ''name'' True \<lparr>tv_sec = 0, tv_nsec = 0\<rparr>) = Some s \<and>
    sorted_wrt compareTimeLess ds \<and> set ds = {\<lparr>tv_sec = 5, tv_nsec = 0\<rparr>, \<lparr>tv_sec = 2, tv_nsec = 0\<rparr>}"
proof -
  have "\<forall>v\<in>set [\<lparr>tv_sec = 5, tv_nsec = 0\<rparr>, \<lparr>tv_sec = 2, tv_nsec = 0\<rparr>]. normalised v" by (simp add: normalised_def NANO_def)
  from timer_passes_in_order [OF this, of "''name''" True "\<lparr>tv_sec = 0, tv_nsec = 0\<rparr>"] show ?thesis by auto
qed

theorem stop_gets_through_witness:
  "\<exists>s s1 k s3. run_timer (start_calls @ replicate 6 Thread) (timer_system_new ''name'' True \<lparr>tv_sec = 0, tv_nsec = 0\<rparr>) = Some s \<and>
     pc s = Blocked_in None \<and> do_action (Call 0 Stop_timer) s = Some s1 \<and>
     run_timer (take k [Client 0, Thread, Thread, Thread]) s1 = Some s3 \<and> \<not> mutex_taken (timer s3)"
proof -
  obtain s where s: "run_timer (start_calls @ replicate 6 Thread) (timer_system_new ''name'' True \<lparr>tv_sec = 0, tv_nsec = 0\<rparr>) = Some s"
    "clients s 0 = Idle NO_ERROR" "pc s = Blocked_in None" "EVENT_STATE (internalevent (timer s)) = DOWN"
    by (simp add: start_calls_def timer_run_defs numeral_eq_Suc)
  have pc: "pc s \<noteq> Ended" "\<not> waiting (pc s)" using s(3) by simp_all
  from stop_gets_through [OF run_timer_reachable [OF s(1) timer_reachable.start] s(2) pc s(4)]
  obtain s1 where s1: "do_action (Call 0 Stop_timer) s = Some s1"
    "\<And>as s2. \<forall>a\<in>set as. own_action a \<or> a = Client 0 \<Longrightarrow> run_timer as s1 = Some s2 \<Longrightarrow> \<not> length (filter moves as) < 4 \<Longrightarrow>
       \<exists>k s3. run_timer (take k as) s1 = Some s3 \<and> \<not> mutex_taken (timer s3)"
    by fastforce
  have "run_timer [Client 0, Thread, Thread, Thread] s1 \<noteq> None"
    using s1(1) s(2-4) by (auto simp: timer_run_defs)
  then show ?thesis using s1 s(1,3) by (fastforce simp: own_action_def moves_def)
qed

end
