(* ===== verification/NetworkPartition.thy ===== *)
theory NetworkPartition
  imports ModuleRuns
begin

text \<open>
  The process of a network partition (ModuleManager/NetworkPartition.cc, include/ACM/INTERNAL/NetworkPartition.h): it reads the same
  configuration as the module manager, takes the channels of its own partition, and moves their messages each time the
  module manager sends it a token, which RUN\_PARTITION does at the start of each of its windows.  The receptions are an
  input: the message, when one arrived, and the clock readings of the channels that are moved then; the loop is given
  up to the reception it waits for next.  Creating the port, the process and the mode of the partition are services of
  the APEX interface.
\<close>

record NETWORK_PARTITION =
  NP_name :: NAME_TYPE
  NP_QUEUEING_CHANNELS :: "NAME_TYPE list"
  NP_SAMPLING_CHANNELS :: "NAME_TYPE list"

text \<open>The part of \<open>main\<close> that looks up the partition and collects its channels; the assertion fails for a name that no
  partition has.\<close>

definition NETWORK_PARTITION_channels :: "NAME_TYPE \<Rightarrow> MODULE_MANAGER \<Rightarrow> NETWORK_PARTITION outcome" where
  "NETWORK_PARTITION_channels name m =
     (case find (\<lambda>p. P_Name p = name) (PARTITION_VECTOR m) of
        None \<Rightarrow> Aborted
      | Some p \<Rightarrow> Returned
          \<lparr>NP_name = name, NP_QUEUEING_CHANNELS = QUEUE_CHANNEL_SOURCE_VECTOR p @ QUEUE_CHANNEL_INTER_MODULE_DST_VECTOR p,
           NP_SAMPLING_CHANNELS = SAMPLING_CHANNEL_SOURCE_VECTOR p @ SAMPLING_CHANNEL_INTER_MODULE_DST_VECTOR p\<rparr>)"

text \<open>The two loops over the channels; a name that the map does not have is left out.\<close>

fun fire_queues ::
  "'w mq_calls \<Rightarrow> 'w socket_calls \<Rightarrow> (nat \<Rightarrow> nat \<Rightarrow> nat \<Rightarrow> SYSTEM_TIMESPEC) \<Rightarrow> NAME_TYPE list \<Rightarrow>
   MODULE_MANAGER \<Rightarrow> 'w \<Rightarrow> (MODULE_MANAGER \<times> 'w) outcome" where
  "fire_queues mq net now [] m w = Returned (m, w)"
| "fire_queues mq net now (name # names) m w =
     (case MAP_OF_QUEUEING_CHANNELS m name of
        None \<Rightarrow> fire_queues mq net now names m w
      | Some c \<Rightarrow> bind_outcome (QC_MOVE_MESSAGES mq net (now (length names)) c w) (\<lambda>(rc, c', w').
          fire_queues mq net now names
            (m\<lparr>MAP_OF_QUEUEING_CHANNELS := (MAP_OF_QUEUEING_CHANNELS m)(name \<mapsto> c')\<rparr>) w'))"

fun fire_samples ::
  "'w socket_calls \<Rightarrow> NAME_TYPE list \<Rightarrow> MODULE_MANAGER \<Rightarrow> 'w \<Rightarrow> (MODULE_MANAGER \<times> 'w) outcome" where
  "fire_samples net [] m w = Returned (m, w)"
| "fire_samples net (name # names) m w =
     (case MAP_OF_SAMPLING_CHANNELS m name of
        None \<Rightarrow> fire_samples net names m w
      | Some c \<Rightarrow> bind_outcome (SC_MOVE_MESSAGES net c w) (\<lambda>(rc, c', w').
          fire_samples net names
            (m\<lparr>MAP_OF_SAMPLING_CHANNELS := (MAP_OF_SAMPLING_CHANNELS m)(name \<mapsto> c')\<rparr>) w'))"

record reception =
  rx_message :: "byte list option"
  rx_clock :: "nat \<Rightarrow> nat \<Rightarrow> nat \<Rightarrow> SYSTEM_TIMESPEC"

text \<open>A message overwrites the front of the buffer of four bytes; a call that fails leaves it as it was, and its return code is not
  looked at.  strcmp compares up to the NUL of the token, the third byte.\<close>

definition token_buffer :: "byte list \<Rightarrow> byte list option \<Rightarrow> byte list" where
  "token_buffer buf msg = (case msg of None \<Rightarrow> buf | Some bytes \<Rightarrow> bytes @ drop (length bytes) buf)"

definition is_token :: "byte list \<Rightarrow> bool" where
  "is_token buf \<longleftrightarrow> take 3 buf = take 3 NETWORK_PARTITION_PETRI_NET_TOKEN"

definition fire_round ::
  "'w mq_calls \<Rightarrow> 'w socket_calls \<Rightarrow> (nat \<Rightarrow> nat \<Rightarrow> nat \<Rightarrow> SYSTEM_TIMESPEC) \<Rightarrow> NETWORK_PARTITION \<Rightarrow>
   MODULE_MANAGER \<Rightarrow> 'w \<Rightarrow> (MODULE_MANAGER \<times> 'w) outcome" where
  "fire_round mq net now np m w =
     bind_outcome (fire_queues mq net now (NP_QUEUEING_CHANNELS np) m w)
       (\<lambda>(m1, w1). fire_samples net (NP_SAMPLING_CHANNELS np) m1 w1)"

fun FireChannels ::
  "'w mq_calls \<Rightarrow> 'w socket_calls \<Rightarrow> NETWORK_PARTITION \<Rightarrow> reception list \<Rightarrow> byte list \<Rightarrow>
   MODULE_MANAGER \<Rightarrow> 'w \<Rightarrow> (MODULE_MANAGER \<times> 'w) outcome" where
  "FireChannels mq net np [] buf m w = Returned (m, w)"
| "FireChannels mq net np (r # rs) buf m w =
     (let buf1 = token_buffer buf (rx_message r) in
      if \<not> is_token buf1 then FireChannels mq net np rs buf1 m w
      else bind_outcome (fire_round mq net (rx_clock r) np m w) (\<lambda>(m1, w1). FireChannels mq net np rs buf1 m1 w1))"

section \<open>One round per token\<close>

lemma fire_queues_move:
  "set names \<subseteq> dom (MAP_OF_QUEUEING_CHANNELS m) \<Longrightarrow> fire_queues mq net now names m w = move_queues mq net now names m w"
proof (induction names arbitrary: m w)
  case (Cons name names)
  then obtain c where "MAP_OF_QUEUEING_CHANNELS m name = Some c" by auto
  moreover have "fire_queues mq net now names (m\<lparr>MAP_OF_QUEUEING_CHANNELS := (MAP_OF_QUEUEING_CHANNELS m)(name \<mapsto> c')\<rparr>) w' =
      move_queues mq net now names (m\<lparr>MAP_OF_QUEUEING_CHANNELS := (MAP_OF_QUEUEING_CHANNELS m)(name \<mapsto> c')\<rparr>) w'" for c' w'
    by (rule Cons.IH) (use Cons.prems in auto)
  ultimately show ?case by (cases "QC_MOVE_MESSAGES mq net (now (length names)) c w") auto
qed simp

lemma fire_samples_move:
  "set names \<subseteq> dom (MAP_OF_SAMPLING_CHANNELS m) \<Longrightarrow> fire_samples net names m w = move_samples net names m w"
proof (induction names arbitrary: m w)
  case (Cons name names)
  then obtain c where "MAP_OF_SAMPLING_CHANNELS m name = Some c" by auto
  moreover have "fire_samples net names (m\<lparr>MAP_OF_SAMPLING_CHANNELS := (MAP_OF_SAMPLING_CHANNELS m)(name \<mapsto> c')\<rparr>) w' =
      move_samples net names (m\<lparr>MAP_OF_SAMPLING_CHANNELS := (MAP_OF_SAMPLING_CHANNELS m)(name \<mapsto> c')\<rparr>) w'" for c' w'
    by (rule Cons.IH) (use Cons.prems in auto)
  ultimately show ?case by (cases "SC_MOVE_MESSAGES net c w") auto
qed simp

lemma move_queues_maps:
  assumes "move_queues mq net now names m w = Returned (m1, w1)" "D \<subseteq> dom (MAP_OF_QUEUEING_CHANNELS m)"
  shows "MAP_OF_SAMPLING_CHANNELS m1 = MAP_OF_SAMPLING_CHANNELS m" "D \<subseteq> dom (MAP_OF_QUEUEING_CHANNELS m1)"
proof -
  have "MAP_OF_SAMPLING_CHANNELS m1 = MAP_OF_SAMPLING_CHANNELS m \<and> D \<subseteq> dom (MAP_OF_QUEUEING_CHANNELS m1)"
    using assms
  proof (induction names arbitrary: m w)
    case (Cons name names)
    then obtain c rc c' w' where "MAP_OF_QUEUEING_CHANNELS m name = Some c"
      and rest: "move_queues mq net now names (m\<lparr>MAP_OF_QUEUEING_CHANNELS := (MAP_OF_QUEUEING_CHANNELS m)(name \<mapsto> c')\<rparr>) w' = Returned (m1, w1)"
      by (auto simp: bind_outcome_Returned split: option.splits)
    have "D \<subseteq> dom (MAP_OF_QUEUEING_CHANNELS (m\<lparr>MAP_OF_QUEUEING_CHANNELS := (MAP_OF_QUEUEING_CHANNELS m)(name \<mapsto> c')\<rparr>))" using Cons.prems(2) by auto
    from Cons.IH [OF rest this] show ?case by simp
  qed simp
  then show "MAP_OF_SAMPLING_CHANNELS m1 = MAP_OF_SAMPLING_CHANNELS m" "D \<subseteq> dom (MAP_OF_QUEUEING_CHANNELS m1)" by simp_all
qed

lemma move_samples_maps:
  assumes "move_samples net names m w = Returned (m1, w1)" "D \<subseteq> dom (MAP_OF_SAMPLING_CHANNELS m)"
  shows "MAP_OF_QUEUEING_CHANNELS m1 = MAP_OF_QUEUEING_CHANNELS m" "D \<subseteq> dom (MAP_OF_SAMPLING_CHANNELS m1)"
proof -
  have "MAP_OF_QUEUEING_CHANNELS m1 = MAP_OF_QUEUEING_CHANNELS m \<and> D \<subseteq> dom (MAP_OF_SAMPLING_CHANNELS m1)"
    using assms
  proof (induction names arbitrary: m w)
    case (Cons name names)
    then obtain c rc c' w' where "MAP_OF_SAMPLING_CHANNELS m name = Some c"
      and rest: "move_samples net names (m\<lparr>MAP_OF_SAMPLING_CHANNELS := (MAP_OF_SAMPLING_CHANNELS m)(name \<mapsto> c')\<rparr>) w' = Returned (m1, w1)"
      by (auto simp: bind_outcome_Returned split: option.splits)
    have "D \<subseteq> dom (MAP_OF_SAMPLING_CHANNELS (m\<lparr>MAP_OF_SAMPLING_CHANNELS := (MAP_OF_SAMPLING_CHANNELS m)(name \<mapsto> c')\<rparr>))" using Cons.prems(2) by auto
    from Cons.IH [OF rest this] show ?case by simp
  qed simp
  then show "MAP_OF_QUEUEING_CHANNELS m1 = MAP_OF_QUEUEING_CHANNELS m" "D \<subseteq> dom (MAP_OF_SAMPLING_CHANNELS m1)" by simp_all
qed

definition has_channels :: "NETWORK_PARTITION \<Rightarrow> MODULE_MANAGER \<Rightarrow> bool" where
  "has_channels np m \<longleftrightarrow> set (NP_QUEUEING_CHANNELS np) \<subseteq> dom (MAP_OF_QUEUEING_CHANNELS m) \<and>
     set (NP_SAMPLING_CHANNELS np) \<subseteq> dom (MAP_OF_SAMPLING_CHANNELS m)"

lemma fire_round_returns:
  assumes sys: "queue_system mq net contents sent Q" "inj_on Q_MQDES Q"
    and "sizes_ok contents Q w" "channels_ready Q m" "has_channels np m"
  shows "\<exists>m' w'. fire_round mq net now np m w = Returned (m', w') \<and>
    bind_outcome (move_queues mq net now (NP_QUEUEING_CHANNELS np) m w) (\<lambda>(m1, w1). move_samples net (NP_SAMPLING_CHANNELS np) m1 w1) = Returned (m', w') \<and>
    sizes_ok contents Q w' \<and> channels_ready Q m' \<and> has_channels np m'"
proof -
  have has: "set (NP_QUEUEING_CHANNELS np) \<subseteq> dom (MAP_OF_QUEUEING_CHANNELS m)" "set (NP_SAMPLING_CHANNELS np) \<subseteq> dom (MAP_OF_SAMPLING_CHANNELS m)"
    using assms(5) by (simp_all add: has_channels_def)
  obtain m' w' where move: "bind_outcome (move_queues mq net now (NP_QUEUEING_CHANNELS np) m w)
      (\<lambda>(m1, w1). move_samples net (NP_SAMPLING_CHANNELS np) m1 w1) = Returned (m', w')"
    and ok: "sizes_ok contents Q w'" "channels_ready Q m'"
    using all_moves [OF sys assms(3,4) has] by blast
  obtain m1 w1 where m1: "move_queues mq net now (NP_QUEUEING_CHANNELS np) m w = Returned (m1, w1)"
    "move_samples net (NP_SAMPLING_CHANNELS np) m1 w1 = Returned (m', w')"
    using move by (auto simp: bind_outcome_Returned)
  note dom = move_queues_maps [OF m1(1) has(1)] move_samples_maps [OF m1(2), of "set (NP_SAMPLING_CHANNELS np)"]
  have "fire_round mq net now np m w = Returned (m', w')"
    using m1 dom(1) has by (simp add: fire_round_def fire_queues_move fire_samples_move)
  moreover have "has_channels np m'" using has dom by (auto simp: has_channels_def)
  ultimately show ?thesis using move ok by blast
qed

text \<open>The rounds of the module manager itself, for a partition that is not a network partition.\<close>

fun move_rounds ::
  "'w mq_calls \<Rightarrow> 'w socket_calls \<Rightarrow> NETWORK_PARTITION \<Rightarrow> (nat \<Rightarrow> nat \<Rightarrow> nat \<Rightarrow> SYSTEM_TIMESPEC) list \<Rightarrow>
   MODULE_MANAGER \<Rightarrow> 'w \<Rightarrow> (MODULE_MANAGER \<times> 'w) outcome" where
  "move_rounds mq net np [] m w = Returned (m, w)"
| "move_rounds mq net np (now # nows) m w =
     bind_outcome (bind_outcome (move_queues mq net now (NP_QUEUEING_CHANNELS np) m w)
       (\<lambda>(m1, w1). move_samples net (NP_SAMPLING_CHANNELS np) m1 w1)) (\<lambda>(m1, w1). move_rounds mq net np nows m1 w1)"

text \<open>The buffer at each reception.\<close>

fun fired :: "byte list \<Rightarrow> reception list \<Rightarrow> (nat \<Rightarrow> nat \<Rightarrow> nat \<Rightarrow> SYSTEM_TIMESPEC) list" where
  "fired buf [] = []"
| "fired buf (r # rs) =
     (let buf1 = token_buffer buf (rx_message r) in (if is_token buf1 then [rx_clock r] else []) @ fired buf1 rs)"

theorem FireChannels_rounds:
  assumes sys: "queue_system mq net contents sent Q" "inj_on Q_MQDES Q"
    and "sizes_ok contents Q w" "channels_ready Q m" "has_channels np m"
  shows "\<exists>m' w'. FireChannels mq net np rs buf m w = Returned (m', w') \<and> move_rounds mq net np (fired buf rs) m w = Returned (m', w') \<and>
    sizes_ok contents Q w' \<and> channels_ready Q m' \<and> has_channels np m'"
  using assms(3-)
proof (induction rs arbitrary: buf m w)
  case (Cons r rs)
  show ?case
  proof (cases "is_token (token_buffer buf (rx_message r))")
    case True
    obtain m1 w1 where m1: "fire_round mq net (rx_clock r) np m w = Returned (m1, w1)"
      "bind_outcome (move_queues mq net (rx_clock r) (NP_QUEUEING_CHANNELS np) m w)
        (\<lambda>(m1, w1). move_samples net (NP_SAMPLING_CHANNELS np) m1 w1) = Returned (m1, w1)"
      "sizes_ok contents Q w1" "channels_ready Q m1" "has_channels np m1"
      using fire_round_returns [OF sys Cons.prems] by blast
    then show ?thesis using Cons.IH [OF m1(3-5), of "token_buffer buf (rx_message r)"] True by (simp add: Let_def)
  next
    case False
    then show ?thesis using Cons.IH [OF Cons.prems, of "token_buffer buf (rx_message r)"] by (simp add: Let_def)
  qed
qed simp

text \<open>A reception that is refused after a token has come fires the channels again.\<close>

lemma failed_receive_fires_again:
  assumes "is_token buf" "rx_message r = None"
  shows "fired buf (r # rs) = rx_clock r # fired buf rs"
  using assms by (simp add: token_buffer_def)

text \<open>What a module manager sends is a token.\<close>

lemma token_is_token: "is_token (token_buffer buf (Some NETWORK_PARTITION_PETRI_NET_TOKEN))"
  by (simp add: is_token_def token_buffer_def NETWORK_PARTITION_PETRI_NET_TOKEN_def)

end
