(* ===== verification/Spec2Isabelle.thy ===== *)
theory Spec2Isabelle
  imports SchedulingTheorems ProcessTheorems CommunicationTheorems PrimitiveTheorems ModuleTheorems ConfigTheorems SyncTheorems StateMachineTheorems
    EventPortTheorems PartitionTheorems HelperTheorems StartTheorems LogTheorems TimerTheorems NetworkPartition
begin

text \<open>
  A verification development of the ARINC-653 emulator in src/ACM-src: the APEX interface
  (partitions, processes, communication inside and between partitions, time and health management)
  on top of Linux threads, as the C++ code implements it.

  \<^bold>\<open>The program.\<close>  A module is a set of partitions, each an operating-system process started by the module
  manager in its windows of a hyperperiod.  A partition is the singleton of class APEX: vectors of
  processes, semaphores, events, buffers, blackboards and ports, to which the services refer by index, and a
  scheduler thread that releases the processes and checks their deadlines.  A process is a thread that runs
  a user function in turns.  Services block on condition variables, through semaphores and events.

  \<^bold>\<open>The theories\<close> (source files under src/ACM-src; include/ is include/ACM/INTERNAL/ or include/ACM/USER/).

  \<^item> Prelude: return codes, modes and limits of APEX\_TYPES.h, the outcome of a call, C memory operations, searching a vector.
  \<^item> AcmTime: the arithmetic on timespecs of ACM\_UTILITIES.h.
  \<^item> CondVar, Semaphore, RwLock: the classes of ACM\_THREAD\_SUPPORT.h and .cc.  RwLock has a step relation for any number of threads.
  \<^item> Event, Fifo, Buffer, BufferThreads: the objects of EVENT.cc and BUFFER.cc; Fifo is the interface (a locale) of a bounded queue,
    interpreted on the ring of slots; BufferThreads is a step relation for any number of senders and receivers.
  \<^item> SamplingPort, QueuePort: SAMPLING\_PORT.cc and QUEUE\_PORT.cc.
  \<^item> ApexState: the partition, its process descriptors and processes (APEX.h, PROCESS.h, ACM\_HM\_TYPES.h), the singleton.
  \<^item> EventServices, SemaphoreServices, BlackboardServices, BufferServices, ProcessServices, TimeServices, HealthManager: the
    files APEX\_*\_SERVICES.cc with BLACKBOARD.cc and PROCESS.cc, one definition per service.
  \<^item> ProcessRun: a turn of a process thread, \<open>PROCESS::run\<close>.
  \<^item> StdSort, Scheduler, SchedulerProperties: sorting of the scheduling vector (the contract of the sort is a locale, interpreted
    on the insertion sort of libstdc++) and \<open>RunPartitionScheduler\<close> of APEX\_SCHEDULING.cc.
  \<^item> PortServices: APEX\_SAMPLING\_SERVICES.cc and APEX\_QUEUING\_SERVICES.cc, with a step relation for histories of port services.
  \<^item> Sockets, SamplingChannel, QueueChannel: the datagram calls the module uses, and SAMPLING\_CHANNEL.cc and QUEUE\_CHANNEL.cc.
  \<^item> ModuleManager: the descriptors of ModuleManager.h, the check of the schedule, a window of a partition, the loop over
    hyperperiods of ModuleScheduler.cc and the shutdown; what it does to the processes is a list of events.
    ModuleProperties: these events as functions of the configuration, isolation and time order.  ModuleRuns: the run returns.
  \<^item> ConfigFile, ConfigKeys, ModuleConfig, ModuleChannels: the property file and its keys, and what ModuleInitialization.cc and
    MultiModuleRelatedConfig.cc build from it: proxy ports, channel descriptors, partitions with ports and windows, network
    partitions, the channels and the relatives of the module.  A constructor that throws is \<open>throw\<close> with the code thrown.
    ConfigProperties: the invariant \<open>config_ok\<close> through all steps of the constructor of the module manager.
  \<^item> ModuleSync, NetworkLatency: the datagrams, the barrier between module managers, the start of a hyperperiod and the latency measurement of
    MultiModuleRelatedConfig.cc, and the runs of ModuleScheduler.cc under a system module manager; a loop over receptions has their number as
    fuel.  SyncProperties: when the wait for the children ends, and a step relation of one barrier in which datagrams are delayed,
    lost and repeated.  SyncRuns: the events of the two runs.
  \<^item> StateMachine: the hierarchical state machines of StateMachine.cpp: the objects that a machine is built from are a store with
    indices for pointers; evaluation, exit, time-outs, entry with history and the step loop, on a data source that is a parameter.
    The recursions over the hierarchy have its depth as fuel (the number of states is enough), the loop of a step its rounds.
    StateMachineProperties: the hierarchy is a tree, the operations change current states only and end.  StateMachineRuns: the
    active states (\<open>config\<close>) and what exits and entries do to them.  StateMachineBuild: the typing of machines, kept by everything
    that builds them.  StateMachineSteps: a step, paths and entry points, history.
  \<^item> EventPort, EventPortProperties: class ACM\_EVENT\_PORT of EVENT\_PORT.h and EVENT\_PORT.cc, a port over one of the four mechanisms of a
    partition with sockets to other modules, and what its operations do over each mechanism.
  \<^item> PartitionModes: the life of the partition object: modes, status, TERMINATE and CLEAR\_VECTORS of APEX.cc, InitPartitionScheduler and
    the signal handlers of APEX\_SCHEDULING.cc.  The singleton is absent, there, or deleted with the pointer kept; a use of a
    deleted partition is \<open>Undef\<close>.
  \<^item> ApexHelpers: the helpers of APEX\_INTERFACE\_IMPL.cc that name a process or an event, and the way of a response to who started the process.
  \<^item> ModuleStart: RUN\_MODULE\_MANAGER, the start of the partitions with their handshakes (ModulePartitionCreation.cc), the shutdown before
    the partitions run and the signal handlers of the module manager; fork, kill and waitpid are inputs and events.
  \<^item> NetworkPartition: the process of a network partition (NetworkPartition.cc): which channels it takes and the loop that moves them
    at each token of the module manager; as many rounds of the moves of theory ModuleManager.
  \<^item> Logger: ACM\_LOGGER.cc: the lines, the ring they are kept in, the file and the reporter.
  \<^item> Timer: ACM\_TIMER.cc: the thread of a timer and its clients as a system of actions, finer than the critical sections: SET\_EVENT
    broadcasts without the mutex of the event, so the places before the condition variable count.
  \<^item> Demo: a small partition with a health manager, on which the properties are applied.
  \<^item> SchedulingTheorems, ProcessTheorems, CommunicationTheorems, PrimitiveTheorems, ModuleTheorems, ConfigTheorems, SyncTheorems,
    StateMachineTheorems, EventPortTheorems, PartitionTheorems, HelperTheorems, StartTheorems, LogTheorems, TimerTheorems: the properties, numbered C1, C2, ...

  \<^bold>\<open>How code becomes definitions.\<close>  A service is a function of its arguments, of what it reads from the outside and of the
  state, with the name of the code.  Its result is an outcome: \<open>Returned\<close> with the return code, the values stored through
  pointers and the new state; \<open>Blocked\<close> when it still waits when the given wake-ups are used up; \<open>Aborted\<close> when an assertion
  fails; \<open>Undef\<close> when the behaviour of C++ is undefined (an access outside a block or a vector).  Inputs are explicit:
  readings of the clock, the memory that an allocation returns, the thread that pthread\_create makes, the layout of structures
  copied as bytes (with its laws as the hypothesis \<open>layout_laws\<close>), the answers of POSIX message queues (\<open>mq_laws\<close>), and what other
  threads do while a thread waits: a wait takes a list of wake-ups, each with the change the others made to the state.  So
  theorems hold for every behaviour of the environment their hypotheses allow.  A loop that may run for ever recurs over this list;
  the list is the fuel, and a theorem that a call returns says which wake-ups suffice.  Critical sections under a mutex are
  atomic.  The types of 64 bits are integers with theorems on the absence of overflow; counters that wrap are words.

  \<^bold>\<open>What the lemmas show.\<close>  The invariants \<open>procs_inv\<close>, \<open>boards_inv\<close>, \<open>buffers_inv\<close>, \<open>sems_inv\<close>, \<open>hm_inv\<close>, \<open>sampling_inv\<close> and
  \<open>names_distinct\<close> say that the tables of a partition are consistent, and every service keeps them.  The
  properties build on them: the scheduler releases what is due and keeps its table without drift (C1 to C3), locks exclude and
  buffers and ports are bounded queues under every interleaving, missed deadlines and errors reach the process, the health
  manager and whoever asks for the response, the module manager starts its partitions and runs one at a time in the windows of its schedule and its channels
  deliver what the source ports hold, a configuration that is accepted is consistent and runs, no module passes a barrier before all
  have reached it and children run whole schedules on the order of their parent, state machines stay well formed, end their steps and reach the
  targets of their transitions, an event port delivers a message with the time it was written to the other end, in the same
  partition or through sockets in another module, requests for a partition mode follow a table, processes start, wait, stop and end as the services promise,
  the log keeps the last lines, and a timer passes every time once, in order and not early.
  Some theorems show what the code does where it should not: an assertion that a negative time-out fails, a
  message that overflows its slot, a wait that never ends, a line that overflows its buffer, a broadcast that wakes nobody, a shutdown that
  stops the module manager itself.

  \<^bold>\<open>Not modelled.\<close>  Printing and what log lines say (the services leave out their calls of LOGGER); the build variants OPTIMAL, USE\_MICO and USE\_CIAO; operating-system calls on
  processes, scheduling policies and sockets (SET\_FIFO\_POLICY, SET\_PARTITION\_PRIORITY; class UDPSocket and the result of fork are
  parameters); what the build ISNETWORK\_PARTITION changes in the reading of the configuration; the macros of ACM\_COMPONENT.h; destructors of channels and ports; the functions of
  APEX\_INTERFACE\_IMPL.cc that only forward to class APEX; QUEUE\_PORT-ACM-17.cc, which is not built; demonstrations and tests.
\<close>

end
